(* ===== verification/PM_Prelude.thy ===== *)
theory PM_Prelude
  imports Complex_Main "HOL-Library.AList" "HOL-Library.List_Lexorder" "HOL-Library.Char_ord"
    "HOL-Library.Product_Lexorder" "HOL-Library.Multiset"
begin

text \<open>
  Shared vocabulary of the development: the exception hierarchy of
  \<^verbatim>\<open>core/platform/common/exceptions.py\<close> as a datatype, results as sums (\<open>Inl\<close> an
  exception, \<open>Inr\<close> a value), the string operations the code uses for normalisation,
  Python dictionaries as association lists in insertion order, and \<^verbatim>\<open>datetime.date\<close>
  values as their proleptic ordinals.
\<close>

section \<open>Errors and results\<close>

text \<open>
  Every \<open>DomainError\<close> carries a \<open>code\<close>; when the raise statement gives none, the class
  name is the code. Messages are not modelled. The last four constructors are exceptions of
  the language, its standard library and SQLAlchemy that the modelled code can run into.
\<close>

datatype error =
    ValidationError string
  | NotFoundError string
  | BusinessRuleError string
  | ConcurrencyError string
  | OverflowError
  | KeyError
  | ValueError
  | IntegrityError string

type_synonym 'a result = "error + 'a"

abbreviation ValidationErr :: error where
  "ValidationErr \<equiv> ValidationError ''ValidationError''"

abbreviation NotFoundErr :: error where
  "NotFoundErr \<equiv> NotFoundError ''NotFoundError''"

abbreviation BusinessRuleErr :: error where
  "BusinessRuleErr \<equiv> BusinessRuleError ''BusinessRuleError''"

fun rbind :: "'a result \<Rightarrow> ('a \<Rightarrow> 'b result) \<Rightarrow> 'b result" where
  "rbind (Inl e) f = Inl e"
| "rbind (Inr x) f = f x"

text \<open>An \<open>IntegrityError\<close> carries the table whose constraint failed.\<close>

fun on_integrity :: "(string \<Rightarrow> error) \<Rightarrow> error \<Rightarrow> error" where
  "on_integrity h (IntegrityError table) = h table"
| "on_integrity h err = err"

text \<open>A statement that only checks: \<open>if bad: raise err\<close>.\<close>

definition raise_if :: "bool \<Rightarrow> error \<Rightarrow> unit result" where
  "raise_if bad err = (if bad then Inl err else Inr ())"

lemma rbind_Inr_iff [simp]: "rbind m f = Inr y \<longleftrightarrow> (\<exists>x. m = Inr x \<and> f x = Inr y)"
  by (cases m) auto

lemma Inr_rbind_iff [simp]: "Inr y = rbind m f \<longleftrightarrow> (\<exists>x. m = Inr x \<and> f x = Inr y)"
  by (cases m) auto

lemma rbind_Inl_iff: "rbind m f = Inl e \<longleftrightarrow> m = Inl e \<or> (\<exists>x. m = Inr x \<and> f x = Inl e)"
  by (cases m) auto

lemma rbind_cong [fundef_cong]:
  "m = m' \<Longrightarrow> (\<And>x. m' = Inr x \<Longrightarrow> f x = g x) \<Longrightarrow> rbind m f = rbind m' g"
  by (cases m') auto

lemma rbind_assoc: "rbind (rbind m f) g = rbind m (\<lambda>x. rbind (f x) g)"
  by (cases m) auto

lemma raise_if_Inr [simp]: "raise_if bad err = Inr u \<longleftrightarrow> \<not> bad"
  by (simp add: raise_if_def)

lemma raise_if_Inl [simp]: "raise_if bad err = Inl e \<longleftrightarrow> bad \<and> e = err"
  by (auto simp: raise_if_def)

lemma raise_if_eval [simp]: "raise_if False err = Inr ()" "raise_if True err = Inl err"
  by (simp_all add: raise_if_def)

text \<open>A loop that appends the value computed for each element, in order.\<close>

fun rmap :: "('a \<Rightarrow> 'b result) \<Rightarrow> 'a list \<Rightarrow> 'b list result" where
  "rmap f [] = Inr []"
| "rmap f (x # xs) = rbind (f x) (\<lambda>y. rbind (rmap f xs) (\<lambda>ys. Inr (y # ys)))"

lemma rmap_Inr_set:
  "rmap f xs = Inr ys \<Longrightarrow> set ys = {y. \<exists>x \<in> set xs. f x = Inr y}"
  by (induction xs arbitrary: ys) auto

lemma rmap_Inr_map:
  "rmap f xs = Inr ys \<Longrightarrow> map Inr ys = map f xs"
  by (induction xs arbitrary: ys) auto

lemma rmap_Inr_mem: "rmap f xs = Inr ys \<Longrightarrow> x \<in> set xs \<Longrightarrow> \<exists>y \<in> set ys. f x = Inr y"
  by (induction xs arbitrary: ys) auto

lemma rmap_cong [fundef_cong]:
  "xs = ys \<Longrightarrow> (\<And>x. x \<in> set ys \<Longrightarrow> f x = g x) \<Longrightarrow> rmap f xs = rmap g ys"
  by (induction ys arbitrary: xs) (auto intro: rbind_cong)

text \<open>A loop that threads a state through the elements and stops at the first exception.\<close>

fun rfold :: "('a \<Rightarrow> 's \<Rightarrow> 's result) \<Rightarrow> 'a list \<Rightarrow> 's \<Rightarrow> 's result" where
  "rfold f [] s = Inr s"
| "rfold f (x # xs) s = rbind (f x s) (rfold f xs)"

lemma rfold_append: "rfold f (xs @ ys) s = rbind (rfold f xs s) (rfold f ys)"
proof (induction xs arbitrary: s)
  case (Cons x xs)
  then show ?case by (cases "f x s") auto
qed simp

lemma rfold_invariant:
  assumes "rfold f xs s = Inr t" and "P s"
    and "\<And>x s t. x \<in> set xs \<Longrightarrow> P s \<Longrightarrow> f x s = Inr t \<Longrightarrow> P t"
  shows "P t"
  using assms
proof (induction xs arbitrary: s)
  case (Cons x xs)
  from Cons.prems(1) obtain u where u: "f x s = Inr u" "rfold f xs u = Inr t" by auto
  have "P u" using Cons.prems(2) u(1) by (auto intro: Cons.prems(3) [of x])
  from u(2) this show ?case
    by (rule Cons.IH) (metis Cons.prems(3) list.set_intros(2))
qed simp

section \<open>Strings\<close>

text \<open>
  Python's \<open>str.strip\<close>, \<open>lower\<close> and \<open>upper\<close> on ASCII text (the code points 9 to 13 and
  28 to 32 are the ASCII characters that \<open>str.isspace\<close> accepts). Case mapping outside
  ASCII is not modelled.
\<close>

definition py_isspace :: "char \<Rightarrow> bool" where
  "py_isspace c = (let n = (of_char c :: nat) in (9 \<le> n \<and> n \<le> 13) \<or> (28 \<le> n \<and> n \<le> 32))"

definition py_strip :: "string \<Rightarrow> string" where
  "py_strip s = rev (dropWhile py_isspace (rev (dropWhile py_isspace s)))"

definition py_lower_char :: "char \<Rightarrow> char" where
  "py_lower_char c =
     (let n = (of_char c :: nat) in if 65 \<le> n \<and> n \<le> 90 then char_of (n + 32) else c)"

definition py_upper_char :: "char \<Rightarrow> char" where
  "py_upper_char c =
     (let n = (of_char c :: nat) in if 97 \<le> n \<and> n \<le> 122 then char_of (n - 32) else c)"

definition py_lower :: "string \<Rightarrow> string" where
  "py_lower s = map py_lower_char s"

definition py_upper :: "string \<Rightarrow> string" where
  "py_upper s = map py_upper_char s"

lemma py_strip_Nil [simp]: "py_strip [] = []"
  by (simp add: py_strip_def)

lemma dropWhile_idem: "dropWhile P (dropWhile P xs) = dropWhile P xs"
  by (induction xs) auto

lemma dropWhile_rev_dropWhile:
  "dropWhile P (rev (dropWhile P (rev (dropWhile P xs)))) = rev (dropWhile P (rev (dropWhile P xs)))"
proof (cases "rev (dropWhile P (rev (dropWhile P xs)))")
  case Nil
  then show ?thesis by (metis Nil_is_rev_conv dropWhile.simps(1) rev.simps(1))
next
  case (Cons y ys)
  let ?zs = "dropWhile P xs"
  have ne: "?zs \<noteq> []"
    using Cons by (metis dropWhile.simps(1) list.discI rev.simps(1))
  have "?zs = rev (dropWhile P (rev ?zs)) @ rev (takeWhile P (rev ?zs))"
    by (metis rev_append rev_rev_ident takeWhile_dropWhile_id)
  then have "hd ?zs = y"
    using Cons by (metis append_Cons list.sel(1))
  moreover have "\<not> P (hd ?zs)"
    using ne by (rule hd_dropWhile)
  ultimately show ?thesis
    using Cons by simp
qed

lemma py_strip_idem [simp]: "py_strip (py_strip s) = py_strip s"
  unfolding py_strip_def
  by (simp add: dropWhile_rev_dropWhile dropWhile_idem)

section \<open>Dates\<close>

text \<open>
  A \<^verbatim>\<open>datetime.date\<close> is its ordinal: \<open>date.min\<close> is 1, \<open>date.max\<close> (31 December
  9999) is 3652059. Adding a \<open>timedelta\<close> outside this range raises \<open>OverflowError\<close>.
  Day 1 is a Monday, so \<open>weekday()\<close> is \<open>(ordinal + 6) mod 7\<close>.
\<close>

type_synonym date = int

definition DATE_MIN :: date where
  "DATE_MIN = 1"

definition DATE_MAX :: date where
  "DATE_MAX = 3652059"

definition valid_date :: "date \<Rightarrow> bool" where
  "valid_date d \<longleftrightarrow> DATE_MIN \<le> d \<and> d \<le> DATE_MAX"

definition weekday :: "date \<Rightarrow> int" where
  "weekday d = (d + 6) mod 7"

definition date_add :: "date \<Rightarrow> int \<Rightarrow> date result" where
  "date_add d n = (if DATE_MIN \<le> d + n \<and> d + n \<le> DATE_MAX then Inr (d + n) else Inl OverflowError)"

lemma weekday_range: "0 \<le> weekday d \<and> weekday d < 7"
  by (simp add: weekday_def)

text \<open>A \<^verbatim>\<open>datetime\<close> in UTC, in microseconds.\<close>

type_synonym datetime = int

section \<open>Dictionaries\<close>

text \<open>
  A Python \<open>dict\<close> keeps insertion order and an assignment to a present key keeps its place;
  \<^const>\<open>AList.update\<close> does the same on association lists. \<open>dict_of\<close> is the
  comprehension \<open>{key(x): x for x in xs}\<close>, and \<open>dict_append\<close> is
  \<open>d.setdefault(k, []).append(v)\<close>.
\<close>

type_synonym ('k, 'v) dict = "('k \<times> 'v) list"

definition dict_of :: "('a \<Rightarrow> 'k) \<Rightarrow> 'a list \<Rightarrow> ('k, 'a) dict" where
  "dict_of key xs = fold (\<lambda>x. AList.update (key x) x) xs []"

definition dict_append :: "'k \<Rightarrow> 'v \<Rightarrow> ('k, 'v list) dict \<Rightarrow> ('k, 'v list) dict" where
  "dict_append k v d = AList.map_default k [v] (\<lambda>vs. vs @ [v]) d"

definition dict_get_list :: "('k, 'v list) dict \<Rightarrow> 'k \<Rightarrow> 'v list" where
  "dict_get_list d k = (case map_of d k of None \<Rightarrow> [] | Some vs \<Rightarrow> vs)"

definition group_by_key :: "('v \<Rightarrow> 'k) \<Rightarrow> 'v list \<Rightarrow> ('k, 'v list) dict" where
  "group_by_key key xs = fold (\<lambda>x. dict_append (key x) x) xs []"

lemma map_of_dict_append:
  "map_of (dict_append k v d) =
     (map_of d)(k \<mapsto> (case map_of d k of None \<Rightarrow> [v] | Some vs \<Rightarrow> vs @ [v]))"
  unfolding dict_append_def by (simp add: AList.map_of_map_default) (auto split: option.splits)

lemma dict_get_list_append:
  "dict_get_list (dict_append k v d) k' = dict_get_list d k' @ (if k' = k then [v] else [])"
  by (auto simp: dict_get_list_def map_of_dict_append split: option.splits)

lemma dict_get_list_group_fold:
  "dict_get_list (fold (\<lambda>x. dict_append (key x) x) xs d) k =
     dict_get_list d k @ filter (\<lambda>x. key x = k) xs"
  by (induction xs arbitrary: d) (auto simp: dict_get_list_append)

lemma dict_get_list_group [simp]:
  "dict_get_list (group_by_key key xs) k = filter (\<lambda>x. key x = k) xs"
  by (simp add: group_by_key_def dict_get_list_group_fold) (simp add: dict_get_list_def)

lemma dom_group_fold:
  "dom (map_of (fold (\<lambda>x. dict_append (key x) x) xs d)) = dom (map_of d) \<union> key ` set xs"
  by (induction xs arbitrary: d) (auto simp: map_of_dict_append)

lemma dom_group_by_key: "dom (map_of (group_by_key key xs)) = key ` set xs"
  by (simp add: group_by_key_def dom_group_fold)

lemma update_new_key: "k \<notin> fst ` set d \<Longrightarrow> AList.update k v d = d @ [(k, v)]"
  by (induction d) auto

lemma dict_of_distinct:
  assumes "distinct (map key xs)"
  shows "dict_of key xs = map (\<lambda>x. (key x, x)) xs"
proof -
  have "fold (\<lambda>x. AList.update (key x) x) xs d = d @ map (\<lambda>x. (key x, x)) xs"
    if "distinct (map key xs)" "\<forall>x \<in> set xs. key x \<notin> fst ` set d" for d
    using that
  proof (induction xs arbitrary: d)
    case (Cons x xs)
    have "AList.update (key x) x d = d @ [(key x, x)]"
      using Cons.prems(2) by (intro update_new_key) auto
    moreover have "\<forall>y \<in> set xs. key y \<notin> fst ` set (d @ [(key x, x)])"
      using Cons.prems by (force simp: image_iff)
    ultimately show ?case
      using Cons.IH [of "d @ [(key x, x)]"] Cons.prems by simp
  qed simp
  from this [OF assms, of "[]"] show ?thesis by (simp add: dict_of_def)
qed

end
