(* ===== verification/Work_Calendar.thy ===== *)
theory Work_Calendar
  imports PM_Prelude
begin

text \<open>
  The working calendar of the project-management module: the calendar data
  (\<^verbatim>\<open>domain/calendar.py\<close>), the read-only engine with its working-day arithmetic
  (\<^verbatim>\<open>services/work_calendar/engine.py\<close>), the interface its clients rely on, and the
  interpretation of that interface on the engine.
\<close>

section \<open>Data\<close>

record working_calendar =
  cal_id :: string
  cal_name :: string
  working_days :: "int set"
  hours_per_day :: rat

record holiday =
  hol_id :: string
  hol_calendar_id :: string
  hol_date :: date
  hol_name :: string

definition create_default :: working_calendar where
  "create_default =
     \<lparr>cal_id = ''default'', cal_name = ''Default'', working_days = {0, 1, 2, 3, 4},
      hours_per_day = 8\<rparr>"

text \<open>
  The rows the calendar repository reads, and the engine: the repository with the id of the
  calendar it serves.
\<close>

record calendar_engine =
  ce_calendars :: "string \<rightharpoonup> working_calendar"
  ce_holidays :: "holiday list"
  ce_calendar_id :: string

definition list_holidays :: "calendar_engine \<Rightarrow> string \<Rightarrow> holiday list" where
  "list_holidays e cid = filter (\<lambda>h. hol_calendar_id h = cid) (ce_holidays e)"

definition get_calendar :: "calendar_engine \<Rightarrow> working_calendar" where
  "get_calendar e = (case ce_calendars e (ce_calendar_id e) of None \<Rightarrow> create_default | Some c \<Rightarrow> c)"

definition is_working_day :: "calendar_engine \<Rightarrow> date \<Rightarrow> bool" where
  "is_working_day e d =
     (let cal = get_calendar e in
      if weekday d \<notin> working_days cal then False
      else (let holidays = (if cal_id cal \<noteq> [] then list_holidays e (cal_id cal) else [])
            in list_all (\<lambda>h. hol_date h \<noteq> d) holidays))"

section \<open>The loops\<close>

text \<open>
  Each loop of the engine moves one day per turn; a move past \<open>date.max\<close> or before
  \<open>date.min\<close> raises \<open>OverflowError\<close>, which is also why every loop ends, even for a
  calendar without working days.
\<close>

function next_from :: "calendar_engine \<Rightarrow> date \<Rightarrow> date result" where
  "next_from e current =
     (if is_working_day e current then Inr current
      else if current \<ge> DATE_MAX then Inl OverflowError
      else next_from e (current + 1))"
  by pat_completeness auto
termination
  by (relation "measure (\<lambda>(e, current). nat (DATE_MAX - current))") auto

declare next_from.simps [simp del]

definition next_working_day :: "calendar_engine \<Rightarrow> date \<Rightarrow> bool \<Rightarrow> date result" where
  "next_working_day e d include_today =
     (if include_today then next_from e d
      else if d \<ge> DATE_MAX then Inl OverflowError
      else next_from e (d + 1))"

function forward_days :: "calendar_engine \<Rightarrow> date \<Rightarrow> int \<Rightarrow> date result" where
  "forward_days e current days_remaining =
     (if days_remaining \<le> 0 then Inr current
      else if current \<ge> DATE_MAX then Inl OverflowError
      else forward_days e (current + 1)
             (if is_working_day e (current + 1) then days_remaining - 1 else days_remaining))"
  by pat_completeness auto
termination
  by (relation "measure (\<lambda>(e, current, n). nat (DATE_MAX - current))") auto

declare forward_days.simps [simp del]

function backward_days :: "calendar_engine \<Rightarrow> date \<Rightarrow> int \<Rightarrow> date result" where
  "backward_days e current days_remaining =
     (if days_remaining \<le> 0 then Inr current
      else if current \<le> DATE_MIN then Inl OverflowError
      else backward_days e (current - 1)
             (if is_working_day e (current - 1) then days_remaining - 1 else days_remaining))"
  by pat_completeness auto
termination
  by (relation "measure (\<lambda>(e, current, n). nat (current - DATE_MIN))") auto

declare backward_days.simps [simp del]

definition add_working_days :: "calendar_engine \<Rightarrow> date \<Rightarrow> int \<Rightarrow> date result" where
  "add_working_days e start n =
     (if n = 0 then Inr start
      else if n > 0 then
        rbind (next_working_day e start True) (\<lambda>current. forward_days e current (n - 1))
      else
        rbind (next_working_day e start True) (\<lambda>current. backward_days e current (- n)))"

function count_days :: "calendar_engine \<Rightarrow> date \<Rightarrow> date \<Rightarrow> int \<Rightarrow> int result" where
  "count_days e current last_day cnt =
     (if current > last_day then Inr cnt
      else if current \<ge> DATE_MAX then Inl OverflowError
      else count_days e (current + 1) last_day
             (if is_working_day e current then cnt + 1 else cnt))"
  by pat_completeness auto
termination
  by (relation "measure (\<lambda>(e, current, last_day, n). nat (DATE_MAX - current))") auto

declare count_days.simps [simp del]

definition working_days_between :: "calendar_engine \<Rightarrow> date \<Rightarrow> date \<Rightarrow> int result" where
  "working_days_between e start last_day =
     (if last_day < start then Inr 0 else count_days e start last_day 0)"


section \<open>The interface of the calendar\<close>

text \<open>
  What a client of the calendar relies on: \<open>add s n\<close> for \<open>n > 0\<close> is the working day on
  which the \<open>n\<close>-th working day counted from \<open>s\<close> (inclusive) falls, \<open>add s 0\<close> is \<open>s\<close>, and
  for \<open>n < 0\<close> it lies \<open>-n\<close> working days before the first working day at or after \<open>s\<close>.
\<close>

definition wd_between :: "(date \<Rightarrow> bool) \<Rightarrow> date \<Rightarrow> date \<Rightarrow> int" where
  "wd_between wd a b = int (card {d \<in> {a..b}. wd d})"

definition first_wd :: "(date \<Rightarrow> bool) \<Rightarrow> date \<Rightarrow> date \<Rightarrow> bool" where
  "first_wd wd s b \<longleftrightarrow> s \<le> b \<and> wd b \<and> (\<forall>x \<in> {s..<b}. \<not> wd x)"

lemma finite_working [simp]: "finite {d. a \<le> (d::date) \<and> d \<le> b \<and> wd d}"
  by (rule finite_subset [of _ "{a..b}"]) auto

lemma wd_between_nonneg [simp]: "0 \<le> wd_between wd a b"
  by (simp add: wd_between_def)

lemma wd_between_empty [simp]: "b < a \<Longrightarrow> wd_between wd a b = 0"
  by (simp add: wd_between_def)

lemma wd_between_split:
  assumes "a \<le> m + 1" "m \<le> b"
  shows "wd_between wd a b = wd_between wd a m + wd_between wd (m + 1) b"
proof -
  have "{d \<in> {a..b}. wd d} = {d \<in> {a..m}. wd d} \<union> {d \<in> {m + 1..b}. wd d}"
    using assms by auto
  moreover have "card \<dots> = card {d \<in> {a..m}. wd d} + card {d \<in> {m + 1..b}. wd d}"
    by (rule card_Un_disjoint) auto
  ultimately show ?thesis by (simp add: wd_between_def)
qed

lemma wd_between_single [simp]: "wd_between wd a a = (if wd a then 1 else 0)"
proof -
  have "{d \<in> {a..a}. wd d} = (if wd a then {a} else {})" by auto
  then show ?thesis by (simp add: wd_between_def)
qed

lemma wd_between_last: "a \<le> b \<Longrightarrow> wd_between wd a b = wd_between wd a (b - 1) + (if wd b then 1 else 0)"
  using wd_between_split [of a "b - 1" b wd] by simp

lemma wd_between_first: "a \<le> b \<Longrightarrow> wd_between wd a b = (if wd a then 1 else 0) + wd_between wd (a + 1) b"
  using wd_between_split [of a a b wd] by simp

lemma wd_between_mono: "a' \<le> a \<Longrightarrow> b \<le> b' \<Longrightarrow> wd_between wd a b \<le> wd_between wd a' b'"
  unfolding wd_between_def by (simp, rule card_mono) auto

lemma wd_between_0_iff: "wd_between wd a b = 0 \<longleftrightarrow> (\<forall>x \<in> {a..b}. \<not> wd x)"
proof -
  have "finite {d \<in> {a..b}. wd d}" by simp
  then show ?thesis by (auto simp: wd_between_def)
qed

lemma first_wd_unique: "first_wd wd s b \<Longrightarrow> first_wd wd s b' \<Longrightarrow> b = b'"
  unfolding first_wd_def by (metis atLeastLessThan_iff linorder_neqE_linordered_idom)

lemma first_wd_self: "wd s \<Longrightarrow> first_wd wd s b \<longleftrightarrow> b = s"
  by (auto simp: first_wd_def)

lemma first_wd_exists:
  assumes "wd r" "s \<le> r"
  shows "\<exists>b. first_wd wd s b \<and> b \<le> r"
proof -
  define b where "b = Min {d. s \<le> d \<and> d \<le> r \<and> wd d}"
  have ne: "{d. s \<le> d \<and> d \<le> r \<and> wd d} \<noteq> {}"
    using assms by auto
  have b: "s \<le> b" "b \<le> r" "wd b"
    using Min_in [OF finite_working ne] by (simp_all add: b_def)
  have "b \<le> x" if "s \<le> x" "x < b" "wd x" for x
    unfolding b_def by (rule Min_le) (use that b in auto)
  then show ?thesis
    using b by (force simp: first_wd_def)
qed

lemma wd_between_first_wd:
  assumes "first_wd wd s b" "b \<le> r"
  shows "wd_between wd s r = wd_between wd b r"
proof -
  have "wd_between wd s (b - 1) = 0"
    using assms(1) by (auto simp: wd_between_0_iff first_wd_def)
  then show ?thesis
    using wd_between_split [of s "b - 1" r wd] assms by (simp add: first_wd_def)
qed

text \<open>A working day is determined by how many working days lie between it and a fixed day.\<close>

lemma wd_between_inj_right:
  assumes "wd r" "wd r'" "s \<le> r" "s \<le> r'" "wd_between wd s r = wd_between wd s r'"
  shows "r = r'"
proof -
  have "False" if "x < y" "wd y" "s \<le> x" "wd_between wd s x = wd_between wd s y" for x y
    using that wd_between_last [of s y wd] wd_between_mono [of s s x "y - 1" wd] by simp
  then show ?thesis
    using assms by (metis linorder_neqE_linordered_idom)
qed

lemma wd_between_inj_left:
  assumes "wd r" "wd r'" "r \<le> t" "r' \<le> t" "wd_between wd r t = wd_between wd r' t"
  shows "r = r'"
proof -
  have "False" if "x < y" "wd x" "y \<le> t" "wd_between wd x t = wd_between wd y t" for x y
    using that wd_between_first [of x t wd] wd_between_mono [of "x + 1" y t t wd] by simp
  then show ?thesis
    using assms by (metis linorder_neqE_linordered_idom)
qed

locale working_day_arithmetic =
  fixes wd :: "date \<Rightarrow> bool"
    and add :: "date \<Rightarrow> int \<Rightarrow> date result"
  assumes add_zero: "add s 0 = Inr s"
    and add_pos_iff: "0 < n \<Longrightarrow> s \<le> DATE_MAX \<Longrightarrow>
      add s n = Inr r \<longleftrightarrow> s \<le> r \<and> r \<le> DATE_MAX \<and> wd r \<and> wd_between wd s r = n"
    and add_neg_iff: "n < 0 \<Longrightarrow> valid_date s \<Longrightarrow>
      add s n = Inr r \<longleftrightarrow>
        (\<exists>b. first_wd wd s b \<and> b \<le> DATE_MAX \<and> DATE_MIN \<le> r \<and> r \<le> b \<and> wd r \<and>
             wd_between wd r b = 1 - n)"
begin

lemma add_one_working_day: "wd s \<Longrightarrow> s \<le> DATE_MAX \<Longrightarrow> add s 1 = Inr s"
  by (simp add: add_pos_iff)

lemma add_pos_not_before: "0 \<le> n \<Longrightarrow> s \<le> DATE_MAX \<Longrightarrow> add s n = Inr r \<Longrightarrow> s \<le> r"
  by (cases "n = 0") (auto simp: add_zero add_pos_iff)

lemma add_valid:
  assumes "valid_date s" "add s n = Inr r"
  shows "valid_date r"
proof (cases "n = 0 \<or> 0 < n")
  case True
  then show ?thesis using assms by (auto simp: add_zero add_pos_iff valid_date_def)
next
  case False
  then show ?thesis using assms add_neg_iff [of n s r] by (auto simp: valid_date_def)
qed

lemma add_working: "n \<noteq> 0 \<Longrightarrow> valid_date s \<Longrightarrow> add s n = Inr r \<Longrightarrow> wd r"
  by (cases "0 < n") (auto simp: add_pos_iff add_neg_iff valid_date_def)

text \<open>A span of \<open>n\<close> working days that starts on a working day can be walked back.\<close>

lemma duration_round_trip:
  assumes "wd s" "valid_date s" "0 < n" "add s n = Inr r"
  shows "add r (- (n - 1)) = Inr s"
proof (cases "n = 1")
  case True
  then show ?thesis
    using assms add_one_working_day [of s] by (auto simp: add_zero valid_date_def)
next
  case False
  have r: "s \<le> r" "r \<le> DATE_MAX" "wd r" "wd_between wd s r = n"
    using assms by (auto simp: add_pos_iff valid_date_def)
  then have "valid_date r"
    using assms by (auto simp: valid_date_def)
  moreover have "first_wd wd r r"
    using r by (simp add: first_wd_def)
  ultimately show ?thesis
    using r assms False by (subst add_neg_iff) (auto simp: valid_date_def)
qed

text \<open>Walking back from a working day and forward again returns to it.\<close>

lemma backward_round_trip:
  assumes "wd r" "valid_date r" "0 < n" "add r (- (n - 1)) = Inr s"
  shows "add s n = Inr r"
proof (cases "n = 1")
  case True
  then show ?thesis
    using assms add_one_working_day [of s] by (auto simp: add_zero valid_date_def)
next
  case False
  then obtain b where b: "first_wd wd r b" "DATE_MIN \<le> s" "s \<le> b" "wd s" "wd_between wd s b = n"
    using assms add_neg_iff [of "- (n - 1)" r s] by auto
  then have "b = r"
    using assms by (simp add: first_wd_self)
  then show ?thesis
    using b assms by (subst add_pos_iff) (auto simp: valid_date_def)
qed

lemma add_pos_mono:
  assumes "s \<le> t" "t \<le> DATE_MAX" "0 < n" "add s n = Inr r" "add t n = Inr u"
  shows "r \<le> u"
proof (rule ccontr)
  assume "\<not> r \<le> u"
  then have u: "u \<le> r - 1" by simp
  have s: "s \<le> r" "wd r" "wd_between wd s r = n" and t: "t \<le> u" "wd_between wd t u = n"
    using assms by (auto simp: add_pos_iff)
  have "wd_between wd s u \<le> wd_between wd s (r - 1)"
    using u by (intro wd_between_mono) auto
  moreover have "wd_between wd t u \<le> wd_between wd s u"
    using assms(1) by (intro wd_between_mono) auto
  ultimately show False
    using s t wd_between_last [of s r wd] by simp
qed

text \<open>
  The finish-to-start rule adds \<open>lag + 2\<close>: from a working day \<open>s\<close> this is the working day
  after \<open>s\<close> with exactly \<open>lag\<close> working days strictly between the two.
\<close>

lemma add_gap:
  assumes "wd s" "s \<le> DATE_MAX" "0 \<le> lag" "add s (lag + 2) = Inr r"
  shows "s < r \<and> wd r \<and> wd_between wd (s + 1) (r - 1) = lag"
proof -
  have r: "s \<le> r" "wd r" "wd_between wd s r = lag + 2"
    using assms by (auto simp: add_pos_iff)
  then have lt: "s < r"
    using assms by (cases "s = r") auto
  have "wd_between wd s r = 1 + wd_between wd (s + 1) r"
    using r assms by (simp add: wd_between_first)
  also have "wd_between wd (s + 1) r = wd_between wd (s + 1) (r - 1) + 1"
    using r lt by (subst wd_between_last) auto
  finally show ?thesis
    using r lt by simp
qed

end

section \<open>The engine provides the interface\<close>

lemma next_from_Inr:
  assumes "s \<le> DATE_MAX"
  shows "next_from e s = Inr b \<longleftrightarrow> first_wd (is_working_day e) s b \<and> b \<le> DATE_MAX"
  using assms
proof (induction e s rule: next_from.induct)
  case (1 e s)
  show ?case
  proof (cases "is_working_day e s")
    case True
    then show ?thesis using "1.prems" by (auto simp: next_from.simps [of e s] first_wd_def)
  next
    case False
    have step: "first_wd (is_working_day e) s b \<longleftrightarrow> first_wd (is_working_day e) (s + 1) b"
      using False by (auto simp: first_wd_def) (metis add1_zle_eq order_le_less atLeastLessThan_iff)+
    show ?thesis
    proof (cases "DATE_MAX \<le> s")
      case True
      then have "s = DATE_MAX" using "1.prems" by simp
      then show ?thesis using False
        by (subst next_from.simps) (auto simp: first_wd_def)
    next
      case less: False
      then show ?thesis
        using "1.IH" [OF False less] False step by (simp add: next_from.simps [of e s])
    qed
  qed
qed

lemma forward_days_Inr:
  assumes "c \<le> DATE_MAX" "0 \<le> n"
  shows "forward_days e c n = Inr r \<longleftrightarrow>
    c \<le> r \<and> r \<le> DATE_MAX \<and> (if n = 0 then r = c else is_working_day e r) \<and>
    wd_between (is_working_day e) (c + 1) r = n"
  using assms
proof (induction e c n rule: forward_days.induct)
  case (1 e c n)
  let ?wd = "is_working_day e"
  show ?case
  proof (cases "n \<le> 0 \<or> DATE_MAX \<le> c")
    case True
    show ?thesis
    proof (cases "n = 0")
      case True
      then show ?thesis
        using "1.prems" by (subst forward_days.simps) auto
    next
      case False
      have "n = 0" if "c \<le> r" "r \<le> DATE_MAX" "wd_between ?wd (c + 1) r = n"
        using that True False "1.prems" by simp
      then show ?thesis
        using True False "1.prems" by (subst forward_days.simps) auto
    qed
  next
    case False
    let ?n = "if ?wd (c + 1) then n - 1 else n"
    have IH: "forward_days e (c + 1) ?n = Inr r \<longleftrightarrow>
        c + 1 \<le> r \<and> r \<le> DATE_MAX \<and> (if ?n = 0 then r = c + 1 else ?wd r) \<and>
        wd_between ?wd (c + 1 + 1) r = ?n"
      using False "1.prems" by (intro "1.IH") auto
    have lt: "c + 1 \<le> r" if "c \<le> r" "wd_between ?wd (c + 1) r = n"
      using that False by (cases "c = r") auto
    have split: "wd_between ?wd (c + 1) r = (if ?wd (c + 1) then 1 else 0) + wd_between ?wd (c + 1 + 1) r"
      if "c + 1 \<le> r"
      using that by (rule wd_between_first)
    have last: "r = c + 1" if "c + 1 \<le> r" "?wd (c + 1)" "?wd r" "wd_between ?wd (c + 1) r = 1"
      using wd_between_inj_right [of ?wd r "c + 1" "c + 1"] that by simp
    have eq: "forward_days e c n = forward_days e (c + 1) ?n"
      using False by (subst forward_days.simps) simp
    show ?thesis
      unfolding eq IH using False lt split last by (cases "?wd (c + 1)") auto
  qed
qed

lemma backward_days_Inr:
  assumes "DATE_MIN \<le> c" "0 \<le> n"
  shows "backward_days e c n = Inr r \<longleftrightarrow>
    r \<le> c \<and> DATE_MIN \<le> r \<and> (if n = 0 then r = c else is_working_day e r) \<and>
    wd_between (is_working_day e) r (c - 1) = n"
  using assms
proof (induction e c n rule: backward_days.induct)
  case (1 e c n)
  let ?wd = "is_working_day e"
  show ?case
  proof (cases "n \<le> 0 \<or> c \<le> DATE_MIN")
    case True
    show ?thesis
    proof (cases "n = 0")
      case True
      then show ?thesis
        using "1.prems" by (subst backward_days.simps) auto
    next
      case False
      have "n = 0" if "r \<le> c" "DATE_MIN \<le> r" "wd_between ?wd r (c - 1) = n"
        using that True False "1.prems" by simp
      then show ?thesis
        using True False "1.prems" by (subst backward_days.simps) auto
    qed
  next
    case False
    let ?n = "if ?wd (c - 1) then n - 1 else n"
    have IH: "backward_days e (c - 1) ?n = Inr r \<longleftrightarrow>
        r \<le> c - 1 \<and> DATE_MIN \<le> r \<and> (if ?n = 0 then r = c - 1 else ?wd r) \<and>
        wd_between ?wd r (c - 1 - 1) = ?n"
      using False "1.prems" by (intro "1.IH") auto
    have lt: "r \<le> c - 1" if "r \<le> c" "wd_between ?wd r (c - 1) = n"
      using that False by (cases "c = r") auto
    have split: "wd_between ?wd r (c - 1) = wd_between ?wd r (c - 1 - 1) + (if ?wd (c - 1) then 1 else 0)"
      if "r \<le> c - 1"
      using that by (rule wd_between_last)
    have last: "r = c - 1" if "r \<le> c - 1" "?wd (c - 1)" "?wd r" "wd_between ?wd r (c - 1) = 1"
      using wd_between_inj_left [of ?wd r "c - 1" "c - 1"] that by simp
    have eq: "backward_days e c n = backward_days e (c - 1) ?n"
      using False by (subst backward_days.simps) simp
    show ?thesis
      unfolding eq IH using False lt split last by (cases "?wd (c - 1)") auto
  qed
qed

lemma count_days_eq:
  assumes "l < DATE_MAX"
  shows "count_days e c l n = Inr (n + wd_between (is_working_day e) c l)"
  using assms
proof (induction e c l n rule: count_days.induct)
  case (1 e c l n)
  show ?case
  proof (cases "l < c")
    case True
    then show ?thesis by (subst count_days.simps) simp
  next
    case False
    then show ?thesis
      using "1.IH" "1.prems" by (subst count_days.simps) (simp add: wd_between_first [of c l])
  qed
qed

lemma working_days_between_eq:
  "l < DATE_MAX \<Longrightarrow> working_days_between e s l = Inr (wd_between (is_working_day e) s l)"
  by (simp add: working_days_between_def count_days_eq)

text \<open>A result of the count is the number of working days whenever the loop returns.\<close>

lemma count_days_Inr:
  "count_days e c l n = Inr k \<Longrightarrow> k = n + wd_between (is_working_day e) c l"
proof (induction e c l n rule: count_days.induct)
  case (1 e c l n)
  show ?case
  proof (cases "l < c \<or> DATE_MAX \<le> c")
    case True
    then show ?thesis
      using "1.prems" by (subst (asm) count_days.simps) (auto split: if_splits)
  next
    case False
    then show ?thesis
      using "1.IH" "1.prems" count_days.simps [of e c l n] by (simp add: wd_between_first [of c l])
  qed
qed

lemma add_pos_engine:
  assumes "0 < n" "s \<le> DATE_MAX"
  shows "add_working_days e s n = Inr r \<longleftrightarrow>
    s \<le> r \<and> r \<le> DATE_MAX \<and> is_working_day e r \<and> wd_between (is_working_day e) s r = n"
    (is "?lhs \<longleftrightarrow> ?rhs")
proof -
  let ?wd = "is_working_day e"
  have lhs: "?lhs \<longleftrightarrow> (\<exists>b. first_wd ?wd s b \<and> b \<le> DATE_MAX \<and> forward_days e b (n - 1) = Inr r)"
    using assms by (auto simp: add_working_days_def next_working_day_def next_from_Inr)
  show ?thesis
  proof
    assume ?lhs
    then obtain b where b: "first_wd ?wd s b" "b \<le> DATE_MAX" "forward_days e b (n - 1) = Inr r"
      using lhs by blast
    then have r: "b \<le> r" "r \<le> DATE_MAX" "if n - 1 = 0 then r = b else ?wd r"
        "wd_between ?wd (b + 1) r = n - 1"
      using assms forward_days_Inr [of b "n - 1" e r] by auto
    then show ?rhs
      using b wd_between_first_wd [of ?wd s b r] wd_between_first [of b r ?wd]
      by (auto simp: first_wd_def split: if_splits)
  next
    assume R: ?rhs
    then obtain b where b: "first_wd ?wd s b" "b \<le> r"
      using first_wd_exists [of ?wd r s] by auto
    have "wd_between ?wd b r = n"
      using R wd_between_first_wd [OF b] by simp
    then have c: "wd_between ?wd (b + 1) r = n - 1"
      using b wd_between_first [of b r ?wd] by (simp add: first_wd_def)
    have "r = b" if "n = 1"
      using wd_between_inj_left [of ?wd b r r] that b R c wd_between_first [of b r ?wd]
      by (simp add: first_wd_def)
    then have "forward_days e b (n - 1) = Inr r"
      using assms b R c by (subst forward_days_Inr) auto
    then show ?lhs
      using lhs b R by auto
  qed
qed

lemma add_neg_engine:
  assumes "n < 0" "valid_date s"
  shows "add_working_days e s n = Inr r \<longleftrightarrow>
    (\<exists>b. first_wd (is_working_day e) s b \<and> b \<le> DATE_MAX \<and> DATE_MIN \<le> r \<and> r \<le> b \<and>
         is_working_day e r \<and> wd_between (is_working_day e) r b = 1 - n)"
proof -
  let ?wd = "is_working_day e"
  have walk: "backward_days e b (- n) = Inr r \<longleftrightarrow>
      DATE_MIN \<le> r \<and> r \<le> b \<and> ?wd r \<and> wd_between ?wd r b = 1 - n"
    if "first_wd ?wd s b" for b
  proof -
    have "DATE_MIN \<le> b" "?wd b"
      using that assms by (auto simp: first_wd_def valid_date_def)
    then show ?thesis
      using assms wd_between_last [of r b ?wd] by (subst backward_days_Inr) auto
  qed
  have "add_working_days e s n = Inr r \<longleftrightarrow>
      (\<exists>b. first_wd ?wd s b \<and> b \<le> DATE_MAX \<and> backward_days e b (- n) = Inr r)"
    using assms by (auto simp: add_working_days_def next_working_day_def next_from_Inr valid_date_def)
  then show ?thesis
    using walk by blast
qed

lemma add_zero_engine: "add_working_days e s 0 = Inr s"
  by (simp add: add_working_days_def)

interpretation cal: working_day_arithmetic "is_working_day e" "add_working_days e" for e
  by unfold_locales (simp_all only: add_zero_engine add_pos_engine add_neg_engine)

end
