(* ===== verification/PM_Domain.thy ===== *)
theory PM_Domain
  imports PM_Prelude
begin

text \<open>
  The task data of the project-management module: \<^verbatim>\<open>domain/enums.py\<close> and
  \<^verbatim>\<open>domain/task.py\<close>, and the two functions that read a task's priority.
\<close>

datatype project_status = PLANNED | ACTIVE | ON_HOLD | COMPLETED

datatype task_status = TODO | IN_PROGRESS | BLOCKED | DONE

datatype dependency_type = FINISH_TO_START | FINISH_TO_FINISH | START_TO_START | START_TO_FINISH

text \<open>
  The annotation of \<open>Task.priority\<close> is \<open>int\<close>, but the schedulers also accept a missing
  value and a string (or an enum, whose \<open>value\<close> is one of these).
\<close>

datatype py_priority = NoPriority | IntPriority int | StrPriority string

record task =
  t_id :: string
  t_project_id :: string
  t_name :: string
  t_description :: string
  t_start_date :: "date option"
  t_end_date :: "date option"
  t_duration_days :: "int option"
  t_status :: task_status
  t_priority :: py_priority
  t_percent_complete :: rat
  t_actual_start :: "date option"
  t_actual_end :: "date option"
  t_deadline :: "date option"
  t_version :: int

record task_dependency =
  d_id :: string
  predecessor_task_id :: string
  successor_task_id :: string
  dependency_type :: dependency_type
  lag_days :: int

record task_assignment =
  a_id :: string
  a_task_id :: string
  a_resource_id :: string
  allocation_percent :: rat
  hours_logged :: rat
  project_resource_id :: "string option"

text \<open>\<open>int(task.duration_days or 0)\<close>.\<close>

definition duration_of :: "task \<Rightarrow> int" where
  "duration_of t = (case t_duration_days t of None \<Rightarrow> 0 | Some n \<Rightarrow> n)"

text \<open>The engine's priority: a lower number comes out of the min-heap first.\<close>

definition priority_value :: "task \<Rightarrow> int" where
  "priority_value t =
     (case t_priority t of
        NoPriority \<Rightarrow> 50
      | IntPriority n \<Rightarrow> n
      | StrPriority s \<Rightarrow>
          (let normalized = py_upper (py_strip s) in
           if normalized \<in> {''HIGH'', ''H''} then 10
           else if normalized \<in> {''MEDIUM'', ''M'', ''NORMAL''} then 50
           else if normalized \<in> {''LOW'', ''L''} then 90
           else 50))"

text \<open>The same function as the dependency diagnostics spell it, without the middle branch.\<close>

definition priority_value_for_preview :: "task \<Rightarrow> int" where
  "priority_value_for_preview t =
     (case t_priority t of
        NoPriority \<Rightarrow> 50
      | IntPriority n \<Rightarrow> n
      | StrPriority s \<Rightarrow>
          (let normalized = py_upper (py_strip s) in
           if normalized \<in> {''HIGH'', ''H''} then 10
           else if normalized \<in> {''LOW'', ''L''} then 90
           else 50))"

lemma priority_value_preview_eq: "priority_value_for_preview = priority_value"
  by (rule ext) (auto simp: priority_value_def priority_value_for_preview_def Let_def
      split: py_priority.splits)

end
