(* ===== verification/Schedule_Graph.thy ===== *)
theory Schedule_Graph
  imports PM_Domain
begin

text \<open>
  The dependency graph of a project and its topological order
  (\<^verbatim>\<open>services/scheduling/graph.py\<close>): Kahn's algorithm with a min-heap of the tasks that
  are ready. The heap of \<^verbatim>\<open>heapq\<close> is a sorted list; since the entries are totally
  ordered tuples that end in the task id, popping the least entry is what the library does.
\<close>

section \<open>The heap\<close>

type_synonym heap_entry = "int \<times> string \<times> string"

definition heappush :: "heap_entry \<Rightarrow> heap_entry list \<Rightarrow> heap_entry list" where
  "heappush x h = insort x h"

fun heappop :: "heap_entry list \<Rightarrow> (heap_entry \<times> heap_entry list) option" where
  "heappop [] = None"
| "heappop (x # h) = Some (x, h)"

abbreviation entry_id :: "heap_entry \<Rightarrow> string" where
  "entry_id x \<equiv> snd (snd x)"

locale min_queue =
  fixes push :: "'a::linorder \<Rightarrow> 'q \<Rightarrow> 'q"
    and pop :: "'q \<Rightarrow> ('a \<times> 'q) option"
    and elems :: "'q \<Rightarrow> 'a multiset"
    and wf_queue :: "'q \<Rightarrow> bool"
  assumes wf_push: "wf_queue q \<Longrightarrow> wf_queue (push x q)"
    and elems_push: "elems (push x q) = add_mset x (elems q)"
    and pop_None: "pop q = None \<longleftrightarrow> elems q = {#}"
    and pop_Some: "wf_queue q \<Longrightarrow> pop q = Some (x, q') \<Longrightarrow>
      wf_queue q' \<and> elems q = add_mset x (elems q') \<and> (\<forall>y \<in># elems q. x \<le> y)"
begin

lemma pop_least: "wf_queue q \<Longrightarrow> pop q = Some (x, q') \<Longrightarrow> y \<in># elems q \<Longrightarrow> x \<le> y"
  using pop_Some by blast

lemma pop_push_exists: "\<exists>y q'. pop (push x q) = Some (y, q')"
  using pop_None [of "push x q"] elems_push [of x q] by (cases "pop (push x q)") auto

lemma pop_elems: "wf_queue q \<Longrightarrow> pop q = Some (x, q') \<Longrightarrow> x \<in># elems q"
  using pop_Some [of q x q'] by simp

end

interpretation heapq: min_queue heappush heappop mset sorted
proof
  show "heappop q = None \<longleftrightarrow> mset q = {#}" for q
    by (cases q) auto
  show "sorted q' \<and> mset q = add_mset x (mset q') \<and> (\<forall>y \<in># mset q. x \<le> y)"
    if "sorted q" "heappop q = Some (x, q')" for q x q'
    using that by (cases q) auto
qed (simp_all add: heappush_def sorted_insort)

section \<open>The graph\<close>

text \<open>
  \<open>tasks_by_id\<close> is the dictionary of the project's tasks; both ends of a dependency must be
  in it for the dependency to count.
\<close>

type_synonym tasks_by_id = "(string, task) dict"

definition filtered_deps :: "tasks_by_id \<Rightarrow> task_dependency list \<Rightarrow> task_dependency list" where
  "filtered_deps tasks deps =
     filter (\<lambda>d. predecessor_task_id d \<in> fst ` set tasks \<and> successor_task_id d \<in> fst ` set tasks) deps"

definition initial_indegree :: "task_dependency list \<Rightarrow> string \<Rightarrow> int" where
  "initial_indegree deps =
     fold (\<lambda>d ind. ind(successor_task_id d := ind (successor_task_id d) + 1)) deps (\<lambda>_. 0)"

text \<open>
  The heap entry of a task. Every id it is applied to is a key of \<open>tasks_by_id\<close>
  (\<open>filtered_deps\<close> keeps no other), so the default branch is never taken.
\<close>

definition heap_key :: "(task \<Rightarrow> int) \<Rightarrow> tasks_by_id \<Rightarrow> string \<Rightarrow> heap_entry" where
  "heap_key prio tasks tid =
     (case map_of tasks tid of
        Some t \<Rightarrow> (prio t, t_name t, tid)
      | None \<Rightarrow> (0, [], tid))"

definition initial_heap :: "(string \<Rightarrow> heap_entry) \<Rightarrow> tasks_by_id \<Rightarrow> (string \<Rightarrow> int) \<Rightarrow> heap_entry list" where
  "initial_heap key tasks ind =
     fold (\<lambda>tid h. if ind tid = 0 then heappush (key tid) h else h) (map fst tasks) []"

text \<open>The body of the loop for one popped task: the inner \<open>for dep in ...\<close> loop.\<close>

fun relax ::
  "(string \<Rightarrow> heap_entry) \<Rightarrow> task_dependency list \<Rightarrow> (string \<Rightarrow> int) \<times> heap_entry list
     \<Rightarrow> (string \<Rightarrow> int) \<times> heap_entry list" where
  "relax key [] (ind, h) = (ind, h)"
| "relax key (d # ds) (ind, h) =
     (let s = successor_task_id d; ind' = ind(s := ind s - 1)
      in relax key ds (ind', if ind' s = 0 then heappush (key s) h else h))"

definition succ_ids :: "(string, task_dependency list) dict \<Rightarrow> string set" where
  "succ_ids g = successor_task_id ` (\<Union>x \<in> set g. set (snd x))"

lemma finite_succ_ids [simp]: "finite (succ_ids g)"
  by (simp add: succ_ids_def)

lemma dict_get_list_subset: "set (dict_get_list d k) \<subseteq> (\<Union>x \<in> set d. set (snd x))"
proof (cases "map_of d k")
  case (Some vs)
  then have "(k, vs) \<in> set d" by (rule map_of_SomeD)
  then show ?thesis using Some by (force simp: dict_get_list_def)
qed (simp add: dict_get_list_def)

lemma relax_measure:
  assumes "finite N" "successor_task_id ` set ds \<subseteq> N" "relax key ds (ind, h) = (ind', h')"
  shows "length h' + card {v \<in> N. 0 < ind' v} \<le> length h + card {v \<in> N. 0 < ind v}"
  using assms(2,3)
proof (induction ds arbitrary: ind h)
  case (Cons d ds)
  let ?s = "successor_task_id d"
  let ?ind = "ind(?s := ind ?s - 1)"
  let ?h = "if ?ind ?s = 0 then heappush (key ?s) h else h"
  have IH: "length h' + card {v \<in> N. 0 < ind' v} \<le> length ?h + card {v \<in> N. 0 < ?ind v}"
    using Cons.prems by (intro Cons.IH [of ?ind ?h]) (auto simp: Let_def simp del: fun_upd_apply)
  have "length ?h + card {v \<in> N. 0 < ?ind v} \<le> length h + card {v \<in> N. 0 < ind v}"
  proof (cases "ind ?s = 1")
    case True
    have "{v \<in> N. 0 < ind v} = insert ?s {v \<in> N. 0 < ?ind v}"
      using True Cons.prems by auto
    then show ?thesis
      using True assms(1) by (simp add: heappush_def)
  next
    case False
    then have "{v \<in> N. 0 < ?ind v} = {v \<in> N. 0 < ind v}"
      by auto
    then show ?thesis
      using False by simp
  qed
  with IH show ?case by linarith
qed auto

function kahn_loop ::
  "(string \<Rightarrow> heap_entry) \<Rightarrow> (string, task_dependency list) dict \<Rightarrow> (string \<Rightarrow> int)
     \<Rightarrow> heap_entry list \<Rightarrow> string list \<Rightarrow> string list" where
  "kahn_loop key graph_succ ind heap topo =
     (case heappop heap of
        None \<Rightarrow> topo
      | Some (x, heap') \<Rightarrow>
          (let (ind', heap'') = relax key (dict_get_list graph_succ (entry_id x)) (ind, heap')
           in kahn_loop key graph_succ ind' heap'' (topo @ [entry_id x])))"
  by pat_completeness auto
termination
proof (relation "measure (\<lambda>(key, g, ind, heap, topo). length heap + card {v \<in> succ_ids g. 0 < ind v})")
  fix key :: "string \<Rightarrow> heap_entry" and g :: "(string, task_dependency list) dict"
    and ind ind' :: "string \<Rightarrow> int" and heap heap' heap'' :: "heap_entry list" and topo :: "string list"
    and p x r
  assume pop: "heappop heap = Some p" "(x, heap') = p"
    and r: "r = relax key (dict_get_list g (entry_id x)) (ind, heap')" "(ind', heap'') = r"
  have "length heap = Suc (length heap')"
    using pop by (cases heap) auto
  moreover have "length heap'' + card {v \<in> succ_ids g. 0 < ind' v}
      \<le> length heap' + card {v \<in> succ_ids g. 0 < ind v}"
    using r dict_get_list_subset [of g "entry_id x"]
    by (intro relax_measure [of _ "dict_get_list g (entry_id x)" key]) (auto simp: succ_ids_def)
  ultimately show "((key, g, ind', heap'', topo @ [entry_id x]), key, g, ind, heap, topo)
      \<in> measure (\<lambda>(key, g, ind, heap, topo). length heap + card {v \<in> succ_ids g. 0 < ind v})"
    by simp
qed simp

declare kahn_loop.simps [simp del]

record dependency_graph =
  topo_order :: "string list"
  deps_by_successor :: "(string, task_dependency list) dict"
  deps_by_predecessor :: "(string, task_dependency list) dict"

definition build_project_dependency_graph ::
  "tasks_by_id \<Rightarrow> task_dependency list \<Rightarrow> (task \<Rightarrow> int) \<Rightarrow> dependency_graph result" where
  "build_project_dependency_graph tasks deps prio =
     (let fdeps = filtered_deps tasks deps;
          graph_succ = group_by_key predecessor_task_id fdeps;
          indegree = initial_indegree fdeps;
          key = heap_key prio tasks;
          heap = initial_heap key tasks indegree;
          topo = kahn_loop key graph_succ indegree heap []
      in if length topo \<noteq> length tasks then Inl (BusinessRuleError ''SCHEDULE_CYCLE'')
         else Inr \<lparr>topo_order = topo,
                   deps_by_successor = group_by_key successor_task_id fdeps,
                   deps_by_predecessor = group_by_key predecessor_task_id fdeps\<rparr>)"

section \<open>The order is topological\<close>

definition precedes :: "'a list \<Rightarrow> 'a \<Rightarrow> 'a \<Rightarrow> bool" where
  "precedes xs a b \<longleftrightarrow> (\<exists>us vs. xs = us @ b # vs \<and> a \<in> set us)"

definition dep_edges :: "task_dependency list \<Rightarrow> (string \<times> string) set" where
  "dep_edges deps = (\<lambda>d. (predecessor_task_id d, successor_task_id d)) ` set deps"

definition pending :: "task_dependency list \<Rightarrow> string list \<Rightarrow> string \<Rightarrow> int" where
  "pending deps topo v =
     int (length (filter (\<lambda>d. successor_task_id d = v \<and> predecessor_task_id d \<notin> set topo) deps))"

lemma precedes_append: "precedes xs a b \<Longrightarrow> precedes (xs @ ys) a b"
  unfolding precedes_def by fastforce

lemma precedes_last: "a \<in> set xs \<Longrightarrow> precedes (xs @ [b]) a b"
  unfolding precedes_def by blast

lemma precedes_mem: "precedes xs a b \<Longrightarrow> a \<in> set xs \<and> b \<in> set xs"
  by (auto simp: precedes_def)

lemma initial_indegree_eq:
  "initial_indegree deps v = int (length (filter (\<lambda>d. successor_task_id d = v) deps))"
proof -
  have "fold (\<lambda>d ind. ind(successor_task_id d := ind (successor_task_id d) + 1)) deps f v =
      f v + int (length (filter (\<lambda>d. successor_task_id d = v) deps))" for f :: "string \<Rightarrow> int"
    by (induction deps arbitrary: f) auto
  then show ?thesis by (simp add: initial_indegree_def)
qed

lemma pending_nonneg [simp]: "0 \<le> pending deps topo v"
  by (simp add: pending_def)

lemma pending_0_iff:
  "pending deps topo v = 0 \<longleftrightarrow>
     (\<forall>d \<in> set deps. successor_task_id d = v \<longrightarrow> predecessor_task_id d \<in> set topo)"
  by (auto simp: pending_def filter_empty_conv)

lemma pending_step:
  assumes "u \<notin> set topo"
  shows "pending deps (topo @ [u]) v =
    pending deps topo v -
    int (length (filter (\<lambda>d. successor_task_id d = v) (filter (\<lambda>d. predecessor_task_id d = u) deps)))"
  using assms by (induction deps) (auto simp: pending_def)

lemma entry_id_heap_key [simp]: "entry_id (heap_key prio tasks v) = v"
  by (simp add: heap_key_def split: option.splits)

lemma set_heappush [simp]: "set (heappush x h) = insert x (set h)"
  by (simp add: heappush_def set_insort_key)

lemma sorted_heappush [simp]: "sorted (heappush x h) \<longleftrightarrow> sorted h"
  by (simp add: heappush_def sorted_insort)

lemma distinct_ids_heappush:
  "distinct (map entry_id (heappush x h)) \<longleftrightarrow> entry_id x \<notin> entry_id ` set h \<and> distinct (map entry_id h)"
proof -
  have "mset (map entry_id (heappush x h)) = mset (entry_id x # map entry_id h)"
    by (simp add: heappush_def)
  then have "distinct (map entry_id (heappush x h)) \<longleftrightarrow> distinct (entry_id x # map entry_id h)"
    by (metis mset_eq_imp_distinct_iff)
  then show ?thesis by simp
qed

lemma relax_ind:
  "relax key ds (ind, h) = (ind', h') \<Longrightarrow>
     ind' v = ind v - int (length (filter (\<lambda>d. successor_task_id d = v) ds))"
  by (induction ds arbitrary: ind h) (auto simp: Let_def)

lemma relax_Cons:
  "relax key (d # ds) (ind, h) = (ind', h') \<longleftrightarrow>
     relax key ds
       (ind(successor_task_id d := ind (successor_task_id d) - 1),
        if ind (successor_task_id d) = 1 then heappush (key (successor_task_id d)) h else h) = (ind', h')"
  by (simp add: Let_def)

lemma relax_sorted:
  assumes "relax key ds (ind, h) = (ind', h')" and "sorted h"
  shows "sorted h'"
  using assms
proof (induction ds arbitrary: ind h)
  case (Cons d ds)
  show ?case
    by (rule Cons.IH [OF Cons.prems(1) [unfolded relax_Cons]]) (simp add: Cons.prems(2))
qed simp

lemma relax_keys:
  assumes "relax key ds (ind, h) = (ind', h')" and "\<And>v. entry_id (key v) = v"
    and "\<forall>x \<in> set h. x = key (entry_id x)"
  shows "\<forall>x \<in> set h'. x = key (entry_id x)"
  using assms(1,3)
proof (induction ds arbitrary: ind h)
  case (Cons d ds)
  show ?case
    by (rule Cons.IH [OF Cons.prems(1) [unfolded relax_Cons]]) (simp add: Cons.prems(2) assms(2))
qed simp

lemma relax_ids:
  assumes "relax key ds (ind, h) = (ind', h')" and "\<And>v. entry_id (key v) = v"
  shows "entry_id ` set h' = entry_id ` set h \<union> {v. 0 < ind v \<and> ind' v \<le> 0}"
  using assms(1)
proof (induction ds arbitrary: ind h)
  case (Cons d ds)
  let ?s = "successor_task_id d"
  let ?ind = "ind(?s := ind ?s - 1)"
  let ?h = "if ind ?s = 1 then heappush (key ?s) h else h"
  have run: "relax key ds (?ind, ?h) = (ind', h')"
    using Cons.prems by (simp only: relax_Cons)
  have le: "ind' v \<le> ?ind v" for v
    using relax_ind [OF run, of v] by simp
  have "v \<in> entry_id ` set ?h \<or> 0 < ?ind v \<and> ind' v \<le> 0 \<longleftrightarrow>
      v \<in> entry_id ` set h \<or> 0 < ind v \<and> ind' v \<le> 0" for v
  proof (cases "v = ?s")
    case True
    have "1 < ind ?s \<longleftrightarrow> 0 < ind ?s" if "ind ?s \<noteq> 1"
      using that by linarith
    then show ?thesis using True le [of ?s] assms(2) by (cases "ind ?s = 1") simp_all
  next
    case False
    then show ?thesis using assms(2) by simp
  qed
  then show ?case
    unfolding Cons.IH [OF run] by blast
qed auto

lemma relax_distinct:
  assumes "relax key ds (ind, h) = (ind', h')" and "\<And>v. entry_id (key v) = v"
    and "distinct (map entry_id h)" and "\<forall>v \<in> entry_id ` set h. ind v \<le> 0"
  shows "distinct (map entry_id h')"
  using assms(1,3,4)
proof (induction ds arbitrary: ind h)
  case (Cons d ds)
  let ?s = "successor_task_id d"
  let ?ind = "ind(?s := ind ?s - 1)"
  let ?h = "if ?ind ?s = 0 then heappush (key ?s) h else h"
  have "?s \<notin> entry_id ` set h" if "ind ?s = 1"
    using that Cons.prems(3) by force
  then have "distinct (map entry_id ?h)" "\<forall>v \<in> entry_id ` set ?h. ?ind v \<le> 0"
    using Cons.prems(2,3) assms(2) by (auto simp: distinct_ids_heappush)
  moreover have "relax key ds (?ind, ?h) = (ind', h')"
    using Cons.prems(1) by (simp add: Let_def)
  ultimately show ?case by (intro Cons.IH)
qed simp

definition kahn_inv ::
  "(string \<Rightarrow> heap_entry) \<Rightarrow> task_dependency list \<Rightarrow> string set \<Rightarrow> (string \<Rightarrow> int)
     \<Rightarrow> heap_entry list \<Rightarrow> string list \<Rightarrow> bool" where
  "kahn_inv key deps T ind h topo \<longleftrightarrow>
     sorted h \<and> distinct (topo @ map entry_id h) \<and> set topo \<union> entry_id ` set h \<subseteq> T \<and>
     ind = pending deps topo \<and> (\<forall>v \<in> T - set topo. ind v = 0 \<longleftrightarrow> v \<in> entry_id ` set h) \<and>
     (\<forall>x \<in> set h. x = key (entry_id x)) \<and>
     (\<forall>d \<in> set deps. successor_task_id d \<in> set topo \<longrightarrow>
        precedes topo (predecessor_task_id d) (successor_task_id d))"

definition topological :: "task_dependency list \<Rightarrow> string set \<Rightarrow> string list \<Rightarrow> bool" where
  "topological deps T topo \<longleftrightarrow>
     distinct topo \<and> set topo \<subseteq> T \<and>
     (\<forall>d \<in> set deps. successor_task_id d \<in> set topo \<longrightarrow>
        precedes topo (predecessor_task_id d) (successor_task_id d)) \<and>
     (\<forall>v \<in> T - set topo. 0 < pending deps topo v)"

lemma kahn_inv_step:
  assumes inv: "kahn_inv key deps T ind (x # h) topo"
    and key: "\<And>v. entry_id (key v) = v"
    and closed: "\<forall>d \<in> set deps. successor_task_id d \<in> T"
    and run: "relax key (filter (\<lambda>d. predecessor_task_id d = entry_id x) deps) (ind, h) = (ind', h')"
  shows "kahn_inv key deps T ind' h' (topo @ [entry_id x])"
proof -
  let ?u = "entry_id x"
  have u: "?u \<in> T" "?u \<notin> set topo" "ind ?u = 0" and ind: "ind = pending deps topo"
    using inv by (auto simp: kahn_inv_def)
  have ind': "ind' = pending deps (topo @ [?u])"
    using relax_ind [OF run] pending_step [OF u(2), of deps] by (auto simp: ind)
  have h0: "ind v = 0" if "v \<in> entry_id ` set h" for v
  proof -
    have "v \<in> T" "v \<notin> set topo"
      using inv that by (auto simp: kahn_inv_def)
    then show ?thesis using inv that by (auto simp: kahn_inv_def)
  qed
  have popped: "pending deps topo v = 0" if "v \<in> set topo" for v
    using inv that precedes_mem by (fastforce simp: kahn_inv_def pending_0_iff)
  have heap: "sorted h'" "\<forall>x \<in> set h'. x = key (entry_id x)"
      "entry_id ` set h' = entry_id ` set h \<union> {v. 0 < ind v \<and> ind' v \<le> 0}"
    using relax_sorted [OF run] relax_keys [OF run key] relax_ids [OF run key] inv
    by (auto simp: kahn_inv_def)
  have pos: "v \<in> T \<and> v \<notin> set topo \<and> v \<noteq> ?u" if "0 < ind v" for v
  proof -
    from that have "\<not> (\<forall>d \<in> set deps. successor_task_id d = v \<longrightarrow> predecessor_task_id d \<in> set topo)"
      using pending_0_iff [of deps topo v] by (auto simp: ind)
    then show ?thesis using closed popped [of v] u that by (auto simp: ind)
  qed
  have dist: "distinct (map entry_id h')"
    using inv h0 by (intro relax_distinct [OF run key]) (auto simp: kahn_inv_def)
  have mono: "ind' v \<le> ind v" for v
    using relax_ind [OF run, of v] by simp
  have ready: "ind' v = 0 \<longleftrightarrow> v \<in> entry_id ` set h'" if "v \<in> T" "v \<notin> set topo" "v \<noteq> ?u" for v
  proof (cases "ind v = 0")
    case True
    then have "v \<in> entry_id ` set h"
      using inv that by (auto simp: kahn_inv_def)
    then show ?thesis
      using True heap(3) mono [of v] pending_nonneg [of deps "topo @ [?u]" v] by (simp add: ind' ind)
  next
    case False
    then have "0 < ind v" unfolding ind by (metis order_less_le pending_nonneg)
    moreover have "v \<notin> entry_id ` set h" using False h0 by blast
    ultimately show ?thesis
      using heap(3) order_antisym [OF _ pending_nonneg, of deps "topo @ [?u]" v] by (auto simp: ind')
  qed
  have order: "precedes (topo @ [?u]) (predecessor_task_id d) (successor_task_id d)"
    if "d \<in> set deps" "successor_task_id d \<in> set (topo @ [?u])" for d
  proof (cases "successor_task_id d = ?u")
    case True
    have "predecessor_task_id d \<in> set topo"
      using u(3) that(1) True by (auto simp: ind pending_0_iff)
    then show ?thesis using True by (simp add: precedes_last)
  next
    case False
    then show ?thesis
      using that inv by (auto simp: kahn_inv_def intro!: precedes_append)
  qed
  have "distinct ((topo @ [?u]) @ map entry_id h') \<and> set (topo @ [?u]) \<union> entry_id ` set h' \<subseteq> T"
    using inv dist heap(3) pos u by (auto simp: kahn_inv_def)
  then show ?thesis
    unfolding kahn_inv_def using heap(1,2) ind' ready order by auto
qed

lemma kahn_loop_prefix: "\<exists>ys. kahn_loop key g ind h topo = topo @ ys"
proof (induction key g ind h topo rule: kahn_loop.induct)
  case (1 key g ind h topo)
  show ?case
  proof (cases h)
    case Nil
    then show ?thesis by (simp add: kahn_loop.simps)
  next
    case (Cons x h')
    obtain ind' h'' where run: "relax key (dict_get_list g (entry_id x)) (ind, h') = (ind', h'')"
      by (cases "relax key (dict_get_list g (entry_id x)) (ind, h')")
    then show ?thesis
      using "1.IH" [of "(x, h')" x h' "(ind', h'')" ind' h''] Cons
      by (subst kahn_loop.simps) auto
  qed
qed

lemma kahn_loop_topological:
  assumes "kahn_inv key deps T ind h topo" and "\<And>v. entry_id (key v) = v"
    and "\<forall>d \<in> set deps. successor_task_id d \<in> T" and "g = group_by_key predecessor_task_id deps"
  shows "topological deps T (kahn_loop key g ind h topo)"
  using assms
proof (induction key g ind h topo rule: kahn_loop.induct)
  case (1 key g ind h topo)
  show ?case
  proof (cases h)
    case Nil
    have "topological deps T topo"
      using "1.prems"(1) Nil pending_nonneg [of deps topo]
      by (auto simp: kahn_inv_def topological_def order_less_le)
    then show ?thesis using Nil by (simp add: kahn_loop.simps)
  next
    case (Cons x h')
    obtain ind' h'' where run: "relax key (dict_get_list g (entry_id x)) (ind, h') = (ind', h'')"
      by (cases "relax key (dict_get_list g (entry_id x)) (ind, h')")
    have "kahn_inv key deps T ind' h'' (topo @ [entry_id x])"
      using "1.prems" run Cons by (intro kahn_inv_step) auto
    then have "topological deps T (kahn_loop key g ind' h'' (topo @ [entry_id x]))"
      using "1.IH" [of "(x, h')" x h'] "1.prems" run Cons by simp
    then show ?thesis
      using run Cons by (subst kahn_loop.simps) simp
  qed
qed

text \<open>
  The heap makes the order greedy: whenever a task is taken, no later task that was ready
  at that moment has a smaller key (priority, name, id).
\<close>

lemma kahn_loop_greedy:
  assumes "kahn_inv key deps T ind h topo" and "\<And>v. entry_id (key v) = v"
    and "\<forall>d \<in> set deps. successor_task_id d \<in> T" and "g = group_by_key predecessor_task_id deps"
    and "kahn_loop key g ind h topo = pre @ u # vs" and "length topo \<le> length pre" and "v \<in> set vs"
    and "\<forall>d \<in> set deps. successor_task_id d = v \<longrightarrow> predecessor_task_id d \<in> set pre"
  shows "key u \<le> key v"
  using assms
proof (induction key g ind h topo rule: kahn_loop.induct)
  case (1 key g ind h topo)
  have top: "topological deps T (pre @ u # vs)"
    using "1.prems" kahn_loop_topological [of key deps T ind h topo g] by simp
  show ?case
  proof (cases h)
    case Nil
    then have "topo = pre @ u # vs" using "1.prems"(5) by (simp add: kahn_loop.simps)
    then show ?thesis using "1.prems"(6) by simp
  next
    case (Cons x h')
    obtain ind' h'' where run: "relax key (dict_get_list g (entry_id x)) (ind, h') = (ind', h'')"
      by (cases "relax key (dict_get_list g (entry_id x)) (ind, h')")
    have rest: "kahn_loop key g ind' h'' (topo @ [entry_id x]) = pre @ u # vs"
      using "1.prems"(5) run Cons kahn_loop.simps [of key g ind "x # h'" topo] by simp
    have inv': "kahn_inv key deps T ind' h'' (topo @ [entry_id x])"
      using "1.prems" run Cons by (intro kahn_inv_step) auto
    show ?thesis
    proof (cases "length topo = length pre")
      case False
      then have "length (topo @ [entry_id x]) \<le> length pre"
        using "1.prems"(6) by simp
      then show ?thesis
        using "1.IH" [of "(x, h')" x h' "(ind', h'')" ind' h''] "1.prems" run Cons inv' rest by simp
    next
      case True
      obtain ys where "topo @ [entry_id x] @ ys = pre @ u # vs"
        using kahn_loop_prefix [of key g ind' h'' "topo @ [entry_id x]"] rest by auto
      then have pre: "pre = topo" "u = entry_id x" using True by auto
      have v: "v \<in> T" "v \<notin> set topo" "v \<noteq> entry_id x" "ind v = 0"
        using top "1.prems"(1,7,8) pre
        by (auto simp: topological_def kahn_inv_def pending_0_iff)
      then have "v \<in> entry_id ` set h'"
        using "1.prems"(1) Cons by (auto simp: kahn_inv_def)
      then obtain y where y: "y \<in> set h'" "v = entry_id y" by auto
      then have "x \<le> y" "y = key v" "x = key u"
        using "1.prems"(1) Cons pre by (auto simp: kahn_inv_def)
      then show ?thesis by simp
    qed
  qed
qed

lemma initial_heap_spec:
  assumes "h = initial_heap key tasks ind" and "\<And>v. entry_id (key v) = v" and "distinct (map fst tasks)"
  shows "sorted h" and "entry_id ` set h = {v \<in> fst ` set tasks. ind v = 0}"
    and "distinct (map entry_id h)" and "\<forall>x \<in> set h. x = key (entry_id x)"
proof -
  have "sorted h' \<and> entry_id ` set h' = entry_id ` set h0 \<union> {v \<in> set xs. ind v = 0} \<and>
      distinct (map entry_id h') \<and> (\<forall>x \<in> set h'. x = key (entry_id x))"
    if "h' = fold (\<lambda>tid h. if ind tid = 0 then heappush (key tid) h else h) xs h0"
      "distinct xs" "sorted h0" "distinct (map entry_id h0)" "entry_id ` set h0 \<inter> set xs = {}"
      "\<forall>x \<in> set h0. x = key (entry_id x)" for xs h0 h'
    using that
  proof (induction xs arbitrary: h0)
    case (Cons x xs)
    let ?h = "if ind x = 0 then heappush (key x) h0 else h0"
    have "sorted h' \<and> entry_id ` set h' = entry_id ` set ?h \<union> {v \<in> set xs. ind v = 0} \<and>
      distinct (map entry_id h') \<and> (\<forall>x \<in> set h'. x = key (entry_id x))"
      using Cons.prems assms(2) by (intro Cons.IH) (auto simp: distinct_ids_heappush)
    then show ?case using assms(2) by auto
  qed auto
  from this [of h "map fst tasks" "[]"] assms
  show "sorted h" and "entry_id ` set h = {v \<in> fst ` set tasks. ind v = 0}"
    and "distinct (map entry_id h)" and "\<forall>x \<in> set h. x = key (entry_id x)"
    by (auto simp: initial_heap_def)
qed

lemma kahn_inv_initial:
  assumes "distinct (map fst tasks)" and "fdeps = filtered_deps tasks deps"
    and "key = heap_key prio tasks"
  shows "kahn_inv key fdeps (fst ` set tasks) (initial_indegree fdeps)
    (initial_heap key tasks (initial_indegree fdeps)) []"
proof -
  have "initial_indegree fdeps = pending fdeps []"
    by (rule ext) (simp add: initial_indegree_eq pending_def)
  then show ?thesis
    using initial_heap_spec [OF refl _ assms(1), of key "initial_indegree fdeps"] assms(3)
    by (auto simp: kahn_inv_def)
qed

lemma filtered_deps_closed:
  "d \<in> set (filtered_deps tasks deps) \<Longrightarrow>
     predecessor_task_id d \<in> fst ` set tasks \<and> successor_task_id d \<in> fst ` set tasks"
  by (simp add: filtered_deps_def)

definition project_order :: "tasks_by_id \<Rightarrow> task_dependency list \<Rightarrow> (task \<Rightarrow> int) \<Rightarrow> string list" where
  "project_order tasks deps prio =
     (let fdeps = filtered_deps tasks deps; key = heap_key prio tasks; ind = initial_indegree fdeps
      in kahn_loop key (group_by_key predecessor_task_id fdeps) ind (initial_heap key tasks ind) [])"

lemma build_graph_eq:
  "build_project_dependency_graph tasks deps prio =
     (if length (project_order tasks deps prio) \<noteq> length tasks
      then Inl (BusinessRuleError ''SCHEDULE_CYCLE'')
      else Inr \<lparr>topo_order = project_order tasks deps prio,
                deps_by_successor = group_by_key successor_task_id (filtered_deps tasks deps),
                deps_by_predecessor = group_by_key predecessor_task_id (filtered_deps tasks deps)\<rparr>)"
  by (simp add: build_project_dependency_graph_def project_order_def Let_def)

lemma project_order_topological:
  assumes "distinct (map fst tasks)"
  shows "topological (filtered_deps tasks deps) (fst ` set tasks) (project_order tasks deps prio)"
  unfolding project_order_def Let_def
  by (rule kahn_loop_topological [OF kahn_inv_initial [OF assms refl refl]])
    (simp_all add: filtered_deps_closed)

lemma project_order_complete_iff:
  assumes "distinct (map fst tasks)"
  shows "length (project_order tasks deps prio) = length tasks \<longleftrightarrow>
    set (project_order tasks deps prio) = fst ` set tasks"
proof -
  let ?topo = "project_order tasks deps prio"
  have t: "distinct ?topo" "set ?topo \<subseteq> fst ` set tasks"
    using project_order_topological [OF assms] by (auto simp: topological_def)
  have card: "card (set ?topo) = length ?topo" "card (fst ` set tasks) = length tasks"
    using t(1) distinct_card [OF assms] by (simp_all add: distinct_card)
  show ?thesis
    using t(2) card by (metis List.finite_set card_subset_eq finite_imageI)
qed

lemma precedes_trans:
  assumes "distinct xs" "precedes xs a b" "precedes xs b c"
  shows "precedes xs a c"
proof -
  obtain us vs where c: "xs = us @ c # vs" "b \<in> set us"
    using assms(3) by (auto simp: precedes_def)
  obtain us' vs' where b: "xs = us' @ b # vs'" "a \<in> set us'"
    using assms(2) by (auto simp: precedes_def)
  obtain p q where us: "us = p @ b # q"
    using c(2) by (meson split_list)
  have eq: "p @ b # q @ c # vs = us' @ b # vs'"
    using b c us by simp
  have "distinct (p @ b # q @ c # vs)"
    using assms(1) c us by simp
  then have "b \<notin> set p" "b \<notin> set (q @ c # vs)"
    by auto
  then have "p = us'"
    using eq append_Cons_eq_iff [of b p "q @ c # vs" us' vs'] by blast
  then have "a \<in> set us"
    using b us by simp
  then show ?thesis
    using c(1) unfolding precedes_def by blast
qed

lemma precedes_irrefl: "distinct xs \<Longrightarrow> \<not> precedes xs a a"
  by (auto simp: precedes_def)

lemma precedes_acyclic:
  assumes "distinct xs" "\<forall>(a, b) \<in> E. precedes xs a b"
  shows "acyclic E"
proof -
  have step: "precedes xs a b" if "(a, b) \<in> E" for a b
    using assms(2) that by auto
  have "precedes xs a b" if "(a, b) \<in> E\<^sup>+" for a b
    using that
  proof (induction rule: trancl_induct)
    case (base b)
    then show ?case by (rule step)
  next
    case (step b c)
    then show ?case using assms(1) assms(2) precedes_trans by fast
  qed
  then show ?thesis
    using precedes_irrefl [OF assms(1)] unfolding acyclic_def by blast
qed

lemma finite_dep_edges [simp]: "finite (dep_edges deps)"
  by (simp add: dep_edges_def)

lemma acyclic_order_complete:
  assumes "topological deps T topo" "acyclic (dep_edges deps)"
    and closed: "\<forall>d \<in> set deps. predecessor_task_id d \<in> T"
  shows "set topo = T"
proof (rule ccontr)
  assume "set topo \<noteq> T"
  then obtain v0 where v0: "v0 \<in> T - set topo"
    using assms(1) by (auto simp: topological_def)
  have "wf (dep_edges deps)"
    using assms(2) by (simp add: finite_acyclic_wf)
  then obtain v where v: "v \<in> T - set topo" "\<And>u. (u, v) \<in> dep_edges deps \<Longrightarrow> u \<notin> T - set topo"
    using wfE_min [OF _ v0] by metis
  have "0 < pending deps topo v"
    using assms(1) v(1) by (simp add: topological_def)
  then obtain d where "d \<in> set deps" "successor_task_id d = v" "predecessor_task_id d \<notin> set topo"
    using pending_0_iff [of deps topo v] by auto
  then show False
    using v(2) closed by (auto simp: dep_edges_def image_iff)
qed

text \<open>
  C4: When the dependency graph is built, the computed order lists every task of the project
  exactly once and puts the predecessor of every dependency between two of these tasks before
  its successor.
\<close>

theorem build_graph_topological:
  assumes "distinct (map fst tasks)" and "build_project_dependency_graph tasks deps prio = Inr g"
  shows "distinct (topo_order g) \<and> set (topo_order g) = fst ` set tasks \<and>
    (\<forall>d \<in> set (filtered_deps tasks deps).
       precedes (topo_order g) (predecessor_task_id d) (successor_task_id d))"
proof -
  have g: "topo_order g = project_order tasks deps prio"
      "length (project_order tasks deps prio) = length tasks"
    using assms(2) by (auto simp: build_graph_eq split: if_splits)
  then have "set (topo_order g) = fst ` set tasks"
    using project_order_complete_iff [OF assms(1)] by simp
  then show ?thesis
    using project_order_topological [OF assms(1), of deps prio] g(1) filtered_deps_closed
    by (auto simp: topological_def)
qed

lemma project_order_acyclic_iff:
  assumes "distinct (map fst tasks)"
  shows "length (project_order tasks deps prio) = length tasks \<longleftrightarrow> acyclic (dep_edges (filtered_deps tasks deps))"
proof -
  let ?topo = "project_order tasks deps prio" and ?D = "filtered_deps tasks deps"
  have top: "topological ?D (fst ` set tasks) ?topo"
    by (rule project_order_topological [OF assms])
  have "acyclic (dep_edges ?D)" if "set ?topo = fst ` set tasks"
    by (rule precedes_acyclic [of ?topo])
      (use top that filtered_deps_closed in \<open>auto simp: topological_def dep_edges_def\<close>)
  moreover have "set ?topo = fst ` set tasks" if "acyclic (dep_edges ?D)"
    by (rule acyclic_order_complete [OF top that]) (simp add: filtered_deps_closed)
  ultimately show ?thesis
    using project_order_complete_iff [OF assms] by blast
qed

text \<open>
  C26: Building the graph raises SCHEDULE_CYCLE exactly when the dependencies between tasks of
  the project contain a cycle; there is no other failure.
\<close>

theorem build_graph_cycle_iff:
  assumes "distinct (map fst tasks)"
  shows "build_project_dependency_graph tasks deps prio = Inl err \<longleftrightarrow>
    err = BusinessRuleError ''SCHEDULE_CYCLE'' \<and> \<not> acyclic (dep_edges (filtered_deps tasks deps))"
  using project_order_acyclic_iff [OF assms] by (auto simp: build_graph_eq)

text \<open>
  The order is greedy in the priority: a task taken before another one that was already
  ready at that point has the smaller (priority, name, id).
\<close>

theorem build_graph_priority:
  assumes "distinct (map fst tasks)" and "build_project_dependency_graph tasks deps prio = Inr g"
    and "topo_order g = pre @ u # vs" and "v \<in> set vs"
    and "\<forall>d \<in> set (filtered_deps tasks deps).
      successor_task_id d = v \<longrightarrow> predecessor_task_id d \<in> set pre"
  shows "heap_key prio tasks u \<le> heap_key prio tasks v"
proof -
  have "project_order tasks deps prio = pre @ u # vs"
    using assms(2,3) by (auto simp: build_graph_eq split: if_splits)
  then show ?thesis
    using assms(4,5) unfolding project_order_def Let_def
    by (intro kahn_loop_greedy [OF kahn_inv_initial [OF assms(1) refl refl]])
      (simp_all add: filtered_deps_closed)
qed

end
