(* ===== verification/Schedule_Passes.thy ===== *)
theory Schedule_Passes
  imports Work_Calendar Schedule_Graph
begin

text \<open>
  The critical-path computation: the dates of one task (the methods of
  \<^verbatim>\<open>SchedulingEngine\<close> in \<^verbatim>\<open>services/scheduling/engine.py\<close> and
  \<^verbatim>\<open>date_compute.py\<close>), the forward and backward passes (\<^verbatim>\<open>passes.py\<close>) and the
  schedule result (\<^verbatim>\<open>results.py\<close>, \<^verbatim>\<open>models.py\<close>).
\<close>

section \<open>The dates of one task\<close>

text \<open>
  The dictionaries \<open>es\<close>, \<open>ef\<close>, \<open>ls\<close> and \<open>lf\<close> hold \<open>None\<close> for every task of the
  project at first, and no key is ever removed or added: a missing key and a stored
  \<open>None\<close> are read alike (\<open>es.get\<close>), so each is a function into \<open>date option\<close>.
\<close>

type_synonym date_map = "string \<Rightarrow> date option"

type_synonym dates = "date option \<times> date option"

text \<open>The values a loop appends for some of the elements.\<close>

definition candidates :: "('a \<Rightarrow> 'b option result) \<Rightarrow> 'a list \<Rightarrow> 'b list result" where
  "candidates f xs = rbind (rmap f xs) (\<lambda>ys. Inr (List.map_filter (\<lambda>y. y) ys))"

definition some_date :: "date result \<Rightarrow> date option result" where
  "some_date r = rbind r (\<lambda>d. Inr (Some d))"

definition milestone_candidate ::
  "calendar_engine \<Rightarrow> date_map \<Rightarrow> date_map \<Rightarrow> task_dependency \<Rightarrow> date option result" where
  "milestone_candidate e es ef dep =
     (let pred_es = es (predecessor_task_id dep); pred_ef = ef (predecessor_task_id dep) in
      if pred_es = None \<and> pred_ef = None then Inr None
      else (case dependency_type dep of
              FINISH_TO_START \<Rightarrow>
                (case pred_ef of Some d \<Rightarrow> some_date (add_working_days e d (lag_days dep + 2)) | None \<Rightarrow> Inr None)
            | START_TO_START \<Rightarrow>
                (case pred_es of Some d \<Rightarrow> some_date (add_working_days e d (lag_days dep)) | None \<Rightarrow> Inr None)
            | FINISH_TO_FINISH \<Rightarrow>
                (case pred_ef of Some d \<Rightarrow> some_date (add_working_days e d (lag_days dep)) | None \<Rightarrow> Inr None)
            | START_TO_FINISH \<Rightarrow>
                (case pred_es of Some d \<Rightarrow> some_date (add_working_days e d (lag_days dep)) | None \<Rightarrow> Inr None)))"

definition compute_dates_milestone ::
  "calendar_engine \<Rightarrow> task \<Rightarrow> task_dependency list \<Rightarrow> date_map \<Rightarrow> date_map \<Rightarrow> dates result" where
  "compute_dates_milestone e t incoming es ef =
     (if incoming = [] then Inr (t_start_date t, t_start_date t)
      else rbind (candidates (milestone_candidate e es ef) incoming) (\<lambda>cands.
        if cands = [] then Inr (t_start_date t, t_start_date t)
        else Inr (Some (Max (set cands)), Some (Max (set cands)))))"

text \<open>The start that lets a task of the given duration finish on \<open>ef_s\<close>.\<close>

definition start_for_finish :: "calendar_engine \<Rightarrow> date \<Rightarrow> int \<Rightarrow> date result" where
  "start_for_finish e ef_s duration =
     (if duration > 0 then add_working_days e ef_s (- (duration - 1)) else Inr ef_s)"

definition duration_candidate ::
  "calendar_engine \<Rightarrow> int \<Rightarrow> date_map \<Rightarrow> date_map \<Rightarrow> task_dependency \<Rightarrow> date option result" where
  "duration_candidate e duration es ef dep =
     (let pred_es = es (predecessor_task_id dep); pred_ef = ef (predecessor_task_id dep) in
      if pred_es = None \<and> pred_ef = None then Inr None
      else (case dependency_type dep of
              FINISH_TO_START \<Rightarrow>
                (case pred_ef of Some d \<Rightarrow> some_date (add_working_days e d (lag_days dep + 2)) | None \<Rightarrow> Inr None)
            | START_TO_START \<Rightarrow>
                (case pred_es of Some d \<Rightarrow> some_date (add_working_days e d (lag_days dep)) | None \<Rightarrow> Inr None)
            | FINISH_TO_FINISH \<Rightarrow>
                (case pred_ef of
                   Some d \<Rightarrow> some_date (rbind (add_working_days e d (lag_days dep))
                                          (\<lambda>ef_s. start_for_finish e ef_s duration))
                 | None \<Rightarrow> Inr None)
            | START_TO_FINISH \<Rightarrow>
                (case pred_es of
                   Some d \<Rightarrow> some_date (rbind (add_working_days e d (lag_days dep))
                                          (\<lambda>ef_s. start_for_finish e ef_s duration))
                 | None \<Rightarrow> Inr None)))"

text \<open>The two branches that start from the task's own start date.\<close>

definition dates_from_start :: "calendar_engine \<Rightarrow> task \<Rightarrow> int \<Rightarrow> dates result" where
  "dates_from_start e t duration =
     (case t_start_date t of
        Some est \<Rightarrow> rbind (add_working_days e est duration) (\<lambda>eft. Inr (Some est, Some eft))
      | None \<Rightarrow> Inr (None, None))"

definition compute_dates_with_duration ::
  "calendar_engine \<Rightarrow> task \<Rightarrow> task_dependency list \<Rightarrow> date_map \<Rightarrow> date_map \<Rightarrow> int \<Rightarrow> dates result" where
  "compute_dates_with_duration e t incoming es ef duration =
     (if incoming = [] then dates_from_start e t duration
      else rbind (candidates (duration_candidate e duration es ef) incoming) (\<lambda>cands.
        if cands = [] then dates_from_start e t duration
        else rbind (add_working_days e (Max (set cands)) duration) (\<lambda>eft.
          Inr (Some (Max (set cands)), Some eft))))"

definition apply_actual_constraints ::
  "calendar_engine \<Rightarrow> task \<Rightarrow> date option \<Rightarrow> date option \<Rightarrow> int \<Rightarrow> dates result" where
  "apply_actual_constraints e t est eft duration =
     (case t_actual_end t of
        Some fixed_ef \<Rightarrow>
          (case t_actual_start t of
             Some a_start \<Rightarrow> Inr (Some a_start, Some fixed_ef)
           | None \<Rightarrow>
               rbind (start_for_finish e fixed_ef duration) (\<lambda>fixed_es. Inr (Some fixed_es, Some fixed_ef)))
      | None \<Rightarrow>
          (case t_actual_start t of
             None \<Rightarrow> Inr (est, eft)
           | Some a_start \<Rightarrow>
               (if (case est of None \<Rightarrow> True | Some d \<Rightarrow> a_start > d) then
                  (if duration \<le> 0 then Inr (Some a_start, Some a_start)
                   else rbind (add_working_days e a_start duration) (\<lambda>d. Inr (Some a_start, Some d)))
                else Inr (est, eft))))"

type_synonym milestone_fn = "task \<Rightarrow> task_dependency list \<Rightarrow> date_map \<Rightarrow> date_map \<Rightarrow> dates result"
type_synonym duration_fn = "task \<Rightarrow> task_dependency list \<Rightarrow> date_map \<Rightarrow> date_map \<Rightarrow> int \<Rightarrow> dates result"
type_synonym actual_fn = "task \<Rightarrow> date option \<Rightarrow> date option \<Rightarrow> int \<Rightarrow> dates result"

definition compute_task_dates_common ::
  "task \<Rightarrow> task_dependency list \<Rightarrow> date_map \<Rightarrow> date_map \<Rightarrow> milestone_fn \<Rightarrow> duration_fn \<Rightarrow> actual_fn
     \<Rightarrow> dates result" where
  "compute_task_dates_common t incoming es ef compute_milestone compute_with_duration apply_actual =
     (let duration = duration_of t in
      rbind (if duration \<le> 0 then compute_milestone t incoming es ef
             else compute_with_duration t incoming es ef duration)
        (\<lambda>(est, eft). apply_actual t est eft duration))"

definition compute_task_dates ::
  "calendar_engine \<Rightarrow> task \<Rightarrow> task_dependency list \<Rightarrow> date_map \<Rightarrow> date_map \<Rightarrow> dates result" where
  "compute_task_dates e t incoming es ef =
     compute_task_dates_common t incoming es ef (compute_dates_milestone e)
       (compute_dates_with_duration e) (apply_actual_constraints e)"

section \<open>The forward pass\<close>

type_synonym compute_fn = "task \<Rightarrow> task_dependency list \<Rightarrow> date_map \<Rightarrow> date_map \<Rightarrow> dates result"

definition lookup_task :: "tasks_by_id \<Rightarrow> string \<Rightarrow> task result" where
  "lookup_task tasks tid = (case map_of tasks tid of None \<Rightarrow> Inl KeyError | Some t \<Rightarrow> Inr t)"

definition forward_step ::
  "tasks_by_id \<Rightarrow> (string, task_dependency list) dict \<Rightarrow> compute_fn \<Rightarrow> string
     \<Rightarrow> date_map \<times> date_map \<Rightarrow> (date_map \<times> date_map) result" where
  "forward_step tasks by_succ compute tid m =
     (let (es, ef) = m in
      rbind (lookup_task tasks tid) (\<lambda>t.
      rbind (compute t (dict_get_list by_succ tid) es ef) (\<lambda>(est, eft).
      Inr (es(tid := est), ef(tid := eft)))))"

definition run_forward_pass ::
  "tasks_by_id \<Rightarrow> string list \<Rightarrow> (string, task_dependency list) dict \<Rightarrow> compute_fn
     \<Rightarrow> (date_map \<times> date_map \<times> date) result" where
  "run_forward_pass tasks topo by_succ compute =
     rbind (rfold (forward_step tasks by_succ compute) topo (\<lambda>_. None, \<lambda>_. None)) (\<lambda>(es, ef).
       (let project_ef_dates = List.map_filter ef (map fst tasks) in
        if project_ef_dates = [] then Inl ValidationErr
        else Inr (es, ef, Max (set project_ef_dates))))"

section \<open>The backward pass\<close>

definition end_task_step ::
  "calendar_engine \<Rightarrow> tasks_by_id \<Rightarrow> date \<Rightarrow> string \<Rightarrow> date_map \<times> date_map \<Rightarrow> (date_map \<times> date_map) result" where
  "end_task_step e tasks project_early_finish tid m =
     (let (ls, lf) = m in
      rbind (lookup_task tasks tid) (\<lambda>t.
      (let duration = duration_of t; lf' = lf(tid := Some project_early_finish) in
       if duration \<le> 0 then Inr (ls(tid := Some project_early_finish), lf')
       else rbind (add_working_days e project_early_finish (- (duration - 1))) (\<lambda>d.
         Inr (ls(tid := Some d), lf')))))"

text \<open>One outgoing dependency gives a candidate for the late finish or for the late start.\<close>

datatype late_candidate = CandLF date | CandLS date

definition backward_candidate ::
  "calendar_engine \<Rightarrow> date_map \<Rightarrow> date_map \<Rightarrow> task_dependency \<Rightarrow> late_candidate option result" where
  "backward_candidate e ls lf dep =
     (let succ_ls = ls (successor_task_id dep); succ_lf = lf (successor_task_id dep) in
      if succ_ls = None \<and> succ_lf = None then Inr None
      else (case dependency_type dep of
              FINISH_TO_START \<Rightarrow>
                (case succ_ls of
                   Some d \<Rightarrow> rbind (add_working_days e d (- (lag_days dep + 1))) (\<lambda>c. Inr (Some (CandLF c)))
                 | None \<Rightarrow> Inr None)
            | FINISH_TO_FINISH \<Rightarrow>
                (case succ_lf of
                   Some d \<Rightarrow> rbind (add_working_days e d (- lag_days dep)) (\<lambda>c. Inr (Some (CandLF c)))
                 | None \<Rightarrow> Inr None)
            | START_TO_START \<Rightarrow>
                (case succ_ls of
                   Some d \<Rightarrow> rbind (add_working_days e d (- lag_days dep)) (\<lambda>c. Inr (Some (CandLS c)))
                 | None \<Rightarrow> Inr None)
            | START_TO_FINISH \<Rightarrow>
                (case succ_lf of
                   Some d \<Rightarrow> rbind (add_working_days e d (- lag_days dep)) (\<lambda>c. Inr (Some (CandLS c)))
                 | None \<Rightarrow> Inr None)))"

definition cand_lf_dates :: "late_candidate list \<Rightarrow> date list" where
  "cand_lf_dates cs = List.map_filter (\<lambda>c. case c of CandLF d \<Rightarrow> Some d | CandLS _ \<Rightarrow> None) cs"

definition cand_ls_dates :: "late_candidate list \<Rightarrow> date list" where
  "cand_ls_dates cs = List.map_filter (\<lambda>c. case c of CandLS d \<Rightarrow> Some d | CandLF _ \<Rightarrow> None) cs"

text \<open>The late dates of a task with outgoing dependencies, from the candidates.\<close>

definition late_dates ::
  "calendar_engine \<Rightarrow> int \<Rightarrow> late_candidate list \<Rightarrow> dates \<Rightarrow> dates \<Rightarrow> dates result" where
  "late_dates e duration cs early old =
     (if cand_lf_dates cs \<noteq> [] then
        (let lf_candidate = Min (set (cand_lf_dates cs)) in
         if duration > 0 then
           rbind (add_working_days e lf_candidate (- (duration - 1))) (\<lambda>d. Inr (Some d, Some lf_candidate))
         else Inr (Some lf_candidate, Some lf_candidate))
      else if cand_ls_dates cs \<noteq> [] then
        (let ls_candidate = Min (set (cand_ls_dates cs)) in
         if duration > 0 then
           rbind (add_working_days e ls_candidate (duration - 1)) (\<lambda>d. Inr (Some ls_candidate, Some d))
         else Inr (Some ls_candidate, Some ls_candidate))
      else if fst early \<noteq> None then Inr early
      else Inr old)"

definition backward_step ::
  "calendar_engine \<Rightarrow> tasks_by_id \<Rightarrow> (string, task_dependency list) dict \<Rightarrow> date_map \<Rightarrow> date_map
     \<Rightarrow> string \<Rightarrow> date_map \<times> date_map \<Rightarrow> (date_map \<times> date_map) result" where
  "backward_step e tasks by_pred es ef tid m =
     (let (ls, lf) = m; outgoing = dict_get_list by_pred tid in
      if outgoing = [] then
        (if ls tid = None \<and> es tid \<noteq> None then Inr (ls(tid := es tid), lf(tid := ef tid))
         else Inr (ls, lf))
      else
        rbind (lookup_task tasks tid) (\<lambda>t.
        rbind (candidates (backward_candidate e ls lf) outgoing) (\<lambda>cs.
        rbind (late_dates e (duration_of t) cs (es tid, ef tid) (ls tid, lf tid)) (\<lambda>(l, f).
        Inr (ls(tid := l), lf(tid := f))))))"

definition run_backward_pass ::
  "calendar_engine \<Rightarrow> tasks_by_id \<Rightarrow> string list \<Rightarrow> (string, task_dependency list) dict \<Rightarrow> date_map
     \<Rightarrow> date_map \<Rightarrow> date \<Rightarrow> (date_map \<times> date_map) result" where
  "run_backward_pass e tasks topo by_pred es ef project_early_finish =
     (let end_tasks = filter (\<lambda>tid. tid \<notin> fst ` set by_pred) (map fst tasks) in
      rbind (rfold (end_task_step e tasks project_early_finish) end_tasks (\<lambda>_. None, \<lambda>_. None))
        (rfold (backward_step e tasks by_pred es ef) (rev topo)))"

section \<open>The result\<close>

record cpm_task_info =
  ci_task :: task
  earliest_start :: "date option"
  earliest_finish :: "date option"
  latest_start :: "date option"
  latest_finish :: "date option"
  total_float_days :: "int option"
  is_critical :: bool
  ci_deadline :: "date option"
  late_by_days :: "int option"

text \<open>The assignment of the computed dates to the task object.\<close>

definition schedule_task :: "task \<Rightarrow> date option \<Rightarrow> date option \<Rightarrow> task" where
  "schedule_task t est eft =
     (let t1 = (if t_actual_start t = None then t\<lparr>t_start_date := est\<rparr> else t)
      in if t_actual_end t = None then t1\<lparr>t_end_date := eft\<rparr> else t1)"

definition total_float :: "calendar_engine \<Rightarrow> date option \<Rightarrow> date option \<Rightarrow> int option result" where
  "total_float e est lst =
     (case (est, lst) of
        (Some s, Some l) \<Rightarrow>
          (if l < s then Inr (Some 0)
           else rbind (working_days_between e s l) (\<lambda>days. Inr (Some (max 0 (days - 1)))))
      | _ \<Rightarrow> Inr None)"

definition late_by :: "calendar_engine \<Rightarrow> date option \<Rightarrow> date option \<Rightarrow> int option result" where
  "late_by e deadline eft =
     (case (deadline, eft) of
        (Some d, Some f) \<Rightarrow>
          (if f > d then
             rbind (add_working_days e d 1) (\<lambda>first_day.
             rbind (working_days_between e first_day f) (\<lambda>n. Inr (Some n)))
           else Inr None)
      | _ \<Rightarrow> Inr None)"

definition task_info ::
  "calendar_engine \<Rightarrow> date_map \<Rightarrow> date_map \<Rightarrow> date_map \<Rightarrow> date_map \<Rightarrow> string \<times> task
     \<Rightarrow> (string \<times> cpm_task_info) result" where
  "task_info e es ef ls lf p =
     (let (tid, t) = p in
      rbind (total_float e (es tid) (ls tid)) (\<lambda>fl.
      rbind (late_by e (t_deadline t) (ef tid)) (\<lambda>late.
      Inr (tid, \<lparr>ci_task = schedule_task t (es tid) (ef tid),
                 earliest_start = es tid, earliest_finish = ef tid,
                 latest_start = ls tid, latest_finish = lf tid,
                 total_float_days = fl, is_critical = (fl = Some 0),
                 ci_deadline = t_deadline t, late_by_days = late\<rparr>))))"

definition build_schedule_result ::
  "calendar_engine \<Rightarrow> tasks_by_id \<Rightarrow> date_map \<Rightarrow> date_map \<Rightarrow> date_map \<Rightarrow> date_map
     \<Rightarrow> (string, cpm_task_info) dict result" where
  "build_schedule_result e tasks es ef ls lf = rmap (task_info e es ef ls lf) tasks"

text \<open>
  The computation shared by \<open>recalculate_project_schedule\<close> and the preview of the
  dependency diagnostics: graph, forward pass, backward pass, result.
\<close>

definition compute_schedule ::
  "calendar_engine \<Rightarrow> (task \<Rightarrow> int) \<Rightarrow> compute_fn \<Rightarrow> tasks_by_id \<Rightarrow> task_dependency list
     \<Rightarrow> (string, cpm_task_info) dict result" where
  "compute_schedule e prio compute tasks deps =
     rbind (build_project_dependency_graph tasks deps prio) (\<lambda>g.
     rbind (run_forward_pass tasks (topo_order g) (deps_by_successor g) compute) (\<lambda>(es, ef, pef).
     rbind (run_backward_pass e tasks (topo_order g) (deps_by_predecessor g) es ef pef) (\<lambda>(ls, lf).
     build_schedule_result e tasks es ef ls lf)))"

end
