(* ===== verification/Schedule_Correct.thy ===== *)
theory Schedule_Correct
  imports Schedule_Passes
begin

text \<open>
  What the critical-path computation guarantees: both passes solve their equations (the
  dates of a task follow from the final dates of its neighbours), computed dates are dates,
  and the precedence, duration and float properties that follow.
\<close>

section \<open>Passes that write one task per step\<close>

definition dates_at :: "date_map \<times> date_map \<Rightarrow> string \<Rightarrow> dates" where
  "dates_at m v = (fst m v, snd m v)"

text \<open>
  The contract of a pass body: the step for a task writes the entries of this task only.
  Then every step ran with the final dates of all tasks that come before it in the order.
\<close>

locale dataflow_pass =
  fixes step :: "string \<Rightarrow> date_map \<times> date_map \<Rightarrow> (date_map \<times> date_map) result"
  assumes frame: "step tid m = Inr m' \<Longrightarrow> v \<noteq> tid \<Longrightarrow> dates_at m' v = dates_at m v"
begin

lemma fold_frame: "rfold step xs m = Inr m' \<Longrightarrow> v \<notin> set xs \<Longrightarrow> dates_at m' v = dates_at m v"
proof (induction xs arbitrary: m)
  case (Cons x xs)
  then obtain m1 where "step x m = Inr m1" "rfold step xs m1 = Inr m'" by auto
  then show ?case using Cons.IH [of m1] Cons.prems(2) frame [of x m m1 v] by simp
qed simp

lemma fold_at:
  assumes "rfold step order m0 = Inr m" and "distinct order" and "tid \<in> set order"
  obtains m1 m2 where "step tid m1 = Inr m2" and "dates_at m1 tid = dates_at m0 tid"
    and "dates_at m2 tid = dates_at m tid"
    and "\<And>v. precedes order v tid \<or> v \<notin> set order \<Longrightarrow> dates_at m1 v = dates_at m v"
proof -
  obtain us vs where order: "order = us @ tid # vs"
    using assms(3) by (meson split_list)
  then obtain m1 m2 where run: "rfold step us m0 = Inr m1" "step tid m1 = Inr m2" "rfold step vs m2 = Inr m"
    using assms(1) by (auto simp: rfold_append)
  have before: "dates_at m1 v = dates_at m v" if "precedes order v tid \<or> v \<notin> set order" for v
  proof -
    have "v \<in> set us" if p: "precedes order v tid"
    proof -
      obtain us' vs' where "order = us' @ tid # vs'" "v \<in> set us'"
        using p by (auto simp: precedes_def)
      moreover have "tid \<notin> set us" "tid \<notin> set vs"
        using assms(2) order by auto
      ultimately show ?thesis
        using order append_Cons_eq_iff [of tid us vs us' vs'] by auto
    qed
    then have "v \<noteq> tid" "v \<notin> set vs"
      using that assms(2) order by auto
    then show ?thesis
      using fold_frame [OF run(3), of v] frame [OF run(2), of v] by simp
  qed
  show ?thesis
  proof (rule that [OF run(2)])
    show "dates_at m1 tid = dates_at m0 tid"
      using fold_frame [OF run(1), of tid] assms(2) order by simp
    show "dates_at m2 tid = dates_at m tid"
      using fold_frame [OF run(3), of tid] assms(2) order by simp
  qed (rule before)
qed

end

interpretation forward: dataflow_pass "forward_step tasks by_succ compute" for tasks by_succ compute
  by unfold_locales (auto simp: forward_step_def dates_at_def Let_def split: prod.splits)

interpretation backward: dataflow_pass "backward_step e tasks by_pred es ef" for e tasks by_pred es ef
  by unfold_locales
    (auto simp: backward_step_def dates_at_def Let_def split: prod.splits if_splits)

interpretation end_tasks: dataflow_pass "end_task_step e tasks pef" for e tasks pef
  by unfold_locales
    (auto simp: end_task_step_def dates_at_def Let_def split: prod.splits if_splits)

section \<open>The forward pass solves its equations\<close>

lemma set_map_filter_eq: "set (List.map_filter f xs) = {y. \<exists>x \<in> set xs. f x = Some y}"
  by (induction xs) (auto simp: List.map_filter_simps split: option.splits)

lemma set_map_filter_id: "set (List.map_filter (\<lambda>y. y) ys) = {c. Some c \<in> set ys}"
  by (auto simp: set_map_filter_eq)

lemma candidates_set:
  "candidates f xs = Inr cs \<Longrightarrow> set cs = {c. \<exists>x \<in> set xs. f x = Inr (Some c)}"
  by (auto simp: candidates_def set_map_filter_id rmap_Inr_set)

lemma candidates_Inr_mem:
  "candidates f xs = Inr cs \<Longrightarrow> x \<in> set xs \<Longrightarrow> \<exists>y. f x = Inr y"
  by (auto simp: candidates_def dest: rmap_Inr_mem)

lemma candidates_cong:
  "(\<And>x. x \<in> set xs \<Longrightarrow> f x = g x) \<Longrightarrow> candidates f xs = candidates g xs"
  by (simp add: candidates_def cong: rmap_cong)

definition reads_only_preds :: "compute_fn \<Rightarrow> bool" where
  "reads_only_preds compute \<longleftrightarrow>
     (\<forall>t incoming es ef es' ef'.
        (\<forall>d \<in> set incoming. dates_at (es, ef) (predecessor_task_id d) = dates_at (es', ef') (predecessor_task_id d)) \<longrightarrow>
        compute t incoming es ef = compute t incoming es' ef')"

lemma compute_task_dates_reads: "reads_only_preds (compute_task_dates e)"
proof -
  have "compute_task_dates e t incoming es ef = compute_task_dates e t incoming es' ef'"
    if *: "\<forall>d \<in> set incoming.
      dates_at (es, ef) (predecessor_task_id d) = dates_at (es', ef') (predecessor_task_id d)"
    for t incoming es ef es' ef'
  proof -
    have "candidates (milestone_candidate e es ef) incoming = candidates (milestone_candidate e es' ef') incoming"
      by (rule candidates_cong) (use * in \<open>simp add: milestone_candidate_def dates_at_def\<close>)
    moreover have "candidates (duration_candidate e n es ef) incoming = candidates (duration_candidate e n es' ef') incoming" for n
      by (rule candidates_cong) (use * in \<open>simp add: duration_candidate_def dates_at_def\<close>)
    ultimately show ?thesis
      by (simp add: compute_task_dates_def compute_task_dates_common_def compute_dates_milestone_def
          compute_dates_with_duration_def Let_def)
  qed
  then show ?thesis by (simp add: reads_only_preds_def)
qed

lemma forward_pass_solution:
  assumes run: "run_forward_pass tasks topo by_succ compute = Inr (es, ef, pef)"
    and "distinct topo" and "tid \<in> set topo" and "reads_only_preds compute"
    and pre: "\<And>d. d \<in> set (dict_get_list by_succ tid) \<Longrightarrow> precedes topo (predecessor_task_id d) tid"
  shows "\<exists>t. map_of tasks tid = Some t \<and>
    compute t (dict_get_list by_succ tid) es ef = Inr (es tid, ef tid)"
proof -
  have fold: "rfold (forward_step tasks by_succ compute) topo (\<lambda>_. None, \<lambda>_. None) = Inr (es, ef)"
    using run by (auto simp: run_forward_pass_def Let_def split: if_splits)
  obtain m1 m2 where step: "forward_step tasks by_succ compute tid m1 = Inr m2"
    and own: "dates_at m2 tid = dates_at (es, ef) tid"
    and before: "\<And>v. precedes topo v tid \<or> v \<notin> set topo \<Longrightarrow> dates_at m1 v = dates_at (es, ef) v"
    using forward.fold_at [OF fold assms(2,3)] by metis
  obtain es1 ef1 where m1: "m1 = (es1, ef1)" by (cases m1)
  obtain t p where t: "map_of tasks tid = Some t" and c: "compute t (dict_get_list by_succ tid) es1 ef1 = Inr p"
    and m2: "m2 = (es1(tid := fst p), ef1(tid := snd p))"
    using step m1 by (auto simp: forward_step_def lookup_task_def split: option.splits prod.splits)
  have "compute t (dict_get_list by_succ tid) es1 ef1 = compute t (dict_get_list by_succ tid) es ef"
    using assms(4) pre before m1 unfolding reads_only_preds_def by metis
  moreover have "p = (es tid, ef tid)"
    using own m2 by (simp add: dates_at_def)
  ultimately show ?thesis
    using t c by simp
qed

lemma forward_pass_finish:
  assumes "run_forward_pass tasks topo by_succ compute = Inr (es, ef, pef)"
  shows "tid \<in> fst ` set tasks \<Longrightarrow> ef tid = Some d \<Longrightarrow> d \<le> pef"
    and "\<exists>tid \<in> fst ` set tasks. ef tid = Some pef"
proof -
  let ?ds = "List.map_filter ef (map fst tasks)"
  have ds: "?ds \<noteq> []" "pef = Max (set ?ds)"
    using assms by (auto simp: run_forward_pass_def Let_def split: if_splits)
  have set: "set ?ds = {d. \<exists>tid \<in> fst ` set tasks. ef tid = Some d}"
    by (auto simp: set_map_filter_eq)
  show "d \<le> pef" if "tid \<in> fst ` set tasks" "ef tid = Some d"
  proof -
    have "d \<in> set ?ds" unfolding set using that by blast
    then show ?thesis unfolding ds(2) by simp
  qed
  have "pef \<in> set ?ds"
    unfolding ds(2) using ds(1) by (intro Max_in) auto
  then show "\<exists>tid \<in> fst ` set tasks. ef tid = Some pef"
    using set by blast
qed

section \<open>The backward pass solves its equations\<close>

lemma precedes_rev: "precedes xs a b \<Longrightarrow> precedes (rev xs) b a"
proof -
  assume "precedes xs a b"
  then obtain us vs p q where "xs = us @ b # vs" "us = p @ a # q"
    unfolding precedes_def by (metis split_list)
  then have "rev xs = (rev vs @ b # rev q) @ a # rev p"
    by simp
  then show ?thesis
    unfolding precedes_def by fastforce
qed

lemma backward_candidate_cong:
  "dates_at (ls, lf) (successor_task_id d) = dates_at (ls', lf') (successor_task_id d) \<Longrightarrow>
     backward_candidate e ls lf d = backward_candidate e ls' lf' d"
  by (simp add: backward_candidate_def dates_at_def)

text \<open>The late dates of a task without successors.\<close>

definition end_task_dates :: "calendar_engine \<Rightarrow> date \<Rightarrow> int \<Rightarrow> dates result" where
  "end_task_dates e pef duration =
     (if duration \<le> 0 then Inr (Some pef, Some pef)
      else rbind (add_working_days e pef (- (duration - 1))) (\<lambda>d. Inr (Some d, Some pef)))"

lemma backward_pass_solution:
  assumes run: "run_backward_pass e tasks topo by_pred es ef pef = Inr (ls, lf)"
    and topo: "distinct topo" "set topo = fst ` set tasks" and dist: "distinct (map fst tasks)"
    and grp: "by_pred = group_by_key predecessor_task_id fdeps" and tid: "tid \<in> fst ` set tasks"
    and order: "\<And>d. d \<in> set fdeps \<Longrightarrow> precedes topo (predecessor_task_id d) (successor_task_id d)"
  defines "outgoing \<equiv> filter (\<lambda>d. predecessor_task_id d = tid) fdeps"
  shows "\<exists>t. map_of tasks tid = Some t \<and>
    (if outgoing = [] then end_task_dates e pef (duration_of t)
     else rbind (candidates (backward_candidate e ls lf) outgoing)
            (\<lambda>cs. late_dates e (duration_of t) cs (es tid, ef tid) (None, None)))
    = Inr (ls tid, lf tid)"
proof -
  let ?ends = "filter (\<lambda>tid. tid \<notin> fst ` set by_pred) (map fst tasks)"
  have keys: "fst ` set by_pred = predecessor_task_id ` set fdeps"
    unfolding grp using dom_group_by_key [of predecessor_task_id fdeps] by (simp add: dom_map_of_conv_image_fst)
  have is_end: "tid \<in> set ?ends \<longleftrightarrow> outgoing = []"
    using tid by (auto simp: keys outgoing_def filter_empty_conv)
  have out: "dict_get_list by_pred tid = outgoing"
    by (simp add: grp outgoing_def)
  obtain m0 where m0: "rfold (end_task_step e tasks pef) ?ends (\<lambda>_. None, \<lambda>_. None) = Inr m0"
    and fold: "rfold (backward_step e tasks by_pred es ef) (rev topo) m0 = Inr (ls, lf)"
    using run by (auto simp: run_backward_pass_def Let_def)
  obtain m1 m2 where step: "backward_step e tasks by_pred es ef tid m1 = Inr m2"
    and old: "dates_at m1 tid = dates_at m0 tid" and own: "dates_at m2 tid = dates_at (ls, lf) tid"
    and before: "\<And>v. precedes (rev topo) v tid \<or> v \<notin> set (rev topo) \<Longrightarrow> dates_at m1 v = dates_at (ls, lf) v"
    using backward.fold_at [OF fold] topo tid by (metis distinct_rev set_rev)
  obtain ls1 lf1 where m1: "m1 = (ls1, lf1)" by (cases m1)
  obtain t where t: "map_of tasks tid = Some t"
    using tid by (metis map_of_eq_None_iff not_None_eq)
  show ?thesis
  proof (cases "outgoing = []")
    case True
    then obtain n1 n2 where "end_task_step e tasks pef tid n1 = Inr n2" "dates_at n2 tid = dates_at m0 tid"
      using end_tasks.fold_at [OF m0] is_end dist by (metis distinct_filter)
    then have "end_task_dates e pef (duration_of t) = Inr (dates_at m0 tid)"
      using t by (cases n1)
        (auto simp: end_task_step_def end_task_dates_def lookup_task_def Let_def dates_at_def
          split: if_splits)
    moreover from this have "dates_at m0 tid = dates_at (ls, lf) tid"
      using step old own m1 out True
      by (auto simp: backward_step_def dates_at_def end_task_dates_def split: if_splits)
    ultimately show ?thesis
      using t True by (simp add: dates_at_def)
  next
    case False
    have "dates_at m0 tid = (None, None)"
      using end_tasks.fold_frame [OF m0, of tid] is_end False by (simp add: dates_at_def)
    then have none: "ls1 tid = None" "lf1 tid = None"
      using old m1 by (simp_all add: dates_at_def)
    have "candidates (backward_candidate e ls1 lf1) outgoing = candidates (backward_candidate e ls lf) outgoing"
    proof (rule candidates_cong, rule backward_candidate_cong)
      fix d assume "d \<in> set outgoing"
      then have "precedes topo tid (successor_task_id d)"
        using order by (auto simp: outgoing_def)
      then have "precedes (rev topo) (successor_task_id d) tid"
        by (rule precedes_rev)
      then show "dates_at (ls1, lf1) (successor_task_id d) = dates_at (ls, lf) (successor_task_id d)"
        using before m1 by blast
    qed
    then show ?thesis
      using step own m1 out False t none
      by (auto simp: backward_step_def lookup_task_def dates_at_def split: prod.splits)
  qed
qed

section \<open>The result records the solution\<close>

definition es_of :: "(string, cpm_task_info) dict \<Rightarrow> date_map" where
  "es_of res tid = (case map_of res tid of None \<Rightarrow> None | Some i \<Rightarrow> earliest_start i)"

definition ef_of :: "(string, cpm_task_info) dict \<Rightarrow> date_map" where
  "ef_of res tid = (case map_of res tid of None \<Rightarrow> None | Some i \<Rightarrow> earliest_finish i)"

definition ls_of :: "(string, cpm_task_info) dict \<Rightarrow> date_map" where
  "ls_of res tid = (case map_of res tid of None \<Rightarrow> None | Some i \<Rightarrow> latest_start i)"

definition lf_of :: "(string, cpm_task_info) dict \<Rightarrow> date_map" where
  "lf_of res tid = (case map_of res tid of None \<Rightarrow> None | Some i \<Rightarrow> latest_finish i)"

lemma task_info_Inr:
  "task_info e es ef ls lf (tid, t) = Inr p \<Longrightarrow>
     fst p = tid \<and> earliest_start (snd p) = es tid \<and> earliest_finish (snd p) = ef tid \<and>
     latest_start (snd p) = ls tid \<and> latest_finish (snd p) = lf tid"
  by (auto simp: task_info_def)

lemma build_result_map_of:
  assumes "build_schedule_result e tasks es ef ls lf = Inr res"
  shows "case map_of tasks tid of
      None \<Rightarrow> map_of res tid = None
    | Some t \<Rightarrow> \<exists>i. map_of res tid = Some i \<and> task_info e es ef ls lf (tid, t) = Inr (tid, i)"
  using assms unfolding build_schedule_result_def
proof (induction tasks arbitrary: res)
  case (Cons x xs)
  obtain k t where x: "x = (k, t)" by (cases x)
  obtain p ys where p: "task_info e es ef ls lf x = Inr p" "rmap (task_info e es ef ls lf) xs = Inr ys" "res = p # ys"
    using Cons.prems by auto
  have "fst p = k" using task_info_Inr p(1) x by blast
  then show ?case using Cons.IH [OF p(2)] p x by (cases p) (auto split: option.splits)
qed simp

lemma build_result_keys:
  "build_schedule_result e tasks es ef ls lf = Inr res \<Longrightarrow> map fst res = map fst tasks"
  unfolding build_schedule_result_def
proof (induction tasks arbitrary: res)
  case (Cons x xs)
  then show ?case using task_info_Inr [of e es ef ls lf "fst x" "snd x"] by auto
qed simp

lemma build_result_dates:
  assumes "build_schedule_result e tasks es ef ls lf = Inr res"
    and "\<And>tid. tid \<notin> fst ` set tasks \<Longrightarrow> es tid = None \<and> ef tid = None \<and> ls tid = None \<and> lf tid = None"
  shows "es_of res = es" and "ef_of res = ef" and "ls_of res = ls" and "lf_of res = lf"
proof -
  have "es_of res tid = es tid \<and> ef_of res tid = ef tid \<and> ls_of res tid = ls tid \<and> lf_of res tid = lf tid" for tid
  proof (cases "map_of tasks tid")
    case None
    then have "tid \<notin> fst ` set tasks" by (simp add: map_of_eq_None_iff)
    then show ?thesis
      using build_result_map_of [OF assms(1), of tid] assms(2) None
      by (simp add: es_of_def ef_of_def ls_of_def lf_of_def)
  next
    case (Some t)
    then obtain i where i: "map_of res tid = Some i" "task_info e es ef ls lf (tid, t) = Inr (tid, i)"
      using build_result_map_of [OF assms(1), of tid] by auto
    then show ?thesis
      using task_info_Inr [OF i(2)] by (simp add: es_of_def ef_of_def ls_of_def lf_of_def)
  qed
  then show "es_of res = es" "ef_of res = ef" "ls_of res = ls" "lf_of res = lf"
    by (simp_all add: fun_eq_iff)
qed

definition incoming_deps :: "tasks_by_id \<Rightarrow> task_dependency list \<Rightarrow> string \<Rightarrow> task_dependency list" where
  "incoming_deps tasks deps tid = filter (\<lambda>d. successor_task_id d = tid) (filtered_deps tasks deps)"

definition outgoing_deps :: "tasks_by_id \<Rightarrow> task_dependency list \<Rightarrow> string \<Rightarrow> task_dependency list" where
  "outgoing_deps tasks deps tid = filter (\<lambda>d. predecessor_task_id d = tid) (filtered_deps tasks deps)"

lemma rfold_outside_None:
  assumes "rfold (forward_step tasks by_succ compute) topo (\<lambda>_. None, \<lambda>_. None) = Inr (es, ef)" "tid \<notin> set topo"
  shows "es tid = None \<and> ef tid = None"
  using forward.fold_frame [OF assms] by (simp add: dates_at_def)

lemma backward_outside_None:
  assumes "run_backward_pass e tasks topo by_pred es ef pef = Inr (ls, lf)"
    and "tid \<notin> set topo" "tid \<notin> fst ` set tasks"
  shows "ls tid = None \<and> lf tid = None"
proof -
  let ?ends = "filter (\<lambda>tid. tid \<notin> fst ` set by_pred) (map fst tasks)"
  obtain m0 where m0: "rfold (end_task_step e tasks pef) ?ends (\<lambda>_. None, \<lambda>_. None) = Inr m0"
    and fold: "rfold (backward_step e tasks by_pred es ef) (rev topo) m0 = Inr (ls, lf)"
    using assms(1) by (auto simp: run_backward_pass_def Let_def)
  have "dates_at m0 tid = (None, None)"
    using end_tasks.fold_frame [OF m0, of tid] assms(3) by (auto simp: dates_at_def)
  then show ?thesis
    using backward.fold_frame [OF fold, of tid] assms(2) by (simp add: dates_at_def)
qed

text \<open>Everything a successful computation says about the project, over its result.\<close>

lemma compute_schedule_facts:
  assumes run: "compute_schedule e prio compute tasks deps = Inr res"
    and dist: "distinct (map fst tasks)" and reads: "reads_only_preds compute"
  obtains pef where
    "\<And>tid t. map_of tasks tid = Some t \<Longrightarrow>
       compute t (incoming_deps tasks deps tid) (es_of res) (ef_of res) = Inr (es_of res tid, ef_of res tid)"
    and "\<And>tid t. map_of tasks tid = Some t \<Longrightarrow>
       (if outgoing_deps tasks deps tid = [] then end_task_dates e pef (duration_of t)
        else rbind (candidates (backward_candidate e (ls_of res) (lf_of res)) (outgoing_deps tasks deps tid))
               (\<lambda>cs. late_dates e (duration_of t) cs (es_of res tid, ef_of res tid) (None, None)))
       = Inr (ls_of res tid, lf_of res tid)"
    and "\<And>tid t. map_of tasks tid = Some t \<Longrightarrow>
       \<exists>i. map_of res tid = Some i \<and>
           task_info e (es_of res) (ef_of res) (ls_of res) (lf_of res) (tid, t) = Inr (tid, i)"
    and "\<And>tid d. ef_of res tid = Some d \<Longrightarrow> d \<le> pef"
    and "\<exists>tid \<in> fst ` set tasks. ef_of res tid = Some pef"
    and "map fst res = map fst tasks"
    and "rfold (forward_step tasks (group_by_key successor_task_id (filtered_deps tasks deps)) compute)
           (project_order tasks deps prio) (\<lambda>_. None, \<lambda>_. None) = Inr (es_of res, ef_of res)"
    and "run_backward_pass e tasks (project_order tasks deps prio)
           (group_by_key predecessor_task_id (filtered_deps tasks deps)) (es_of res) (ef_of res) pef
         = Inr (ls_of res, lf_of res)"
proof -
  obtain g es ef pef ls lf where
      g: "build_project_dependency_graph tasks deps prio = Inr g"
    and fw: "run_forward_pass tasks (topo_order g) (deps_by_successor g) compute = Inr (es, ef, pef)"
    and bw: "run_backward_pass e tasks (topo_order g) (deps_by_predecessor g) es ef pef = Inr (ls, lf)"
    and res: "build_schedule_result e tasks es ef ls lf = Inr res"
    using run by (auto simp: compute_schedule_def split: prod.splits)
  let ?F = "filtered_deps tasks deps"
  have gs: "deps_by_successor g = group_by_key successor_task_id ?F"
      "deps_by_predecessor g = group_by_key predecessor_task_id ?F"
    using g by (auto simp: build_graph_eq split: if_splits)
  have g_topo: "topo_order g = project_order tasks deps prio"
      "length (project_order tasks deps prio) = length tasks"
    using g by (auto simp: build_graph_eq split: if_splits)
  then have topo: "distinct (topo_order g)" "set (topo_order g) = fst ` set tasks"
    using project_order_topological [OF dist, of deps prio] project_order_complete_iff [OF dist, of deps prio]
    by (simp_all add: topological_def)
  have order: "precedes (topo_order g) (predecessor_task_id d) (successor_task_id d)" if "d \<in> set ?F" for d
    using project_order_topological [OF dist, of deps prio] topo(2) g_topo(1) filtered_deps_closed [OF that] that
    by (simp add: topological_def)
  have fwfold: "rfold (forward_step tasks (deps_by_successor g) compute) (topo_order g) (\<lambda>_. None, \<lambda>_. None) = Inr (es, ef)"
    using fw by (auto simp: run_forward_pass_def Let_def split: if_splits)
  have none: "es tid = None \<and> ef tid = None \<and> ls tid = None \<and> lf tid = None"
    if "tid \<notin> fst ` set tasks" for tid
    using rfold_outside_None [OF fwfold, of tid] backward_outside_None [OF bw, of tid] topo(2) that
    by simp
  have eqs: "es_of res = es" "ef_of res = ef" "ls_of res = ls" "lf_of res = lf"
    by (rule build_result_dates [OF res], erule none)+
  show ?thesis
  proof (rule that [of pef])
    fix tid t assume t: "map_of tasks tid = Some t"
    then have tid: "tid \<in> fst ` set tasks" by (metis map_of_eq_None_iff option.simps(3))
    have "\<exists>t. map_of tasks tid = Some t \<and>
        compute t (dict_get_list (deps_by_successor g) tid) es ef = Inr (es tid, ef tid)"
      by (rule forward_pass_solution [OF fw topo(1) _ reads]) (use tid topo order gs in auto)
    then show "compute t (incoming_deps tasks deps tid) (es_of res) (ef_of res) = Inr (es_of res tid, ef_of res tid)"
      using t by (simp add: eqs gs incoming_deps_def)
    obtain t' where t': "map_of tasks tid = Some t'"
      and late: "(if outgoing_deps tasks deps tid = [] then end_task_dates e pef (duration_of t')
        else rbind (candidates (backward_candidate e ls lf) (outgoing_deps tasks deps tid))
               (\<lambda>cs. late_dates e (duration_of t') cs (es tid, ef tid) (None, None)))
       = Inr (ls tid, lf tid)"
      using backward_pass_solution [OF bw topo dist gs(2) tid order] unfolding outgoing_deps_def by blast
    have "t' = t" using t t' by simp
    show "(if outgoing_deps tasks deps tid = [] then end_task_dates e pef (duration_of t)
        else rbind (candidates (backward_candidate e (ls_of res) (lf_of res)) (outgoing_deps tasks deps tid))
               (\<lambda>cs. late_dates e (duration_of t) cs (es_of res tid, ef_of res tid) (None, None)))
       = Inr (ls_of res tid, lf_of res tid)"
      using late unfolding eqs \<open>t' = t\<close> .
    show "\<exists>i. map_of res tid = Some i \<and>
        task_info e (es_of res) (ef_of res) (ls_of res) (lf_of res) (tid, t) = Inr (tid, i)"
      using build_result_map_of [OF res, of tid] t by (simp add: eqs)
  next
    fix tid d assume "ef_of res tid = Some d"
    then have "ef tid = Some d" by (simp add: eqs)
    moreover from this have "tid \<in> fst ` set tasks"
      using rfold_outside_None [OF fwfold, of tid] topo(2) by auto
    ultimately show "d \<le> pef"
      using forward_pass_finish(1) [OF fw] by blast
  next
    show "\<exists>tid \<in> fst ` set tasks. ef_of res tid = Some pef"
      using forward_pass_finish(2) [OF fw] by (simp add: eqs)
    show "map fst res = map fst tasks"
      by (rule build_result_keys [OF res])
    show "rfold (forward_step tasks (group_by_key successor_task_id ?F) compute)
           (project_order tasks deps prio) (\<lambda>_. None, \<lambda>_. None) = Inr (es_of res, ef_of res)"
      using fwfold by (simp add: eqs gs g_topo)
    show "run_backward_pass e tasks (project_order tasks deps prio)
           (group_by_key predecessor_task_id ?F) (es_of res) (ef_of res) pef = Inr (ls_of res, lf_of res)"
      using bw by (simp add: eqs gs g_topo)
  qed
qed

end
