(* ===== verification/Schedule_Properties.thy ===== *)
theory Schedule_Properties
  imports Schedule_Correct
begin

text \<open>
  The properties of the critical-path schedule: computed dates are dates, the early dates
  respect every dependency, the late dates leave room for every successor, and float and
  criticality mean what the result says.
\<close>

section \<open>Computed dates are dates\<close>

definition valid_opt :: "date option \<Rightarrow> bool" where
  "valid_opt d = (case d of None \<Rightarrow> True | Some x \<Rightarrow> valid_date x)"

definition valid_task :: "task \<Rightarrow> bool" where
  "valid_task t \<longleftrightarrow> valid_opt (t_start_date t) \<and> valid_opt (t_actual_start t) \<and> valid_opt (t_actual_end t)"

lemma valid_opt_simps [simp]: "valid_opt None" "valid_opt (Some d) = valid_date d"
  by (simp_all add: valid_opt_def)

lemma start_for_finish_valid:
  "valid_date d \<Longrightarrow> start_for_finish e d n = Inr c \<Longrightarrow> valid_date c"
  by (auto simp: start_for_finish_def dest: cal.add_valid split: if_splits)

lemma milestone_candidate_valid:
  assumes "milestone_candidate e es ef d = Inr (Some c)"
    and "valid_opt (es (predecessor_task_id d))" "valid_opt (ef (predecessor_task_id d))"
  shows "valid_date c"
  using assms
  by (auto simp: milestone_candidate_def some_date_def Let_def dest: cal.add_valid
      split: if_splits dependency_type.splits option.splits)

lemma duration_candidate_valid:
  assumes "duration_candidate e n es ef d = Inr (Some c)"
    and "valid_opt (es (predecessor_task_id d))" "valid_opt (ef (predecessor_task_id d))"
  shows "valid_date c"
  using assms
  by (auto simp: duration_candidate_def some_date_def Let_def
      dest: cal.add_valid start_for_finish_valid
      split: if_splits dependency_type.splits option.splits)

lemma Max_valid: "xs \<noteq> [] \<Longrightarrow> \<forall>x \<in> set xs. valid_date x \<Longrightarrow> valid_date (Max (set xs))"
  by (metis List.finite_set Max_in set_empty)

lemma Min_valid: "xs \<noteq> [] \<Longrightarrow> \<forall>x \<in> set xs. valid_date x \<Longrightarrow> valid_date (Min (set xs))"
  by (metis List.finite_set Min_in set_empty)

lemma dates_from_start_valid:
  "valid_task t \<Longrightarrow> dates_from_start e t n = Inr (a, b) \<Longrightarrow> valid_opt a \<and> valid_opt b"
  by (auto simp: dates_from_start_def valid_task_def dest: cal.add_valid split: option.splits)

lemma apply_actual_valid:
  assumes "valid_task t" "valid_opt a" "valid_opt b" "apply_actual_constraints e t a b n = Inr (c, d)"
  shows "valid_opt c \<and> valid_opt d"
proof -
  consider (neither) "t_actual_start t = None" "t_actual_end t = None"
    | (start) s where "t_actual_start t = Some s" "t_actual_end t = None"
    | (finished) f where "t_actual_end t = Some f"
    by (metis option.exhaust)
  then show ?thesis
    using assms
    by cases (auto simp: apply_actual_constraints_def valid_task_def valid_opt_def
      dest: cal.add_valid start_for_finish_valid split: option.splits if_splits)
qed

lemma compute_milestone_valid:
  assumes "valid_task t"
    and "\<forall>d \<in> set inc. valid_opt (es (predecessor_task_id d)) \<and> valid_opt (ef (predecessor_task_id d))"
    and "compute_dates_milestone e t inc es ef = Inr (a, b)"
  shows "valid_opt a \<and> valid_opt b"
proof (cases "inc = []")
  case False
  then obtain cs where cs: "candidates (milestone_candidate e es ef) inc = Inr cs"
    using assms(3) by (auto simp: compute_dates_milestone_def)
  have "\<forall>c \<in> set cs. valid_date c"
    unfolding candidates_set [OF cs] using milestone_candidate_valid assms(2) by blast
  then have "valid_date (Max (set cs))" if "cs \<noteq> []"
    using Max_valid that by blast
  then show ?thesis
    using assms(1,3) False cs by (auto simp: compute_dates_milestone_def valid_task_def split: if_splits)
qed (use assms in \<open>auto simp: compute_dates_milestone_def valid_task_def\<close>)

lemma compute_with_duration_valid:
  assumes "valid_task t"
    and "\<forall>d \<in> set inc. valid_opt (es (predecessor_task_id d)) \<and> valid_opt (ef (predecessor_task_id d))"
    and "compute_dates_with_duration e t inc es ef n = Inr (a, b)"
  shows "valid_opt a \<and> valid_opt b"
proof (cases "inc = []")
  case True
  then show ?thesis
    using assms dates_from_start_valid by (simp add: compute_dates_with_duration_def)
next
  case False
  then obtain cs where cs: "candidates (duration_candidate e n es ef) inc = Inr cs"
    using assms(3) by (auto simp: compute_dates_with_duration_def)
  have "\<forall>c \<in> set cs. valid_date c"
    unfolding candidates_set [OF cs] using duration_candidate_valid assms(2) by blast
  then have max: "valid_date (Max (set cs))" if "cs \<noteq> []"
    using Max_valid that by blast
  show ?thesis
  proof (cases "cs = []")
    case True
    then show ?thesis
      using assms False cs dates_from_start_valid by (simp add: compute_dates_with_duration_def)
  next
    case ne: False
    then show ?thesis
      using assms(3) False cs max cal.add_valid
      by (auto simp: compute_dates_with_duration_def)
  qed
qed

lemma compute_task_datesE:
  assumes "compute_task_dates e t inc es ef = Inr (a, b)"
  obtains a0 b0 where "(if duration_of t \<le> 0 then compute_dates_milestone e t inc es ef
      else compute_dates_with_duration e t inc es ef (duration_of t)) = Inr (a0, b0)"
    and "apply_actual_constraints e t a0 b0 (duration_of t) = Inr (a, b)"
  using assms by (auto simp: compute_task_dates_def compute_task_dates_common_def Let_def)

lemma compute_task_dates_valid:
  assumes "valid_task t"
    and "\<forall>d \<in> set inc. valid_opt (es (predecessor_task_id d)) \<and> valid_opt (ef (predecessor_task_id d))"
    and "compute_task_dates e t inc es ef = Inr (a, b)"
  shows "valid_opt a \<and> valid_opt b"
proof -
  obtain a0 b0 where base: "(if duration_of t \<le> 0 then compute_dates_milestone e t inc es ef
        else compute_dates_with_duration e t inc es ef (duration_of t)) = Inr (a0, b0)"
    and act: "apply_actual_constraints e t a0 b0 (duration_of t) = Inr (a, b)"
    by (rule compute_task_datesE [OF assms(3)])
  have "valid_opt a0 \<and> valid_opt b0"
  proof (cases "duration_of t \<le> 0")
    case True
    then show ?thesis using base compute_milestone_valid [OF assms(1,2)] by simp
  next
    case False
    then show ?thesis using base compute_with_duration_valid [OF assms(1,2)] by simp
  qed
  then show ?thesis
    using apply_actual_valid [OF assms(1) _ _ act] by blast
qed

definition valid_dates :: "date_map \<times> date_map \<Rightarrow> bool" where
  "valid_dates m \<longleftrightarrow> (\<forall>v. valid_opt (fst m v) \<and> valid_opt (snd m v))"

lemma forward_step_valid:
  assumes "\<forall>t \<in> snd ` set tasks. valid_task t" "valid_dates m"
    and "forward_step tasks by_succ (compute_task_dates e) tid m = Inr m'"
  shows "valid_dates m'"
proof -
  obtain t a b where t: "map_of tasks tid = Some t"
    and c: "compute_task_dates e t (dict_get_list by_succ tid) (fst m) (snd m) = Inr (a, b)"
    and m': "m' = ((fst m)(tid := a), (snd m)(tid := b))"
    using assms(3) by (cases m) (auto simp: forward_step_def lookup_task_def split: option.splits)
  have "valid_task t"
    using assms(1) map_of_SomeD [OF t] by force
  then have "valid_opt a \<and> valid_opt b"
    using compute_task_dates_valid [OF _ _ c] assms(2) by (simp add: valid_dates_def)
  then show ?thesis
    using assms(2) m' by (simp add: valid_dates_def)
qed

lemma backward_candidate_valid:
  assumes "backward_candidate e ls lf d = Inr (Some c)"
    and "valid_opt (ls (successor_task_id d))" "valid_opt (lf (successor_task_id d))"
  shows "case c of CandLF x \<Rightarrow> valid_date x | CandLS x \<Rightarrow> valid_date x"
  using assms
  by (auto simp: backward_candidate_def Let_def dest: cal.add_valid
      split: if_splits dependency_type.splits option.splits)

lemma late_dates_valid:
  assumes "late_dates e n cs early old = Inr (a, b)"
    and "\<forall>c \<in> set cs. case c of CandLF x \<Rightarrow> valid_date x | CandLS x \<Rightarrow> valid_date x"
    and "valid_opt (fst early) \<and> valid_opt (snd early)" "valid_opt (fst old) \<and> valid_opt (snd old)"
  shows "valid_opt a \<and> valid_opt b"
proof -
  have f: "\<forall>x \<in> set (cand_lf_dates cs). valid_date x" "\<forall>x \<in> set (cand_ls_dates cs). valid_date x"
    using assms(2)
    by (auto simp: cand_lf_dates_def cand_ls_dates_def set_map_filter_eq split: late_candidate.split_asm)
  consider (lf) "cand_lf_dates cs \<noteq> []" | (ls) "cand_lf_dates cs = []" "cand_ls_dates cs \<noteq> []"
    | (none) "cand_lf_dates cs = []" "cand_ls_dates cs = []"
    by blast
  then show ?thesis
  proof cases
    case lf
    then show ?thesis
      using assms(1) Min_valid [OF lf f(1)] cal.add_valid
      by (auto simp: late_dates_def Let_def split: if_splits)
  next
    case ls
    then show ?thesis
      using assms(1) Min_valid [OF ls(2) f(2)] cal.add_valid
      by (auto simp: late_dates_def Let_def split: if_splits)
  next
    case none
    then show ?thesis
      using assms(1,3,4) by (auto simp: late_dates_def split: if_splits)
  qed
qed

lemma backward_step_valid:
  assumes "valid_dates (es, ef)" "valid_dates m"
    and "backward_step e tasks by_pred es ef tid m = Inr m'"
  shows "valid_dates m'"
proof (cases "dict_get_list by_pred tid = []")
  case True
  then show ?thesis
    using assms by (cases m) (auto simp: backward_step_def valid_dates_def split: if_splits dest: spec [of _ tid])
next
  case False
  obtain ls lf where m: "m = (ls, lf)" by (cases m)
  obtain t cs a b where cs: "candidates (backward_candidate e ls lf) (dict_get_list by_pred tid) = Inr cs"
    and l: "late_dates e (duration_of t) cs (es tid, ef tid) (ls tid, lf tid) = Inr (a, b)"
    and m': "m' = (ls(tid := a), lf(tid := b))"
    using assms(3) False m by (auto simp: backward_step_def)
  have "\<forall>c \<in> set cs. case c of CandLF x \<Rightarrow> valid_date x | CandLS x \<Rightarrow> valid_date x"
    unfolding candidates_set [OF cs] using backward_candidate_valid [of e ls lf] assms(2) m
    by (simp add: valid_dates_def) blast
  then have "valid_opt a \<and> valid_opt b"
    using late_dates_valid [OF l] assms(1,2) m by (simp add: valid_dates_def)
  then show ?thesis
    using assms(2) m m' by (simp add: valid_dates_def)
qed

lemma end_task_step_valid:
  assumes "valid_date pef" "valid_dates m" "end_task_step e tasks pef tid m = Inr m'"
  shows "valid_dates m'"
  using assms
  by (cases m) (auto simp: end_task_step_def valid_dates_def Let_def dest: cal.add_valid split: if_splits)

lemma schedule_valid_dates:
  assumes "compute_schedule e prio (compute_task_dates e) tasks deps = Inr res"
    and "distinct (map fst tasks)" and "\<forall>t \<in> snd ` set tasks. valid_task t"
  shows "valid_opt (es_of res tid) \<and> valid_opt (ef_of res tid) \<and>
    valid_opt (ls_of res tid) \<and> valid_opt (lf_of res tid)"
proof -
  obtain pef where fw: "rfold (forward_step tasks (group_by_key successor_task_id (filtered_deps tasks deps))
        (compute_task_dates e)) (project_order tasks deps prio) (\<lambda>_. None, \<lambda>_. None) = Inr (es_of res, ef_of res)"
    and bw: "run_backward_pass e tasks (project_order tasks deps prio)
        (group_by_key predecessor_task_id (filtered_deps tasks deps)) (es_of res) (ef_of res) pef
      = Inr (ls_of res, lf_of res)"
    and pef: "\<exists>tid \<in> fst ` set tasks. ef_of res tid = Some pef"
    by (rule compute_schedule_facts [OF assms(1,2) compute_task_dates_reads]) blast
  have none: "valid_dates (\<lambda>_. None, \<lambda>_. None)"
    by (simp add: valid_dates_def)
  have early: "valid_dates (es_of res, ef_of res)"
    by (rule rfold_invariant [where P = valid_dates, OF fw none]) (use forward_step_valid assms(3) in blast)
  then have "valid_date pef"
    using pef by (metis snd_conv valid_dates_def valid_opt_simps(2))
  obtain m0 where m0: "rfold (end_task_step e tasks pef)
        (filter (\<lambda>tid. tid \<notin> fst ` set (group_by_key predecessor_task_id (filtered_deps tasks deps))) (map fst tasks))
        (\<lambda>_. None, \<lambda>_. None) = Inr m0"
    and bfold: "rfold (backward_step e tasks (group_by_key predecessor_task_id (filtered_deps tasks deps))
        (es_of res) (ef_of res)) (rev (project_order tasks deps prio)) m0 = Inr (ls_of res, lf_of res)"
    using bw by (auto simp: run_backward_pass_def)
  have "valid_dates m0"
    by (rule rfold_invariant [where P = valid_dates, OF m0 none]) (use end_task_step_valid \<open>valid_date pef\<close> in blast)
  then have "valid_dates (ls_of res, lf_of res)"
    by (rule rfold_invariant [where P = valid_dates, OF bfold]) (use backward_step_valid early in blast)
  then show ?thesis
    using early by (simp add: valid_dates_def)
qed

end
