(* ===== verification/Schedule_Guarantees.thy ===== *)
theory Schedule_Guarantees
  imports Schedule_Properties
begin

text \<open>
  What the dates of a computed schedule mean: early dates respect every dependency and span
  the duration, late dates leave room for every successor, float and criticality measure the
  distance between the two, and none of this depends on the priorities.
\<close>

section \<open>The early dates of one task\<close>

definition early_bound ::
  "calendar_engine \<Rightarrow> int \<Rightarrow> date_map \<Rightarrow> date_map \<Rightarrow> task_dependency \<Rightarrow> date option result" where
  "early_bound e duration es ef d =
     (if duration \<le> 0 then milestone_candidate e es ef d else duration_candidate e duration es ef d)"

lemma apply_actual_started:
  "t_actual_end t = None \<Longrightarrow> t_actual_start t = Some x \<Longrightarrow>
     apply_actual_constraints e t (Some s0) b0 n =
       (if x > s0 then
          (if n \<le> 0 then Inr (Some x, Some x)
           else rbind (add_working_days e x n) (\<lambda>d. Inr (Some x, Some d)))
        else Inr (Some s0, b0))"
  by (simp add: apply_actual_constraints_def)

lemma apply_actual_later:
  assumes "t_actual_end t = None" "apply_actual_constraints e t (Some s0) b0 n = Inr (a, b)"
  shows "\<exists>s. a = Some s \<and> s0 \<le> s"
proof (cases "t_actual_start t")
  case None
  then show ?thesis using assms by (auto simp: apply_actual_constraints_def)
next
  case (Some x)
  show ?thesis
    using assms(2) unfolding apply_actual_started [OF assms(1) Some] by (auto split: if_splits)
qed

lemma compute_lower_bound:
  assumes "compute_task_dates e t inc es ef = Inr (a, b)" and "t_actual_end t = None"
    and "d \<in> set inc" and "early_bound e (duration_of t) es ef d = Inr (Some c)"
  shows "\<exists>s. a = Some s \<and> c \<le> s"
proof -
  let ?f = "if duration_of t \<le> 0 then milestone_candidate e es ef else duration_candidate e (duration_of t) es ef"
  obtain a0 b0 where base: "(if duration_of t \<le> 0 then compute_dates_milestone e t inc es ef
        else compute_dates_with_duration e t inc es ef (duration_of t)) = Inr (a0, b0)"
    and act: "apply_actual_constraints e t a0 b0 (duration_of t) = Inr (a, b)"
    by (rule compute_task_datesE [OF assms(1)])
  have "inc \<noteq> []" using assms(3) by auto
  then obtain cs where cs: "candidates ?f inc = Inr cs"
    using base by (auto simp: compute_dates_milestone_def compute_dates_with_duration_def split: if_splits)
  have "c \<in> set cs"
    unfolding candidates_set [OF cs] using assms(3,4) by (auto simp: early_bound_def split: if_splits)
  then have "cs \<noteq> []" "c \<le> Max (set cs)" by auto
  then have "a0 = Some (Max (set cs))"
    using base cs \<open>inc \<noteq> []\<close>
    by (auto simp: compute_dates_milestone_def compute_dates_with_duration_def split: if_splits)
  then show ?thesis
    using apply_actual_later [OF assms(2)] act \<open>c \<le> Max (set cs)\<close> by fastforce
qed

lemma compute_candidate_Inr:
  assumes "compute_task_dates e t inc es ef = Inr (a, b)" and "d \<in> set inc"
  shows "\<exists>y. early_bound e (duration_of t) es ef d = Inr y"
proof -
  let ?f = "if duration_of t \<le> 0 then milestone_candidate e es ef else duration_candidate e (duration_of t) es ef"
  obtain a0 b0 where base: "(if duration_of t \<le> 0 then compute_dates_milestone e t inc es ef
        else compute_dates_with_duration e t inc es ef (duration_of t)) = Inr (a0, b0)"
    by (rule compute_task_datesE [OF assms(1)])
  have "inc \<noteq> []" using assms(2) by auto
  then obtain cs where "candidates ?f inc = Inr cs"
    using base by (auto simp: compute_dates_milestone_def compute_dates_with_duration_def split: if_splits)
  then show ?thesis
    using candidates_Inr_mem [of ?f inc cs d] assms(2) by (auto simp: early_bound_def)
qed

lemma compute_span:
  assumes "compute_task_dates e t inc es ef = Inr (Some s, b)" and "t_actual_end t = None"
    and "0 < duration_of t"
  shows "\<exists>f. b = Some f \<and> add_working_days e s (duration_of t) = Inr f"
proof -
  obtain a0 b0 where base: "compute_dates_with_duration e t inc es ef (duration_of t) = Inr (a0, b0)"
    and act: "apply_actual_constraints e t a0 b0 (duration_of t) = Inr (Some s, b)"
    by (rule compute_task_datesE [OF assms(1)]) (use assms(3) in auto)
  have "a0 = None \<and> b0 = None \<or>
      (\<exists>s0 f0. a0 = Some s0 \<and> b0 = Some f0 \<and> add_working_days e s0 (duration_of t) = Inr f0)"
    using base by (auto simp: compute_dates_with_duration_def dates_from_start_def
        split: if_splits option.splits)
  then show ?thesis
    using act assms(2,3)
    by (cases "t_actual_start t")
      (auto simp: apply_actual_constraints_def split: option.splits if_splits)
qed

lemma compute_span_milestone:
  assumes "compute_task_dates e t inc es ef = Inr (a, b)" and "t_actual_end t = None"
    and "duration_of t \<le> 0"
  shows "b = a"
proof -
  obtain a0 b0 where base: "compute_dates_milestone e t inc es ef = Inr (a0, b0)"
    and act: "apply_actual_constraints e t a0 b0 (duration_of t) = Inr (a, b)"
    by (rule compute_task_datesE [OF assms(1)]) (use assms(3) in auto)
  have "b0 = a0"
    using base by (auto simp: compute_dates_milestone_def split: if_splits)
  then show ?thesis
    using act assms(2,3)
    by (cases "t_actual_start t")
      (auto simp: apply_actual_constraints_def split: option.splits if_splits)
qed

text \<open>The day that a finish-to-start dependency asks for leaves the lag free.\<close>

lemma fs_gap:
  assumes "add_working_days e p (lag + 2) = Inr c" "p \<le> DATE_MAX" "0 \<le> lag" "c \<le> s"
  shows "p < s \<and> lag \<le> wd_between (is_working_day e) (p + 1) (s - 1)"
proof -
  let ?wd = "is_working_day e"
  have c: "p \<le> c" "?wd c" "wd_between ?wd p c = lag + 2"
    using assms by (auto simp: add_pos_engine)
  then have "p < c"
    using assms(3) by (cases "p = c") (auto split: if_splits)
  moreover have "lag + 2 \<le> 1 + wd_between ?wd (p + 1) c"
    using c wd_between_first [of p c ?wd] by (auto split: if_splits)
  moreover have "wd_between ?wd (p + 1) c = wd_between ?wd (p + 1) (c - 1) + 1"
    using c \<open>p < c\<close> by (subst wd_between_last) auto
  moreover have "wd_between ?wd (p + 1) (c - 1) \<le> wd_between ?wd (p + 1) (s - 1)"
    using assms(4) by (intro wd_between_mono) auto
  ultimately show ?thesis
    using assms(4) by linarith
qed

lemma schedule_early:
  assumes "compute_schedule e prio (compute_task_dates e) tasks deps = Inr res"
    and "distinct (map fst tasks)" and "map_of tasks tid = Some t"
  shows "compute_task_dates e t (incoming_deps tasks deps tid) (es_of res) (ef_of res) = Inr (es_of res tid, ef_of res tid)"
  using assms(3) by - (rule compute_schedule_facts [OF assms(1,2) compute_task_dates_reads], blast)

lemma incoming_iff: "d \<in> set (incoming_deps tasks deps tid) \<longleftrightarrow>
    d \<in> set (filtered_deps tasks deps) \<and> successor_task_id d = tid"
  by (auto simp: incoming_deps_def)

lemma valid_task_mem: "map_of tasks tid = Some t \<Longrightarrow> \<forall>t \<in> snd ` set tasks. valid_task t \<Longrightarrow> valid_task t"
  by (metis image_eqI map_of_SomeD snd_conv)

lemma schedule_predecessor_bound:
  assumes "compute_schedule e prio (compute_task_dates e) tasks deps = Inr res"
    and "distinct (map fst tasks)" and "d \<in> set (filtered_deps tasks deps)"
    and "map_of tasks (successor_task_id d) = Some t" and "t_actual_end t = None"
    and "early_bound e (duration_of t) (es_of res) (ef_of res) d = some_date m"
  shows "\<exists>c s. m = Inr c \<and> es_of res (successor_task_id d) = Some s \<and> c \<le> s"
proof -
  note eq = schedule_early [OF assms(1,2,4)]
  have inc: "d \<in> set (incoming_deps tasks deps (successor_task_id d))"
    using assms(3) by (simp add: incoming_iff)
  obtain y where "early_bound e (duration_of t) (es_of res) (ef_of res) d = Inr y"
    using compute_candidate_Inr [OF eq inc] by blast
  then obtain c where "m = Inr c" "early_bound e (duration_of t) (es_of res) (ef_of res) d = Inr (Some c)"
    using assms(6) by (auto simp: some_date_def)
  then show ?thesis
    using compute_lower_bound [OF eq assms(5) inc] by blast
qed

text \<open>
  C8: The early dates respect every finish-to-start dependency with a lag of zero or more, into
  a successor that has no actual end: it starts after the early finish of its predecessor, with
  at least \<open>lag\<close> working days strictly between the two. (A successor with an actual end keeps
  its actual dates. Task ids are distinct and the dates the tasks carry are dates.)
\<close>

theorem schedule_finish_to_start:
  assumes "compute_schedule e prio (compute_task_dates e) tasks deps = Inr res"
    and "distinct (map fst tasks)" and "\<forall>t \<in> snd ` set tasks. valid_task t"
    and "d \<in> set (filtered_deps tasks deps)" and "dependency_type d = FINISH_TO_START"
    and "0 \<le> lag_days d" and "map_of tasks (successor_task_id d) = Some t" and "t_actual_end t = None"
    and "ef_of res (predecessor_task_id d) = Some p"
  shows "\<exists>s. es_of res (successor_task_id d) = Some s \<and> p < s \<and>
    lag_days d \<le> wd_between (is_working_day e) (p + 1) (s - 1)"
proof -
  have "early_bound e (duration_of t) (es_of res) (ef_of res) d = some_date (add_working_days e p (lag_days d + 2))"
    using assms(5,9) by (simp add: early_bound_def milestone_candidate_def duration_candidate_def)
  from schedule_predecessor_bound [OF assms(1,2,4,7,8) this]
  obtain c s where c: "add_working_days e p (lag_days d + 2) = Inr c"
    and s: "es_of res (successor_task_id d) = Some s" "c \<le> s" by blast
  have "p \<le> DATE_MAX"
    using schedule_valid_dates [OF assms(1-3), of "predecessor_task_id d"] assms(9) by (simp add: valid_date_def)
  then show ?thesis
    using s fs_gap [OF c _ assms(6)] by blast
qed

text \<open>
  C34: The early dates respect start-to-start and finish-to-finish dependencies into a successor
  that has no actual end. With start-to-start it starts no earlier than the predecessor's start
  moved by the lag (as \<open>add_working_days\<close> moves it). With finish-to-finish, a successor with a
  positive duration finishes no earlier than the predecessor's finish moved by the lag, if the
  lag is not zero or the predecessor finishes on a working day.
\<close>

theorem schedule_start_start_and_finish_finish:
  assumes "compute_schedule e prio (compute_task_dates e) tasks deps = Inr res"
    and "distinct (map fst tasks)" and "\<forall>t \<in> snd ` set tasks. valid_task t"
    and "d \<in> set (filtered_deps tasks deps)"
    and "map_of tasks (successor_task_id d) = Some t" and "t_actual_end t = None"
  shows "(dependency_type d = START_TO_START \<longrightarrow> es_of res (predecessor_task_id d) = Some p \<longrightarrow>
      (\<exists>c s. add_working_days e p (lag_days d) = Inr c \<and> es_of res (successor_task_id d) = Some s \<and> c \<le> s))
    \<and> (dependency_type d = FINISH_TO_FINISH \<longrightarrow> ef_of res (predecessor_task_id d) = Some p \<longrightarrow>
      lag_days d \<noteq> 0 \<or> is_working_day e p \<longrightarrow> 0 < duration_of t \<longrightarrow>
      (\<exists>c f. add_working_days e p (lag_days d) = Inr c \<and> ef_of res (successor_task_id d) = Some f \<and> c \<le> f))"
proof (intro conjI impI)
  note bound = schedule_predecessor_bound [OF assms(1,2,4-6)]
  {
    assume "dependency_type d = START_TO_START" "es_of res (predecessor_task_id d) = Some p"
    then have "early_bound e (duration_of t) (es_of res) (ef_of res) d = some_date (add_working_days e p (lag_days d))"
      by (simp add: early_bound_def milestone_candidate_def duration_candidate_def)
    from bound [OF this] show "\<exists>c s. add_working_days e p (lag_days d) = Inr c \<and>
        es_of res (successor_task_id d) = Some s \<and> c \<le> s" .
  }
  assume ff: "dependency_type d = FINISH_TO_FINISH" "ef_of res (predecessor_task_id d) = Some p"
    and work: "lag_days d \<noteq> 0 \<or> is_working_day e p" and dur: "0 < duration_of t"
  have "early_bound e (duration_of t) (es_of res) (ef_of res) d =
      some_date (rbind (add_working_days e p (lag_days d)) (\<lambda>ef_s. start_for_finish e ef_s (duration_of t)))"
    using ff dur by (simp add: early_bound_def duration_candidate_def)
  from bound [OF this] obtain c b s where c: "add_working_days e p (lag_days d) = Inr c"
      "start_for_finish e c (duration_of t) = Inr b" and s: "es_of res (successor_task_id d) = Some s" "b \<le> s"
    by auto
  have valid: "valid_date p" "valid_date s"
    using schedule_valid_dates [OF assms(1-3), of "predecessor_task_id d"] ff(2)
      schedule_valid_dates [OF assms(1-3), of "successor_task_id d"] s(1) by auto
  then have "valid_date c" "is_working_day e c"
    using c(1) work add_zero_engine [of e p] cal.add_valid cal.add_working
    by (cases "lag_days d = 0"; auto)+
  then have "add_working_days e b (duration_of t) = Inr c"
    using c(2) dur cal.backward_round_trip by (simp add: start_for_finish_def)
  moreover obtain f where "ef_of res (successor_task_id d) = Some f"
      "add_working_days e s (duration_of t) = Inr f"
    using compute_span schedule_early [OF assms(1,2,5)] assms(6) dur s(1) by metis
  ultimately show "\<exists>c f. add_working_days e p (lag_days d) = Inr c \<and>
      ef_of res (successor_task_id d) = Some f \<and> c \<le> f"
    using c(1) cal.add_pos_mono [OF s(2) _ dur] valid(2) by (auto simp: valid_date_def)
qed

text \<open>
  An unfinished task with a duration that has an early start also has an early finish,
  and exactly \<open>duration\<close> working days lie between the two, both ends counted; the finish
  is a working day.
\<close>

theorem schedule_spans_duration:
  assumes "compute_schedule e prio (compute_task_dates e) tasks deps = Inr res"
    and "distinct (map fst tasks)" and "\<forall>t \<in> snd ` set tasks. valid_task t"
    and "map_of tasks tid = Some t" and "t_actual_end t = None" and "0 < duration_of t"
    and "es_of res tid = Some s"
  shows "\<exists>f. ef_of res tid = Some f \<and> s \<le> f \<and> is_working_day e f \<and>
    wd_between (is_working_day e) s f = duration_of t"
proof -
  obtain f where "ef_of res tid = Some f" "add_working_days e s (duration_of t) = Inr f"
    using compute_span schedule_early [OF assms(1,2,4)] assms(5-7) by metis
  moreover have "s \<le> DATE_MAX"
    using schedule_valid_dates [OF assms(1-3), of tid] assms(7) by (simp add: valid_date_def)
  ultimately show ?thesis
    using assms(6) by (auto simp: add_pos_engine)
qed

end
