(* ===== verification/Schedule_Float.thy ===== *)
theory Schedule_Float
  imports Schedule_Guarantees
begin

text \<open>
  The late dates and what is derived from them: late dates leave room for every successor, the
  end tasks finish with the project, float counts working days between early and late start,
  and the whole result does not depend on the priorities.
\<close>

section \<open>Late dates\<close>

text \<open>The late dates that the dates of its successors determine for one task.\<close>

definition late_of ::
  "calendar_engine \<Rightarrow> tasks_by_id \<Rightarrow> task_dependency list \<Rightarrow> date \<Rightarrow> date_map \<times> date_map
     \<Rightarrow> date_map \<times> date_map \<Rightarrow> string \<Rightarrow> task \<Rightarrow> dates result" where
  "late_of e tasks deps pef early late tid t =
     (if outgoing_deps tasks deps tid = [] then end_task_dates e pef (duration_of t)
      else rbind (candidates (backward_candidate e (fst late) (snd late)) (outgoing_deps tasks deps tid))
             (\<lambda>cs. late_dates e (duration_of t) cs (fst early tid, snd early tid) (None, None)))"

lemma schedule_late:
  assumes "compute_schedule e prio (compute_task_dates e) tasks deps = Inr res"
    and "distinct (map fst tasks)"
  obtains pef where
    "\<forall>tid t. map_of tasks tid = Some t \<longrightarrow>
       late_of e tasks deps pef (es_of res, ef_of res) (ls_of res, lf_of res) tid t
       = Inr (ls_of res tid, lf_of res tid)"
    and "\<forall>tid d. ef_of res tid = Some d \<longrightarrow> d \<le> pef"
    and "\<exists>tid \<in> fst ` set tasks. ef_of res tid = Some pef"
proof -
  show ?thesis
    apply (rule compute_schedule_facts [OF assms compute_task_dates_reads])
    subgoal premises facts for pef
      apply (rule that [of pef])
      subgoal unfolding late_of_def fst_conv snd_conv using facts(2) by blast
      subgoal using facts(4) by blast
      subgoal using facts(5) by blast
      done
    done
qed

lemma schedule_infos:
  assumes "compute_schedule e prio (compute_task_dates e) tasks deps = Inr res"
    and "distinct (map fst tasks)"
  shows "map fst res = map fst tasks \<and> (\<forall>tid t. map_of tasks tid = Some t \<longrightarrow>
       (\<exists>i. map_of res tid = Some i \<and>
           task_info e (es_of res) (ef_of res) (ls_of res) (lf_of res) (tid, t) = Inr (tid, i)))"
  apply (rule compute_schedule_facts [OF assms compute_task_dates_reads])
  subgoal premises facts for pef
    using facts(3,6) by blast
  done

lemma late_dates_finish:
  assumes "late_dates e n cs early old = Inr (a, b)" and "CandLF c \<in> set cs"
  shows "\<exists>f. b = Some f \<and> f \<le> c"
proof -
  have "c \<in> set (cand_lf_dates cs)"
    using assms(2) by (auto simp: cand_lf_dates_def set_map_filter_eq intro!: bexI)
  then have "cand_lf_dates cs \<noteq> []" "Min (set (cand_lf_dates cs)) \<le> c" by auto
  then show ?thesis
    using assms(1) by (auto simp: late_dates_def Let_def split: if_splits)
qed

lemma fs_late_gap:
  assumes "add_working_days e s (- (lag + 1)) = Inr c" "valid_date s" "0 \<le> lag" "f \<le> c"
  shows "f < s \<and> lag \<le> wd_between (is_working_day e) (f + 1) (s - 1)"
proof -
  let ?wd = "is_working_day e"
  obtain b where b: "first_wd ?wd s b" "b \<le> DATE_MAX" "c \<le> b" "?wd c" "wd_between ?wd c b = lag + 2"
    using assms by (auto simp: add_neg_engine)
  then have cb: "c < b"
    using assms(3) by (cases "c = b") (auto split: if_splits)
  then have cs: "c < s"
    using b(1,4) by (metis atLeastLessThan_iff first_wd_def not_le_imp_less)
  have "wd_between ?wd c b = 1 + wd_between ?wd (c + 1) b"
    using b cb by (simp add: wd_between_first)
  moreover have "wd_between ?wd (c + 1) b = wd_between ?wd (c + 1) (b - 1) + 1"
    using b(1) cb by (subst wd_between_last) (auto simp: first_wd_def)
  moreover have "wd_between ?wd (c + 1) (b - 1) = wd_between ?wd (c + 1) (s - 1)"
  proof -
    have "wd_between ?wd s (b - 1) = 0"
      using b(1) by (auto simp: wd_between_0_iff first_wd_def)
    then show ?thesis
      using wd_between_split [of "c + 1" "s - 1" "b - 1" ?wd] cs b(1) by (simp add: first_wd_def)
  qed
  moreover have "wd_between ?wd (c + 1) (s - 1) \<le> wd_between ?wd (f + 1) (s - 1)"
    using assms(4) by (intro wd_between_mono) auto
  ultimately show ?thesis
    using b(5) cs assms(4) by linarith
qed

text \<open>
  The late dates respect every finish-to-start dependency: a predecessor's late finish is
  before the late start of its successor, with at least \<open>lag\<close> working days between them.
\<close>

theorem schedule_late_finish_to_start:
  assumes "compute_schedule e prio (compute_task_dates e) tasks deps = Inr res"
    and "distinct (map fst tasks)" and "\<forall>t \<in> snd ` set tasks. valid_task t"
    and "d \<in> set (filtered_deps tasks deps)" and "dependency_type d = FINISH_TO_START"
    and "0 \<le> lag_days d" and "ls_of res (successor_task_id d) = Some s"
  shows "\<exists>f. lf_of res (predecessor_task_id d) = Some f \<and> f < s \<and>
    lag_days d \<le> wd_between (is_working_day e) (f + 1) (s - 1)"
proof -
  let ?p = "predecessor_task_id d"
  obtain pef where late: "\<forall>tid t. map_of tasks tid = Some t \<longrightarrow>
       late_of e tasks deps pef (es_of res, ef_of res) (ls_of res, lf_of res) tid t
       = Inr (ls_of res tid, lf_of res tid)"
    by (rule schedule_late [OF assms(1,2)])
  have "?p \<in> fst ` set tasks"
    using filtered_deps_closed [OF assms(4)] by simp
  then obtain t where t: "map_of tasks ?p = Some t"
    by (metis map_of_eq_None_iff not_None_eq)
  have out: "d \<in> set (outgoing_deps tasks deps ?p)"
    using assms(4) by (simp add: outgoing_deps_def)
  then have ne: "outgoing_deps tasks deps ?p \<noteq> []" by auto
  obtain cs where cs: "candidates (backward_candidate e (ls_of res) (lf_of res)) (outgoing_deps tasks deps ?p) = Inr cs"
    and ld: "late_dates e (duration_of t) cs (es_of res ?p, ef_of res ?p) (None, None) = Inr (ls_of res ?p, lf_of res ?p)"
    using late [rule_format, OF t] ne by (auto simp: late_of_def)
  obtain y where "backward_candidate e (ls_of res) (lf_of res) d = Inr y"
    using candidates_Inr_mem [OF cs out] by blast
  then obtain c where c: "add_working_days e s (- (lag_days d + 1)) = Inr c"
      "backward_candidate e (ls_of res) (lf_of res) d = Inr (Some (CandLF c))"
    using assms(5,7) by (auto simp: backward_candidate_def)
  then have "CandLF c \<in> set cs"
    unfolding candidates_set [OF cs] using out by auto
  then obtain f where "lf_of res ?p = Some f" "f \<le> c"
    using late_dates_finish [OF ld] by blast
  moreover have "valid_date s"
    using schedule_valid_dates [OF assms(1-3), of "successor_task_id d"] assms(7) by simp
  ultimately show ?thesis
    using fs_late_gap [OF c(1) _ assms(6)] by blast
qed

section \<open>Float\<close>

lemma schedule_info:
  assumes "compute_schedule e prio (compute_task_dates e) tasks deps = Inr res"
    and "distinct (map fst tasks)" and "map_of res tid = Some i"
  obtains t where "map_of tasks tid = Some t"
    and "task_info e (es_of res) (ef_of res) (ls_of res) (lf_of res) (tid, t) = Inr (tid, i)"
proof -
  have "tid \<in> fst ` set res"
    using assms(3) by (metis map_of_eq_None_iff option.simps(3))
  then obtain t where "map_of tasks tid = Some t"
    using schedule_infos [OF assms(1,2)] by (metis list.set_map map_of_eq_None_iff not_None_eq)
  then show ?thesis
    using that schedule_infos [OF assms(1,2)] assms(3) by fastforce
qed

lemma es_of_info: "map_of res tid = Some i \<Longrightarrow> es_of res tid = earliest_start i"
  and ef_of_info: "map_of res tid = Some i \<Longrightarrow> ef_of res tid = earliest_finish i"
  and ls_of_info: "map_of res tid = Some i \<Longrightarrow> ls_of res tid = latest_start i"
  and lf_of_info: "map_of res tid = Some i \<Longrightarrow> lf_of res tid = latest_finish i"
  by (simp_all add: es_of_def ef_of_def ls_of_def lf_of_def)

lemmas info_dates = es_of_info ef_of_info ls_of_info lf_of_info

lemma total_float_Inr:
  "total_float e (Some s) (Some l) = Inr fl \<Longrightarrow>
     fl = Some (max 0 (wd_between (is_working_day e) s l - 1))"
  by (auto simp: total_float_def working_days_between_def dest: count_days_Inr split: if_splits)

text \<open>
  Float and criticality: a task with both starts has the float \<open>max 0 (n - 1)\<close> for the
  \<open>n\<close> working days from early to late start, it is critical exactly when its float is 0, and
  a task without one of the two starts has neither.
\<close>

theorem schedule_float:
  assumes "compute_schedule e prio (compute_task_dates e) tasks deps = Inr res"
    and "distinct (map fst tasks)" and "map_of res tid = Some i"
  shows "total_float_days i = (case (earliest_start i, latest_start i) of
        (Some s, Some l) \<Rightarrow> Some (max 0 (wd_between (is_working_day e) s l - 1))
      | _ \<Rightarrow> None)
    \<and> (is_critical i \<longleftrightarrow> total_float_days i = Some 0)"
proof -
  obtain t where info: "task_info e (es_of res) (ef_of res) (ls_of res) (lf_of res) (tid, t) = Inr (tid, i)"
    by (rule schedule_info [OF assms])
  then obtain fl late where fl: "total_float e (es_of res tid) (ls_of res tid) = Inr fl"
    and i: "total_float_days i = fl" "is_critical i = (fl = Some 0)"
    by (auto simp: task_info_def)
  show ?thesis
  proof (cases "earliest_start i = None \<or> latest_start i = None")
    case True
    then have "fl = None"
      using fl by (auto simp: info_dates [OF assms(3)] total_float_def split: option.splits)
    then show ?thesis using True i by (auto split: option.splits)
  next
    case False
    then show ?thesis
      using fl i total_float_Inr by (auto simp: info_dates [OF assms(3)])
  qed
qed

text \<open>
  C22: A task without successors that finishes last is critical: if it has no actual end, a
  positive duration and an early start on a working day, its late dates are its early dates and
  its float is 0.
\<close>

theorem schedule_last_task_critical:
  assumes "compute_schedule e prio (compute_task_dates e) tasks deps = Inr res"
    and "distinct (map fst tasks)" and "\<forall>t \<in> snd ` set tasks. valid_task t"
    and "map_of tasks tid = Some t" and "outgoing_deps tasks deps tid = []" and "t_actual_end t = None"
    and "0 < duration_of t" and "es_of res tid = Some s" and "is_working_day e s"
    and "ef_of res tid = Some f" and "\<forall>v g. ef_of res v = Some g \<longrightarrow> g \<le> f"
  shows "ls_of res tid = Some s \<and> lf_of res tid = Some f \<and>
    (\<exists>i. map_of res tid = Some i \<and> is_critical i \<and> total_float_days i = Some 0)"
proof -
  obtain pef where late: "\<forall>tid t. map_of tasks tid = Some t \<longrightarrow>
       late_of e tasks deps pef (es_of res, ef_of res) (ls_of res, lf_of res) tid t
       = Inr (ls_of res tid, lf_of res tid)"
    and le: "\<forall>tid d. ef_of res tid = Some d \<longrightarrow> d \<le> pef"
    and ex: "\<exists>tid \<in> fst ` set tasks. ef_of res tid = Some pef"
    by (rule schedule_late [OF assms(1,2)])
  have pef: "pef = f"
    using le assms(10) ex assms(11) by (meson order_antisym)
  have valid: "valid_date s"
    using schedule_valid_dates [OF assms(1-3), of tid] assms(8) by simp
  have "add_working_days e s (duration_of t) = Inr f"
    using compute_span [of e t _ _ _ s "Some f"] schedule_early [OF assms(1,2,4)] assms(6-8,10) by auto
  then have ls: "ls_of res tid = Some s" "lf_of res tid = Some f"
    using late [rule_format, OF assms(4)] assms(5,7) pef cal.duration_round_trip [OF assms(9) valid assms(7)]
    by (auto simp: end_task_dates_def late_of_def)
  obtain i where i: "map_of res tid = Some i"
      "task_info e (es_of res) (ef_of res) (ls_of res) (lf_of res) (tid, t) = Inr (tid, i)"
    using schedule_infos [OF assms(1,2)] assms(4) by blast
  then obtain fl where "total_float e (Some s) (Some s) = Inr fl"
    and fi: "total_float_days i = fl" "is_critical i = (fl = Some 0)"
    using assms(8) ls(1) by (auto simp: task_info_def)
  then have "fl = Some 0"
    using total_float_Inr assms(9) by fastforce
  then show ?thesis
    using ls i fi by simp
qed

section \<open>Priorities do not matter for the dates\<close>

lemma forward_unique:
  assumes "acyclic (dep_edges (filtered_deps tasks deps))"
    and "\<And>tid t. map_of tasks tid = Some t \<Longrightarrow>
      compute t (incoming_deps tasks deps tid) es ef = Inr (es tid, ef tid)"
    and "\<And>tid t. map_of tasks tid = Some t \<Longrightarrow>
      compute t (incoming_deps tasks deps tid) es' ef' = Inr (es' tid, ef' tid)"
    and "reads_only_preds compute"
    and "tid \<in> fst ` set tasks"
  shows "dates_at (es, ef) tid = dates_at (es', ef') tid"
proof -
  have "wf (dep_edges (filtered_deps tasks deps))"
    using assms(1) by (simp add: finite_acyclic_wf)
  then show ?thesis
    using assms(5)
  proof (induction tid rule: wf_induct_rule)
    case (less tid)
    then obtain t where t: "map_of tasks tid = Some t"
      by (metis map_of_eq_None_iff not_None_eq)
    have "dates_at (es, ef) (predecessor_task_id d) = dates_at (es', ef') (predecessor_task_id d)"
      if "d \<in> set (incoming_deps tasks deps tid)" for d
      using less.IH [of "predecessor_task_id d"] that filtered_deps_closed [of d tasks deps]
      by (auto simp: incoming_iff dep_edges_def)
    then have "compute t (incoming_deps tasks deps tid) es ef = compute t (incoming_deps tasks deps tid) es' ef'"
      using assms(4) unfolding reads_only_preds_def by blast
    then show ?case
      using assms(2,3) [OF t] by (simp add: dates_at_def)
  qed
qed

lemma backward_unique:
  assumes "acyclic (dep_edges (filtered_deps tasks deps))"
    and "\<forall>tid t. map_of tasks tid = Some t \<longrightarrow>
      late_of e tasks deps pef early late tid t = Inr (fst late tid, snd late tid)"
    and "\<forall>tid t. map_of tasks tid = Some t \<longrightarrow>
      late_of e tasks deps pef early late' tid t = Inr (fst late' tid, snd late' tid)"
    and "tid \<in> fst ` set tasks"
  shows "dates_at late tid = dates_at late' tid"
proof -
  have "wf ((dep_edges (filtered_deps tasks deps))\<inverse>)"
    using assms(1) by (simp add: finite_acyclic_wf_converse)
  then show ?thesis
    using assms(4)
  proof (induction tid rule: wf_induct_rule)
    case (less tid)
    then obtain t where t: "map_of tasks tid = Some t"
      by (metis map_of_eq_None_iff not_None_eq)
    have "candidates (backward_candidate e (fst late) (snd late)) (outgoing_deps tasks deps tid)
        = candidates (backward_candidate e (fst late') (snd late')) (outgoing_deps tasks deps tid)"
    proof (rule candidates_cong, rule backward_candidate_cong)
      fix d assume "d \<in> set (outgoing_deps tasks deps tid)"
      then have "d \<in> set (filtered_deps tasks deps)" "predecessor_task_id d = tid"
        by (auto simp: outgoing_deps_def)
      then show "dates_at (fst late, snd late) (successor_task_id d) = dates_at (fst late', snd late') (successor_task_id d)"
        using less.IH [of "successor_task_id d"] filtered_deps_closed [of d tasks deps]
        by (auto simp: dep_edges_def)
    qed
    then have "late_of e tasks deps pef early late tid t = late_of e tasks deps pef early late' tid t"
      by (simp add: late_of_def)
    then show ?case
      using assms(2,3) t by (simp add: dates_at_def)
  qed
qed

lemma result_outside:
  "map_of res tid = None \<Longrightarrow> es_of res tid = None \<and> ef_of res tid = None \<and> ls_of res tid = None \<and> lf_of res tid = None"
  by (simp add: es_of_def ef_of_def ls_of_def lf_of_def)

lemma dict_eqI:
  assumes "map fst xs = map fst ys" "distinct (map fst xs)" "\<And>k. map_of xs k = map_of ys k"
  shows "xs = ys"
proof -
  have "map (\<lambda>k. (k, the (map_of zs k))) (map fst zs) = zs" if "distinct (map fst zs)"
    for zs :: "('a, 'b) dict"
    unfolding map_map using that
    by (intro map_idI) (metis (no_types, lifting) comp_apply map_of_is_SomeI option.sel prod.collapse)
  from this [of xs] this [of ys] show ?thesis
    using assms by (metis (no_types, lifting) ext)
qed

lemma compute_schedule_acyclic:
  assumes "compute_schedule e prio compute tasks deps = Inr res" and "distinct (map fst tasks)"
  shows "acyclic (dep_edges (filtered_deps tasks deps))"
proof -
  obtain g where g: "build_project_dependency_graph tasks deps prio = Inr g"
    using assms(1) by (auto simp: compute_schedule_def)
  have len: "length (project_order tasks deps prio) = length tasks"
    using g by (auto simp: build_graph_eq split: if_splits)
  have top: "topological (filtered_deps tasks deps) (fst ` set tasks) (project_order tasks deps prio)"
    by (rule project_order_topological [OF assms(2)])
  show ?thesis
    by (rule precedes_acyclic [of "project_order tasks deps prio"])
      (use top project_order_complete_iff [OF assms(2), of deps prio] len filtered_deps_closed
        in \<open>auto simp: topological_def dep_edges_def\<close>)
qed

text \<open>
  C35: The priorities, which decide the order in which the ready tasks are taken, decide
  nothing else: two computations of the same project under different priorities give the same
  result.
\<close>

theorem schedule_priority_irrelevant:
  assumes "compute_schedule e prio (compute_task_dates e) tasks deps = Inr res"
    and "compute_schedule e prio' (compute_task_dates e) tasks deps = Inr res'"
    and "distinct (map fst tasks)"
  shows "res = res'"
proof (rule dict_eqI)
  note acyclic = compute_schedule_acyclic [OF assms(1,3)]
  have keys: "map fst res = map fst tasks" "map fst res' = map fst tasks"
    using schedule_infos [OF assms(1,3)] schedule_infos [OF assms(2,3)] by auto
  then show "map fst res = map fst res'" "distinct (map fst res)"
    using assms(3) by auto
  have dom: "map_of res v = None \<longleftrightarrow> v \<notin> fst ` set tasks" "map_of res' v = None \<longleftrightarrow> v \<notin> fst ` set tasks" for v
    using keys by (metis list.set_map map_of_eq_None_iff)+
  have "dates_at (es_of res, ef_of res) v = dates_at (es_of res', ef_of res') v" for v
  proof (cases "v \<in> fst ` set tasks")
    case True
    show ?thesis
      by (rule forward_unique [OF acyclic _ _ compute_task_dates_reads True])
        (rule schedule_early [OF assms(1,3)] schedule_early [OF assms(2,3)], assumption)+
  next
    case False
    then show ?thesis using dom result_outside by (simp add: dates_at_def)
  qed
  then have early: "es_of res = es_of res'" "ef_of res = ef_of res'"
    by (auto simp: dates_at_def)
  obtain pef where late: "\<forall>tid t. map_of tasks tid = Some t \<longrightarrow>
       late_of e tasks deps pef (es_of res, ef_of res) (ls_of res, lf_of res) tid t
       = Inr (ls_of res tid, lf_of res tid)"
    and pef: "\<forall>tid d. ef_of res tid = Some d \<longrightarrow> d \<le> pef" "\<exists>tid \<in> fst ` set tasks. ef_of res tid = Some pef"
    by (rule schedule_late [OF assms(1,3)])
  obtain pef' where late': "\<forall>tid t. map_of tasks tid = Some t \<longrightarrow>
       late_of e tasks deps pef' (es_of res', ef_of res') (ls_of res', lf_of res') tid t
       = Inr (ls_of res' tid, lf_of res' tid)"
    and pef': "\<forall>tid d. ef_of res' tid = Some d \<longrightarrow> d \<le> pef'" "\<exists>tid \<in> fst ` set tasks. ef_of res' tid = Some pef'"
    by (rule schedule_late [OF assms(2,3)])
  have "pef' = pef"
    using pef pef' early by (metis order_antisym)
  have "dates_at (ls_of res, lf_of res) v = dates_at (ls_of res', lf_of res') v" for v
  proof (cases "v \<in> fst ` set tasks")
    case True
    show ?thesis
      by (rule backward_unique [OF acyclic _ _ True, of e pef "(es_of res, ef_of res)"])
        (use late late' early \<open>pef' = pef\<close> in simp_all)
  next
    case False
    then show ?thesis using dom result_outside by (simp add: dates_at_def)
  qed
  then have "ls_of res = ls_of res'" "lf_of res = lf_of res'"
    by (auto simp: dates_at_def)
  then show "map_of res k = map_of res' k" for k
  proof (cases "map_of tasks k")
    case None
    then have "k \<notin> fst ` set tasks" by (simp add: map_of_eq_None_iff)
    then have "map_of res k = None" "map_of res' k = None" using dom [of k] by blast+
    then show ?thesis by simp
  next
    case (Some t)
    obtain i i' where "map_of res k = Some i" "map_of res' k = Some i'"
        "task_info e (es_of res) (ef_of res) (ls_of res) (lf_of res) (k, t) = Inr (k, i)"
        "task_info e (es_of res') (ef_of res') (ls_of res') (lf_of res') (k, t) = Inr (k, i')"
      using schedule_infos [OF assms(1,3)] schedule_infos [OF assms(2,3)] Some by blast
    then show ?thesis using early \<open>ls_of res = ls_of res'\<close> \<open>lf_of res = lf_of res'\<close> by simp
  qed
qed

end
