(* ===== verification/Schedule_Examples.thy ===== *)
theory Schedule_Examples
  imports Schedule_Float
begin

text \<open>
  A small project on a default calendar with one holiday, and the schedule properties applied to
  it: design (3 days), then build (2 days, finish to start with one day of lag), a review that
  starts with the build, a test that finishes with it, and a milestone at the end.
\<close>

section \<open>The example project\<close>

definition example_engine :: calendar_engine where
  "example_engine =
     \<lparr>ce_calendars = (\<lambda>_. None),
      ce_holidays = [\<lparr>hol_id = ''h1'', hol_calendar_id = ''default'', hol_date = 738888, hol_name = ''Holiday''\<rparr>],
      ce_calendar_id = ''default''\<rparr>"

definition example_task :: "string \<Rightarrow> int \<Rightarrow> date option \<Rightarrow> task" where
  "example_task i days start =
     \<lparr>t_id = i, t_project_id = ''p'', t_name = i, t_description = [], t_start_date = start, t_end_date = None,
      t_duration_days = Some days, t_status = TODO, t_priority = NoPriority, t_percent_complete = 0,
      t_actual_start = None, t_actual_end = None, t_deadline = None, t_version = 1\<rparr>"

definition example_dep :: "string \<Rightarrow> string \<Rightarrow> string \<Rightarrow> dependency_type \<Rightarrow> int \<Rightarrow> task_dependency" where
  "example_dep i p q ty lag =
     \<lparr>d_id = i, predecessor_task_id = p, successor_task_id = q, dependency_type = ty, lag_days = lag\<rparr>"

definition example_tasks :: tasks_by_id where
  "example_tasks =
     [(''design'', example_task ''design'' 3 (Some 738886)),
      (''build'', example_task ''build'' 2 None),
      (''review'', example_task ''review'' 1 None),
      (''test'', example_task ''test'' 1 None),
      (''done'', example_task ''done'' 0 None)]"

definition example_deps :: "task_dependency list" where
  "example_deps =
     [example_dep ''d1'' ''design'' ''build'' FINISH_TO_START 1,
      example_dep ''d2'' ''build'' ''review'' START_TO_START 1,
      example_dep ''d3'' ''build'' ''test'' FINISH_TO_FINISH 0,
      example_dep ''d4'' ''build'' ''done'' FINISH_TO_START 0,
      example_dep ''d5'' ''build'' ''outside'' FINISH_TO_START 0]"

definition example_schedule :: "(string, cpm_task_info) dict result" where
  "example_schedule = compute_schedule example_engine priority_value (compute_task_dates example_engine) example_tasks example_deps"

definition example_result :: "(string, cpm_task_info) dict" where
  "example_result = (case example_schedule of Inr r \<Rightarrow> r | Inl _ \<Rightarrow> [])"

lemma example_computed:
  "compute_schedule example_engine priority_value (compute_task_dates example_engine) example_tasks example_deps = Inr example_result"
  by code_simp

definition example_result_by_duration :: "(string, cpm_task_info) dict" where
  "example_result_by_duration =
     (case compute_schedule example_engine duration_of (compute_task_dates example_engine) example_tasks example_deps of
        Inr r \<Rightarrow> r | Inl _ \<Rightarrow> [])"

lemma example_computed_by_duration:
  "compute_schedule example_engine duration_of (compute_task_dates example_engine) example_tasks example_deps =
     Inr example_result_by_duration"
  by code_simp

lemma example_inputs:
  "distinct (map fst example_tasks)" "\<forall>t \<in> snd ` set example_tasks. valid_task t"
  by code_simp+

definition example_graph :: dependency_graph where
  "example_graph =
     (case build_project_dependency_graph example_tasks example_deps priority_value of Inr g \<Rightarrow> g
      | Inl _ \<Rightarrow> \<lparr>topo_order = [], deps_by_successor = [], deps_by_predecessor = []\<rparr>)"

lemma example_graph_built:
  "build_project_dependency_graph example_tasks example_deps priority_value = Inr example_graph"
  by code_simp

section \<open>The properties at work\<close>

theorem build_graph_topological_witness:
  "precedes (topo_order example_graph) ''build'' ''test'' \<and> set (topo_order example_graph) = fst ` set example_tasks"
proof -
  have "example_dep ''d3'' ''build'' ''test'' FINISH_TO_FINISH 0 \<in> set (filtered_deps example_tasks example_deps)"
    by code_simp
  then show ?thesis
    using build_graph_topological [OF example_inputs(1) example_graph_built]
    by (auto simp: example_dep_def)
qed

theorem build_graph_cycle_iff_witness:
  "build_project_dependency_graph example_tasks
      (example_dep ''d6'' ''test'' ''design'' FINISH_TO_START 0 # example_deps) priority_value =
    Inl (BusinessRuleError ''SCHEDULE_CYCLE'') \<and>
   \<not> acyclic (dep_edges (filtered_deps example_tasks
      (example_dep ''d6'' ''test'' ''design'' FINISH_TO_START 0 # example_deps)))"
proof -
  have "build_project_dependency_graph example_tasks
      (example_dep ''d6'' ''test'' ''design'' FINISH_TO_START 0 # example_deps) priority_value =
    Inl (BusinessRuleError ''SCHEDULE_CYCLE'')"
    by code_simp
  then show ?thesis
    using build_graph_cycle_iff [OF example_inputs(1)] by blast
qed

theorem build_graph_priority_witness:
  "heap_key priority_value example_tasks ''review'' \<le> heap_key priority_value example_tasks ''test''"
proof (rule build_graph_priority [OF example_inputs(1) example_graph_built])
  show "topo_order example_graph = [''design'', ''build'', ''done''] @ ''review'' # [''test'']"
    by code_simp
  show "\<forall>d \<in> set (filtered_deps example_tasks example_deps).
      successor_task_id d = ''test'' \<longrightarrow> predecessor_task_id d \<in> set [''design'', ''build'', ''done'']"
    by code_simp
qed simp

theorem schedule_finish_to_start_witness:
  "\<exists>s. es_of example_result ''build'' = Some s \<and> 738889 < s \<and>
     1 \<le> wd_between (is_working_day example_engine) (738889 + 1) (s - 1)"
proof -
  let ?d = "example_dep ''d1'' ''design'' ''build'' FINISH_TO_START 1"
  have "?d \<in> set (filtered_deps example_tasks example_deps)"
    "map_of example_tasks ''build'' = Some (example_task ''build'' 2 None)" "t_actual_end (example_task ''build'' 2 None) = None"
    "ef_of example_result ''design'' = Some 738889"
    by code_simp+
  then show ?thesis
    using schedule_finish_to_start [OF example_computed example_inputs, of ?d] by (simp add: example_dep_def)
qed

theorem schedule_start_start_and_finish_finish_witness:
  "\<exists>c s. add_working_days example_engine 738893 1 = Inr c \<and> es_of example_result ''review'' = Some s \<and> c \<le> s"
proof -
  let ?d = "example_dep ''d2'' ''build'' ''review'' START_TO_START 1"
  have "?d \<in> set (filtered_deps example_tasks example_deps)"
    "map_of example_tasks ''review'' = Some (example_task ''review'' 1 None)" "t_actual_end (example_task ''review'' 1 None) = None"
    "es_of example_result ''build'' = Some 738893"
    by code_simp+
  then show ?thesis
    using schedule_start_start_and_finish_finish [OF example_computed example_inputs, of ?d] by (simp add: example_dep_def)
qed

theorem schedule_spans_duration_witness:
  "\<exists>f. ef_of example_result ''design'' = Some f \<and> 738886 \<le> f \<and> is_working_day example_engine f \<and>
     wd_between (is_working_day example_engine) 738886 f = 3"
proof -
  let ?t = "example_task ''design'' 3 (Some 738886)"
  have "map_of example_tasks ''design'' = Some ?t" "t_actual_end ?t = None" "0 < duration_of ?t" "duration_of ?t = 3"
    "es_of example_result ''design'' = Some 738886"
    by code_simp+
  then show ?thesis
    using schedule_spans_duration [OF example_computed example_inputs, of "''design''" ?t] by simp
qed

theorem schedule_late_finish_to_start_witness:
  "\<exists>f. lf_of example_result ''design'' = Some f \<and> f < 738893 \<and>
     1 \<le> wd_between (is_working_day example_engine) (f + 1) (738893 - 1)"
proof -
  let ?d = "example_dep ''d1'' ''design'' ''build'' FINISH_TO_START 1"
  have "?d \<in> set (filtered_deps example_tasks example_deps)" "ls_of example_result ''build'' = Some 738893"
    by code_simp+
  then show ?thesis
    using schedule_late_finish_to_start [OF example_computed example_inputs, of ?d] by (simp add: example_dep_def)
qed

theorem schedule_float_witness:
  "total_float_days (the (map_of example_result ''review'')) =
     Some (max 0 (wd_between (is_working_day example_engine) 738893 738895 - 1))"
proof -
  let ?i = "the (map_of example_result ''review'')"
  have "map_of example_result ''review'' = Some ?i" "earliest_start ?i = Some 738893" "latest_start ?i = Some 738895"
    by code_simp+
  then show ?thesis
    using schedule_float [OF example_computed example_inputs(1), of "''review''" ?i] by simp
qed

definition example_end_tasks :: tasks_by_id where
  "example_end_tasks = [(''design'', example_task ''design'' 3 (Some 738886)), (''build'', example_task ''build'' 2 None)]"

definition example_end_result :: "(string, cpm_task_info) dict" where
  "example_end_result =
     (case compute_schedule example_engine priority_value (compute_task_dates example_engine) example_end_tasks example_deps of
        Inr r \<Rightarrow> r | Inl _ \<Rightarrow> [])"

theorem schedule_last_task_critical_witness:
  "ls_of example_end_result ''build'' = Some 738893 \<and> lf_of example_end_result ''build'' = Some 738894 \<and>
   (\<exists>i. map_of example_end_result ''build'' = Some i \<and> is_critical i \<and> total_float_days i = Some 0)"
proof (rule schedule_last_task_critical [where t = "example_task ''build'' 2 None"])
  show "compute_schedule example_engine priority_value (compute_task_dates example_engine) example_end_tasks example_deps =
      Inr example_end_result"
    by code_simp
  show "distinct (map fst example_end_tasks)" "\<forall>t \<in> snd ` set example_end_tasks. valid_task t"
    "map_of example_end_tasks ''build'' = Some (example_task ''build'' 2 None)"
    "outgoing_deps example_end_tasks example_deps ''build'' = []" "t_actual_end (example_task ''build'' 2 None) = None"
    "0 < duration_of (example_task ''build'' 2 None)" "es_of example_end_result ''build'' = Some 738893"
    "is_working_day example_engine 738893" "ef_of example_end_result ''build'' = Some 738894"
    by code_simp+
  have "list_all (\<lambda>(v, i). case earliest_finish i of None \<Rightarrow> True | Some g \<Rightarrow> g \<le> 738894) example_end_result"
    by code_simp
  then show "\<forall>v g. ef_of example_end_result v = Some g \<longrightarrow> g \<le> 738894"
    by (auto simp: list_all_iff ef_of_def dest!: map_of_SomeD split: option.splits)
qed

theorem schedule_priority_irrelevant_witness:
  "example_result_by_duration = example_result \<and> map fst example_result = map fst example_tasks"
proof
  show "example_result_by_duration = example_result"
    by (rule schedule_priority_irrelevant [OF example_computed_by_duration example_computed example_inputs(1)])
  show "map fst example_result = map fst example_tasks" by code_simp
qed

end
