(* ===== verification/PM_Session.thy ===== *)
theory PM_Session
  imports PM_Prelude
begin

text \<open>
  Service operations over a SQLAlchemy session: a state-and-exception monad, the session with
  its committed rows, the rows the open transaction sees and the inserts that wait for the next
  flush (the session factory of \<^verbatim>\<open>infra/platform/db/base.py\<close> turns autoflush off),
  \<open>commit\<close>, \<open>flush\<close> and \<open>rollback\<close>, the two \<open>try ... except\<close> shapes of the
  services, and the optimistic-locking update of \<^verbatim>\<open>infra/platform/db/optimistic.py\<close>.
\<close>

section \<open>Operations\<close>

text \<open>An exception keeps the state its statements left: an operation returns both.\<close>

type_synonym ('s, 'a) op = "'s \<Rightarrow> 'a result \<times> 's"

definition oret :: "'a \<Rightarrow> ('s, 'a) op" where
  "oret x s = (Inr x, s)"

definition oraise :: "error \<Rightarrow> ('s, 'a) op" where
  "oraise err s = (Inl err, s)"

definition obind :: "('s, 'a) op \<Rightarrow> ('a \<Rightarrow> ('s, 'b) op) \<Rightarrow> ('s, 'b) op" where
  "obind m f s = (case m s of (Inl err, s') \<Rightarrow> (Inl err, s') | (Inr x, s') \<Rightarrow> f x s')"

text \<open>A computation that only reads its arguments.\<close>

definition olift :: "'a result \<Rightarrow> ('s, 'a) op" where
  "olift r s = (r, s)"

definition oget :: "('s \<Rightarrow> 'a) \<Rightarrow> ('s, 'a) op" where
  "oget f s = (Inr (f s), s)"

definition omodify :: "('s \<Rightarrow> 's) \<Rightarrow> ('s, unit) op" where
  "omodify f s = (Inr (), f s)"

definition oguard :: "bool \<Rightarrow> error \<Rightarrow> ('s, unit) op" where
  "oguard bad err = olift (raise_if bad err)"

text \<open>A loop over a list, which an exception leaves.\<close>

fun ofor :: "('a \<Rightarrow> ('s, unit) op) \<Rightarrow> 'a list \<Rightarrow> ('s, unit) op" where
  "ofor f [] = oret ()"
| "ofor f (x # xs) = obind (f x) (\<lambda>_. ofor f xs)"

lemma obind_Inr [simp]:
  "obind m f s = (Inr y, t) \<longleftrightarrow> (\<exists>x u. m s = (Inr x, u) \<and> f x u = (Inr y, t))"
  by (auto simp: obind_def split: prod.splits sum.splits)

lemma obind_Inl:
  "obind m f s = (Inl err, t) \<longleftrightarrow>
     m s = (Inl err, t) \<or> (\<exists>x u. m s = (Inr x, u) \<and> f x u = (Inl err, t))"
  by (auto simp: obind_def split: prod.splits sum.splits)

lemma obindE:
  assumes "obind m f s = (r, t)"
  obtains (raised) err where "m s = (Inl err, t)" "r = Inl err"
    | (returned) x u where "m s = (Inr x, u)" "f x u = (r, t)"
  using assms by (cases "m s"; cases "fst (m s)") (auto simp: obind_def)

lemma olift_iff [simp]: "olift r s = (r', t) \<longleftrightarrow> r = r' \<and> t = s"
  by (auto simp: olift_def)

lemma oret_iff [simp]: "oret x s = (r, t) \<longleftrightarrow> r = Inr x \<and> t = s"
  by (auto simp: oret_def)

lemma oraise_iff [simp]: "oraise err s = (r, t) \<longleftrightarrow> r = Inl err \<and> t = s"
  by (auto simp: oraise_def)

lemma oget_iff [simp]: "oget f s = (r, t) \<longleftrightarrow> r = Inr (f s) \<and> t = s"
  by (auto simp: oget_def)

lemma omodify_iff [simp]: "omodify f s = (r, t) \<longleftrightarrow> r = Inr () \<and> t = f s"
  by (auto simp: omodify_def)

lemma oguard_Inr [simp]: "oguard bad err s = (Inr u, t) \<longleftrightarrow> \<not> bad \<and> t = s"
  by (auto simp: oguard_def)

lemma oguard_Inl [simp]: "oguard bad err s = (Inl err', t) \<longleftrightarrow> bad \<and> err' = err \<and> t = s"
  by (auto simp: oguard_def raise_if_def)

section \<open>The session\<close>

text \<open>
  \<open>'db\<close> is the content of the tables and \<open>'ins\<close> the rows that can be added. The
  notifications an operation emits and the audit entries it records are kept in order, an audit
  entry as its action, entity type and entity id; \<open>s_audit_on\<close> says whether the service
  was built with an audit service. \<open>s_next_uuid\<close> counts the calls of \<open>uuid4\<close>, whose
  values are an argument of the operations that use them.
\<close>

record ('db, 'ins) session =
  s_committed :: 'db
  s_working :: 'db
  s_pending :: "'ins list"
  s_events :: "(string \<times> string) list"
  s_audit :: "(string \<times> string \<times> string) list"
  s_audit_on :: bool
  s_next_uuid :: nat

type_synonym ('db, 'ins, 'a) sop = "(('db, 'ins) session, 'a) op"

definition session_add :: "'ins \<Rightarrow> ('db, 'ins, unit) sop" where
  "session_add x = omodify (\<lambda>s. s\<lparr>s_pending := s_pending s @ [x]\<rparr>)"

text \<open>
  A flush writes the pending rows; \<open>ins\<close> is the insert of one row, which fails on a
  violated constraint. A failed flush rolls the transaction back before it raises.
\<close>

definition rollback :: "('db, 'ins, unit) sop" where
  "rollback = omodify (\<lambda>s. s\<lparr>s_working := s_committed s, s_pending := []\<rparr>)"

definition session_flush :: "('ins \<Rightarrow> 'db \<Rightarrow> 'db result) \<Rightarrow> ('db, 'ins, unit) sop" where
  "session_flush ins s =
     (case rfold ins (s_pending s) (s_working s) of
        Inl err \<Rightarrow> (Inl err, s\<lparr>s_working := s_committed s, s_pending := []\<rparr>)
      | Inr db \<Rightarrow> (Inr (), s\<lparr>s_working := db, s_pending := []\<rparr>))"

definition commit :: "('ins \<Rightarrow> 'db \<Rightarrow> 'db result) \<Rightarrow> ('db, 'ins, unit) sop" where
  "commit ins =
     obind (session_flush ins) (\<lambda>_. omodify (\<lambda>s. s\<lparr>s_committed := s_working s\<rparr>))"

text \<open>\<open>try: m / except Exception: rollback; raise\<close>.\<close>

definition try_rollback :: "('db, 'ins, 'a) sop \<Rightarrow> ('db, 'ins, 'a) sop" where
  "try_rollback m s =
     (case m s of
        (Inl err, s') \<Rightarrow> obind rollback (\<lambda>_. oraise err) s'
      | (Inr x, s') \<Rightarrow> (Inr x, s'))"

text \<open>The same with a clause that turns an \<open>IntegrityError\<close> into a domain error.\<close>

definition try_integrity :: "(string \<Rightarrow> error) \<Rightarrow> ('db, 'ins, 'a) sop \<Rightarrow> ('db, 'ins, 'a) sop" where
  "try_integrity exists_err m s =
     (case m s of
        (Inl err, s') \<Rightarrow>
          obind rollback (\<lambda>_. oraise (on_integrity exists_err err)) s'
      | (Inr x, s') \<Rightarrow> (Inr x, s'))"

definition emit :: "string \<Rightarrow> string \<Rightarrow> ('db, 'ins, unit) sop" where
  "emit signal entity_id = omodify (\<lambda>s. s\<lparr>s_events := s_events s @ [(signal, entity_id)]\<rparr>)"

text \<open>\<open>record_audit\<close>: nothing without an audit service, otherwise an entry and a commit.\<close>

definition record_audit ::
  "('ins \<Rightarrow> 'db \<Rightarrow> 'db result) \<Rightarrow> string \<Rightarrow> string \<Rightarrow> string \<Rightarrow> ('db, 'ins, unit) sop" where
  "record_audit ins action entity_type entity_id s =
     (if \<not> s_audit_on s then (Inr (), s)
      else obind (commit ins) (\<lambda>_. omodify (\<lambda>s. s\<lparr>s_audit := s_audit s @ [(action, entity_type, entity_id)]\<rparr>)) s)"

section \<open>Transactions\<close>

text \<open>A session between two service calls: nothing pending, nothing uncommitted.\<close>

definition clean :: "('db, 'ins) session \<Rightarrow> bool" where
  "clean s \<longleftrightarrow> s_working s = s_committed s \<and> s_pending s = []"

lemma rollback_eq: "rollback s = (Inr (), s\<lparr>s_working := s_committed s, s_pending := []\<rparr>)"
  by (simp add: rollback_def omodify_def)

lemma try_rollback_Inr [simp]: "try_rollback m s = (Inr x, t) \<longleftrightarrow> m s = (Inr x, t)"
  by (auto simp: try_rollback_def rollback_eq obind_def oraise_def split: prod.splits sum.splits)

lemma try_rollback_Inl:
  "try_rollback m s = (Inl err, t) \<longleftrightarrow>
     (\<exists>u. m s = (Inl err, u) \<and> t = u\<lparr>s_working := s_committed u, s_pending := []\<rparr>)"
  by (auto simp: try_rollback_def rollback_eq obind_def oraise_def split: prod.splits sum.splits)

lemma try_integrity_Inr [simp]: "try_integrity e m s = (Inr x, t) \<longleftrightarrow> m s = (Inr x, t)"
  by (auto simp: try_integrity_def rollback_eq obind_def oraise_def split: prod.splits sum.splits)

lemma try_integrity_Inl:
  "try_integrity e m s = (Inl err, t) \<longleftrightarrow>
     (\<exists>err0 u. m s = (Inl err0, u) \<and> err = on_integrity e err0 \<and>
        t = u\<lparr>s_working := s_committed u, s_pending := []\<rparr>)"
  by (auto simp: try_integrity_def rollback_eq obind_def oraise_def split: prod.splits sum.splits)

lemma session_add_iff [simp]:
  "session_add x s = (r, t) \<longleftrightarrow> r = Inr () \<and> t = s\<lparr>s_pending := s_pending s @ [x]\<rparr>"
  by (auto simp: session_add_def)

lemma session_flush_Inr [simp]:
  "session_flush ins s = (Inr u, t) \<longleftrightarrow>
     (\<exists>db. rfold ins (s_pending s) (s_working s) = Inr db \<and> t = s\<lparr>s_working := db, s_pending := []\<rparr>)"
  by (auto simp: session_flush_def split: sum.splits)

lemma session_flush_Inl [simp]:
  "session_flush ins s = (Inl err, t) \<longleftrightarrow>
     rfold ins (s_pending s) (s_working s) = Inl err \<and>
     t = s\<lparr>s_working := s_committed s, s_pending := []\<rparr>"
  by (auto simp: session_flush_def split: sum.splits)

lemma commit_Inr [simp]:
  "commit ins s = (Inr u, t) \<longleftrightarrow>
     (\<exists>db. rfold ins (s_pending s) (s_working s) = Inr db \<and>
        t = s\<lparr>s_working := db, s_pending := [], s_committed := db\<rparr>)"
  by (auto simp: commit_def)

lemma commit_Inl [simp]:
  "commit ins s = (Inl err, t) \<longleftrightarrow>
     rfold ins (s_pending s) (s_working s) = Inl err \<and>
     t = s\<lparr>s_working := s_committed s, s_pending := []\<rparr>"
  by (auto simp: commit_def obind_Inl)

lemma emit_iff [simp]:
  "emit signal x s = (r, t) \<longleftrightarrow> r = Inr () \<and> t = s\<lparr>s_events := s_events s @ [(signal, x)]\<rparr>"
  by (auto simp: emit_def)

text \<open>On a clean session the audit entry changes the audit log only.\<close>

lemma commit_clean: "clean s \<Longrightarrow> commit ins s = (Inr (), s)"
  by (cases s) (simp add: clean_def commit_def obind_def session_flush_def omodify_def)

lemma clean_logs [simp]:
  "clean (s\<lparr>s_audit := x\<rparr>) = clean s" "clean (s\<lparr>s_events := y\<rparr>) = clean s"
  by (simp_all add: clean_def)

lemma record_audit_clean_eq:
  "clean s \<Longrightarrow> record_audit ins a ty i s =
     (Inr (), if s_audit_on s then s\<lparr>s_audit := s_audit s @ [(a, ty, i)]\<rparr> else s)"
  by (simp add: record_audit_def obind_def commit_clean omodify_def)

lemma record_audit_clean:
  assumes "clean s" "record_audit ins a ty i s = (r, t)"
  shows "r = Inr () \<and> clean t \<and> s_committed t = s_committed s \<and> s_events t = s_events s"
proof -
  have "r = Inr ()" and t: "t = (if s_audit_on s then s\<lparr>s_audit := s_audit s @ [(a, ty, i)]\<rparr> else s)"
    using assms(2) unfolding record_audit_clean_eq [OF assms(1)] by simp_all
  then show ?thesis
    using assms(1) by (cases "s_audit_on s") simp_all
qed

section \<open>Fresh identifiers\<close>

definition fresh_uuid :: "(nat \<Rightarrow> string) \<Rightarrow> ('db, 'ins, string) sop" where
  "fresh_uuid uuid s = (Inr (uuid (s_next_uuid s)), s\<lparr>s_next_uuid := Suc (s_next_uuid s)\<rparr>)"

definition hex_of :: "string \<Rightarrow> string" where
  "hex_of u = filter (\<lambda>c. c \<noteq> CHR ''-'') u"

lemma fresh_uuid_iff [simp]:
  "fresh_uuid uuid s = (r, t) \<longleftrightarrow>
     r = Inr (uuid (s_next_uuid s)) \<and> t = s\<lparr>s_next_uuid := Suc (s_next_uuid s)\<rparr>"
  by (auto simp: fresh_uuid_def)

section \<open>The contract of a service call\<close>

text \<open>
  Whatever happens, the session is clean after the call; an exception leaves the committed rows
  as they were. The parts of a call are neutral (they read, or draw an identifier) or quiet
  (what follows the commit: audit entries and notifications).
\<close>

definition neutral :: "('db, 'ins, 'a) sop \<Rightarrow> bool" where
  "neutral m \<longleftrightarrow> (\<forall>s r t. m s = (r, t) \<longrightarrow>
     s_working t = s_working s \<and> s_committed t = s_committed s \<and> s_pending t = s_pending s)"

definition quiet :: "('db, 'ins, 'a) sop \<Rightarrow> bool" where
  "quiet m \<longleftrightarrow> (\<forall>s r t. clean s \<longrightarrow> m s = (r, t) \<longrightarrow>
     clean t \<and> s_committed t = s_committed s \<and> (\<exists>x. r = Inr x))"

definition atomic_call :: "('db, 'ins, 'a) sop \<Rightarrow> bool" where
  "atomic_call m \<longleftrightarrow> (\<forall>s r t. clean s \<longrightarrow> m s = (r, t) \<longrightarrow>
     clean t \<and> (\<forall>err. r = Inl err \<longrightarrow> s_committed t = s_committed s))"

named_theorems call_intros \<open>introduction rules for neutral, quiet and atomic calls\<close>

lemma neutral_simple [call_intros]:
  "neutral (olift r)" "neutral (oret x)" "neutral (oraise e)" "neutral (oget f)" "neutral (oguard b e)"
  "neutral (fresh_uuid uuid)"
  by (auto simp: neutral_def oguard_def)

lemma neutralD:
  "neutral m \<Longrightarrow> m s = (r, t) \<Longrightarrow>
     s_working t = s_working s \<and> s_committed t = s_committed s \<and> s_pending t = s_pending s"
  unfolding neutral_def by blast

lemma neutralI:
  "(\<And>s r t. m s = (r, t) \<Longrightarrow>
     s_working t = s_working s \<and> s_committed t = s_committed s \<and> s_pending t = s_pending s) \<Longrightarrow> neutral m"
  unfolding neutral_def by blast

lemma neutral_bind [call_intros]:
  assumes "neutral m" "\<And>x. neutral (f x)"
  shows "neutral (obind m f)"
proof (rule neutralI)
  fix s r t assume "obind m f s = (r, t)"
  then show "s_working t = s_working s \<and> s_committed t = s_committed s \<and> s_pending t = s_pending s"
  proof (cases rule: obindE)
    case (raised err)
    then show ?thesis using neutralD [OF assms(1)] by blast
  next
    case (returned x u)
    then show ?thesis using neutralD [OF assms(1) returned(1)] neutralD [OF assms(2) returned(2)] by simp
  qed
qed

lemma neutral_clean: "neutral m \<Longrightarrow> m s = (r, t) \<Longrightarrow> clean t = clean s"
  using neutralD [of m s r t] by (simp add: clean_def)

lemma quiet_simple [call_intros]:
  "quiet (oret x)" "quiet (emit signal i)" "quiet (record_audit ins a ty j)"
proof -
  show "quiet (oret x)" by (simp add: quiet_def)
  show "quiet (emit signal i)" by (simp add: quiet_def)
  show "quiet (record_audit ins a ty j)"
    unfolding quiet_def using record_audit_clean by blast
qed

lemma quietD:
  "quiet m \<Longrightarrow> clean s \<Longrightarrow> m s = (r, t) \<Longrightarrow>
     clean t \<and> s_committed t = s_committed s \<and> (\<exists>x. r = Inr x)"
  unfolding quiet_def by blast

lemma quiet_bind [call_intros]:
  assumes "quiet m" "\<And>x. quiet (f x)"
  shows "quiet (obind m f)"
  unfolding quiet_def
proof (intro allI impI)
  fix s r t assume c: "clean s" and "obind m f s = (r, t)"
  from this(2) show "clean t \<and> s_committed t = s_committed s \<and> (\<exists>x. r = Inr x)"
  proof (cases rule: obindE)
    case (raised err)
    then show ?thesis using quietD [OF assms(1) c] by blast
  next
    case (returned x u)
    have u: "clean u" "s_committed u = s_committed s"
      using quietD [OF assms(1) c returned(1)] by simp_all
    then show ?thesis using quietD [OF assms(2) _ returned(2)] by simp
  qed
qed

lemma quiet_get [call_intros]: "quiet (oget g)"
  by (simp add: quiet_def)

lemma atomicD:
  "atomic_call m \<Longrightarrow> clean s \<Longrightarrow> m s = (r, t) \<Longrightarrow>
     clean t \<and> (\<forall>err. r = Inl err \<longrightarrow> s_committed t = s_committed s)"
  unfolding atomic_call_def by blast

lemma atomic_neutral: "neutral m \<Longrightarrow> atomic_call m"
  unfolding atomic_call_def using neutral_clean neutralD by blast

lemma atomic_bind [call_intros]:
  assumes "neutral m" "\<And>x. atomic_call (f x)"
  shows "atomic_call (obind m f)"
  unfolding atomic_call_def
proof (intro allI impI)
  fix s r t assume c: "clean s" and "obind m f s = (r, t)"
  from this(2) show "clean t \<and> (\<forall>err. r = Inl err \<longrightarrow> s_committed t = s_committed s)"
  proof (cases rule: obindE)
    case (raised err)
    then show ?thesis using neutral_clean [OF assms(1)] neutralD [OF assms(1)] c by metis
  next
    case (returned x u)
    have u: "clean u" "s_committed u = s_committed s"
      using c neutral_clean [OF assms(1) returned(1)] neutralD [OF assms(1) returned(1)] by simp_all
    then show ?thesis using atomicD [OF assms(2) _ returned(2)] by simp
  qed
qed

lemma atomic_then_quiet:
  assumes "atomic_call m" "\<And>x. quiet (f x)"
  shows "atomic_call (obind m f)"
  unfolding atomic_call_def
proof (intro allI impI)
  fix s r t assume c: "clean s" and "obind m f s = (r, t)"
  from this(2) show "clean t \<and> (\<forall>err. r = Inl err \<longrightarrow> s_committed t = s_committed s)"
  proof (cases rule: obindE)
    case (raised err)
    then show ?thesis using atomicD [OF assms(1) c] by blast
  next
    case (returned x u)
    have u: "clean u"
      using atomicD [OF assms(1) c returned(1)] by simp
    then show ?thesis using quietD [OF assms(2) u returned(2)] by auto
  qed
qed

text \<open>A transaction body may change the working rows; only the final commit publishes them.\<close>

definition uncommitted :: "('db, 'ins, 'a) sop \<Rightarrow> bool" where
  "uncommitted m \<longleftrightarrow> (\<forall>s r t. m s = (r, t) \<longrightarrow> s_committed t = s_committed s)"

lemma uncommitted_simple [call_intros]:
  "uncommitted (session_add x)" "uncommitted (session_flush ins)" "uncommitted rollback"
  unfolding uncommitted_def
  by (auto simp: session_flush_def rollback_eq split: sum.splits)

lemma uncommittedD: "uncommitted m \<Longrightarrow> m s = (r, t) \<Longrightarrow> s_committed t = s_committed s"
  unfolding uncommitted_def by blast

lemma uncommitted_neutral: "neutral m \<Longrightarrow> uncommitted m"
  unfolding uncommitted_def using neutralD by blast

lemma uncommitted_bind [call_intros]:
  assumes "uncommitted m" "\<And>x. uncommitted (f x)"
  shows "uncommitted (obind m f)"
  unfolding uncommitted_def
proof (intro allI impI)
  fix s r t assume "obind m f s = (r, t)"
  then show "s_committed t = s_committed s"
  proof (cases rule: obindE)
    case (raised err)
    then show ?thesis using uncommittedD [OF assms(1)] by blast
  next
    case (returned x u)
    then show ?thesis using uncommittedD [OF assms(1) returned(1)] uncommittedD [OF assms(2) returned(2)] by simp
  qed
qed

lemma try_integrity_cases:
  assumes "try_integrity e m s = (r, t)"
  obtains (raised) err u where "m s = (Inl err, u)" "\<exists>err. r = Inl err"
      "t = u\<lparr>s_working := s_committed u, s_pending := []\<rparr>"
    | (returned) x where "m s = (Inr x, t)" "r = Inr x"
proof (cases r)
  case (Inl err)
  then show ?thesis using assms raised by (auto simp: try_integrity_Inl)
next
  case (Inr x)
  then show ?thesis using assms returned by simp
qed

lemma try_rollback_cases:
  assumes "try_rollback m s = (r, t)"
  obtains (raised) err u where "m s = (Inl err, u)" "\<exists>err. r = Inl err"
      "t = u\<lparr>s_working := s_committed u, s_pending := []\<rparr>"
    | (returned) x where "m s = (Inr x, t)" "r = Inr x"
proof (cases r)
  case (Inl err)
  then show ?thesis using assms raised by (auto simp: try_rollback_Inl)
next
  case (Inr x)
  then show ?thesis using assms returned by simp
qed

lemma uncommitted_try_integrity [call_intros]:
  assumes "uncommitted m"
  shows "uncommitted (try_integrity e m)"
  unfolding uncommitted_def
proof (intro allI impI)
  fix s r t assume "try_integrity e m s = (r, t)"
  then show "s_committed t = s_committed s"
    by (cases rule: try_integrity_cases) (use uncommittedD [OF assms] in force)+
qed

text \<open>The body of a transaction: changes, then the commit.\<close>

definition committing ::
  "('ins \<Rightarrow> 'db \<Rightarrow> 'db result) \<Rightarrow> ('db, 'ins, 'a) sop \<Rightarrow> ('db, 'ins, 'a) sop" where
  "committing ins m = obind m (\<lambda>x. obind (commit ins) (\<lambda>_. oret x))"

lemma committing_Inl:
  assumes "uncommitted m" "committing ins m s = (Inl err, t)"
  shows "s_committed t = s_committed s"
  using assms(2) unfolding committing_def
proof (cases rule: obindE)
  case (raised e)
  then show ?thesis using uncommittedD [OF assms(1)] by blast
next
  case (returned x u)
  from returned(2) have "s_committed t = s_committed u"
    by (auto simp: obind_Inl)
  then show ?thesis using uncommittedD [OF assms(1) returned(1)] by simp
qed

lemma committing_Inr: "committing ins m s = (Inr x, t) \<Longrightarrow> clean t"
  by (auto simp: committing_def clean_def)

lemma atomic_try_integrity:
  assumes "uncommitted m"
  shows "atomic_call (try_integrity e (committing ins m))"
  unfolding atomic_call_def
proof (intro allI impI)
  fix s r t assume "clean s" "try_integrity e (committing ins m) s = (r, t)"
  from this(2) show "clean t \<and> (\<forall>err. r = Inl err \<longrightarrow> s_committed t = s_committed s)"
  proof (cases rule: try_integrity_cases)
    case (raised err u)
    then show ?thesis using committing_Inl [OF assms raised(1)] by (simp add: clean_def)
  next
    case (returned x)
    then show ?thesis using committing_Inr [OF returned(1)] by simp
  qed
qed

lemma atomic_try_rollback:
  assumes "uncommitted m"
  shows "atomic_call (try_rollback (committing ins m))"
  unfolding atomic_call_def
proof (intro allI impI)
  fix s r t assume "clean s" "try_rollback (committing ins m) s = (r, t)"
  from this(2) show "clean t \<and> (\<forall>err. r = Inl err \<longrightarrow> s_committed t = s_committed s)"
  proof (cases rule: try_rollback_cases)
    case (raised err u)
    then show ?thesis using committing_Inl [OF assms raised(1)] by (simp add: clean_def)
  next
    case (returned x)
    then show ?thesis using committing_Inr [OF returned(1)] by simp
  qed
qed

lemma atomic_try_then_quiet [call_intros]:
  "uncommitted m \<Longrightarrow> (\<And>x. quiet (f x)) \<Longrightarrow> atomic_call (obind (try_rollback (committing ins m)) f)"
  "uncommitted m \<Longrightarrow> (\<And>x. quiet (f x)) \<Longrightarrow> atomic_call (obind (try_integrity e (committing ins m)) f)"
  by (rule atomic_then_quiet, rule atomic_try_rollback atomic_try_integrity, assumption+)+

lemma call_case_option [call_intros]:
  "neutral a \<Longrightarrow> (\<And>x. neutral (f x)) \<Longrightarrow> neutral (case z of None \<Rightarrow> a | Some x \<Rightarrow> f x)"
  "quiet c \<Longrightarrow> (\<And>x. quiet (g x)) \<Longrightarrow> quiet (case z of None \<Rightarrow> c | Some x \<Rightarrow> g x)"
  "uncommitted d \<Longrightarrow> (\<And>x. uncommitted (h x)) \<Longrightarrow> uncommitted (case z of None \<Rightarrow> d | Some x \<Rightarrow> h x)"
  by (simp_all split: option.splits)

lemma call_case_prod [call_intros]:
  "(\<And>x y. neutral (f x y)) \<Longrightarrow> neutral (case p of (x, y) \<Rightarrow> f x y)"
  "(\<And>x y. quiet (g x y)) \<Longrightarrow> quiet (case p of (x, y) \<Rightarrow> g x y)"
  "(\<And>x y. uncommitted (h x y)) \<Longrightarrow> uncommitted (case p of (x, y) \<Rightarrow> h x y)"
  "(\<And>x y. atomic_call (k x y)) \<Longrightarrow> atomic_call (case p of (x, y) \<Rightarrow> k x y)"
  by (simp_all split: prod.splits)

lemma call_if [call_intros]:
  "neutral a \<Longrightarrow> neutral b \<Longrightarrow> neutral (if c then a else b)"
  "quiet x \<Longrightarrow> quiet y \<Longrightarrow> quiet (if c then x else y)"
  "uncommitted u \<Longrightarrow> uncommitted v \<Longrightarrow> uncommitted (if c then u else v)"
  by simp_all

lemma call_let [call_intros]:
  "neutral (f v) \<Longrightarrow> neutral (let x = v in f x)"
  "quiet (g v) \<Longrightarrow> quiet (let x = v in g x)"
  "uncommitted (h v) \<Longrightarrow> uncommitted (let x = v in h x)"
  "atomic_call (k v) \<Longrightarrow> atomic_call (let x = v in k x)"
  by simp_all

locale unit_of_work =
  fixes run :: "('db, 'ins, 'a) sop"
  assumes atomic: "atomic_call run"
begin

lemma always_clean: "clean s \<Longrightarrow> run s = (r, t) \<Longrightarrow> clean t"
  using atomic unfolding atomic_call_def by blast

lemma failure_unchanged: "clean s \<Longrightarrow> run s = (Inl err, t) \<Longrightarrow> clean t \<and> s_committed t = s_committed s"
  using atomic unfolding atomic_call_def by blast

text \<open>A property of the committed rows survives if the successful calls keep it.\<close>

lemma keeps_committed:
  assumes "clean s" "P (s_committed s)" "run s = (r, t)"
    and "\<And>x. run s = (Inr x, t) \<Longrightarrow> P (s_committed t)"
  shows "P (s_committed t)"
proof (cases r)
  case (Inl err)
  then show ?thesis using failure_unchanged [of s err t] assms(1-3) by simp
next
  case (Inr x)
  then show ?thesis using assms(3,4) by simp
qed

end

section \<open>Optimistic locking\<close>

text \<open>
  \<open>update_with_version_check\<close> on a table, the list of its rows: the row with the id is
  replaced only if it still carries the expected version; the new row carries the next one.
\<close>

definition find_row :: "('r \<Rightarrow> string) \<Rightarrow> 'r list \<Rightarrow> string \<Rightarrow> 'r option" where
  "find_row key rows i = find (\<lambda>r. key r = i) rows"

definition replace_row :: "('r \<Rightarrow> string) \<Rightarrow> 'r \<Rightarrow> 'r list \<Rightarrow> 'r list" where
  "replace_row key r rows = map (\<lambda>x. if key x = key r then r else x) rows"

definition update_with_version_check ::
  "('r \<Rightarrow> string) \<Rightarrow> ('r \<Rightarrow> int) \<Rightarrow> (int \<Rightarrow> 'r \<Rightarrow> 'r) \<Rightarrow> 'r \<Rightarrow> 'r list \<Rightarrow> 'r list result" where
  "update_with_version_check key version set_version r rows =
     (case find_row key rows (key r) of
        None \<Rightarrow> Inl NotFoundErr
      | Some old \<Rightarrow>
          (if version old = version r then Inr (replace_row key (set_version (version r + 1) r) rows)
           else Inl (ConcurrencyError ''STALE_WRITE'')))"

lemma find_row_Some: "find_row key rows i = Some r \<Longrightarrow> r \<in> set rows \<and> key r = i"
  by (auto simp: find_row_def find_Some_iff)

lemma find_row_None: "find_row key rows i = None \<longleftrightarrow> i \<notin> key ` set rows"
  by (auto simp: find_row_def find_None_iff)

lemma find_row_append: "find_row key rows i = Some x \<Longrightarrow> find_row key (rows @ extra) i = Some x"
  by (induction rows) (auto simp: find_row_def)

lemma find_row_distinct:
  assumes "distinct (map key rows)" "r \<in> set rows"
  shows "find_row key rows (key r) = Some r"
  using assms by (induction rows) (auto simp: find_row_def)

lemma set_replace_row:
  "set (replace_row key r rows) \<subseteq> insert r {x \<in> set rows. key x \<noteq> key r}"
  by (auto simp: replace_row_def)

lemma map_key_replace_row [simp]: "map key (replace_row key r rows) = map key rows"
  by (induction rows) (auto simp: replace_row_def)

lemma find_row_replace:
  "find_row key (replace_row key r rows) i =
     (if i = key r \<and> find_row key rows i \<noteq> None then Some r else find_row key rows i)"
  by (induction rows) (auto simp: replace_row_def find_row_def)

end
