(* ===== verification/Auth_Session.thy ===== *)
theory Auth_Session
  imports PM_Prelude
begin

text \<open>
  The signed-in user: the principal and the session context of
  \<^verbatim>\<open>core/platform/auth/session.py\<close>, the default authorization engine of
  \<^verbatim>\<open>core/platform/authorization/engine.py\<close>, and the checks that raise
  (\<^verbatim>\<open>auth/authorization.py\<close>, \<^verbatim>\<open>access/authorization.py\<close>).
\<close>

section \<open>The principal\<close>

type_synonym scope_rows = "(string, string set) dict"

record user_session_principal =
  p_user_id :: string
  p_username :: string
  p_display_name :: "string option"
  role_names :: "string set"
  permissions :: "string set"
  scoped_access :: "(string, scope_rows) dict"
  project_access :: scope_rows
  session_expires_at :: "datetime option"
  must_change_password :: bool
  session_revision :: int
  identity_provider :: "string option"
  last_login_auth_method :: "string option"
  session_id :: "string option"

definition normalize_permission_set :: "string set \<Rightarrow> string set" where
  "normalize_permission_set values = Set.filter (\<lambda>v. v \<noteq> []) (py_strip ` values)"

definition merge_scope ::
  "string \<Rightarrow> string \<Rightarrow> string set \<Rightarrow> (string, scope_rows) dict \<Rightarrow> (string, scope_rows) dict" where
  "merge_scope scope_type scope_id perms normalized =
     (let ty = py_lower (py_strip scope_type); i = py_strip scope_id;
          perms' = normalize_permission_set perms
      in if ty = [] \<or> i = [] then normalized
         else if perms' = {} then normalized
         else (let rows = (case map_of normalized ty of None \<Rightarrow> [] | Some r \<Rightarrow> r);
                   existing = (case map_of rows i of None \<Rightarrow> {} | Some x \<Rightarrow> x)
               in AList.update ty (AList.update i (existing \<union> perms') rows) normalized))"

definition normalize_scoped_access ::
  "(string, scope_rows) dict \<Rightarrow> scope_rows \<Rightarrow> (string, scope_rows) dict" where
  "normalize_scoped_access scoped projects =
     fold (\<lambda>(i, perms). merge_scope ''project'' i perms) projects
       (fold (\<lambda>(ty, rows). fold (\<lambda>(i, perms). merge_scope ty i perms) rows) scoped [])"

definition strip_or_none :: "string option \<Rightarrow> string option" where
  "strip_or_none v =
     (case v of None \<Rightarrow> None | Some x \<Rightarrow> (if py_strip x = [] then None else Some (py_strip x)))"

section \<open>The session context\<close>

text \<open>
  Instants are UTC already, so \<open>ensure_utc_datetime\<close> is the identity. The validator is the
  callback the application installs (it reloads the account); it is an argument of the context.
\<close>

record user_session =
  us_principal :: "user_session_principal option"
  us_validator :: "(user_session_principal \<Rightarrow> user_session_principal option) option"

definition normalize_principal :: "user_session_principal \<Rightarrow> user_session_principal" where
  "normalize_principal p =
     (let scoped = normalize_scoped_access (scoped_access p) (project_access p) in
      p\<lparr>permissions := normalize_permission_set (permissions p),
        scoped_access := scoped,
        project_access := (case map_of scoped ''project'' of None \<Rightarrow> [] | Some r \<Rightarrow> r),
        session_revision := max 1 (session_revision p),
        identity_provider := strip_or_none (identity_provider p),
        last_login_auth_method := strip_or_none (last_login_auth_method p),
        session_id := strip_or_none (session_id p)\<rparr>)"

definition set_principal :: "user_session_principal \<Rightarrow> user_session \<Rightarrow> user_session" where
  "set_principal p us = us\<lparr>us_principal := Some (normalize_principal p)\<rparr>"

definition clear_principal :: "user_session \<Rightarrow> user_session" where
  "clear_principal us = us\<lparr>us_principal := None\<rparr>"

text \<open>
  Reading the active principal ends an expired session and refreshes a valid one from the
  validator: every check below returns the session it leaves.
\<close>

definition active_principal ::
  "datetime \<Rightarrow> user_session \<Rightarrow> user_session_principal option \<times> user_session" where
  "active_principal now us =
     (case us_principal us of
        None \<Rightarrow> (None, us)
      | Some p \<Rightarrow>
          (if (case session_expires_at p of None \<Rightarrow> False | Some expires_at \<Rightarrow> now \<ge> expires_at)
           then (None, clear_principal us)
           else (case us_validator us of
                   None \<Rightarrow> (Some p, us)
                 | Some validator \<Rightarrow>
                     (case validator p of
                        None \<Rightarrow> (None, clear_principal us)
                      | Some validated \<Rightarrow>
                          (let q = normalize_principal validated
                           in (Some q, us\<lparr>us_principal := Some q\<rparr>))))))"

definition scope_rows_of :: "user_session_principal \<Rightarrow> string \<Rightarrow> scope_rows" where
  "scope_rows_of p scope_type =
     (let ty = py_lower (py_strip scope_type) in
      if ty = [] then []
      else (case map_of (scoped_access p) ty of None \<Rightarrow> [] | Some r \<Rightarrow> r))"

definition is_authenticated :: "datetime \<Rightarrow> user_session \<Rightarrow> bool \<times> user_session" where
  "is_authenticated now us = (let (p, us') = active_principal now us in (p \<noteq> None, us'))"

definition has_permission :: "datetime \<Rightarrow> string \<Rightarrow> user_session \<Rightarrow> bool \<times> user_session" where
  "has_permission now code us =
     (case active_principal now us of
        (None, us') \<Rightarrow> (False, us')
      | (Some p, us') \<Rightarrow> (code \<in> permissions p, us'))"

definition has_any_scope_access ::
  "datetime \<Rightarrow> string \<Rightarrow> string \<Rightarrow> user_session \<Rightarrow> bool \<times> user_session" where
  "has_any_scope_access now scope_type code us =
     (case active_principal now us of
        (None, us') \<Rightarrow> (False, us')
      | (Some p, us') \<Rightarrow>
          (if ''admin'' \<in> role_names p then (code \<in> permissions p, us')
           else if code \<notin> permissions p then (False, us')
           else (let rows = scope_rows_of p scope_type in
                 if rows = [] then (True, us')
                 else (list_ex (\<lambda>(_, perms). code \<in> perms) rows, us'))))"

definition has_scope_permission ::
  "datetime \<Rightarrow> string \<Rightarrow> string \<Rightarrow> string \<Rightarrow> user_session \<Rightarrow> bool \<times> user_session" where
  "has_scope_permission now scope_type scope_id code us =
     (case active_principal now us of
        (None, us') \<Rightarrow> (False, us')
      | (Some p, us') \<Rightarrow>
          (if ''admin'' \<in> role_names p then (code \<in> permissions p, us')
           else if code \<notin> permissions p then (False, us')
           else (let rows = scope_rows_of p scope_type in
                 if rows = [] then (True, us')
                 else (case map_of rows (py_strip scope_id) of
                         None \<Rightarrow> (False, us')
                       | Some perms \<Rightarrow> (code \<in> perms, us')))))"

definition scope_ids_for ::
  "datetime \<Rightarrow> string \<Rightarrow> string \<Rightarrow> user_session \<Rightarrow> string set \<times> user_session" where
  "scope_ids_for now scope_type code us =
     (case active_principal now us of
        (None, us') \<Rightarrow> ({}, us')
      | (Some p, us') \<Rightarrow>
          (set (map fst (filter (\<lambda>(_, perms). code \<in> perms) (scope_rows_of p scope_type))), us'))"

definition is_scope_restricted :: "datetime \<Rightarrow> string \<Rightarrow> user_session \<Rightarrow> bool \<times> user_session" where
  "is_scope_restricted now scope_type us =
     (case active_principal now us of
        (None, us') \<Rightarrow> (False, us')
      | (Some p, us') \<Rightarrow>
          (if ''admin'' \<in> role_names p then (False, us') else (scope_rows_of p scope_type \<noteq> [], us')))"

section \<open>The default authorization engine\<close>

text \<open>A service without a session has no rights at all.\<close>

definition engine_has_permission ::
  "datetime \<Rightarrow> string \<Rightarrow> user_session option \<Rightarrow> bool \<times> user_session option" where
  "engine_has_permission now code uso =
     (case uso of
        None \<Rightarrow> (False, None)
      | Some us \<Rightarrow> (let (b, us') = has_permission now code us in (b, Some us')))"

fun engine_has_any_permission ::
  "datetime \<Rightarrow> string list \<Rightarrow> user_session option \<Rightarrow> bool \<times> user_session option" where
  "engine_has_any_permission now codes None = (False, None)"
| "engine_has_any_permission now [] (Some us) = (False, Some us)"
| "engine_has_any_permission now (code # codes) (Some us) =
     (if py_strip code = [] then engine_has_any_permission now codes (Some us)
      else (let (b, us') = has_permission now code us in
            if b then (True, Some us') else engine_has_any_permission now codes (Some us')))"

definition engine_is_admin_session :: "user_session option \<Rightarrow> bool" where
  "engine_is_admin_session uso =
     (case uso of
        None \<Rightarrow> False
      | Some us \<Rightarrow> (case us_principal us of None \<Rightarrow> False | Some p \<Rightarrow> ''admin'' \<in> role_names p))"

definition engine_has_scope_permission ::
  "datetime \<Rightarrow> string \<Rightarrow> string \<Rightarrow> string \<Rightarrow> user_session option \<Rightarrow> bool \<times> user_session option" where
  "engine_has_scope_permission now scope_type scope_id code uso =
     (case uso of
        None \<Rightarrow> (False, None)
      | Some us \<Rightarrow> (let (b, us') = has_scope_permission now scope_type scope_id code us in (b, Some us')))"

definition engine_is_scope_restricted ::
  "datetime \<Rightarrow> string \<Rightarrow> user_session option \<Rightarrow> bool \<times> user_session option" where
  "engine_is_scope_restricted now scope_type uso =
     (case uso of
        None \<Rightarrow> (False, None)
      | Some us \<Rightarrow> (let (b, us') = is_scope_restricted now scope_type us in (b, Some us')))"

definition engine_scope_ids_for ::
  "datetime \<Rightarrow> string \<Rightarrow> string \<Rightarrow> user_session option \<Rightarrow> string set \<times> user_session option" where
  "engine_scope_ids_for now scope_type code uso =
     (case uso of
        None \<Rightarrow> ({}, None)
      | Some us \<Rightarrow> (let (ids, us') = scope_ids_for now scope_type code us in (ids, Some us')))"

definition filter_scope_rows ::
  "datetime \<Rightarrow> string \<Rightarrow> string \<Rightarrow> ('a \<Rightarrow> string) \<Rightarrow> 'a list \<Rightarrow> user_session option
     \<Rightarrow> 'a list \<times> user_session option" where
  "filter_scope_rows now scope_type code scope_id_getter rows uso =
     (let (permitted, uso1) = engine_has_permission now code uso in
      if \<not> permitted then ([], uso1)
      else (let (restricted, uso2) = engine_is_scope_restricted now scope_type uso1 in
            if \<not> restricted then (rows, uso2)
            else (let (allowed, uso3) = engine_scope_ids_for now scope_type code uso2
                  in (filter (\<lambda>r. scope_id_getter r \<in> allowed) rows, uso3))))"

section \<open>The checks that raise\<close>

definition require_permission ::
  "datetime \<Rightarrow> string \<Rightarrow> user_session option \<Rightarrow> unit result \<times> user_session option" where
  "require_permission now code uso =
     (let (b, uso') = engine_has_permission now code uso
      in (raise_if (\<not> b) (BusinessRuleError ''PERMISSION_DENIED''), uso'))"

definition require_any_permission ::
  "datetime \<Rightarrow> string list \<Rightarrow> user_session option \<Rightarrow> unit result \<times> user_session option" where
  "require_any_permission now codes uso =
     (let (b, uso') = engine_has_any_permission now (filter (\<lambda>c. py_strip c \<noteq> []) codes) uso
      in (raise_if (\<not> b) (BusinessRuleError ''PERMISSION_DENIED''), uso'))"

definition require_scope_permission ::
  "datetime \<Rightarrow> string \<Rightarrow> string \<Rightarrow> string \<Rightarrow> user_session option \<Rightarrow> unit result \<times> user_session option" where
  "require_scope_permission now scope_type scope_id code uso =
     (let (b, uso') = engine_has_scope_permission now scope_type scope_id code uso
      in (raise_if (\<not> b) (BusinessRuleError ''PERMISSION_DENIED''), uso'))"

end
