(* ===== verification/Inv_Domain.thy ===== *)
theory Inv_Domain
  imports PM_Prelude
begin

text \<open>
  The stock data of \<^verbatim>\<open>core/modules/inventory_procurement/domain.py\<close>: items,
  storerooms, balances, stock transactions and reservations with their \<open>create\<close>
  constructors. Quantities and costs are exact rationals: the rounding of the code's floats is
  not modelled. The id and the instant a constructor draws itself are arguments.
\<close>

datatype stock_transaction_type =
    OPENING_BALANCE | ADJUSTMENT_INCREASE | ADJUSTMENT_DECREASE | ISSUE | RETURN
  | TRANSFER_OUT | TRANSFER_IN | RESERVATION_HOLD | RESERVATION_RELEASE

datatype stock_reservation_status =
    RES_ACTIVE | RES_PARTIALLY_ISSUED | RES_FULLY_ISSUED | RES_RELEASED | RES_CANCELLED

definition reservation_status_value :: "stock_reservation_status \<Rightarrow> string" where
  "reservation_status_value st =
     (case st of
        RES_ACTIVE \<Rightarrow> ''ACTIVE''
      | RES_PARTIALLY_ISSUED \<Rightarrow> ''PARTIALLY_ISSUED''
      | RES_FULLY_ISSUED \<Rightarrow> ''FULLY_ISSUED''
      | RES_RELEASED \<Rightarrow> ''RELEASED''
      | RES_CANCELLED \<Rightarrow> ''CANCELLED'')"

record stock_item =
  si_id :: string
  si_organization_id :: string
  item_code :: string
  si_name :: string
  si_description :: string
  item_type :: string
  si_status :: string
  stock_uom :: string
  order_uom :: string
  issue_uom :: string
  order_uom_ratio :: "rat option"
  issue_uom_ratio :: "rat option"
  category_code :: string
  commodity_code :: string
  is_stocked :: bool
  is_purchase_allowed :: bool
  si_is_active :: bool
  default_reorder_policy :: string
  min_qty :: rat
  max_qty :: rat
  reorder_point :: rat
  reorder_qty :: rat
  lead_time_days :: "int option"
  is_lot_tracked :: bool
  is_serial_tracked :: bool
  shelf_life_days :: "int option"
  preferred_party_id :: "string option"
  si_created_at :: "datetime option"
  si_updated_at :: "datetime option"
  si_notes :: string
  si_version :: int

record storeroom =
  sr_id :: string
  sr_organization_id :: string
  storeroom_code :: string
  sr_name :: string
  sr_description :: string
  sr_site_id :: string
  sr_status :: string
  storeroom_type :: string
  sr_is_active :: bool
  is_internal_supplier :: bool
  allows_issue :: bool
  allows_transfer :: bool
  allows_receiving :: bool
  requires_reservation_for_issue :: bool
  requires_supplier_reference_for_receipt :: bool
  default_currency_code :: string
  manager_party_id :: "string option"
  sr_created_at :: "datetime option"
  sr_updated_at :: "datetime option"
  sr_notes :: string
  sr_version :: int

record stock_balance =
  sb_id :: string
  sb_organization_id :: string
  sb_stock_item_id :: string
  sb_storeroom_id :: string
  sb_uom :: string
  on_hand_qty :: rat
  reserved_qty :: rat
  available_qty :: rat
  on_order_qty :: rat
  committed_qty :: rat
  average_cost :: rat
  last_receipt_at :: "datetime option"
  last_issue_at :: "datetime option"
  reorder_required :: bool
  sb_updated_at :: "datetime option"
  sb_version :: int

definition create_balance ::
  "string \<Rightarrow> datetime \<Rightarrow> string \<Rightarrow> string \<Rightarrow> string \<Rightarrow> string \<Rightarrow> stock_balance" where
  "create_balance new_id now organization_id stock_item_id storeroom_id uom =
     \<lparr>sb_id = new_id, sb_organization_id = organization_id, sb_stock_item_id = stock_item_id,
      sb_storeroom_id = storeroom_id, sb_uom = uom, on_hand_qty = 0, reserved_qty = 0,
      available_qty = 0, on_order_qty = 0, committed_qty = 0, average_cost = 0,
      last_receipt_at = None, last_issue_at = None, reorder_required = False,
      sb_updated_at = Some now, sb_version = 1\<rparr>"

record stock_transaction =
  st_id :: string
  st_organization_id :: string
  transaction_number :: string
  st_stock_item_id :: string
  st_storeroom_id :: string
  transaction_type :: stock_transaction_type
  st_quantity :: rat
  st_uom :: string
  st_unit_cost :: rat
  transaction_at :: datetime
  reference_type :: string
  reference_id :: string
  performed_by_user_id :: "string option"
  performed_by_username :: string
  resulting_on_hand_qty :: rat
  resulting_available_qty :: rat
  st_notes :: string

record stock_reservation =
  rv_id :: string
  rv_organization_id :: string
  reservation_number :: string
  rv_stock_item_id :: string
  rv_storeroom_id :: string
  rv_reserved_qty :: rat
  issued_qty :: rat
  remaining_qty :: rat
  rv_uom :: string
  rv_status :: stock_reservation_status
  need_by_date :: "date option"
  source_reference_type :: string
  source_reference_id :: string
  requested_by_user_id :: "string option"
  requested_by_username :: string
  rv_created_at :: "datetime option"
  released_at :: "datetime option"
  cancelled_at :: "datetime option"
  rv_notes :: string
  rv_version :: int

definition create_reservation_row ::
  "string \<Rightarrow> datetime \<Rightarrow> string \<Rightarrow> string \<Rightarrow> string \<Rightarrow> string \<Rightarrow> rat \<Rightarrow> rat option \<Rightarrow> string
     \<Rightarrow> date option \<Rightarrow> string \<Rightarrow> string \<Rightarrow> string option \<Rightarrow> string \<Rightarrow> string \<Rightarrow> stock_reservation" where
  "create_reservation_row new_id now organization_id number item_id storeroom_id reserved remaining uom
       need_by source_type source_id user_id username notes =
     \<lparr>rv_id = new_id, rv_organization_id = organization_id, reservation_number = number,
      rv_stock_item_id = item_id, rv_storeroom_id = storeroom_id, rv_reserved_qty = reserved,
      issued_qty = 0,
      remaining_qty = (case remaining of Some q \<Rightarrow> q | None \<Rightarrow> max 0 (reserved - 0)),
      rv_uom = uom, rv_status = RES_ACTIVE, need_by_date = need_by,
      source_reference_type = source_type, source_reference_id = source_id,
      requested_by_user_id = user_id, requested_by_username = username,
      rv_created_at = Some now, released_at = None, cancelled_at = None, rv_notes = notes,
      rv_version = 1\<rparr>"

end
