(* ===== verification/Inv_Support.thy ===== *)
theory Inv_Support
  imports Inv_Domain
begin

text \<open>
  The helpers of \<^verbatim>\<open>core/modules/inventory_procurement/support.py\<close>: status machines as
  transition tables, normalisation of the inputs, and the conversion of quantities and unit
  costs between an item's units of measure.
\<close>

section \<open>Status machines\<close>

type_synonym transitions = "(string, string list) dict"

definition ITEM_STATUS_TRANSITIONS :: transitions where
  "ITEM_STATUS_TRANSITIONS =
    [(''DRAFT'', [''ACTIVE'']), (''ACTIVE'', [''INACTIVE'', ''OBSOLETE'']),
     (''INACTIVE'', [''ACTIVE'']), (''OBSOLETE'', [])]"

definition STOREROOM_STATUS_TRANSITIONS :: transitions where
  "STOREROOM_STATUS_TRANSITIONS =
    [(''DRAFT'', [''ACTIVE'']), (''ACTIVE'', [''INACTIVE'', ''CLOSED'']),
     (''INACTIVE'', [''ACTIVE'']), (''CLOSED'', [])]"

definition REQUISITION_STATUS_TRANSITIONS :: transitions where
  "REQUISITION_STATUS_TRANSITIONS =
    [(''DRAFT'', [''SUBMITTED'', ''CANCELLED'']),
     (''SUBMITTED'', [''UNDER_REVIEW'', ''APPROVED'', ''REJECTED'', ''CANCELLED'']),
     (''UNDER_REVIEW'', [''APPROVED'', ''REJECTED'', ''CANCELLED'']),
     (''APPROVED'', [''PARTIALLY_SOURCED'', ''FULLY_SOURCED'', ''CANCELLED'']),
     (''PARTIALLY_SOURCED'', [''FULLY_SOURCED'', ''CANCELLED'']),
     (''FULLY_SOURCED'', [''CLOSED'']),
     (''REJECTED'', []), (''CANCELLED'', []), (''CLOSED'', [])]"

definition PURCHASE_ORDER_STATUS_TRANSITIONS :: transitions where
  "PURCHASE_ORDER_STATUS_TRANSITIONS =
    [(''DRAFT'', [''SUBMITTED'', ''CANCELLED'']),
     (''SUBMITTED'', [''UNDER_REVIEW'', ''APPROVED'', ''REJECTED'', ''CANCELLED'']),
     (''UNDER_REVIEW'', [''APPROVED'', ''REJECTED'', ''CANCELLED'']),
     (''APPROVED'', [''SENT'', ''PARTIALLY_RECEIVED'', ''FULLY_RECEIVED'', ''CANCELLED'', ''CLOSED'']),
     (''SENT'', [''PARTIALLY_RECEIVED'', ''FULLY_RECEIVED'', ''CANCELLED'', ''CLOSED'']),
     (''PARTIALLY_RECEIVED'', [''FULLY_RECEIVED'', ''CLOSED'', ''CANCELLED'']),
     (''FULLY_RECEIVED'', [''CLOSED'']),
     (''REJECTED'', []), (''CANCELLED'', []), (''CLOSED'', [])]"

definition RESERVATION_STATUS_TRANSITIONS :: transitions where
  "RESERVATION_STATUS_TRANSITIONS =
    [(''ACTIVE'', [''PARTIALLY_ISSUED'', ''FULLY_ISSUED'', ''RELEASED'', ''CANCELLED'']),
     (''PARTIALLY_ISSUED'', [''FULLY_ISSUED'', ''RELEASED'']),
     (''FULLY_ISSUED'', []), (''RELEASED'', []), (''CANCELLED'', [])]"

definition validate_transition :: "string \<Rightarrow> string \<Rightarrow> transitions \<Rightarrow> unit result" where
  "validate_transition current_status next_status transitions =
     (if next_status = current_status then Inr ()
      else (let allowed = (case map_of transitions current_status of None \<Rightarrow> [] | Some xs \<Rightarrow> xs) in
            raise_if (next_status \<notin> set allowed)
              (ValidationError ''INVENTORY_STATUS_TRANSITION_INVALID'')))"

definition resolve_active_flag_from_status :: "string \<Rightarrow> bool" where
  "resolve_active_flag_from_status status \<longleftrightarrow> status = ''ACTIVE''"

definition resolve_status_from_active :: "string \<Rightarrow> bool \<Rightarrow> transitions \<Rightarrow> string result" where
  "resolve_status_from_active current_status is_active transitions =
     (let candidate = (if is_active then ''ACTIVE''
                       else if current_status = ''ACTIVE'' then ''INACTIVE''
                       else current_status)
      in if candidate \<noteq> current_status
         then rbind (validate_transition current_status candidate transitions) (\<lambda>_. Inr candidate)
         else Inr candidate)"

section \<open>Normalisation\<close>

definition INVENTORY_SOURCE_REFERENCE_TYPES :: "string list" where
  "INVENTORY_SOURCE_REFERENCE_TYPES =
    [''task'', ''work_order'', ''maintenance_task'', ''maintenance_work_order'',
     ''maintenance_request'', ''maintenance_operation'', ''maintenance_plan'',
     ''maintenance_material_demand'', ''reservation'', ''requisition'', ''purchase_order'']"

definition normalize_optional_text :: "string option \<Rightarrow> string" where
  "normalize_optional_text value = py_strip (case value of None \<Rightarrow> [] | Some v \<Rightarrow> v)"

definition normalize_uom :: "string option \<Rightarrow> string result" where
  "normalize_uom value =
     (let normalized = py_upper (normalize_optional_text value) in
      if normalized = [] then Inl (ValidationError ''INVENTORY_UOM_REQUIRED'') else Inr normalized)"

definition normalize_status :: "string option \<Rightarrow> string \<Rightarrow> string list \<Rightarrow> string result" where
  "normalize_status value default_status allowed_statuses =
     (let upper = py_upper (normalize_optional_text value);
          normalized = (if upper = [] then default_status else upper)
      in if normalized \<notin> set allowed_statuses then Inl (ValidationError ''INVENTORY_STATUS_INVALID'')
         else Inr normalized)"

definition normalize_nonnegative_quantity :: "rat option \<Rightarrow> rat result" where
  "normalize_nonnegative_quantity value =
     (let amount = (case value of None \<Rightarrow> 0 | Some v \<Rightarrow> v) in
      if amount < 0 then Inl (ValidationError ''INVENTORY_QUANTITY_INVALID'') else Inr amount)"

definition normalize_positive_quantity :: "rat option \<Rightarrow> rat result" where
  "normalize_positive_quantity value =
     (let amount = (case value of None \<Rightarrow> 0 | Some v \<Rightarrow> v) in
      if amount \<le> 0 then Inl (ValidationError ''INVENTORY_QUANTITY_REQUIRED'') else Inr amount)"

definition normalize_nonnegative_days :: "int option \<Rightarrow> int option result" where
  "normalize_nonnegative_days value =
     (case value of
        None \<Rightarrow> Inr None
      | Some days \<Rightarrow> (if days < 0 then Inl (ValidationError ''INVENTORY_DAYS_INVALID'') else Inr (Some days)))"

definition normalize_source_reference_type :: "string option \<Rightarrow> string result" where
  "normalize_source_reference_type value =
     (let normalized = py_lower (normalize_optional_text value) in
      if normalized = [] then Inr []
      else if normalized \<notin> set INVENTORY_SOURCE_REFERENCE_TYPES
        then Inl (ValidationError ''INVENTORY_SOURCE_REFERENCE_TYPE_INVALID'')
      else Inr normalized)"

section \<open>Units of measure\<close>

definition resolve_configured_uom_ratio :: "string \<Rightarrow> string \<Rightarrow> rat option \<Rightarrow> rat result" where
  "resolve_configured_uom_ratio uom stock_unit ratio =
     rbind (normalize_uom (Some stock_unit)) (\<lambda>normalized_stock_uom.
     rbind (normalize_uom (Some uom)) (\<lambda>normalized_uom.
       if normalized_uom = normalized_stock_uom then Inr 1
       else (case ratio of
               None \<Rightarrow> Inl (ValidationError ''INVENTORY_UOM_FACTOR_REQUIRED'')
             | Some factor \<Rightarrow>
                 (if factor \<le> 0 then Inl (ValidationError ''INVENTORY_UOM_FACTOR_REQUIRED'')
                  else Inr factor))))"

definition resolve_item_uom_factor :: "stock_item \<Rightarrow> string \<Rightarrow> rat result" where
  "resolve_item_uom_factor item uom =
     rbind (normalize_uom (Some uom)) (\<lambda>normalized_uom.
       if normalized_uom = stock_uom item then Inr 1
       else if normalized_uom = order_uom item
         then resolve_configured_uom_ratio (order_uom item) (stock_uom item) (order_uom_ratio item)
       else if normalized_uom = issue_uom item
         then resolve_configured_uom_ratio (issue_uom item) (stock_uom item) (issue_uom_ratio item)
       else Inl (ValidationError ''INVENTORY_UOM_CONVERSION_REQUIRED''))"

definition convert_item_quantity :: "stock_item \<Rightarrow> rat \<Rightarrow> string \<Rightarrow> string \<Rightarrow> rat result" where
  "convert_item_quantity item quantity from_uom to_uom =
     rbind (resolve_item_uom_factor item from_uom) (\<lambda>from_factor.
     rbind (resolve_item_uom_factor item to_uom) (\<lambda>to_factor.
       (let stock_quantity = quantity * from_factor in Inr (stock_quantity / to_factor))))"

definition convert_item_unit_cost_to_stock :: "stock_item \<Rightarrow> rat \<Rightarrow> string \<Rightarrow> rat result" where
  "convert_item_unit_cost_to_stock item unit_cost uom =
     rbind (resolve_item_uom_factor item uom) (\<lambda>factor.
     rbind (normalize_nonnegative_quantity (Some unit_cost)) (\<lambda>cost. Inr (cost / factor)))"

definition validate_receipt_tracking ::
  "stock_item \<Rightarrow> rat \<Rightarrow> string \<Rightarrow> string \<Rightarrow> date option \<Rightarrow> date \<Rightarrow> unit result" where
  "validate_receipt_tracking item accepted lot_number serial_number expiry_date received_on =
     (if accepted \<le> 0 then Inr ()
      else
        rbind (raise_if (is_lot_tracked item \<and> lot_number = []) (ValidationError ''INVENTORY_RECEIPT_LOT_REQUIRED'')) (\<lambda>_.
        rbind (if is_serial_tracked item then
                 (if serial_number = [] then Inl (ValidationError ''INVENTORY_RECEIPT_SERIAL_REQUIRED'')
                  else raise_if (\<bar>accepted - 1\<bar> > 1 / 1000000000) (ValidationError ''INVENTORY_RECEIPT_SERIAL_QTY_INVALID''))
               else Inr ()) (\<lambda>_.
        (case shelf_life_days item of
           None \<Rightarrow> Inr ()
         | Some days \<Rightarrow>
             (case expiry_date of
                None \<Rightarrow> Inl (ValidationError ''INVENTORY_RECEIPT_EXPIRY_REQUIRED'')
              | Some expiry \<Rightarrow>
                  rbind (date_add received_on (max 0 days)) (\<lambda>minimum_expiry.
                  raise_if (expiry < minimum_expiry) (ValidationError ''INVENTORY_RECEIPT_EXPIRY_INVALID'')))))))"

section \<open>Properties of the helpers\<close>

lemma normalize_positive_Inr: "normalize_positive_quantity v = Inr q \<Longrightarrow> 0 < q"
  by (auto simp: normalize_positive_quantity_def Let_def split: if_splits)

lemma normalize_nonnegative_Inr: "normalize_nonnegative_quantity v = Inr q \<Longrightarrow> 0 \<le> q"
  by (auto simp: normalize_nonnegative_quantity_def Let_def split: if_splits)

lemma resolve_ratio_pos: "resolve_configured_uom_ratio u s r = Inr f \<Longrightarrow> 0 < f"
  by (auto simp: resolve_configured_uom_ratio_def split: if_splits option.splits)

lemma resolve_factor_pos: "resolve_item_uom_factor item u = Inr f \<Longrightarrow> 0 < f"
  by (auto simp: resolve_item_uom_factor_def dest: resolve_ratio_pos split: if_splits)

lemma convert_quantity_pos: "convert_item_quantity item q u v = Inr r \<Longrightarrow> 0 < q \<Longrightarrow> 0 < r"
  by (auto simp: convert_item_quantity_def Let_def dest!: resolve_factor_pos)

lemma convert_quantity_nonneg: "convert_item_quantity item q u v = Inr r \<Longrightarrow> 0 \<le> q \<Longrightarrow> 0 \<le> r"
  by (auto simp: convert_item_quantity_def Let_def dest!: resolve_factor_pos)

lemma convert_quantity_linear:
  "convert_item_quantity item q u v = Inr r \<Longrightarrow> convert_item_quantity item (k * q) u v = Inr (k * r)"
  by (auto simp: convert_item_quantity_def Let_def)

lemma convert_quantity_diff:
  "convert_item_quantity item q u v = Inr r \<Longrightarrow> convert_item_quantity item q' u v = Inr r' \<Longrightarrow>
     convert_item_quantity item (q - q') u v = Inr (r - r')"
  by (auto simp: convert_item_quantity_def Let_def left_diff_distrib diff_divide_distrib)

lemma convert_cost_nonneg: "convert_item_unit_cost_to_stock item c u = Inr r \<Longrightarrow> 0 \<le> r"
  by (auto simp: convert_item_unit_cost_to_stock_def
      dest!: resolve_factor_pos normalize_nonnegative_Inr)

end
