(* ===== verification/Proc_Domain.thy ===== *)
theory Proc_Domain
  imports Inv_Domain PM_Domain
begin

text \<open>
  The documents of procurement (\<^verbatim>\<open>core/modules/inventory_procurement/domain.py\<close>):
  requisitions, purchase orders, receipts and their lines; the approval requests of
  \<^verbatim>\<open>core/platform/approval/domain.py\<close>; the sites and parties they name; and the
  tables of all of these with their constraints.
\<close>

section \<open>Statuses\<close>

datatype requisition_status =
    RQ_DRAFT | RQ_SUBMITTED | RQ_UNDER_REVIEW | RQ_APPROVED | RQ_REJECTED | RQ_PARTIALLY_SOURCED
  | RQ_FULLY_SOURCED | RQ_CANCELLED | RQ_CLOSED

definition requisition_status_value :: "requisition_status \<Rightarrow> string" where
  "requisition_status_value st =
     (case st of
        RQ_DRAFT \<Rightarrow> ''DRAFT'' | RQ_SUBMITTED \<Rightarrow> ''SUBMITTED'' | RQ_UNDER_REVIEW \<Rightarrow> ''UNDER_REVIEW''
      | RQ_APPROVED \<Rightarrow> ''APPROVED'' | RQ_REJECTED \<Rightarrow> ''REJECTED'' | RQ_PARTIALLY_SOURCED \<Rightarrow> ''PARTIALLY_SOURCED''
      | RQ_FULLY_SOURCED \<Rightarrow> ''FULLY_SOURCED'' | RQ_CANCELLED \<Rightarrow> ''CANCELLED'' | RQ_CLOSED \<Rightarrow> ''CLOSED'')"

datatype requisition_line_status =
    RL_DRAFT | RL_OPEN | RL_PARTIALLY_SOURCED | RL_REJECTED | RL_CANCELLED | RL_FULLY_SOURCED

datatype order_status =
    PO_DRAFT | PO_SUBMITTED | PO_UNDER_REVIEW | PO_APPROVED | PO_REJECTED | PO_SENT | PO_PARTIALLY_RECEIVED
  | PO_FULLY_RECEIVED | PO_CLOSED | PO_CANCELLED

definition order_status_value :: "order_status \<Rightarrow> string" where
  "order_status_value st =
     (case st of
        PO_DRAFT \<Rightarrow> ''DRAFT'' | PO_SUBMITTED \<Rightarrow> ''SUBMITTED'' | PO_UNDER_REVIEW \<Rightarrow> ''UNDER_REVIEW''
      | PO_APPROVED \<Rightarrow> ''APPROVED'' | PO_REJECTED \<Rightarrow> ''REJECTED'' | PO_SENT \<Rightarrow> ''SENT''
      | PO_PARTIALLY_RECEIVED \<Rightarrow> ''PARTIALLY_RECEIVED'' | PO_FULLY_RECEIVED \<Rightarrow> ''FULLY_RECEIVED''
      | PO_CLOSED \<Rightarrow> ''CLOSED'' | PO_CANCELLED \<Rightarrow> ''CANCELLED'')"

datatype order_line_status = PL_DRAFT | PL_OPEN | PL_PARTIALLY_RECEIVED | PL_FULLY_RECEIVED | PL_CANCELLED

datatype approval_status = AP_PENDING | AP_APPROVED | AP_REJECTED

section \<open>Documents\<close>

record requisition =
  rq_id :: string
  rq_organization_id :: string
  requisition_number :: string
  requesting_site_id :: string
  requesting_storeroom_id :: string
  requester_user_id :: "string option"
  requester_username :: string
  rq_status :: requisition_status
  rq_purpose :: string
  needed_by_date :: "date option"
  rq_priority :: string
  rq_approval_request_id :: "string option"
  rq_source_reference_type :: string
  rq_source_reference_id :: string
  rq_submitted_at :: "datetime option"
  rq_approved_at :: "datetime option"
  rq_cancelled_at :: "datetime option"
  rq_notes :: string
  rq_created_at :: "datetime option"
  rq_updated_at :: "datetime option"
  rq_version :: int

definition create_requisition_row ::
  "string \<Rightarrow> datetime \<Rightarrow> string \<Rightarrow> string \<Rightarrow> string \<Rightarrow> string \<Rightarrow> string option \<Rightarrow> string \<Rightarrow> string \<Rightarrow> date option
     \<Rightarrow> string \<Rightarrow> string \<Rightarrow> string \<Rightarrow> string \<Rightarrow> requisition" where
  "create_requisition_row new_id now org number site room user_id username purpose needed priority src_type src_id notes =
     \<lparr>rq_id = new_id, rq_organization_id = org, requisition_number = number, requesting_site_id = site,
      requesting_storeroom_id = room, requester_user_id = user_id, requester_username = username,
      rq_status = RQ_DRAFT, rq_purpose = purpose, needed_by_date = needed, rq_priority = priority,
      rq_approval_request_id = None, rq_source_reference_type = src_type, rq_source_reference_id = src_id,
      rq_submitted_at = None, rq_approved_at = None, rq_cancelled_at = None, rq_notes = notes,
      rq_created_at = Some now, rq_updated_at = Some now, rq_version = 1\<rparr>"

record requisition_line =
  rl_id :: string
  rl_requisition_id :: string
  rl_number :: int
  rl_stock_item_id :: string
  rl_description :: string
  quantity_requested :: rat
  rl_uom :: string
  rl_needed_by_date :: "date option"
  estimated_unit_cost :: rat
  quantity_sourced :: rat
  suggested_supplier_party_id :: "string option"
  rl_status :: requisition_line_status
  rl_notes :: string

definition create_requisition_line ::
  "string \<Rightarrow> string \<Rightarrow> int \<Rightarrow> string \<Rightarrow> string \<Rightarrow> rat \<Rightarrow> string \<Rightarrow> date option \<Rightarrow> rat \<Rightarrow> string option \<Rightarrow> string
     \<Rightarrow> requisition_line" where
  "create_requisition_line new_id requisition_id number item_id description quantity uom needed cost supplier notes =
     \<lparr>rl_id = new_id, rl_requisition_id = requisition_id, rl_number = number, rl_stock_item_id = item_id,
      rl_description = description, quantity_requested = quantity, rl_uom = uom, rl_needed_by_date = needed,
      estimated_unit_cost = cost, quantity_sourced = 0, suggested_supplier_party_id = supplier,
      rl_status = RL_DRAFT, rl_notes = notes\<rparr>"

record purchase_order =
  po_id :: string
  po_organization_id :: string
  po_number :: string
  po_site_id :: string
  supplier_party_id :: string
  po_status :: order_status
  order_date :: "date option"
  expected_delivery_date :: "date option"
  currency_code :: string
  po_approval_request_id :: "string option"
  source_requisition_id :: "string option"
  supplier_reference :: string
  po_submitted_at :: "datetime option"
  po_approved_at :: "datetime option"
  sent_at :: "datetime option"
  closed_at :: "datetime option"
  po_cancelled_at :: "datetime option"
  po_notes :: string
  po_created_at :: "datetime option"
  po_updated_at :: "datetime option"
  po_version :: int

definition create_order_row ::
  "string \<Rightarrow> datetime \<Rightarrow> string \<Rightarrow> string \<Rightarrow> string \<Rightarrow> string \<Rightarrow> string \<Rightarrow> string option \<Rightarrow> date option \<Rightarrow> date option
     \<Rightarrow> string \<Rightarrow> string \<Rightarrow> purchase_order" where
  "create_order_row new_id now org number site supplier currency requisition_id ordered expected reference notes =
     \<lparr>po_id = new_id, po_organization_id = org, po_number = number, po_site_id = site, supplier_party_id = supplier,
      po_status = PO_DRAFT, order_date = ordered, expected_delivery_date = expected, currency_code = currency,
      po_approval_request_id = None, source_requisition_id = requisition_id, supplier_reference = reference,
      po_submitted_at = None, po_approved_at = None, sent_at = None, closed_at = None, po_cancelled_at = None,
      po_notes = notes, po_created_at = Some now, po_updated_at = Some now, po_version = 1\<rparr>"

record order_line =
  pl_id :: string
  pl_order_id :: string
  pl_number :: int
  pl_stock_item_id :: string
  destination_storeroom_id :: string
  pl_description :: string
  quantity_ordered :: rat
  quantity_received :: rat
  quantity_rejected :: rat
  pl_uom :: string
  unit_price :: rat
  pl_expected_delivery_date :: "date option"
  source_requisition_line_id :: "string option"
  pl_status :: order_line_status
  pl_notes :: string

definition create_order_line ::
  "string \<Rightarrow> string \<Rightarrow> int \<Rightarrow> string \<Rightarrow> string \<Rightarrow> string \<Rightarrow> rat \<Rightarrow> string \<Rightarrow> rat \<Rightarrow> date option \<Rightarrow> string option
     \<Rightarrow> string \<Rightarrow> order_line" where
  "create_order_line new_id order_id number item_id room_id description quantity uom price expected source_line notes =
     \<lparr>pl_id = new_id, pl_order_id = order_id, pl_number = number, pl_stock_item_id = item_id,
      destination_storeroom_id = room_id, pl_description = description, quantity_ordered = quantity,
      quantity_received = 0, quantity_rejected = 0, pl_uom = uom, unit_price = price,
      pl_expected_delivery_date = expected, source_requisition_line_id = source_line, pl_status = PL_DRAFT,
      pl_notes = notes\<rparr>"

record receipt_header =
  rc_id :: string
  rc_organization_id :: string
  receipt_number :: string
  rc_order_id :: string
  received_site_id :: string
  rc_supplier_party_id :: string
  receipt_date :: datetime
  supplier_delivery_reference :: string
  received_by_user_id :: "string option"
  received_by_username :: string
  rc_notes :: string
  rc_created_at :: datetime

record receipt_line =
  rcl_id :: string
  rcl_header_id :: string
  rcl_order_line_id :: string
  rcl_number :: int
  rcl_stock_item_id :: string
  rcl_storeroom_id :: string
  quantity_accepted :: rat
  rcl_quantity_rejected :: rat
  rcl_uom :: string
  rcl_unit_cost :: rat
  lot_number :: string
  serial_number :: string
  expiry_date :: "date option"
  rcl_notes :: string

text \<open>
  Of the payload of a request the part is kept that a handler reads when the request is
  approved; the rest is information for its readers. The status of a receipt is left out: it is
  always \<open>POSTED\<close>.
\<close>

datatype approval_payload =
    NoPayload
  | AddDependency string string dependency_type int
  | RemoveDependency string

record approval_request =
  ap_id :: string
  ap_request_type :: string
  ap_entity_type :: string
  ap_entity_id :: string
  ap_status :: approval_status
  ap_project_id :: "string option"
  ap_payload :: approval_payload
  requested_by :: "string option"
  ap_requested_by_username :: "string option"
  ap_requested_at :: datetime
  decided_by :: "string option"
  decided_by_username :: "string option"
  decided_at :: "datetime option"
  decision_note :: "string option"

definition create_approval ::
  "string \<Rightarrow> datetime \<Rightarrow> string \<Rightarrow> string \<Rightarrow> string \<Rightarrow> string option \<Rightarrow> approval_payload \<Rightarrow> string option \<Rightarrow> string option
     \<Rightarrow> approval_request" where
  "create_approval new_id now rtype etype eid project payload user_id username =
     \<lparr>ap_id = new_id, ap_request_type = rtype, ap_entity_type = etype, ap_entity_id = eid, ap_status = AP_PENDING,
      ap_project_id = project, ap_payload = payload, requested_by = user_id, ap_requested_by_username = username, ap_requested_at = now,
      decided_by = None, decided_by_username = None, decided_at = None, decision_note = None\<rparr>"

record site_ref =
  site_id :: string
  site_organization_id :: string
  site_is_active :: bool
  site_currency_code :: string

record party_ref =
  party_id :: string
  party_organization_id :: string
  party_is_active :: bool
  party_type :: string

section \<open>Tables\<close>

record documents =
  dc_requisitions :: "requisition list"
  dc_requisition_lines :: "requisition_line list"
  dc_orders :: "purchase_order list"
  dc_order_lines :: "order_line list"
  dc_receipts :: "receipt_header list"
  dc_receipt_lines :: "receipt_line list"
  dc_approvals :: "approval_request list"
  dc_sites :: "site_ref list"
  dc_parties :: "party_ref list"
  dc_audit :: "(string \<times> string \<times> string) list"

datatype document_row =
    RequisitionRow requisition
  | RequisitionLineRow requisition_line
  | OrderRow purchase_order
  | OrderLineRow order_line
  | ReceiptRow receipt_header
  | ReceiptLineRow receipt_line
  | ApprovalRow approval_request
  | AuditRow string string string

text \<open>
  The primary keys and unique constraints of \<^verbatim>\<open>infra/platform/db/inventory_models.py\<close>
  and of the approval table.
\<close>

fun document_insert :: "document_row \<Rightarrow> documents \<Rightarrow> documents result" where
  "document_insert (RequisitionRow r) d =
     (if list_ex (\<lambda>x. rq_id x = rq_id r \<or>
            (rq_organization_id x = rq_organization_id r \<and> requisition_number x = requisition_number r)) (dc_requisitions d)
      then Inl (IntegrityError ''inventory_purchase_requisitions'')
      else Inr (d\<lparr>dc_requisitions := dc_requisitions d @ [r]\<rparr>))"
| "document_insert (RequisitionLineRow l) d =
     (if list_ex (\<lambda>x. rl_id x = rl_id l \<or>
            (rl_requisition_id x = rl_requisition_id l \<and> rl_number x = rl_number l)) (dc_requisition_lines d)
      then Inl (IntegrityError ''inventory_purchase_requisition_lines'')
      else Inr (d\<lparr>dc_requisition_lines := dc_requisition_lines d @ [l]\<rparr>))"
| "document_insert (OrderRow r) d =
     (if list_ex (\<lambda>x. po_id x = po_id r \<or>
            (po_organization_id x = po_organization_id r \<and> po_number x = po_number r)) (dc_orders d)
      then Inl (IntegrityError ''inventory_purchase_orders'')
      else Inr (d\<lparr>dc_orders := dc_orders d @ [r]\<rparr>))"
| "document_insert (OrderLineRow l) d =
     (if list_ex (\<lambda>x. pl_id x = pl_id l \<or> (pl_order_id x = pl_order_id l \<and> pl_number x = pl_number l)) (dc_order_lines d)
      then Inl (IntegrityError ''inventory_purchase_order_lines'')
      else Inr (d\<lparr>dc_order_lines := dc_order_lines d @ [l]\<rparr>))"
| "document_insert (ReceiptRow r) d =
     (if list_ex (\<lambda>x. rc_id x = rc_id r \<or>
            (rc_organization_id x = rc_organization_id r \<and> receipt_number x = receipt_number r)) (dc_receipts d)
      then Inl (IntegrityError ''inventory_receipt_headers'')
      else Inr (d\<lparr>dc_receipts := dc_receipts d @ [r]\<rparr>))"
| "document_insert (ReceiptLineRow l) d =
     (if list_ex (\<lambda>x. rcl_id x = rcl_id l \<or> (rcl_header_id x = rcl_header_id l \<and> rcl_number x = rcl_number l)) (dc_receipt_lines d)
      then Inl (IntegrityError ''inventory_receipt_lines'')
      else Inr (d\<lparr>dc_receipt_lines := dc_receipt_lines d @ [l]\<rparr>))"
| "document_insert (ApprovalRow r) d =
     (if list_ex (\<lambda>x. ap_id x = ap_id r) (dc_approvals d) then Inl (IntegrityError ''approval_requests'')
      else Inr (d\<lparr>dc_approvals := dc_approvals d @ [r]\<rparr>))"
| "document_insert (AuditRow a ty i) d = Inr (d\<lparr>dc_audit := dc_audit d @ [(a, ty, i)]\<rparr>)"

definition no_documents :: documents where
  "no_documents =
     \<lparr>dc_requisitions = [], dc_requisition_lines = [], dc_orders = [], dc_order_lines = [], dc_receipts = [],
      dc_receipt_lines = [], dc_approvals = [], dc_sites = [], dc_parties = [], dc_audit = []\<rparr>"

end
