(* ===== verification/Task_Tables.thy ===== *)
theory Task_Tables
  imports PM_Domain PM_Session
begin

text \<open>
  The tables of the project-management module that the task and timesheet services read and
  write (\<^verbatim>\<open>infra/platform/db/models.py\<close>). Of projects, resources, employees, calendar
  events and cost items the columns the services look at are kept; time entries and timesheet
  periods (\<^verbatim>\<open>core/platform/time/domain.py\<close>) are complete.
\<close>

record project_dates =
  pj_id :: string
  pj_start_date :: "date option"
  pj_end_date :: "date option"

record time_entry =
  te_id :: string
  te_work_allocation_id :: string
  te_assignment_id :: "string option"
  te_entry_date :: date
  te_hours :: rat
  te_note :: string
  te_author_user_id :: "string option"
  te_author_username :: "string option"
  te_created_at :: datetime
  te_updated_at :: datetime
  te_owner_type :: string
  te_owner_id :: "string option"
  te_owner_label :: string
  te_scope_type :: "string option"
  te_scope_id :: "string option"
  te_employee_id :: "string option"
  te_department_id :: "string option"
  te_department_name :: string
  te_site_id :: "string option"
  te_site_name :: string

datatype timesheet_period_status = TP_OPEN | TP_SUBMITTED | TP_APPROVED | TP_REJECTED | TP_LOCKED

record timesheet_period =
  tp_id :: string
  tp_resource_id :: string
  tp_period_start :: date
  tp_period_end :: date
  tp_status :: timesheet_period_status
  tp_submitted_at :: "datetime option"
  tp_submitted_by_user_id :: "string option"
  tp_submitted_by_username :: "string option"
  tp_decided_at :: "datetime option"
  tp_decided_by_user_id :: "string option"
  tp_decided_by_username :: "string option"
  tp_decision_note :: "string option"
  tp_locked_at :: "datetime option"

record employee_row =
  em_id :: string
  em_department_id :: "string option"
  em_department :: string
  em_site_id :: "string option"
  em_site_name :: string

record project_resource =
  pr_id :: string
  pr_project_id :: string
  pr_resource_id :: string
  pr_hourly_rate :: "rat option"
  pr_currency_code :: "string option"
  pr_planned_hours :: rat
  pr_is_active :: bool

record calendar_event =
  ce_id :: string
  ce_task_id :: "string option"

record cost_item =
  ci_id :: string
  ci_project_id :: string
  ci_task_id :: "string option"

record resource_row =
  rs_id :: string
  rs_name :: string
  capacity_percent :: "rat option"
  rs_hourly_rate :: "rat option"
  rs_currency_code :: "string option"
  rs_is_active :: bool
  rs_employee_id :: "string option"

record project_tables =
  pt_projects :: "project_dates list"
  pt_tasks :: "task list"
  pt_dependencies :: "task_dependency list"
  pt_assignments :: "task_assignment list"
  pt_resources :: "resource_row list"
  pt_project_resources :: "project_resource list"
  pt_employees :: "employee_row list"
  pt_time_entries :: "time_entry list"
  pt_periods :: "timesheet_period list"
  pt_events :: "calendar_event list"
  pt_costs :: "cost_item list"

text \<open>
  The rows these services insert. Besides the primary keys two indexes are unique: a resource is
  in a project once, and has one timesheet period with a given start. A dependency between the
  same two tasks may be stored twice as far as the database is concerned.
\<close>

datatype project_row =
    TaskRow task
  | DependencyRow task_dependency
  | AssignmentRow task_assignment
  | ProjectResourceRow project_resource
  | TimeEntryRow time_entry
  | PeriodRow timesheet_period

fun project_insert :: "project_row \<Rightarrow> project_tables \<Rightarrow> project_tables result" where
  "project_insert (TaskRow t) d =
     (if list_ex (\<lambda>x. t_id x = t_id t) (pt_tasks d) then Inl (IntegrityError ''tasks'')
      else Inr (d\<lparr>pt_tasks := pt_tasks d @ [t]\<rparr>))"
| "project_insert (DependencyRow x) d =
     (if list_ex (\<lambda>y. d_id y = d_id x) (pt_dependencies d) then Inl (IntegrityError ''task_dependencies'')
      else Inr (d\<lparr>pt_dependencies := pt_dependencies d @ [x]\<rparr>))"
| "project_insert (AssignmentRow a) d =
     (if list_ex (\<lambda>x. a_id x = a_id a) (pt_assignments d) then Inl (IntegrityError ''task_assignments'')
      else Inr (d\<lparr>pt_assignments := pt_assignments d @ [a]\<rparr>))"
| "project_insert (ProjectResourceRow r) d =
     (if list_ex (\<lambda>x. pr_id x = pr_id r \<or> (pr_project_id x = pr_project_id r \<and> pr_resource_id x = pr_resource_id r))
           (pt_project_resources d)
      then Inl (IntegrityError ''project_resources'')
      else Inr (d\<lparr>pt_project_resources := pt_project_resources d @ [r]\<rparr>))"
| "project_insert (TimeEntryRow e) d =
     (if list_ex (\<lambda>x. te_id x = te_id e) (pt_time_entries d) then Inl (IntegrityError ''time_entries'')
      else Inr (d\<lparr>pt_time_entries := pt_time_entries d @ [e]\<rparr>))"
| "project_insert (PeriodRow p) d =
     (if list_ex (\<lambda>x. tp_id x = tp_id p \<or> (tp_resource_id x = tp_resource_id p \<and> tp_period_start x = tp_period_start p))
           (pt_periods d)
      then Inl (IntegrityError ''timesheet_periods'')
      else Inr (d\<lparr>pt_periods := pt_periods d @ [p]\<rparr>))"

definition no_project_tables :: project_tables where
  "no_project_tables =
     \<lparr>pt_projects = [], pt_tasks = [], pt_dependencies = [], pt_assignments = [], pt_resources = [], pt_project_resources = [],
      pt_employees = [], pt_time_entries = [], pt_periods = [], pt_events = [], pt_costs = []\<rparr>"

end
