(* ===== verification/Inv_Stock.thy ===== *)
theory Inv_Stock
  imports PM_Session Auth_Session Inv_Support Proc_Domain Task_Tables
begin

text \<open>
  Stock control (\<^verbatim>\<open>core/modules/inventory_procurement/services/stock_control\<close>): the
  tables and their constraints, the guards, the three posting routines and the operations of
  the service.
\<close>

section \<open>Tables and repositories\<close>

record inv_db =
  db_active_org :: "string option"
  db_items :: "stock_item list"
  db_storerooms :: "storeroom list"
  db_balances :: "stock_balance list"
  db_transactions :: "stock_transaction list"
  db_reservations :: "stock_reservation list"
  db_documents :: documents
  db_project :: project_tables

datatype inv_row =
    BalanceRow stock_balance
  | TransactionRow stock_transaction
  | ReservationRow stock_reservation
  | DocumentRow document_row
  | ProjectRow project_row

text \<open>
  The insert of one row under the primary keys and the unique constraints of
  \<^verbatim>\<open>infra/platform/db/inventory_models.py\<close>. The foreign keys point to rows the
  operation has just read.
\<close>

fun inv_insert :: "inv_row \<Rightarrow> inv_db \<Rightarrow> inv_db result" where
  "inv_insert (BalanceRow b) db =
     (if list_ex (\<lambda>x. sb_id x = sb_id b \<or>
            (sb_organization_id x = sb_organization_id b \<and> sb_stock_item_id x = sb_stock_item_id b \<and>
             sb_storeroom_id x = sb_storeroom_id b)) (db_balances db)
      then Inl (IntegrityError ''inventory_stock_balances'')
      else Inr (db\<lparr>db_balances := db_balances db @ [b]\<rparr>))"
| "inv_insert (TransactionRow t) db =
     (if list_ex (\<lambda>x. st_id x = st_id t \<or>
            (st_organization_id x = st_organization_id t \<and> transaction_number x = transaction_number t))
          (db_transactions db)
      then Inl (IntegrityError ''inventory_stock_transactions'')
      else Inr (db\<lparr>db_transactions := db_transactions db @ [t]\<rparr>))"
| "inv_insert (ReservationRow r) db =
     (if list_ex (\<lambda>x. rv_id x = rv_id r \<or>
            (rv_organization_id x = rv_organization_id r \<and> reservation_number x = reservation_number r))
          (db_reservations db)
      then Inl (IntegrityError ''inventory_stock_reservations'')
      else Inr (db\<lparr>db_reservations := db_reservations db @ [r]\<rparr>))"
| "inv_insert (DocumentRow r) db =
     rbind (document_insert r (db_documents db)) (\<lambda>d. Inr (db\<lparr>db_documents := d\<rparr>))"
| "inv_insert (ProjectRow r) db =
     rbind (project_insert r (db_project db)) (\<lambda>d. Inr (db\<lparr>db_project := d\<rparr>))"

type_synonym 'a inv_op = "(inv_db, inv_row, 'a) sop"

text \<open>
  The surroundings of a service call: its instant, the values of \<open>uuid4\<close> and the user
  session. The checks of one call all read the same session at this instant.
\<close>

record inv_env =
  e_now :: datetime
  e_uuid :: "nat \<Rightarrow> string"
  e_user :: "user_session option"

definition require_perm :: "inv_env \<Rightarrow> string \<Rightarrow> 'a \<Rightarrow> unit result \<times> 'a" where
  "require_perm env code = olift (fst (require_permission (e_now env) code (e_user env)))"

definition require_scope_perm :: "inv_env \<Rightarrow> string \<Rightarrow> string \<Rightarrow> string \<Rightarrow> 'a \<Rightarrow> unit result \<times> 'a" where
  "require_scope_perm env scope_type scope_id code =
     olift (fst (require_scope_permission (e_now env) scope_type scope_id code (e_user env)))"

definition performer_id :: "inv_env \<Rightarrow> string option" where
  "performer_id env = (case e_user env of None \<Rightarrow> None | Some us \<Rightarrow> map_option p_user_id (us_principal us))"

definition performer_name :: "inv_env \<Rightarrow> string" where
  "performer_name env =
     (case e_user env of None \<Rightarrow> []
      | Some us \<Rightarrow> (case us_principal us of None \<Rightarrow> [] | Some p \<Rightarrow> p_username p))"

definition get_for_stock_position :: "string \<Rightarrow> string \<Rightarrow> string \<Rightarrow> inv_db \<Rightarrow> stock_balance option" where
  "get_for_stock_position org item_id room_id db =
     find (\<lambda>b. sb_organization_id b = org \<and> sb_stock_item_id b = item_id \<and> sb_storeroom_id b = room_id)
       (db_balances db)"

definition update_balance :: "stock_balance \<Rightarrow> unit inv_op" where
  "update_balance b s =
     (case update_with_version_check sb_id sb_version (\<lambda>v r. r\<lparr>sb_version := v\<rparr>) b (db_balances (s_working s)) of
        Inl err \<Rightarrow> (Inl err, s)
      | Inr rows \<Rightarrow> (Inr (), s\<lparr>s_working := (s_working s)\<lparr>db_balances := rows\<rparr>\<rparr>))"

section \<open>Guards\<close>

definition active_organization :: "string inv_op" where
  "active_organization =
     obind (oget (\<lambda>s. db_active_org (s_working s))) (\<lambda>org.
       case org of None \<Rightarrow> oraise (NotFoundError ''ORGANIZATION_NOT_FOUND'') | Some o_id \<Rightarrow> oret o_id)"

definition get_item :: "inv_env \<Rightarrow> string \<Rightarrow> stock_item inv_op" where
  "get_item env item_id =
     obind (require_perm env ''inventory.read'') (\<lambda>_.
     obind active_organization (\<lambda>org.
     obind (oget (\<lambda>s. find_row si_id (db_items (s_working s)) item_id)) (\<lambda>row.
       case row of
         None \<Rightarrow> oraise (NotFoundError ''INVENTORY_ITEM_NOT_FOUND'')
       | Some item \<Rightarrow>
           (if si_organization_id item \<noteq> org then oraise (NotFoundError ''INVENTORY_ITEM_NOT_FOUND'')
            else oret item))))"

definition get_storeroom_for_internal_use :: "string \<Rightarrow> storeroom inv_op" where
  "get_storeroom_for_internal_use room_id =
     obind active_organization (\<lambda>org.
     obind (oget (\<lambda>s. find_row sr_id (db_storerooms (s_working s)) room_id)) (\<lambda>row.
       case row of
         None \<Rightarrow> oraise (NotFoundError ''INVENTORY_STOREROOM_NOT_FOUND'')
       | Some room \<Rightarrow>
           (if sr_organization_id room \<noteq> org then oraise (NotFoundError ''INVENTORY_STOREROOM_NOT_FOUND'')
            else oret room)))"

definition get_storeroom :: "inv_env \<Rightarrow> string \<Rightarrow> storeroom inv_op" where
  "get_storeroom env room_id =
     obind (require_perm env ''inventory.read'') (\<lambda>_.
     obind (get_storeroom_for_internal_use room_id) (\<lambda>room.
     obind (require_scope_perm env ''storeroom'' (sr_id room) ''inventory.read'') (\<lambda>_.
     oret room)))"

definition validate_stock_item :: "inv_env \<Rightarrow> string \<Rightarrow> stock_item inv_op" where
  "validate_stock_item env item_id =
     obind (get_item env item_id) (\<lambda>item.
     obind (oguard (\<not> si_is_active item) (ValidationError ''INVENTORY_ITEM_INACTIVE'')) (\<lambda>_.
     obind (oguard (\<not> is_stocked item) (ValidationError ''INVENTORY_ITEM_NOT_STOCKED'')) (\<lambda>_.
     oret item)))"

definition validate_storeroom :: "inv_env \<Rightarrow> string \<Rightarrow> storeroom inv_op" where
  "validate_storeroom env room_id =
     obind (get_storeroom env room_id) (\<lambda>room.
     obind (oguard (\<not> sr_is_active room) (ValidationError ''INVENTORY_STOREROOM_INACTIVE'')) (\<lambda>_.
     oret room))"

definition ensure_same_scope :: "stock_item \<Rightarrow> storeroom \<Rightarrow> string \<Rightarrow> unit inv_op" where
  "ensure_same_scope item room org =
     oguard (si_organization_id item \<noteq> org \<or> sr_organization_id room \<noteq> org)
       (ValidationError ''INVENTORY_SCOPE_INVALID'')"

section \<open>The arithmetic of a posting\<close>

definition resolve_average_cost :: "stock_balance \<Rightarrow> rat \<Rightarrow> rat \<Rightarrow> rat \<Rightarrow> rat \<Rightarrow> rat" where
  "resolve_average_cost balance previous_on_hand delta quantity unit_cost =
     (if delta \<le> 0 then average_cost balance
      else if previous_on_hand \<le> 0 then unit_cost
      else (let previous_average = average_cost balance; new_on_hand = on_hand_qty balance in
            if new_on_hand \<le> 0 then unit_cost
            else (previous_on_hand * previous_average + quantity * unit_cost) / new_on_hand))"

definition resolve_quantity_delta :: "stock_transaction_type \<Rightarrow> rat \<Rightarrow> rat" where
  "resolve_quantity_delta ty quantity =
     (if ty \<in> {OPENING_BALANCE, ADJUSTMENT_INCREASE, RETURN, TRANSFER_IN} then quantity else - quantity)"

definition reorder_flag :: "stock_item \<Rightarrow> rat \<Rightarrow> bool" where
  "reorder_flag item available \<longleftrightarrow> reorder_point item \<noteq> 0 \<and> available \<le> reorder_point item"

definition uom_or_stock :: "stock_item \<Rightarrow> string option \<Rightarrow> string" where
  "uom_or_stock item uom = (case uom of Some u \<Rightarrow> (if u = [] then stock_uom item else u) | None \<Rightarrow> stock_uom item)"

text \<open>
  The new balance of \<open>_post_transaction\<close>; the order of the two assignments to the quantity
  and the average cost matters, since the average is taken over the new quantity.
\<close>

definition posted_balance ::
  "stock_item \<Rightarrow> stock_transaction_type \<Rightarrow> rat \<Rightarrow> rat \<Rightarrow> datetime \<Rightarrow> stock_balance \<Rightarrow> stock_balance result" where
  "posted_balance item ty stock_quantity stock_unit_cost effective_at balance =
     (let previous_on_hand = on_hand_qty balance; previous_reserved = reserved_qty balance;
          delta = resolve_quantity_delta ty stock_quantity; new_on_hand = previous_on_hand + delta
      in if new_on_hand < 0 then Inl (ValidationError ''INVENTORY_NEGATIVE_ON_HAND'')
         else if new_on_hand < previous_reserved then Inl (ValidationError ''INVENTORY_NEGATIVE_AVAILABLE'')
         else (let b1 = balance\<lparr>on_hand_qty := new_on_hand,
                                available_qty := max 0 (new_on_hand - previous_reserved),
                                sb_uom := stock_uom item\<rparr>;
                   b2 = b1\<lparr>average_cost := resolve_average_cost b1 previous_on_hand delta stock_quantity stock_unit_cost\<rparr>;
                   b3 = (if delta > 0 then b2\<lparr>last_receipt_at := Some effective_at\<rparr>
                         else b2\<lparr>last_issue_at := Some effective_at\<rparr>)
               in Inr (b3\<lparr>reorder_required := reorder_flag item (available_qty b3),
                          sb_updated_at := Some effective_at\<rparr>)))"

text \<open>The new balance of \<open>_post_reservation_transaction\<close>.\<close>

definition reserved_balance ::
  "stock_item \<Rightarrow> stock_transaction_type \<Rightarrow> rat \<Rightarrow> datetime \<Rightarrow> stock_balance \<Rightarrow> stock_balance result" where
  "reserved_balance item ty stock_quantity effective_at balance =
     (let delta = (if ty = RESERVATION_HOLD then stock_quantity else - stock_quantity);
          new_reserved = reserved_qty balance + delta; new_available = on_hand_qty balance - new_reserved
      in if new_reserved < 0 then Inl (ValidationError ''INVENTORY_NEGATIVE_RESERVED'')
         else if new_available < 0 then Inl (ValidationError ''INVENTORY_NEGATIVE_AVAILABLE'')
         else Inr (balance\<lparr>reserved_qty := new_reserved, available_qty := new_available,
                           sb_uom := stock_uom item,
                           reorder_required := reorder_flag item new_available,
                           sb_updated_at := Some effective_at\<rparr>))"

text \<open>The guards on the quantities of \<open>_post_movement_transaction\<close>.\<close>

definition incoming_movement :: "stock_transaction_type \<Rightarrow> bool" where
  "incoming_movement ty \<longleftrightarrow> ty \<in> {RETURN, TRANSFER_IN}"

definition movement_quantities ::
  "stock_transaction_type \<Rightarrow> rat \<Rightarrow> rat \<Rightarrow> stock_balance \<Rightarrow> (rat \<times> rat \<times> rat) result" where
  "movement_quantities ty movement release balance =
     (let on_hand_delta = (if incoming_movement ty then movement else - movement);
          new_on_hand = on_hand_qty balance + on_hand_delta;
          new_reserved = reserved_qty balance + (- release);
          new_available = new_on_hand - new_reserved
      in if new_on_hand < 0 then Inl (ValidationError ''INVENTORY_NEGATIVE_ON_HAND'')
         else if new_reserved < 0 then Inl (ValidationError ''INVENTORY_NEGATIVE_RESERVED'')
         else if new_available < 0 then Inl (ValidationError ''INVENTORY_NEGATIVE_AVAILABLE'')
         else Inr (new_on_hand, new_reserved, new_available))"

text \<open>The unit cost of the transaction and the one per stock unit.\<close>

definition movement_costs ::
  "stock_item \<Rightarrow> string \<Rightarrow> rat option \<Rightarrow> stock_balance \<Rightarrow> (rat \<times> rat) result" where
  "movement_costs item uom unit_cost balance =
     (case unit_cost of
        None \<Rightarrow>
          rbind (resolve_item_uom_factor item uom) (\<lambda>factor.
            Inr (average_cost balance * factor, average_cost balance))
      | Some c \<Rightarrow>
          rbind (normalize_nonnegative_quantity (Some c)) (\<lambda>effective.
          rbind (convert_item_unit_cost_to_stock item effective uom) (\<lambda>stock_cost.
            Inr (effective, stock_cost))))"

definition moved_balance ::
  "stock_item \<Rightarrow> stock_transaction_type \<Rightarrow> rat \<Rightarrow> rat \<times> rat \<times> rat \<Rightarrow> rat \<Rightarrow> datetime \<Rightarrow> stock_balance \<Rightarrow> stock_balance" where
  "moved_balance item ty movement quantities stock_unit_cost effective_at balance =
     (let (new_on_hand, new_reserved, new_available) = quantities;
          delta = (if incoming_movement ty then movement else - movement);
          b1 = balance\<lparr>on_hand_qty := new_on_hand, reserved_qty := new_reserved,
                       available_qty := new_available, sb_uom := stock_uom item\<rparr>;
          b2 = (if delta > 0 then
                  b1\<lparr>last_receipt_at := Some effective_at,
                     average_cost := resolve_average_cost b1 (on_hand_qty balance) delta movement stock_unit_cost\<rparr>
                else b1\<lparr>last_issue_at := Some effective_at\<rparr>)
      in b2\<lparr>reorder_required := reorder_flag item new_available, sb_updated_at := Some effective_at\<rparr>)"

section \<open>Posting\<close>

definition build_transaction_number :: "inv_env \<Rightarrow> string inv_op" where
  "build_transaction_number env =
     obind (fresh_uuid (e_uuid env)) (\<lambda>u. oret (''INV-TXN-'' @ py_upper (take 10 (hex_of u))))"

text \<open>The transaction row of a posting; its number and its id are drawn in this order.\<close>

definition make_transaction ::
  "inv_env \<Rightarrow> string \<Rightarrow> stock_item \<Rightarrow> storeroom \<Rightarrow> stock_transaction_type \<Rightarrow> rat \<Rightarrow> string \<Rightarrow> rat \<Rightarrow> datetime
     \<Rightarrow> string \<Rightarrow> string \<Rightarrow> string \<Rightarrow> stock_balance \<Rightarrow> stock_transaction inv_op" where
  "make_transaction env org item room ty quantity uom unit_cost effective_at ref_type ref_id notes balance =
     obind (build_transaction_number env) (\<lambda>number.
     obind (fresh_uuid (e_uuid env)) (\<lambda>new_id.
     oret \<lparr>st_id = new_id, st_organization_id = org, transaction_number = number,
           st_stock_item_id = si_id item, st_storeroom_id = sr_id room, transaction_type = ty,
           st_quantity = quantity, st_uom = uom, st_unit_cost = unit_cost,
           transaction_at = effective_at,
           reference_type = normalize_optional_text (Some ref_type),
           reference_id = normalize_optional_text (Some ref_id),
           performed_by_user_id = performer_id env, performed_by_username = performer_name env,
           resulting_on_hand_qty = on_hand_qty balance,
           resulting_available_qty = available_qty balance,
           st_notes = normalize_optional_text (Some notes)\<rparr>))"

text \<open>The \<open>try\<close> block that all three posting routines share.\<close>

definition write_posting :: "bool \<Rightarrow> stock_balance \<Rightarrow> stock_transaction \<Rightarrow> unit inv_op" where
  "write_posting is_new balance txn =
     obind (if is_new then session_add (BalanceRow balance) else update_balance balance) (\<lambda>_.
     session_add (TransactionRow txn))"

definition save_posting :: "bool \<Rightarrow> stock_balance \<Rightarrow> stock_transaction \<Rightarrow> bool \<Rightarrow> unit inv_op" where
  "save_posting is_new balance txn do_commit =
     try_integrity (\<lambda>_. ValidationError ''INVENTORY_TRANSACTION_EXISTS'')
       (if do_commit then committing inv_insert (write_posting is_new balance txn)
        else obind (write_posting is_new balance txn) (\<lambda>_. session_flush inv_insert))"

definition record_transaction_audit :: "stock_transaction \<Rightarrow> unit inv_op" where
  "record_transaction_audit txn =
     record_audit inv_insert ''inventory_stock_transaction.post'' ''inventory_stock_transaction'' (st_id txn)"

definition announce_posting :: "stock_balance \<Rightarrow> stock_transaction \<Rightarrow> bool \<Rightarrow> unit inv_op" where
  "announce_posting balance txn do_commit =
     (if do_commit then
        obind (record_transaction_audit txn) (\<lambda>_. emit ''inventory_balances_changed'' (sb_id balance))
      else oret ())"

text \<open>The balance of the stock position, or a new one where the routine allows that.\<close>

definition load_or_create_balance ::
  "inv_env \<Rightarrow> string \<Rightarrow> stock_item \<Rightarrow> storeroom \<Rightarrow> bool \<Rightarrow> (stock_balance \<times> bool) inv_op" where
  "load_or_create_balance env org item room may_create =
     obind (oget (\<lambda>s. get_for_stock_position org (si_id item) (sr_id room) (s_working s))) (\<lambda>found.
       case found of
         Some b \<Rightarrow> oret (b, False)
       | None \<Rightarrow>
           (if \<not> may_create then oraise (ValidationError ''INVENTORY_STOCK_BALANCE_REQUIRED'')
            else obind (fresh_uuid (e_uuid env)) (\<lambda>new_id.
              oret (create_balance new_id (e_now env) org (si_id item) (sr_id room) (stock_uom item), True))))"

definition post_transaction ::
  "inv_env \<Rightarrow> string \<Rightarrow> stock_item \<Rightarrow> storeroom \<Rightarrow> stock_transaction_type \<Rightarrow> rat option \<Rightarrow> string option
     \<Rightarrow> rat option \<Rightarrow> datetime option \<Rightarrow> string \<Rightarrow> string \<Rightarrow> string \<Rightarrow> bool \<Rightarrow> stock_transaction inv_op" where
  "post_transaction env org item room ty quantity uom unit_cost at_time ref_type ref_id notes do_commit =
     obind (olift (normalize_positive_quantity quantity)) (\<lambda>normalized_quantity.
     obind (olift (normalize_uom (Some (uom_or_stock item uom)))) (\<lambda>normalized_uom.
     obind (olift (convert_item_quantity item normalized_quantity normalized_uom (stock_uom item))) (\<lambda>stock_quantity.
     obind (olift (normalize_nonnegative_quantity unit_cost)) (\<lambda>normalized_unit_cost.
     obind (olift (convert_item_unit_cost_to_stock item normalized_unit_cost normalized_uom)) (\<lambda>stock_unit_cost.
     (let effective_at = (case at_time of Some x \<Rightarrow> x | None \<Rightarrow> e_now env) in
      obind (load_or_create_balance env org item room True) (\<lambda>(balance, is_new).
      obind (olift (posted_balance item ty stock_quantity stock_unit_cost effective_at balance)) (\<lambda>new_balance.
      obind (make_transaction env org item room ty normalized_quantity normalized_uom normalized_unit_cost
               effective_at ref_type ref_id notes new_balance) (\<lambda>txn.
      obind (save_posting is_new new_balance txn do_commit) (\<lambda>_.
      obind (announce_posting new_balance txn do_commit) (\<lambda>_.
      oret txn)))))))))))"

definition post_reservation_transaction ::
  "inv_env \<Rightarrow> string \<Rightarrow> stock_item \<Rightarrow> storeroom \<Rightarrow> stock_transaction_type \<Rightarrow> rat option \<Rightarrow> string option
     \<Rightarrow> datetime option \<Rightarrow> string \<Rightarrow> string \<Rightarrow> string \<Rightarrow> bool \<Rightarrow> stock_transaction inv_op" where
  "post_reservation_transaction env org item room ty quantity uom at_time ref_type ref_id notes do_commit =
     obind (olift (normalize_positive_quantity quantity)) (\<lambda>normalized_quantity.
     obind (olift (normalize_uom (Some (uom_or_stock item uom)))) (\<lambda>normalized_uom.
     obind (olift (convert_item_quantity item normalized_quantity normalized_uom (stock_uom item))) (\<lambda>stock_quantity.
     (let effective_at = (case at_time of Some x \<Rightarrow> x | None \<Rightarrow> e_now env) in
      obind (load_or_create_balance env org item room False) (\<lambda>(balance, is_new).
      obind (olift (reserved_balance item ty stock_quantity effective_at balance)) (\<lambda>new_balance.
      obind (make_transaction env org item room ty normalized_quantity normalized_uom 0
               effective_at ref_type ref_id notes new_balance) (\<lambda>txn.
      obind (save_posting False new_balance txn do_commit) (\<lambda>_.
      obind (announce_posting new_balance txn do_commit) (\<lambda>_.
      oret txn)))))))))"

definition post_movement_transaction ::
  "inv_env \<Rightarrow> string \<Rightarrow> stock_item \<Rightarrow> storeroom \<Rightarrow> stock_transaction_type \<Rightarrow> rat option \<Rightarrow> string option
     \<Rightarrow> rat option \<Rightarrow> datetime option \<Rightarrow> rat option \<Rightarrow> string \<Rightarrow> string \<Rightarrow> string \<Rightarrow> bool
     \<Rightarrow> stock_transaction inv_op" where
  "post_movement_transaction env org item room ty quantity uom unit_cost at_time release ref_type ref_id notes do_commit =
     obind (olift (normalize_positive_quantity quantity)) (\<lambda>normalized_quantity.
     obind (olift (normalize_nonnegative_quantity release)) (\<lambda>normalized_release.
     obind (olift (normalize_uom (Some (uom_or_stock item uom)))) (\<lambda>normalized_uom.
     obind (olift (convert_item_quantity item normalized_quantity normalized_uom (stock_uom item))) (\<lambda>movement.
     obind (olift (convert_item_quantity item normalized_release normalized_uom (stock_uom item))) (\<lambda>release_stock.
     obind (oguard (release_stock > movement) (ValidationError ''INVENTORY_RESERVED_RELEASE_INVALID'')) (\<lambda>_.
     (let effective_at = (case at_time of Some x \<Rightarrow> x | None \<Rightarrow> e_now env) in
      obind (load_or_create_balance env org item room (incoming_movement ty)) (\<lambda>(balance, is_new).
      obind (olift (movement_quantities ty movement release_stock balance)) (\<lambda>quantities.
      obind (olift (movement_costs item normalized_uom unit_cost balance)) (\<lambda>(effective_cost, stock_cost).
      (let new_balance = moved_balance item ty movement quantities stock_cost effective_at balance in
       obind (make_transaction env org item room ty normalized_quantity normalized_uom effective_cost
                effective_at ref_type ref_id notes new_balance) (\<lambda>txn.
       obind (save_posting is_new new_balance txn do_commit) (\<lambda>_.
       obind (announce_posting new_balance txn do_commit) (\<lambda>_.
       oret txn))))))))))))))"

section \<open>The operations of the service\<close>

text \<open>The prologue the single-storeroom operations share.\<close>

definition stock_position :: "inv_env \<Rightarrow> string \<Rightarrow> string \<Rightarrow> (string \<times> stock_item \<times> storeroom) inv_op" where
  "stock_position env item_id room_id =
     obind (require_perm env ''inventory.manage'') (\<lambda>_.
     obind active_organization (\<lambda>org.
     obind (validate_stock_item env item_id) (\<lambda>item.
     obind (validate_storeroom env room_id) (\<lambda>room.
     obind (ensure_same_scope item room org) (\<lambda>_.
     oret (org, item, room))))))"

definition post_opening_balance ::
  "inv_env \<Rightarrow> string \<Rightarrow> string \<Rightarrow> rat option \<Rightarrow> string option \<Rightarrow> rat option \<Rightarrow> datetime option \<Rightarrow> string \<Rightarrow> bool
     \<Rightarrow> stock_transaction inv_op" where
  "post_opening_balance env item_id room_id quantity uom unit_cost at_time notes do_commit =
     obind (stock_position env item_id room_id) (\<lambda>(org, item, room).
     obind (oget (\<lambda>s. filter (\<lambda>t. st_organization_id t = org \<and> st_stock_item_id t = si_id item \<and>
                                   st_storeroom_id t = sr_id room) (db_transactions (s_working s)))) (\<lambda>existing.
     obind (oguard (existing \<noteq> []) (ValidationError ''INVENTORY_OPENING_BALANCE_EXISTS'')) (\<lambda>_.
     post_transaction env org item room OPENING_BALANCE quantity uom unit_cost at_time ''opening_balance'' [] notes do_commit)))"

definition post_adjustment ::
  "inv_env \<Rightarrow> string \<Rightarrow> string \<Rightarrow> rat option \<Rightarrow> string \<Rightarrow> string option \<Rightarrow> rat option \<Rightarrow> datetime option
     \<Rightarrow> string \<Rightarrow> string \<Rightarrow> string \<Rightarrow> bool \<Rightarrow> stock_transaction inv_op" where
  "post_adjustment env item_id room_id quantity direction uom unit_cost at_time ref_type ref_id notes do_commit =
     obind (stock_position env item_id room_id) (\<lambda>(org, item, room).
     (let normalized_direction = py_upper (normalize_optional_text (Some direction)) in
      obind (oguard (normalized_direction \<notin> {''INCREASE'', ''DECREASE''})
               (ValidationError ''INVENTORY_ADJUSTMENT_DIRECTION_INVALID'')) (\<lambda>_.
      post_transaction env org item room
        (if normalized_direction = ''INCREASE'' then ADJUSTMENT_INCREASE else ADJUSTMENT_DECREASE)
        quantity uom unit_cost at_time ref_type ref_id notes do_commit)))"

definition hold_reservation ::
  "inv_env \<Rightarrow> string \<Rightarrow> string \<Rightarrow> rat option \<Rightarrow> string option \<Rightarrow> datetime option \<Rightarrow> string \<Rightarrow> string \<Rightarrow> string \<Rightarrow> bool
     \<Rightarrow> stock_transaction inv_op" where
  "hold_reservation env item_id room_id quantity uom at_time ref_type ref_id notes do_commit =
     obind (stock_position env item_id room_id) (\<lambda>(org, item, room).
     post_reservation_transaction env org item room RESERVATION_HOLD quantity uom at_time ref_type ref_id notes do_commit)"

definition release_reservation ::
  "inv_env \<Rightarrow> string \<Rightarrow> string \<Rightarrow> rat option \<Rightarrow> string option \<Rightarrow> datetime option \<Rightarrow> string \<Rightarrow> string \<Rightarrow> string \<Rightarrow> bool
     \<Rightarrow> stock_transaction inv_op" where
  "release_reservation env item_id room_id quantity uom at_time ref_type ref_id notes do_commit =
     obind (stock_position env item_id room_id) (\<lambda>(org, item, room).
     post_reservation_transaction env org item room RESERVATION_RELEASE quantity uom at_time ref_type ref_id notes do_commit)"

definition issue_stock ::
  "inv_env \<Rightarrow> string \<Rightarrow> string \<Rightarrow> rat option \<Rightarrow> string option \<Rightarrow> rat option \<Rightarrow> datetime option \<Rightarrow> rat option
     \<Rightarrow> string \<Rightarrow> string \<Rightarrow> string \<Rightarrow> bool \<Rightarrow> stock_transaction inv_op" where
  "issue_stock env item_id room_id quantity uom unit_cost at_time release ref_type ref_id notes do_commit =
     obind (stock_position env item_id room_id) (\<lambda>(org, item, room).
     obind (oguard (\<not> allows_issue room) (ValidationError ''INVENTORY_ISSUE_FORBIDDEN'')) (\<lambda>_.
     obind (oguard (requires_reservation_for_issue room \<and> (case release of None \<Rightarrow> 0 | Some r \<Rightarrow> r) \<le> 0)
              (ValidationError ''INVENTORY_ISSUE_RESERVATION_REQUIRED'')) (\<lambda>_.
     post_movement_transaction env org item room ISSUE quantity uom unit_cost at_time release ref_type ref_id notes do_commit)))"

definition return_stock ::
  "inv_env \<Rightarrow> string \<Rightarrow> string \<Rightarrow> rat option \<Rightarrow> string option \<Rightarrow> rat option \<Rightarrow> datetime option
     \<Rightarrow> string \<Rightarrow> string \<Rightarrow> string \<Rightarrow> bool \<Rightarrow> stock_transaction inv_op" where
  "return_stock env item_id room_id quantity uom unit_cost at_time ref_type ref_id notes do_commit =
     obind (stock_position env item_id room_id) (\<lambda>(org, item, room).
     post_movement_transaction env org item room RETURN quantity uom unit_cost at_time (Some 0) ref_type ref_id notes do_commit)"

definition emit_balance_changed :: "string \<Rightarrow> stock_item \<Rightarrow> storeroom \<Rightarrow> unit inv_op" where
  "emit_balance_changed org item room =
     obind (oget (\<lambda>s. get_for_stock_position org (si_id item) (sr_id room) (s_working s))) (\<lambda>found.
       case found of None \<Rightarrow> oret () | Some b \<Rightarrow> emit ''inventory_balances_changed'' (sb_id b))"

definition transfer_stock ::
  "inv_env \<Rightarrow> string \<Rightarrow> string \<Rightarrow> string \<Rightarrow> rat option \<Rightarrow> string option \<Rightarrow> datetime option \<Rightarrow> string
     \<Rightarrow> (stock_transaction \<times> stock_transaction) inv_op" where
  "transfer_stock env item_id source_id destination_id quantity uom at_time notes =
     obind (require_perm env ''inventory.manage'') (\<lambda>_.
     obind active_organization (\<lambda>org.
     obind (validate_stock_item env item_id) (\<lambda>item.
     obind (validate_storeroom env source_id) (\<lambda>source.
     obind (validate_storeroom env destination_id) (\<lambda>destination.
     obind (ensure_same_scope item source org) (\<lambda>_.
     obind (ensure_same_scope item destination org) (\<lambda>_.
     obind (oguard (sr_id source = sr_id destination) (ValidationError ''INVENTORY_TRANSFER_STOREROOM_DUPLICATE'')) (\<lambda>_.
     obind (oguard (\<not> allows_transfer source \<or> \<not> allows_transfer destination)
              (ValidationError ''INVENTORY_TRANSFER_FORBIDDEN'')) (\<lambda>_.
     (let effective_at = (case at_time of Some x \<Rightarrow> x | None \<Rightarrow> e_now env) in
      obind (fresh_uuid (e_uuid env)) (\<lambda>u.
      (let transfer_reference = ''INV-TRF-'' @ py_upper (take 10 (hex_of u)) in
       obind (try_rollback (committing inv_insert
          (obind (post_movement_transaction env org item source TRANSFER_OUT quantity uom None (Some effective_at)
                    (Some 0) ''stock_transfer'' transfer_reference notes False) (\<lambda>outbound.
           obind (post_movement_transaction env org item destination TRANSFER_IN quantity uom
                    (Some (st_unit_cost outbound)) (Some effective_at) (Some 0) ''stock_transfer'' transfer_reference notes False) (\<lambda>inbound.
           oret (outbound, inbound)))))) (\<lambda>(outbound, inbound).
       obind (record_transaction_audit outbound) (\<lambda>_.
       obind (record_transaction_audit inbound) (\<lambda>_.
       obind (emit_balance_changed org item source) (\<lambda>_.
       obind (emit_balance_changed org item destination) (\<lambda>_.
       oret (outbound, inbound))))))))))))))))))"

end
