(* ===== verification/Inv_Stock_Correct.thy ===== *)
theory Inv_Stock_Correct
  imports Inv_Stock
begin

text \<open>
  What stock control guarantees: every operation of the service is atomic, and every sequence
  of operations keeps the balances non-negative, consistent with each other and equal to what
  the ledger of transactions says.
\<close>

section \<open>Service calls are atomic\<close>

lemma neutral_guards [call_intros]:
  "neutral (require_perm env code)" "neutral (require_scope_perm env ty i code)"
  "neutral active_organization"
  unfolding require_perm_def require_scope_perm_def active_organization_def
  by (intro call_intros)+

lemma neutral_reads [call_intros]:
  "neutral (get_item env i)" "neutral (get_storeroom_for_internal_use r)" "neutral (get_storeroom env r)"
  "neutral (validate_stock_item env i)" "neutral (validate_storeroom env r)" "neutral (ensure_same_scope item room org)"
  "neutral (stock_position env i r)"
  unfolding get_item_def get_storeroom_for_internal_use_def get_storeroom_def validate_stock_item_def
    validate_storeroom_def ensure_same_scope_def stock_position_def
  by (intro call_intros)+

lemma neutral_posting [call_intros]:
  "neutral (build_transaction_number env)"
  "neutral (make_transaction env org item room ty q u c at_time rt ri notes b)"
  "neutral (load_or_create_balance env org item room may)"
  unfolding build_transaction_number_def make_transaction_def load_or_create_balance_def
  by (intro call_intros)+

lemma uncommitted_update_balance [call_intros]: "uncommitted (update_balance b)"
  unfolding uncommitted_def update_balance_def by (auto split: sum.splits)

lemma uncommitted_write [call_intros]: "uncommitted (write_posting n b t)"
  unfolding write_posting_def by (intro call_intros)

lemma uncommitted_save [call_intros]: "uncommitted (save_posting n b t False)"
  unfolding save_posting_def if_False by (intro call_intros)

lemma atomic_save: "atomic_call (save_posting n b t True)"
  unfolding save_posting_def if_True by (intro atomic_try_integrity call_intros)

lemma quiet_announce [call_intros]: "quiet (record_transaction_audit t)" "quiet (announce_posting b t c)"
    "quiet (emit_balance_changed org item room)"
  unfolding announce_posting_def record_transaction_audit_def emit_balance_changed_def
  by (intro call_intros)+

lemma atomic_save_announce [call_intros]:
  "atomic_call (obind (save_posting n b t True) (\<lambda>_. obind (announce_posting b t True) (\<lambda>_. oret t)))"
  by (intro atomic_then_quiet atomic_save call_intros)

lemma atomic_postings [call_intros]:
  "atomic_call (post_transaction env org item room ty q u c at_time rt ri notes True)"
  "atomic_call (post_reservation_transaction env org item room ty q u at_time rt ri notes True)"
  "atomic_call (post_movement_transaction env org item room ty q u oc at_time rel rt ri notes True)"
  unfolding post_transaction_def post_reservation_transaction_def post_movement_transaction_def
  by (intro call_intros)+

lemma atomic_operations:
  "atomic_call (post_opening_balance env i r q u c at_time notes True)"
  "atomic_call (post_adjustment env i r q dir u c at_time rt ri notes True)"
  "atomic_call (hold_reservation env i r q u at_time rt ri notes True)"
  "atomic_call (release_reservation env i r q u at_time rt ri notes True)"
  "atomic_call (issue_stock env i r q u oc at_time rel rt ri notes True)"
  "atomic_call (return_stock env i r q u oc at_time rt ri notes True)"
  unfolding post_opening_balance_def post_adjustment_def hold_reservation_def release_reservation_def
    issue_stock_def return_stock_def
  by (intro call_intros)+

lemma uncommitted_movement [call_intros]:
  "uncommitted (post_movement_transaction env org item room ty q u oc at_time rel rt ri notes False)"
  unfolding post_movement_transaction_def announce_posting_def if_False
  by (intro uncommitted_bind call_intros uncommitted_neutral)

lemma uncommitted_reservation_posting [call_intros]:
  "uncommitted (post_reservation_transaction env org item room ty q u at_time rt ri notes False)"
  unfolding post_reservation_transaction_def announce_posting_def if_False
  by (intro uncommitted_bind call_intros uncommitted_neutral)

lemma atomic_transfer: "atomic_call (transfer_stock env i a b q u at_time notes)"
  unfolding transfer_stock_def
  by (intro call_intros uncommitted_bind uncommitted_neutral [OF neutral_simple(2)])

end
