(* ===== verification/Inv_Ledger.thy ===== *)
theory Inv_Ledger
  imports Inv_Stock_Correct
begin

text \<open>
  The effect of one posting on the tables, and the invariant that ties the balances to the
  ledger of stock transactions.
\<close>

section \<open>The effect of a posting\<close>

type_synonym inv_op_state = "(inv_db, inv_row) session"

definition apply_posting :: "bool \<Rightarrow> stock_balance \<Rightarrow> stock_transaction \<Rightarrow> inv_db \<Rightarrow> inv_db" where
  "apply_posting is_new b t db =
     db\<lparr>db_balances := (if is_new then db_balances db @ [b]
                        else replace_row sb_id (b\<lparr>sb_version := sb_version b + 1\<rparr>) (db_balances db)),
        db_transactions := db_transactions db @ [t]\<rparr>"

definition position :: "stock_balance \<Rightarrow> string \<times> string \<times> string" where
  "position b = (sb_organization_id b, sb_stock_item_id b, sb_storeroom_id b)"

definition txn_position :: "stock_transaction \<Rightarrow> string \<times> string \<times> string" where
  "txn_position t = (st_organization_id t, st_stock_item_id t, st_storeroom_id t)"

definition posting_allowed :: "bool \<Rightarrow> stock_balance \<Rightarrow> inv_db \<Rightarrow> bool" where
  "posting_allowed is_new b db \<longleftrightarrow>
     (if is_new then sb_id b \<notin> sb_id ` set (db_balances db) \<and> position b \<notin> position ` set (db_balances db)
      else sb_id b \<in> sb_id ` set (db_balances db))"

lemma insert_balance_Inr:
  "inv_insert (BalanceRow b) db = Inr db' \<longleftrightarrow>
     sb_id b \<notin> sb_id ` set (db_balances db) \<and> position b \<notin> position ` set (db_balances db) \<and>
     db' = db\<lparr>db_balances := db_balances db @ [b]\<rparr>"
proof -
  have "list_ex (\<lambda>x. sb_id x = sb_id b \<or>
            (sb_organization_id x = sb_organization_id b \<and> sb_stock_item_id x = sb_stock_item_id b \<and>
             sb_storeroom_id x = sb_storeroom_id b)) (db_balances db)
      \<longleftrightarrow> sb_id b \<in> sb_id ` set (db_balances db) \<or> position b \<in> position ` set (db_balances db)"
    unfolding list_ex_iff position_def image_iff prod.inject by metis
  then show ?thesis by auto
qed

lemma write_posting_new:
  assumes "write_posting True b t s = (Inr u, s1)"
  shows "s1 = s\<lparr>s_pending := s_pending s @ [BalanceRow b, TransactionRow t]\<rparr>"
  using assms by (simp add: write_posting_def)

lemma update_balance_Inr:
  "update_balance b s = (Inr u, s1) \<longleftrightarrow>
     (\<exists>old. find_row sb_id (db_balances (s_working s)) (sb_id b) = Some old \<and> sb_version old = sb_version b) \<and>
     s1 = s\<lparr>s_working := (s_working s)\<lparr>db_balances :=
        replace_row sb_id (b\<lparr>sb_version := sb_version b + 1\<rparr>) (db_balances (s_working s))\<rparr>\<rparr>"
  by (auto simp: update_balance_def update_with_version_check_def split: option.splits if_splits)

text \<open>
  The reservation service adds its row and leaves the flush to the posting: reservations may be
  waiting when a posting starts.
\<close>

definition with_reservations :: "stock_reservation list \<Rightarrow> inv_db \<Rightarrow> inv_db" where
  "with_reservations rs db = db\<lparr>db_reservations := db_reservations db @ rs\<rparr>"

lemma with_no_reservations [simp]: "with_reservations [] db = db"
  by (cases db) (simp add: with_reservations_def)

lemma with_reservations_fields [simp]:
  "db_items (with_reservations rs db) = db_items db"
  "db_storerooms (with_reservations rs db) = db_storerooms db"
  "db_active_org (with_reservations rs db) = db_active_org db"
  "db_balances (with_reservations rs db) = db_balances db"
  "db_transactions (with_reservations rs db) = db_transactions db"
  "db_reservations (with_reservations rs db) = db_reservations db @ rs"
  by (simp_all add: with_reservations_def)

lemma insert_reservations:
  assumes "rfold inv_insert (map ReservationRow rs) db = Inr db1" "db_reservations db0 = db_reservations db"
  shows "db1 = with_reservations rs db \<and>
    rfold inv_insert (map ReservationRow rs) db0 = Inr (with_reservations rs db0)"
  using assms
proof (induction rs arbitrary: db db0)
  case (Cons r rs)
  let ?ins = "\<lambda>d. d\<lparr>db_reservations := db_reservations d @ [r]\<rparr>"
  have ok: "inv_insert (ReservationRow r) db = Inr (?ins db)" "inv_insert (ReservationRow r) db0 = Inr (?ins db0)"
    using Cons.prems by (auto split: if_splits)
  have rest: "rfold inv_insert (map ReservationRow rs) (?ins db) = Inr db1"
    using Cons.prems(1) ok(1) by (simp del: inv_insert.simps)
  have "db1 = with_reservations rs (?ins db) \<and>
      rfold inv_insert (map ReservationRow rs) (?ins db0) = Inr (with_reservations rs (?ins db0))"
    by (rule Cons.IH [OF rest]) (simp add: Cons.prems(2))
  then show ?case
    using ok by (simp del: inv_insert.simps add: with_reservations_def)
qed simp

lemma apply_posting_with_reservations:
  "apply_posting n b t (with_reservations rs db) = with_reservations rs (apply_posting n b t db)"
  by (simp add: apply_posting_def with_reservations_def)

lemma flush_posting:
  assumes "write_posting n b t s = (Inr u, s1)" "s_pending s = map ReservationRow rs"
    and flush: "rfold inv_insert (s_pending s1) (s_working s1) = Inr db"
  shows "db = apply_posting n b t (with_reservations rs (s_working s)) \<and> posting_allowed n b (s_working s) \<and>
    s_committed s1 = s_committed s \<and>
    rfold inv_insert (map ReservationRow rs) (s_working s) = Inr (with_reservations rs (s_working s))"
proof (cases n)
  case True
  have s1: "s1 = s\<lparr>s_pending := map ReservationRow rs @ [BalanceRow b, TransactionRow t]\<rparr>"
    using write_posting_new assms(1,2) True by fastforce
  obtain db1 where db1: "rfold inv_insert (map ReservationRow rs) (s_working s) = Inr db1"
    and rest: "rfold inv_insert [BalanceRow b, TransactionRow t] db1 = Inr db"
    using flush unfolding s1 by (auto simp: rfold_append simp del: inv_insert.simps)
  have "db1 = with_reservations rs (s_working s)"
    using insert_reservations [OF db1 refl] by simp
  then show ?thesis
    using rest db1 True unfolding s1
    by (auto simp: apply_posting_def posting_allowed_def insert_balance_Inr simp del: inv_insert.simps(1) split: if_splits)
next
  case False
  let ?w = "(s_working s)\<lparr>db_balances :=
        replace_row sb_id (b\<lparr>sb_version := sb_version b + 1\<rparr>) (db_balances (s_working s))\<rparr>"
  obtain old where old: "find_row sb_id (db_balances (s_working s)) (sb_id b) = Some old"
    and s1: "s1 = s\<lparr>s_working := ?w, s_pending := map ReservationRow rs @ [TransactionRow t]\<rparr>"
    using assms(1,2) False by (auto simp: write_posting_def update_balance_Inr)
  have "sb_id b \<in> sb_id ` set (db_balances (s_working s))"
    using find_row_Some [OF old] by (metis image_eqI)
  moreover obtain db1 where db1: "rfold inv_insert (map ReservationRow rs) ?w = Inr db1"
    and rest: "inv_insert (TransactionRow t) db1 = Inr db"
    using flush unfolding s1 by (auto simp: rfold_append simp del: inv_insert.simps)
  moreover have "db1 = with_reservations rs ?w"
      "rfold inv_insert (map ReservationRow rs) (s_working s) = Inr (with_reservations rs (s_working s))"
    using insert_reservations [OF db1, of "s_working s"] by simp_all
  ultimately show ?thesis
    using False unfolding s1
    by (auto simp: apply_posting_def posting_allowed_def with_reservations_def split: if_splits)
qed

lemma save_posting_effect:
  assumes "save_posting n b t c s = (Inr u, s')" "s_pending s = map ReservationRow rs"
  shows "s_working s' = apply_posting n b t (with_reservations rs (s_working s)) \<and> posting_allowed n b (s_working s) \<and>
    s_pending s' = [] \<and> s_committed s' = (if c then s_working s' else s_committed s) \<and>
    rfold inv_insert (map ReservationRow rs) (s_working s) = Inr (with_reservations rs (s_working s))"
proof (cases c)
  case True
  then obtain v s1 db where "write_posting n b t s = (Inr v, s1)"
      "rfold inv_insert (s_pending s1) (s_working s1) = Inr db"
      "s' = s1\<lparr>s_working := db, s_pending := [], s_committed := db\<rparr>"
    using assms(1) by (auto simp: save_posting_def committing_def)
  then show ?thesis
    using flush_posting [of n b t s v s1 rs db] assms(2) True by simp
next
  case False
  then obtain v s1 db where "write_posting n b t s = (Inr v, s1)"
      "rfold inv_insert (s_pending s1) (s_working s1) = Inr db"
      "s' = s1\<lparr>s_working := db, s_pending := []\<rparr>"
    using assms(1) by (auto simp: save_posting_def)
  then show ?thesis
    using flush_posting [of n b t s v s1 rs db] assms(2) False by simp
qed

lemma posting_tail:
  assumes "obind (save_posting n b t c) (\<lambda>_. obind (announce_posting b t c) (\<lambda>_. oret t)) s = (Inr t', s')"
    and "s_pending s = map ReservationRow rs"
  shows "t' = t \<and> s_working s' = apply_posting n b t (with_reservations rs (s_working s)) \<and>
    posting_allowed n b (s_working s) \<and>
    s_pending s' = [] \<and> s_committed s' = (if c then s_working s' else s_committed s) \<and>
    rfold inv_insert (map ReservationRow rs) (s_working s) = Inr (with_reservations rs (s_working s))"
proof -
  obtain u s1 v s2 where save: "save_posting n b t c s = (Inr u, s1)"
    and ann: "announce_posting b t c s1 = (Inr v, s2)" and t': "t' = t" "s' = s2"
    using assms(1) by auto
  note eff = save_posting_effect [OF save assms(2)]
  show ?thesis
  proof (cases c)
    case True
    then have "clean s1" using eff by (simp add: clean_def)
    then have "clean s2" "s_committed s2 = s_committed s1"
      using quietD [OF quiet_announce(2) _ ann] by simp_all
    then show ?thesis using eff t' True by (simp add: clean_def)
  next
    case False
    then have "s2 = s1" using ann by (simp add: announce_posting_def)
    then show ?thesis using eff t' False by simp
  qed
qed


text \<open>The balance a posting starts from.\<close>

definition starts_from :: "inv_db \<Rightarrow> string \<Rightarrow> stock_item \<Rightarrow> storeroom \<Rightarrow> stock_balance \<Rightarrow> bool \<Rightarrow> bool" where
  "starts_from db org item room b is_new \<longleftrightarrow>
     (if is_new then get_for_stock_position org (si_id item) (sr_id room) db = None \<and>
        (\<exists>i now. b = create_balance i now org (si_id item) (sr_id room) (stock_uom item))
      else get_for_stock_position org (si_id item) (sr_id room) db = Some b)"

lemma load_balance_Inr:
  assumes "load_or_create_balance env org item room may s = (Inr (b, n), s')"
  shows "starts_from (s_working s) org item room b n \<and> (n \<longrightarrow> may) \<and>
    s_working s' = s_working s \<and> s_committed s' = s_committed s \<and> s_pending s' = s_pending s"
proof -
  have "starts_from (s_working s) org item room b n \<and> (n \<longrightarrow> may)"
    using assms unfolding load_or_create_balance_def starts_from_def
    by (auto split: option.splits if_splits)
  then show ?thesis
    using neutralD [OF neutral_posting(3) assms] by simp
qed

lemma starts_from_position:
  "starts_from db org item room b n \<Longrightarrow> position b = (org, si_id item, sr_id room)"
  by (auto simp: starts_from_def position_def create_balance_def get_for_stock_position_def find_Some_iff
      split: if_splits)

lemma make_transaction_Inr:
  assumes "make_transaction env org item room ty q u c at_time rt ri notes b s = (Inr t, s')"
  shows "transaction_type t = ty \<and> st_quantity t = q \<and> st_uom t = u \<and> st_unit_cost t = c \<and>
    txn_position t = (org, si_id item, sr_id room) \<and> resulting_on_hand_qty t = on_hand_qty b \<and>
    resulting_available_qty t = available_qty b \<and>
    s_working s' = s_working s \<and> s_committed s' = s_committed s \<and> s_pending s' = s_pending s"
proof -
  have "transaction_type t = ty \<and> st_quantity t = q \<and> st_uom t = u \<and> st_unit_cost t = c \<and>
    txn_position t = (org, si_id item, sr_id room) \<and> resulting_on_hand_qty t = on_hand_qty b \<and>
    resulting_available_qty t = available_qty b"
    using assms unfolding make_transaction_def by (auto simp: txn_position_def)
  then show ?thesis
    using neutralD [OF neutral_posting(2) assms] by simp
qed

text \<open>The effect of a posting routine on the tables, before and after its commit.\<close>

definition posting_effect ::
  "string \<Rightarrow> stock_item \<Rightarrow> storeroom \<Rightarrow> bool \<Rightarrow> stock_reservation list \<Rightarrow> inv_op_state \<Rightarrow> inv_op_state
     \<Rightarrow> stock_balance \<Rightarrow> stock_balance \<Rightarrow> stock_transaction \<Rightarrow> bool" where
  "posting_effect org item room do_commit rs s s' b b' t \<longleftrightarrow>
     (\<exists>n. starts_from (s_working s) org item room b n \<and> posting_allowed n b' (s_working s) \<and>
        s_working s' = apply_posting n b' t (with_reservations rs (s_working s))) \<and>
     rfold inv_insert (map ReservationRow rs) (s_working s) = Inr (with_reservations rs (s_working s)) \<and>
     s_pending s' = [] \<and> s_committed s' = (if do_commit then s_working s' else s_committed s) \<and>
     txn_position t = (org, si_id item, sr_id room) \<and>
     resulting_on_hand_qty t = on_hand_qty b' \<and> resulting_available_qty t = available_qty b'"

lemma post_transaction_effect:
  assumes "post_transaction env org item room ty quantity uom uc at_time rt ri notes c s = (Inr t, s')"
    and "s_pending s = map ReservationRow rs"
  obtains b b' q cost eff where "posting_effect org item room c rs s s' b b' t"
    and "transaction_type t = ty" and "normalize_positive_quantity quantity = Inr (st_quantity t)"
    and "convert_item_quantity item (st_quantity t) (st_uom t) (stock_uom item) = Inr q"
    and "convert_item_unit_cost_to_stock item (st_unit_cost t) (st_uom t) = Inr cost"
    and "posted_balance item ty q cost eff b = Inr b'"
proof -
  define eff where "eff = (case at_time of None \<Rightarrow> e_now env | Some x \<Rightarrow> x)"
  obtain q0 u q nc cost b n s1 b' txn s2 where
      q0: "normalize_positive_quantity quantity = Inr q0"
    and q: "convert_item_quantity item q0 u (stock_uom item) = Inr q"
    and cost: "convert_item_unit_cost_to_stock item nc u = Inr cost"
    and load: "load_or_create_balance env org item room True s = (Inr (b, n), s1)"
    and b': "posted_balance item ty q cost eff b = Inr b'"
    and mk: "make_transaction env org item room ty q0 u nc eff rt ri notes b' s1 = (Inr txn, s2)"
    and tail: "obind (save_posting n b' txn c) (\<lambda>_. obind (announce_posting b' txn c) (\<lambda>_. oret txn)) s2 = (Inr t, s')"
    using assms(1) unfolding post_transaction_def Let_def eff_def
    by (simp split: prod.splits) blast
  note l = load_balance_Inr [OF load] and m = make_transaction_Inr [OF mk]
  have pend: "s_pending s2 = map ReservationRow rs" using l m assms(2) by simp
  note tl = posting_tail [OF tail pend]
  show ?thesis
  proof (rule that [of b b' q cost eff])
    show "posting_effect org item room c rs s s' b b' t"
      unfolding posting_effect_def using l m tl by auto
  qed (use m tl q0 q cost b' in auto)
qed

lemma post_reservation_effect:
  assumes "post_reservation_transaction env org item room ty quantity uom at_time rt ri notes c s = (Inr t, s')"
    and "s_pending s = map ReservationRow rs"
  obtains b b' q eff where "posting_effect org item room c rs s s' b b' t"
    and "transaction_type t = ty" and "normalize_positive_quantity quantity = Inr (st_quantity t)"
    and "normalize_uom (Some (uom_or_stock item uom)) = Inr (st_uom t)"
    and "convert_item_quantity item (st_quantity t) (st_uom t) (stock_uom item) = Inr q"
    and "reserved_balance item ty q eff b = Inr b'"
proof -
  define eff where "eff = (case at_time of None \<Rightarrow> e_now env | Some x \<Rightarrow> x)"
  obtain q0 u q b n s1 b' txn s2 where
      q0: "normalize_positive_quantity quantity = Inr q0"
    and u: "normalize_uom (Some (uom_or_stock item uom)) = Inr u"
    and q: "convert_item_quantity item q0 u (stock_uom item) = Inr q"
    and load: "load_or_create_balance env org item room False s = (Inr (b, n), s1)"
    and b': "reserved_balance item ty q eff b = Inr b'"
    and mk: "make_transaction env org item room ty q0 u 0 eff rt ri notes b' s1 = (Inr txn, s2)"
    and tail: "obind (save_posting False b' txn c) (\<lambda>_. obind (announce_posting b' txn c) (\<lambda>_. oret txn)) s2 = (Inr t, s')"
    using assms(1) unfolding post_reservation_transaction_def Let_def eff_def
    by (simp split: prod.splits) blast
  note l = load_balance_Inr [OF load] and m = make_transaction_Inr [OF mk]
  have pend: "s_pending s2 = map ReservationRow rs" using l m assms(2) by simp
  note tl = posting_tail [OF tail pend]
  show ?thesis
  proof (rule that [of b b' q eff])
    show "posting_effect org item room c rs s s' b b' t"
      unfolding posting_effect_def using l m tl by auto
  qed (use m tl q0 u q b' in auto)
qed

lemma post_movement_effect:
  assumes "post_movement_transaction env org item room ty quantity uom uc at_time release rt ri notes c s = (Inr t, s')"
    and "s_pending s = map ReservationRow rs"
  obtains b q r quantities cost eff where
    "posting_effect org item room c rs s s' b (moved_balance item ty q quantities cost eff b) t"
    and "transaction_type t = ty" and "normalize_positive_quantity quantity = Inr (st_quantity t)"
    and "normalize_uom (Some (uom_or_stock item uom)) = Inr (st_uom t)"
    and "convert_item_quantity item (st_quantity t) (st_uom t) (stock_uom item) = Inr q"
    and "rbind (normalize_nonnegative_quantity release)
           (\<lambda>nr. convert_item_quantity item nr (st_uom t) (stock_uom item)) = Inr r" and "r \<le> q"
    and "movement_quantities ty q r b = Inr quantities"
    and "movement_costs item (st_uom t) uc b = Inr (st_unit_cost t, cost)"
proof -
  define eff where "eff = (case at_time of None \<Rightarrow> e_now env | Some x \<Rightarrow> x)"
  obtain q0 nr u q r b n s1 quantities ec cost txn s2 where
      q0: "normalize_positive_quantity quantity = Inr q0"
    and nr: "normalize_nonnegative_quantity release = Inr nr"
    and u: "normalize_uom (Some (uom_or_stock item uom)) = Inr u"
    and q: "convert_item_quantity item q0 u (stock_uom item) = Inr q"
    and r: "convert_item_quantity item nr u (stock_uom item) = Inr r" "\<not> q < r"
    and load: "load_or_create_balance env org item room (incoming_movement ty) s = (Inr (b, n), s1)"
    and mq: "movement_quantities ty q r b = Inr quantities"
    and mc: "movement_costs item u uc b = Inr (ec, cost)"
    and mk: "make_transaction env org item room ty q0 u ec eff rt ri notes
        (moved_balance item ty q quantities cost eff b) s1 = (Inr txn, s2)"
    and tail: "obind (save_posting n (moved_balance item ty q quantities cost eff b) txn c)
        (\<lambda>_. obind (announce_posting (moved_balance item ty q quantities cost eff b) txn c) (\<lambda>_. oret txn)) s2 = (Inr t, s')"
    using assms(1) unfolding post_movement_transaction_def Let_def eff_def
    by (simp split: prod.splits) blast
  note l = load_balance_Inr [OF load] and m = make_transaction_Inr [OF mk]
  have pend: "s_pending s2 = map ReservationRow rs" using l m assms(2) by simp
  note tl = posting_tail [OF tail pend]
  show ?thesis
  proof (rule that [of b q quantities cost eff r])
    show "posting_effect org item room c rs s s' b (moved_balance item ty q quantities cost eff b) t"
      unfolding posting_effect_def using l m tl by auto
  qed (use m tl q0 nr u q r mq mc in auto)
qed

section \<open>Balances\<close>

definition balance_ok :: "stock_balance \<Rightarrow> bool" where
  "balance_ok b \<longleftrightarrow> 0 \<le> on_hand_qty b \<and> 0 \<le> reserved_qty b \<and> 0 \<le> available_qty b \<and>
     available_qty b = on_hand_qty b - reserved_qty b \<and> 0 \<le> average_cost b"

lemma create_balance_ok: "balance_ok (create_balance i now org item room u)"
  by (simp add: balance_ok_def create_balance_def)

lemma average_cost_nonneg:
  assumes "0 \<le> average_cost b" "0 \<le> prev" "0 \<le> quantity" "0 \<le> cost"
  shows "0 \<le> resolve_average_cost b prev delta quantity cost"
  using assms by (auto simp: resolve_average_cost_def Let_def intro!: divide_nonneg_nonneg add_nonneg_nonneg mult_nonneg_nonneg)

lemma posted_balance_Inr:
  assumes "posted_balance item ty q cost eff b = Inr b'"
  shows "sb_id b' = sb_id b \<and> position b' = position b \<and> reserved_qty b' = reserved_qty b \<and>
    on_hand_qty b' = on_hand_qty b + resolve_quantity_delta ty q \<and>
    available_qty b' = on_hand_qty b' - reserved_qty b' \<and> 0 \<le> on_hand_qty b' \<and> reserved_qty b' \<le> on_hand_qty b' \<and>
    average_cost b' = resolve_average_cost (b\<lparr>on_hand_qty := on_hand_qty b'\<rparr>) (on_hand_qty b)
      (resolve_quantity_delta ty q) q cost"
  using assms
  by (auto simp: posted_balance_def Let_def position_def resolve_average_cost_def split: if_splits)

lemma posted_balance_ok:
  assumes "posted_balance item ty q cost eff b = Inr b'" "balance_ok b" "0 \<le> q" "0 \<le> cost"
  shows "balance_ok b'"
  using posted_balance_Inr [OF assms(1)] assms(2-4)
  by (auto simp: balance_ok_def intro: average_cost_nonneg)

lemma reserved_balance_Inr:
  assumes "reserved_balance item ty q eff b = Inr b'"
  shows "sb_id b' = sb_id b \<and> position b' = position b \<and> on_hand_qty b' = on_hand_qty b \<and>
    average_cost b' = average_cost b \<and>
    reserved_qty b' = reserved_qty b + (if ty = RESERVATION_HOLD then q else - q) \<and>
    available_qty b' = on_hand_qty b' - reserved_qty b' \<and> 0 \<le> reserved_qty b' \<and> 0 \<le> available_qty b'"
  using assms by (auto simp: reserved_balance_def Let_def position_def split: if_splits)

lemma reserved_balance_ok:
  "reserved_balance item ty q eff b = Inr b' \<Longrightarrow> balance_ok b \<Longrightarrow> balance_ok b'"
  using reserved_balance_Inr [of item ty q eff b b'] by (simp add: balance_ok_def)

lemma moved_balance_fields:
  assumes "movement_quantities ty q r b = Inr quantities"
  shows "sb_id (moved_balance item ty q quantities cost eff b) = sb_id b \<and>
    position (moved_balance item ty q quantities cost eff b) = position b \<and>
    on_hand_qty (moved_balance item ty q quantities cost eff b) =
      on_hand_qty b + (if incoming_movement ty then q else - q) \<and>
    reserved_qty (moved_balance item ty q quantities cost eff b) = reserved_qty b - r \<and>
    available_qty (moved_balance item ty q quantities cost eff b) =
      on_hand_qty (moved_balance item ty q quantities cost eff b) - (reserved_qty b - r) \<and>
    0 \<le> on_hand_qty (moved_balance item ty q quantities cost eff b) \<and> 0 \<le> reserved_qty b - r \<and>
    0 \<le> available_qty (moved_balance item ty q quantities cost eff b)"
  using assms by (auto simp: movement_quantities_def moved_balance_def Let_def position_def split: if_splits)

lemma moved_balance_cost:
  assumes "movement_quantities ty q r b = Inr quantities" "0 < q"
  shows "average_cost (moved_balance item ty q quantities cost eff b) =
    (if incoming_movement ty then resolve_average_cost (b\<lparr>on_hand_qty := on_hand_qty b + q\<rparr>) (on_hand_qty b) q q cost
     else average_cost b)"
  using assms
  by (auto simp: movement_quantities_def moved_balance_def Let_def resolve_average_cost_def split: if_splits)

lemma moved_balance_ok:
  assumes "movement_quantities ty q r b = Inr quantities" "balance_ok b" "0 < q" "0 \<le> cost"
  shows "balance_ok (moved_balance item ty q quantities cost eff b)"
proof -
  have "0 \<le> average_cost (moved_balance item ty q quantities cost eff b)"
    using assms moved_balance_cost [OF assms(1,3), of item cost eff]
    by (auto simp: balance_ok_def intro!: average_cost_nonneg)
  then show ?thesis
    using moved_balance_fields [OF assms(1), of item cost eff] by (simp add: balance_ok_def)
qed

lemma movement_costs_nonneg:
  assumes "movement_costs item u uc b = Inr (ec, sc)" "0 \<le> average_cost b"
  shows "0 \<le> sc"
proof (cases uc)
  case None
  then show ?thesis using assms by (auto simp: movement_costs_def)
next
  case (Some c)
  then obtain ec' where "convert_item_unit_cost_to_stock item ec' u = Inr sc"
    using assms(1) by (auto simp: movement_costs_def)
  then show ?thesis by (rule convert_cost_nonneg)
qed

section \<open>The ledger\<close>

text \<open>What a transaction adds to the on-hand quantity, in the item's stock unit.\<close>

definition signed_quantity :: "stock_item \<Rightarrow> stock_transaction \<Rightarrow> rat" where
  "signed_quantity item t =
     (case convert_item_quantity item (st_quantity t) (st_uom t) (stock_uom item) of
        Inl _ \<Rightarrow> 0
      | Inr q \<Rightarrow>
          (if transaction_type t \<in> {RESERVATION_HOLD, RESERVATION_RELEASE} then 0
           else resolve_quantity_delta (transaction_type t) q))"

definition ledger_amount :: "stock_item list \<Rightarrow> stock_transaction \<Rightarrow> rat" where
  "ledger_amount items t =
     (case find_row si_id items (st_stock_item_id t) of None \<Rightarrow> 0 | Some item \<Rightarrow> signed_quantity item t)"

definition ledger_quantity :: "inv_db \<Rightarrow> string \<times> string \<times> string \<Rightarrow> rat" where
  "ledger_quantity db pos =
     sum_list (map (ledger_amount (db_items db)) (filter (\<lambda>t. txn_position t = pos) (db_transactions db)))"

definition stock_inv :: "inv_db \<Rightarrow> bool" where
  "stock_inv db \<longleftrightarrow>
     distinct (map sb_id (db_balances db)) \<and> distinct (map position (db_balances db)) \<and>
     (\<forall>b \<in> set (db_balances db). balance_ok b \<and> on_hand_qty b = ledger_quantity db (position b)) \<and>
     (\<forall>t \<in> set (db_transactions db). txn_position t \<in> position ` set (db_balances db))"

lemma apply_posting_items [simp]: "db_items (apply_posting n b t db) = db_items db"
  and apply_posting_rooms [simp]: "db_storerooms (apply_posting n b t db) = db_storerooms db"
  and apply_posting_org [simp]: "db_active_org (apply_posting n b t db) = db_active_org db"
  and apply_posting_reservations [simp]: "db_reservations (apply_posting n b t db) = db_reservations db"
  and apply_posting_transactions [simp]: "db_transactions (apply_posting n b t db) = db_transactions db @ [t]"
  by (simp_all add: apply_posting_def)

lemma ledger_apply_posting:
  "ledger_quantity (apply_posting n b t db) pos =
     ledger_quantity db pos + (if txn_position t = pos then ledger_amount (db_items db) t else 0)"
  by (simp add: ledger_quantity_def)

lemma position_version [simp]: "position (b\<lparr>sb_version := v\<rparr>) = position b"
  by (simp add: position_def)

lemma balance_ok_version [simp]: "balance_ok (b\<lparr>sb_version := v\<rparr>) = balance_ok b"
  by (simp add: balance_ok_def)

lemma get_position:
  "get_for_stock_position org i r db = Some b \<Longrightarrow> b \<in> set (db_balances db) \<and> position b = (org, i, r)"
  "get_for_stock_position org i r db = None \<longleftrightarrow> (org, i, r) \<notin> position ` set (db_balances db)"
  by (auto simp: get_for_stock_position_def find_Some_iff find_None_iff position_def)

lemma same_row:
  assumes "distinct (map f xs)" "x \<in> set xs" "y \<in> set xs" "f x = f y"
  shows "x = y"
  using assms by (meson distinct_map inj_onD)

lemma starts_from_ok:
  assumes "stock_inv db" "starts_from db org item room b n"
  shows "balance_ok b"
proof (cases n)
  case True
  then show ?thesis using assms(2) create_balance_ok by (auto simp: starts_from_def)
next
  case False
  then have "b \<in> set (db_balances db)"
    using assms(2) get_position(1) [of org "si_id item" "sr_id room" db b] by (simp add: starts_from_def)
  then show ?thesis using assms(1) by (simp add: stock_inv_def)
qed

lemma starts_from_ledger:
  assumes "stock_inv db" "starts_from db org item room b n"
  shows "on_hand_qty b = ledger_quantity db (org, si_id item, sr_id room)"
proof (cases n)
  case True
  have "(org, si_id item, sr_id room) \<notin> position ` set (db_balances db)"
    using assms(2) True get_position(2) by (simp add: starts_from_def)
  then have "txn_position t \<noteq> (org, si_id item, sr_id room)" if "t \<in> set (db_transactions db)" for t
    using assms(1) that unfolding stock_inv_def by metis
  then have "filter (\<lambda>t. txn_position t = (org, si_id item, sr_id room)) (db_transactions db) = []"
    by (simp add: filter_empty_conv)
  then show ?thesis
    using assms(2) True by (auto simp: starts_from_def ledger_quantity_def create_balance_def)
next
  case False
  then have "get_for_stock_position org (si_id item) (sr_id room) db = Some b"
    using assms(2) by (simp add: starts_from_def)
  from get_position(1) [OF this] show ?thesis
    using assms(1) by (simp add: stock_inv_def)
qed

lemma posting_keeps_inv:
  assumes inv: "stock_inv db" and start: "starts_from db org item room b n"
    and allowed: "posting_allowed n b' db" and same: "position b' = position b" "sb_id b' = sb_id b"
    and ok: "balance_ok b'" and item: "find_row si_id (db_items db) (si_id item) = Some item"
    and pos: "txn_position t = (org, si_id item, sr_id room)"
    and qty: "on_hand_qty b' = on_hand_qty b + signed_quantity item t"
  shows "stock_inv (apply_posting n b' t db)"
proof -
  let ?pos = "(org, si_id item, sr_id room)" and ?db = "apply_posting n b' t db"
  have amount: "ledger_amount (db_items db) t = signed_quantity item t"
    using pos item by (simp add: ledger_amount_def txn_position_def)
  have b_pos: "position b = ?pos" by (rule starts_from_position [OF start])
  have ledger: "ledger_quantity ?db ?pos = on_hand_qty b'"
    using pos qty amount starts_from_ledger [OF inv start] by (simp add: ledger_apply_posting)
  have other: "ledger_quantity ?db p = ledger_quantity db p" if "p \<noteq> ?pos" for p
    using that pos by (simp add: ledger_apply_posting)
  show ?thesis
  proof (cases n)
    case True
    then have new: "sb_id b' \<notin> sb_id ` set (db_balances db)" "?pos \<notin> position ` set (db_balances db)"
      using allowed same b_pos by (simp_all add: posting_allowed_def)
    have bal: "db_balances ?db = db_balances db @ [b']" using True by (simp add: apply_posting_def)
    have old: "on_hand_qty x = ledger_quantity ?db (position x) \<and> balance_ok x" if "x \<in> set (db_balances db)" for x
    proof -
      have "position x \<noteq> ?pos" using that new(2) by (metis imageI)
      then show ?thesis using that inv other [of "position x"] by (simp add: stock_inv_def)
    qed
    show ?thesis
      unfolding stock_inv_def bal
      using inv new same b_pos ok ledger old pos by (auto simp: stock_inv_def)
  next
    case False
    let ?b = "b'\<lparr>sb_version := sb_version b' + 1\<rparr>"
    have b: "b \<in> set (db_balances db)"
      using start False get_position(1) [of org "si_id item" "sr_id room" db b] by (simp add: starts_from_def)
    have bal: "db_balances ?db = replace_row sb_id ?b (db_balances db)" using False by (simp add: apply_posting_def)
    have keys: "position (if sb_id x = sb_id ?b then ?b else x) = position x" if "x \<in> set (db_balances db)" for x
      using that same b inv same_row [of sb_id "db_balances db" x b] by (auto simp: stock_inv_def)
    then have positions: "map position (replace_row sb_id ?b (db_balances db)) = map position (db_balances db)"
      by (simp add: replace_row_def)
    have old: "on_hand_qty x = ledger_quantity ?db (position x) \<and> balance_ok x"
      if "x \<in> set (db_balances db)" "sb_id x \<noteq> sb_id b" for x
    proof -
      have "position x \<noteq> ?pos"
        using that b b_pos inv same_row [of position "db_balances db" x b] by (auto simp: stock_inv_def)
      then show ?thesis using that inv other [of "position x"] by (simp add: stock_inv_def)
    qed
    have "on_hand_qty x = ledger_quantity ?db (position x) \<and> balance_ok x"
      if "x \<in> set (replace_row sb_id ?b (db_balances db))" for x
      using subsetD [OF set_replace_row that] old [of x] same b_pos ok ledger by auto
    moreover have "position ` set (replace_row sb_id ?b (db_balances db)) = position ` set (db_balances db)"
      using positions by (metis list.set_map)
    moreover have "?pos \<in> position ` set (db_balances db)"
      using b b_pos by (metis imageI)
    ultimately show ?thesis
      unfolding stock_inv_def bal positions map_key_replace_row
      using inv pos by (auto simp: stock_inv_def)
  qed
qed

end
