(* ===== verification/Inv_Invariant.thy ===== *)
theory Inv_Invariant
  imports Inv_Ledger
begin

text \<open>
  Every operation of stock control keeps the invariant, so every reachable state has it; and
  what a transfer moves is conserved.
\<close>

section \<open>The posting routines keep the invariant\<close>

text \<open>The state between the statements of a transaction.\<close>

definition stock_ok :: "inv_op_state \<Rightarrow> bool" where
  "stock_ok s \<longleftrightarrow> stock_inv (s_working s) \<and> s_pending s = []"

lemma posting_effect_keeps:
  assumes "posting_effect org item room c [] s s' b b' t" and "stock_ok s"
    and "find_row si_id (db_items (s_working s)) (si_id item) = Some item"
    and "position b' = position b" "sb_id b' = sb_id b" "balance_ok b \<Longrightarrow> balance_ok b'"
    and "on_hand_qty b' = on_hand_qty b + signed_quantity item t"
  shows "stock_ok s' \<and> db_items (s_working s') = db_items (s_working s) \<and>
    db_storerooms (s_working s') = db_storerooms (s_working s) \<and>
    db_active_org (s_working s') = db_active_org (s_working s)"
proof -
  obtain n where n: "starts_from (s_working s) org item room b n" "posting_allowed n b' (s_working s)"
      "s_working s' = apply_posting n b' t (s_working s)"
    and t: "s_pending s' = []" "txn_position t = (org, si_id item, sr_id room)"
    using assms(1) by (auto simp: posting_effect_def)
  have inv: "stock_inv (s_working s)" using assms(2) by (simp add: stock_ok_def)
  have "balance_ok b'" using assms(6) starts_from_ok [OF inv n(1)] by blast
  then have "stock_inv (apply_posting n b' t (s_working s))"
    using posting_keeps_inv [OF inv n(1,2) assms(4,5) _ assms(3) t(2) assms(7)] by blast
  then show ?thesis using n(3) t(1) by (simp add: stock_ok_def)
qed

lemma posting_effect_balance_ok:
  "posting_effect org item room c [] s s' b b' t \<Longrightarrow> stock_ok s \<Longrightarrow> balance_ok b"
  using starts_from_ok by (auto simp: posting_effect_def stock_ok_def)

lemma post_transaction_keeps:
  assumes "post_transaction env org item room ty quantity uom uc at_time rt ri notes c s = (Inr t, s')"
    and "stock_ok s" and "find_row si_id (db_items (s_working s)) (si_id item) = Some item"
    and "ty \<noteq> RESERVATION_HOLD" "ty \<noteq> RESERVATION_RELEASE"
  shows "stock_ok s'"
proof -
  have "s_pending s = map ReservationRow []" using assms(2) by (simp add: stock_ok_def)
  then obtain b b' q cost eff where eff: "posting_effect org item room c [] s s' b b' t"
    and ty: "transaction_type t = ty" and pos: "normalize_positive_quantity quantity = Inr (st_quantity t)"
    and q: "convert_item_quantity item (st_quantity t) (st_uom t) (stock_uom item) = Inr q"
    and cost: "convert_item_unit_cost_to_stock item (st_unit_cost t) (st_uom t) = Inr cost"
    and b': "posted_balance item ty q cost eff b = Inr b'"
    by (rule post_transaction_effect [OF assms(1)])
  have nonneg: "0 \<le> q" "0 \<le> cost"
    using convert_quantity_pos [OF q normalize_positive_Inr [OF pos]] convert_cost_nonneg [OF cost] by simp_all
  have "signed_quantity item t = resolve_quantity_delta ty q"
    using q ty assms(4,5) by (simp add: signed_quantity_def)
  then show ?thesis
    using posting_effect_keeps [OF eff assms(2,3)] posted_balance_Inr [OF b'] posted_balance_ok [OF b' _ nonneg]
    by simp
qed

lemma post_reservation_keeps:
  assumes "post_reservation_transaction env org item room ty quantity uom at_time rt ri notes c s = (Inr t, s')"
    and "stock_ok s" and "find_row si_id (db_items (s_working s)) (si_id item) = Some item"
    and "ty = RESERVATION_HOLD \<or> ty = RESERVATION_RELEASE"
  shows "stock_ok s'"
proof -
  have "s_pending s = map ReservationRow []" using assms(2) by (simp add: stock_ok_def)
  then obtain b b' q eff where eff: "posting_effect org item room c [] s s' b b' t"
    and ty: "transaction_type t = ty"
    and q: "convert_item_quantity item (st_quantity t) (st_uom t) (stock_uom item) = Inr q"
    and b': "reserved_balance item ty q eff b = Inr b'"
    by (rule post_reservation_effect [OF assms(1)])
  have "signed_quantity item t = 0"
    using q ty assms(4) by (auto simp: signed_quantity_def)
  then show ?thesis
    using posting_effect_keeps [OF eff assms(2,3)] reserved_balance_Inr [OF b'] reserved_balance_ok [OF b']
    by simp
qed

definition movement_type :: "stock_transaction_type \<Rightarrow> bool" where
  "movement_type ty \<longleftrightarrow> ty \<in> {ISSUE, RETURN, TRANSFER_OUT, TRANSFER_IN}"

lemma movement_delta:
  "movement_type ty \<Longrightarrow> resolve_quantity_delta ty q = (if incoming_movement ty then q else - q)"
  by (auto simp: movement_type_def resolve_quantity_delta_def incoming_movement_def)

lemma post_movement_keeps:
  assumes "post_movement_transaction env org item room ty quantity uom uc at_time release rt ri notes c s = (Inr t, s')"
    and "stock_ok s" and "find_row si_id (db_items (s_working s)) (si_id item) = Some item"
    and "movement_type ty"
  shows "stock_ok s' \<and> db_items (s_working s') = db_items (s_working s)"
proof -
  have "s_pending s = map ReservationRow []" using assms(2) by (simp add: stock_ok_def)
  then obtain b q r quantities cost eff where
      eff: "posting_effect org item room c [] s s' b (moved_balance item ty q quantities cost eff b) t"
    and ty: "transaction_type t = ty" and pos: "normalize_positive_quantity quantity = Inr (st_quantity t)"
    and q: "convert_item_quantity item (st_quantity t) (st_uom t) (stock_uom item) = Inr q"
    and mq: "movement_quantities ty q r b = Inr quantities"
    and mc: "movement_costs item (st_uom t) uc b = Inr (st_unit_cost t, cost)"
    by (rule post_movement_effect [OF assms(1)])
  have q0: "0 < q" by (rule convert_quantity_pos [OF q normalize_positive_Inr [OF pos]])
  have "signed_quantity item t = (if incoming_movement ty then q else - q)"
    using q ty assms(4) movement_delta [OF assms(4)] by (auto simp: signed_quantity_def movement_type_def)
  moreover have "balance_ok b" by (rule posting_effect_balance_ok [OF eff assms(2)])
  moreover from this have "0 \<le> cost"
    using movement_costs_nonneg [OF mc] by (simp add: balance_ok_def)
  ultimately show ?thesis
    using posting_effect_keeps [OF eff assms(2,3)] moved_balance_fields [OF mq, of item cost eff]
      moved_balance_ok [OF mq _ q0, of cost item eff] by simp
qed

section \<open>The operations keep the invariant\<close>

lemma active_organization_Inr [simp]:
  "active_organization s = (Inr org, t) \<longleftrightarrow> db_active_org (s_working s) = Some org \<and> t = s"
  by (auto simp: active_organization_def split: option.splits)

text \<open>What a successful prologue has established; it changes nothing.\<close>

definition item_in_scope :: "inv_db \<Rightarrow> string \<Rightarrow> stock_item \<Rightarrow> bool" where
  "item_in_scope db org item \<longleftrightarrow>
     db_active_org db = Some org \<and> find_row si_id (db_items db) (si_id item) = Some item \<and>
     si_organization_id item = org \<and> si_is_active item \<and> is_stocked item"

definition room_in_scope :: "inv_db \<Rightarrow> string \<Rightarrow> storeroom \<Rightarrow> bool" where
  "room_in_scope db org room \<longleftrightarrow>
     find_row sr_id (db_storerooms db) (sr_id room) = Some room \<and>
     sr_organization_id room = org \<and> sr_is_active room"

lemma get_item_Inr:
  assumes "get_item env i s = (Inr item, s')"
  shows "s' = s \<and> find_row si_id (db_items (s_working s)) (si_id item) = Some item \<and> si_id item = i \<and>
    db_active_org (s_working s) = Some (si_organization_id item)"
  using assms unfolding get_item_def
  by (auto simp: require_perm_def dest: find_row_Some split: option.splits if_splits)

lemma validate_stock_item_Inr:
  assumes "validate_stock_item env i s = (Inr item, s')"
  shows "s' = s \<and> si_id item = i \<and> item_in_scope (s_working s) (si_organization_id item) item"
  using assms unfolding validate_stock_item_def item_in_scope_def
  by (auto dest!: get_item_Inr)

lemma get_storeroom_Inr:
  assumes "get_storeroom env i s = (Inr room, s')"
  shows "s' = s \<and> find_row sr_id (db_storerooms (s_working s)) (sr_id room) = Some room \<and> sr_id room = i \<and>
    db_active_org (s_working s) = Some (sr_organization_id room)"
  using assms unfolding get_storeroom_def get_storeroom_for_internal_use_def
  by (auto simp: require_perm_def require_scope_perm_def dest: find_row_Some split: option.splits if_splits)

lemma validate_storeroom_Inr:
  assumes "validate_storeroom env i s = (Inr room, s')"
  shows "s' = s \<and> sr_id room = i \<and> db_active_org (s_working s) = Some (sr_organization_id room) \<and>
    room_in_scope (s_working s) (sr_organization_id room) room"
  using assms unfolding validate_storeroom_def room_in_scope_def
  by (auto dest!: get_storeroom_Inr)

lemma stock_position_Inr:
  assumes "stock_position env i r s = (Inr (org, item, room), s')"
  shows "s' = s \<and> si_id item = i \<and> sr_id room = r \<and>
    item_in_scope (s_working s) org item \<and> room_in_scope (s_working s) org room"
  using assms unfolding stock_position_def
  by (auto simp: require_perm_def ensure_same_scope_def dest!: validate_stock_item_Inr validate_storeroom_Inr)

lemma position_item: "item_in_scope db org item \<Longrightarrow> find_row si_id (db_items db) (si_id item) = Some item"
  by (simp add: item_in_scope_def)

text \<open>A successful call with a commit publishes the working rows.\<close>

lemma ok_after_call:
  assumes "atomic_call m" "clean s" "m s = (Inr x, s')" "stock_ok s'"
  shows "clean s' \<and> stock_inv (s_committed s')"
  using atomicD [OF assms(1-3)] assms(4) by (simp add: clean_def stock_ok_def)

lemma single_operations_keep:
  assumes "stock_ok s"
  shows "post_opening_balance env i r q u c at_time notes dc s = (Inr t, s') \<Longrightarrow> stock_ok s'"
    and "post_adjustment env i r q dir u c at_time rt ri notes dc s = (Inr t, s') \<Longrightarrow> stock_ok s'"
    and "hold_reservation env i r q u at_time rt ri notes dc s = (Inr t, s') \<Longrightarrow> stock_ok s'"
    and "release_reservation env i r q u at_time rt ri notes dc s = (Inr t, s') \<Longrightarrow> stock_ok s'"
    and "issue_stock env i r q u oc at_time rel rt ri notes dc s = (Inr t, s') \<Longrightarrow> stock_ok s'"
    and "return_stock env i r q u oc at_time rt ri notes dc s = (Inr t, s') \<Longrightarrow> stock_ok s'"
  unfolding post_opening_balance_def post_adjustment_def hold_reservation_def release_reservation_def
    issue_stock_def return_stock_def Let_def
  using assms post_transaction_keeps post_reservation_keeps post_movement_keeps
  by (auto dest!: stock_position_Inr dest: position_item simp: movement_type_def split: prod.splits)


lemma transfer_parts:
  assumes "transfer_stock env i a b q u at_time notes s = (Inr (outbound, inbound), s')"
  obtains org item source destination eff ref s1 s2 s3 where
      "item_in_scope (s_working s) org item" "si_id item = i"
    and "room_in_scope (s_working s) org source" "room_in_scope (s_working s) org destination"
    and "sr_id source = a" "sr_id destination = b" "a \<noteq> b"
    and "s_working s1 = s_working s" "s_committed s1 = s_committed s" "s_pending s1 = s_pending s"
    and "post_movement_transaction env org item source TRANSFER_OUT q u None (Some eff) (Some 0)
           ''stock_transfer'' ref notes False s1 = (Inr outbound, s2)"
    and "post_movement_transaction env org item destination TRANSFER_IN q u (Some (st_unit_cost outbound)) (Some eff)
           (Some 0) ''stock_transfer'' ref notes False s2 = (Inr inbound, s3)"
    and "s_pending s3 = [] \<longrightarrow> s_committed s' = s_working s3"
proof -
  obtain org item source destination eff ref s1 x s4 where
      scope: "item_in_scope (s_working s) org item" "si_id item = i"
        "room_in_scope (s_working s) org source" "room_in_scope (s_working s) org destination"
        "sr_id source = a" "sr_id destination = b" "a \<noteq> b"
    and s1: "s1 = s\<lparr>s_next_uuid := Suc (s_next_uuid s)\<rparr>"
    and body: "try_rollback (committing inv_insert
          (obind (post_movement_transaction env org item source TRANSFER_OUT q u None (Some eff)
                    (Some 0) ''stock_transfer'' ref notes False) (\<lambda>outbound.
           obind (post_movement_transaction env org item destination TRANSFER_IN q u
                    (Some (st_unit_cost outbound)) (Some eff) (Some 0) ''stock_transfer'' ref notes False) (\<lambda>inbound.
           oret (outbound, inbound))))) s1 = (Inr x, s4)"
    and rest: "(case x of (outbound, inbound) \<Rightarrow>
       obind (record_transaction_audit outbound) (\<lambda>_.
       obind (record_transaction_audit inbound) (\<lambda>_.
       obind (emit_balance_changed org item source) (\<lambda>_.
       obind (emit_balance_changed org item destination) (\<lambda>_.
       oret (outbound, inbound)))))) s4 = (Inr (outbound, inbound), s')"
    using assms unfolding transfer_stock_def Let_def ensure_same_scope_def require_perm_def
    by (auto dest!: validate_stock_item_Inr validate_storeroom_Inr simp del: try_rollback_Inr split: prod.splits)
  have quiet: "quiet (case x of (outbound, inbound) \<Rightarrow>
       obind (record_transaction_audit outbound) (\<lambda>_.
       obind (record_transaction_audit inbound) (\<lambda>_.
       obind (emit_balance_changed org item source) (\<lambda>_.
       obind (emit_balance_changed org item destination) (\<lambda>_.
       oret (outbound, inbound))))))"
    by (intro call_intros)
  have x: "x = (outbound, inbound)"
    using rest by (auto split: prod.splits)
  obtain s2 s3 where moves:
      "post_movement_transaction env org item source TRANSFER_OUT q u None (Some eff) (Some 0)
           ''stock_transfer'' ref notes False s1 = (Inr outbound, s2)"
      "post_movement_transaction env org item destination TRANSFER_IN q u (Some (st_unit_cost outbound)) (Some eff)
           (Some 0) ''stock_transfer'' ref notes False s2 = (Inr inbound, s3)"
    and com: "commit inv_insert s3 = (Inr (), s4)"
    using body x by (auto simp: committing_def)
  have clean4: "clean s4" using com by (auto simp: clean_def)
  have "s_committed s' = s_committed s4"
    using quietD [OF quiet clean4 rest] by simp
  then have "s_pending s3 = [] \<longrightarrow> s_committed s' = s_working s3"
    using com by auto
  then show ?thesis
    by (intro that [OF scope _ _ _ moves]) (simp_all add: s1)
qed

lemma transfer_keeps:
  assumes "transfer_stock env i a b q u at_time notes s = (Inr (outbound, inbound), s')" and "stock_ok s"
  shows "stock_inv (s_committed s')"
proof -
  obtain org item source destination eff ref s1 s2 s3 where
      item: "item_in_scope (s_working s) org item"
    and s1: "s_working s1 = s_working s" "s_pending s1 = s_pending s"
    and out: "post_movement_transaction env org item source TRANSFER_OUT q u None (Some eff) (Some 0)
           ''stock_transfer'' ref notes False s1 = (Inr outbound, s2)"
    and inb: "post_movement_transaction env org item destination TRANSFER_IN q u (Some (st_unit_cost outbound)) (Some eff)
           (Some 0) ''stock_transfer'' ref notes False s2 = (Inr inbound, s3)"
    and com: "s_pending s3 = [] \<longrightarrow> s_committed s' = s_working s3"
    by (rule transfer_parts [OF assms(1)])
  have "stock_ok s1" using assms(2) s1 by (simp add: stock_ok_def)
  moreover have "find_row si_id (db_items (s_working s1)) (si_id item) = Some item"
    using position_item [OF item] s1 by simp
  ultimately have s2: "stock_ok s2" "find_row si_id (db_items (s_working s2)) (si_id item) = Some item"
    using post_movement_keeps [OF out] by (simp_all add: movement_type_def)
  then have "stock_ok s3"
    using post_movement_keeps [OF inb] by (simp add: movement_type_def)
  then show ?thesis using com by (simp add: stock_ok_def)
qed

section \<open>Reachable states\<close>

text \<open>One call of the service with its default \<open>commit=True\<close>, by any user at any time, whatever its outcome.\<close>

inductive stock_step :: "inv_op_state \<Rightarrow> inv_op_state \<Rightarrow> bool" where
  opening_: "post_opening_balance env i r q u c at_time nts True s = (res, s') \<Longrightarrow> stock_step s s'"
| adjustment: "post_adjustment env i r q dir u c at_time rt ri nts True s = (res, s') \<Longrightarrow> stock_step s s'"
| hold: "hold_reservation env i r q u at_time rt ri nts True s = (res, s') \<Longrightarrow> stock_step s s'"
| release: "release_reservation env i r q u at_time rt ri nts True s = (res, s') \<Longrightarrow> stock_step s s'"
| issue: "issue_stock env i r q u oc at_time rel rt ri nts True s = (res, s') \<Longrightarrow> stock_step s s'"
| return_: "return_stock env i r q u oc at_time rt ri nts True s = (res, s') \<Longrightarrow> stock_step s s'"
| transfer: "transfer_stock env i a b q u at_time nts s = (res2, s') \<Longrightarrow> stock_step s s'"

interpretation opening_call: unit_of_work "post_opening_balance env i r q u c at_time nts True"
  for env i r q u c at_time nts
  by unfold_locales (rule atomic_operations)

interpretation adjustment_call: unit_of_work "post_adjustment env i r q dir u c at_time rt ri nts True"
  for env i r q dir u c at_time rt ri nts
  by unfold_locales (rule atomic_operations)

interpretation hold_call: unit_of_work "hold_reservation env i r q u at_time rt ri nts True"
  for env i r q u at_time rt ri nts
  by unfold_locales (rule atomic_operations)

interpretation release_call: unit_of_work "release_reservation env i r q u at_time rt ri nts True"
  for env i r q u at_time rt ri nts
  by unfold_locales (rule atomic_operations)

interpretation issue_call: unit_of_work "issue_stock env i r q u oc at_time rel rt ri nts True"
  for env i r q u oc at_time rel rt ri nts
  by unfold_locales (rule atomic_operations)

interpretation return_call: unit_of_work "return_stock env i r q u oc at_time rt ri nts True"
  for env i r q u oc at_time rt ri nts
  by unfold_locales (rule atomic_operations)

interpretation transfer_call: unit_of_work "transfer_stock env i a b q u at_time nts"
  for env i a b q u at_time nts
  by unfold_locales (rule atomic_transfer)

lemma clean_ok: "clean s \<Longrightarrow> stock_inv (s_committed s) \<Longrightarrow> stock_ok s"
  by (simp add: clean_def stock_ok_def)

lemma call_keeps:
  assumes "unit_of_work m" "clean s" "stock_inv (s_committed s)" "m s = (r, s')"
    and "\<And>x. m s = (Inr x, s') \<Longrightarrow> stock_ok s'"
  shows "clean s' \<and> stock_inv (s_committed s')"
proof (intro conjI)
  show "clean s'"
    by (rule unit_of_work.always_clean [OF assms(1,2,4)])
  show "stock_inv (s_committed s')"
  proof (rule unit_of_work.keeps_committed [where P = stock_inv, OF assms(1-4)])
    fix x assume "m s = (Inr x, s')"
    then show "stock_inv (s_committed s')"
      using assms(5) ok_after_call [OF unit_of_work.atomic [OF assms(1)] assms(2)] by blast
  qed
qed

lemma stock_step_keeps:
  assumes "stock_step s s'" "clean s" "stock_inv (s_committed s)"
  shows "clean s' \<and> stock_inv (s_committed s')"
proof -
  note ok = clean_ok [OF assms(2,3)]
  show ?thesis
    using assms(1)
  proof cases
    case (opening_ env i r q u c at_time nts res)
    show ?thesis
      by (rule call_keeps [OF opening_call.unit_of_work_axioms assms(2,3) opening_]) (rule single_operations_keep(1) [OF ok])
  next
    case (adjustment env i r q dir u c at_time rt ri nts res)
    show ?thesis
      by (rule call_keeps [OF adjustment_call.unit_of_work_axioms assms(2,3) adjustment]) (rule single_operations_keep(2) [OF ok])
  next
    case (hold env i r q u at_time rt ri nts res)
    show ?thesis
      by (rule call_keeps [OF hold_call.unit_of_work_axioms assms(2,3) hold]) (rule single_operations_keep(3) [OF ok])
  next
    case (release env i r q u at_time rt ri nts res)
    show ?thesis
      by (rule call_keeps [OF release_call.unit_of_work_axioms assms(2,3) release]) (rule single_operations_keep(4) [OF ok])
  next
    case (issue env i r q u oc at_time rel rt ri nts res)
    show ?thesis
      by (rule call_keeps [OF issue_call.unit_of_work_axioms assms(2,3) issue]) (rule single_operations_keep(5) [OF ok])
  next
    case (return_ env i r q u oc at_time rt ri nts res)
    show ?thesis
      by (rule call_keeps [OF return_call.unit_of_work_axioms assms(2,3) return_]) (rule single_operations_keep(6) [OF ok])
  next
    case (transfer env i a b q u at_time nts res)
    have "stock_inv (s_committed s')"
    proof (cases res)
      case (Inl err)
      then show ?thesis using transfer transfer_call.failure_unchanged [OF assms(2)] assms(3) by metis
    next
      case (Inr p)
      then show ?thesis using transfer transfer_keeps [OF _ ok] by (cases p) blast
    qed
    then show ?thesis using transfer_call.always_clean [OF assms(2) transfer] by simp
  qed
qed

lemma stock_reachable_keeps:
  assumes "stock_step\<^sup>*\<^sup>* s s'" "clean s" "stock_inv (s_committed s)"
  shows "clean s' \<and> stock_inv (s_committed s')"
  using assms by (induction rule: rtranclp_induct) (use stock_step_keeps in blast)+

end
