(* ===== verification/Inv_Transfer.thy ===== *)
theory Inv_Transfer
  imports Inv_Invariant
begin

text \<open>
  The properties of stock control: the invariant of every reachable state, the atomicity of its
  calls, and the conservation of quantity and value by a transfer.
\<close>

section \<open>Totals over the storerooms\<close>

definition item_total :: "(stock_balance \<Rightarrow> rat) \<Rightarrow> inv_db \<Rightarrow> string \<Rightarrow> string \<Rightarrow> rat" where
  "item_total f db org item_id =
     sum_list (map f (filter (\<lambda>b. sb_organization_id b = org \<and> sb_stock_item_id b = item_id) (db_balances db)))"

definition stock_value :: "stock_balance \<Rightarrow> rat" where
  "stock_value b = on_hand_qty b * average_cost b"

text \<open>Measures that a posting changes only through the balance it writes.\<close>

definition balance_measure :: "(stock_balance \<Rightarrow> rat) \<Rightarrow> bool" where
  "balance_measure f \<longleftrightarrow> (\<forall>b v. f (b\<lparr>sb_version := v\<rparr>) = f b) \<and>
     (\<forall>i now org item r u. f (create_balance i now org item r u) = 0)"

lemma measures [simp]: "balance_measure on_hand_qty" "balance_measure stock_value"
  by (simp_all add: balance_measure_def create_balance_def stock_value_def)

lemma sum_replace_row:
  assumes "distinct (map key xs)" "b \<in> set xs" "key b' = key b" "P b' = P b"
  shows "sum_list (map f (filter P (replace_row key b' xs))) =
    sum_list (map f (filter P xs)) + (if P b then f b' - f b else (0::rat))"
  using assms
proof (induction xs)
  case (Cons x xs)
  show ?case
  proof (cases "x = b")
    case True
    then have "replace_row key b' xs = xs"
      unfolding replace_row_def using Cons.prems True by (intro map_idI) (auto simp: image_iff)
    then show ?thesis
      using True Cons.prems by (simp add: replace_row_def)
  next
    case False
    then have "b \<in> set xs" "key x \<noteq> key b"
      using Cons.prems by (auto simp: image_iff)
    then show ?thesis
      using Cons.IH Cons.prems by (simp add: replace_row_def)
  qed
qed simp

lemma item_total_posting:
  assumes inv: "stock_inv db" and start: "starts_from db org item room b n"
    and allowed: "posting_allowed n b' db" and same: "position b' = position b" "sb_id b' = sb_id b"
    and f: "balance_measure f"
  shows "item_total f (apply_posting n b' t db) org' i' =
    item_total f db org' i' + (if (org', i') = (org, si_id item) then f b' - f b else 0)"
proof -
  have pos: "sb_organization_id b' = org" "sb_stock_item_id b' = si_id item"
      "sb_organization_id b = org" "sb_stock_item_id b = si_id item"
    using starts_from_position [OF start] same(1) by (auto simp: position_def)
  show ?thesis
  proof (cases n)
    case True
    then have "f b = 0"
      using start f by (auto simp: starts_from_def balance_measure_def)
    then show ?thesis
      using True pos by (auto simp: item_total_def apply_posting_def)
  next
    case False
    let ?b = "b'\<lparr>sb_version := sb_version b' + 1\<rparr>"
    have b: "b \<in> set (db_balances db)"
      using start False get_position(1) [of org "si_id item" "sr_id room" db b] by (simp add: starts_from_def)
    have "distinct (map sb_id (db_balances db))" using inv by (simp add: stock_inv_def)
    from sum_replace_row [OF this b, of ?b "\<lambda>b. sb_organization_id b = org' \<and> sb_stock_item_id b = i'" f]
    show ?thesis
      using False same(2) pos f by (auto simp: item_total_def apply_posting_def balance_measure_def)
  qed
qed

text \<open>The moving average keeps the value: what comes in is worth its cost.\<close>

lemma average_cost_value:
  assumes "0 < q" "0 \<le> on_hand_qty b"
  shows "(on_hand_qty b + q) * resolve_average_cost (b\<lparr>on_hand_qty := on_hand_qty b + q\<rparr>) (on_hand_qty b) q q cost =
    stock_value b + q * cost"
proof (cases "on_hand_qty b = 0")
  case True
  then show ?thesis using assms by (simp add: resolve_average_cost_def stock_value_def)
next
  case False
  then have "0 < on_hand_qty b + q" using assms by simp
  then show ?thesis
    using assms False by (simp add: resolve_average_cost_def stock_value_def Let_def)
qed

lemma movement_effect_totals:
  assumes move: "post_movement_transaction env org item room ty quantity uom uc at_time release rt ri notes c s = (Inr t, s')"
    and ok: "stock_ok s"
  obtains q cost b where "convert_item_quantity item (st_quantity t) (st_uom t) (stock_uom item) = Inr q"
    and "normalize_positive_quantity quantity = Inr (st_quantity t)"
    and "normalize_uom (Some (uom_or_stock item uom)) = Inr (st_uom t)"
    and "movement_costs item (st_uom t) uc b = Inr (st_unit_cost t, cost)" "0 \<le> average_cost b"
    and "item_total on_hand_qty (s_working s') org (si_id item) =
      item_total on_hand_qty (s_working s) org (si_id item) + (if incoming_movement ty then q else - q)"
    and "item_total stock_value (s_working s') org (si_id item) =
      item_total stock_value (s_working s) org (si_id item) + (if incoming_movement ty then q * cost else - (q * average_cost b))"
proof -
  have "s_pending s = map ReservationRow []" using ok by (simp add: stock_ok_def)
  then obtain b q r quantities cost eff where
      eff: "posting_effect org item room c [] s s' b (moved_balance item ty q quantities cost eff b) t"
    and pos: "normalize_positive_quantity quantity = Inr (st_quantity t)"
    and u: "normalize_uom (Some (uom_or_stock item uom)) = Inr (st_uom t)"
    and q: "convert_item_quantity item (st_quantity t) (st_uom t) (stock_uom item) = Inr q"
    and mq: "movement_quantities ty q r b = Inr quantities"
    and mc: "movement_costs item (st_uom t) uc b = Inr (st_unit_cost t, cost)"
    by (rule post_movement_effect [OF move])
  let ?b = "moved_balance item ty q quantities cost eff b"
  have q0: "0 < q" by (rule convert_quantity_pos [OF q normalize_positive_Inr [OF pos]])
  obtain n where n: "starts_from (s_working s) org item room b n" "posting_allowed n ?b (s_working s)"
      "s_working s' = apply_posting n ?b t (s_working s)"
    using eff by (auto simp: posting_effect_def)
  have inv: "stock_inv (s_working s)" using ok by (simp add: stock_ok_def)
  have b: "balance_ok b" by (rule posting_effect_balance_ok [OF eff ok])
  note fields = moved_balance_fields [OF mq, of item cost eff]
  have total: "item_total f (s_working s') org (si_id item) = item_total f (s_working s) org (si_id item) + (f ?b - f b)"
    if "balance_measure f" for f
    using item_total_posting [OF inv n(1,2) _ _ that] fields n(3) by simp
  have "stock_value ?b - stock_value b = (if incoming_movement ty then q * cost else - (q * average_cost b))"
  proof (cases "incoming_movement ty")
    case True
    then show ?thesis
      using average_cost_value [OF q0, of b cost] b fields moved_balance_cost [OF mq q0, of item cost eff]
      by (simp add: balance_ok_def stock_value_def)
  next
    case False
    then show ?thesis
      using fields moved_balance_cost [OF mq q0, of item cost eff]
      by (simp add: stock_value_def left_diff_distrib)
  qed
  then show ?thesis
    using that [OF q pos u mc] total [of on_hand_qty] total [of stock_value] b fields
    by (simp add: balance_ok_def)
qed

section \<open>The properties\<close>

text \<open>
  C3: In every state that calls of the stock-control service reach from empty stock tables,
  every balance has non-negative on-hand, reserved and available quantities, the available
  quantity is the difference of the other two, and the on-hand quantity is the sum of the
  quantities its ledger of transactions records.
\<close>

theorem stock_reachable_invariant:
  assumes "stock_step\<^sup>*\<^sup>* s0 s" and "clean s0" and "db_balances (s_committed s0) = []"
    and "db_transactions (s_committed s0) = []" and "b \<in> set (db_balances (s_committed s))"
  shows "0 \<le> on_hand_qty b \<and> 0 \<le> reserved_qty b \<and> 0 \<le> available_qty b \<and>
    available_qty b = on_hand_qty b - reserved_qty b \<and>
    on_hand_qty b = ledger_quantity (s_committed s) (position b)"
proof -
  have "stock_inv (s_committed s0)" using assms(3,4) by (simp add: stock_inv_def)
  from stock_reachable_keeps [OF assms(1,2) this] have "stock_inv (s_committed s)" ..
  then have "balance_ok b" "on_hand_qty b = ledger_quantity (s_committed s) (position b)"
    using assms(5) unfolding stock_inv_def by blast+
  then show ?thesis by (auto simp: balance_ok_def)
qed

text \<open>
  C23: A transfer is atomic: when it raises, whatever the reason (a guard, a missing balance,
  a shortage found on the second leg, a duplicate number, a stale row), the tables are exactly
  as before and nothing is left uncommitted.
\<close>

theorem transfer_failure_atomic:
  assumes "clean s" and "transfer_stock env i a b q u at_time notes s = (Inl err, s')"
  shows "s_committed s' = s_committed s \<and> s_working s' = s_committed s \<and> s_pending s' = []"
  using transfer_call.failure_unchanged [OF assms] by (simp add: clean_def)

text \<open>
  C13: A successful transfer conserves the item: the on-hand total over all storerooms and the
  total value (quantity times average cost) are the same before and after.
\<close>

theorem transfer_conserves:
  assumes "clean s" and "stock_inv (s_committed s)"
    and "transfer_stock env i a b q u at_time notes s = (Inr (outbound, inbound), s')"
    and "db_active_org (s_committed s) = Some org"
  shows "item_total on_hand_qty (s_committed s') org i = item_total on_hand_qty (s_committed s) org i \<and>
    item_total stock_value (s_committed s') org i = item_total stock_value (s_committed s) org i"
proof -
  have ok: "stock_ok s" and w: "s_working s = s_committed s"
    using clean_ok [OF assms(1,2)] assms(1) by (simp_all add: clean_def)
  obtain org' item source destination eff ref s1 s2 s3 where
      item: "item_in_scope (s_working s) org' item" "si_id item = i"
    and s1: "s_working s1 = s_working s" "s_committed s1 = s_committed s" "s_pending s1 = s_pending s"
    and out: "post_movement_transaction env org' item source TRANSFER_OUT q u None (Some eff) (Some 0)
           ''stock_transfer'' ref notes False s1 = (Inr outbound, s2)"
    and inb: "post_movement_transaction env org' item destination TRANSFER_IN q u (Some (st_unit_cost outbound)) (Some eff)
           (Some 0) ''stock_transfer'' ref notes False s2 = (Inr inbound, s3)"
    and com: "s_pending s3 = [] \<longrightarrow> s_committed s' = s_working s3"
    by (rule transfer_parts [OF assms(3)])
  have org: "org' = org" using item(1) assms(4) w by (simp add: item_in_scope_def)
  have ok1: "stock_ok s1" using ok s1 by (simp add: stock_ok_def)
  have find1: "find_row si_id (db_items (s_working s1)) (si_id item) = Some item"
    using position_item [OF item(1)] s1 by simp
  have ok2: "stock_ok s2" and find2: "find_row si_id (db_items (s_working s2)) (si_id item) = Some item"
    using post_movement_keeps [OF out ok1 find1] find1 by (simp_all add: movement_type_def)
  have ok3: "stock_ok s3"
    using post_movement_keeps [OF inb ok2 find2] by (simp add: movement_type_def)
  obtain q1 cost1 b1 where m1: "convert_item_quantity item (st_quantity outbound) (st_uom outbound) (stock_uom item) = Inr q1"
      "normalize_positive_quantity q = Inr (st_quantity outbound)"
      "normalize_uom (Some (uom_or_stock item u)) = Inr (st_uom outbound)"
      "movement_costs item (st_uom outbound) None b1 = Inr (st_unit_cost outbound, cost1)" "0 \<le> average_cost b1"
    and t1: "item_total on_hand_qty (s_working s2) org' (si_id item) =
      item_total on_hand_qty (s_working s1) org' (si_id item) + (if incoming_movement TRANSFER_OUT then q1 else - q1)"
      "item_total stock_value (s_working s2) org' (si_id item) =
      item_total stock_value (s_working s1) org' (si_id item) + (if incoming_movement TRANSFER_OUT then q1 * cost1 else - (q1 * average_cost b1))"
    by (rule movement_effect_totals [OF out ok1])
  obtain q2 cost2 b2 where m2: "convert_item_quantity item (st_quantity inbound) (st_uom inbound) (stock_uom item) = Inr q2"
      "normalize_positive_quantity q = Inr (st_quantity inbound)"
      "normalize_uom (Some (uom_or_stock item u)) = Inr (st_uom inbound)"
      "movement_costs item (st_uom inbound) (Some (st_unit_cost outbound)) b2 = Inr (st_unit_cost inbound, cost2)"
    and t2: "item_total on_hand_qty (s_working s3) org' (si_id item) =
      item_total on_hand_qty (s_working s2) org' (si_id item) + (if incoming_movement TRANSFER_IN then q2 else - q2)"
      "item_total stock_value (s_working s3) org' (si_id item) =
      item_total stock_value (s_working s2) org' (si_id item) + (if incoming_movement TRANSFER_IN then q2 * cost2 else - (q2 * average_cost b2))"
    by (rule movement_effect_totals [OF inb ok2])
  have "q2 = q1" using m1 m2 by simp
  moreover have "cost2 = average_cost b1"
  proof -
    obtain f where f: "resolve_item_uom_factor item (st_uom outbound) = Inr f" "st_unit_cost outbound = average_cost b1 * f"
      using m1(4) by (auto simp: movement_costs_def)
    have "0 < f" by (rule resolve_factor_pos [OF f(1)])
    then show ?thesis
      using m2(3,4) m1(3) f
      by (auto simp: movement_costs_def convert_item_unit_cost_to_stock_def normalize_nonnegative_quantity_def
          Let_def divide_eq_eq split: if_splits)
  qed
  moreover have "s_committed s' = s_working s3" using com ok3 by (simp add: stock_ok_def)
  ultimately show ?thesis
    using t1 t2 s1(1) w item(2) org by (simp add: incoming_movement_def)
qed

end
