(* ===== verification/Inv_Reservation.thy ===== *)
theory Inv_Reservation
  imports Inv_Transfer
begin

text \<open>
  The reservation service
  (\<^verbatim>\<open>core/modules/inventory_procurement/services/reservation/service.py\<close>): reserve
  stock, issue it in parts, release or cancel the rest, each together with its stock posting in
  one transaction.
\<close>

section \<open>Operations\<close>

text \<open>The row is written under its version; the object the caller holds gets the next one.\<close>

definition update_reservation :: "stock_reservation \<Rightarrow> stock_reservation inv_op" where
  "update_reservation r s =
     (case update_with_version_check rv_id rv_version (\<lambda>v r. r\<lparr>rv_version := v\<rparr>) r (db_reservations (s_working s)) of
        Inl err \<Rightarrow> (Inl err, s)
      | Inr rows \<Rightarrow>
          (Inr (r\<lparr>rv_version := rv_version r + 1\<rparr>), s\<lparr>s_working := (s_working s)\<lparr>db_reservations := rows\<rparr>\<rparr>))"

definition get_reservation :: "inv_env \<Rightarrow> string \<Rightarrow> stock_reservation inv_op" where
  "get_reservation env res_id =
     obind (require_perm env ''inventory.read'') (\<lambda>_.
     obind active_organization (\<lambda>org.
     obind (oget (\<lambda>s. find_row rv_id (db_reservations (s_working s)) res_id)) (\<lambda>row.
       case row of
         None \<Rightarrow> oraise (NotFoundError ''INVENTORY_RESERVATION_NOT_FOUND'')
       | Some r \<Rightarrow>
           (if rv_organization_id r \<noteq> org then oraise (NotFoundError ''INVENTORY_RESERVATION_NOT_FOUND'')
            else oret r))))"

text \<open>\<open>StockControlService.get_balance_for_stock_position\<close>.\<close>

definition get_balance_for_stock_position :: "inv_env \<Rightarrow> string \<Rightarrow> string \<Rightarrow> stock_balance option inv_op" where
  "get_balance_for_stock_position env item_id room_id =
     obind (require_perm env ''inventory.read'') (\<lambda>_.
     obind active_organization (\<lambda>org.
     obind (get_item env item_id) (\<lambda>item.
     obind (get_storeroom env room_id) (\<lambda>room.
     obind (ensure_same_scope item room org) (\<lambda>_.
     oget (\<lambda>s. get_for_stock_position org (si_id item) (sr_id room) (s_working s)))))))"

text \<open>What follows the commit of every reservation operation.\<close>

definition announce_reservation ::
  "inv_env \<Rightarrow> string \<Rightarrow> stock_reservation \<Rightarrow> stock_transaction \<Rightarrow> unit inv_op" where
  "announce_reservation env action r txn =
     obind (record_audit inv_insert action ''stock_reservation'' (rv_id r)) (\<lambda>_.
     obind (record_transaction_audit txn) (\<lambda>_.
     obind (get_balance_for_stock_position env (rv_stock_item_id r) (rv_storeroom_id r)) (\<lambda>balance.
     obind (case balance of None \<Rightarrow> oret () | Some b \<Rightarrow> emit ''inventory_balances_changed'' (sb_id b)) (\<lambda>_.
     emit ''inventory_reservations_changed'' (rv_id r)))))"

text \<open>Everything before the transaction of \<open>create_reservation\<close>: the guards and the new row.\<close>

definition prepare_reservation ::
  "inv_env \<Rightarrow> string \<Rightarrow> string \<Rightarrow> rat option \<Rightarrow> string option \<Rightarrow> date option \<Rightarrow> string \<Rightarrow> string \<Rightarrow> string
     \<Rightarrow> stock_reservation inv_op" where
  "prepare_reservation env item_id room_id quantity uom need_by source_type source_id notes =
     obind (require_perm env ''inventory.manage'') (\<lambda>_.
     obind active_organization (\<lambda>org.
     obind (get_item env item_id) (\<lambda>item.
     obind (get_storeroom env room_id) (\<lambda>room.
     obind (ensure_same_scope item room org) (\<lambda>_.
     obind (oguard (\<not> si_is_active item \<or> \<not> is_stocked item) (ValidationError ''INVENTORY_ITEM_NOT_STOCKED'')) (\<lambda>_.
     obind (oguard (\<not> sr_is_active room) (ValidationError ''INVENTORY_STOREROOM_INACTIVE'')) (\<lambda>_.
     obind (olift (normalize_source_reference_type (Some source_type))) (\<lambda>normalized_type.
     (let normalized_id = normalize_optional_text (Some source_id) in
      obind (oguard (normalized_type = [] \<or> normalized_id = []) (ValidationError ''INVENTORY_RESERVATION_SOURCE_REQUIRED'')) (\<lambda>_.
      obind (olift (normalize_positive_quantity quantity)) (\<lambda>normalized_qty.
      obind (olift (normalize_uom (Some (uom_or_stock item uom)))) (\<lambda>normalized_uom.
      obind (olift (resolve_item_uom_factor item normalized_uom)) (\<lambda>_.
      obind (fresh_uuid (e_uuid env)) (\<lambda>u.
      obind (fresh_uuid (e_uuid env)) (\<lambda>new_id.
      oret (create_reservation_row new_id (e_now env) org (''INV-RES-'' @ py_upper (take 10 (hex_of u)))
             (si_id item) (sr_id room) normalized_qty (Some normalized_qty) normalized_uom need_by
             normalized_type normalized_id (performer_id env) (performer_name env)
             (normalize_optional_text (Some notes))))))))))))))))))"

definition create_body :: "inv_env \<Rightarrow> stock_reservation \<Rightarrow> stock_transaction inv_op" where
  "create_body env r =
     obind (session_add (ReservationRow r)) (\<lambda>_.
     hold_reservation env (rv_stock_item_id r) (rv_storeroom_id r) (Some (remaining_qty r)) (Some (rv_uom r)) None
       ''inventory_reservation'' (rv_id r) (rv_notes r) False)"

definition create_reservation ::
  "inv_env \<Rightarrow> string \<Rightarrow> string \<Rightarrow> rat option \<Rightarrow> string option \<Rightarrow> date option \<Rightarrow> string \<Rightarrow> string \<Rightarrow> string
     \<Rightarrow> stock_reservation inv_op" where
  "create_reservation env item_id room_id quantity uom need_by source_type source_id notes =
     obind (prepare_reservation env item_id room_id quantity uom need_by source_type source_id notes) (\<lambda>r.
     obind (try_integrity (\<lambda>_. ValidationError ''INVENTORY_RESERVATION_NUMBER_EXISTS'') (committing inv_insert (create_body env r))) (\<lambda>txn.
     obind (announce_reservation env ''inventory_reservation.create'' r txn) (\<lambda>_.
     oret r)))"

definition issued_reservation :: "stock_reservation \<Rightarrow> rat \<Rightarrow> string \<Rightarrow> stock_reservation" where
  "issued_reservation r issue_qty notes =
     (let next_remaining = max 0 (remaining_qty r - issue_qty) in
      r\<lparr>issued_qty := issued_qty r + issue_qty, remaining_qty := next_remaining,
        rv_status := (if next_remaining \<le> 0 then RES_FULLY_ISSUED else RES_PARTIALLY_ISSUED),
        rv_notes := notes\<rparr>)"

definition text_or :: "string \<Rightarrow> string \<Rightarrow> string" where
  "text_or note old = (if normalize_optional_text (Some note) = [] then old else normalize_optional_text (Some note))"

definition prepare_issue ::
  "inv_env \<Rightarrow> string \<Rightarrow> rat option \<Rightarrow> string \<Rightarrow> (stock_reservation \<times> rat \<times> stock_reservation) inv_op" where
  "prepare_issue env res_id quantity note =
     obind (require_perm env ''inventory.manage'') (\<lambda>_.
     obind (get_reservation env res_id) (\<lambda>r.
     obind (oguard (rv_status r \<notin> {RES_ACTIVE, RES_PARTIALLY_ISSUED}) (ValidationError ''INVENTORY_RESERVATION_STATUS_INVALID'')) (\<lambda>_.
     obind (olift (normalize_positive_quantity quantity)) (\<lambda>issue_qty.
     obind (oguard (issue_qty > remaining_qty r) (ValidationError ''INVENTORY_RESERVATION_QTY_EXCEEDED'')) (\<lambda>_.
     (let r' = issued_reservation r issue_qty (text_or note (rv_notes r)) in
      obind (olift (validate_transition (reservation_status_value (rv_status r)) (reservation_status_value (rv_status r'))
               RESERVATION_STATUS_TRANSITIONS)) (\<lambda>_.
      oret (r, issue_qty, r'))))))))"

definition issue_body ::
  "inv_env \<Rightarrow> string \<Rightarrow> stock_reservation \<Rightarrow> rat \<Rightarrow> stock_reservation \<Rightarrow> (stock_transaction \<times> stock_reservation) inv_op" where
  "issue_body env note r issue_qty r' =
     obind (issue_stock env (rv_stock_item_id r) (rv_storeroom_id r) (Some issue_qty) (Some (rv_uom r)) None
              (Some (e_now env)) (Some issue_qty) ''inventory_reservation'' (rv_id r) (text_or note (rv_notes r)) False) (\<lambda>txn.
     obind (update_reservation r') (\<lambda>saved. oret (txn, saved)))"

definition issue_reserved_stock :: "inv_env \<Rightarrow> string \<Rightarrow> rat option \<Rightarrow> string \<Rightarrow> stock_reservation inv_op" where
  "issue_reserved_stock env res_id quantity note =
     obind (prepare_issue env res_id quantity note) (\<lambda>(r, issue_qty, r').
     obind (try_rollback (committing inv_insert (issue_body env note r issue_qty r'))) (\<lambda>(txn, saved).
     obind (announce_reservation env ''inventory_reservation.issue'' saved txn) (\<lambda>_.
     oret saved)))"

definition closed_reservation :: "datetime \<Rightarrow> stock_reservation_status \<Rightarrow> string \<Rightarrow> stock_reservation \<Rightarrow> stock_reservation" where
  "closed_reservation now status notes r =
     (let r1 = r\<lparr>remaining_qty := 0\<rparr>;
          r2 = (if status = RES_RELEASED then r1\<lparr>released_at := Some now\<rparr> else r1\<lparr>cancelled_at := Some now\<rparr>)
      in r2\<lparr>rv_status := status, rv_notes := notes\<rparr>)"

definition prepare_close ::
  "inv_env \<Rightarrow> string \<Rightarrow> stock_reservation_status \<Rightarrow> string \<Rightarrow> (stock_reservation \<times> stock_reservation) inv_op" where
  "prepare_close env res_id status note =
     obind (require_perm env ''inventory.manage'') (\<lambda>_.
     obind (get_reservation env res_id) (\<lambda>r.
     obind (oguard (rv_status r \<notin> {RES_ACTIVE, RES_PARTIALLY_ISSUED}) (ValidationError ''INVENTORY_RESERVATION_STATUS_INVALID'')) (\<lambda>_.
     obind (oguard (remaining_qty r \<le> 0) (ValidationError ''INVENTORY_RESERVATION_ALREADY_CONSUMED'')) (\<lambda>_.
     obind (olift (validate_transition (reservation_status_value (rv_status r)) (reservation_status_value status)
              RESERVATION_STATUS_TRANSITIONS)) (\<lambda>_.
     oret (r, closed_reservation (e_now env) status (text_or note (rv_notes r)) r))))))"

definition close_body ::
  "inv_env \<Rightarrow> string \<Rightarrow> stock_reservation \<Rightarrow> stock_reservation \<Rightarrow> (stock_transaction \<times> stock_reservation) inv_op" where
  "close_body env note r r' =
     obind (release_reservation env (rv_stock_item_id r) (rv_storeroom_id r) (Some (remaining_qty r)) (Some (rv_uom r))
              (Some (e_now env)) ''inventory_reservation'' (rv_id r) (text_or note (rv_notes r)) False) (\<lambda>txn.
     obind (update_reservation r') (\<lambda>saved. oret (txn, saved)))"

definition close_reservation ::
  "inv_env \<Rightarrow> string \<Rightarrow> stock_reservation_status \<Rightarrow> string \<Rightarrow> stock_reservation inv_op" where
  "close_reservation env res_id status note =
     obind (prepare_close env res_id status note) (\<lambda>(r, r').
     obind (try_rollback (committing inv_insert (close_body env note r r'))) (\<lambda>(txn, saved).
     obind (announce_reservation env (''inventory_reservation.'' @ py_lower (reservation_status_value status)) saved txn) (\<lambda>_.
     oret saved)))"

definition release_stock_reservation :: "inv_env \<Rightarrow> string \<Rightarrow> string \<Rightarrow> stock_reservation inv_op" where
  "release_stock_reservation env res_id note = close_reservation env res_id RES_RELEASED note"

definition cancel_stock_reservation :: "inv_env \<Rightarrow> string \<Rightarrow> string \<Rightarrow> stock_reservation inv_op" where
  "cancel_stock_reservation env res_id note = close_reservation env res_id RES_CANCELLED note"

end
