(* ===== verification/Inv_Reservation_Correct.thy ===== *)
theory Inv_Reservation_Correct
  imports Inv_Reservation
begin

text \<open>
  Reservations against balances: in every state that stock control and the reservation service
  reach, the reserved quantity of a balance is what its open reservations still hold.
\<close>

section \<open>What a reservation holds\<close>

definition reservation_open :: "stock_reservation \<Rightarrow> bool" where
  "reservation_open r \<longleftrightarrow> rv_status r \<in> {RES_ACTIVE, RES_PARTIALLY_ISSUED}"

definition rv_position :: "stock_reservation \<Rightarrow> string \<times> string \<times> string" where
  "rv_position r = (rv_organization_id r, rv_stock_item_id r, rv_storeroom_id r)"

text \<open>The remaining quantity of an open reservation, in the item's stock unit.\<close>

definition held_amount :: "stock_item list \<Rightarrow> stock_reservation \<Rightarrow> rat" where
  "held_amount items r =
     (if \<not> reservation_open r then 0
      else case find_row si_id items (rv_stock_item_id r) of
          None \<Rightarrow> 0
        | Some item \<Rightarrow>
            (case convert_item_quantity item (remaining_qty r) (rv_uom r) (stock_uom item) of
               Inl _ \<Rightarrow> 0 | Inr q \<Rightarrow> q))"

definition held_quantity :: "inv_db \<Rightarrow> string \<times> string \<times> string \<Rightarrow> rat" where
  "held_quantity db pos =
     sum_list (map (held_amount (db_items db)) (filter (\<lambda>r. rv_position r = pos) (db_reservations db)))"

text \<open>The books of one reservation.\<close>

definition reservation_ok :: "stock_reservation \<Rightarrow> bool" where
  "reservation_ok r \<longleftrightarrow> 0 \<le> issued_qty r \<and> issued_qty r \<le> rv_reserved_qty r \<and>
     normalize_uom (Some (rv_uom r)) = Inr (rv_uom r) \<and>
     (rv_status r = RES_FULLY_ISSUED \<longrightarrow> issued_qty r = rv_reserved_qty r) \<and>
     (if reservation_open r then 0 < remaining_qty r \<and> remaining_qty r = rv_reserved_qty r - issued_qty r
      else remaining_qty r = 0)"

text \<open>The reserved quantities match the reservations, but for \<open>d\<close> at one position.\<close>

definition reserved_match :: "inv_db \<Rightarrow> string \<times> string \<times> string \<Rightarrow> rat \<Rightarrow> bool" where
  "reserved_match db pos d \<longleftrightarrow> (\<forall>b \<in> set (db_balances db).
     reserved_qty b = held_quantity db (position b) + (if position b = pos then d else 0))"

definition books_ok :: "inv_db \<Rightarrow> bool" where
  "books_ok db \<longleftrightarrow> distinct (map rv_id (db_reservations db)) \<and>
     (\<forall>r \<in> set (db_reservations db). reservation_ok r \<and>
        (reservation_open r \<longrightarrow> rv_position r \<in> position ` set (db_balances db)))"

definition res_inv :: "inv_db \<Rightarrow> bool" where
  "res_inv db \<longleftrightarrow> stock_inv db \<and> books_ok db \<and> (\<forall>pos. reserved_match db pos 0)"

lemma reserved_match_0: "reserved_match db pos 0 = reserved_match db pos' 0"
  by (simp add: reserved_match_def)

lemma held_apply_posting [simp]: "held_quantity (apply_posting n b t db) = held_quantity db"
  by (rule ext) (simp add: held_quantity_def)

lemma held_nothing:
  assumes "books_ok db" "pos \<notin> position ` set (db_balances db)"
  shows "held_quantity db pos = 0"
proof -
  have "held_amount (db_items db) r = 0" if "r \<in> set (db_reservations db)" "rv_position r = pos" for r
    using assms that by (auto simp: books_ok_def held_amount_def)
  then have "map (held_amount (db_items db)) (filter (\<lambda>r. rv_position r = pos) (db_reservations db)) =
      map (\<lambda>_. 0) (filter (\<lambda>r. rv_position r = pos) (db_reservations db))"
    by (intro map_cong refl) simp
  then show ?thesis by (simp only: held_quantity_def sum_list_0)
qed

section \<open>The effect of the two halves of an operation\<close>

lemma apply_posting_positions:
  assumes "stock_inv db" "starts_from db org item room b n" "posting_allowed n b' db"
    and "position b' = position b" "sb_id b' = sb_id b"
  shows "position ` set (db_balances db) \<subseteq> position ` set (db_balances (apply_posting n b' t db))"
proof (cases n)
  case False
  have b: "b \<in> set (db_balances db)"
    using assms(2) False get_position(1) [of org "si_id item" "sr_id room" db b] by (simp add: starts_from_def)
  have "position x \<in> position ` set (replace_row sb_id (b'\<lparr>sb_version := sb_version b' + 1\<rparr>) (db_balances db))"
    if x: "x \<in> set (db_balances db)" for x
  proof (cases "sb_id x = sb_id b")
    case True
    then have "x = b" using assms(1) same_row [of sb_id] x b by (auto simp: stock_inv_def)
    then show ?thesis
      using x assms(4,5) unfolding replace_row_def set_map image_image
      by (intro rev_image_eqI [OF x]) simp
  next
    case False
    then show ?thesis
      using assms(5) unfolding replace_row_def set_map image_image
      by (intro rev_image_eqI [OF x]) simp
  qed
  then show ?thesis using False by (auto simp: apply_posting_def)
qed (auto simp: apply_posting_def)

lemma posting_match:
  assumes inv: "stock_inv db" and books: "books_ok db" and m: "reserved_match db pos 0"
    and start: "starts_from db org item room b n"
    and allowed: "posting_allowed n b' db" and same: "position b' = position b" "sb_id b' = sb_id b"
  shows "reserved_match (apply_posting n b' t db) (org, si_id item, sr_id room) (reserved_qty b' - reserved_qty b)"
proof -
  let ?pos = "(org, si_id item, sr_id room)"
  have b_pos: "position b = ?pos" by (rule starts_from_position [OF start])
  show ?thesis
  proof (cases n)
    case True
    have fresh: "?pos \<notin> position ` set (db_balances db)"
      using allowed True same b_pos by (simp add: posting_allowed_def)
    have old: "position x \<noteq> ?pos" if "x \<in> set (db_balances db)" for x
      using fresh that by (metis imageI)
    have "reserved_qty b = 0"
      using start True by (auto simp: starts_from_def create_balance_def)
    then show ?thesis
      using m old True same b_pos held_nothing [OF books fresh]
      by (auto simp: reserved_match_def apply_posting_def held_quantity_def)
  next
    case False
    let ?b = "b'\<lparr>sb_version := sb_version b' + 1\<rparr>"
    have b: "b \<in> set (db_balances db)"
      using start False get_position(1) [of org "si_id item" "sr_id room" db b] by (simp add: starts_from_def)
    have old: "position x \<noteq> ?pos" if "x \<in> set (db_balances db)" "sb_id x \<noteq> sb_id b" for x
      using that b b_pos inv same_row [of position "db_balances db" x b] by (auto simp: stock_inv_def)
    have "reserved_qty x = held_quantity db (position x) + (if position x = ?pos then reserved_qty b' - reserved_qty b else 0)"
      if "x \<in> set (replace_row sb_id ?b (db_balances db))" for x
    proof (cases "x = ?b")
      case True
      then show ?thesis using m b b_pos same by (simp add: reserved_match_def)
    next
      case False
      then have "x \<in> set (db_balances db)" "sb_id x \<noteq> sb_id b"
        using subsetD [OF set_replace_row that] same by auto
      then show ?thesis using m old by (simp add: reserved_match_def)
    qed
    then show ?thesis
      using False unfolding reserved_match_def held_apply_posting by (simp add: apply_posting_def)
  qed
qed

lemma held_add:
  "held_quantity (with_reservations [r] db) pos =
     held_quantity db pos + (if rv_position r = pos then held_amount (db_items db) r else 0)"
  by (simp add: held_quantity_def)

lemma add_match:
  assumes "reserved_match db (rv_position r) (held_amount (db_items db) r)"
  shows "reserved_match (with_reservations [r] db) pos 0"
  using assms by (auto simp: reserved_match_def held_add)

definition with_row :: "stock_reservation \<Rightarrow> inv_db \<Rightarrow> inv_db" where
  "with_row r db = db\<lparr>db_reservations := replace_row rv_id r (db_reservations db)\<rparr>"

lemma held_with_row:
  assumes "distinct (map rv_id (db_reservations db))" "r \<in> set (db_reservations db)"
    and "rv_id r' = rv_id r" "rv_position r' = rv_position r"
  shows "held_quantity (with_row r' db) pos =
    held_quantity db pos + (if rv_position r = pos then held_amount (db_items db) r' - held_amount (db_items db) r else 0)"
  using sum_replace_row [OF assms(1,2,3), of "\<lambda>r. rv_position r = pos" "held_amount (db_items db)"] assms(4)
  by (simp add: held_quantity_def with_row_def)

lemma row_match:
  assumes "reserved_match db (rv_position r) d" and "d = held_amount (db_items db) r' - held_amount (db_items db) r"
    and "distinct (map rv_id (db_reservations db))" "r \<in> set (db_reservations db)"
    and "rv_id r' = rv_id r" "rv_position r' = rv_position r"
  shows "reserved_match (with_row r' db) pos 0"
  using assms(1,2) held_with_row [OF assms(3-6)] by (auto simp: reserved_match_def with_row_def)

lemma stock_inv_reservations [simp]:
  "stock_inv (with_reservations rs db) = stock_inv db" "stock_inv (with_row r db) = stock_inv db"
  by (simp_all add: stock_inv_def ledger_quantity_def with_row_def)

section \<open>The calls are atomic\<close>

text \<open>The rows no operation of stock control writes.\<close>

definition master_data :: "inv_op_state \<Rightarrow> stock_item list \<times> storeroom list \<times> string option" where
  "master_data s = (db_items (s_working s), db_storerooms (s_working s), db_active_org (s_working s))"

lemma require_perm_any_state:
  "require_perm env c s = (Inr u, s') \<Longrightarrow> require_perm env c t = (Inr u, t)"
  by (simp add: require_perm_def)

lemma get_item_transfer:
  assumes "get_item env i s = (Inr item, s')" "master_data t = master_data s"
  shows "get_item env i t = (Inr item, t)"
  using assms unfolding get_item_def
  by (auto simp: master_data_def obind_def require_perm_def olift_def oget_def active_organization_def oret_def oraise_def
      split: sum.splits option.splits if_splits)

lemma get_storeroom_transfer:
  assumes "get_storeroom env i s = (Inr room, s')" "master_data t = master_data s"
  shows "get_storeroom env i t = (Inr room, t)"
  using assms unfolding get_storeroom_def get_storeroom_for_internal_use_def
  by (auto simp: master_data_def obind_def require_perm_def require_scope_perm_def olift_def oget_def
      active_organization_def oret_def oraise_def split: sum.splits option.splits if_splits)

lemma balance_lookup_succeeds:
  assumes "stock_position env i r s = (Inr x, s')" "master_data t = master_data s"
  shows "\<exists>b. get_balance_for_stock_position env i r t = (Inr b, t)"
proof -
  obtain org item room s1 s2 u where
      org: "active_organization s = (Inr org, s)"
    and item: "get_item env i s = (Inr item, s1)" and room: "get_storeroom env r s1 = (Inr room, s2)"
    and same: "ensure_same_scope item room org s2 = (Inr (), u)"
    using assms(1) unfolding stock_position_def validate_stock_item_def validate_storeroom_def
    by (auto simp: require_perm_def)
  have s: "s1 = s" "s2 = s" using get_item_Inr [OF item] get_storeroom_Inr [OF room] by simp_all
  have "fst (require_permission (e_now env) ''inventory.read'' (e_user env)) = Inr ()"
    using item by (auto simp: get_item_def require_perm_def)
  moreover have "active_organization t = (Inr org, t)"
    using org assms(2) by (simp add: master_data_def)
  moreover have "ensure_same_scope item room org t = (Inr (), t)"
    using same by (auto simp: ensure_same_scope_def)
  ultimately show ?thesis
    using get_item_transfer [OF item assms(2)] get_storeroom_transfer [OF room [unfolded s]] assms(2)
    by (simp add: get_balance_for_stock_position_def require_perm_def)
qed

lemma obind_eval: "m s = (Inr x, u) \<Longrightarrow> obind m f s = f x u"
  by (simp add: obind_def)

lemma announce_succeeds:
  assumes "stock_position env (rv_stock_item_id r) (rv_storeroom_id r) s = (Inr x, s0)" "master_data t = master_data s"
    and "clean t" "announce_reservation env action r txn t = (res, t')"
  shows "clean t' \<and> s_committed t' = s_committed t \<and> res = Inr ()"
proof -
  define t1 where "t1 = snd (record_audit inv_insert action ''stock_reservation'' (rv_id r) t)"
  define t2 where "t2 = snd (record_transaction_audit txn t1)"
  have a1: "record_audit inv_insert action ''stock_reservation'' (rv_id r) t = (Inr (), t1)"
    using record_audit_clean_eq [OF assms(3)] by (simp add: t1_def)
  have c1: "clean t1" "s_committed t1 = s_committed t"
    using record_audit_clean [OF assms(3) a1] by simp_all
  have a2: "record_transaction_audit txn t1 = (Inr (), t2)"
    using record_audit_clean_eq [OF c1(1)] by (simp add: t2_def record_transaction_audit_def)
  have c2: "clean t2" "s_committed t2 = s_committed t"
    using record_audit_clean [OF c1(1) a2 [unfolded record_transaction_audit_def]] c1(2) by simp_all
  have "master_data t2 = master_data s"
    using c2 assms(2,3) by (simp add: master_data_def clean_def)
  then obtain b where b: "get_balance_for_stock_position env (rv_stock_item_id r) (rv_storeroom_id r) t2 = (Inr b, t2)"
    using balance_lookup_succeeds [OF assms(1)] by blast
  let ?tail = "obind (case b of None \<Rightarrow> oret () | Some b \<Rightarrow> emit ''inventory_balances_changed'' (sb_id b))
      (\<lambda>_. emit ''inventory_reservations_changed'' (rv_id r)) :: unit inv_op"
  have "quiet ?tail" by (intro call_intros)
  moreover have "?tail t2 = (res, t')"
    using assms(4) unfolding announce_reservation_def
    by (simp only: obind_eval [where m = "record_audit ins a e k" for ins a e k, OF a1]
        obind_eval [where m = "record_transaction_audit k" for k, OF a2]
        obind_eval [where m = "get_balance_for_stock_position k l n" for k l n, OF b])
  ultimately show ?thesis
    using quietD [of ?tail t2 res t'] c2 by simp
qed

lemma posting_effect_master:
  "posting_effect org item room c rs s s' b b' t \<Longrightarrow> master_data s' = master_data s"
  by (auto simp: posting_effect_def master_data_def)

text \<open>What a successful hold, release or issue without its own commit has done.\<close>

lemma hold_release_parts:
  assumes "op = hold_reservation \<and> ty = RESERVATION_HOLD \<or> op = release_reservation \<and> ty = RESERVATION_RELEASE"
    and "op env i r quantity uom at_time rt ri nts c s = (Inr t, s')"
    and "s_pending s = map ReservationRow rs"
  obtains org item room b b' q eff where "stock_position env i r s = (Inr (org, item, room), s)"
    and "posting_effect org item room c rs s s' b b' t" "transaction_type t = ty"
    and "normalize_positive_quantity quantity = Inr (st_quantity t)"
    and "normalize_uom (Some (uom_or_stock item uom)) = Inr (st_uom t)"
    and "convert_item_quantity item (st_quantity t) (st_uom t) (stock_uom item) = Inr q"
    and "reserved_balance item ty q eff b = Inr b'"
proof -
  have "obind (stock_position env i r) (\<lambda>(org, item, room).
      post_reservation_transaction env org item room ty quantity uom at_time rt ri nts c) s = (Inr t, s')"
    using assms(1,2) by (elim disjE conjE) (simp_all only: hold_reservation_def release_reservation_def)
  then obtain org item room s1 where "stock_position env i r s = (Inr (org, item, room), s1)"
    and "post_reservation_transaction env org item room ty quantity uom at_time rt ri nts c s1 = (Inr t, s')"
    unfolding obind_Inr by (elim exE conjE) (simp split: prod.splits)
  then have pos: "stock_position env i r s = (Inr (org, item, room), s)"
    and post: "post_reservation_transaction env org item room ty quantity uom at_time rt ri nts c s = (Inr t, s')"
    using stock_position_Inr [of env i r s org item room s1] by simp_all
  show ?thesis
    by (rule post_reservation_effect [OF post assms(3)]) (rule that [OF pos])
qed

lemmas hold_parts = hold_release_parts [where op = hold_reservation and ty = RESERVATION_HOLD, simplified]
  and release_parts = hold_release_parts [where op = release_reservation and ty = RESERVATION_RELEASE, simplified]

lemma issue_parts:
  assumes "issue_stock env i r quantity uom uc at_time release rt ri nts c s = (Inr t, s')"
    and "s_pending s = map ReservationRow rs"
  obtains org item room b q rel quantities cost eff where "stock_position env i r s = (Inr (org, item, room), s)"
    and "posting_effect org item room c rs s s' b (moved_balance item ISSUE q quantities cost eff b) t"
    and "transaction_type t = ISSUE"
    and "normalize_positive_quantity quantity = Inr (st_quantity t)"
    and "normalize_uom (Some (uom_or_stock item uom)) = Inr (st_uom t)"
    and "convert_item_quantity item (st_quantity t) (st_uom t) (stock_uom item) = Inr q"
    and "rbind (normalize_nonnegative_quantity release)
           (\<lambda>nr. convert_item_quantity item nr (st_uom t) (stock_uom item)) = Inr rel"
    and "movement_quantities ISSUE q rel b = Inr quantities"
    and "movement_costs item (st_uom t) uc b = Inr (st_unit_cost t, cost)"
proof -
  obtain org item room s1 where "stock_position env i r s = (Inr (org, item, room), s1)"
    and "post_movement_transaction env org item room ISSUE quantity uom uc at_time release rt ri nts c s1 = (Inr t, s')"
    using assms(1) unfolding issue_stock_def by auto
  then have pos: "stock_position env i r s = (Inr (org, item, room), s)"
    and post: "post_movement_transaction env org item room ISSUE quantity uom uc at_time release rt ri nts c s = (Inr t, s')"
    using stock_position_Inr [of env i r s org item room s1] by simp_all
  show ?thesis
    by (rule post_movement_effect [OF post assms(2)]) (rule that [OF pos])
qed

lemma uncommitted_bodies [call_intros]:
  "uncommitted (hold_reservation env i r q u at_time rt ri nts False)"
  "uncommitted (release_reservation env i r q u at_time rt ri nts False)"
  "uncommitted (issue_stock env i r q u oc at_time rel rt ri nts False)"
  "uncommitted (update_reservation v)"
proof -
  show "uncommitted (update_reservation v)"
    unfolding uncommitted_def update_reservation_def by (auto split: sum.splits)
qed (unfold hold_reservation_def release_reservation_def issue_stock_def,
    (intro uncommitted_bind call_case_prod uncommitted_movement uncommitted_reservation_posting
      uncommitted_neutral neutral_reads neutral_simple)+)

text \<open>The transaction of a reservation operation and what it needs for the reads after the commit.\<close>

definition readable_after :: "inv_env \<Rightarrow> ('a \<Rightarrow> stock_reservation) \<Rightarrow> 'a inv_op \<Rightarrow> bool" where
  "readable_after env res body \<longleftrightarrow> (\<forall>s x s'. clean s \<longrightarrow> body s = (Inr x, s') \<longrightarrow>
     s_pending s' = [] \<and> (\<exists>u y u'. master_data s' = master_data u \<and>
        stock_position env (rv_stock_item_id (res x)) (rv_storeroom_id (res x)) u = (Inr y, u')))"

lemma committed_then_announced:
  assumes body: "readable_after env res body" and "clean s" "committing inv_insert body s = (Inr x, t)"
    and tail: "obind (announce_reservation env action (res x) (txn x)) (\<lambda>_. oret (k x)) t = (r, t')"
  shows "clean t' \<and> s_committed t' = s_committed t \<and> r = Inr (k x)"
proof -
  obtain s' where b: "body s = (Inr x, s')" and c: "commit inv_insert s' = (Inr (), t)"
    using assms(3) by (auto simp: committing_def)
  obtain u y u' where ready: "s_pending s' = []" "master_data s' = master_data u"
      "stock_position env (rv_stock_item_id (res x)) (rv_storeroom_id (res x)) u = (Inr y, u')"
    using body assms(2) b unfolding readable_after_def by blast
  have t: "clean t" "master_data t = master_data u"
    using c ready by (auto simp: clean_def master_data_def)
  obtain r1 t1 where a: "announce_reservation env action (res x) (txn x) t = (r1, t1)"
    by (meson surj_pair)
  from announce_succeeds [OF ready(3) t(2,1) a] have "r1 = Inr ()" "clean t1" "s_committed t1 = s_committed t"
    by simp_all
  then show ?thesis
    using tail a by (simp add: obind_def)
qed

lemma atomic_announced:
  assumes "uncommitted body" "readable_after env res body"
    and wrap: "wrap = try_rollback \<or> wrap = try_integrity err"
  shows "atomic_call (obind (wrap (committing inv_insert body)) (\<lambda>x.
    obind (announce_reservation env action (res x) (txn x)) (\<lambda>_. oret (k x))))"
  unfolding atomic_call_def
proof (intro allI impI)
  fix s r t
  assume c: "clean s"
    and run: "obind (wrap (committing inv_insert body)) (\<lambda>x.
      obind (announce_reservation env action (res x) (txn x)) (\<lambda>_. oret (k x))) s = (r, t)"
  have atomic: "atomic_call (wrap (committing inv_insert body))"
    using wrap atomic_try_rollback [OF assms(1)] atomic_try_integrity [OF assms(1)] by auto
  from run show "clean t \<and> (\<forall>err. r = Inl err \<longrightarrow> s_committed t = s_committed s)"
  proof (cases rule: obindE)
    case (raised e)
    then show ?thesis using atomicD [OF atomic c] by blast
  next
    case (returned x u)
    then have "committing inv_insert body s = (Inr x, u)" using wrap by auto
    from committed_then_announced [where res = res and x = x and txn = txn and k = k, OF assms(2) c this returned(2)] show ?thesis by simp
  qed
qed

lemma update_reservation_Inr:
  "update_reservation r s = (Inr saved, s') \<longleftrightarrow>
     (\<exists>old. find_row rv_id (db_reservations (s_working s)) (rv_id r) = Some old \<and> rv_version old = rv_version r) \<and>
     saved = r\<lparr>rv_version := rv_version r + 1\<rparr> \<and> s' = s\<lparr>s_working := with_row saved (s_working s)\<rparr>"
  by (auto simp: update_reservation_def update_with_version_check_def with_row_def split: option.splits if_splits)

lemma with_row_master:
  "master_data (s\<lparr>s_working := with_row r (s_working s)\<rparr>) = master_data s"
  by (simp add: master_data_def with_row_def)

lemma readable_create: "readable_after env (\<lambda>_. r) (create_body env r)"
  unfolding readable_after_def
proof (intro allI impI)
  fix s t s' assume c: "clean s" and run: "create_body env r s = (Inr t, s')"
  let ?s = "s\<lparr>s_pending := [ReservationRow r]\<rparr>"
  have hold: "hold_reservation env (rv_stock_item_id r) (rv_storeroom_id r) (Some (remaining_qty r)) (Some (rv_uom r)) None
       ''inventory_reservation'' (rv_id r) (rv_notes r) False ?s = (Inr t, s')"
    using run c by (simp add: create_body_def clean_def)
  obtain org item room b b' where
      pos: "stock_position env (rv_stock_item_id r) (rv_storeroom_id r) ?s = (Inr (org, item, room), ?s)"
    and eff: "posting_effect org item room False [r] ?s s' b b' t"
    by (rule hold_parts [OF hold, of "[r]"]) (simp, rule that)
  have "s_pending s' = []" "master_data s' = master_data ?s"
    using eff posting_effect_master [OF eff] by (simp_all add: posting_effect_def)
  then show "s_pending s' = [] \<and> (\<exists>u y u'. master_data s' = master_data u \<and>
        stock_position env (rv_stock_item_id r) (rv_storeroom_id r) u = (Inr y, u'))"
    using pos by blast
qed

lemma readable_update:
  assumes eff: "posting_effect org item room False [] s s1 b b' t"
    and pos: "stock_position env (rv_stock_item_id r) (rv_storeroom_id r) s = (Inr y, s)"
    and up: "obind (update_reservation r') (\<lambda>saved. oret (t, saved)) s1 = (Inr x, s')"
    and same: "rv_position r' = rv_position r"
  shows "s_pending s' = [] \<and> (\<exists>u y u'. master_data s' = master_data u \<and>
        stock_position env (rv_stock_item_id (snd x)) (rv_storeroom_id (snd x)) u = (Inr y, u'))"
proof -
  obtain saved where up': "update_reservation r' s1 = (Inr saved, s')" and x: "x = (t, saved)"
    using up by auto
  then have saved: "saved = r'\<lparr>rv_version := rv_version r' + 1\<rparr>" "s' = s1\<lparr>s_working := with_row saved (s_working s1)\<rparr>"
    by (auto simp: update_reservation_Inr)
  have "master_data s' = master_data s"
    using saved posting_effect_master [OF eff] by (simp add: with_row_master)
  moreover have "rv_stock_item_id (snd x) = rv_stock_item_id r" "rv_storeroom_id (snd x) = rv_storeroom_id r"
    using saved x same by (auto simp: rv_position_def)
  then have "stock_position env (rv_stock_item_id (snd x)) (rv_storeroom_id (snd x)) s = (Inr y, s)"
    using pos by simp
  moreover have "s_pending s' = []" using saved eff by (simp add: posting_effect_def)
  ultimately show ?thesis by blast
qed

lemma readable_issue:
  assumes "rv_position r' = rv_position r"
  shows "readable_after env snd (issue_body env note r issue_qty r')"
  unfolding readable_after_def
proof (intro allI impI)
  fix s x s' assume c: "clean s" and run: "issue_body env note r issue_qty r' s = (Inr x, s')"
  obtain t s1 where iss: "issue_stock env (rv_stock_item_id r) (rv_storeroom_id r) (Some issue_qty) (Some (rv_uom r)) None
        (Some (e_now env)) (Some issue_qty) ''inventory_reservation'' (rv_id r) (text_or note (rv_notes r)) False s = (Inr t, s1)"
    and up: "obind (update_reservation r') (\<lambda>saved. oret (t, saved)) s1 = (Inr x, s')"
    using run unfolding issue_body_def obind_Inr by blast
  have "s_pending s = map ReservationRow []" using c by (simp add: clean_def)
  then obtain org item room b b' where
      pos: "stock_position env (rv_stock_item_id r) (rv_storeroom_id r) s = (Inr (org, item, room), s)"
    and eff: "posting_effect org item room False [] s s1 b b' t"
    by (rule issue_parts [OF iss]) (rule that)
  show "s_pending s' = [] \<and> (\<exists>u y u'. master_data s' = master_data u \<and>
        stock_position env (rv_stock_item_id (snd x)) (rv_storeroom_id (snd x)) u = (Inr y, u'))"
    by (rule readable_update [OF eff pos up assms])
qed

lemma readable_close:
  assumes "rv_position r' = rv_position r"
  shows "readable_after env snd (close_body env note r r')"
  unfolding readable_after_def
proof (intro allI impI)
  fix s x s' assume c: "clean s" and run: "close_body env note r r' s = (Inr x, s')"
  obtain t s1 where rel: "release_reservation env (rv_stock_item_id r) (rv_storeroom_id r) (Some (remaining_qty r))
        (Some (rv_uom r)) (Some (e_now env)) ''inventory_reservation'' (rv_id r) (text_or note (rv_notes r)) False s = (Inr t, s1)"
    and up: "obind (update_reservation r') (\<lambda>saved. oret (t, saved)) s1 = (Inr x, s')"
    using run unfolding close_body_def obind_Inr by blast
  have "s_pending s = map ReservationRow []" using c by (simp add: clean_def)
  then obtain org item room b b' where
      pos: "stock_position env (rv_stock_item_id r) (rv_storeroom_id r) s = (Inr (org, item, room), s)"
    and eff: "posting_effect org item room False [] s s1 b b' t"
    by (rule release_parts [OF rel]) (rule that)
  show "s_pending s' = [] \<and> (\<exists>u y u'. master_data s' = master_data u \<and>
        stock_position env (rv_stock_item_id (snd x)) (rv_storeroom_id (snd x)) u = (Inr y, u'))"
    by (rule readable_update [OF eff pos up assms])
qed

lemma neutral_prepare [call_intros]:
  "neutral (get_reservation env i)"
  "neutral (prepare_reservation env i r q u nb sty sid nts)"
  "neutral (prepare_issue env i q nts)"
  "neutral (prepare_close env i st nts)"
  unfolding prepare_reservation_def prepare_issue_def prepare_close_def get_reservation_def ensure_same_scope_def
  by (intro call_intros)+

lemma prepare_issue_position:
  "prepare_issue env i q nts s = (Inr (r, iq, r'), s') \<Longrightarrow> rv_position r' = rv_position r"
  by (auto simp: prepare_issue_def issued_reservation_def rv_position_def Let_def)

lemma prepare_close_position:
  "prepare_close env i st nts s = (Inr (r, r'), s') \<Longrightarrow> rv_position r' = rv_position r"
  by (auto simp: prepare_close_def closed_reservation_def rv_position_def Let_def)

text \<open>A neutral prologue whose results satisfy what the rest needs.\<close>

lemma atomic_after:
  assumes "neutral m" "\<And>s x u. m s = (Inr x, u) \<Longrightarrow> atomic_call (f x)"
  shows "atomic_call (obind m f)"
  unfolding atomic_call_def
proof (intro allI impI)
  fix s r t assume c: "clean s" and "obind m f s = (r, t)"
  from this(2) show "clean t \<and> (\<forall>err. r = Inl err \<longrightarrow> s_committed t = s_committed s)"
  proof (cases rule: obindE)
    case (raised err)
    then show ?thesis using neutral_clean [OF assms(1)] neutralD [OF assms(1)] c by metis
  next
    case (returned x u)
    have u: "clean u" "s_committed u = s_committed s"
      using c neutral_clean [OF assms(1) returned(1)] neutralD [OF assms(1) returned(1)] by simp_all
    then show ?thesis using atomicD [OF assms(2) [OF returned(1)] _ returned(2)] by simp
  qed
qed

lemma uncommitted_reservation_bodies [call_intros]:
  "uncommitted (create_body env r)" "uncommitted (issue_body env note r q r')" "uncommitted (close_body env note r r')"
  unfolding create_body_def issue_body_def close_body_def
  by (intro uncommitted_bind uncommitted_simple uncommitted_bodies uncommitted_neutral [OF neutral_simple(2)])+

lemma atomic_create: "atomic_call (create_reservation env i room q u nb sty sid nts)"
  unfolding create_reservation_def
proof (rule atomic_after [OF neutral_prepare(2)])
  fix r
  show "atomic_call (obind (try_integrity (\<lambda>_. ValidationError ''INVENTORY_RESERVATION_NUMBER_EXISTS'')
      (committing inv_insert (create_body env r))) (\<lambda>txn.
      obind (announce_reservation env ''inventory_reservation.create'' r txn) (\<lambda>_. oret r)))"
    by (rule atomic_announced [where res = "\<lambda>_. r", OF uncommitted_reservation_bodies(1) readable_create disjI2 [OF refl]])
qed

lemma atomic_issue_reserved: "atomic_call (issue_reserved_stock env i q nts)"
  unfolding issue_reserved_stock_def case_prod_beta
proof (rule atomic_after [OF neutral_prepare(3)])
  fix s x u assume "prepare_issue env i q nts s = (Inr x, u)"
  then have "rv_position (snd (snd x)) = rv_position (fst x)"
    using prepare_issue_position by (metis prod.collapse)
  then show "atomic_call (obind (try_rollback (committing inv_insert (issue_body env nts (fst x) (fst (snd x)) (snd (snd x)))))
      (\<lambda>p. obind (announce_reservation env ''inventory_reservation.issue'' (snd p) (fst p)) (\<lambda>_. oret (snd p))))"
    by (intro atomic_announced [where res = snd] uncommitted_reservation_bodies readable_issue disjI1 refl)
qed

lemma atomic_close: "atomic_call (close_reservation env i st nts)"
  unfolding close_reservation_def case_prod_beta
proof (rule atomic_after [OF neutral_prepare(4)])
  fix s x u assume "prepare_close env i st nts s = (Inr x, u)"
  then have "rv_position (snd x) = rv_position (fst x)"
    using prepare_close_position by (metis prod.collapse)
  then show "atomic_call (obind (try_rollback (committing inv_insert (close_body env nts (fst x) (snd x))))
      (\<lambda>p. obind (announce_reservation env (''inventory_reservation.'' @ py_lower (reservation_status_value st)) (snd p) (fst p))
        (\<lambda>_. oret (snd p))))"
    by (intro atomic_announced [where res = snd] uncommitted_reservation_bodies readable_close disjI1 refl)
qed

interpretation create_reservation_call: unit_of_work "create_reservation env i room q u nb sty sid nts"
  for env i room q u nb sty sid nts
  by unfold_locales (rule atomic_create)

interpretation issue_reserved_call: unit_of_work "issue_reserved_stock env i q nts"
  for env i q nts
  by unfold_locales (rule atomic_issue_reserved)

interpretation close_reservation_call: unit_of_work "close_reservation env i st nts"
  for env i st nts
  by unfold_locales (rule atomic_close)

end
