(* ===== verification/Inv_Reserved.thy ===== *)
theory Inv_Reserved
  imports Inv_Reservation_Correct
begin

text \<open>
  The invariant of reservations over sequences of calls of the stock-control and the
  reservation service.
\<close>

section \<open>Units are normalised once\<close>

lemma py_isspace_upper [simp]: "py_isspace (py_upper_char c) = py_isspace c"
  by (auto simp: py_isspace_def py_upper_char_def Let_def)

lemma py_upper_char_idem [simp]: "py_upper_char (py_upper_char c) = py_upper_char c"
  by (auto simp: py_upper_char_def Let_def)

lemma dropWhile_upper: "dropWhile py_isspace (map py_upper_char s) = map py_upper_char (dropWhile py_isspace s)"
  by (induction s) auto

lemma py_strip_upper: "py_strip (py_upper s) = py_upper (py_strip s)"
  by (simp add: py_strip_def py_upper_def dropWhile_upper rev_map)

lemma py_upper_idem [simp]: "py_upper (py_upper s) = py_upper s"
  by (simp add: py_upper_def)

lemma normalize_uom_idem: "normalize_uom v = Inr u \<Longrightarrow> normalize_uom (Some u) = Inr u \<and> u \<noteq> []"
  by (auto simp: normalize_uom_def normalize_optional_text_def Let_def py_strip_upper split: if_splits)

section \<open>One posting\<close>

lemma posting_effect_books:
  assumes eff: "posting_effect org item room c rs s s' b b' t" and inv: "res_inv (s_working s)"
    and item: "find_row si_id (db_items (s_working s)) (si_id item) = Some item"
    and same: "position b' = position b" "sb_id b' = sb_id b" and ok: "balance_ok b \<longrightarrow> balance_ok b'"
    and qty: "on_hand_qty b' = on_hand_qty b + signed_quantity item t"
  obtains db where "s_working s' = with_reservations rs db" "stock_inv db" "books_ok db"
    "db_items db = db_items (s_working s)" "db_reservations db = db_reservations (s_working s)"
    "reserved_match db (org, si_id item, sr_id room) (reserved_qty b' - reserved_qty b)"
    "(org, si_id item, sr_id room) \<in> position ` set (db_balances db)"
proof -
  obtain n where n: "starts_from (s_working s) org item room b n" "posting_allowed n b' (s_working s)"
      "s_working s' = apply_posting n b' t (with_reservations rs (s_working s))"
    and t: "txn_position t = (org, si_id item, sr_id room)"
    using eff by (auto simp: posting_effect_def)
  let ?db = "apply_posting n b' t (s_working s)"
  have inv': "stock_inv (s_working s)" "books_ok (s_working s)" "reserved_match (s_working s) pos 0" for pos
    using inv unfolding res_inv_def by blast+
  have st: "stock_inv ?db"
    using posting_keeps_inv [OF inv'(1) n(1,2) same _ item t qty] ok starts_from_ok [OF inv'(1) n(1)] by blast
  note sub = apply_posting_positions [OF inv'(1) n(1,2) same]
  have books: "books_ok ?db"
    using inv'(2) subsetD [OF sub] unfolding books_ok_def apply_posting_reservations by blast
  have "(org, si_id item, sr_id room) \<in> position ` set (db_balances ?db)"
    using st t by (auto simp: stock_inv_def)
  then show ?thesis
    by (intro that [of ?db] st books posting_match [OF inv' n(1,2) same])
      (simp_all add: n(3) apply_posting_with_reservations)
qed

text \<open>A posting that reserves and releases nothing.\<close>

lemma plain_posting_keeps:
  assumes "posting_effect org item room c [] s s' b b' t" and "res_inv (s_working s)"
    and "find_row si_id (db_items (s_working s)) (si_id item) = Some item"
    and "position b' = position b" "sb_id b' = sb_id b" "balance_ok b \<longrightarrow> balance_ok b'"
    and "on_hand_qty b' = on_hand_qty b + signed_quantity item t" and "reserved_qty b' = reserved_qty b"
  shows "res_inv (s_working s') \<and> s_pending s' = []"
proof -
  obtain db where "s_working s' = with_reservations [] db" "stock_inv db" "books_ok db"
    "reserved_match db (org, si_id item, sr_id room) (reserved_qty b' - reserved_qty b)"
    by (rule posting_effect_books [OF assms(1-7)]) (rule that)
  then have "res_inv (s_working s')"
    unfolding res_inv_def using assms(8) reserved_match_0 [of db _ "(org, si_id item, sr_id room)"] by simp
  then show ?thesis using assms(1) by (simp add: posting_effect_def)
qed

lemma post_transaction_keeps_reserved:
  assumes "post_transaction env org item room ty quantity uom uc at_time rt ri notes c s = (Inr t, s')"
    and "s_pending s = []" "res_inv (s_working s)"
    and "find_row si_id (db_items (s_working s)) (si_id item) = Some item"
    and "ty \<noteq> RESERVATION_HOLD" "ty \<noteq> RESERVATION_RELEASE"
  shows "res_inv (s_working s') \<and> s_pending s' = []"
proof -
  have "s_pending s = map ReservationRow []" using assms(2) by simp
  then obtain b b' q cost eff where eff: "posting_effect org item room c [] s s' b b' t"
    and ty: "transaction_type t = ty" and pos: "normalize_positive_quantity quantity = Inr (st_quantity t)"
    and q: "convert_item_quantity item (st_quantity t) (st_uom t) (stock_uom item) = Inr q"
    and cost: "convert_item_unit_cost_to_stock item (st_unit_cost t) (st_uom t) = Inr cost"
    and b': "posted_balance item ty q cost eff b = Inr b'"
    by (rule post_transaction_effect [OF assms(1)])
  have nonneg: "0 \<le> q" "0 \<le> cost"
    using convert_quantity_pos [OF q normalize_positive_Inr [OF pos]] convert_cost_nonneg [OF cost] by simp_all
  have "signed_quantity item t = resolve_quantity_delta ty q"
    using q ty assms(5,6) by (simp add: signed_quantity_def)
  then show ?thesis
    using plain_posting_keeps [OF eff assms(3,4)] posted_balance_Inr [OF b'] posted_balance_ok [OF b' _ nonneg]
    by simp
qed

definition releases_nothing :: "rat option \<Rightarrow> bool" where
  "releases_nothing release \<longleftrightarrow> release \<in> {None, Some 0}"

lemma releases_nothing_convert:
  assumes "releases_nothing release"
    and "rbind (normalize_nonnegative_quantity release) (\<lambda>nr. convert_item_quantity item nr u v) = Inr r"
  shows "r = 0"
  using assms by (auto simp: releases_nothing_def normalize_nonnegative_quantity_def convert_item_quantity_def Let_def)

lemma signed_movement:
  assumes "convert_item_quantity item (st_quantity t) (st_uom t) (stock_uom item) = Inr q" "movement_type (transaction_type t)"
  shows "signed_quantity item t = (if incoming_movement (transaction_type t) then q else - q)"
  using assms movement_delta [OF assms(2)] by (auto simp: signed_quantity_def movement_type_def)

lemma moved_balance_keeps_ok:
  assumes "movement_quantities ty q r b = Inr quantities" "movement_costs item u uc b = Inr (ec, cost)"
    and "convert_item_quantity item qty u' v = Inr q" "normalize_positive_quantity quantity = Inr qty" "balance_ok b"
  shows "balance_ok (moved_balance item ty q quantities cost eff b)"
proof -
  have "0 < q" by (rule convert_quantity_pos [OF assms(3) normalize_positive_Inr [OF assms(4)]])
  moreover have "0 \<le> cost" using movement_costs_nonneg [OF assms(2)] assms(5) by (simp add: balance_ok_def)
  ultimately show ?thesis by (intro moved_balance_ok [OF assms(1,5)])
qed

lemma post_movement_keeps_reserved:
  assumes "post_movement_transaction env org item room ty quantity uom uc at_time release rt ri notes c s = (Inr t, s')"
    and "s_pending s = []" "res_inv (s_working s)"
    and "find_row si_id (db_items (s_working s)) (si_id item) = Some item"
    and "movement_type ty" "releases_nothing release"
  shows "res_inv (s_working s') \<and> s_pending s' = [] \<and> db_items (s_working s') = db_items (s_working s)"
proof -
  have "s_pending s = map ReservationRow []" using assms(2) by simp
  then obtain b q r quantities cost eff where
      eff: "posting_effect org item room c [] s s' b (moved_balance item ty q quantities cost eff b) t"
    and ty: "transaction_type t = ty" and pos: "normalize_positive_quantity quantity = Inr (st_quantity t)"
    and q: "convert_item_quantity item (st_quantity t) (st_uom t) (stock_uom item) = Inr q"
    and r: "rbind (normalize_nonnegative_quantity release)
           (\<lambda>nr. convert_item_quantity item nr (st_uom t) (stock_uom item)) = Inr r"
    and mq: "movement_quantities ty q r b = Inr quantities"
    and mc: "movement_costs item (st_uom t) uc b = Inr (st_unit_cost t, cost)"
    by (rule post_movement_effect [OF assms(1)])
  have r0: "r = 0" by (rule releases_nothing_convert [OF assms(6) r])
  have "signed_quantity item t = (if incoming_movement ty then q else - q)"
    using signed_movement [OF q] ty assms(5) by simp
  then have "res_inv (s_working s') \<and> s_pending s' = []"
    using moved_balance_fields [OF mq, of item cost eff] r0
    by (intro plain_posting_keeps [OF eff assms(3,4)] impI moved_balance_keeps_ok [OF mq mc q pos]) simp_all
  moreover have "db_items (s_working s') = db_items (s_working s)"
    using posting_effect_master [OF eff] by (simp add: master_data_def)
  ultimately show ?thesis by simp
qed

section \<open>The reservation operations\<close>

lemma get_reservation_Inr:
  assumes "get_reservation env i s = (Inr r, s')"
  shows "s' = s \<and> r \<in> set (db_reservations (s_working s)) \<and> rv_id r = i \<and>
    db_active_org (s_working s) = Some (rv_organization_id r)"
  using assms unfolding get_reservation_def
  by (auto simp: require_perm_def dest: find_row_Some split: option.splits if_splits)

lemma prepare_reservation_Inr:
  assumes "prepare_reservation env i room q u nb sty sid nts s = (Inr r, s')"
  shows "reservation_open r \<and> reservation_ok r \<and> db_active_org (s_working s) = Some (rv_organization_id r)"
  using assms unfolding prepare_reservation_def Let_def ensure_same_scope_def require_perm_def
  by (auto simp: create_reservation_row_def reservation_open_def reservation_ok_def
      dest!: get_item_Inr get_storeroom_Inr dest: normalize_positive_Inr normalize_uom_idem)

lemma stock_position_facts:
  assumes "stock_position env i r s = (Inr (org, item, room), s0)"
  shows "find_row si_id (db_items (s_working s)) (si_id item) = Some item \<and> si_id item = i \<and> sr_id room = r \<and>
    db_active_org (s_working s) = Some org"
  using stock_position_Inr [OF assms] by (auto simp: item_in_scope_def)

lemma normalize_positive_Some: "normalize_positive_quantity (Some q) = Inr q' \<longleftrightarrow> 0 < q \<and> q' = q"
  by (auto simp: normalize_positive_quantity_def)

lemma normalize_nonnegative_Some: "normalize_nonnegative_quantity (Some q) = Inr q' \<longleftrightarrow> 0 \<le> q \<and> q' = q"
  by (auto simp: normalize_nonnegative_quantity_def)

lemma uom_or_stock_Some: "normalize_uom (Some u) = Inr u \<Longrightarrow> uom_or_stock item (Some u) = u"
  using normalize_uom_idem [of "Some u" u] by (simp add: uom_or_stock_def)

lemma held_amount_open:
  "reservation_open r \<Longrightarrow> find_row si_id items (rv_stock_item_id r) = Some item \<Longrightarrow>
     convert_item_quantity item (remaining_qty r) (rv_uom r) (stock_uom item) = Inr q \<Longrightarrow> held_amount items r = q"
  by (simp add: held_amount_def)

lemma hold_signed:
  "convert_item_quantity item (st_quantity t) (st_uom t) (stock_uom item) = Inr q \<Longrightarrow>
     transaction_type t = RESERVATION_HOLD \<or> transaction_type t = RESERVATION_RELEASE \<Longrightarrow> signed_quantity item t = 0"
  by (auto simp: signed_quantity_def)

lemma books_add:
  assumes "books_ok db" "reservation_ok r" "rv_id r \<notin> rv_id ` set (db_reservations db)"
    and "rv_position r \<in> position ` set (db_balances db)"
  shows "books_ok (with_reservations [r] db)"
  using assms by (auto simp: books_ok_def)

lemma create_body_keeps:
  assumes "create_body env r s = (Inr t, s')" "clean s" "res_inv (s_working s)"
    and r: "reservation_open r" "reservation_ok r" "db_active_org (s_working s) = Some (rv_organization_id r)"
  shows "res_inv (s_working s') \<and> s_pending s' = []"
proof -
  let ?s = "s\<lparr>s_pending := [ReservationRow r]\<rparr>"
  have hold: "hold_reservation env (rv_stock_item_id r) (rv_storeroom_id r) (Some (remaining_qty r)) (Some (rv_uom r)) None
       ''inventory_reservation'' (rv_id r) (rv_notes r) False ?s = (Inr t, s')"
    using assms(1,2) by (simp add: create_body_def clean_def)
  obtain org item room b b' q eff where
      pos: "stock_position env (rv_stock_item_id r) (rv_storeroom_id r) ?s = (Inr (org, item, room), ?s)"
    and eff: "posting_effect org item room False [r] ?s s' b b' t" and ty: "transaction_type t = RESERVATION_HOLD"
    and qty: "normalize_positive_quantity (Some (remaining_qty r)) = Inr (st_quantity t)"
    and uom: "normalize_uom (Some (uom_or_stock item (Some (rv_uom r)))) = Inr (st_uom t)"
    and q: "convert_item_quantity item (st_quantity t) (st_uom t) (stock_uom item) = Inr q"
    and b': "reserved_balance item RESERVATION_HOLD q eff b = Inr b'"
    by (rule hold_parts [OF hold, of "[r]"]) (simp, rule that)
  have item: "find_row si_id (db_items (s_working s)) (si_id item) = Some item" "si_id item = rv_stock_item_id r"
      "sr_id room = rv_storeroom_id r" "org = rv_organization_id r"
    using stock_position_facts [OF pos] r(3) by auto
  have "normalize_uom (Some (rv_uom r)) = Inr (rv_uom r)" using r(2) by (simp add: reservation_ok_def)
  then have t: "st_quantity t = remaining_qty r" "st_uom t = rv_uom r"
    using qty uom by (simp_all add: normalize_positive_Some uom_or_stock_Some)
  have held: "held_amount (db_items (s_working s)) r = q"
    using q t item by (intro held_amount_open [OF r(1), of _ item]) simp_all
  have w: "s_working ?s = s_working s" by simp
  obtain db where db: "s_working s' = with_reservations [r] db" "stock_inv db" "books_ok db"
    "db_items db = db_items (s_working s)" "db_reservations db = db_reservations (s_working s)"
    "reserved_match db (org, si_id item, sr_id room) (reserved_qty b' - reserved_qty b)"
    "(org, si_id item, sr_id room) \<in> position ` set (db_balances db)"
    by (rule posting_effect_books [OF eff, unfolded w, OF assms(3) item(1)])
      (use reserved_balance_Inr [OF b'] reserved_balance_ok [OF b'] hold_signed [OF q] ty that in auto)
  have rpos: "rv_position r = (org, si_id item, sr_id room)" using item by (simp add: rv_position_def)
  have "rv_id r \<notin> rv_id ` set (db_reservations db)"
    using eff db(5) by (auto simp: posting_effect_def list_ex_iff split: if_splits)
  then have "books_ok (with_reservations [r] db)"
    using db(3,7) r(2) rpos by (intro books_add) simp_all
  moreover have "reserved_match (with_reservations [r] db) p 0" for p
    using db(4,6) rpos held reserved_balance_Inr [OF b'] by (intro add_match) simp
  ultimately show ?thesis
    using db(1,2) eff by (simp add: res_inv_def posting_effect_def)
qed

lemma held_amount_version [simp]: "held_amount items (r\<lparr>rv_version := v\<rparr>) = held_amount items r"
  by (simp add: held_amount_def reservation_open_def split: option.split)

lemma reservation_version [simp]:
  "reservation_ok (r\<lparr>rv_version := v\<rparr>) = reservation_ok r" "rv_position (r\<lparr>rv_version := v\<rparr>) = rv_position r"
  "reservation_open (r\<lparr>rv_version := v\<rparr>) = reservation_open r"
  by (simp_all add: reservation_ok_def rv_position_def reservation_open_def)

lemma books_with_row:
  assumes "books_ok db" "reservation_ok r'" "rv_position r' \<in> position ` set (db_balances db)"
  shows "books_ok (with_row r' db)"
proof -
  have "x = r' \<or> x \<in> set (db_reservations db)" if "x \<in> set (replace_row rv_id r' (db_reservations db))" for x
    using subsetD [OF set_replace_row that] by blast
  then show ?thesis
    using assms unfolding books_ok_def with_row_def by auto
qed

lemma update_after_posting:
  assumes "stock_inv db" "books_ok db" "reserved_match db (rv_position r) d"
    and "d = held_amount (db_items db) r' - held_amount (db_items db) r"
    and "r \<in> set (db_reservations db)" "rv_id r' = rv_id r" "rv_position r' = rv_position r"
    and "reservation_open r" "reservation_ok r'"
    and "update_reservation r' s1 = (Inr saved, s')" "s_working s1 = db" "s_pending s1 = []"
  shows "res_inv (s_working s') \<and> s_pending s' = []"
proof -
  let ?saved = "r'\<lparr>rv_version := rv_version r' + 1\<rparr>"
  have s': "s_working s' = with_row ?saved db" "s_pending s' = []"
    using assms(10-12) by (auto simp: update_reservation_Inr)
  have "rv_position r' \<in> position ` set (db_balances db)"
    using assms(2,5,7,8) by (simp add: books_ok_def)
  then have "books_ok (with_row ?saved db)"
    using assms(2,9) by (intro books_with_row) simp_all
  moreover have "reserved_match (with_row ?saved db) p 0" for p
    using assms(2) by (intro row_match [OF assms(3) _ _ assms(5)]) (simp_all add: assms(4,6,7) books_ok_def)
  ultimately show ?thesis using s' assms(1) by (simp add: res_inv_def)
qed

lemma convert_any:
  "convert_item_quantity item q u v = Inr r \<Longrightarrow> \<exists>r'. convert_item_quantity item q' u v = Inr r'"
  by (auto simp: convert_item_quantity_def Let_def)

lemma close_body_keeps:
  assumes "close_body env nts r r' s = (Inr x, s')" "s_pending s = []" "res_inv (s_working s)"
    and r: "reservation_open r" "r \<in> set (db_reservations (s_working s))"
    and org: "db_active_org (s_working s) = Some (rv_organization_id r)"
    and r': "rv_id r' = rv_id r" "rv_position r' = rv_position r" "reservation_ok r'" "\<not> reservation_open r'"
  shows "res_inv (s_working s') \<and> s_pending s' = []"
proof -
  obtain t s1 where rel: "release_reservation env (rv_stock_item_id r) (rv_storeroom_id r) (Some (remaining_qty r))
        (Some (rv_uom r)) (Some (e_now env)) ''inventory_reservation'' (rv_id r) (text_or nts (rv_notes r)) False s = (Inr t, s1)"
    and up: "obind (update_reservation r') (\<lambda>saved. oret (t, saved)) s1 = (Inr x, s')"
    using assms(1) unfolding close_body_def obind_Inr by blast
  have "s_pending s = map ReservationRow []" using assms(2) by simp
  then obtain org' item room b b' q eff where
      pos: "stock_position env (rv_stock_item_id r) (rv_storeroom_id r) s = (Inr (org', item, room), s)"
    and eff: "posting_effect org' item room False [] s s1 b b' t" and ty: "transaction_type t = RESERVATION_RELEASE"
    and qty: "normalize_positive_quantity (Some (remaining_qty r)) = Inr (st_quantity t)"
    and uom: "normalize_uom (Some (uom_or_stock item (Some (rv_uom r)))) = Inr (st_uom t)"
    and q: "convert_item_quantity item (st_quantity t) (st_uom t) (stock_uom item) = Inr q"
    and b': "reserved_balance item RESERVATION_RELEASE q eff b = Inr b'"
    by (rule release_parts [OF rel]) (rule that)
  have item: "find_row si_id (db_items (s_working s)) (si_id item) = Some item" "si_id item = rv_stock_item_id r"
      "sr_id room = rv_storeroom_id r" "org' = rv_organization_id r"
    using stock_position_facts [OF pos] org by auto
  have "reservation_ok r" using assms(3) r(2) by (simp add: res_inv_def books_ok_def)
  then have t: "st_quantity t = remaining_qty r" "st_uom t = rv_uom r"
    using qty uom by (auto simp: reservation_ok_def normalize_positive_Some uom_or_stock_Some)
  have held: "held_amount (db_items (s_working s)) r = q"
    using q t item by (intro held_amount_open [OF r(1), of _ item]) simp_all
  obtain db where db: "s_working s1 = with_reservations [] db" "stock_inv db" "books_ok db"
    "db_items db = db_items (s_working s)" "db_reservations db = db_reservations (s_working s)"
    "reserved_match db (org', si_id item, sr_id room) (reserved_qty b' - reserved_qty b)"
    by (rule posting_effect_books [OF eff assms(3) item(1)])
      (use reserved_balance_Inr [OF b'] reserved_balance_ok [OF b'] hold_signed [OF q] ty that in auto)
  have m: "reserved_match db (rv_position r) (- q)"
    using db(6) item reserved_balance_Inr [OF b'] by (simp add: rv_position_def)
  obtain saved where up': "update_reservation r' s1 = (Inr saved, s')" using up by auto
  have s1: "s_pending s1 = []" using eff by (simp add: posting_effect_def)
  show ?thesis
    by (rule update_after_posting [OF db(2,3) m _ _ r'(1,2) r(1) r'(3) up' _ s1])
      (use held r r'(4) db in \<open>simp_all add: held_amount_def [of _ r']\<close>)
qed

lemma issued_reservation_books:
  assumes "reservation_open r" "reservation_ok r" "0 < q" "q \<le> remaining_qty r"
  shows "reservation_ok (issued_reservation r q nts)"
    and "reservation_open (issued_reservation r q nts) \<longleftrightarrow> q < remaining_qty r"
    and "rv_id (issued_reservation r q nts) = rv_id r"
    and "rv_position (issued_reservation r q nts) = rv_position r"
  using assms
  by (auto simp: issued_reservation_def Let_def reservation_ok_def reservation_open_def rv_position_def max_def)

lemma held_issued:
  assumes r: "reservation_open r" "reservation_ok r" "0 < q" "q \<le> remaining_qty r"
    and item: "find_row si_id items (rv_stock_item_id r) = Some item"
    and conv: "convert_item_quantity item q (rv_uom r) (stock_uom item) = Inr sq"
  shows "held_amount items (issued_reservation r q nts) - held_amount items r = - sq"
proof -
  obtain rq where rq: "convert_item_quantity item (remaining_qty r) (rv_uom r) (stock_uom item) = Inr rq"
    using convert_any [OF conv] by blast
  have held: "held_amount items r = rq" by (rule held_amount_open [OF r(1) item rq])
  show ?thesis
  proof (cases "q < remaining_qty r")
    case True
    have "held_amount items (issued_reservation r q nts) = rq - sq"
    proof (rule held_amount_open)
      show "reservation_open (issued_reservation r q nts)" using issued_reservation_books(2) [OF r] True by simp
      show "find_row si_id items (rv_stock_item_id (issued_reservation r q nts)) = Some item"
        using item by (simp add: issued_reservation_def Let_def)
      show "convert_item_quantity item (remaining_qty (issued_reservation r q nts)) (rv_uom (issued_reservation r q nts))
          (stock_uom item) = Inr (rq - sq)"
        using convert_quantity_diff [OF rq conv] True by (simp add: issued_reservation_def Let_def)
    qed
    then show ?thesis using held by simp
  next
    case False
    then have "rq = sq" using rq conv r(4) by (simp add: antisym)
    moreover have "\<not> reservation_open (issued_reservation r q nts)"
      using issued_reservation_books(2) [OF r] False by simp
    ultimately show ?thesis using held by (simp add: held_amount_def)
  qed
qed

lemma issue_body_keeps:
  assumes "issue_body env nts r iq (issued_reservation r iq nts') s = (Inr x, s')"
    and "s_pending s = []" "res_inv (s_working s)"
    and r: "reservation_open r" "r \<in> set (db_reservations (s_working s))" "0 < iq" "iq \<le> remaining_qty r"
    and org: "db_active_org (s_working s) = Some (rv_organization_id r)"
  shows "res_inv (s_working s') \<and> s_pending s' = []"
proof -
  let ?r = "issued_reservation r iq nts'"
  obtain t s1 where iss: "issue_stock env (rv_stock_item_id r) (rv_storeroom_id r) (Some iq) (Some (rv_uom r)) None
        (Some (e_now env)) (Some iq) ''inventory_reservation'' (rv_id r) (text_or nts (rv_notes r)) False s = (Inr t, s1)"
    and up: "obind (update_reservation ?r) (\<lambda>saved. oret (t, saved)) s1 = (Inr x, s')"
    using assms(1) unfolding issue_body_def obind_Inr by blast
  have "s_pending s = map ReservationRow []" using assms(2) by simp
  then obtain org' item room b q rel quantities cost eff where
      pos: "stock_position env (rv_stock_item_id r) (rv_storeroom_id r) s = (Inr (org', item, room), s)"
    and eff: "posting_effect org' item room False [] s s1 b (moved_balance item ISSUE q quantities cost eff b) t"
    and ty: "transaction_type t = ISSUE"
    and qty: "normalize_positive_quantity (Some iq) = Inr (st_quantity t)"
    and uom: "normalize_uom (Some (uom_or_stock item (Some (rv_uom r)))) = Inr (st_uom t)"
    and q: "convert_item_quantity item (st_quantity t) (st_uom t) (stock_uom item) = Inr q"
    and rel: "rbind (normalize_nonnegative_quantity (Some iq))
           (\<lambda>nr. convert_item_quantity item nr (st_uom t) (stock_uom item)) = Inr rel"
    and mq: "movement_quantities ISSUE q rel b = Inr quantities"
    and mc: "movement_costs item (st_uom t) None b = Inr (st_unit_cost t, cost)"
    by (rule issue_parts [OF iss]) (rule that)
  have item: "find_row si_id (db_items (s_working s)) (si_id item) = Some item" "si_id item = rv_stock_item_id r"
      "sr_id room = rv_storeroom_id r" "org' = rv_organization_id r"
    using stock_position_facts [OF pos] org by auto
  have ok: "reservation_ok r" using assms(3) r(2) by (simp add: res_inv_def books_ok_def)
  have t: "st_quantity t = iq" "st_uom t = rv_uom r"
    using qty uom ok by (auto simp: reservation_ok_def normalize_positive_Some uom_or_stock_Some)
  have rel_q: "rel = q" using rel q t by (auto simp: normalize_nonnegative_Some)
  note r' = issued_reservation_books [OF r(1) ok r(3,4), of nts']
  note fields = moved_balance_fields [OF mq, of item cost eff]
  let ?b = "moved_balance item ISSUE q quantities cost eff b"
  have same: "position ?b = position b" "sb_id ?b = sb_id b" using fields by simp_all
  have b_ok: "balance_ok b \<longrightarrow> balance_ok ?b" using moved_balance_keeps_ok [OF mq mc q qty] by blast
  have on_hand: "on_hand_qty ?b = on_hand_qty b + signed_quantity item t"
    using signed_movement [OF q] ty fields by (simp add: movement_type_def incoming_movement_def)
  obtain db where db: "s_working s1 = with_reservations [] db" "stock_inv db" "books_ok db"
    "db_items db = db_items (s_working s)" "db_reservations db = db_reservations (s_working s)"
    "reserved_match db (org', si_id item, sr_id room)
      (reserved_qty ?b - reserved_qty b)"
    by (rule posting_effect_books [OF eff assms(3) item(1) same b_ok on_hand]) (rule that)
  have m: "reserved_match db (rv_position r) (- q)"
    using db(6) item fields rel_q by (simp add: rv_position_def)
  have held: "held_amount (db_items db) ?r - held_amount (db_items db) r = - q"
    using item q t db(4) by (intro held_issued [OF r(1) ok r(3,4), of _ item]) simp_all
  obtain saved where up': "update_reservation ?r s1 = (Inr saved, s')" using up by auto
  have s1: "s_pending s1 = []" using eff by (simp add: posting_effect_def)
  show ?thesis
    by (rule update_after_posting [OF db(2,3) m _ _ r'(3,4) r(1) r'(1) up' _ s1])
      (use held r db in simp_all)
qed

section \<open>Reachable states\<close>

text \<open>
  One call of the reservation service, or one of stock control that neither holds nor releases
  stock by itself. Left out are stock control's \<open>hold_reservation\<close> and \<open>release_reservation\<close> and
  an issue with a released quantity: they change the reserved quantity of a balance without a
  reservation to account for it, and the source makes them from the reservation service only.
\<close>

inductive inventory_step :: "inv_op_state \<Rightarrow> inv_op_state \<Rightarrow> bool" where
  opening_: "post_opening_balance env i r q u c at_time nts True s = (res, s') \<Longrightarrow> inventory_step s s'"
| adjustment: "post_adjustment env i r q dir u c at_time rt ri nts True s = (res, s') \<Longrightarrow> inventory_step s s'"
| issue: "issue_stock env i r q u oc at_time rel rt ri nts True s = (res, s') \<Longrightarrow> releases_nothing rel \<Longrightarrow> inventory_step s s'"
| return_: "return_stock env i r q u oc at_time rt ri nts True s = (res, s') \<Longrightarrow> inventory_step s s'"
| transfer: "transfer_stock env i a b q u at_time nts s = (res2, s') \<Longrightarrow> inventory_step s s'"
| reserve: "create_reservation env i room q u nb sty sid nts s = (res3, s') \<Longrightarrow> inventory_step s s'"
| issue_reserved: "issue_reserved_stock env ri q nts s = (res3, s') \<Longrightarrow> inventory_step s s'"
| release: "release_stock_reservation env ri nts s = (res3, s') \<Longrightarrow> inventory_step s s'"
| cancel: "cancel_stock_reservation env ri nts s = (res3, s') \<Longrightarrow> inventory_step s s'"

text \<open>The shared prologue of the single-storeroom operations.\<close>

lemma after_stock_position:
  assumes "obind (stock_position env i r) f s = (Inr t, s')"
  obtains org item room where "f (org, item, room) s = (Inr t, s')"
    and "find_row si_id (db_items (s_working s)) (si_id item) = Some item"
proof -
  obtain x u where "stock_position env i r s = (Inr x, u)" "f x u = (Inr t, s')"
    using assms unfolding obind_Inr by blast
  moreover obtain org item room where "x = (org, item, room)" by (cases x)
  ultimately show ?thesis
    using stock_position_Inr [of env i r s org item room u] position_item [of "s_working s" org item] that by simp
qed

lemma plain_opening:
  assumes "post_opening_balance env i r q u c at_time nts dc s = (Inr t, s')" "s_pending s = []" "res_inv (s_working s)"
  shows "res_inv (s_working s') \<and> s_pending s' = []"
  using assms(1) unfolding post_opening_balance_def
proof (rule after_stock_position)
  fix org item room
  assume run: "(case (org, item, room) of (org, item, room) \<Rightarrow>
      obind (oget (\<lambda>s. filter (\<lambda>t. st_organization_id t = org \<and> st_stock_item_id t = si_id item \<and>
                                   st_storeroom_id t = sr_id room) (db_transactions (s_working s)))) (\<lambda>existing.
      obind (oguard (existing \<noteq> []) (ValidationError ''INVENTORY_OPENING_BALANCE_EXISTS'')) (\<lambda>_.
      post_transaction env org item room OPENING_BALANCE q u c at_time ''opening_balance'' [] nts dc))) s = (Inr t, s')"
    and item: "find_row si_id (db_items (s_working s)) (si_id item) = Some item"
  from run have "post_transaction env org item room OPENING_BALANCE q u c at_time ''opening_balance'' [] nts dc s = (Inr t, s')"
    by simp
  from post_transaction_keeps_reserved [OF this assms(2,3) item] show ?thesis by simp
qed

lemma plain_adjustment:
  assumes "post_adjustment env i r q dir u c at_time rt ri nts dc s = (Inr t, s')" "s_pending s = []" "res_inv (s_working s)"
  shows "res_inv (s_working s') \<and> s_pending s' = []"
  using assms(1) unfolding post_adjustment_def
proof (rule after_stock_position)
  fix org item room
  assume run: "(case (org, item, room) of (org, item, room) \<Rightarrow>
      (let normalized_direction = py_upper (normalize_optional_text (Some dir)) in
      obind (oguard (normalized_direction \<notin> {''INCREASE'', ''DECREASE''})
               (ValidationError ''INVENTORY_ADJUSTMENT_DIRECTION_INVALID'')) (\<lambda>_.
      post_transaction env org item room
        (if normalized_direction = ''INCREASE'' then ADJUSTMENT_INCREASE else ADJUSTMENT_DECREASE)
        q u c at_time rt ri nts dc))) s = (Inr t, s')"
    and item: "find_row si_id (db_items (s_working s)) (si_id item) = Some item"
  define ty where "ty = (if py_upper (normalize_optional_text (Some dir)) = ''INCREASE'' then ADJUSTMENT_INCREASE
      else ADJUSTMENT_DECREASE)"
  from run have "post_transaction env org item room ty q u c at_time rt ri nts dc s = (Inr t, s')"
    by (simp only: prod.case Let_def obind_Inr oguard_Inr ty_def) blast
  from post_transaction_keeps_reserved [OF this assms(2,3) item] show ?thesis by (simp add: ty_def)
qed

lemma plain_issue:
  assumes "issue_stock env i r q u oc at_time rel rt ri nts dc s = (Inr t, s')" "releases_nothing rel"
    and "s_pending s = []" "res_inv (s_working s)"
  shows "res_inv (s_working s') \<and> s_pending s' = []"
  using assms(1) unfolding issue_stock_def
proof (rule after_stock_position)
  fix org item room
  assume run: "(case (org, item, room) of (org, item, room) \<Rightarrow>
     obind (oguard (\<not> allows_issue room) (ValidationError ''INVENTORY_ISSUE_FORBIDDEN'')) (\<lambda>_.
     obind (oguard (requires_reservation_for_issue room \<and> (case rel of None \<Rightarrow> 0 | Some r \<Rightarrow> r) \<le> 0)
              (ValidationError ''INVENTORY_ISSUE_RESERVATION_REQUIRED'')) (\<lambda>_.
     post_movement_transaction env org item room ISSUE q u oc at_time rel rt ri nts dc))) s = (Inr t, s')"
    and item: "find_row si_id (db_items (s_working s)) (si_id item) = Some item"
  from run have "post_movement_transaction env org item room ISSUE q u oc at_time rel rt ri nts dc s = (Inr t, s')"
    by (simp only: prod.case obind_Inr oguard_Inr) blast
  from post_movement_keeps_reserved [OF this assms(3,4) item _ assms(2)] show ?thesis by (simp add: movement_type_def)
qed

lemma plain_return:
  assumes "return_stock env i r q u oc at_time rt ri nts dc s = (Inr t, s')" "s_pending s = []" "res_inv (s_working s)"
  shows "res_inv (s_working s') \<and> s_pending s' = []"
  using assms(1) unfolding return_stock_def
proof (rule after_stock_position)
  fix org item room
  assume run: "(case (org, item, room) of (org, item, room) \<Rightarrow>
     post_movement_transaction env org item room RETURN q u oc at_time (Some 0) rt ri nts dc) s = (Inr t, s')"
    and item: "find_row si_id (db_items (s_working s)) (si_id item) = Some item"
  from run have "post_movement_transaction env org item room RETURN q u oc at_time (Some 0) rt ri nts dc s = (Inr t, s')"
    by simp
  from post_movement_keeps_reserved [OF this assms(2,3) item] show ?thesis
    by (simp add: movement_type_def releases_nothing_def)
qed

lemma transfer_keeps_reserved:
  assumes "transfer_stock env i a b q u at_time nts s = (Inr (outbound, inbound), s')"
    and "s_pending s = []" "res_inv (s_working s)"
  shows "res_inv (s_committed s')"
proof -
  obtain org item source destination eff ref s1 s2 s3 where
      item: "item_in_scope (s_working s) org item"
    and s1: "s_working s1 = s_working s" "s_pending s1 = s_pending s"
    and out: "post_movement_transaction env org item source TRANSFER_OUT q u None (Some eff) (Some 0)
           ''stock_transfer'' ref nts False s1 = (Inr outbound, s2)"
    and inb: "post_movement_transaction env org item destination TRANSFER_IN q u (Some (st_unit_cost outbound)) (Some eff)
           (Some 0) ''stock_transfer'' ref nts False s2 = (Inr inbound, s3)"
    and com: "s_pending s3 = [] \<longrightarrow> s_committed s' = s_working s3"
    by (rule transfer_parts [OF assms(1)])
  have find1: "find_row si_id (db_items (s_working s1)) (si_id item) = Some item"
    using position_item [OF item] s1 by simp
  have s2: "res_inv (s_working s2)" "s_pending s2 = []" "find_row si_id (db_items (s_working s2)) (si_id item) = Some item"
    using post_movement_keeps_reserved [OF out _ _ find1] s1 assms(2,3) find1
    by (simp_all add: movement_type_def releases_nothing_def)
  then show ?thesis
    using post_movement_keeps_reserved [OF inb s2(2,1,3)] com by (simp add: movement_type_def releases_nothing_def)
qed

lemma call_keeps_reserved:
  assumes "unit_of_work m" "clean s" "res_inv (s_committed s)" "m s = (r, s')"
    and "\<And>x. m s = (Inr x, s') \<Longrightarrow> res_inv (s_working s')"
  shows "clean s' \<and> res_inv (s_committed s')"
proof -
  have c: "clean s'" by (rule unit_of_work.always_clean [OF assms(1,2,4)])
  have "res_inv (s_committed s')"
  proof (rule unit_of_work.keeps_committed [where P = res_inv, OF assms(1-4)])
    fix x assume "m s = (Inr x, s')"
    from assms(5) [OF this] show "res_inv (s_committed s')" using c by (simp add: clean_def)
  qed
  then show ?thesis using c by blast
qed

lemma reservation_call_keeps:
  assumes "readable_after env res body" "wrap = try_rollback \<or> wrap = try_integrity err" "clean s"
    and "obind (wrap (committing inv_insert body)) (\<lambda>x.
      obind (announce_reservation env action (res x) (txn x)) (\<lambda>_. oret (k x))) s = (Inr y, t)"
    and keeps: "\<And>x s'. body s = (Inr x, s') \<Longrightarrow> res_inv (s_working s') \<and> s_pending s' = []"
  shows "res_inv (s_working t)"
proof -
  obtain x u where com: "committing inv_insert body s = (Inr x, u)"
    and tail: "obind (announce_reservation env action (res x) (txn x)) (\<lambda>_. oret (k x)) u = (Inr y, t)"
    using assms(2,4) unfolding obind_Inr by (elim exE conjE disjE) simp_all
  obtain s' where "body s = (Inr x, s')" "commit inv_insert s' = (Inr (), u)"
    using com by (auto simp: committing_def)
  then have "res_inv (s_committed u)" using keeps by auto
  moreover have "clean t \<and> s_committed t = s_committed u"
    using committed_then_announced [where res = res and x = x and txn = txn and k = k, OF assms(1,3) com tail] by simp
  ultimately show ?thesis by (simp add: clean_def)
qed

end
