(* ===== verification/Inv_Reservation_Properties.thy ===== *)
theory Inv_Reservation_Properties
  imports Inv_Reserved
begin

text \<open>
  The properties of reservations: the reserved quantities of every reachable state, the books of
  every reservation, the atomicity of the calls, and what issuing reserved stock does to a balance.
\<close>

section \<open>Every step keeps the invariant\<close>

lemma create_reservation_keeps:
  assumes "create_reservation env i room q u nb sty sid nts s = (Inr r, t)" "clean s" "res_inv (s_working s)"
  shows "res_inv (s_working t)"
proof -
  obtain r0 s1 where prep: "prepare_reservation env i room q u nb sty sid nts s = (Inr r0, s1)"
    and run: "obind (try_integrity (\<lambda>_. ValidationError ''INVENTORY_RESERVATION_NUMBER_EXISTS'')
      (committing inv_insert (create_body env r0))) (\<lambda>txn.
      obind (announce_reservation env ''inventory_reservation.create'' r0 txn) (\<lambda>_. oret r0)) s1 = (Inr r, t)"
    using assms(1) unfolding create_reservation_def obind_Inr by blast
  have same: "s_working s1 = s_working s" "clean s1"
    using neutralD [OF neutral_prepare(2) prep] neutral_clean [OF neutral_prepare(2) prep] assms(2) by simp_all
  have r0: "reservation_open r0" "reservation_ok r0" "db_active_org (s_working s1) = Some (rv_organization_id r0)"
    using prepare_reservation_Inr [OF prep] same by simp_all
  have inv: "res_inv (s_working s1)" using assms(3) same by simp
  show ?thesis
    by (rule reservation_call_keeps [where res = "\<lambda>_. r0", OF readable_create disjI2 [OF refl] same(2) run])
      (rule create_body_keeps [OF _ same(2) inv r0])
qed

lemma issue_reserved_keeps:
  assumes "issue_reserved_stock env i q nts s = (Inr r, t)" "clean s" "res_inv (s_working s)"
  shows "res_inv (s_working t)"
proof -
  obtain r0 iq r' s1 where prep: "prepare_issue env i q nts s = (Inr (r0, iq, r'), s1)"
    and run: "obind (try_rollback (committing inv_insert (issue_body env nts r0 iq r')))
      (\<lambda>p. obind (announce_reservation env ''inventory_reservation.issue'' (snd p) (fst p)) (\<lambda>_. oret (snd p))) s1 = (Inr r, t)"
    using assms(1) unfolding issue_reserved_stock_def case_prod_beta obind_Inr by (metis prod.collapse)
  have same: "s_working s1 = s_working s" "clean s1"
    using neutralD [OF neutral_prepare(3) prep] neutral_clean [OF neutral_prepare(3) prep] assms(2) by simp_all
  have r': "r' = issued_reservation r0 iq (text_or nts (rv_notes r0))" "0 < iq" "iq \<le> remaining_qty r0" "reservation_open r0"
      "r0 \<in> set (db_reservations (s_working s1))" "db_active_org (s_working s1) = Some (rv_organization_id r0)"
    using prep same(1) unfolding prepare_issue_def require_perm_def
    by (auto simp: Let_def reservation_open_def dest!: get_reservation_Inr dest: normalize_positive_Inr)
  have inv: "res_inv (s_working s1)" and pend: "s_pending s1 = []" using assms(3) same by (simp_all add: clean_def)
  show ?thesis
    by (rule reservation_call_keeps [where res = snd, OF readable_issue [OF prepare_issue_position [OF prep]] disjI1 [OF refl] same(2) run])
      (rule issue_body_keeps [OF _ pend inv r'(4,5,2,3,6)], simp only: r'(1))
qed

lemma close_reservation_keeps:
  assumes "close_reservation env i st nts s = (Inr r, t)" "clean s" "res_inv (s_working s)"
    and st: "st \<in> {RES_RELEASED, RES_CANCELLED}"
  shows "res_inv (s_working t)"
proof -
  obtain r0 r' s1 where prep: "prepare_close env i st nts s = (Inr (r0, r'), s1)"
    and run: "obind (try_rollback (committing inv_insert (close_body env nts r0 r')))
      (\<lambda>p. obind (announce_reservation env (''inventory_reservation.'' @ py_lower (reservation_status_value st)) (snd p) (fst p))
        (\<lambda>_. oret (snd p))) s1 = (Inr r, t)"
    using assms(1) unfolding close_reservation_def case_prod_beta obind_Inr by (metis prod.collapse)
  have same: "s_working s1 = s_working s" "clean s1"
    using neutralD [OF neutral_prepare(4) prep] neutral_clean [OF neutral_prepare(4) prep] assms(2) by simp_all
  have r0: "r' = closed_reservation (e_now env) st (text_or nts (rv_notes r0)) r0" "reservation_open r0"
      "r0 \<in> set (db_reservations (s_working s1))" "db_active_org (s_working s1) = Some (rv_organization_id r0)"
    using prep same(1) unfolding prepare_close_def require_perm_def
    by (auto simp: Let_def reservation_open_def dest!: get_reservation_Inr)
  have inv: "res_inv (s_working s1)" and pend: "s_pending s1 = []" using assms(3) same by (simp_all add: clean_def)
  have ok: "reservation_ok r0" using inv r0(3) by (simp add: res_inv_def books_ok_def)
  have r': "rv_id r' = rv_id r0" "reservation_ok r'" "\<not> reservation_open r'"
    using ok st unfolding r0(1) by (auto simp: closed_reservation_def Let_def reservation_ok_def reservation_open_def)
  note pos = prepare_close_position [OF prep]
  show ?thesis
    by (rule reservation_call_keeps [where res = snd, OF readable_close [OF pos] disjI1 [OF refl] same(2) run])
      (rule close_body_keeps [OF _ pend inv r0(2-4) r'(1) pos r'(2,3)])
qed

lemma inventory_step_keeps:
  assumes "inventory_step s s'" "clean s" "res_inv (s_committed s)"
  shows "clean s' \<and> res_inv (s_committed s')"
proof -
  have pend: "s_pending s = []" and inv: "res_inv (s_working s)"
    using assms(2,3) by (simp_all add: clean_def)
  note keeps = call_keeps_reserved [OF _ assms(2,3)]
  show ?thesis
    using assms(1)
  proof cases
    case (opening_ env i r q u c at_time nts res)
    show ?thesis
      by (rule keeps [OF opening_call.unit_of_work_axioms opening_]) (use plain_opening [OF _ pend inv] in blast)
  next
    case (adjustment env i r q dir u c at_time rt ri nts res)
    show ?thesis
      by (rule keeps [OF adjustment_call.unit_of_work_axioms adjustment]) (use plain_adjustment [OF _ pend inv] in blast)
  next
    case (issue env i r q u oc at_time rel rt ri nts res)
    show ?thesis
      by (rule keeps [OF issue_call.unit_of_work_axioms issue(1)]) (use plain_issue [OF _ issue(2) pend inv] in blast)
  next
    case (return_ env i r q u oc at_time rt ri nts res)
    show ?thesis
      by (rule keeps [OF return_call.unit_of_work_axioms return_]) (use plain_return [OF _ pend inv] in blast)
  next
    case (transfer env i a b q u at_time nts res)
    have c: "clean s'" by (rule transfer_call.always_clean [OF assms(2) transfer])
    have "res_inv (s_committed s')"
    proof (cases res)
      case (Inl err)
      then show ?thesis using transfer transfer_call.failure_unchanged [OF assms(2)] assms(3) by metis
    next
      case (Inr p)
      then show ?thesis using transfer transfer_keeps_reserved [OF _ pend inv] by (cases p) blast
    qed
    then show ?thesis using c by blast
  next
    case (reserve env i room q u nb sty sid nts res)
    show ?thesis
      by (rule keeps [OF create_reservation_call.unit_of_work_axioms reserve]) (rule create_reservation_keeps [OF _ assms(2) inv])
  next
    case (issue_reserved env ri q nts res)
    show ?thesis
      by (rule keeps [OF issue_reserved_call.unit_of_work_axioms issue_reserved]) (rule issue_reserved_keeps [OF _ assms(2) inv])
  next
    case (release env ri nts res)
    show ?thesis
      by (rule keeps [OF close_reservation_call.unit_of_work_axioms release [unfolded release_stock_reservation_def]])
        (rule close_reservation_keeps [OF _ assms(2) inv], assumption, simp)
  next
    case (cancel env ri nts res)
    show ?thesis
      by (rule keeps [OF close_reservation_call.unit_of_work_axioms cancel [unfolded cancel_stock_reservation_def]])
        (rule close_reservation_keeps [OF _ assms(2) inv], assumption, simp)
  qed
qed

lemma inventory_reachable_keeps:
  assumes "inventory_step\<^sup>*\<^sup>* s s'" "clean s" "res_inv (s_committed s)"
  shows "clean s' \<and> res_inv (s_committed s')"
  using assms by (induction rule: rtranclp_induct) (use inventory_step_keeps in blast)+

section \<open>What issuing does to the balance\<close>

lemma reservation_call_parts:
  assumes "readable_after env res body" "wrap = try_rollback \<or> wrap = try_integrity err" "clean s"
    and "obind (wrap (committing inv_insert body)) (\<lambda>x.
      obind (announce_reservation env action (res x) (txn x)) (\<lambda>_. oret (k x))) s = (Inr y, t)"
  obtains x s' where "body s = (Inr x, s')" "y = k x" "s_committed t = s_working s'"
proof -
  obtain x u where com: "committing inv_insert body s = (Inr x, u)"
    and tail: "obind (announce_reservation env action (res x) (txn x)) (\<lambda>_. oret (k x)) u = (Inr y, t)"
    using assms(2,4) unfolding obind_Inr by (elim exE conjE disjE) simp_all
  obtain s' where b: "body s = (Inr x, s')" and c: "commit inv_insert s' = (Inr (), u)"
    using com by (auto simp: committing_def)
  have "s_pending s' = []" using assms(1,3) b unfolding readable_after_def by blast
  then have "s_committed u = s_working s'" using c by auto
  moreover have "s_committed t = s_committed u \<and> y = k x"
    using committed_then_announced [where res = res and x = x and txn = txn and k = k, OF assms(1,3) com tail] by simp
  ultimately show ?thesis using that [OF b] by simp
qed

lemma get_after_posting:
  assumes "stock_inv db" "get_for_stock_position org i r db = Some b" "position b' = position b" "sb_id b' = sb_id b"
  shows "get_for_stock_position org i r (apply_posting False b' t db) = Some (b'\<lparr>sb_version := sb_version b' + 1\<rparr>)"
proof -
  let ?b = "b'\<lparr>sb_version := sb_version b' + 1\<rparr>"
  have b: "b \<in> set (db_balances db)" "position b = (org, i, r)" using get_position(1) [OF assms(2)] by simp_all
  have uniq: "x = b" if "x \<in> set (db_balances db)" "position x = (org, i, r)" for x
    using that b assms(1) same_row [of position "db_balances db" x b] by (auto simp: stock_inv_def)
  have ids: "x = b" if "x \<in> set (db_balances db)" "sb_id x = sb_id b" for x
    using that b assms(1) same_row [of sb_id "db_balances db" x b] by (auto simp: stock_inv_def)
  have "find (\<lambda>x. position x = (org, i, r)) (replace_row sb_id ?b xs) = Some ?b"
    if "b \<in> set xs" "set xs \<subseteq> set (db_balances db)" for xs
    using that
  proof (induction xs)
    case (Cons x xs)
    show ?case
    proof (cases "sb_id x = sb_id b")
      case True
      then show ?thesis using assms(3,4) b(2) by (simp add: replace_row_def)
    next
      case False
      then have "position x \<noteq> (org, i, r)" "b \<in> set xs" using Cons.prems uniq [of x] by auto
      then show ?thesis using Cons False assms(4) by (simp add: replace_row_def)
    qed
  qed simp
  from this [OF b(1)] show ?thesis
    by (simp add: get_for_stock_position_def apply_posting_def position_def)
qed

section \<open>The properties\<close>

text \<open>
  C2: From empty tables, take any sequence of these calls, failed ones included: creating, issuing,
  releasing and cancelling reservations, and those calls of stock control that neither hold nor
  release stock by themselves, that is opening balances, adjustments, returns, transfers and
  issues with no released quantity. In every state they reach, the reserved quantity of every
  balance is exactly what the open reservations of its stock position still hold, converted to
  the item's stock unit. Stock control's own \<open>hold_reservation\<close> and \<open>release_reservation\<close> and
  an issue with a released quantity change the reserved quantity without a reservation; the
  source calls them from the reservation service only, and they are not steps of the sequence.
\<close>

theorem reserved_quantity_matches:
  assumes "inventory_step\<^sup>*\<^sup>* s0 s" and "clean s0" and "db_balances (s_committed s0) = []"
    and "db_transactions (s_committed s0) = []" and "db_reservations (s_committed s0) = []"
    and "b \<in> set (db_balances (s_committed s))"
  shows "reserved_qty b = held_quantity (s_committed s) (position b)"
proof -
  have "res_inv (s_committed s0)"
    using assms(3-5) by (simp add: res_inv_def stock_inv_def books_ok_def reserved_match_def)
  from inventory_reachable_keeps [OF assms(1,2) this] have "reserved_match (s_committed s) (position b) 0"
    unfolding res_inv_def by blast
  then show ?thesis using assms(6) by (simp add: reserved_match_def)
qed

text \<open>
  C36: The books of every reservation after any such sequence of calls: what has been issued never exceeds what
  was reserved; an active or partially issued reservation has the positive rest still to come,
  every other one nothing; a fully issued one has been issued completely.
\<close>

theorem reservation_books:
  assumes "inventory_step\<^sup>*\<^sup>* s0 s" and "clean s0" and "db_balances (s_committed s0) = []"
    and "db_transactions (s_committed s0) = []" and "db_reservations (s_committed s0) = []"
    and "r \<in> set (db_reservations (s_committed s))"
  shows "0 \<le> issued_qty r \<and> issued_qty r \<le> rv_reserved_qty r \<and>
    (if rv_status r \<in> {RES_ACTIVE, RES_PARTIALLY_ISSUED}
     then 0 < remaining_qty r \<and> issued_qty r + remaining_qty r = rv_reserved_qty r
     else remaining_qty r = 0) \<and>
    (rv_status r = RES_FULLY_ISSUED \<longrightarrow> issued_qty r = rv_reserved_qty r)"
proof -
  have "res_inv (s_committed s0)"
    using assms(3-5) by (simp add: res_inv_def stock_inv_def books_ok_def reserved_match_def)
  from inventory_reachable_keeps [OF assms(1,2) this] have "reservation_ok r"
    using assms(6) by (simp add: res_inv_def books_ok_def)
  then show ?thesis by (auto simp: reservation_ok_def reservation_open_def)
qed

text \<open>
  C37: The calls of the reservation service are atomic: when creating, issuing, releasing or
  cancelling raises, the tables are as they were before the call and nothing stays uncommitted.
\<close>

theorem reservation_failure_atomic:
  assumes "clean s"
    and "create_reservation env i room q u nb sty sid nts s = (Inl err, s') \<or>
      issue_reserved_stock env ri q nts s = (Inl err, s') \<or>
      release_stock_reservation env ri nts s = (Inl err, s') \<or>
      cancel_stock_reservation env ri nts s = (Inl err, s')"
  shows "s_committed s' = s_committed s \<and> s_working s' = s_committed s \<and> s_pending s' = []"
proof -
  have "clean s' \<and> s_committed s' = s_committed s"
    using assms(2) unfolding release_stock_reservation_def cancel_stock_reservation_def
    by (elim disjE) (rule create_reservation_call.failure_unchanged [OF assms(1)]
        issue_reserved_call.failure_unchanged [OF assms(1)]
        close_reservation_call.failure_unchanged [OF assms(1)], assumption)+
  then show ?thesis by (simp add: clean_def)
qed

text \<open>
  Issuing reserved stock takes the same positive amount off the on-hand and the reserved
  quantity of the balance at the reservation's position, so what is available to others does
  not change.
\<close>

theorem issue_reserved_keeps_available:
  assumes "clean s" and "res_inv (s_committed s)" and "issue_reserved_stock env ri q nts s = (Inr r, s')"
  shows "\<exists>b b'. get_for_stock_position (rv_organization_id r) (rv_stock_item_id r) (rv_storeroom_id r) (s_committed s) = Some b \<and>
    get_for_stock_position (rv_organization_id r) (rv_stock_item_id r) (rv_storeroom_id r) (s_committed s') = Some b' \<and>
    available_qty b' = available_qty b \<and> on_hand_qty b' < on_hand_qty b \<and>
    on_hand_qty b - on_hand_qty b' = reserved_qty b - reserved_qty b'"
proof -
  obtain r0 iq r' s1 where prep: "prepare_issue env ri q nts s = (Inr (r0, iq, r'), s1)"
    and run: "obind (try_rollback (committing inv_insert (issue_body env nts r0 iq r')))
      (\<lambda>p. obind (announce_reservation env ''inventory_reservation.issue'' (snd p) (fst p)) (\<lambda>_. oret (snd p))) s1 = (Inr r, s')"
    using assms(3) unfolding issue_reserved_stock_def case_prod_beta obind_Inr by (metis prod.collapse)
  have same: "s_working s1 = s_committed s" "clean s1"
    using neutralD [OF neutral_prepare(3) prep] neutral_clean [OF neutral_prepare(3) prep] assms(1) by (simp_all add: clean_def)
  note pos_eq = prepare_issue_position [OF prep]
  have act: "db_active_org (s_working s1) = Some (rv_organization_id r0)" "reservation_ok r0"
    using prep assms(1,2) same(1) unfolding prepare_issue_def require_perm_def
    by (auto simp: Let_def clean_def res_inv_def books_ok_def dest!: get_reservation_Inr)
  obtain x s2 where body: "issue_body env nts r0 iq r' s1 = (Inr x, s2)" and x: "r = snd x"
    and com: "s_committed s' = s_working s2"
    by (rule reservation_call_parts [where res = snd and k = snd, OF readable_issue [OF pos_eq] disjI1 [OF refl] same(2) run])
  obtain t s3 where iss: "issue_stock env (rv_stock_item_id r0) (rv_storeroom_id r0) (Some iq) (Some (rv_uom r0)) None
        (Some (e_now env)) (Some iq) ''inventory_reservation'' (rv_id r0) (text_or nts (rv_notes r0)) False s1 = (Inr t, s3)"
    and up: "obind (update_reservation r') (\<lambda>saved. oret (t, saved)) s3 = (Inr x, s2)"
    using body unfolding issue_body_def obind_Inr by blast
  have "s_pending s1 = map ReservationRow []" using same(2) by (simp add: clean_def)
  then obtain org' item room b sq rel quantities cost eff where
      pos: "stock_position env (rv_stock_item_id r0) (rv_storeroom_id r0) s1 = (Inr (org', item, room), s1)"
    and eff: "posting_effect org' item room False [] s1 s3 b (moved_balance item ISSUE sq quantities cost eff b) t"
    and qty: "normalize_positive_quantity (Some iq) = Inr (st_quantity t)"
    and sq: "convert_item_quantity item (st_quantity t) (st_uom t) (stock_uom item) = Inr sq"
    and rel: "rbind (normalize_nonnegative_quantity (Some iq))
           (\<lambda>nr. convert_item_quantity item nr (st_uom t) (stock_uom item)) = Inr rel"
    and mq: "movement_quantities ISSUE sq rel b = Inr quantities"
    by (rule issue_parts [OF iss]) (rule that)
  let ?b = "moved_balance item ISSUE sq quantities cost eff b"
  have "rel = sq" using rel qty sq by (auto simp: normalize_nonnegative_Some normalize_positive_Some)
  moreover have "0 < sq" by (rule convert_quantity_pos [OF sq normalize_positive_Inr [OF qty]])
  moreover note fields = moved_balance_fields [OF mq, of item cost eff]
  ultimately have change: "on_hand_qty ?b = on_hand_qty b - sq" "reserved_qty ?b = reserved_qty b - sq" "0 < sq"
      "available_qty ?b = on_hand_qty b - reserved_qty b" "0 \<le> on_hand_qty ?b"
    by (simp_all add: incoming_movement_def)
  obtain n where n: "starts_from (s_working s1) org' item room b n" "s_working s3 = apply_posting n ?b t (s_working s1)"
    using eff by (auto simp: posting_effect_def)
  have inv: "stock_inv (s_working s1)" using assms(2) same(1) by (simp add: res_inv_def)
  have "\<not> n"
    using n(1) change(1,3,5) by (auto simp: starts_from_def create_balance_def)
  then have old: "get_for_stock_position org' (si_id item) (sr_id room) (s_working s1) = Some b"
    using n(1) by (simp add: starts_from_def)
  have new: "get_for_stock_position org' (si_id item) (sr_id room) (s_working s3) = Some (?b\<lparr>sb_version := sb_version ?b + 1\<rparr>)"
    using get_after_posting [OF inv old] fields n(2) \<open>\<not> n\<close> by simp
  obtain saved where "update_reservation r' s3 = (Inr saved, s2)" and r: "r = saved" using up x by auto
  then have upd: "r = r'\<lparr>rv_version := rv_version r' + 1\<rparr>" "s_working s2 = with_row r (s_working s3)"
    by (auto simp: update_reservation_Inr)
  have final: "get_for_stock_position org' (si_id item) (sr_id room) (s_committed s') =
      Some (?b\<lparr>sb_version := sb_version ?b + 1\<rparr>)"
    using new com upd(2) by (simp add: get_for_stock_position_def with_row_def)
  have ids: "rv_organization_id r = org'" "rv_stock_item_id r = si_id item" "rv_storeroom_id r = sr_id room"
    using stock_position_facts [OF pos] act(1) pos_eq upd(1) by (auto simp: rv_position_def)
  have "available_qty b = on_hand_qty b - reserved_qty b"
    using starts_from_ok [OF inv n(1)] by (simp add: balance_ok_def)
  then show ?thesis
    unfolding ids using old final same(1) change by auto
qed

text \<open>
  A partially issued reservation cannot be cancelled: the guard of the service lets it
  pass, but the transition table has no way from PARTIALLY_ISSUED to CANCELLED, so the call
  always raises. (It can be released.)
\<close>

theorem cancel_partially_issued_raises:
  assumes "find_row rv_id (db_reservations (s_working s)) ri = Some r" and "rv_status r = RES_PARTIALLY_ISSUED"
  shows "\<exists>err s'. cancel_stock_reservation env ri nts s = (Inl err, s')"
proof (rule ccontr)
  assume "\<not> ?thesis"
  then obtain r1 s' where "cancel_stock_reservation env ri nts s = (Inr r1, s')"
    by (metis surj_pair sum.exhaust)
  then have "\<exists>x s1. prepare_close env ri RES_CANCELLED nts s = (Inr x, s1)"
    unfolding cancel_stock_reservation_def close_reservation_def obind_Inr by blast
  then show False
    using assms unfolding prepare_close_def get_reservation_def
    by (auto simp: require_perm_def validate_transition_def RESERVATION_STATUS_TRANSITIONS_def reservation_status_value_def
        split: if_splits)
qed

end
