(* ===== verification/Inv_Examples.thy ===== *)
theory Inv_Examples
  imports Inv_Reservation_Properties
begin

text \<open>
  A warehouse with one item and two storerooms, a storekeeper with the inventory permissions,
  a few calls, and the inventory properties applied to the states they reach.
\<close>

section \<open>The example warehouse\<close>

definition example_principal :: user_session_principal where
  "example_principal =
     \<lparr>p_user_id = ''u1'', p_username = ''keeper'', p_display_name = None, role_names = set [''inventory_manager''],
      permissions = set [''inventory.read'', ''inventory.manage''], scoped_access = [], project_access = [],
      session_expires_at = None, must_change_password = False, session_revision = 1,
      identity_provider = None, last_login_auth_method = None, session_id = None\<rparr>"

definition example_env :: inv_env where
  "example_env =
     \<lparr>e_now = 1000, e_uuid = (\<lambda>n. [char_of (97 + n)] @ ''-b''),
      e_user = Some \<lparr>us_principal = Some example_principal, us_validator = None\<rparr>\<rparr>"

definition example_item :: stock_item where
  "example_item =
     \<lparr>si_id = ''bolt'', si_organization_id = ''org'', item_code = ''B1'', si_name = ''Bolt'', si_description = [],
      item_type = [], si_status = ''ACTIVE'', stock_uom = ''EA'', order_uom = ''BOX'', issue_uom = ''EA'',
      order_uom_ratio = Some 10, issue_uom_ratio = None, category_code = [], commodity_code = [],
      is_stocked = True, is_purchase_allowed = True, si_is_active = True, default_reorder_policy = [],
      min_qty = 0, max_qty = 0, reorder_point = 5, reorder_qty = 0, lead_time_days = None,
      is_lot_tracked = False, is_serial_tracked = False, shelf_life_days = None, preferred_party_id = None,
      si_created_at = None, si_updated_at = None, si_notes = [], si_version = 1\<rparr>"

definition example_room :: "string \<Rightarrow> storeroom" where
  "example_room i =
     \<lparr>sr_id = i, sr_organization_id = ''org'', storeroom_code = i, sr_name = i, sr_description = [],
      sr_site_id = ''site'', sr_status = ''ACTIVE'', storeroom_type = [], sr_is_active = True,
      is_internal_supplier = False, allows_issue = True, allows_transfer = True, allows_receiving = True,
      requires_reservation_for_issue = False, requires_supplier_reference_for_receipt = False,
      default_currency_code = [], manager_party_id = None, sr_created_at = None, sr_updated_at = None,
      sr_notes = [], sr_version = 1\<rparr>"

definition example_db :: inv_db where
  "example_db =
     \<lparr>db_active_org = Some ''org'', db_items = [example_item], db_storerooms = [example_room ''main'', example_room ''yard''],
      db_balances = [], db_transactions = [], db_reservations = [], db_documents = no_documents, db_project = no_project_tables\<rparr>"

definition example_state :: "inv_db \<Rightarrow> (string \<times> string) list \<Rightarrow> nat \<Rightarrow> inv_op_state" where
  "example_state db events n =
     \<lparr>s_committed = db, s_working = db, s_pending = [], s_events = events, s_audit = [],
      s_audit_on = False, s_next_uuid = n\<rparr>"

definition example_start :: inv_op_state where
  "example_start = example_state example_db [] 0"

section \<open>The rows the calls write\<close>

definition example_balance :: "string \<Rightarrow> string \<Rightarrow> rat \<Rightarrow> rat \<Rightarrow> datetime option \<Rightarrow> int \<Rightarrow> stock_balance" where
  "example_balance i room on_hand reserved issued_at version =
     \<lparr>sb_id = i, sb_organization_id = ''org'', sb_stock_item_id = ''bolt'', sb_storeroom_id = room, sb_uom = ''EA'',
      on_hand_qty = on_hand, reserved_qty = reserved, available_qty = on_hand - reserved, on_order_qty = 0,
      committed_qty = 0, average_cost = 5, last_receipt_at = Some 1000, last_issue_at = issued_at,
      reorder_required = False, sb_updated_at = Some 1000, sb_version = version\<rparr>"

definition example_txn ::
  "string \<Rightarrow> string \<Rightarrow> string \<Rightarrow> stock_transaction_type \<Rightarrow> rat \<Rightarrow> string \<Rightarrow> rat \<Rightarrow> string \<Rightarrow> string \<Rightarrow> rat \<Rightarrow> rat
     \<Rightarrow> stock_transaction" where
  "example_txn i number room ty q u cost rt ri on_hand available =
     \<lparr>st_id = i, st_organization_id = ''org'', transaction_number = number, st_stock_item_id = ''bolt'',
      st_storeroom_id = room, transaction_type = ty, st_quantity = q, st_uom = u, st_unit_cost = cost,
      transaction_at = 1000, reference_type = rt, reference_id = ri, performed_by_user_id = Some ''u1'',
      performed_by_username = ''keeper'', resulting_on_hand_qty = on_hand, resulting_available_qty = available,
      st_notes = []\<rparr>"

definition example_reservation :: "rat \<Rightarrow> rat \<Rightarrow> stock_reservation_status \<Rightarrow> int \<Rightarrow> stock_reservation" where
  "example_reservation issued remaining status version =
     \<lparr>rv_id = ''e-b'', rv_organization_id = ''org'', reservation_number = ''INV-RES-DB'', rv_stock_item_id = ''bolt'',
      rv_storeroom_id = ''main'', rv_reserved_qty = 5, issued_qty = issued, remaining_qty = remaining, rv_uom = ''EA'',
      rv_status = status, need_by_date = None, source_reference_type = ''work_order'', source_reference_id = ''w1'',
      requested_by_user_id = Some ''u1'', requested_by_username = ''keeper'', rv_created_at = Some 1000,
      released_at = None, cancelled_at = None, rv_notes = [], rv_version = version\<rparr>"

definition opening_txn :: stock_transaction where
  "opening_txn = example_txn ''c-b'' ''INV-TXN-BB'' ''main'' OPENING_BALANCE 2 ''BOX'' 50 ''opening_balance'' [] 20 20"

definition hold_txn :: stock_transaction where
  "hold_txn = example_txn ''g-b'' ''INV-TXN-FB'' ''main'' RESERVATION_HOLD 5 ''EA'' 0 ''inventory_reservation'' ''e-b'' 20 15"

definition issue_txn :: stock_transaction where
  "issue_txn = example_txn ''i-b'' ''INV-TXN-HB'' ''main'' ISSUE 3 ''EA'' 5 ''inventory_reservation'' ''e-b'' 17 15"

definition example_opened :: inv_op_state where
  "example_opened = example_state
     (example_db\<lparr>db_balances := [example_balance ''a-b'' ''main'' 20 0 None 1], db_transactions := [opening_txn]\<rparr>)
     [(''inventory_balances_changed'', ''a-b'')] 3"

definition example_reserved :: inv_op_state where
  "example_reserved = example_state
     (example_db\<lparr>db_balances := [example_balance ''a-b'' ''main'' 20 5 None 2], db_transactions := [opening_txn, hold_txn],
        db_reservations := [example_reservation 0 5 RES_ACTIVE 1]\<rparr>)
     [(''inventory_balances_changed'', ''a-b''), (''inventory_balances_changed'', ''a-b''),
      (''inventory_reservations_changed'', ''e-b'')] 7"

definition example_issued :: inv_op_state where
  "example_issued = example_state
     (example_db\<lparr>db_balances := [example_balance ''a-b'' ''main'' 17 2 (Some 1000) 3],
        db_transactions := [opening_txn, hold_txn, issue_txn],
        db_reservations := [example_reservation 3 2 RES_PARTIALLY_ISSUED 2]\<rparr>)
     [(''inventory_balances_changed'', ''a-b''), (''inventory_balances_changed'', ''a-b''),
      (''inventory_reservations_changed'', ''e-b''), (''inventory_balances_changed'', ''a-b''),
      (''inventory_reservations_changed'', ''e-b'')] 9"

section \<open>The calls\<close>

lemma example_opening_run:
  "post_opening_balance example_env ''bolt'' ''main'' (Some 2) (Some ''box'') (Some 50) None [] True example_start =
     (Inr opening_txn, example_opened)"
  by code_simp

lemma example_reserve_run:
  "create_reservation example_env ''bolt'' ''main'' (Some 5) None None ''work_order'' ''w1'' [] example_opened =
     (Inr (example_reservation 0 5 RES_ACTIVE 1), example_reserved)"
  by code_simp

lemma example_issue_run:
  "issue_reserved_stock example_env ''e-b'' (Some 3) [] example_reserved =
     (Inr (example_reservation 3 2 RES_PARTIALLY_ISSUED 2), example_issued)"
  by code_simp

lemma example_transfer_succeeds:
  "\<not> isl (fst (transfer_stock example_env ''bolt'' ''main'' ''yard'' (Some 1) (Some ''BOX'') None [] example_opened))"
  by code_simp

lemma example_failures:
  "transfer_stock example_env ''bolt'' ''main'' ''yard'' (Some 1) None None [] example_start =
     (Inl (ValidationError ''INVENTORY_STOCK_BALANCE_REQUIRED''), example_state example_db [] 1)"
  "create_reservation example_env ''bolt'' ''main'' (Some 50) None None ''work_order'' ''w1'' [] example_opened =
     (Inl (ValidationError ''INVENTORY_NEGATIVE_AVAILABLE''), example_opened\<lparr>s_next_uuid := 5\<rparr>)"
  by code_simp+

lemma example_clean: "clean example_start" "clean example_opened" "clean example_reserved"
  by (simp_all add: clean_def example_start_def example_opened_def example_reserved_def example_state_def)

lemma example_empty:
  "db_balances (s_committed example_start) = []" "db_transactions (s_committed example_start) = []"
  "db_reservations (s_committed example_start) = []"
  by (simp_all add: example_start_def example_state_def example_db_def)

lemma example_inventory_steps:
  "inventory_step\<^sup>*\<^sup>* example_start example_reserved" "inventory_step\<^sup>*\<^sup>* example_start example_issued"
proof -
  have "inventory_step example_start example_opened"
    by (rule inventory_step.opening_ [OF example_opening_run])
  then have "inventory_step\<^sup>*\<^sup>* example_start example_opened" by (rule r_into_rtranclp)
  then show r: "inventory_step\<^sup>*\<^sup>* example_start example_reserved"
    by (rule rtranclp.rtrancl_into_rtrancl) (rule inventory_step.reserve [OF example_reserve_run])
  show "inventory_step\<^sup>*\<^sup>* example_start example_issued"
    by (rule rtranclp.rtrancl_into_rtrancl [OF r]) (rule inventory_step.issue_reserved [OF example_issue_run])
qed

lemma example_stock_steps: "stock_step\<^sup>*\<^sup>* example_start example_opened"
  by (rule r_into_rtranclp) (rule stock_step.opening_ [OF example_opening_run])

section \<open>The properties at work\<close>

theorem reserved_quantity_matches_witness:
  "2 = held_quantity (s_committed example_issued) (''org'', ''bolt'', ''main'')"
  using reserved_quantity_matches [OF example_inventory_steps(2) example_clean(1) example_empty,
      of "example_balance ''a-b'' ''main'' 17 2 (Some 1000) 3"]
  by (simp add: example_issued_def example_state_def example_balance_def position_def)

theorem reservation_books_witness:
  "0 \<le> issued_qty (example_reservation 3 2 RES_PARTIALLY_ISSUED 2) \<and>
   issued_qty (example_reservation 3 2 RES_PARTIALLY_ISSUED 2) + 2 = rv_reserved_qty (example_reservation 3 2 RES_PARTIALLY_ISSUED 2)"
  using reservation_books [OF example_inventory_steps(2) example_clean(1) example_empty,
      of "example_reservation 3 2 RES_PARTIALLY_ISSUED 2"]
  by (simp add: example_issued_def example_state_def example_reservation_def)

theorem reservation_failure_atomic_witness:
  "s_working (example_opened\<lparr>s_next_uuid := 5\<rparr>) = s_committed example_opened"
  using reservation_failure_atomic [OF example_clean(2) disjI1 [OF example_failures(2)]] by (elim conjE)

theorem issue_reserved_keeps_available_witness:
  "\<exists>b b'. get_for_stock_position ''org'' ''bolt'' ''main'' (s_committed example_reserved) = Some b \<and>
     get_for_stock_position ''org'' ''bolt'' ''main'' (s_committed example_issued) = Some b' \<and>
     available_qty b' = available_qty b"
proof -
  have "res_inv (s_committed example_start)"
    using example_empty by (simp add: res_inv_def stock_inv_def books_ok_def reserved_match_def)
  from inventory_reachable_keeps [OF example_inventory_steps(1) example_clean(1) this]
  have inv: "res_inv (s_committed example_reserved)" by blast
  show ?thesis
    using issue_reserved_keeps_available [OF example_clean(3) inv example_issue_run]
    by (simp add: example_reservation_def) blast
qed

theorem cancel_partially_issued_raises_witness:
  "\<exists>err s'. cancel_stock_reservation example_env ''e-b'' [] example_issued = (Inl err, s')"
  by (rule cancel_partially_issued_raises [of _ _ "example_reservation 3 2 RES_PARTIALLY_ISSUED 2"])
    (simp_all add: example_issued_def example_state_def example_reservation_def find_row_def)

theorem stock_reachable_invariant_witness:
  "20 = ledger_quantity (s_committed example_opened) (''org'', ''bolt'', ''main'')"
  using stock_reachable_invariant [OF example_stock_steps example_clean(1) example_empty(1,2),
      of "example_balance ''a-b'' ''main'' 20 0 None 1"]
  by (simp add: example_opened_def example_state_def example_balance_def position_def)

theorem transfer_failure_atomic_witness:
  "s_committed (example_state example_db [] 1) = s_committed example_start"
  using transfer_failure_atomic [OF example_clean(1) example_failures(1)] by (elim conjE)

theorem transfer_conserves_witness:
  "item_total on_hand_qty (s_committed (snd (transfer_stock example_env ''bolt'' ''main'' ''yard'' (Some 1) (Some ''BOX'') None []
      example_opened))) ''org'' ''bolt'' = item_total on_hand_qty (s_committed example_opened) ''org'' ''bolt''"
proof -
  let ?run = "transfer_stock example_env ''bolt'' ''main'' ''yard'' (Some 1) (Some ''BOX'') None [] example_opened"
  have "stock_inv (s_committed example_start)"
    using example_empty by (simp add: stock_inv_def)
  from stock_reachable_keeps [OF example_stock_steps example_clean(1) this]
  have inv: "stock_inv (s_committed example_opened)" by blast
  obtain p where "fst ?run = Inr p"
    using example_transfer_succeeds by (cases "fst ?run") simp_all
  then have "?run = (Inr (fst p, snd p), snd ?run)" by (metis prod.collapse)
  moreover have "db_active_org (s_committed example_opened) = Some ''org''"
    by (simp add: example_opened_def example_state_def example_db_def)
  ultimately show ?thesis
    using transfer_conserves [OF example_clean(2) inv] by blast
qed

end
