(* ===== verification/Auth_Policy.thy ===== *)
theory Auth_Policy
  imports PM_Prelude
begin

text \<open>
  The permission catalogue and the default roles (\<^verbatim>\<open>core/platform/auth/policy.py\<close>)
  and the separation-of-duties rules (\<^verbatim>\<open>core/platform/auth/sod.py\<close>).
\<close>

section \<open>Permissions and roles\<close>

definition DEFAULT_PERMISSIONS :: "(string, string) dict" where
  "DEFAULT_PERMISSIONS =
    [(''project.read'', ''View projects''),
     (''project.manage'', ''Create and edit projects''),
     (''task.read'', ''View tasks''),
     (''task.manage'', ''Create and edit tasks''),
     (''time.read'', ''View shared labor bookings and time entries''),
     (''time.manage'', ''Create and edit shared labor bookings and time entries''),
     (''resource.read'', ''View resources''),
     (''resource.manage'', ''Create and edit resources''),
     (''employee.read'', ''View employee directory records''),
     (''employee.manage'', ''Create and edit employee directory records''),
     (''inventory.read'', ''View inventory and procurement workspaces''),
     (''inventory.manage'', ''Create and edit inventory and procurement records''),
     (''maintenance.read'', ''View maintenance master data and operational records''),
     (''maintenance.manage'', ''Create and edit maintenance master data and operational records''),
     (''site.read'', ''View shared site directory records''),
     (''department.read'', ''View shared department directory records''),
     (''party.read'', ''View shared supplier, vendor, and contractor directory records''),
     (''cost.read'', ''View costs''),
     (''cost.manage'', ''Create and edit costs''),
     (''finance.read'', ''View finance snapshots and ledgers''),
     (''finance.manage'', ''Manage finance controls and adjustments''),
     (''finance.export'', ''Export finance analytics and ledgers''),
     (''payroll.read'', ''View payroll periods and summaries''),
     (''payroll.manage'', ''Manage payroll configuration and prepared runs''),
     (''payroll.approve'', ''Approve or release payroll runs''),
     (''payroll.export'', ''Export payroll reports and payment files''),
     (''baseline.manage'', ''Create baselines''),
     (''register.read'', ''View risk, issue, and change register data''),
     (''register.manage'', ''Create and edit register entries''),
     (''report.view'', ''View reports''),
     (''report.export'', ''Export reports''),
     (''portfolio.read'', ''View portfolio intake and scenarios''),
     (''portfolio.manage'', ''Manage portfolio intake and scenarios''),
     (''collaboration.read'', ''View team collaboration activity''),
     (''collaboration.manage'', ''Post team collaboration updates''),
     (''timesheet.submit'', ''Submit timesheet periods''),
     (''timesheet.approve'', ''Approve or reject timesheet periods''),
     (''timesheet.lock'', ''Lock or unlock timesheet periods''),
     (''audit.read'', ''View audit history''),
     (''support.manage'', ''Access product support operations''),
     (''access.manage'', ''Manage project memberships and access scope''),
     (''import.manage'', ''Run governed module data imports''),
     (''approval.request'', ''Submit governed change requests''),
     (''approval.decide'', ''Approve or reject governed change requests''),
     (''settings.manage'', ''Manage app settings''),
     (''auth.read'', ''View user and role directory data''),
     (''auth.manage'', ''Manage users and roles''),
     (''security.manage'', ''Manage login security, lockouts, and session controls'')]"

definition VIEWER_PERMS :: "string list" where
  "VIEWER_PERMS =
    [''project.read'', ''task.read'', ''time.read'', ''resource.read'', ''cost.read'',
     ''register.read'', ''report.view'', ''collaboration.read'']"

definition TEAM_MEMBER_PERMS :: "string list" where
  "TEAM_MEMBER_PERMS = VIEWER_PERMS @
    [''collaboration.manage'', ''timesheet.submit'']"

definition PLANNER_PERMS :: "string list" where
  "PLANNER_PERMS = TEAM_MEMBER_PERMS @
    [''project.manage'', ''task.manage'', ''time.manage'', ''baseline.manage'',
     ''register.manage'', ''report.export'', ''portfolio.read'', ''approval.request'',
     ''import.manage'']"

definition PROJECT_MANAGER_PERMS :: "string list" where
  "PROJECT_MANAGER_PERMS = PLANNER_PERMS @
    [''cost.manage'', ''finance.read'', ''finance.export'', ''timesheet.approve'']"

definition RESOURCE_MANAGER_PERMS :: "string list" where
  "RESOURCE_MANAGER_PERMS =
    [''project.read'', ''task.read'', ''time.read'', ''resource.read'', ''resource.manage'',
     ''employee.read'', ''employee.manage'', ''site.read'', ''department.read'',
     ''report.view'', ''report.export'', ''collaboration.read'', ''timesheet.approve'',
     ''timesheet.lock'']"

definition FINANCE_CONTROLLER_PERMS :: "string list" where
  "FINANCE_CONTROLLER_PERMS =
    [''project.read'', ''task.read'', ''time.read'', ''resource.read'', ''cost.read'',
     ''cost.manage'', ''party.read'', ''register.read'', ''report.view'', ''report.export'',
     ''finance.read'', ''finance.manage'', ''finance.export'', ''payroll.read'',
     ''approval.request'']"

definition INVENTORY_MANAGER_PERMS :: "string list" where
  "INVENTORY_MANAGER_PERMS =
    [''inventory.read'', ''inventory.manage'', ''site.read'', ''party.read'', ''report.view'',
     ''report.export'', ''import.manage'', ''approval.request'']"

definition MAINTENANCE_MANAGER_PERMS :: "string list" where
  "MAINTENANCE_MANAGER_PERMS =
    [''maintenance.read'', ''maintenance.manage'', ''time.read'', ''time.manage'',
     ''site.read'', ''employee.read'', ''party.read'', ''report.view'', ''report.export'',
     ''approval.request'', ''import.manage'']"

definition PAYROLL_MANAGER_PERMS :: "string list" where
  "PAYROLL_MANAGER_PERMS =
    [''project.read'', ''task.read'', ''time.read'', ''resource.read'', ''employee.read'',
     ''employee.manage'', ''site.read'', ''department.read'', ''report.view'', ''payroll.read'',
     ''payroll.manage'', ''payroll.approve'', ''payroll.export'', ''timesheet.approve'',
     ''timesheet.lock'', ''audit.read'']"

definition PORTFOLIO_MANAGER_PERMS :: "string list" where
  "PORTFOLIO_MANAGER_PERMS =
    [''project.read'', ''task.read'', ''time.read'', ''resource.read'', ''cost.read'',
     ''register.read'', ''report.view'', ''report.export'', ''portfolio.read'',
     ''portfolio.manage'', ''collaboration.read'', ''approval.request'']"

definition APPROVER_PERMS :: "string list" where
  "APPROVER_PERMS =
    [''project.read'', ''resource.read'', ''task.read'', ''time.read'', ''cost.read'',
     ''register.read'', ''report.view'', ''portfolio.read'', ''finance.read'', ''payroll.read'',
     ''approval.decide'']"

definition AUDITOR_PERMS :: "string list" where
  "AUDITOR_PERMS =
    [''project.read'', ''task.read'', ''time.read'', ''resource.read'', ''cost.read'',
     ''finance.read'', ''payroll.read'', ''register.read'', ''report.view'', ''portfolio.read'',
     ''collaboration.read'', ''audit.read'']"

definition ACCESS_ADMIN_PERMS :: "string list" where
  "ACCESS_ADMIN_PERMS =
    [''project.read'', ''site.read'', ''auth.read'', ''access.manage'', ''audit.read'']"

definition SECURITY_ADMIN_PERMS :: "string list" where
  "SECURITY_ADMIN_PERMS =
    [''auth.read'', ''audit.read'', ''settings.manage'', ''security.manage'']"

definition SUPPORT_ADMIN_PERMS :: "string list" where
  "SUPPORT_ADMIN_PERMS =
    [''project.read'', ''task.read'', ''time.read'', ''register.read'', ''report.view'',
     ''auth.read'', ''audit.read'', ''support.manage'']"

text \<open>A permission set is kept as the list of its members.\<close>

definition DEFAULT_ROLE_PERMISSIONS :: "(string, string list) dict" where
  "DEFAULT_ROLE_PERMISSIONS =
    [(''viewer'', VIEWER_PERMS),
     (''team_member'', TEAM_MEMBER_PERMS),
     (''planner'', PLANNER_PERMS),
     (''project_manager'', PROJECT_MANAGER_PERMS),
     (''resource_manager'', RESOURCE_MANAGER_PERMS),
     (''finance'', FINANCE_CONTROLLER_PERMS),
     (''finance_controller'', FINANCE_CONTROLLER_PERMS),
     (''inventory_manager'', INVENTORY_MANAGER_PERMS),
     (''maintenance_manager'', MAINTENANCE_MANAGER_PERMS),
     (''maintenance_admin'', MAINTENANCE_MANAGER_PERMS),
     (''payroll_manager'', PAYROLL_MANAGER_PERMS),
     (''portfolio_manager'', PORTFOLIO_MANAGER_PERMS),
     (''approver'', APPROVER_PERMS),
     (''auditor'', AUDITOR_PERMS),
     (''access_admin'', ACCESS_ADMIN_PERMS),
     (''security_admin'', SECURITY_ADMIN_PERMS),
     (''support_admin'', SUPPORT_ADMIN_PERMS),
     (''admin'', map fst DEFAULT_PERMISSIONS)]"

section \<open>Separation of duties\<close>

record sod_rule =
  required_permissions :: "string list"
  sod_message :: string

definition default_separation_of_duties_rules :: "sod_rule list" where
  "default_separation_of_duties_rules =
    [\<lparr>required_permissions = [''approval.request'', ''approval.decide''],
      sod_message = ''Users cannot both request and decide the same governed approvals.''\<rparr>,
     \<lparr>required_permissions = [''access.manage'', ''security.manage''],
      sod_message = ''Users cannot both manage scoped access and manage login security controls.''\<rparr>]"

definition find_conflicts :: "sod_rule list \<Rightarrow> string list \<Rightarrow> string list" where
  "find_conflicts rules permission_codes =
     (let normalized = filter (\<lambda>c. c \<noteq> []) (map py_strip permission_codes)
      in map sod_message
           (filter (\<lambda>r. list_all (\<lambda>c. c \<in> set normalized) (required_permissions r)) rules))"

definition find_separation_of_duties_conflicts :: "string list \<Rightarrow> string list" where
  "find_separation_of_duties_conflicts = find_conflicts default_separation_of_duties_rules"

text \<open>
  The guard of a role assignment (\<^verbatim>\<open>AuthService._enforce_separation_of_duties\<close>);
  \<open>known\<close> is the role table by normalised name. A role outside the default table has
  no default permissions.
\<close>

definition enforce_separation_of_duties ::
  "sod_rule list \<Rightarrow> (string \<rightharpoonup> string) \<Rightarrow> string list \<Rightarrow> unit result" where
  "enforce_separation_of_duties rules known role_names =
     (let normalized = filter (\<lambda>r. r \<noteq> []) (map (\<lambda>r. py_lower (py_strip r)) role_names) in
      if ''admin'' \<in> set normalized then Inr ()
      else rbind (rmap (\<lambda>r.
             case known (py_lower (py_strip r)) of
               None \<Rightarrow> Inl (NotFoundError ''ROLE_NOT_FOUND'')
             | Some name \<Rightarrow>
                 Inr (case map_of DEFAULT_ROLE_PERMISSIONS name of None \<Rightarrow> [] | Some perms \<Rightarrow> perms)) normalized)
           (\<lambda>perms. raise_if (find_conflicts rules (concat perms) \<noteq> []) (ValidationError ''ROLE_CONFLICT'')))"

end
