(* ===== verification/Auth_Accounts.thy ===== *)
theory Auth_Accounts
  imports PM_Session Auth_Session Auth_Policy
begin

text \<open>
  Accounts, persisted sessions, roles and grants (\<^verbatim>\<open>core/platform/auth/domain.py\<close>),
  the tables they live in with their constraints, and what is read from them: the roles and
  permissions of a user, the principal of a signed-in user and its validation
  (\<^verbatim>\<open>core/platform/auth/query.py\<close> and \<^verbatim>\<open>service.py\<close>).
\<close>

section \<open>Data\<close>

record user_account =
  ua_id :: string
  ua_username :: string
  password_hash :: string
  ua_display_name :: "string option"
  ua_email :: "string option"
  ua_identity_provider :: "string option"
  federated_subject :: "string option"
  mfa_secret :: "string option"
  mfa_enabled :: bool
  session_timeout_minutes_override :: "int option"
  ua_session_revision :: int
  ua_last_login_auth_method :: "string option"
  last_login_device_label :: "string option"
  ua_is_active :: bool
  failed_login_attempts :: int
  locked_until :: "datetime option"
  last_login_at :: "datetime option"
  ua_session_expires_at :: "datetime option"
  password_changed_at :: "datetime option"
  ua_must_change_password :: bool
  ua_created_at :: "datetime option"
  ua_updated_at :: "datetime option"
  ua_version :: int
  active_session_id :: "string option"

definition create_user ::
  "string \<Rightarrow> datetime \<Rightarrow> string \<Rightarrow> string \<Rightarrow> string option \<Rightarrow> string option \<Rightarrow> bool \<Rightarrow> user_account" where
  "create_user new_id now username pw_hash display_name email is_active =
     \<lparr>ua_id = new_id, ua_username = username, password_hash = pw_hash, ua_display_name = display_name,
      ua_email = email, ua_identity_provider = None, federated_subject = None, mfa_secret = None,
      mfa_enabled = False, session_timeout_minutes_override = None, ua_session_revision = 1,
      ua_last_login_auth_method = None, last_login_device_label = None, ua_is_active = is_active,
      failed_login_attempts = 0, locked_until = None, last_login_at = None, ua_session_expires_at = None,
      password_changed_at = Some now, ua_must_change_password = False, ua_created_at = Some now,
      ua_updated_at = Some now, ua_version = 1, active_session_id = None\<rparr>"

text \<open>\<open>int(x or 1)\<close>.\<close>

definition rev_or_1 :: "int \<Rightarrow> int" where
  "rev_or_1 n = (if n = 0 then 1 else n)"

record auth_session =
  as_id :: string
  as_user_id :: string
  as_session_revision :: int
  as_auth_method :: string
  as_device_label :: "string option"
  issued_at :: datetime
  as_expires_at :: datetime
  last_validated_at :: "datetime option"
  revoked_at :: "datetime option"
  as_created_at :: datetime
  as_updated_at :: datetime

definition create_auth_session ::
  "string \<Rightarrow> datetime \<Rightarrow> string \<Rightarrow> int \<Rightarrow> string \<Rightarrow> datetime \<Rightarrow> string option \<Rightarrow> auth_session" where
  "create_auth_session new_id now user_id revision auth_method expires_at device_label =
     \<lparr>as_id = new_id, as_user_id = user_id, as_session_revision = max 1 (rev_or_1 revision),
      as_auth_method = (if py_strip auth_method = [] then ''password'' else py_strip auth_method),
      as_device_label = strip_or_none device_label, issued_at = now, as_expires_at = expires_at,
      last_validated_at = Some now, revoked_at = None, as_created_at = now, as_updated_at = now\<rparr>"

record auth_role =
  role_id :: string
  role_name :: string
  role_description :: string
  role_is_system :: bool

record auth_permission =
  perm_id :: string
  perm_code :: string
  perm_description :: string

text \<open>The two binding tables: of users to roles and of roles to permissions.\<close>

record auth_binding =
  bd_id :: string
  bd_left :: string
  bd_right :: string

record access_grant =
  gr_user_id :: string
  gr_scope_type :: string
  gr_scope_id :: string
  gr_permission_codes :: "string list"

section \<open>Tables\<close>

record auth_db =
  ad_users :: "user_account list"
  ad_sessions :: "auth_session list"
  ad_roles :: "auth_role list"
  ad_permissions :: "auth_permission list"
  ad_user_roles :: "auth_binding list"
  ad_role_permissions :: "auth_binding list"
  ad_grants :: "access_grant list"

datatype auth_row =
    UserRow user_account
  | SessionRow auth_session
  | RoleRow auth_role
  | PermissionRow auth_permission
  | UserRoleRow auth_binding
  | RolePermissionRow auth_binding

text \<open>\<open>active_session_id\<close> has no column: a row never carries it.\<close>

definition user_row :: "user_account \<Rightarrow> user_account" where
  "user_row u = u\<lparr>active_session_id := None\<rparr>"

definition same_identity :: "user_account \<Rightarrow> user_account \<Rightarrow> bool" where
  "same_identity u v \<longleftrightarrow> ua_identity_provider u \<noteq> None \<and> federated_subject u \<noteq> None \<and>
     ua_identity_provider u = ua_identity_provider v \<and> federated_subject u = federated_subject v"

definition insert_binding :: "string \<Rightarrow> auth_binding \<Rightarrow> auth_binding list \<Rightarrow> auth_binding list result" where
  "insert_binding table b rows =
     (if list_ex (\<lambda>x. bd_id x = bd_id b \<or> (bd_left x = bd_left b \<and> bd_right x = bd_right b)) rows
      then Inl (IntegrityError table) else Inr (rows @ [b]))"

fun auth_insert :: "auth_row \<Rightarrow> auth_db \<Rightarrow> auth_db result" where
  "auth_insert (UserRow u) db =
     (if list_ex (\<lambda>x. ua_id x = ua_id u \<or> ua_username x = ua_username u \<or> same_identity u x) (ad_users db)
      then Inl (IntegrityError ''users'')
      else Inr (db\<lparr>ad_users := ad_users db @ [user_row u]\<rparr>))"
| "auth_insert (SessionRow x) db =
     (if list_ex (\<lambda>y. as_id y = as_id x) (ad_sessions db) then Inl (IntegrityError ''auth_sessions'')
      else Inr (db\<lparr>ad_sessions := ad_sessions db @ [x]\<rparr>))"
| "auth_insert (RoleRow r) db =
     (if list_ex (\<lambda>x. role_id x = role_id r \<or> role_name x = role_name r) (ad_roles db)
      then Inl (IntegrityError ''roles'')
      else Inr (db\<lparr>ad_roles := ad_roles db @ [r]\<rparr>))"
| "auth_insert (PermissionRow p) db =
     (if list_ex (\<lambda>x. perm_id x = perm_id p \<or> perm_code x = perm_code p) (ad_permissions db)
      then Inl (IntegrityError ''permissions'')
      else Inr (db\<lparr>ad_permissions := ad_permissions db @ [p]\<rparr>))"
| "auth_insert (UserRoleRow b) db =
     rbind (insert_binding ''user_roles'' b (ad_user_roles db)) (\<lambda>rows. Inr (db\<lparr>ad_user_roles := rows\<rparr>))"
| "auth_insert (RolePermissionRow b) db =
     rbind (insert_binding ''role_permissions'' b (ad_role_permissions db)) (\<lambda>rows. Inr (db\<lparr>ad_role_permissions := rows\<rparr>))"

section \<open>Reads\<close>

definition get_user :: "auth_db \<Rightarrow> string \<Rightarrow> user_account option" where
  "get_user db i = find_row ua_id (ad_users db) i"

definition get_by_username :: "auth_db \<Rightarrow> string \<Rightarrow> user_account option" where
  "get_by_username db name = find (\<lambda>u. ua_username u = name) (ad_users db)"

text \<open>A comparison with \<open>None\<close> selects no row in SQL.\<close>

definition get_by_federated_identity :: "auth_db \<Rightarrow> string option \<Rightarrow> string option \<Rightarrow> user_account option" where
  "get_by_federated_identity db provider subject =
     (if provider = None \<or> subject = None then None
      else find (\<lambda>u. ua_identity_provider u = provider \<and> federated_subject u = subject) (ad_users db))"

definition get_session :: "auth_db \<Rightarrow> string \<Rightarrow> auth_session option" where
  "get_session db i = find_row as_id (ad_sessions db) i"

definition list_right :: "auth_binding list \<Rightarrow> string \<Rightarrow> string list" where
  "list_right rows i = map bd_right (filter (\<lambda>b. bd_left b = i) rows)"

definition binding_exists :: "auth_binding list \<Rightarrow> string \<Rightarrow> string \<Rightarrow> bool" where
  "binding_exists rows i j \<longleftrightarrow> list_ex (\<lambda>b. bd_left b = i \<and> bd_right b = j) rows"

definition require_user :: "auth_db \<Rightarrow> string \<Rightarrow> user_account result" where
  "require_user db i =
     (case get_user db i of None \<Rightarrow> Inl (NotFoundError ''USER_NOT_FOUND'') | Some u \<Rightarrow> Inr u)"

definition require_role_by_name :: "auth_db \<Rightarrow> string \<Rightarrow> auth_role result" where
  "require_role_by_name db name =
     (case find_row role_name (ad_roles db) (py_lower (py_strip name)) of
        None \<Rightarrow> Inl (NotFoundError ''ROLE_NOT_FOUND'') | Some r \<Rightarrow> Inr r)"

definition get_user_permissions :: "auth_db \<Rightarrow> string \<Rightarrow> string set result" where
  "get_user_permissions db i =
     rbind (require_user db i) (\<lambda>_.
       (let ids = concat (map (list_right (ad_role_permissions db)) (list_right (ad_user_roles db) i))
        in Inr (set (map perm_code (filter (\<lambda>p. perm_id p \<in> set ids) (ad_permissions db))))))"

definition get_user_role_names :: "auth_db \<Rightarrow> string \<Rightarrow> string list result" where
  "get_user_role_names db i =
     rbind (require_user db i) (\<lambda>_.
       Inr (map role_name (List.map_filter (find_row role_id (ad_roles db)) (list_right (ad_user_roles db) i))))"

section \<open>The principal of a user\<close>

definition grants_of :: "auth_db \<Rightarrow> string \<Rightarrow> (string, scope_rows) dict" where
  "grants_of db i =
     fold (\<lambda>g. merge_scope (gr_scope_type g) (gr_scope_id g) (set (gr_permission_codes g)))
       (filter (\<lambda>g. gr_user_id g = i) (ad_grants db)) []"

definition resolved_session_of :: "auth_db \<Rightarrow> user_account \<Rightarrow> string option \<Rightarrow> auth_session option \<times> string option" where
  "resolved_session_of db u sid =
     (let resolved_id = (case strip_or_none sid of Some i \<Rightarrow> Some i | None \<Rightarrow> strip_or_none (active_session_id u));
          resolved = (case resolved_id of None \<Rightarrow> None | Some i \<Rightarrow> get_session db i)
      in (case resolved of
            Some x \<Rightarrow> (if revoked_at x \<noteq> None then (None, None) else (Some x, resolved_id))
          | None \<Rightarrow> (None, resolved_id)))"

definition build_principal :: "auth_db \<Rightarrow> user_account \<Rightarrow> string option \<Rightarrow> user_session_principal result" where
  "build_principal db u sid =
     (let scoped = grants_of db (ua_id u); (resolved, resolved_id) = resolved_session_of db u sid in
      rbind (get_user_role_names db (ua_id u)) (\<lambda>roles.
      rbind (get_user_permissions db (ua_id u)) (\<lambda>perms.
      Inr \<lparr>p_user_id = ua_id u, p_username = ua_username u, p_display_name = ua_display_name u,
           role_names = set roles, permissions = perms, scoped_access = scoped,
           project_access = (case map_of scoped ''project'' of None \<Rightarrow> [] | Some rows \<Rightarrow> rows),
           session_expires_at = (case resolved of Some x \<Rightarrow> Some (as_expires_at x) | None \<Rightarrow> ua_session_expires_at u),
           must_change_password = ua_must_change_password u, session_revision = rev_or_1 (ua_session_revision u),
           identity_provider = ua_identity_provider u,
           last_login_auth_method =
             (case resolved of Some x \<Rightarrow> Some (as_auth_method x) | None \<Rightarrow> ua_last_login_auth_method u),
           session_id = resolved_id\<rparr>)))"

text \<open>
  The validator of the application's session context: \<open>None\<close> ends the session. The account
  has just been read, so building its principal does not raise.
\<close>

definition build_valid_principal :: "auth_db \<Rightarrow> user_account \<Rightarrow> string option \<Rightarrow> user_session_principal option" where
  "build_valid_principal db u sid = (case build_principal db u sid of Inl _ \<Rightarrow> None | Inr p \<Rightarrow> Some p)"

definition validate_session_principal ::
  "datetime \<Rightarrow> auth_db \<Rightarrow> user_session_principal \<Rightarrow> user_session_principal option" where
  "validate_session_principal now db p =
     (case get_user db (p_user_id p) of
        None \<Rightarrow> None
      | Some u \<Rightarrow>
          (if \<not> ua_is_active u then None
           else (case ua_session_expires_at u of
                   None \<Rightarrow> None
                 | Some current_expires_at \<Rightarrow>
                     (if now \<ge> current_expires_at then None
                      else if session_id p \<noteq> None \<and> session_id p \<noteq> Some [] then
                        (case get_session db (the (session_id p)) of
                           None \<Rightarrow> None
                         | Some x \<Rightarrow>
                             (if as_user_id x \<noteq> ua_id u then None
                              else if revoked_at x \<noteq> None then None
                              else if now \<ge> as_expires_at x then None
                              else if rev_or_1 (as_session_revision x) \<noteq> rev_or_1 (ua_session_revision u) then None
                              else build_valid_principal db u (Some (as_id x))))
                      else if session_expires_at p \<noteq> Some current_expires_at then None
                      else if rev_or_1 (session_revision p) \<noteq> rev_or_1 (ua_session_revision u) then None
                      else build_valid_principal db u None))))"

end
