(* ===== verification/Auth_Secrets.thy ===== *)
theory Auth_Secrets
  imports PM_Prelude
begin

text \<open>
  Password hashes (\<^verbatim>\<open>core/platform/auth/passwords.py\<close>) and one-time codes
  (\<^verbatim>\<open>mfa.py\<close>). The key derivation \<open>hashlib.pbkdf2_hmac\<close> and
  \<open>hmac\<close>-SHA1 are arguments of the model; \<open>base64\<close>, \<open>int\<close>, \<open>str\<close>,
  \<open>split\<close> and \<open>struct\<close> are modelled as far as the code uses them. Bytes are natural
  numbers below 256.
\<close>

section \<open>Decimal numbers\<close>

definition digit_char :: "nat \<Rightarrow> char" where
  "digit_char n = char_of (48 + n)"

definition is_digit :: "char \<Rightarrow> bool" where
  "is_digit c = (let n = (of_char c :: nat) in 48 \<le> n \<and> n \<le> 57)"

definition digit_value :: "char \<Rightarrow> int" where
  "digit_value c = int (of_char c :: nat) - 48"

fun nat_digits :: "nat \<Rightarrow> string" where
  "nat_digits n = (if n < 10 then [digit_char n] else nat_digits (n div 10) @ [digit_char (n mod 10)])"

declare nat_digits.simps [simp del]

text \<open>\<open>str(n)\<close>.\<close>

definition py_str_int :: "int \<Rightarrow> string" where
  "py_str_int n = (if n < 0 then CHR ''-'' # nat_digits (nat (- n)) else nat_digits (nat n))"

text \<open>The digits of \<open>int(s)\<close>: single underscores may stand between two digits.\<close>

fun int_digits :: "bool \<Rightarrow> int \<Rightarrow> string \<Rightarrow> int option" where
  "int_digits after_digit acc [] = (if after_digit then Some acc else None)"
| "int_digits after_digit acc (c # cs) =
     (if is_digit c then int_digits True (10 * acc + digit_value c) cs
      else if c = CHR ''_'' \<and> after_digit then int_digits False acc cs
      else None)"

definition py_int :: "string \<Rightarrow> int option" where
  "py_int s =
     (case py_strip s of
        [] \<Rightarrow> None
      | c # cs \<Rightarrow>
          (if c = CHR ''-'' then map_option uminus (int_digits False 0 cs)
           else if c = CHR ''+'' then int_digits False 0 cs
           else int_digits False 0 (c # cs)))"

section \<open>Base 64\<close>

definition b64_char :: "nat \<Rightarrow> char" where
  "b64_char n =
     (if n < 26 then char_of (n + 65) else if n < 52 then char_of (n + 71)
      else if n < 62 then char_of (n - 4) else if n = 62 then CHR ''+'' else CHR ''/'')"

definition b64_value :: "char \<Rightarrow> nat option" where
  "b64_value c =
     (let n = (of_char c :: nat) in
      if 65 \<le> n \<and> n \<le> 90 then Some (n - 65)
      else if 97 \<le> n \<and> n \<le> 122 then Some (n - 71)
      else if 48 \<le> n \<and> n \<le> 57 then Some (n + 4)
      else if n = 43 then Some 62
      else if n = 47 then Some 63
      else None)"

fun b64encode :: "nat list \<Rightarrow> string" where
  "b64encode [] = []"
| "b64encode [a] = [b64_char (a div 4), b64_char (a mod 4 * 16), CHR ''='', CHR ''='']"
| "b64encode [a, b] = [b64_char (a div 4), b64_char (a mod 4 * 16 + b div 16), b64_char (b mod 16 * 4), CHR ''='']"
| "b64encode (a # b # c # rest) =
     b64_char (a div 4) # b64_char (a mod 4 * 16 + b div 16) # b64_char (b mod 16 * 4 + c div 64) # b64_char (c mod 64)
       # b64encode rest"

text \<open>
  The decoder skips characters outside the alphabet, ends at a complete padding and rejects an
  incomplete last quantum; \<open>pos\<close> is the place in the quantum, \<open>left\<close> the bits kept from
  the previous character.
\<close>

fun b64_loop :: "nat \<Rightarrow> nat \<Rightarrow> nat \<Rightarrow> string \<Rightarrow> nat list option" where
  "b64_loop pos left pads [] = (if pos = 0 then Some [] else None)"
| "b64_loop pos left pads (c # cs) =
     (if c = CHR ''='' then
        (if pos \<ge> 2 \<and> pos + (pads + 1) \<ge> 4 then Some []
         else b64_loop pos left (if pos \<ge> 2 then pads + 1 else pads) cs)
      else (case b64_value c of
              None \<Rightarrow> b64_loop pos left pads cs
            | Some v \<Rightarrow>
                (if pos = 0 then b64_loop 1 v 0 cs
                 else if pos = 1 then map_option (Cons (left * 4 + v div 16)) (b64_loop 2 (v mod 16) 0 cs)
                 else if pos = 2 then map_option (Cons (left * 16 + v div 4)) (b64_loop 3 (v mod 4) 0 cs)
                 else map_option (Cons (left * 64 + v)) (b64_loop 0 0 0 cs))))"

definition b64decode :: "string \<Rightarrow> nat list option" where
  "b64decode s = b64_loop 0 0 0 s"

section \<open>Passwords\<close>

type_synonym kdf = "string \<Rightarrow> string \<Rightarrow> nat list \<Rightarrow> int \<Rightarrow> nat list"

definition DEFAULT_ITERATIONS :: int where
  "DEFAULT_ITERATIONS = 390000"

definition SUPPORTED_PBKDF2_SCHEMES :: "(string, string) dict" where
  "SUPPORTED_PBKDF2_SCHEMES = [(''pbkdf2_sha256'', ''sha256''), (''pbkdf2_sha512'', ''sha512'')]"

definition hash_password :: "kdf \<Rightarrow> nat list \<Rightarrow> string \<Rightarrow> string" where
  "hash_password kdf salt raw_password =
     ''pbkdf2_sha256'' @ ''$'' @ py_str_int DEFAULT_ITERATIONS @ ''$'' @ b64encode salt @ ''$'' @
       b64encode (kdf ''sha256'' raw_password salt DEFAULT_ITERATIONS)"

text \<open>One step of \<open>str.split\<close>: before and after the first separator.\<close>

fun split_at :: "char \<Rightarrow> string \<Rightarrow> (string \<times> string) option" where
  "split_at sep [] = None"
| "split_at sep (c # cs) =
     (if c = sep then Some ([], cs)
      else (case split_at sep cs of None \<Rightarrow> None | Some (a, b) \<Rightarrow> Some (c # a, b)))"

definition split3 :: "char \<Rightarrow> string \<Rightarrow> (string \<times> string \<times> string \<times> string) option" where
  "split3 sep s =
     (case split_at sep s of
        None \<Rightarrow> None
      | Some (a, s1) \<Rightarrow>
          (case split_at sep s1 of
             None \<Rightarrow> None
           | Some (b, s2) \<Rightarrow> (case split_at sep s2 of None \<Rightarrow> None | Some (c, d) \<Rightarrow> Some (a, b, c, d))))"

text \<open>The parsing is inside a \<open>try\<close>, the derivation is not: a count below 1 raises there.\<close>

definition verify_password :: "kdf \<Rightarrow> string \<Rightarrow> string \<Rightarrow> bool result" where
  "verify_password kdf raw_password encoded_hash =
     (case split3 (CHR ''$'') encoded_hash of
        None \<Rightarrow> Inr False
      | Some (scheme, iter_s, salt_b64, digest_b64) \<Rightarrow>
          (case map_of SUPPORTED_PBKDF2_SCHEMES scheme of
             None \<Rightarrow> Inr False
           | Some algorithm \<Rightarrow>
               (case (py_int iter_s, b64decode salt_b64, b64decode digest_b64) of
                  (Some iterations, Some salt, Some expected) \<Rightarrow>
                    (if iterations < 1 then Inl ValueError
                     else Inr (kdf algorithm raw_password salt iterations = expected))
                | _ \<Rightarrow> Inr False)))"

section \<open>One-time codes\<close>

definition TOTP_INTERVAL_SECONDS :: int where
  "TOTP_INTERVAL_SECONDS = 30"

definition b32_value :: "char \<Rightarrow> nat option" where
  "b32_value c =
     (let n = (of_char c :: nat) in
      if 65 \<le> n \<and> n \<le> 90 then Some (n - 65) else if 50 \<le> n \<and> n \<le> 55 then Some (n - 24) else None)"

text \<open>
  \<open>base64.b32decode\<close>: full quanta of eight characters; the number of padding characters
  decides how many bytes of the last quantum count.
\<close>

fun b32_number :: "nat \<Rightarrow> string \<Rightarrow> nat option" where
  "b32_number acc [] = Some acc"
| "b32_number acc (c # cs) = (case b32_value c of None \<Rightarrow> None | Some v \<Rightarrow> b32_number (32 * acc + v) cs)"

definition bytes_be :: "nat \<Rightarrow> nat \<Rightarrow> nat list" where
  "bytes_be k n = map (\<lambda>i. (n div 256 ^ (k - 1 - i)) mod 256) [0..<k]"

fun b32_quanta :: "nat \<Rightarrow> string \<Rightarrow> nat list option" where
  "b32_quanta 0 s = Some []"
| "b32_quanta (Suc k) s =
     (case b32_number 0 (take 8 s) of
        None \<Rightarrow> None
      | Some n \<Rightarrow> map_option ((@) (bytes_be 5 n)) (b32_quanta k (drop 8 s)))"

definition b32decode :: "string \<Rightarrow> nat list result" where
  "b32decode s =
     (let data = rev (dropWhile (\<lambda>c. c = CHR ''='') (rev s)); padchars = length s - length data;
          filled = data @ replicate padchars (CHR ''A'')
      in if length s mod 8 \<noteq> 0 then Inl ValueError
         else if padchars \<notin> {0, 1, 3, 4, 6} then Inl ValueError
         else (case b32_quanta (length s div 8) filled of
                 None \<Rightarrow> Inl ValueError
               | Some bytes \<Rightarrow> Inr (take (length bytes - 5 + (43 - 5 * padchars) div 8) bytes)))"

text \<open>
  A new secret is \<open>base64.b32encode\<close> of random bytes without its padding: groups of five
  bytes, the last one filled with zero bytes, and of its eight characters only those that carry
  data.
\<close>

definition b32_char :: "nat \<Rightarrow> char" where
  "b32_char n = (if n < 26 then char_of (n + 65) else char_of (n + 24))"

definition bytes_number :: "nat list \<Rightarrow> nat" where
  "bytes_number bs = foldl (\<lambda>acc x. 256 * acc + x) 0 bs"

definition b32_group :: "nat list \<Rightarrow> string" where
  "b32_group bs = map (\<lambda>i. b32_char (bytes_number bs div 32 ^ (8 - 1 - i) mod 32)) [0..<8]"

fun b32encode :: "nat list \<Rightarrow> string" where
  "b32encode (a # b # c # d # e # rest) = b32_group [a, b, c, d, e] @ b32encode rest"
| "b32encode [] = []"
| "b32encode bs =
     (let padding = (if length bs = 1 then 6 else if length bs = 2 then 4 else if length bs = 3 then 3 else 1)
      in take (8 - padding) (b32_group (bs @ replicate (5 - length bs) 0)) @ replicate padding (CHR ''=''))"

definition generate_mfa_secret :: "nat list \<Rightarrow> string" where
  "generate_mfa_secret raw_secret = rev (dropWhile (\<lambda>c. c = CHR ''='') (rev (b32encode raw_secret)))"

definition decode_secret :: "string \<Rightarrow> nat list result" where
  "decode_secret secret =
     (let normalized = py_upper (py_strip secret); padding = replicate ((8 - length normalized mod 8) mod 8) (CHR ''='')
      in b32decode (normalized @ padding))"

type_synonym mac = "nat list \<Rightarrow> nat list \<Rightarrow> nat list"

definition totp_counter :: "datetime \<Rightarrow> int" where
  "totp_counter t = (t div 1000000) div TOTP_INTERVAL_SECONDS"

definition totp_value :: "nat list \<Rightarrow> nat" where
  "totp_value digest =
     (let offset = last digest mod 16; b = take 4 (drop offset digest);
          n = bytes_number b
      in (n mod 2 ^ 31) mod 10 ^ 6)"

definition six_digits :: "nat \<Rightarrow> string" where
  "six_digits n = map (\<lambda>i. digit_char (n div 10 ^ (5 - i) mod 10)) [0..<6]"

definition generate_totp_code :: "mac \<Rightarrow> string \<Rightarrow> datetime \<Rightarrow> string result" where
  "generate_totp_code mac secret at_time =
     rbind (decode_secret secret) (\<lambda>key.
       Inr (six_digits (totp_value (mac key (bytes_be 8 (nat (totp_counter at_time)))))))"

fun totp_windows :: "mac \<Rightarrow> string \<Rightarrow> string \<Rightarrow> datetime \<Rightarrow> int list \<Rightarrow> bool result" where
  "totp_windows mac secret code at_time [] = Inr False"
| "totp_windows mac secret code at_time (step # steps) =
     rbind (generate_totp_code mac secret (at_time + step * TOTP_INTERVAL_SECONDS * 1000000)) (\<lambda>expected.
       if expected = code then Inr True else totp_windows mac secret code at_time steps)"

definition verify_totp_code :: "mac \<Rightarrow> string option \<Rightarrow> string option \<Rightarrow> datetime \<Rightarrow> bool result" where
  "verify_totp_code mac secret code at_time =
     (let normalized_secret = py_upper (py_strip (case secret of None \<Rightarrow> [] | Some s \<Rightarrow> s));
          normalized_code = filter is_digit (py_strip (case code of None \<Rightarrow> [] | Some s \<Rightarrow> s))
      in if normalized_secret = [] \<or> length normalized_code \<noteq> 6 then Inr False
         else totp_windows mac normalized_secret normalized_code at_time [-1, 0, 1])"

end
