(* ===== verification/Auth_Service.thy ===== *)
theory Auth_Service
  imports Auth_Accounts Auth_Secrets
begin

text \<open>
  The operations of \<^verbatim>\<open>AuthService\<close> (\<^verbatim>\<open>core/platform/auth/service.py\<close>,
  \<^verbatim>\<open>validation.py\<close>) on the tables of accounts and on the context of the signed-in
  user, whose validator is the service itself.

  A call takes no time: the instants it reads are one, \<open>ae_now\<close>. The environment variables,
  identifiers, random bytes, the key derivation and the message authentication code are arguments.
\<close>

record auth_env =
  ae_now :: datetime
  ae_uuid :: "nat \<Rightarrow> string"
  ae_getenv :: "string \<Rightarrow> string option"
  ae_kdf :: kdf
  ae_mac :: mac
  ae_salt :: "nat list"
  ae_secret :: "nat list"

record auth_state =
  au_db :: "(auth_db, auth_row) session"
  au_context :: "user_session_principal option"

type_synonym 'a dbop = "(auth_db, auth_row, 'a) sop"
type_synonym 'a aop = "(auth_state, 'a) op"

definition on_db :: "'a dbop \<Rightarrow> 'a aop" where
  "on_db m s = (case m (au_db s) of (r, d) \<Rightarrow> (r, s\<lparr>au_db := d\<rparr>))"

definition read_db :: "(auth_db \<Rightarrow> 'a result) \<Rightarrow> 'a dbop" where
  "read_db f = obind (oget s_working) (\<lambda>db. olift (f db))"

definition minutes :: "int \<Rightarrow> datetime" where
  "minutes n = n * 60000000"

section \<open>Policy\<close>

text \<open>\<open>os.getenv(name, default).strip() or default\<close>, read as a number of at least \<open>lo\<close>.\<close>

definition env_int :: "auth_env \<Rightarrow> string \<Rightarrow> int \<Rightarrow> int \<Rightarrow> int" where
  "env_int env name lo dflt =
     (let raw = py_strip (case ae_getenv env name of None \<Rightarrow> py_str_int dflt | Some v \<Rightarrow> v);
          raw' = (if raw = [] then py_str_int dflt else raw)
      in (case py_int raw' of None \<Rightarrow> dflt | Some n \<Rightarrow> max lo n))"

definition login_lockout_threshold :: "auth_env \<Rightarrow> int" where
  "login_lockout_threshold env = env_int env ''PM_AUTH_LOCKOUT_ATTEMPTS'' 1 5"

definition login_lockout_minutes :: "auth_env \<Rightarrow> int" where
  "login_lockout_minutes env = env_int env ''PM_AUTH_LOCKOUT_MINUTES'' 1 15"

definition session_timeout_minutes :: "auth_env \<Rightarrow> int" where
  "session_timeout_minutes env = env_int env ''PM_AUTH_SESSION_MINUTES'' 5 480"

section \<open>Validation\<close>

definition is_lower :: "char \<Rightarrow> bool" where
  "is_lower c = (let n = (of_char c :: nat) in 97 \<le> n \<and> n \<le> 122)"

definition is_upper :: "char \<Rightarrow> bool" where
  "is_upper c = (let n = (of_char c :: nat) in 65 \<le> n \<and> n \<le> 90)"

definition validate_password :: "string \<Rightarrow> unit result" where
  "validate_password pwd =
     rbind (raise_if (length pwd < 8) (ValidationError ''WEAK_PASSWORD'')) (\<lambda>_.
     rbind (raise_if (\<not> list_ex is_lower pwd) (ValidationError ''WEAK_PASSWORD'')) (\<lambda>_.
     rbind (raise_if (\<not> list_ex is_upper pwd) (ValidationError ''WEAK_PASSWORD'')) (\<lambda>_.
     raise_if (\<not> list_ex is_digit pwd) (ValidationError ''WEAK_PASSWORD''))))"

definition normalize_email :: "string option \<Rightarrow> string option" where
  "normalize_email email = map_option py_lower (strip_or_none email)"

text \<open>
  The pattern \<^verbatim>\<open>^[A-Za-z0-9._%+-]+@[A-Za-z0-9.-]+\.[A-Za-z]{2,}$\<close>: neither side of
  the separator can contain it, and the last part cannot contain a dot.
\<close>

definition is_letter :: "char \<Rightarrow> bool" where
  "is_letter c = (is_lower c \<or> is_upper c)"

definition email_matches :: "string \<Rightarrow> bool" where
  "email_matches e =
     (case split_at (CHR ''@'') e of
        None \<Rightarrow> False
      | Some (local_part, domain) \<Rightarrow>
          (let top = rev (takeWhile (\<lambda>c. c \<noteq> CHR ''.'') (rev domain));
               rest = rev (dropWhile (\<lambda>c. c \<noteq> CHR ''.'') (rev domain))
           in local_part \<noteq> [] \<and> list_all (\<lambda>c. is_letter c \<or> is_digit c \<or> c \<in> set ''._%+-'') local_part
              \<and> length rest \<ge> 2 \<and> list_all (\<lambda>c. is_letter c \<or> is_digit c \<or> c \<in> set ''.-'') rest
              \<and> length top \<ge> 2 \<and> list_all is_letter top))"

definition validate_email :: "string option \<Rightarrow> unit result" where
  "validate_email email =
     (case email of
        None \<Rightarrow> Inr ()
      | Some e \<Rightarrow> raise_if (\<not> email_matches e) (ValidationError ''INVALID_EMAIL''))"

definition normalize_identity_provider :: "string option \<Rightarrow> string option" where
  "normalize_identity_provider v = map_option py_lower (strip_or_none v)"

definition normalize_federated_subject :: "string option \<Rightarrow> string option" where
  "normalize_federated_subject v = strip_or_none v"

definition normalize_device_label :: "string option \<Rightarrow> string option" where
  "normalize_device_label v = strip_or_none v"

definition validate_federated_identity :: "string option \<Rightarrow> string option \<Rightarrow> unit result" where
  "validate_federated_identity provider subject =
     (if provider \<noteq> None \<and> subject \<noteq> None then Inr ()
      else raise_if (provider \<noteq> None \<or> subject \<noteq> None) (ValidationError ''FEDERATED_IDENTITY_INCOMPLETE''))"

definition validate_session_timeout_override :: "int option \<Rightarrow> int option result" where
  "validate_session_timeout_override v =
     (case v of
        None \<Rightarrow> Inr None
      | Some n \<Rightarrow>
          rbind (raise_if (n < 5 \<or> n > 1440) (ValidationError ''AUTH_SESSION_TIMEOUT_INVALID'')) (\<lambda>_. Inr (Some n)))"

definition next_session_expiry :: "auth_env \<Rightarrow> user_account \<Rightarrow> datetime result" where
  "next_session_expiry env u =
     rbind (validate_session_timeout_override (session_timeout_minutes_override u)) (\<lambda>timeout.
     Inr (ae_now env + minutes (case timeout of None \<Rightarrow> session_timeout_minutes env | Some n \<Rightarrow> n)))"

section \<open>Writes\<close>

text \<open>
  An account is saved under its version; the unique columns of the table are checked by the
  statement. The working rows are read and changed at once, an insert waits for the next flush.
\<close>

definition save_user_rows :: "user_account \<Rightarrow> user_account list \<Rightarrow> user_account list result" where
  "save_user_rows u rows =
     rbind (update_with_version_check ua_id ua_version (\<lambda>v r. (user_row r)\<lparr>ua_version := v\<rparr>) u rows) (\<lambda>rows'.
     rbind (raise_if (list_ex (\<lambda>x. ua_id x \<noteq> ua_id u \<and> (ua_username x = ua_username u \<or> same_identity u x)) rows)
       (IntegrityError ''users'')) (\<lambda>_. Inr rows'))"

definition update_user :: "user_account \<Rightarrow> user_account dbop" where
  "update_user u =
     obind (read_db (\<lambda>db. save_user_rows u (ad_users db))) (\<lambda>rows.
     obind (omodify (\<lambda>s. s\<lparr>s_working := (s_working s)\<lparr>ad_users := rows\<rparr>\<rparr>)) (\<lambda>_.
     oret (u\<lparr>ua_version := ua_version u + 1\<rparr>)))"

definition update_auth_session :: "auth_session \<Rightarrow> unit dbop" where
  "update_auth_session x =
     obind (read_db (\<lambda>db. raise_if (get_session db (as_id x) = None) ValueError)) (\<lambda>_.
     omodify (\<lambda>s. s\<lparr>s_working := (s_working s)\<lparr>ad_sessions := replace_row as_id x (ad_sessions (s_working s))\<rparr>\<rparr>))"

definition list_by_user :: "auth_db \<Rightarrow> string \<Rightarrow> auth_session list" where
  "list_by_user db user_id = sort_key (\<lambda>x. - issued_at x) (filter (\<lambda>x. as_user_id x = user_id) (ad_sessions db))"

definition delete_user_role :: "string \<Rightarrow> string \<Rightarrow> unit dbop" where
  "delete_user_role user_id role =
     omodify (\<lambda>s. s\<lparr>s_working := (s_working s)\<lparr>ad_user_roles :=
       filter (\<lambda>b. \<not> (bd_left b = user_id \<and> bd_right b = role)) (ad_user_roles (s_working s))\<rparr>\<rparr>)"

definition auth_changed :: "string \<Rightarrow> unit dbop" where
  "auth_changed user_id = emit ''auth_changed'' user_id"

text \<open>An audit entry whose commit fails is logged as a warning and forgotten.\<close>

definition record_auth_event :: "string \<Rightarrow> string \<Rightarrow> string option \<Rightarrow> unit dbop" where
  "record_auth_event action username user_id s =
     (let entity = (case user_id of Some i \<Rightarrow> if i \<noteq> [] then i else if username \<noteq> [] then username else ''unknown''
                                  | None \<Rightarrow> if username \<noteq> [] then username else ''unknown'')
      in (Inr (), snd (record_audit auth_insert action ''auth_session'' entity s)))"

definition rotate_session_revision :: "user_account \<Rightarrow> user_account" where
  "rotate_session_revision u = u\<lparr>ua_session_revision := max 1 (rev_or_1 (ua_session_revision u)) + 1\<rparr>"

definition revoke_all_persisted_sessions :: "auth_env \<Rightarrow> user_account \<Rightarrow> unit dbop" where
  "revoke_all_persisted_sessions env u =
     obind (oget (\<lambda>s. list_by_user (s_working s) (ua_id u))) (\<lambda>sessions.
     ofor (\<lambda>x. if revoked_at x \<noteq> None then oret ()
               else update_auth_session (x\<lparr>revoked_at := Some (ae_now env), as_updated_at := ae_now env\<rparr>)) sessions)"

definition assign_roles_for_user :: "auth_env \<Rightarrow> string \<Rightarrow> string list \<Rightarrow> unit dbop" where
  "assign_roles_for_user env user_id names =
     ofor (\<lambda>name.
       obind (read_db (\<lambda>db. require_role_by_name db name)) (\<lambda>role.
       obind (oget (\<lambda>s. binding_exists (ad_user_roles (s_working s)) user_id (role_id role))) (\<lambda>bound.
       if bound then oret ()
       else obind (fresh_uuid (ae_uuid env)) (\<lambda>i.
            session_add (UserRoleRow \<lparr>bd_id = i, bd_left = user_id, bd_right = role_id role\<rparr>))))) names"

definition enforce_duties :: "string list \<Rightarrow> unit dbop" where
  "enforce_duties names = read_db (\<lambda>db.
     enforce_separation_of_duties default_separation_of_duties_rules
       (\<lambda>n. map_option role_name (find_row role_name (ad_roles db) n)) names)"

text \<open>\<open>_require_user\<close>, and the commit with its notification that ends most operations.\<close>

definition load_user :: "string \<Rightarrow> user_account dbop" where
  "load_user user_id = read_db (\<lambda>db. require_user db user_id)"

definition publish :: "string \<Rightarrow> unit dbop" where
  "publish user_id = obind (commit auth_insert) (\<lambda>_. auth_changed user_id)"

definition save_user :: "user_account \<Rightarrow> user_account dbop" where
  "save_user u = obind (update_user u) (\<lambda>u'. obind (publish (ua_id u)) (\<lambda>_. oret u'))"

section \<open>The context of the signed-in user\<close>

definition context_of :: "auth_env \<Rightarrow> auth_state \<Rightarrow> user_session" where
  "context_of env s =
     \<lparr>us_principal = au_context s,
      us_validator = Some (validate_session_principal (ae_now env) (s_working (au_db s)))\<rparr>"

definition check_permission :: "auth_env \<Rightarrow> string \<Rightarrow> unit aop" where
  "check_permission env code s =
     (case require_permission (ae_now env) code (Some (context_of env s)) of
        (r, us) \<Rightarrow> (r, s\<lparr>au_context := (case us of None \<Rightarrow> None | Some c \<Rightarrow> us_principal c)\<rparr>))"

definition check_any_permission :: "auth_env \<Rightarrow> string list \<Rightarrow> unit aop" where
  "check_any_permission env codes s =
     (case require_any_permission (ae_now env) codes (Some (context_of env s)) of
        (r, us) \<Rightarrow> (r, s\<lparr>au_context := (case us of None \<Rightarrow> None | Some c \<Rightarrow> us_principal c)\<rparr>))"

definition resolve_current_principal_session_id ::
  "auth_db \<Rightarrow> user_session_principal option \<Rightarrow> string \<Rightarrow> string option" where
  "resolve_current_principal_session_id db current user_id =
     (case current of
        None \<Rightarrow> None
      | Some p \<Rightarrow>
          (if p_user_id p \<noteq> user_id then None
           else (case strip_or_none (session_id p) of
                   None \<Rightarrow> None
                 | Some i \<Rightarrow>
                     (case get_session db i of
                        None \<Rightarrow> None
                      | Some x \<Rightarrow> (if revoked_at x \<noteq> None then None else Some i)))))"

definition refresh_current_session_if_user :: "auth_env \<Rightarrow> string \<Rightarrow> unit aop" where
  "refresh_current_session_if_user env user_id s =
     (let db = s_working (au_db s) in
      case au_context s of
        None \<Rightarrow> (Inr (), s)
      | Some p \<Rightarrow>
          (if p_user_id p \<noteq> user_id then (Inr (), s)
           else (case get_user db user_id of
                   None \<Rightarrow> (Inr (), s\<lparr>au_context := None\<rparr>)
                 | Some u \<Rightarrow>
                     (if \<not> ua_is_active u then (Inr (), s\<lparr>au_context := None\<rparr>)
                      else if (case ua_session_expires_at u of None \<Rightarrow> False | Some t \<Rightarrow> ae_now env \<ge> t)
                      then (Inr (), s\<lparr>au_context := None\<rparr>)
                      else (case build_principal db u (resolve_current_principal_session_id db (au_context s) user_id) of
                              Inl err \<Rightarrow> (Inl err, s)
                            | Inr q \<Rightarrow> (Inr (), s\<lparr>au_context := Some (normalize_principal q)\<rparr>))))))"

end
