(* ===== verification/Auth_Operations.thy ===== *)
theory Auth_Operations
  imports Auth_Service
begin

text \<open>
  The operations of \<^verbatim>\<open>AuthService\<close>: registration and bootstrap, sign-in with lockout
  and one-time codes, passwords, roles, profile, sessions; and the sign-in of
  \<^verbatim>\<open>ui/platform/shared/auth/login_dialog.py\<close>, which installs the principal.
\<close>

section \<open>Sign-in\<close>

definition register_failed_login :: "auth_env \<Rightarrow> user_account \<Rightarrow> user_account dbop" where
  "register_failed_login env u =
     (let attempts = failed_login_attempts u + 1;
          u1 = u\<lparr>failed_login_attempts := attempts\<rparr>;
          u2 = (if attempts \<ge> login_lockout_threshold env
                then u1\<lparr>locked_until := Some (ae_now env + minutes (login_lockout_minutes env))\<rparr> else u1)
      in save_user (u2\<lparr>ua_updated_at := Some (ae_now env)\<rparr>))"

text \<open>An elapsed lock is lifted and committed before anything else is checked.\<close>

definition lift_elapsed_lock :: "auth_env \<Rightarrow> user_account \<Rightarrow> user_account dbop" where
  "lift_elapsed_lock env u =
     (case locked_until u of
        None \<Rightarrow> oret u
      | Some t \<Rightarrow>
          (if t \<le> ae_now env
           then save_user (u\<lparr>failed_login_attempts := 0, locked_until := None, ua_updated_at := Some (ae_now env)\<rparr>)
           else oret u))"

definition login_failed :: "string \<Rightarrow> string option \<Rightarrow> error \<Rightarrow> 'a dbop" where
  "login_failed username user_id err =
     obind (record_auth_event ''auth.login.failed'' username user_id) (\<lambda>_. oraise err)"

definition refuse_locked :: "auth_env \<Rightarrow> string \<Rightarrow> user_account \<Rightarrow> unit dbop" where
  "refuse_locked env username u =
     (case locked_until u of
        None \<Rightarrow> oret ()
      | Some t \<Rightarrow>
          (if t > ae_now env then login_failed username (Some (ua_id u)) (ValidationError ''AUTH_LOCKED'')
           else oret ()))"

definition check_mfa :: "auth_env \<Rightarrow> string \<Rightarrow> user_account \<Rightarrow> string option \<Rightarrow> unit dbop" where
  "check_mfa env username u mfa_code =
     (if \<not> mfa_enabled u then oret ()
      else obind (olift (verify_totp_code (ae_mac env) (mfa_secret u) mfa_code (ae_now env))) (\<lambda>ok.
           if ok then oret ()
           else obind (register_failed_login env u) (\<lambda>_.
                login_failed username (Some (ua_id u))
                  (ValidationError (if strip_or_none mfa_code = None then ''AUTH_MFA_REQUIRED'' else ''AUTH_MFA_FAILED'')))))"

definition complete_successful_authentication ::
  "auth_env \<Rightarrow> string \<Rightarrow> string option \<Rightarrow> user_account \<Rightarrow> user_account aop" where
  "complete_successful_authentication env auth_method device_label u =
     obind (on_db (
       obind (olift (next_session_expiry env u)) (\<lambda>expires_at.
       obind (fresh_uuid (ae_uuid env)) (\<lambda>sid.
       (let label = normalize_device_label device_label;
            u1 = u\<lparr>failed_login_attempts := 0, locked_until := None, last_login_at := Some (ae_now env),
                   ua_last_login_auth_method := Some auth_method, last_login_device_label := label,
                   ua_session_expires_at := Some expires_at, ua_updated_at := Some (ae_now env),
                   active_session_id := Some sid\<rparr>
        in obind (session_add (SessionRow
             (create_auth_session sid (ae_now env) (ua_id u) (rev_or_1 (ua_session_revision u)) auth_method expires_at label))) (\<lambda>_.
           obind (save_user u1) (\<lambda>u2.
           obind (record_auth_event ''auth.login.success'' (ua_username u) (Some (ua_id u))) (\<lambda>_.
           oret u2)))))))) (\<lambda>u2.
     obind (refresh_current_session_if_user env (ua_id u)) (\<lambda>_. oret u2))"

definition authenticate ::
  "auth_env \<Rightarrow> string \<Rightarrow> string \<Rightarrow> string option \<Rightarrow> string option \<Rightarrow> user_account aop" where
  "authenticate env username raw_password mfa_code device_label =
     (let normalized = py_lower (py_strip username) in
      obind (on_db (
        obind (oget (\<lambda>s. get_by_username (s_working s) normalized)) (\<lambda>found.
        case found of
          None \<Rightarrow> login_failed normalized None (ValidationError ''AUTH_FAILED'')
        | Some u0 \<Rightarrow>
            (if \<not> ua_is_active u0 then login_failed normalized (Some (ua_id u0)) (ValidationError ''AUTH_FAILED'')
             else obind (lift_elapsed_lock env u0) (\<lambda>u.
                  obind (refuse_locked env normalized u) (\<lambda>_.
                  obind (olift (verify_password (ae_kdf env) raw_password (password_hash u))) (\<lambda>ok.
                  obind (if ok then oret ()
                         else obind (register_failed_login env u) (\<lambda>_.
                              login_failed normalized (Some (ua_id u)) (ValidationError ''AUTH_FAILED''))) (\<lambda>_.
                  obind (check_mfa env normalized u mfa_code) (\<lambda>_.
                  oret u)))))))))
        (complete_successful_authentication env ''password'' device_label))"

definition authenticate_federated ::
  "auth_env \<Rightarrow> string option \<Rightarrow> string option \<Rightarrow> string option \<Rightarrow> string option \<Rightarrow> user_account aop" where
  "authenticate_federated env provider subject mfa_code device_label =
     (let provider' = normalize_identity_provider provider; subject' = normalize_federated_subject subject;
          str = (\<lambda>v. case v of None \<Rightarrow> ''None'' | Some x \<Rightarrow> x);
          audit_username = str provider' @ '':'' @ str subject'
      in obind (on_db (
           obind (olift (validate_federated_identity provider' subject')) (\<lambda>_.
           obind (oget (\<lambda>s. get_by_federated_identity (s_working s) provider' subject')) (\<lambda>found.
           case found of
             None \<Rightarrow> login_failed audit_username None (ValidationError ''AUTH_FAILED'')
           | Some u0 \<Rightarrow>
               (if \<not> ua_is_active u0 then login_failed audit_username (Some (ua_id u0)) (ValidationError ''AUTH_FAILED'')
                else obind (lift_elapsed_lock env u0) (\<lambda>u.
                     obind (refuse_locked env audit_username u) (\<lambda>_.
                     obind (check_mfa env audit_username u mfa_code) (\<lambda>_.
                     oret u))))))))
           (complete_successful_authentication env (''federated:'' @ str provider') device_label))"

text \<open>
  The sign-in dialog strips the name, needs both fields, gives no one-time code and installs the
  principal of the account it got.
\<close>

definition sign_in :: "auth_env \<Rightarrow> string \<Rightarrow> string \<Rightarrow> bool aop" where
  "sign_in env username password =
     (if py_strip username = [] \<or> password = [] then oret False
      else obind (authenticate env (py_strip username) password None None) (\<lambda>u.
           obind (on_db (read_db (\<lambda>db. build_principal db u None))) (\<lambda>p.
           obind (omodify (\<lambda>s. s\<lparr>au_context := Some (normalize_principal p)\<rparr>)) (\<lambda>_. oret True))))"

section \<open>Accounts\<close>

text \<open>
  A failed insert is an \<open>IntegrityError\<close>; its text contains the statement, so for the
  table of users it always contains the column name \<^verbatim>\<open>username\<close>.
\<close>

definition user_conflict :: "string \<Rightarrow> string \<Rightarrow> error" where
  "user_conflict otherwise table = ValidationError (if table = ''users'' then ''USERNAME_EXISTS'' else otherwise)"

record registration =
  rg_username :: string
  rg_password :: string
  rg_display_name :: "string option"
  rg_email :: "string option"
  rg_is_active :: bool
  rg_role_names :: "string list"
  rg_must_change_password :: bool
  rg_identity_provider :: "string option"
  rg_federated_subject :: "string option"
  rg_session_timeout :: "int option"

definition register_checks :: "registration \<Rightarrow> int option dbop" where
  "register_checks rg =
     (let name = py_lower (py_strip (rg_username rg)); email = normalize_email (rg_email rg);
          provider = normalize_identity_provider (rg_identity_provider rg);
          subject = normalize_federated_subject (rg_federated_subject rg)
      in obind (oguard (name = []) (ValidationError ''USERNAME_REQUIRED'')) (\<lambda>_.
         obind (olift (validate_email email)) (\<lambda>_.
         obind (olift (validate_password (rg_password rg))) (\<lambda>_.
         obind (olift (validate_federated_identity provider subject)) (\<lambda>_.
         obind (olift (validate_session_timeout_override (rg_session_timeout rg))) (\<lambda>timeout.
         obind (read_db (\<lambda>db. raise_if (get_by_username db name \<noteq> None) (ValidationError ''USERNAME_EXISTS''))) (\<lambda>_.
         obind (read_db (\<lambda>db. raise_if (provider \<noteq> None \<and> subject \<noteq> None \<and> get_by_federated_identity db provider subject \<noteq> None)
                  (ValidationError ''FEDERATED_IDENTITY_EXISTS''))) (\<lambda>_.
         oret timeout))))))))"

definition register_user_db :: "auth_env \<Rightarrow> registration \<Rightarrow> bool \<Rightarrow> user_account dbop" where
  "register_user_db env rg commits =
     obind (register_checks rg) (\<lambda>timeout.
     (let roles = (if rg_role_names rg = [] then [''viewer''] else rg_role_names rg) in
      obind (enforce_duties roles) (\<lambda>_.
      obind (fresh_uuid (ae_uuid env)) (\<lambda>i.
      (let u = (create_user i (ae_now env) (py_lower (py_strip (rg_username rg)))
                  (hash_password (ae_kdf env) (ae_salt env) (rg_password rg))
                  (strip_or_none (rg_display_name rg)) (normalize_email (rg_email rg)) (rg_is_active rg))
               \<lparr>ua_must_change_password := rg_must_change_password rg,
                ua_identity_provider := normalize_identity_provider (rg_identity_provider rg),
                federated_subject := normalize_federated_subject (rg_federated_subject rg),
                session_timeout_minutes_override := timeout\<rparr>
       in obind (try_integrity (user_conflict ''USER_CREATE_CONFLICT'') (
            obind (session_flush auth_insert) (\<lambda>_.
            obind (session_add (UserRow u)) (\<lambda>_.
            obind (assign_roles_for_user env i roles) (\<lambda>_.
            obind (session_flush auth_insert) (\<lambda>_.
            if commits then commit auth_insert else oret ())))))) (\<lambda>_.
          obind (auth_changed i) (\<lambda>_. oret u)))))))"

definition register_user :: "auth_env \<Rightarrow> registration \<Rightarrow> user_account aop" where
  "register_user env rg =
     obind (check_permission env ''auth.manage'') (\<lambda>_. on_db (register_user_db env rg True))"

text \<open>An operation on an account ends with the refresh of the context.\<close>

definition on_account :: "auth_env \<Rightarrow> string \<Rightarrow> (user_account \<Rightarrow> 'a dbop) \<Rightarrow> 'a aop" where
  "on_account env user_id change =
     obind (on_db (obind (load_user user_id) change)) (\<lambda>x.
     obind (refresh_current_session_if_user env user_id) (\<lambda>_. oret x))"

definition set_password :: "auth_env \<Rightarrow> string \<Rightarrow> bool \<Rightarrow> user_account \<Rightarrow> unit dbop" where
  "set_password env new_password must_change u =
     obind (olift (validate_password new_password)) (\<lambda>_.
     (let u1 = rotate_session_revision
           (u\<lparr>password_hash := hash_password (ae_kdf env) (ae_salt env) new_password,
              ua_updated_at := Some (ae_now env), password_changed_at := Some (ae_now env),
              ua_must_change_password := must_change\<rparr>)
      in obind (olift (next_session_expiry env u1)) (\<lambda>expires_at.
         obind (revoke_all_persisted_sessions env u1) (\<lambda>_.
         obind (save_user (u1\<lparr>ua_session_expires_at := Some expires_at\<rparr>)) (\<lambda>_. oret ())))))"

definition change_password :: "auth_env \<Rightarrow> string \<Rightarrow> string \<Rightarrow> string \<Rightarrow> unit aop" where
  "change_password env user_id current_password new_password =
     on_account env user_id (\<lambda>u.
       obind (olift (verify_password (ae_kdf env) current_password (password_hash u))) (\<lambda>ok.
       obind (oguard (\<not> ok) (ValidationError ''AUTH_FAILED'')) (\<lambda>_.
       set_password env new_password False u)))"

definition reset_user_password :: "auth_env \<Rightarrow> string \<Rightarrow> string \<Rightarrow> unit aop" where
  "reset_user_password env user_id new_password =
     obind (check_permission env ''auth.manage'') (\<lambda>_.
     on_account env user_id (set_password env new_password True))"

definition assign_role :: "auth_env \<Rightarrow> string \<Rightarrow> string \<Rightarrow> unit aop" where
  "assign_role env user_id name =
     obind (check_permission env ''auth.manage'') (\<lambda>_.
     on_account env user_id (\<lambda>u.
       obind (read_db (\<lambda>db. get_user_role_names db (ua_id u))) (\<lambda>existing.
       obind (enforce_duties (existing @ [name])) (\<lambda>_.
       obind (read_db (\<lambda>db. require_role_by_name db name)) (\<lambda>role.
       obind (oget (\<lambda>s. binding_exists (ad_user_roles (s_working s)) (ua_id u) (role_id role))) (\<lambda>bound.
       if bound then oret ()
       else obind (fresh_uuid (ae_uuid env)) (\<lambda>i.
            obind (session_add (UserRoleRow \<lparr>bd_id = i, bd_left = ua_id u, bd_right = role_id role\<rparr>)) (\<lambda>_.
            publish (ua_id u))))))))) "

definition revoke_role :: "auth_env \<Rightarrow> string \<Rightarrow> string \<Rightarrow> unit aop" where
  "revoke_role env user_id name =
     obind (check_permission env ''auth.manage'') (\<lambda>_.
     on_account env user_id (\<lambda>u.
       obind (read_db (\<lambda>db. require_role_by_name db name)) (\<lambda>role.
       obind (delete_user_role (ua_id u) (role_id role)) (\<lambda>_. publish (ua_id u)))))"

definition list_users :: "auth_env \<Rightarrow> user_account list aop" where
  "list_users env =
     obind (check_any_permission env [''auth.manage'', ''auth.read'', ''access.manage'', ''security.manage'']) (\<lambda>_.
     on_db (oget (\<lambda>s. ad_users (s_working s))))"

definition list_roles :: "auth_env \<Rightarrow> auth_role list aop" where
  "list_roles env =
     obind (check_any_permission env [''auth.manage'', ''auth.read'']) (\<lambda>_.
     on_db (oget (\<lambda>s. ad_roles (s_working s))))"

definition set_user_active :: "auth_env \<Rightarrow> string \<Rightarrow> bool \<Rightarrow> user_account aop" where
  "set_user_active env user_id active =
     obind (check_permission env ''auth.manage'') (\<lambda>_.
     on_account env user_id (\<lambda>u. save_user (u\<lparr>ua_is_active := active, ua_updated_at := Some (ae_now env)\<rparr>)))"

definition profile_username :: "string option \<Rightarrow> user_account \<Rightarrow> user_account dbop" where
  "profile_username username u =
     (case username of
        None \<Rightarrow> oret u
      | Some raw \<Rightarrow>
          (let normalized = py_lower (py_strip raw) in
           obind (oguard (normalized = []) (ValidationError ''USERNAME_REQUIRED'')) (\<lambda>_.
           obind (read_db (\<lambda>db. raise_if
                    (case get_by_username db normalized of None \<Rightarrow> False | Some x \<Rightarrow> ua_id x \<noteq> ua_id u)
                    (ValidationError ''USERNAME_EXISTS''))) (\<lambda>_.
           oret (u\<lparr>ua_username := normalized\<rparr>)))))"

definition profile_email :: "string option \<Rightarrow> user_account \<Rightarrow> user_account dbop" where
  "profile_email email u =
     (case email of
        None \<Rightarrow> oret u
      | Some raw \<Rightarrow>
          obind (olift (validate_email (normalize_email (Some raw)))) (\<lambda>_.
          oret (u\<lparr>ua_email := normalize_email (Some raw)\<rparr>)))"

definition update_user_profile ::
  "auth_env \<Rightarrow> string \<Rightarrow> string option \<Rightarrow> string option \<Rightarrow> string option \<Rightarrow> user_account aop" where
  "update_user_profile env user_id username display_name email =
     obind (check_permission env ''auth.manage'') (\<lambda>_.
     on_account env user_id (\<lambda>u0.
       obind (profile_username username u0) (\<lambda>u1.
       obind (profile_email email
                (case display_name of None \<Rightarrow> u1 | Some d \<Rightarrow> u1\<lparr>ua_display_name := strip_or_none (Some d)\<rparr>)) (\<lambda>u2.
       obind (try_integrity (user_conflict ''USER_UPDATE_CONFLICT'') (
         obind (update_user (u2\<lparr>ua_updated_at := Some (ae_now env)\<rparr>)) (\<lambda>u3.
         obind (commit auth_insert) (\<lambda>_. oret u3)))) (\<lambda>u3.
       obind (auth_changed (ua_id u3)) (\<lambda>_. oret u3))))))"

definition unlock_user_account :: "auth_env \<Rightarrow> string \<Rightarrow> user_account aop" where
  "unlock_user_account env user_id =
     obind (check_any_permission env [''auth.manage'', ''security.manage'']) (\<lambda>_.
     on_account env user_id (\<lambda>u.
       save_user (u\<lparr>failed_login_attempts := 0, locked_until := None, ua_updated_at := Some (ae_now env)\<rparr>)))"

definition link_federated_identity ::
  "auth_env \<Rightarrow> string \<Rightarrow> string option \<Rightarrow> string option \<Rightarrow> user_account aop" where
  "link_federated_identity env user_id provider subject =
     (let provider' = normalize_identity_provider provider; subject' = normalize_federated_subject subject in
      obind (check_any_permission env [''auth.manage'', ''security.manage'']) (\<lambda>_.
      on_account env user_id (\<lambda>u.
        obind (olift (validate_federated_identity provider' subject')) (\<lambda>_.
        obind (read_db (\<lambda>db. raise_if
                 (case get_by_federated_identity db provider' subject' of None \<Rightarrow> False | Some x \<Rightarrow> ua_id x \<noteq> ua_id u)
                 (ValidationError ''FEDERATED_IDENTITY_EXISTS''))) (\<lambda>_.
        save_user (u\<lparr>ua_identity_provider := provider', federated_subject := subject',
                     ua_updated_at := Some (ae_now env)\<rparr>))))))"

definition provision_mfa_secret :: "auth_env \<Rightarrow> string \<Rightarrow> string aop" where
  "provision_mfa_secret env user_id =
     obind (check_any_permission env [''auth.manage'', ''security.manage'']) (\<lambda>_.
     on_account env user_id (\<lambda>u.
       (let secret = generate_mfa_secret (ae_secret env) in
        obind (save_user (u\<lparr>mfa_secret := Some secret, mfa_enabled := False, ua_updated_at := Some (ae_now env)\<rparr>)) (\<lambda>_.
        oret secret))))"

definition enable_user_mfa :: "auth_env \<Rightarrow> string \<Rightarrow> string \<Rightarrow> user_account aop" where
  "enable_user_mfa env user_id verification_code =
     obind (check_any_permission env [''auth.manage'', ''security.manage'']) (\<lambda>_.
     on_account env user_id (\<lambda>u.
       obind (olift (verify_totp_code (ae_mac env) (mfa_secret u) (Some verification_code) (ae_now env))) (\<lambda>ok.
       obind (oguard (\<not> ok) (ValidationError ''AUTH_MFA_FAILED'')) (\<lambda>_.
       save_user (u\<lparr>mfa_enabled := True, ua_updated_at := Some (ae_now env)\<rparr>)))))"

definition disable_user_mfa :: "auth_env \<Rightarrow> string \<Rightarrow> user_account aop" where
  "disable_user_mfa env user_id =
     obind (check_any_permission env [''auth.manage'', ''security.manage'']) (\<lambda>_.
     on_account env user_id (\<lambda>u. save_user (u\<lparr>mfa_enabled := False, ua_updated_at := Some (ae_now env)\<rparr>)))"

section \<open>Sessions\<close>

definition set_user_session_policy :: "auth_env \<Rightarrow> string \<Rightarrow> int option \<Rightarrow> user_account aop" where
  "set_user_session_policy env user_id override =
     obind (check_any_permission env [''auth.manage'', ''security.manage'']) (\<lambda>_.
     on_account env user_id (\<lambda>u.
       obind (olift (validate_session_timeout_override override)) (\<lambda>timeout.
       (let u1 = rotate_session_revision
             (u\<lparr>session_timeout_minutes_override := timeout, ua_updated_at := Some (ae_now env)\<rparr>)
        in obind (olift (next_session_expiry env u1)) (\<lambda>expires_at.
           obind (revoke_all_persisted_sessions env u1) (\<lambda>_.
           save_user (u1\<lparr>ua_session_expires_at := Some expires_at\<rparr>)))))))"

definition revoke_user_sessions :: "auth_env \<Rightarrow> string \<Rightarrow> user_account aop" where
  "revoke_user_sessions env user_id =
     obind (check_any_permission env [''auth.manage'', ''security.manage'']) (\<lambda>_.
     on_account env user_id (\<lambda>u.
       (let u1 = (rotate_session_revision u)\<lparr>ua_session_expires_at := Some (ae_now env), ua_updated_at := Some (ae_now env)\<rparr>
        in obind (revoke_all_persisted_sessions env u1) (\<lambda>_.
           obind (save_user u1) (\<lambda>u2.
           obind (record_auth_event ''auth.session.revoked'' (ua_username u) (Some (ua_id u))) (\<lambda>_.
           oret u2))))))"

definition list_user_sessions :: "auth_env \<Rightarrow> string \<Rightarrow> auth_session list aop" where
  "list_user_sessions env user_id =
     obind (check_any_permission env [''auth.read'', ''auth.manage'', ''security.manage'']) (\<lambda>_.
     on_db (obind (load_user user_id) (\<lambda>u. oget (\<lambda>s. list_by_user (s_working s) (ua_id u)))))"

definition revoke_session :: "auth_env \<Rightarrow> string \<Rightarrow> auth_session aop" where
  "revoke_session env sid =
     obind (check_any_permission env [''auth.manage'', ''security.manage'']) (\<lambda>_.
     obind (on_db (
       obind (oget (\<lambda>s. get_session (s_working s) sid)) (\<lambda>found.
       case found of
         None \<Rightarrow> oraise (ValidationError ''AUTH_SESSION_NOT_FOUND'')
       | Some x \<Rightarrow>
           (let x' = x\<lparr>revoked_at := Some (ae_now env), as_updated_at := ae_now env\<rparr> in
            obind (update_auth_session x') (\<lambda>_.
            obind (commit auth_insert) (\<lambda>_.
            obind (record_auth_event ''auth.session.revoked'' [] (Some (as_user_id x'))) (\<lambda>_.
            oret x'))))))) (\<lambda>x.
     obind (refresh_current_session_if_user env (as_user_id x)) (\<lambda>_. oret x)))"

section \<open>The first start\<close>

definition ensure_default_permissions :: "auth_env \<Rightarrow> unit dbop" where
  "ensure_default_permissions env =
     ofor (\<lambda>(code, description).
       obind (oget (\<lambda>s. find_row perm_code (ad_permissions (s_working s)) code)) (\<lambda>found.
       if found \<noteq> None then oret ()
       else obind (fresh_uuid (ae_uuid env)) (\<lambda>i.
            session_add (PermissionRow \<lparr>perm_id = i, perm_code = code, perm_description = description\<rparr>)))) DEFAULT_PERMISSIONS"

definition ensure_default_role :: "auth_env \<Rightarrow> string \<Rightarrow> auth_role dbop" where
  "ensure_default_role env name =
     obind (oget (\<lambda>s. find_row role_name (ad_roles (s_working s)) name)) (\<lambda>found.
     case found of
       Some r \<Rightarrow> oret r
     | None \<Rightarrow>
         obind (fresh_uuid (ae_uuid env)) (\<lambda>i.
         (let r = \<lparr>role_id = i, role_name = name, role_description = ''System role: '' @ name, role_is_system = True\<rparr>
          in obind (session_add (RoleRow r)) (\<lambda>_. oret r))))"

fun ensure_default_roles :: "auth_env \<Rightarrow> string list \<Rightarrow> (string, auth_role) dict dbop" where
  "ensure_default_roles env [] = oret []"
| "ensure_default_roles env (name # names) =
     obind (ensure_default_role env name) (\<lambda>r.
     obind (ensure_default_roles env names) (\<lambda>roles. oret ((name, r) # roles)))"

definition ensure_role_permissions :: "auth_env \<Rightarrow> (string, auth_role) dict \<Rightarrow> unit dbop" where
  "ensure_role_permissions env role_map =
     obind (oget (\<lambda>s. map (\<lambda>p. (perm_code p, perm_id p)) (ad_permissions (s_working s)))) (\<lambda>permission_map.
     ofor (\<lambda>(name, codes).
       case map_of role_map name of
         None \<Rightarrow> oret ()
       | Some role \<Rightarrow>
           ofor (\<lambda>code.
             case map_of permission_map code of
               None \<Rightarrow> oret ()
             | Some pid \<Rightarrow>
                 obind (oget (\<lambda>s. binding_exists (ad_role_permissions (s_working s)) (role_id role) pid)) (\<lambda>bound.
                 if bound then oret ()
                 else obind (fresh_uuid (ae_uuid env)) (\<lambda>i.
                      session_add (RolePermissionRow \<lparr>bd_id = i, bd_left = role_id role, bd_right = pid\<rparr>)))) codes)
       DEFAULT_ROLE_PERMISSIONS)"

definition truthy_env :: "string option \<Rightarrow> bool" where
  "truthy_env value =
     (py_lower (py_strip (case value of None \<Rightarrow> [] | Some v \<Rightarrow> v)) \<in> set [''1'', ''true'', ''yes'', ''y'', ''on''])"

definition resolve_bootstrap_admin_password :: "auth_env \<Rightarrow> string result" where
  "resolve_bootstrap_admin_password env =
     (case ae_getenv env ''PM_ADMIN_PASSWORD'' of
        Some configured \<Rightarrow>
          (if py_strip configured \<noteq> [] then Inr configured
           else if truthy_env (ae_getenv env ''PM_ALLOW_DEFAULT_ADMIN_PASSWORD'') then Inr ''ChangeMe123!''
           else Inl (ValidationError ''AUTH_BOOTSTRAP_PASSWORD_REQUIRED''))
      | None \<Rightarrow>
          (if truthy_env (ae_getenv env ''PM_ALLOW_DEFAULT_ADMIN_PASSWORD'') then Inr ''ChangeMe123!''
           else Inl (ValidationError ''AUTH_BOOTSTRAP_PASSWORD_REQUIRED'')))"

definition bootstrap_admin :: "auth_env \<Rightarrow> (string, auth_role) dict \<Rightarrow> user_account dbop" where
  "bootstrap_admin env role_map =
     (let configured = py_strip (case ae_getenv env ''PM_ADMIN_USERNAME'' of None \<Rightarrow> ''admin'' | Some v \<Rightarrow> v);
          name = py_lower (if configured = [] then ''admin'' else configured)
      in obind (oget (\<lambda>s. get_by_username (s_working s) name)) (\<lambda>found.
         case found of
           None \<Rightarrow>
             obind (olift (resolve_bootstrap_admin_password env)) (\<lambda>password.
             register_user_db env \<lparr>rg_username = name, rg_password = password, rg_display_name = Some ''Administrator'',
                rg_email = None, rg_is_active = True, rg_role_names = [''admin''], rg_must_change_password = True,
                rg_identity_provider = None, rg_federated_subject = None, rg_session_timeout = None\<rparr> False)
         | Some admin \<Rightarrow>
             obind (case map_of role_map ''admin'' of
                      None \<Rightarrow> oret ()
                    | Some role \<Rightarrow>
                        obind (oget (\<lambda>s. binding_exists (ad_user_roles (s_working s)) (ua_id admin) (role_id role))) (\<lambda>bound.
                        if bound then oret ()
                        else obind (fresh_uuid (ae_uuid env)) (\<lambda>i.
                             session_add (UserRoleRow \<lparr>bd_id = i, bd_left = ua_id admin, bd_right = role_id role\<rparr>)))) (\<lambda>_.
             oret admin)))"

definition bootstrap_defaults :: "auth_env \<Rightarrow> user_account dbop" where
  "bootstrap_defaults env =
     obind (ensure_default_permissions env) (\<lambda>_.
     obind (session_flush auth_insert) (\<lambda>_.
     obind (ensure_default_roles env (map fst DEFAULT_ROLE_PERMISSIONS)) (\<lambda>role_map.
     obind (session_flush auth_insert) (\<lambda>_.
     obind (ensure_role_permissions env role_map) (\<lambda>_.
     obind (session_flush auth_insert) (\<lambda>_.
     obind (bootstrap_admin env role_map) (\<lambda>admin.
     obind (commit auth_insert) (\<lambda>_. oret admin))))))))"

end
