(* ===== verification/PM_Preserves.thy ===== *)
theory PM_Preserves
  imports PM_Session
begin

text \<open>
  Invariants of service operations: an operation preserves a predicate on its state when it
  leaves it true however it ends, by a value or by an exception. A predicate on the tables that
  every insert keeps is preserved by all the session primitives.
\<close>

section \<open>Operations that preserve a predicate\<close>

definition preserves :: "('s \<Rightarrow> bool) \<Rightarrow> ('s, 'a) op \<Rightarrow> bool" where
  "preserves I m \<longleftrightarrow> (\<forall>s r t. I s \<longrightarrow> m s = (r, t) \<longrightarrow> I t)"

named_theorems preserve_intros \<open>introduction rules for preserved predicates\<close>

lemma preservesI: "(\<And>s r t. I s \<Longrightarrow> m s = (r, t) \<Longrightarrow> I t) \<Longrightarrow> preserves I m"
  unfolding preserves_def by blast

lemma preservesD: "preserves I m \<Longrightarrow> I s \<Longrightarrow> m s = (r, t) \<Longrightarrow> I t"
  unfolding preserves_def by blast

lemma preserves_simple [preserve_intros]:
  "preserves I (oret x)" "preserves I (oraise e)" "preserves I (oget f)" "preserves I (olift r)"
  "preserves I (oguard b e)"
  by (auto simp: preserves_def oguard_def)

lemma preserves_bind [preserve_intros]:
  assumes "preserves I m" "\<And>x. preserves I (f x)"
  shows "preserves I (obind m f)"
proof (rule preservesI)
  fix s r t assume "I s" "obind m f s = (r, t)"
  from this(2) show "I t"
    by (cases rule: obindE) (use \<open>I s\<close> preservesD [OF assms(1)] preservesD [OF assms(2)] in blast)+
qed

lemma preserves_split [preserve_intros]:
  "preserves I a \<Longrightarrow> preserves I b \<Longrightarrow> preserves I (if c then a else b)"
  "preserves I a \<Longrightarrow> (\<And>x. preserves I (f x)) \<Longrightarrow> preserves I (case z of None \<Rightarrow> a | Some x \<Rightarrow> f x)"
  "(\<And>x y. preserves I (g x y)) \<Longrightarrow> preserves I (case p of (x, y) \<Rightarrow> g x y)"
  "preserves I (h v) \<Longrightarrow> preserves I (let x = v in h x)"
  by (simp_all split: option.splits prod.splits)

lemma preserves_modify: "(\<And>s. I s \<Longrightarrow> I (f s)) \<Longrightarrow> preserves I (omodify f)"
  by (auto simp: preserves_def)

lemma preserves_ofor [preserve_intros]:
  "(\<And>x. preserves I (f x)) \<Longrightarrow> preserves I (ofor f xs)"
  by (induction xs) (auto intro: preserve_intros)

text \<open>The same with what is known of the value an operation returns.\<close>

definition yields :: "('s \<Rightarrow> bool) \<Rightarrow> ('s, 'a) op \<Rightarrow> ('a \<Rightarrow> bool) \<Rightarrow> bool" where
  "yields I m Q \<longleftrightarrow> (\<forall>s r t. I s \<longrightarrow> m s = (r, t) \<longrightarrow> I t \<and> (\<forall>x. r = Inr x \<longrightarrow> Q x))"

named_theorems yield_intros \<open>introduction rules for preserved predicates with a result\<close>

lemma yieldsI:
  "(\<And>s r t. I s \<Longrightarrow> m s = (r, t) \<Longrightarrow> I t \<and> (\<forall>x. r = Inr x \<longrightarrow> Q x)) \<Longrightarrow> yields I m Q"
  unfolding yields_def by blast

lemma yieldsD: "yields I m Q \<Longrightarrow> I s \<Longrightarrow> m s = (r, t) \<Longrightarrow> I t \<and> (\<forall>x. r = Inr x \<longrightarrow> Q x)"
  unfolding yields_def by blast

lemma yields_preserves: "yields I m Q \<Longrightarrow> preserves I m"
  unfolding yields_def preserves_def by blast

lemma preserves_yields: "preserves I m \<Longrightarrow> yields I m (\<lambda>_. True)"
  unfolding yields_def preserves_def by blast

lemma yields_bind [yield_intros]:
  assumes "yields I m Q" "\<And>x. Q x \<Longrightarrow> yields I (f x) R"
  shows "yields I (obind m f) R"
proof (rule yieldsI)
  fix s r t assume "I s" "obind m f s = (r, t)"
  from this(2) show "I t \<and> (\<forall>x. r = Inr x \<longrightarrow> R x)"
  proof (cases rule: obindE)
    case (raised err)
    then show ?thesis using yieldsD [OF assms(1) \<open>I s\<close>] by blast
  next
    case (returned x u)
    have "I u" "Q x" using yieldsD [OF assms(1) \<open>I s\<close> returned(1)] by simp_all
    then show ?thesis using yieldsD [OF assms(2) _ returned(2)] by blast
  qed
qed

lemma yields_ret: "Q x \<Longrightarrow> yields I (oret x) Q"
  by (simp add: yields_def)

lemma yields_simple [yield_intros]:
  "yields I (oret x) (\<lambda>_. True)" "yields I (oraise e) Q" "yields I (olift r) (\<lambda>x. r = Inr x)"
  "yields I (oguard b e) (\<lambda>_. \<not> b)" "yields I (oget f) (\<lambda>x. \<exists>s. I s \<and> x = f s)"
  by (auto simp: yields_def oguard_def)

lemma yields_split [yield_intros]:
  "(c \<Longrightarrow> yields I a Q) \<Longrightarrow> (\<not> c \<Longrightarrow> yields I b Q) \<Longrightarrow> yields I (if c then a else b) Q"
  "(z = None \<Longrightarrow> yields I a Q) \<Longrightarrow> (\<And>x. z = Some x \<Longrightarrow> yields I (f x) Q) \<Longrightarrow> yields I (case z of None \<Rightarrow> a | Some x \<Rightarrow> f x) Q"
  "(\<And>x y. p = (x, y) \<Longrightarrow> yields I (g x y) Q) \<Longrightarrow> yields I (case p of (x, y) \<Rightarrow> g x y) Q"
  by (simp_all split: option.splits prod.splits)

lemma yields_weaken: "yields I m Q \<Longrightarrow> (\<And>x. Q x \<Longrightarrow> R x) \<Longrightarrow> yields I m R"
  unfolding yields_def by blast

section \<open>Predicates on the tables\<close>

text \<open>The committed and the working rows satisfy \<open>P\<close>, the rows that wait satisfy \<open>ok\<close>.\<close>

definition tables :: "('db \<Rightarrow> bool) \<Rightarrow> ('ins \<Rightarrow> bool) \<Rightarrow> ('db, 'ins) session \<Rightarrow> bool" where
  "tables P ok s \<longleftrightarrow> P (s_working s) \<and> P (s_committed s) \<and> list_all ok (s_pending s)"

lemma tables_updates [simp]:
  "tables P ok (s\<lparr>s_events := b\<rparr>) = tables P ok s"
  "tables P ok (s\<lparr>s_audit := c\<rparr>) = tables P ok s" "tables P ok (s\<lparr>s_next_uuid := d\<rparr>) = tables P ok s"
  by (simp_all add: tables_def)

lemma tables_rolled_back: "tables P ok s \<Longrightarrow> tables P ok (s\<lparr>s_working := s_committed s, s_pending := []\<rparr>)"
  by (simp add: tables_def)

lemma preserves_add: "ok x \<Longrightarrow> preserves (tables P ok) (session_add x)"
  by (auto simp: preserves_def tables_def)

lemma preserves_tables_simple [preserve_intros]:
  "preserves (tables P ok) (emit signal i)" "preserves (tables P ok) rollback"
  "preserves (tables P ok) (fresh_uuid uuid)" "preserves (tables P (\<lambda>_. True)) (session_add x)"
  by (auto simp: preserves_def rollback_eq tables_def)

lemma yields_tables_simple [yield_intros]:
  "yields (tables P ok) (emit signal i) (\<lambda>_. True)" "yields (tables P ok) rollback (\<lambda>_. True)"
  "yields (tables P ok) (fresh_uuid uuid) (\<lambda>_. True)" "ok x \<Longrightarrow> yields (tables P ok) (session_add x) (\<lambda>_. True)"
  by (auto intro!: preserves_yields preserve_intros preserves_add)

lemma yields_try [yield_intros]:
  assumes "yields (tables P ok) m Q"
  shows "yields (tables P ok) (try_integrity h m) Q" "yields (tables P ok) (try_rollback m) Q"
proof -
  show "yields (tables P ok) (try_integrity h m) Q"
  proof (rule yieldsI)
    fix s r t assume s: "tables P ok s" and "try_integrity h m s = (r, t)"
    from this(2) show "tables P ok t \<and> (\<forall>x. r = Inr x \<longrightarrow> Q x)"
    proof (cases rule: try_integrity_cases)
      case (raised err u)
      then show ?thesis using yieldsD [OF assms s raised(1)] tables_rolled_back by fastforce
    next
      case (returned x)
      then show ?thesis using yieldsD [OF assms s returned(1)] by simp
    qed
  qed
  show "yields (tables P ok) (try_rollback m) Q"
  proof (rule yieldsI)
    fix s r t assume s: "tables P ok s" and "try_rollback m s = (r, t)"
    from this(2) show "tables P ok t \<and> (\<forall>x. r = Inr x \<longrightarrow> Q x)"
    proof (cases rule: try_rollback_cases)
      case (raised err u)
      then show ?thesis using yieldsD [OF assms s raised(1)] tables_rolled_back by fastforce
    next
      case (returned x)
      then show ?thesis using yieldsD [OF assms s returned(1)] by simp
    qed
  qed
qed

lemma preserves_try [preserve_intros]:
  "preserves (tables P ok) m \<Longrightarrow> preserves (tables P ok) (try_integrity h m)"
  "preserves (tables P ok) m \<Longrightarrow> preserves (tables P ok) (try_rollback m)"
  by (blast intro: yields_preserves yields_try preserves_yields)+

text \<open>What admissible inserts keep, a flush keeps, and so do commits and audit entries.\<close>

locale kept_by_inserts =
  fixes ins :: "'ins \<Rightarrow> 'db \<Rightarrow> 'db result" and P :: "'db \<Rightarrow> bool" and ok :: "'ins \<Rightarrow> bool"
  assumes insert_keeps: "ok x \<Longrightarrow> P db \<Longrightarrow> ins x db = Inr db' \<Longrightarrow> P db'"
begin

lemma flush_keeps: "preserves (tables P ok) (session_flush ins)"
proof (rule preservesI)
  fix s r t assume s: "tables P ok s" and eq: "session_flush ins s = (r, t)"
  show "tables P ok t"
  proof (cases r)
    case (Inl err)
    then show ?thesis using s eq tables_rolled_back by auto
  next
    case (Inr u)
    then obtain db where "rfold ins (s_pending s) (s_working s) = Inr db" "t = s\<lparr>s_working := db, s_pending := []\<rparr>"
      using eq by auto
    moreover from this have "P db"
      using rfold_invariant [of ins "s_pending s" "s_working s" db P] insert_keeps s
      by (auto simp: tables_def list_all_iff)
    ultimately show ?thesis using s by (simp add: tables_def)
  qed
qed

lemma commit_keeps: "preserves (tables P ok) (commit ins)"
  unfolding commit_def
  by (rule preserves_bind [OF flush_keeps], rule preserves_modify) (simp add: tables_def)

lemma audit_keeps: "preserves (tables P ok) (record_audit ins a ty i)"
proof (rule preservesI)
  fix s r t assume s: "tables P ok s" and eq: "record_audit ins a ty i s = (r, t)"
  have body: "preserves (tables P ok) (obind (commit ins) (\<lambda>_. omodify (\<lambda>s. s\<lparr>s_audit := s_audit s @ [(a, ty, i)]\<rparr>)))"
    by (intro preserves_bind commit_keeps preserves_modify) simp
  show "tables P ok t"
    using preservesD [OF body s] s eq unfolding record_audit_def by (auto split: if_splits)
qed

lemmas session_keeps = flush_keeps commit_keeps audit_keeps
lemmas session_yields = session_keeps [THEN preserves_yields]

end

end
