(* ===== verification/Auth_Revocation.thy ===== *)
theory Auth_Revocation
  imports Auth_Operations PM_Preserves
begin

text \<open>
  A revoked session is out for good: no operation of the service makes its row valid again, and
  no principal that names it passes the validation of the context.
\<close>

section \<open>Operations on the accounts\<close>

definition revoked_in :: "string \<Rightarrow> auth_db \<Rightarrow> bool" where
  "revoked_in sid db \<longleftrightarrow> (\<exists>x. get_session db sid = Some x \<and> revoked_at x \<noteq> None)"

lemma insert_keeps_revoked: "revoked_in sid db \<Longrightarrow> auth_insert x db = Inr db' \<Longrightarrow> revoked_in sid db'"
  by (cases x) (auto simp: revoked_in_def get_session_def find_row_append split: if_splits)

interpretation revoked: kept_by_inserts auth_insert "revoked_in sid" "\<lambda>_. True" for sid
  by unfold_locales (rule insert_keeps_revoked)

declare revoked.session_keeps [preserve_intros]

lemma update_user_keeps [preserve_intros]: "preserves (tables (revoked_in sid) (\<lambda>_. True)) (update_user u)"
  unfolding update_user_def read_db_def
  by (intro preserve_intros preserves_modify) (simp add: tables_def revoked_in_def get_session_def)

lemma delete_user_role_keeps [preserve_intros]: "preserves (tables (revoked_in sid) (\<lambda>_. True)) (delete_user_role i j)"
  unfolding delete_user_role_def
  by (intro preserves_modify) (simp add: tables_def revoked_in_def get_session_def)

lemma replace_keeps_revoked:
  "revoked_in sid db \<Longrightarrow> revoked_at x \<noteq> None \<Longrightarrow>
     revoked_in sid (db\<lparr>ad_sessions := replace_row as_id x (ad_sessions db)\<rparr>)"
  by (auto simp: revoked_in_def get_session_def find_row_replace)

lemma update_auth_session_keeps:
  "revoked_at x \<noteq> None \<Longrightarrow> preserves (tables (revoked_in sid) (\<lambda>_. True)) (update_auth_session x)"
  unfolding update_auth_session_def read_db_def
  by (intro preserve_intros preserves_modify) (simp add: tables_def replace_keeps_revoked)

lemma revoke_all_keeps [preserve_intros]:
  "preserves (tables (revoked_in sid) (\<lambda>_. True)) (revoke_all_persisted_sessions env u)"
  unfolding revoke_all_persisted_sessions_def
  by (intro preserve_intros update_auth_session_keeps) simp_all

lemma auth_event_result:
  obtains i where "record_auth_event a n o1 s = (Inr (), snd (record_audit auth_insert a ''auth_session'' i s))"
  unfolding record_auth_event_def Let_def by blast

lemma auth_event_keeps [preserve_intros]: "preserves (tables (revoked_in sid) (\<lambda>_. True)) (record_auth_event a n o1)"
proof (rule preservesI)
  fix s r t assume s: "tables (revoked_in sid) (\<lambda>_. True) s" and eq: "record_auth_event a n o1 s = (r, t)"
  obtain i where "record_auth_event a n o1 s = (Inr (), snd (record_audit auth_insert a ''auth_session'' i s))"
    by (rule auth_event_result)
  then have "record_audit auth_insert a ''auth_session'' i s = (fst (record_audit auth_insert a ''auth_session'' i s), t)"
    using eq by (simp add: prod_eq_iff)
  then show "tables (revoked_in sid) (\<lambda>_. True) t"
    using preservesD [OF revoked.audit_keeps s] by blast
qed

lemmas db_operations =
  read_db_def load_user_def publish_def save_user_def auth_changed_def assign_roles_for_user_def enforce_duties_def
  register_failed_login_def lift_elapsed_lock_def login_failed_def refuse_locked_def check_mfa_def
  register_checks_def register_user_db_def set_password_def profile_username_def profile_email_def
  ensure_default_permissions_def ensure_default_role_def ensure_role_permissions_def
  bootstrap_admin_def bootstrap_defaults_def

lemma ensure_default_roles_keeps [preserve_intros]:
  "preserves (tables (revoked_in sid) (\<lambda>_. True)) (ensure_default_roles env names)"
  by (induction names) (auto simp: ensure_default_role_def intro!: preserve_intros)

section \<open>The whole state\<close>

definition revoked_state :: "string \<Rightarrow> auth_state \<Rightarrow> bool" where
  "revoked_state sid s \<longleftrightarrow> tables (revoked_in sid) (\<lambda>_. True) (au_db s)"

lemma on_db_keeps [preserve_intros]:
  "preserves (tables (revoked_in sid) (\<lambda>_. True)) m \<Longrightarrow> preserves (revoked_state sid) (on_db m)"
  unfolding preserves_def revoked_state_def on_db_def by (auto split: prod.splits)

lemma context_keeps [preserve_intros]:
  "preserves (revoked_state sid) (check_permission env code)"
  "preserves (revoked_state sid) (check_any_permission env codes)"
  "preserves (revoked_state sid) (refresh_current_session_if_user env user_id)"
  "preserves (revoked_state sid) (omodify (\<lambda>s. s\<lparr>au_context := f s\<rparr>))"
  unfolding preserves_def revoked_state_def check_permission_def check_any_permission_def
    refresh_current_session_if_user_def Let_def
  by (auto split: prod.splits option.splits if_splits sum.splits)

lemma on_account_keeps [preserve_intros]:
  "(\<And>u. preserves (tables (revoked_in sid) (\<lambda>_. True)) (change u)) \<Longrightarrow> preserves (revoked_state sid) (on_account env user_id change)"
  unfolding on_account_def load_user_def read_db_def by (intro preserve_intros)

lemmas account_operations =
  complete_successful_authentication_def authenticate_def authenticate_federated_def sign_in_def register_user_def
  change_password_def reset_user_password_def assign_role_def revoke_role_def set_user_active_def
  update_user_profile_def unlock_user_account_def link_federated_identity_def provision_mfa_secret_def
  enable_user_mfa_def disable_user_mfa_def set_user_session_policy_def revoke_user_sessions_def
  list_users_def list_roles_def list_user_sessions_def

lemma revoke_session_keeps: "preserves (revoked_state sid) (revoke_session env i)"
  unfolding revoke_session_def
  by (intro preserve_intros update_auth_session_keeps) simp_all

text \<open>Any call of the service, whatever its arguments and whenever it is made.\<close>

inductive auth_step :: "auth_state \<Rightarrow> auth_state \<Rightarrow> bool" where
  step_authenticate: "authenticate env n pw code label s = (r, t) \<Longrightarrow> auth_step s t"
| step_federated: "authenticate_federated env provider subject code label s = (r, t) \<Longrightarrow> auth_step s t"
| step_sign_in: "sign_in env n pw s = (r', t) \<Longrightarrow> auth_step s t"
| step_register: "register_user env rg s = (r, t) \<Longrightarrow> auth_step s t"
| step_change_password: "change_password env i old new s = (u, t) \<Longrightarrow> auth_step s t"
| step_reset_password: "reset_user_password env i new s = (u, t) \<Longrightarrow> auth_step s t"
| step_assign_role: "assign_role env i role s = (u, t) \<Longrightarrow> auth_step s t"
| step_revoke_role: "revoke_role env i role s = (u, t) \<Longrightarrow> auth_step s t"
| step_active: "set_user_active env i active s = (r, t) \<Longrightarrow> auth_step s t"
| step_profile: "update_user_profile env i n d e s = (r, t) \<Longrightarrow> auth_step s t"
| step_unlock: "unlock_user_account env i s = (r, t) \<Longrightarrow> auth_step s t"
| step_link: "link_federated_identity env i provider subject s = (r, t) \<Longrightarrow> auth_step s t"
| step_provision: "provision_mfa_secret env i s = (secret, t) \<Longrightarrow> auth_step s t"
| step_enable: "enable_user_mfa env i c s = (r, t) \<Longrightarrow> auth_step s t"
| step_disable: "disable_user_mfa env i s = (r, t) \<Longrightarrow> auth_step s t"
| step_policy: "set_user_session_policy env i override s = (r, t) \<Longrightarrow> auth_step s t"
| step_revoke_sessions: "revoke_user_sessions env i s = (r, t) \<Longrightarrow> auth_step s t"
| step_revoke_session: "revoke_session env sid s = (x, t) \<Longrightarrow> auth_step s t"
| step_check: "check_permission env c s = (u, t) \<Longrightarrow> auth_step s t"
| step_check_any: "check_any_permission env cs s = (u, t) \<Longrightarrow> auth_step s t"
| step_bootstrap: "on_db (bootstrap_defaults env) s = (r, t) \<Longrightarrow> auth_step s t"

lemma operations_keep:
  "preserves (revoked_state sid) (authenticate env n pw code label)"
  "preserves (revoked_state sid) (authenticate_federated env provider subject code label)"
  "preserves (revoked_state sid) (sign_in env n pw)"
  "preserves (revoked_state sid) (register_user env rg)"
  "preserves (revoked_state sid) (change_password env i old new)"
  "preserves (revoked_state sid) (reset_user_password env i new)"
  "preserves (revoked_state sid) (assign_role env i role)"
  "preserves (revoked_state sid) (revoke_role env i role)"
  "preserves (revoked_state sid) (set_user_active env i active)"
  "preserves (revoked_state sid) (update_user_profile env i nn d e)"
  "preserves (revoked_state sid) (unlock_user_account env i)"
  "preserves (revoked_state sid) (link_federated_identity env i provider subject)"
  "preserves (revoked_state sid) (provision_mfa_secret env i)"
  "preserves (revoked_state sid) (enable_user_mfa env i c)"
  "preserves (revoked_state sid) (disable_user_mfa env i)"
  "preserves (revoked_state sid) (set_user_session_policy env i override)"
  "preserves (revoked_state sid) (revoke_user_sessions env i)"
  "preserves (revoked_state sid) (on_db (bootstrap_defaults env))"
  unfolding account_operations db_operations
  by (intro preserve_intros)+

lemmas steps_keep = operations_keep revoke_session_keeps context_keeps(1,2)

lemma auth_step_keeps: "auth_step s t \<Longrightarrow> revoked_state sid s \<Longrightarrow> revoked_state sid t"
  by (erule auth_step.cases; hypsubst; (erule preservesD [rotated 2]; (rule steps_keep | assumption)))

lemma auth_steps_keep: "auth_step\<^sup>*\<^sup>* s t \<Longrightarrow> revoked_state sid s \<Longrightarrow> revoked_state sid t"
  by (induction rule: rtranclp_induct) (auto intro: auth_step_keeps)

lemma revoked_not_validated:
  assumes "revoked_in sid db" "session_id p = Some sid" "sid \<noteq> []"
  shows "validate_session_principal now db p = None"
  using assms by (auto simp: validate_session_principal_def revoked_in_def split: option.splits)

text \<open>
  C5: Once a session is revoked, no sequence of calls of the service, however long and whoever makes
  them, brings it back: a principal that names it is never validated again, and a context that
  holds such a principal is refused every permission and signed out.
\<close>

theorem revoked_session_stays_out:
  assumes "auth_step\<^sup>*\<^sup>* s t" and "revoked_state sid s"
    and "session_id p = Some sid" and "sid \<noteq> []" and "au_context t = Some p"
  shows "validate_session_principal now (s_working (au_db t)) p = None \<and>
    check_permission env code t = (Inl (BusinessRuleError ''PERMISSION_DENIED''), t\<lparr>au_context := None\<rparr>)"
proof -
  have "revoked_in sid (s_working (au_db t))"
    using auth_steps_keep [OF assms(1,2)] by (simp add: revoked_state_def tables_def)
  then have none: "validate_session_principal now' (s_working (au_db t)) p = None" for now'
    using assms(3,4) by (rule revoked_not_validated)
  have "active_principal (ae_now env) (context_of env t) = (None, clear_principal (context_of env t))"
    using assms(5) none by (simp add: active_principal_def context_of_def split: option.splits)
  then show ?thesis
    using none by (simp add: check_permission_def require_permission_def engine_has_permission_def has_permission_def
        clear_principal_def)
qed

end
