(* ===== verification/Auth_Properties.thy ===== *)
theory Auth_Properties
  imports Auth_Session Auth_Policy
begin

text \<open>
  What the checks guarantee: an expired session has no rights and is ended, a scoped right is
  never more than the global one, the row filter agrees with the scope check, and the default
  roles respect the separation of duties.
\<close>

section \<open>The checks over a stable session\<close>

text \<open>A session without a validator that has not expired is not changed by the checks.\<close>

definition live_session :: "datetime \<Rightarrow> user_session_principal \<Rightarrow> user_session \<Rightarrow> bool" where
  "live_session now p us \<longleftrightarrow> us_principal us = Some p \<and> us_validator us = None \<and>
     (case session_expires_at p of None \<Rightarrow> True | Some t \<Rightarrow> now < t)"

lemma live_active [simp]: "live_session now p us \<Longrightarrow> active_principal now us = (Some p, us)"
  by (auto simp: live_session_def active_principal_def split: option.splits)

lemma active_principal_idem:
  "active_principal now us = (None, us') \<Longrightarrow> active_principal now' us' = (None, us')"
  by (auto simp: active_principal_def clear_principal_def Let_def split: option.splits if_splits)

lemma scope_permission_unfold:
  "live_session now p us \<Longrightarrow> has_scope_permission now ty i code us =
     (code \<in> permissions p \<and> (''admin'' \<in> role_names p \<or> scope_rows_of p ty = [] \<or>
        (\<exists>perms. map_of (scope_rows_of p ty) (py_strip i) = Some perms \<and> code \<in> perms)), us)"
  by (auto simp: has_scope_permission_def Let_def split: option.splits)

section \<open>The permissions a list of roles grants\<close>

lemma py_isspace_lower [simp]: "py_isspace (py_lower_char c) = py_isspace c"
  by (auto simp: py_isspace_def py_lower_char_def Let_def)

lemma py_lower_char_idem [simp]: "py_lower_char (py_lower_char c) = py_lower_char c"
  by (auto simp: py_lower_char_def Let_def)

lemma dropWhile_lower: "dropWhile py_isspace (map py_lower_char s) = map py_lower_char (dropWhile py_isspace s)"
  by (induction s) auto

lemma py_strip_lower: "py_strip (py_lower s) = py_lower (py_strip s)"
  by (simp add: py_strip_def py_lower_def dropWhile_lower rev_map)

lemma py_lower_idem [simp]: "py_lower (py_lower s) = py_lower s"
  by (simp add: py_lower_def)

definition role_permissions :: "(string \<rightharpoonup> string) \<Rightarrow> string \<Rightarrow> string set" where
  "role_permissions known r =
     (case known (py_lower (py_strip r)) of
        None \<Rightarrow> {}
      | Some name \<Rightarrow> (case map_of DEFAULT_ROLE_PERMISSIONS name of None \<Rightarrow> {} | Some perms \<Rightarrow> set perms))"

definition granted :: "(string \<rightharpoonup> string) \<Rightarrow> string list \<Rightarrow> string set" where
  "granted known roles = (\<Union>r \<in> {r \<in> set roles. py_strip r \<noteq> []}. role_permissions known r)"

lemma default_codes_clean:
  "list_all (\<lambda>(_, perms). list_all (\<lambda>c. c \<noteq> [] \<and> py_strip c = c) perms) DEFAULT_ROLE_PERMISSIONS"
  by code_simp

lemma role_code_clean: "c \<in> role_permissions known r \<Longrightarrow> c \<noteq> [] \<and> py_strip c = c"
  using default_codes_clean
  by (fastforce simp: role_permissions_def list_all_iff split: option.splits dest: map_of_SomeD)

lemma no_conflict_subset:
  assumes "find_conflicts rules codes = []" "r \<in> set rules" "\<forall>c \<in> set (required_permissions r). c \<in> set codes \<and> c \<noteq> [] \<and> py_strip c = c"
  shows False
proof -
  have "list_all (\<lambda>c. c \<in> set (filter (\<lambda>c. c \<noteq> []) (map py_strip codes))) (required_permissions r)"
    using assms(3) by (force simp: list_all_iff)
  then show False
    using assms(1,2) by (auto simp: find_conflicts_def Let_def filter_empty_conv)
qed

lemma enforced_codes:
  assumes "enforce_separation_of_duties rules known roles = Inr ()"
    and "''admin'' \<notin> (\<lambda>r. py_lower (py_strip r)) ` set roles"
  obtains perms where "find_conflicts rules (concat perms) = []" "granted known roles \<subseteq> set (concat perms)"
proof -
  let ?norm = "filter (\<lambda>r. r \<noteq> []) (map (\<lambda>r. py_lower (py_strip r)) roles)"
  let ?f = "\<lambda>r. case known (py_lower (py_strip r)) of
               None \<Rightarrow> Inl (NotFoundError ''ROLE_NOT_FOUND'')
             | Some name \<Rightarrow> Inr (case map_of DEFAULT_ROLE_PERMISSIONS name of None \<Rightarrow> [] | Some perms \<Rightarrow> perms)"
  have "''admin'' \<notin> set ?norm" using assms(2) by auto
  then obtain perms where perms: "rmap ?f ?norm = Inr perms" "find_conflicts rules (concat perms) = []"
    using assms(1) by (auto simp: enforce_separation_of_duties_def Let_def)
  have "granted known roles \<subseteq> set (concat perms)"
  proof
    fix c assume "c \<in> granted known roles"
    then obtain r where r: "r \<in> set roles" "py_strip r \<noteq> []" "c \<in> role_permissions known r"
      by (auto simp: granted_def)
    let ?r = "py_lower (py_strip r)"
    have "?r \<in> set ?norm" using r by (auto simp: py_lower_def)
    then obtain ps where ps: "ps \<in> set perms" "?f ?r = Inr ps"
      using rmap_Inr_mem [OF perms(1)] by blast
    then show "c \<in> set (concat perms)"
      using r(3) by (auto simp: role_permissions_def py_strip_lower split: option.splits)
  qed
  then show ?thesis using perms(2) that by blast
qed

section \<open>The properties\<close>

text \<open>
  An expired session grants nothing: the check denies and signs the user out, and every
  later check of the same context denies too, at whatever instant, until someone signs in.
\<close>

theorem expired_session_denied:
  assumes "us_principal us = Some p" and "session_expires_at p = Some t" and "t \<le> now"
  shows "require_permission now code (Some us) = (Inl (BusinessRuleError ''PERMISSION_DENIED''), Some (clear_principal us))
    \<and> fst (require_permission later code' (Some (clear_principal us))) = Inl (BusinessRuleError ''PERMISSION_DENIED'')
    \<and> fst (require_scope_permission later ty i code' (Some (clear_principal us))) = Inl (BusinessRuleError ''PERMISSION_DENIED'')"
proof -
  have "active_principal now us = (None, clear_principal us)"
    using assms by (simp add: active_principal_def)
  then show ?thesis
    using active_principal_idem [of now us "clear_principal us" later]
    by (simp add: require_permission_def require_scope_permission_def engine_has_permission_def
        engine_has_scope_permission_def has_permission_def has_scope_permission_def)
qed

text \<open>
  A permission on one scope is never more than the permission itself: whoever passes the
  scope check passes the global check on the same context.
\<close>

theorem scope_permission_implies_permission:
  "fst (has_scope_permission now ty i code us) \<longrightarrow> fst (has_permission now code us)"
  by (auto simp: has_scope_permission_def has_permission_def Let_def split: prod.splits option.splits if_splits)

text \<open>
  The row filter and the scope check agree: over a live session with unique scope rows, the
  filter keeps exactly the rows whose scope the check allows, in their order, provided the scope
  ids of the rows carry no surrounding blanks.
\<close>

theorem filter_scope_rows_agrees:
  assumes "live_session now p us" and "distinct (map fst (scope_rows_of p ty))"
    and "\<forall>r \<in> set rows. py_strip (getter r) = getter r"
  shows "filter_scope_rows now ty code getter rows (Some us) =
    (filter (\<lambda>r. fst (has_scope_permission now ty (getter r) code us)) rows, Some us)"
proof -
  have ids: "i \<in> set (map fst (filter (\<lambda>(_, perms). code \<in> perms) (scope_rows_of p ty))) \<longleftrightarrow>
      (\<exists>perms. map_of (scope_rows_of p ty) i = Some perms \<and> code \<in> perms)" for i
    using assms(2) by (auto simp: image_iff map_of_eq_Some_iff)
  show ?thesis
    using assms(1,3)
    by (auto simp: filter_scope_rows_def engine_has_permission_def engine_is_scope_restricted_def engine_scope_ids_for_def
        has_permission_def is_scope_restricted_def scope_ids_for_def scope_permission_unfold ids
        simp del: set_map set_filter intro!: filter_cong)
qed

text \<open>
  No default role other than the administrator's carries both sides of a separation-of-duties rule.
\<close>

theorem default_roles_separated:
  "list_all (\<lambda>(role, perms). role = ''admin'' \<or> find_separation_of_duties_conflicts perms = []) DEFAULT_ROLE_PERMISSIONS"
  by code_simp

text \<open>
  C40: When the guard of a role assignment passes and none of the roles is admin (with admin among
  them the guard lets every combination through), the roles together do not give both the request and the decision of an approval, nor both access and
  security management.
\<close>

theorem enforced_duties_separated:
  assumes "enforce_separation_of_duties default_separation_of_duties_rules known roles = Inr ()"
    and "''admin'' \<notin> (\<lambda>r. py_lower (py_strip r)) ` set roles"
  shows "\<not> {''approval.request'', ''approval.decide''} \<subseteq> granted known roles \<and>
    \<not> {''access.manage'', ''security.manage''} \<subseteq> granted known roles"
proof -
  obtain perms where perms: "find_conflicts default_separation_of_duties_rules (concat perms) = []"
      "granted known roles \<subseteq> set (concat perms)"
    by (rule enforced_codes [OF assms])
  have clean: "c \<noteq> [] \<and> py_strip c = c" if "c \<in> granted known roles" for c
    using that role_code_clean by (auto simp: granted_def)
  have rule: "\<not> set (required_permissions rule) \<subseteq> granted known roles" if "rule \<in> set default_separation_of_duties_rules" for rule
    using no_conflict_subset [OF perms(1) that] perms(2) clean by blast
  show ?thesis
    using rule [of "default_separation_of_duties_rules ! 0"] rule [of "default_separation_of_duties_rules ! 1"]
    by (simp add: default_separation_of_duties_rules_def)
qed

section \<open>The properties at work\<close>

definition example_user :: user_session_principal where
  "example_user =
     \<lparr>p_user_id = ''u1'', p_username = ''ann'', p_display_name = None, role_names = set [''planner''],
      permissions = set [''task.read''], scoped_access = [(''project'', [(''p1'', {''task.read''}), (''p2'', {''cost.read''})])],
      project_access = [], session_expires_at = Some 100, must_change_password = False, session_revision = 1,
      identity_provider = None, last_login_auth_method = None, session_id = None\<rparr>"

definition example_context :: user_session where
  "example_context = \<lparr>us_principal = Some example_user, us_validator = None\<rparr>"

theorem expired_session_denied_witness:
  "fst (require_permission 200 ''task.read'' (Some (clear_principal example_context))) =
     Inl (BusinessRuleError ''PERMISSION_DENIED'')"
  using expired_session_denied [of example_context example_user 100 150]
  by (simp add: example_context_def example_user_def)

theorem scope_permission_implies_permission_witness:
  "fst (has_permission 50 ''task.read'' example_context)"
proof -
  have "fst (has_scope_permission 50 ''project'' ''p1'' ''task.read'' example_context)" by code_simp
  then show ?thesis using scope_permission_implies_permission by blast
qed

theorem filter_scope_rows_agrees_witness:
  "filter_scope_rows 50 ''project'' ''task.read'' id [''p1'', ''p2'', ''p3''] (Some example_context) =
    (filter (\<lambda>r. fst (has_scope_permission 50 ''project'' (id r) ''task.read'' example_context)) [''p1'', ''p2'', ''p3''],
     Some example_context)"
proof (rule filter_scope_rows_agrees [where p = example_user])
  show "live_session 50 example_user example_context"
    by (simp add: live_session_def example_context_def example_user_def)
  show "distinct (map fst (scope_rows_of example_user ''project''))" by code_simp
  show "\<forall>r \<in> set [''p1'', ''p2'', ''p3'']. py_strip (id r) = id r" by code_simp
qed

theorem enforced_duties_separated_witness:
  "\<not> {''approval.request'', ''approval.decide''} \<subseteq> granted Some [''Planner'', ''finance'']"
proof -
  have "enforce_separation_of_duties default_separation_of_duties_rules Some [''Planner'', ''finance''] = Inr ()"
    "''admin'' \<notin> (\<lambda>r. py_lower (py_strip r)) ` set [''Planner'', ''finance'']"
    by code_simp+
  from enforced_duties_separated [OF this] show ?thesis by blast
qed


end
