(* ===== verification/Auth_Wellformed.thy ===== *)
theory Auth_Wellformed
  imports Auth_Revocation Auth_Properties
begin

text \<open>
  What every call keeps of the account tables: identifiers, user names and federated identities
  stay unique, user names stay normalised, revisions positive and the session policy in its
  range, so that computing the expiry of a session never fails.
\<close>

section \<open>Well-formed tables\<close>

definition user_ok :: "user_account \<Rightarrow> bool" where
  "user_ok u \<longleftrightarrow> ua_username u \<noteq> [] \<and> py_lower (py_strip (ua_username u)) = ua_username u \<and>
     1 \<le> ua_session_revision u \<and> 0 \<le> failed_login_attempts u \<and>
     (case session_timeout_minutes_override u of None \<Rightarrow> True | Some n \<Rightarrow> 5 \<le> n \<and> n \<le> 1440)"

definition session_ok :: "auth_session \<Rightarrow> bool" where
  "session_ok x \<longleftrightarrow> 1 \<le> as_session_revision x"

definition clash :: "user_account \<Rightarrow> user_account \<Rightarrow> bool" where
  "clash u v \<longleftrightarrow> ua_id u = ua_id v \<or> ua_username u = ua_username v \<or> same_identity u v"

definition accounts_ok :: "auth_db \<Rightarrow> bool" where
  "accounts_ok db \<longleftrightarrow> sorted_wrt (\<lambda>u v. \<not> clash u v) (ad_users db) \<and> list_all user_ok (ad_users db) \<and>
     distinct (map as_id (ad_sessions db)) \<and> list_all session_ok (ad_sessions db)"

fun row_ok :: "auth_row \<Rightarrow> bool" where
  "row_ok (UserRow u) = user_ok u"
| "row_ok (SessionRow x) = session_ok x"
| "row_ok _ = True"

lemma clash_sym: "clash u v \<longleftrightarrow> clash v u"
  by (auto simp: clash_def same_identity_def)

lemma user_row_fields [simp]:
  "clash (user_row u) v = clash u v" "clash u (user_row v) = clash u v" "user_ok (user_row u) = user_ok u"
  "clash (u\<lparr>ua_version := n\<rparr>) v = clash u v" "clash u (v\<lparr>ua_version := n\<rparr>) = clash u v"
  "user_ok (u\<lparr>ua_version := n\<rparr>) = user_ok u"
  by (simp_all add: clash_def same_identity_def user_row_def user_ok_def)

lemma insert_keeps_accounts:
  assumes "row_ok x" "accounts_ok db" "auth_insert x db = Inr db'"
  shows "accounts_ok db'"
proof (cases x)
  case (UserRow u)
  have "\<not> list_ex (\<lambda>x. ua_id x = ua_id u \<or> ua_username x = ua_username u \<or> same_identity u x) (ad_users db)"
    and db': "db' = db\<lparr>ad_users := ad_users db @ [user_row u]\<rparr>"
    using assms(3) by (simp_all add: UserRow split: if_splits)
  then have "\<forall>v \<in> set (ad_users db). \<not> clash v u"
    using clash_sym by (fastforce simp: list_ex_iff clash_def)
  then show ?thesis
    using assms(1,2) by (simp add: UserRow db' accounts_ok_def sorted_wrt_append)
next
  case (SessionRow y)
  have "\<not> list_ex (\<lambda>z. as_id z = as_id y) (ad_sessions db)" and db': "db' = db\<lparr>ad_sessions := ad_sessions db @ [y]\<rparr>"
    using assms(3) by (simp_all add: SessionRow split: if_splits)
  then have "as_id y \<notin> as_id ` set (ad_sessions db)" by (force simp: list_ex_iff)
  then show ?thesis
    using assms(1,2) by (simp add: SessionRow db' accounts_ok_def)
qed (use assms in \<open>auto simp: accounts_ok_def split: if_splits\<close>)

interpretation accounts: kept_by_inserts auth_insert accounts_ok row_ok
  by unfold_locales (rule insert_keeps_accounts)

lemma sorted_wrt_replace:
  assumes "sorted_wrt R rows" "\<forall>x \<in> set rows. key x \<noteq> key r \<longrightarrow> R x r \<and> R r x"
    and "sorted_wrt (\<lambda>x y. key x \<noteq> key y) rows"
  shows "sorted_wrt R (replace_row key r rows)"
  using assms by (induction rows) (auto simp: replace_row_def)

lemma save_user_rows_ok:
  assumes "sorted_wrt (\<lambda>u v. \<not> clash u v) rows" "list_all user_ok rows" "user_ok u"
    and "save_user_rows u rows = Inr rows'"
  shows "sorted_wrt (\<lambda>u v. \<not> clash u v) rows' \<and> list_all user_ok rows'"
proof -
  let ?u = "(user_row u)\<lparr>ua_version := ua_version u + 1\<rparr>"
  have rows': "rows' = replace_row ua_id ?u rows"
    and free: "\<forall>x \<in> set rows. ua_id x \<noteq> ua_id u \<longrightarrow> \<not> (ua_username x = ua_username u \<or> same_identity u x)"
    using assms(4) by (auto simp: save_user_rows_def update_with_version_check_def list_ex_iff split: option.splits if_splits)
  have id: "ua_id ?u = ua_id u" by (simp add: user_row_def)
  have "sorted_wrt (\<lambda>x y. ua_id x \<noteq> ua_id y) rows"
    using assms(1) by (rule sorted_wrt_mono_rel [rotated]) (auto simp: clash_def)
  moreover have "\<forall>x \<in> set rows. ua_id x \<noteq> ua_id ?u \<longrightarrow> \<not> clash x ?u \<and> \<not> clash ?u x"
  proof (intro ballI impI)
    fix x assume "x \<in> set rows" "ua_id x \<noteq> ua_id ?u"
    then have "\<not> clash u x" using free by (auto simp: clash_def same_identity_def user_row_def)
    then show "\<not> clash x ?u \<and> \<not> clash ?u x" using clash_sym by simp
  qed
  ultimately have "sorted_wrt (\<lambda>u v. \<not> clash u v) rows'"
    unfolding rows' using assms(1) by (intro sorted_wrt_replace) auto
  moreover have "list_all user_ok rows'"
    using assms(2,3) set_replace_row [of ua_id ?u rows] unfolding rows' list_all_iff by auto
  ultimately show ?thesis by simp
qed

abbreviation accounts_inv :: "(auth_db, auth_row) session \<Rightarrow> bool" where
  "accounts_inv \<equiv> tables accounts_ok row_ok"

section \<open>The operations on the tables\<close>

declare accounts.session_yields [yield_intros]

lemma yields_read [yield_intros]:
  "yields accounts_inv (read_db f) (\<lambda>x. \<exists>db. accounts_ok db \<and> f db = Inr x)"
  unfolding yields_def read_db_def by (auto simp: obind_def oget_def tables_def split: sum.splits)

lemma yields_update_user [yield_intros]:
  "user_ok u \<Longrightarrow> yields accounts_inv (update_user u) user_ok"
proof (rule yieldsI)
  fix s r t assume u: "user_ok u" and s: "accounts_inv s" and "update_user u s = (r, t)"
  then show "accounts_inv t \<and> (\<forall>x. r = Inr x \<longrightarrow> user_ok x)"
    unfolding update_user_def read_db_def
    using save_user_rows_ok [OF _ _ u, of "ad_users (s_working s)"] u
    by (auto elim!: obindE simp: tables_def accounts_ok_def)
qed

lemma yields_update_session [yield_intros]:
  "session_ok x \<Longrightarrow> yields accounts_inv (update_auth_session x) (\<lambda>_. True)"
  unfolding update_auth_session_def
proof (rule yields_bind [OF yields_read])
  assume x: "session_ok x"
  have "preserves accounts_inv (omodify (\<lambda>s. s\<lparr>s_working := (s_working s)\<lparr>ad_sessions := replace_row as_id x (ad_sessions (s_working s))\<rparr>\<rparr>))"
  proof (rule preserves_modify)
    fix s :: "(auth_db, auth_row) session" assume "accounts_inv s"
    then show "accounts_inv (s\<lparr>s_working := (s_working s)\<lparr>ad_sessions := replace_row as_id x (ad_sessions (s_working s))\<rparr>\<rparr>)"
      using x set_replace_row [of as_id x "ad_sessions (s_working s)"]
      by (auto simp: tables_def accounts_ok_def list_all_iff)
  qed
  then show "yields accounts_inv (omodify (\<lambda>s. s\<lparr>s_working := (s_working s)\<lparr>ad_sessions := replace_row as_id x (ad_sessions (s_working s))\<rparr>\<rparr>)) (\<lambda>_. True)"
    by (rule preserves_yields)
qed

lemma yields_delete_role [yield_intros]: "yields accounts_inv (delete_user_role i j) (\<lambda>_. True)"
  unfolding delete_user_role_def
  by (intro preserves_yields preserves_modify) (simp add: tables_def accounts_ok_def)

lemma yields_auth_event [yield_intros]: "yields accounts_inv (record_auth_event a n o1) (\<lambda>_. True)"
proof (rule preserves_yields, rule preservesI)
  fix s r t assume s: "accounts_inv s" and eq: "record_auth_event a n o1 s = (r, t)"
  obtain i where "record_auth_event a n o1 s = (Inr (), snd (record_audit auth_insert a ''auth_session'' i s))"
    by (rule auth_event_result)
  then have "record_audit auth_insert a ''auth_session'' i s = (fst (record_audit auth_insert a ''auth_session'' i s), t)"
    using eq by (simp add: prod_eq_iff)
  then show "accounts_inv t" using preservesD [OF accounts.audit_keeps s] by blast
qed

lemma yields_ofor:
  "(\<And>x. x \<in> set xs \<Longrightarrow> yields I (f x) (\<lambda>_. True)) \<Longrightarrow> yields I (ofor f xs) (\<lambda>_. True)"
proof (induction xs)
  case (Cons x xs)
  have "yields I (f x) (\<lambda>_. True)" using Cons.prems by simp
  then have "yields I (obind (f x) (\<lambda>_. ofor f xs)) (\<lambda>_. True)"
    by (rule yields_bind) (use Cons in auto)
  then show ?case by simp
qed (simp add: yields_ret)

lemma find_user_ok: "accounts_ok db \<Longrightarrow> u \<in> set (ad_users db) \<Longrightarrow> user_ok u"
  by (auto simp: accounts_ok_def list_all_iff)

lemma loaded_ok:
  "accounts_ok db \<Longrightarrow> require_user db i = Inr u \<Longrightarrow> user_ok u \<and> ua_id u = i"
  by (auto simp: require_user_def get_user_def dest!: find_row_Some find_user_ok split: option.splits)

lemma yields_load [yield_intros]: "yields accounts_inv (load_user i) user_ok"
  unfolding load_user_def by (rule yields_weaken [OF yields_read]) (auto dest: loaded_ok)

lemma yields_publish [yield_intros]: "yields accounts_inv (publish i) (\<lambda>_. True)"
  unfolding publish_def auth_changed_def by (rule yield_intros)+

lemma yields_save [yield_intros]: "user_ok u \<Longrightarrow> yields accounts_inv (save_user u) user_ok"
  unfolding save_user_def by (rule yield_intros yields_ret | assumption)+

lemma user_ok_updates [simp]:
  "user_ok (u\<lparr>ua_is_active := a\<rparr>) = user_ok u" "user_ok (u\<lparr>locked_until := b\<rparr>) = user_ok u"
  "user_ok (u\<lparr>ua_updated_at := b'\<rparr>) = user_ok u" "user_ok (u\<lparr>mfa_secret := c\<rparr>) = user_ok u"
  "user_ok (u\<lparr>mfa_enabled := d\<rparr>) = user_ok u" "user_ok (u\<lparr>ua_identity_provider := e\<rparr>) = user_ok u"
  "user_ok (u\<lparr>federated_subject := f\<rparr>) = user_ok u" "user_ok (u\<lparr>ua_session_expires_at := g\<rparr>) = user_ok u"
  "user_ok (u\<lparr>password_hash := h\<rparr>) = user_ok u" "user_ok (u\<lparr>password_changed_at := i\<rparr>) = user_ok u"
  "user_ok (u\<lparr>ua_must_change_password := j\<rparr>) = user_ok u" "user_ok (u\<lparr>last_login_at := k\<rparr>) = user_ok u"
  "user_ok (u\<lparr>ua_last_login_auth_method := l\<rparr>) = user_ok u" "user_ok (u\<lparr>last_login_device_label := m\<rparr>) = user_ok u"
  "user_ok (u\<lparr>active_session_id := n\<rparr>) = user_ok u" "user_ok (u\<lparr>ua_display_name := p\<rparr>) = user_ok u"
  "user_ok (u\<lparr>ua_email := q\<rparr>) = user_ok u"
  by (simp_all add: user_ok_def)

lemma user_ok_counters [simp]:
  "user_ok u \<Longrightarrow> user_ok (u\<lparr>failed_login_attempts := 0\<rparr>)"
  "user_ok u \<Longrightarrow> user_ok (u\<lparr>failed_login_attempts := failed_login_attempts u + 1\<rparr>)"
  "user_ok u \<Longrightarrow> user_ok (rotate_session_revision u)"
  "user_ok u \<Longrightarrow> validate_session_timeout_override v = Inr w \<Longrightarrow> user_ok (u\<lparr>session_timeout_minutes_override := w\<rparr>)"
  "user_ok u \<Longrightarrow> n \<noteq> [] \<Longrightarrow> n = py_lower (py_strip m) \<Longrightarrow> user_ok (u\<lparr>ua_username := n\<rparr>)"
  by (auto simp: user_ok_def rotate_session_revision_def validate_session_timeout_override_def rev_or_1_def py_strip_lower
      split: option.splits)

lemma yields_revoke_all [yield_intros]: "yields accounts_inv (revoke_all_persisted_sessions env u) (\<lambda>_. True)"
  unfolding revoke_all_persisted_sessions_def
proof (rule yields_bind [OF yields_simple(5)], rule yields_ofor)
  fix xs x assume "\<exists>s. accounts_inv s \<and> xs = list_by_user (s_working s) (ua_id u)" "x \<in> set xs"
  then have "session_ok x" by (auto simp: list_by_user_def tables_def accounts_ok_def list_all_iff)
  then show "yields accounts_inv (if revoked_at x \<noteq> None then oret ()
      else update_auth_session (x\<lparr>revoked_at := Some (ae_now env), as_updated_at := ae_now env\<rparr>)) (\<lambda>_. True)"
    by (cases "revoked_at x = None") (simp_all add: yields_ret yields_update_session session_ok_def)
qed

section \<open>The operations of the service\<close>

lemma yields_failed_login [yield_intros]: "user_ok u \<Longrightarrow> yields accounts_inv (register_failed_login env u) user_ok"
  unfolding register_failed_login_def Let_def by (rule yields_save) simp

lemma yields_lift_lock [yield_intros]: "user_ok u \<Longrightarrow> yields accounts_inv (lift_elapsed_lock env u) user_ok"
  unfolding lift_elapsed_lock_def
  by (cases "locked_until u") (auto intro!: yields_ret yields_save simp: user_ok_def)

lemma yields_login_failed [yield_intros]: "yields accounts_inv (login_failed n o1 err) Q"
  unfolding login_failed_def by (rule yield_intros)+

lemma yields_refuse_locked [yield_intros]: "yields accounts_inv (refuse_locked env n u) (\<lambda>_. True)"
  unfolding refuse_locked_def by (rule yield_intros)+

lemma yields_check_mfa [yield_intros]: "user_ok u \<Longrightarrow> yields accounts_inv (check_mfa env n u code) (\<lambda>_. True)"
  unfolding check_mfa_def by (rule yield_intros | assumption)+

lemma accounts_fields [simp]:
  "accounts_ok (db\<lparr>ad_user_roles := x\<rparr>) = accounts_ok db"
  by (simp add: accounts_ok_def)

lemma yields_assign_roles [yield_intros]: "yields accounts_inv (assign_roles_for_user env i names) (\<lambda>_. True)"
  unfolding assign_roles_for_user_def
  by (rule yields_ofor, (rule yield_intros | simp)+)

lemma yields_register_checks [yield_intros]:
  "yields accounts_inv (register_checks rg) (\<lambda>timeout. py_lower (py_strip (rg_username rg)) \<noteq> [] \<and>
     (case timeout of None \<Rightarrow> True | Some n \<Rightarrow> 5 \<le> n \<and> n \<le> 1440))"
  unfolding register_checks_def Let_def
  by (rule yield_intros yields_ret |
      (force simp: validate_session_timeout_override_def split: option.splits))+

lemma created_user_ok:
  assumes "py_lower (py_strip n) \<noteq> []" "case v of None \<Rightarrow> True | Some m \<Rightarrow> 5 \<le> m \<and> m \<le> 1440"
  shows "user_ok ((create_user i now (py_lower (py_strip n)) h d e a)
    \<lparr>ua_must_change_password := mc, ua_identity_provider := ip, federated_subject := fs, session_timeout_minutes_override := v\<rparr>)"
  using assms by (auto simp: user_ok_def create_user_def py_strip_lower)

lemma yields_enforce [yield_intros]: "yields accounts_inv (enforce_duties names) (\<lambda>_. True)"
  unfolding enforce_duties_def by (rule yields_weaken [OF yields_read]) simp

lemma yields_register [yield_intros]: "yields accounts_inv (register_user_db env rg c) user_ok"
  unfolding register_user_db_def Let_def auth_changed_def
  by (rule yield_intros yields_ret created_user_ok | (simp; fail) | (erule conjunct1) | (erule conjunct2)
      | (simp add: created_user_ok; fail))+

lemma yields_set_password [yield_intros]: "user_ok u \<Longrightarrow> yields accounts_inv (set_password env pw mc u) (\<lambda>_. True)"
  unfolding set_password_def Let_def by (rule yield_intros | simp)+

text \<open>The state of the service, and the loaded account as the start of a change.\<close>

definition accounts_state :: "auth_state \<Rightarrow> bool" where
  "accounts_state s \<longleftrightarrow> accounts_inv (au_db s)"

lemma yields_on_db [yield_intros]: "yields accounts_inv m Q \<Longrightarrow> yields accounts_state (on_db m) Q"
  unfolding yields_def accounts_state_def on_db_def by (auto split: prod.splits)

lemma context_yields [yield_intros]:
  "yields accounts_state (check_permission env code) (\<lambda>_. True)"
  "yields accounts_state (check_any_permission env codes) (\<lambda>_. True)"
  "yields accounts_state (refresh_current_session_if_user env user_id) (\<lambda>_. True)"
  "yields accounts_state (omodify (\<lambda>s. s\<lparr>au_context := f s\<rparr>)) (\<lambda>_. True)"
  unfolding yields_def accounts_state_def check_permission_def check_any_permission_def
    refresh_current_session_if_user_def Let_def
  by (auto split: prod.splits option.splits if_splits sum.splits)

lemma yields_on_account [yield_intros]:
  "(\<And>u. user_ok u \<Longrightarrow> yields accounts_inv (change u) (\<lambda>_. True)) \<Longrightarrow> yields accounts_state (on_account env i change) (\<lambda>_. True)"
  unfolding on_account_def by (rule yield_intros | assumption)+

lemma yields_saved: "user_ok u \<Longrightarrow> yields accounts_inv (save_user u) (\<lambda>_. True)"
  by (rule yields_weaken [OF yields_save]) simp_all

lemma username_ok: "get_by_username db n = Some u \<Longrightarrow> accounts_ok db \<Longrightarrow> user_ok u"
  by (auto simp: get_by_username_def find_Some_iff dest!: find_user_ok nth_mem)

lemma identity_ok: "get_by_federated_identity db p q = Some u \<Longrightarrow> accounts_ok db \<Longrightarrow> user_ok u"
  by (auto simp: get_by_federated_identity_def find_Some_iff split: if_splits dest!: find_user_ok nth_mem)

lemma found_ok:
  "\<exists>db. accounts_ok db \<and> x = get_by_username db n \<Longrightarrow> x = Some u \<Longrightarrow> user_ok u"
  "\<exists>db. accounts_ok db \<and> x = get_by_federated_identity db p q \<Longrightarrow> x = Some u \<Longrightarrow> user_ok u"
  using username_ok identity_ok by metis+

lemma yields_complete [yield_intros]:
  "user_ok u \<Longrightarrow> yields accounts_state (complete_successful_authentication env m l u) (\<lambda>_. True)"
  unfolding complete_successful_authentication_def Let_def
  by (rule yield_intros | (simp add: session_ok_def create_auth_session_def; fail))+

lemma yields_found:
  "(\<And>x. (\<exists>db. accounts_ok db \<and> x = f db) \<Longrightarrow> yields accounts_inv (g x) Q) \<Longrightarrow>
     yields accounts_inv (obind (oget (\<lambda>s. f (s_working s))) g) Q"
  by (rule yields_bind [OF yields_simple(5)]) (auto simp: tables_def)

lemma yields_authenticate [yield_intros]:
  "yields accounts_state (authenticate env n pw code label) (\<lambda>_. True)"
  unfolding authenticate_def Let_def
  by (rule yields_bind [OF yields_on_db [where Q = user_ok]], rule yields_found)
    (rule yields_complete yield_intros yields_ret | assumption | (erule found_ok, assumption))+

lemma yields_federated [yield_intros]:
  "yields accounts_state (authenticate_federated env p q code label) (\<lambda>_. True)"
  unfolding authenticate_federated_def Let_def
  by (rule yields_bind [OF yields_on_db [where Q = user_ok]], rule yields_bind [OF yields_simple(3)], rule yields_found)
    (rule yields_complete yield_intros yields_ret | assumption | (erule found_ok, assumption))+

lemma yields_profile [yield_intros]:
  "user_ok u \<Longrightarrow> yields accounts_inv (profile_username n u) user_ok"
  "user_ok u \<Longrightarrow> yields accounts_inv (profile_email e u) user_ok"
  unfolding profile_username_def profile_email_def Let_def
  by (rule yield_intros yields_ret | (simp; fail) | (rule user_ok_counters; simp; fail))+

lemma operations_yield:
  "yields accounts_state (sign_in env n pw) (\<lambda>_. True)"
  "yields accounts_state (register_user env rg) user_ok"
  "yields accounts_state (change_password env i old new) (\<lambda>_. True)"
  "yields accounts_state (reset_user_password env i new) (\<lambda>_. True)"
  "yields accounts_state (assign_role env i role) (\<lambda>_. True)"
  "yields accounts_state (revoke_role env i role) (\<lambda>_. True)"
  "yields accounts_state (set_user_active env i active) (\<lambda>_. True)"
  "yields accounts_state (unlock_user_account env i) (\<lambda>_. True)"
  "yields accounts_state (link_federated_identity env i provider subject) (\<lambda>_. True)"
  "yields accounts_state (provision_mfa_secret env i) (\<lambda>_. True)"
  "yields accounts_state (enable_user_mfa env i c) (\<lambda>_. True)"
  "yields accounts_state (disable_user_mfa env i) (\<lambda>_. True)"
  unfolding sign_in_def register_user_def change_password_def reset_user_password_def assign_role_def revoke_role_def
    set_user_active_def unlock_user_account_def link_federated_identity_def provision_mfa_secret_def
    enable_user_mfa_def disable_user_mfa_def Let_def
  by (rule yields_saved yield_intros yields_ret | assumption | (simp; fail))+

lemma more_operations_yield:
  "yields accounts_state (update_user_profile env i n d e) (\<lambda>_. True)"
  "yields accounts_state (set_user_session_policy env i override) (\<lambda>_. True)"
  "yields accounts_state (revoke_user_sessions env i) (\<lambda>_. True)"
  unfolding update_user_profile_def set_user_session_policy_def revoke_user_sessions_def Let_def auth_changed_def
  by (rule yields_saved yield_intros yields_ret | assumption | (simp split: option.split; fail))+

lemma revoke_session_yields: "yields accounts_state (revoke_session env sid) (\<lambda>_. True)"
proof -
  have ok: "session_ok (x\<lparr>revoked_at := a, as_updated_at := b\<rparr>)"
    if "\<exists>db. accounts_ok db \<and> z = get_session db sid" "z = Some x" for x z a b
  proof -
    from that(1) obtain db where "accounts_ok db \<and> z = get_session db sid" by blast
    then have db: "accounts_ok db" "get_session db sid = Some x" using that(2) by simp_all
    then have "x \<in> set (ad_sessions db)" by (auto simp: get_session_def dest: find_row_Some)
    then show ?thesis using db(1) by (simp add: session_ok_def accounts_ok_def list_all_iff)
  qed
  show ?thesis
    unfolding revoke_session_def Let_def
    by (rule yields_bind [OF context_yields(2)], rule yields_bind [OF yields_on_db [where Q = "\<lambda>_. True"]], rule yields_found)
      (rule yield_intros yields_ret | assumption | (erule ok, assumption) | (simp; fail))+
qed

lemma bootstrap_yields: "yields accounts_state (on_db (bootstrap_defaults env)) (\<lambda>_. True)"
proof -
  have roles: "yields accounts_inv (ensure_default_roles env names) (\<lambda>_. True)" for names
  proof (induction names)
    case Nil
    then show ?case by (simp add: yields_ret)
  next
    case (Cons n names)
    show ?case
      unfolding ensure_default_roles.simps ensure_default_role_def Let_def
      by (rule Cons.IH yield_intros | (simp; fail))+
  qed
  have permissions: "yields accounts_inv (ensure_default_permissions env) (\<lambda>_. True)"
    unfolding ensure_default_permissions_def
    by (rule yields_ofor, (rule yield_intros | (simp only: row_ok.simps; fail))+)
  have grants: "yields accounts_inv (ensure_role_permissions env m) (\<lambda>_. True)" for m
    unfolding ensure_role_permissions_def
    by (rule yields_bind [OF yields_simple(5)], rule yields_ofor, rule yields_split(3))
      (rule yields_ofor yield_intros | (simp only: row_ok.simps; fail))+
  have admin: "yields accounts_inv (bootstrap_admin env m) (\<lambda>_. True)" for m
    unfolding bootstrap_admin_def Let_def
    by (rule yields_weaken [OF yields_register] yield_intros yields_ret | (simp only: row_ok.simps; fail) | (rule TrueI))+
  show ?thesis
    unfolding bootstrap_defaults_def
    by (rule permissions roles grants admin yield_intros)+
qed

lemmas all_operations_yield = operations_yield more_operations_yield revoke_session_yields bootstrap_yields
  yields_authenticate yields_federated context_yields(1,2)

lemma auth_step_accounts: "auth_step s t \<Longrightarrow> accounts_state s \<Longrightarrow> accounts_state t"
  by (erule auth_step.cases; hypsubst;
      (erule preservesD [OF yields_preserves, rotated 2]; (rule all_operations_yield | assumption)))

lemma auth_steps_accounts: "auth_step\<^sup>*\<^sup>* s t \<Longrightarrow> accounts_state s \<Longrightarrow> accounts_state t"
  by (induction rule: rtranclp_induct) (auto intro: auth_step_accounts)

section \<open>The properties\<close>

lemma unique_users:
  assumes "sorted_wrt (\<lambda>u v. \<not> clash u v) rows" "u \<in> set rows" "v \<in> set rows" "clash u v"
  shows "u = v"
  using assms clash_sym by (induction rows) auto

text \<open>
  C25: Whatever calls are made, no two accounts of the committed table share an identifier, a user
  name or a federated identity, every user name is normalised and not empty, and the expiry of
  the next session of every account can be computed, at a time after the sign-in.
\<close>

theorem accounts_stay_wellformed:
  assumes "auth_step\<^sup>*\<^sup>* s t" and "accounts_state s" and "rows = ad_users (s_committed (au_db t))"
  shows "\<forall>u \<in> set rows. (\<forall>v \<in> set rows. ua_id u = ua_id v \<or> ua_username u = ua_username v \<or> same_identity u v \<longrightarrow> u = v) \<and>
    py_lower (py_strip (ua_username u)) = ua_username u \<and> ua_username u \<noteq> [] \<and>
    (\<exists>expires_at. next_session_expiry env u = Inr expires_at \<and> expires_at \<ge> ae_now env + minutes 5)"
proof
  fix u assume u: "u \<in> set rows"
  have db: "accounts_ok (s_committed (au_db t))"
    using auth_steps_accounts [OF assms(1,2)] by (simp add: accounts_state_def tables_def)
  have ok: "user_ok u" using find_user_ok [OF db] u assms(3) by simp
  have "session_timeout_minutes env \<ge> 5" by (simp add: session_timeout_minutes_def env_int_def Let_def split: option.split)
  then have "\<exists>expires_at. next_session_expiry env u = Inr expires_at \<and> expires_at \<ge> ae_now env + minutes 5"
    using ok by (auto simp: next_session_expiry_def validate_session_timeout_override_def user_ok_def minutes_def split: option.splits)
  moreover have "\<forall>v \<in> set rows. ua_id u = ua_id v \<or> ua_username u = ua_username v \<or> same_identity u v \<longrightarrow> u = v"
    using unique_users [of rows u] db u assms(3) by (auto simp: accounts_ok_def clash_def)
  ultimately show "(\<forall>v \<in> set rows. ua_id u = ua_id v \<or> ua_username u = ua_username v \<or> same_identity u v \<longrightarrow> u = v) \<and>
    py_lower (py_strip (ua_username u)) = ua_username u \<and> ua_username u \<noteq> [] \<and>
    (\<exists>expires_at. next_session_expiry env u = Inr expires_at \<and> expires_at \<ge> ae_now env + minutes 5)"
    using ok by (simp add: user_ok_def)
qed

end
