(* ===== verification/Auth_Login.thy ===== *)
theory Auth_Login
  imports Auth_Wellformed
begin

text \<open>
  Signing in: a locked account is refused whatever the password, enough wrong passwords lock it,
  an account with one-time codes cannot enter through the sign-in dialog, and a principal that
  was signed in is validated until its session expires.
\<close>

section \<open>Saving an account\<close>

definition saved_row :: "user_account \<Rightarrow> user_account" where
  "saved_row u = (user_row u)\<lparr>ua_version := ua_version u + 1\<rparr>"

definition save_into :: "user_account \<Rightarrow> auth_db \<Rightarrow> auth_db" where
  "save_into u db = db\<lparr>ad_users := replace_row ua_id (saved_row u) (ad_users db)\<rparr>"

text \<open>\<open>u\<close> is a change of the row \<open>x\<close> that leaves its identity alone.\<close>

definition same_account :: "user_account \<Rightarrow> user_account \<Rightarrow> bool" where
  "same_account x u \<longleftrightarrow> ua_id u = ua_id x \<and> ua_username u = ua_username x \<and> ua_version u = ua_version x \<and>
     ua_identity_provider u = ua_identity_provider x \<and> federated_subject u = federated_subject x"

lemma saved_row_fields [simp]:
  "ua_id (saved_row u) = ua_id u" "ua_username (saved_row u) = ua_username u"
  by (simp_all add: saved_row_def user_row_def)

lemma distinct_ids: "accounts_ok db \<Longrightarrow> distinct (map ua_id (ad_users db))"
proof -
  have "sorted_wrt (\<lambda>u v. \<not> clash u v) rows \<Longrightarrow> distinct (map ua_id rows)" for rows
    by (induction rows) (force simp: clash_def)+
  then show "accounts_ok db \<Longrightarrow> distinct (map ua_id (ad_users db))" by (simp add: accounts_ok_def)
qed

lemma find_account:
  "accounts_ok db \<Longrightarrow> x \<in> set (ad_users db) \<Longrightarrow> find_row ua_id (ad_users db) (ua_id x) = Some x"
  by (rule find_row_distinct) (rule distinct_ids)

lemma save_user_rows_same:
  assumes "accounts_ok db" "x \<in> set (ad_users db)" "same_account x u"
  shows "save_user_rows u (ad_users db) = Inr (replace_row ua_id (saved_row u) (ad_users db))"
proof -
  have "find_row ua_id (ad_users db) (ua_id u) = Some x"
    using find_account [OF assms(1,2)] assms(3) by (simp add: same_account_def)
  moreover have "\<not> list_ex (\<lambda>y. ua_id y \<noteq> ua_id u \<and> (ua_username y = ua_username u \<or> same_identity u y)) (ad_users db)"
  proof -
    have "y = x" if "y \<in> set (ad_users db)" "clash x y" for y
      using unique_users [of "ad_users db" x y] assms(1,2) that by (simp add: accounts_ok_def)
    moreover have "clash x y" if "ua_username y = ua_username u \<or> same_identity u y" for y
      using that assms(3) by (auto simp: clash_def same_account_def same_identity_def)
    ultimately show ?thesis using assms(3) by (auto simp: list_ex_iff same_account_def)
  qed
  ultimately show ?thesis
    using assms(3) by (simp add: save_user_rows_def update_with_version_check_def same_account_def saved_row_def)
qed

definition published :: "auth_db \<Rightarrow> string \<Rightarrow> (auth_db, auth_row) session \<Rightarrow> (auth_db, auth_row) session" where
  "published db i s = s\<lparr>s_working := db, s_committed := db, s_pending := [], s_events := s_events s @ [(''auth_changed'', i)]\<rparr>"

lemma published_fields [simp]:
  "s_working (published db i s) = db" "s_committed (published db i s) = db" "clean (published db i s)"
  by (simp_all add: published_def clean_def)

text \<open>With nothing pending, or with rows whose insert succeeds.\<close>

lemma save_user_eq:
  assumes "accounts_ok (s_working s)" "x \<in> set (ad_users (s_working s))" "same_account x u"
    and "rfold auth_insert (s_pending s) (save_into u (s_working s)) = Inr db"
  shows "save_user u s = (Inr (u\<lparr>ua_version := ua_version u + 1\<rparr>), published db (ua_id u) s)"
  using assms(4) save_user_rows_same [OF assms(1-3)]
  by (simp add: save_user_def update_user_def read_db_def publish_def auth_changed_def emit_def commit_def
      session_flush_def obind_def oget_def olift_def omodify_def oret_def save_into_def published_def)

lemma save_user_clean:
  assumes "clean s" "accounts_ok (s_working s)" "x \<in> set (ad_users (s_working s))" "same_account x u"
  shows "save_user u s = (Inr (u\<lparr>ua_version := ua_version u + 1\<rparr>), published (save_into u (s_working s)) (ua_id u) s)"
  using assms by (intro save_user_eq) (simp_all add: clean_def)

lemma find_username:
  assumes "accounts_ok db" "x \<in> set (ad_users db)"
  shows "get_by_username db (ua_username x) = Some x"
proof -
  have "sorted_wrt (\<lambda>u v. \<not> clash u v) rows \<Longrightarrow> x \<in> set rows \<Longrightarrow> find (\<lambda>u. ua_username u = ua_username x) rows = Some x" for rows
    by (induction rows) (auto simp: clash_def)
  then show ?thesis using assms by (simp add: get_by_username_def accounts_ok_def)
qed

lemma replaced_mem: "x \<in> set rows \<Longrightarrow> key x = key r \<Longrightarrow> r \<in> set (replace_row key r rows)"
  by (auto simp: replace_row_def image_iff intro!: bexI [of _ x])

lemma save_into_ok:
  assumes "accounts_ok db" "x \<in> set (ad_users db)" "same_account x u" "user_ok u"
  shows "accounts_ok (save_into u db)"
  using save_user_rows_ok [OF _ _ assms(4) save_user_rows_same [OF assms(1-3)]] assms(1)
  by (simp add: accounts_ok_def save_into_def)

lemma save_into_found:
  assumes "accounts_ok db" "x \<in> set (ad_users db)" "same_account x u" "user_ok u"
  shows "get_by_username (save_into u db) (ua_username x) = Some (saved_row u)"
    "get_user (save_into u db) (ua_id x) = Some (saved_row u)"
    "saved_row u \<in> set (ad_users (save_into u db))"
proof -
  show mem: "saved_row u \<in> set (ad_users (save_into u db))"
    using replaced_mem [OF assms(2), of ua_id "saved_row u"] assms(3) by (simp add: save_into_def same_account_def)
  show "get_by_username (save_into u db) (ua_username x) = Some (saved_row u)"
    using find_username [OF save_into_ok [OF assms] mem] assms(3) by (simp add: same_account_def)
  show "get_user (save_into u db) (ua_id x) = Some (saved_row u)"
    using find_account [OF save_into_ok [OF assms] mem] assms(3) by (simp add: same_account_def get_user_def)
qed

lemma auth_event_clean:
  assumes "clean s" "record_auth_event a n o1 s = (r, t)"
  shows "r = Inr () \<and> clean t \<and> s_working t = s_working s \<and> s_committed t = s_committed s"
proof -
  obtain i where "record_auth_event a n o1 s = (Inr (), snd (record_audit auth_insert a ''auth_session'' i s))"
    by (rule auth_event_result)
  then have "r = Inr ()" "t = (if s_audit_on s then s\<lparr>s_audit := s_audit s @ [(a, ''auth_session'', i)]\<rparr> else s)"
    using assms by (simp_all add: record_audit_clean_eq)
  then show ?thesis using assms(1) by (simp add: clean_def)
qed

lemma login_failed_clean:
  assumes "clean s" "login_failed n o1 err s = (r, t)"
  shows "r = Inl err \<and> clean t \<and> s_working t = s_working s \<and> s_committed t = s_committed s"
  using assms(2) unfolding login_failed_def
  by (cases rule: obindE) (use auth_event_clean [OF assms(1)] in fastforce)+

section \<open>One attempt\<close>

definition the_account :: "auth_state \<Rightarrow> string \<Rightarrow> user_account option" where
  "the_account s n = get_by_username (s_working (au_db s)) (py_lower (py_strip n))"

definition settled :: "auth_state \<Rightarrow> bool" where
  "settled s \<longleftrightarrow> clean (au_db s) \<and> accounts_state s"

lemma settled_db: "settled s \<Longrightarrow> accounts_ok (s_working (au_db s)) \<and> clean (au_db s)"
  by (simp add: settled_def accounts_state_def tables_def)

lemma settledI: "clean d \<Longrightarrow> accounts_ok (s_working d) \<Longrightarrow> settled (s\<lparr>au_db := d\<rparr>)"
  by (auto simp: settled_def accounts_state_def tables_def clean_def)

lemma account_mem: "the_account s n = Some u \<Longrightarrow> u \<in> set (ad_users (s_working (au_db s))) \<and> ua_username u = py_lower (py_strip n)"
  unfolding the_account_def get_by_username_def by (auto simp: find_Some_iff)

lemma lock_pending: "locked_until u = Some t \<Longrightarrow> ae_now env < t \<Longrightarrow> lift_elapsed_lock env u = oret u"
  by (auto simp: lift_elapsed_lock_def)

lemma refused_when_locked:
  assumes "settled s" "the_account s n = Some u" "ua_is_active u" "locked_until u = Some t" "ae_now env < t"
  obtains d where "authenticate env n pw code label s = (Inl (ValidationError ''AUTH_LOCKED''), s\<lparr>au_db := d\<rparr>)"
    "clean d" "s_working d = s_working (au_db s)" "s_committed d = s_committed (au_db s)"
proof -
  let ?n = "py_lower (py_strip n)"
  obtain r d where eq: "login_failed ?n (Some (ua_id u)) (ValidationError ''AUTH_LOCKED'') (au_db s) = (r :: unit result, d)"
    by (cases "login_failed ?n (Some (ua_id u)) (ValidationError ''AUTH_LOCKED'') (au_db s) :: unit result \<times> _")
  have d: "r = Inl (ValidationError ''AUTH_LOCKED'')" "clean d" "s_working d = s_working (au_db s)" "s_committed d = s_committed (au_db s)"
    using login_failed_clean [OF _ eq] assms(1) by (simp_all add: settled_def)
  have "refuse_locked env ?n u (au_db s) = (Inl (ValidationError ''AUTH_LOCKED''), d)"
    using eq d(1) assms(4,5) by (simp add: refuse_locked_def)
  then have "authenticate env n pw code label s = (Inl (ValidationError ''AUTH_LOCKED''), s\<lparr>au_db := d\<rparr>)"
    using assms(2,3) lock_pending [OF assms(4,5)]
    by (simp add: authenticate_def Let_def on_db_def obind_def oget_def oret_def the_account_def)
  then show ?thesis using d(2-4) that by blast
qed

text \<open>The row a failed attempt leaves.\<close>

definition failed_row :: "auth_env \<Rightarrow> user_account \<Rightarrow> user_account" where
  "failed_row env u =
     (let u1 = u\<lparr>failed_login_attempts := failed_login_attempts u + 1\<rparr>;
          u2 = (if failed_login_attempts u + 1 \<ge> login_lockout_threshold env
                then u1\<lparr>locked_until := Some (ae_now env + minutes (login_lockout_minutes env))\<rparr> else u1)
      in u2\<lparr>ua_updated_at := Some (ae_now env)\<rparr>)"

lemma failed_row_fields [simp]:
  "ua_id (failed_row env u) = ua_id u" "ua_username (failed_row env u) = ua_username u"
  "same_account x (failed_row env u) = same_account x u" "ua_is_active (failed_row env u) = ua_is_active u"
  "password_hash (failed_row env u) = password_hash u" "mfa_enabled (failed_row env u) = mfa_enabled u"
  "failed_login_attempts (failed_row env u) = failed_login_attempts u + 1"
  "locked_until (failed_row env u) = (if failed_login_attempts u + 1 \<ge> login_lockout_threshold env
     then Some (ae_now env + minutes (login_lockout_minutes env)) else locked_until u)"
  by (simp_all add: failed_row_def Let_def same_account_def)

lemma failed_row_ok: "user_ok u \<Longrightarrow> user_ok (failed_row env u)"
  by (simp add: failed_row_def Let_def)

lemma register_failed_eq: "register_failed_login env u = save_user (failed_row env u)"
  by (simp add: register_failed_login_def failed_row_def Let_def)

lemma saved_row_more [simp]:
  "ua_is_active (saved_row u) = ua_is_active u" "password_hash (saved_row u) = password_hash u"
  "failed_login_attempts (saved_row u) = failed_login_attempts u" "locked_until (saved_row u) = locked_until u"
  by (simp_all add: saved_row_def user_row_def)

lemma same_account_refl [simp]: "same_account x x"
  by (simp add: same_account_def)

text \<open>Registering a failure on a settled session, and the refusal that follows it.\<close>

lemma failure_registered:
  assumes "clean d" "accounts_ok (s_working d)" "u \<in> set (ad_users (s_working d))"
  obtains d' where "obind (register_failed_login env u) (\<lambda>_. login_failed n o1 err) d = (Inl err, d')"
    "clean d'" "s_working d' = save_into (failed_row env u) (s_working d)"
    "s_committed d' = save_into (failed_row env u) (s_working d)"
proof -
  let ?p = "published (save_into (failed_row env u) (s_working d)) (ua_id u) d"
  have save: "register_failed_login env u d = (Inr ((failed_row env u)\<lparr>ua_version := ua_version (failed_row env u) + 1\<rparr>), ?p)"
    using save_user_clean [OF assms, of "failed_row env u"] by (simp add: register_failed_eq)
  obtain r d' where eq: "login_failed n o1 err ?p = (r :: 'a result, d')"
    by (cases "login_failed n o1 err ?p :: 'a result \<times> _")
  have "r = Inl err" "clean d'" "s_working d' = s_working ?p" "s_committed d' = s_committed ?p"
    using login_failed_clean [OF _ eq] by simp_all
  then show ?thesis using save eq that by (simp add: obind_def)
qed

lemma wrong_password_attempt:
  assumes s: "settled s" and u: "the_account s n = Some u" "ua_is_active u" "locked_until u = None"
    and wrong: "verify_password (ae_kdf env) pw (password_hash u) = Inr False"
  obtains d where "authenticate env n pw code label s = (Inl (ValidationError ''AUTH_FAILED''), s\<lparr>au_db := d\<rparr>)"
    "clean d" "s_working d = save_into (failed_row env u) (s_working (au_db s))"
proof -
  let ?n = "py_lower (py_strip n)" and ?err = "ValidationError ''AUTH_FAILED''"
  have db: "clean (au_db s)" "accounts_ok (s_working (au_db s))" "u \<in> set (ad_users (s_working (au_db s)))"
    using settled_db [OF s] account_mem [OF u(1)] by simp_all
  obtain d where d: "obind (register_failed_login env u) (\<lambda>_. login_failed ?n (Some (ua_id u)) ?err) (au_db s) = (Inl ?err :: unit result, d)"
    "clean d" "s_working d = save_into (failed_row env u) (s_working (au_db s))"
    by (rule failure_registered [OF db])
  have "authenticate env n pw code label s = (Inl ?err, s\<lparr>au_db := d\<rparr>)"
    using u wrong d(1)
    by (simp add: authenticate_def Let_def on_db_def obind_def oget_def oret_def olift_def the_account_def
        lift_elapsed_lock_def refuse_locked_def split: prod.splits sum.splits)
  then show ?thesis using d(2,3) that by blast
qed

section \<open>Lockout\<close>

text \<open>
  A locked account is refused, whatever the password and the code, and the refusal changes no
  row and leaves the signed-in user alone.
\<close>

theorem locked_account_refused:
  assumes "settled s" and "the_account s n = Some u" and "ua_is_active u"
    and "locked_until u = Some t" and "ae_now env < t"
  shows "fst (authenticate env n pw code label s) = Inl (ValidationError ''AUTH_LOCKED'') \<and>
    s_committed (au_db (snd (authenticate env n pw code label s))) = s_committed (au_db s) \<and>
    au_context (snd (authenticate env n pw code label s)) = au_context s"
proof -
  obtain d where "authenticate env n pw code label s = (Inl (ValidationError ''AUTH_LOCKED''), s\<lparr>au_db := d\<rparr>)"
    "s_committed d = s_committed (au_db s)"
    by (rule refused_when_locked [OF assms])
  then show ?thesis by simp
qed

text \<open>A run of attempts on one name, each at its own instant with its own password.\<close>

fun attempts :: "string \<Rightarrow> (auth_env \<times> string) list \<Rightarrow> auth_state \<Rightarrow> auth_state" where
  "attempts n [] s = s"
| "attempts n ((env, pw) # xs) s = attempts n xs (snd (authenticate env n pw None None s))"

definition locked_past :: "auth_state \<Rightarrow> string \<Rightarrow> datetime \<Rightarrow> bool" where
  "locked_past s n limit \<longleftrightarrow> settled s \<and>
     (\<exists>u t. the_account s n = Some u \<and> ua_is_active u \<and> locked_until u = Some t \<and> limit \<le> t)"

lemma stays_locked:
  assumes "locked_past s n limit" "\<forall>(env, pw) \<in> set xs. ae_now env < limit"
  shows "locked_past (attempts n xs s) n limit"
  using assms
proof (induction xs arbitrary: s)
  case (Cons x xs)
  obtain env pw where x: "x = (env, pw)" by (cases x)
  obtain u t where u: "settled s" "the_account s n = Some u" "ua_is_active u" "locked_until u = Some t" "ae_now env < t" "limit \<le> t"
    using Cons.prems by (auto simp: locked_past_def x)
  obtain d where d: "authenticate env n pw None None s = (Inl (ValidationError ''AUTH_LOCKED''), s\<lparr>au_db := d\<rparr>)"
    "clean d" "s_working d = s_working (au_db s)"
    by (rule refused_when_locked [OF u(1-5)])
  have "locked_past (s\<lparr>au_db := d\<rparr>) n limit"
    using u d settled_db [OF u(1)] by (auto simp: locked_past_def the_account_def intro!: settledI)
  then show ?case using Cons.IH Cons.prems(2) d(1) by (simp add: x)
qed simp

lemma wrong_passwords_lock:
  assumes "settled s" "the_account s n = Some u" "ua_is_active u" "locked_until u = None"
    and "\<forall>(env, pw) \<in> set xs. T \<le> ae_now env \<and> ae_now env < T + minutes m \<and>
      login_lockout_threshold env = k \<and> login_lockout_minutes env = m \<and>
      verify_password (ae_kdf env) pw (password_hash u) = Inr False"
    and "k \<le> failed_login_attempts u + int (length xs)" "xs \<noteq> []"
  shows "locked_past (attempts n xs s) n (T + minutes m)"
  using assms
proof (induction xs arbitrary: s u)
  case (Cons x xs)
  obtain env pw where x: "x = (env, pw)" by (cases x)
  have env: "T \<le> ae_now env" "login_lockout_threshold env = k" "login_lockout_minutes env = m"
    "verify_password (ae_kdf env) pw (password_hash u) = Inr False"
    using Cons.prems(5) by (auto simp: x)
  let ?u = "failed_row env u"
  obtain d where d: "authenticate env n pw None None s = (Inl (ValidationError ''AUTH_FAILED''), s\<lparr>au_db := d\<rparr>)"
    "clean d" "s_working d = save_into ?u (s_working (au_db s))"
    by (rule wrong_password_attempt [OF Cons.prems(1-4) env(4)])
  let ?s = "s\<lparr>au_db := d\<rparr>"
  have mem: "u \<in> set (ad_users (s_working (au_db s)))" "ua_username u = py_lower (py_strip n)"
    and db: "accounts_ok (s_working (au_db s))"
    using account_mem [OF Cons.prems(2)] settled_db [OF Cons.prems(1)] by simp_all
  have ok: "user_ok ?u" using failed_row_ok find_user_ok [OF db mem(1)] by blast
  have same: "same_account u ?u" by simp
  have s': "settled ?s"
    using d(2,3) save_into_ok [OF db mem(1) same ok] by (simp add: settledI)
  have u': "the_account ?s n = Some (saved_row ?u)"
    using save_into_found(1) [OF db mem(1) same ok] mem(2) d(3) by (simp add: the_account_def)
  have rest: "\<forall>(env, pw) \<in> set xs. T \<le> ae_now env \<and> ae_now env < T + minutes m \<and>
      login_lockout_threshold env = k \<and> login_lockout_minutes env = m \<and>
      verify_password (ae_kdf env) pw (password_hash (saved_row ?u)) = Inr False"
    using Cons.prems(5) by simp
  show ?case
  proof (cases "failed_login_attempts u + 1 \<ge> k")
    case True
    then have "locked_past ?s n (T + minutes m)"
      using s' u' env Cons.prems(3) by (simp add: locked_past_def)
    then show ?thesis
      using stays_locked [of ?s n "T + minutes m" xs] rest d(1) by (auto simp: x)
  next
    case False
    then have ne: "xs \<noteq> []" "k \<le> failed_login_attempts (saved_row ?u) + int (length xs)"
      "locked_until (saved_row ?u) = None" "ua_is_active (saved_row ?u)"
      using Cons.prems(3,4,6) env(2) by auto
    show ?thesis
      using Cons.IH [OF s' u' ne(4,3) rest ne(2,1)] d(1) by (simp add: x)
  qed
qed simp

text \<open>
  C10: Enough wrong passwords lock the account: when the attempts together with the failures already
  counted reach the threshold within one lockout time of the first, the next attempt in that time
  is refused, even with the right password.
\<close>

theorem wrong_passwords_lock_account:
  assumes "settled s" and "the_account s n = Some u" and "ua_is_active u" and "locked_until u = None"
    and "\<forall>(env, pw) \<in> set guesses. T \<le> ae_now env \<and> ae_now env < T + minutes m \<and>
      login_lockout_threshold env = k \<and> login_lockout_minutes env = m \<and>
      verify_password (ae_kdf env) pw (password_hash u) = Inr False"
    and "k \<le> failed_login_attempts u + int (length guesses)" and "guesses \<noteq> []"
    and "ae_now env < T + minutes m"
  shows "fst (authenticate env n pw code label (attempts n guesses s)) = Inl (ValidationError ''AUTH_LOCKED'')"
proof -
  have "locked_past (attempts n guesses s) n (T + minutes m)"
    by (rule wrong_passwords_lock [OF assms(1-7)])
  then obtain v t where v: "settled (attempts n guesses s)" "the_account (attempts n guesses s) n = Some v" "ua_is_active v"
    "locked_until v = Some t" "T + minutes m \<le> t"
    unfolding locked_past_def by blast
  have "ae_now env < t" using v(5) assms(8) by simp
  then obtain d where "authenticate env n pw code label (attempts n guesses s) =
      (Inl (ValidationError ''AUTH_LOCKED''), (attempts n guesses s)\<lparr>au_db := d\<rparr>)"
    using refused_when_locked [OF v(1-4)] by blast
  then show ?thesis by simp
qed

section \<open>One-time codes\<close>

lemma no_code_refused: "verify_totp_code mac secret None t = Inr False"
  by (simp add: verify_totp_code_def Let_def)

lemma login_failed_raises [simp]: "login_failed n o1 err d \<noteq> (Inr x, d')"
  by (auto simp: login_failed_def)

lemma save_user_value: "save_user u d = (Inr v, d') \<Longrightarrow> v = u\<lparr>ua_version := ua_version u + 1\<rparr>"
  unfolding save_user_def update_user_def by (elim obindE) auto

lemma lift_keeps_mfa: "lift_elapsed_lock env u d = (Inr v, d') \<Longrightarrow> mfa_enabled v = mfa_enabled u"
  unfolding lift_elapsed_lock_def by (auto split: option.splits if_splits dest!: save_user_value)

lemma mfa_check_fails: "mfa_enabled u \<Longrightarrow> check_mfa env n u None d \<noteq> (Inr x, d')"
  by (auto simp: check_mfa_def no_code_refused)

text \<open>
  The sign-in dialog never lets an account with one-time codes in: it asks for no code, so the
  attempt fails with the right password as with a wrong one.
\<close>

theorem mfa_account_cannot_sign_in:
  assumes "the_account s (py_strip n) = Some u" and "mfa_enabled u"
  shows "fst (sign_in env n pw s) \<noteq> Inr True"
proof
  assume "fst (sign_in env n pw s) = Inr True"
  then obtain v t where "authenticate env (py_strip n) pw None None s = (Inr v, t)"
    unfolding sign_in_def by (cases "sign_in env n pw s") (auto simp: sign_in_def split: if_splits)
  then show False
    using assms lift_keeps_mfa mfa_check_fails
    by (auto simp: authenticate_def Let_def the_account_def on_db_def split: prod.splits option.splits if_splits)
qed

section \<open>A successful sign-in\<close>

lemma lift_ok:
  assumes "clean d" "accounts_ok (s_working d)" "x \<in> set (ad_users (s_working d))"
    and "lift_elapsed_lock env x d = (Inr u, d')"
  shows "clean d' \<and> accounts_ok (s_working d') \<and> ua_is_active u = ua_is_active x \<and> user_ok u \<and>
    (\<exists>y \<in> set (ad_users (s_working d')). same_account y u)"
proof (cases "locked_until x = None \<or> ae_now env < the (locked_until x)")
  case True
  then have "u = x" "d' = d" using assms(4) by (auto simp: lift_elapsed_lock_def split: option.splits if_splits)
  moreover have "user_ok x" using assms(2,3) by (rule find_user_ok)
  ultimately show ?thesis using assms(1-3) same_account_refl by blast
next
  case False
  let ?x = "x\<lparr>failed_login_attempts := 0, locked_until := None, ua_updated_at := Some (ae_now env)\<rparr>"
  have ok: "user_ok ?x" using find_user_ok [OF assms(2,3)] by simp
  have same: "same_account x ?x" by (simp add: same_account_def)
  have "save_user ?x d = (Inr u, d')" using False assms(4) by (auto simp: lift_elapsed_lock_def)
  then have u: "u = ?x\<lparr>ua_version := ua_version ?x + 1\<rparr>" and d': "d' = published (save_into ?x (s_working d)) (ua_id ?x) d"
    using save_user_clean [OF assms(1-3) same] by auto
  have "saved_row ?x \<in> set (ad_users (s_working d'))"
    using save_into_found(3) [OF assms(2,3) same ok] by (simp add: d')
  moreover have "same_account (saved_row ?x) u" by (simp add: u same_account_def saved_row_def user_row_def)
  moreover have "clean d'" "accounts_ok (s_working d')" "user_ok u"
    using save_into_ok [OF assms(2,3) same ok] ok by (simp_all add: d' u)
  ultimately show ?thesis by (auto simp: u)
qed

lemma on_db_iff: "on_db m s = (r, t) \<longleftrightarrow> (\<exists>d. m (au_db s) = (r, d) \<and> t = s\<lparr>au_db := d\<rparr>)"
  by (auto simp: on_db_def split: prod.splits)

lemma read_db_iff: "read_db f d = (r, d') \<longleftrightarrow> f (s_working d) = r \<and> d' = d"
  by (auto simp: read_db_def obind_def oget_def olift_def)

lemma refuse_locked_passed: "refuse_locked env n u d = (Inr x, d') \<Longrightarrow> d' = d"
  by (auto simp: refuse_locked_def split: option.splits if_splits)

lemma check_mfa_passed: "check_mfa env n u code d = (Inr x, d') \<Longrightarrow> d' = d"
  by (auto simp: check_mfa_def split: if_splits)

lemma checked_account:
  assumes "settled s" "authenticate env n pw code label s = (Inr v, t)"
  obtains u x d where "clean d" "accounts_ok (s_working d)" "x \<in> set (ad_users (s_working d))" "same_account x u"
    "user_ok u" "ua_is_active u" "complete_successful_authentication env ''password'' label u (s\<lparr>au_db := d\<rparr>) = (Inr v, t)"
proof -
  let ?n = "py_lower (py_strip n)" and ?d = "au_db s"
  from assms(2) obtain u d where on: "obind (oget (\<lambda>s. get_by_username (s_working s) ?n)) (\<lambda>found.
        case found of
          None \<Rightarrow> login_failed ?n None (ValidationError ''AUTH_FAILED'')
        | Some u0 \<Rightarrow>
            (if \<not> ua_is_active u0 then login_failed ?n (Some (ua_id u0)) (ValidationError ''AUTH_FAILED'')
             else obind (lift_elapsed_lock env u0) (\<lambda>u.
                  obind (refuse_locked env ?n u) (\<lambda>_.
                  obind (olift (verify_password (ae_kdf env) pw (password_hash u))) (\<lambda>ok.
                  obind (if ok then oret ()
                         else obind (register_failed_login env u) (\<lambda>_.
                              login_failed ?n (Some (ua_id u)) (ValidationError ''AUTH_FAILED''))) (\<lambda>_.
                  obind (check_mfa env ?n u code) (\<lambda>_.
                  oret u))))))) ?d = (Inr u, d)"
    and u: "complete_successful_authentication env ''password'' label u (s\<lparr>au_db := d\<rparr>) = (Inr v, t)"
    unfolding authenticate_def Let_def by (elim obindE) (auto simp: on_db_iff)
  from on obtain u0 where u0: "get_by_username (s_working ?d) ?n = Some u0" "ua_is_active u0"
    and rest: "obind (lift_elapsed_lock env u0) (\<lambda>u.
                  obind (refuse_locked env ?n u) (\<lambda>_.
                  obind (olift (verify_password (ae_kdf env) pw (password_hash u))) (\<lambda>ok.
                  obind (if ok then oret ()
                         else obind (register_failed_login env u) (\<lambda>_.
                              login_failed ?n (Some (ua_id u)) (ValidationError ''AUTH_FAILED''))) (\<lambda>_.
                  obind (check_mfa env ?n u code) (\<lambda>_.
                  oret u))))) ?d = (Inr u, d)"
    by (elim obindE) (simp_all split: option.splits if_splits)
  from rest have lift: "lift_elapsed_lock env u0 ?d = (Inr u, d)"
    by (elim obindE) (auto split: if_splits dest!: refuse_locked_passed check_mfa_passed)
  have "u0 \<in> set (ad_users (s_working ?d))"
    using account_mem [of s n u0] u0(1) by (simp add: the_account_def)
  from lift_ok [OF _ _ this lift] settled_db [OF assms(1)] show ?thesis
    using u u0(2) that by blast
qed

text \<open>The rows a completed sign-in leaves.\<close>

lemma completed:
  assumes "clean d" "accounts_ok (s_working d)" "x \<in> set (ad_users (s_working d))" "same_account x u" "user_ok u" "ua_is_active u"
    and "complete_successful_authentication env m label u (s\<lparr>au_db := d\<rparr>) = (Inr v, t)"
  obtains e k w y where "next_session_expiry env u = Inr e" "active_session_id v = Some (ae_uuid env k)" "ua_id v = ua_id u"
    "get_user (s_working (au_db t)) (ua_id u) = Some w" "ua_id w = ua_id u" "ua_is_active w" "ua_session_expires_at w = Some e"
    "ua_session_revision w = ua_session_revision u" "get_session (s_working (au_db t)) (ae_uuid env k) = Some y"
    "as_id y = ae_uuid env k" "as_user_id y = ua_id u" "revoked_at y = None" "as_expires_at y = e"
    "as_session_revision y = ua_session_revision u" "ua_session_expires_at v = Some e"
proof -
  let ?sid = "ae_uuid env (s_next_uuid d)" and ?label = "normalize_device_label label"
  obtain e where e: "next_session_expiry env u = Inr e"
    using assms(7) unfolding complete_successful_authentication_def
    by (cases "next_session_expiry env u") (auto simp: on_db_def split: prod.splits)
  let ?u = "u\<lparr>failed_login_attempts := 0, locked_until := None, last_login_at := Some (ae_now env),
               ua_last_login_auth_method := Some m, last_login_device_label := ?label,
               ua_session_expires_at := Some e, ua_updated_at := Some (ae_now env), active_session_id := Some ?sid\<rparr>"
  let ?y = "create_auth_session ?sid (ae_now env) (ua_id u) (rev_or_1 (ua_session_revision u)) m e ?label"
  let ?d1 = "d\<lparr>s_next_uuid := Suc (s_next_uuid d), s_pending := [SessionRow ?y]\<rparr>"
  have ok: "user_ok ?u" using assms(5) by simp
  have same: "same_account x ?u" using assms(4) by (simp add: same_account_def)
  have d1: "s_working ?d1 = s_working d" "s_pending ?d1 = [SessionRow ?y]" by simp_all
  from assms(1) have "s_pending d = []" by (simp add: clean_def)
  then obtain d2 d3 where save: "save_user ?u ?d1 = (Inr v, d2)"
    and event: "record_auth_event ''auth.login.success'' (ua_username u) (Some (ua_id u)) d2 = (Inr (), d3)"
    and refresh: "refresh_current_session_if_user env (ua_id u) (s\<lparr>au_db := d3\<rparr>) = (Inr (), t)"
    using assms(7) e unfolding complete_successful_authentication_def
    by (auto simp: on_db_def Let_def split: prod.splits)
  have t: "au_db t = d3"
    using refresh by (auto simp: refresh_current_session_if_user_def Let_def split: option.splits if_splits sum.splits)
  obtain db where db: "auth_insert (SessionRow ?y) (save_into ?u (s_working d)) = Inr db"
  proof (cases "auth_insert (SessionRow ?y) (save_into ?u (s_working d))")
    case (Inl err)
    have "save_user_rows ?u (ad_users (s_working d)) = Inr (replace_row ua_id (saved_row ?u) (ad_users (s_working d)))"
      using save_user_rows_same [OF assms(2,3) same] .
    then show ?thesis
      using save Inl by (simp add: save_user_def update_user_def read_db_def publish_def commit_def session_flush_def
          obind_def oget_def olift_def omodify_def oret_def save_into_def del: auth_insert.simps)
  qed (rule that)
  have save': "save_user ?u ?d1 = (Inr (?u\<lparr>ua_version := ua_version ?u + 1\<rparr>), published db (ua_id ?u) ?d1)"
  proof (rule save_user_eq [OF _ _ same])
    show "accounts_ok (s_working ?d1)" "x \<in> set (ad_users (s_working ?d1))" using assms(2,3) by simp_all
    show "rfold auth_insert (s_pending ?d1) (save_into ?u (s_working ?d1)) = Inr db"
      using db by (simp del: auth_insert.simps)
  qed
  have v: "v = ?u\<lparr>ua_version := ua_version ?u + 1\<rparr>" and d2: "d2 = published db (ua_id ?u) ?d1"
    using save save' by auto
  have "s_working d3 = db" using auth_event_clean [OF _ event] by (simp add: d2)
  have new: "\<not> list_ex (\<lambda>z. as_id z = ?sid) (ad_sessions (s_working d))"
    and db': "db = (save_into ?u (s_working d))\<lparr>ad_sessions := ad_sessions (s_working d) @ [?y]\<rparr>"
    using db by (simp_all add: save_into_def create_auth_session_def split: if_splits)
  have "find_row as_id rows ?sid = None \<Longrightarrow> find_row as_id (rows @ [?y]) ?sid = Some ?y" for rows
    by (induction rows) (auto simp: find_row_def create_auth_session_def)
  moreover have "find_row as_id (ad_sessions (s_working d)) ?sid = None"
    using new by (auto simp: find_row_None list_ex_iff)
  ultimately have y: "get_session db ?sid = Some ?y" by (simp add: get_session_def db')
  have w: "get_user db (ua_id u) = Some (saved_row ?u)"
    using save_into_found(2) [OF assms(2,3) same ok] assms(4) by (simp add: db' get_user_def same_account_def)
  have rev: "max 1 (rev_or_1 (rev_or_1 (ua_session_revision u))) = ua_session_revision u"
    using assms(5) by (simp add: user_ok_def rev_or_1_def)
  show ?thesis
  proof (rule that [of e "s_next_uuid d" "saved_row ?u" ?y])
    show "get_user (s_working (au_db t)) (ua_id u) = Some (saved_row ?u)" "get_session (s_working (au_db t)) ?sid = Some ?y"
      using w y by (simp_all add: t \<open>s_working d3 = db\<close>)
  qed (use e rev assms(6) in \<open>simp_all add: v saved_row_def user_row_def create_auth_session_def\<close>)
qed

lemma next_expiry_late: "next_session_expiry env u = Inr e \<Longrightarrow> ae_now env + minutes 5 \<le> e"
proof -
  have "session_timeout_minutes env \<ge> 5" by (simp add: session_timeout_minutes_def env_int_def Let_def split: option.split)
  then show "next_session_expiry env u = Inr e \<Longrightarrow> ae_now env + minutes 5 \<le> e"
    by (auto simp: next_session_expiry_def validate_session_timeout_override_def minutes_def split: option.splits)
qed

lemma user_found_principal:
  assumes "get_user db (ua_id w) = Some w'"
  shows "\<exists>p. build_principal db w sid = Inr p"
  using assms by (auto simp: build_principal_def get_user_role_names_def get_user_permissions_def require_user_def Let_def
      split: prod.splits)

text \<open>
  C24: A successful sign-in installs a principal that the service validates at every instant before
  its expiry and at none after it, as long as the tables stay as they are; the session lasts at
  least five minutes.
\<close>

theorem signed_in_until_expiry:
  assumes "settled s" and "sign_in env n pw s = (Inr True, t)"
    and "\<forall>k. ae_uuid env k \<noteq> [] \<and> py_strip (ae_uuid env k) = ae_uuid env k"
  shows "\<exists>p e. au_context t = Some p \<and> session_expires_at p = Some e \<and> ae_now env + minutes 5 \<le> e \<and>
    (\<forall>now. validate_session_principal now (s_working (au_db t)) p \<noteq> None \<longleftrightarrow> now < e)"
proof -
  obtain v t1 q where auth: "authenticate env (py_strip n) pw None None s = (Inr v, t1)"
    and q: "build_principal (s_working (au_db t1)) v None = Inr q"
    and t: "t = t1\<lparr>au_context := Some (normalize_principal q)\<rparr>"
    using assms(2) unfolding sign_in_def by (auto simp: on_db_iff read_db_iff split: if_splits)
  obtain u x d where u: "clean d" "accounts_ok (s_working d)" "x \<in> set (ad_users (s_working d))" "same_account x u"
    "user_ok u" "ua_is_active u" "complete_successful_authentication env ''password'' None u (s\<lparr>au_db := d\<rparr>) = (Inr v, t1)"
    by (rule checked_account [OF assms(1) auth])
  let ?db = "s_working (au_db t1)"
  obtain e k w y where e: "next_session_expiry env u = Inr e" "active_session_id v = Some (ae_uuid env k)" "ua_id v = ua_id u"
    and w: "get_user ?db (ua_id u) = Some w" "ua_id w = ua_id u" "ua_is_active w" "ua_session_expires_at w = Some e"
      "ua_session_revision w = ua_session_revision u"
    and y: "get_session ?db (ae_uuid env k) = Some y" "as_id y = ae_uuid env k" "as_user_id y = ua_id u" "revoked_at y = None"
      "as_expires_at y = e" "as_session_revision y = ua_session_revision u"
    by (rule completed [OF u])
  let ?sid = "ae_uuid env k"
  have sid: "?sid \<noteq> []" "py_strip ?sid = ?sid" using assms(3) by simp_all
  have "resolved_session_of ?db v None = (Some y, Some ?sid)"
    using e(2) sid y(1,4) by (simp add: resolved_session_of_def strip_or_none_def)
  then have p: "p_user_id q = ua_id u" "session_expires_at q = Some e" "session_id q = Some ?sid"
    using q e(3) y(5) by (auto simp: build_principal_def Let_def)
  let ?p = "normalize_principal q"
  have np: "p_user_id ?p = ua_id u" "session_expires_at ?p = Some e" "session_id ?p = Some ?sid"
    using p sid by (simp_all add: normalize_principal_def Let_def strip_or_none_def)
  obtain r where "build_principal ?db w (Some ?sid) = Inr r"
    using user_found_principal [of ?db w w] w(1,2) by auto
  then have valid: "validate_session_principal now ?db ?p \<noteq> None \<longleftrightarrow> now < e" for now
    using np w y sid by (auto simp: validate_session_principal_def build_valid_principal_def)
  show ?thesis
    using np(2) next_expiry_late [OF e(1)] valid by (simp add: t)
qed

end
