(* ===== verification/Auth_Secrets_Properties.thy ===== *)
theory Auth_Secrets_Properties
  imports Auth_Secrets
begin

text \<open>
  Password hashes verify against the password they were made from, whatever the salt, and
  one-time codes are accepted in exactly three windows of thirty seconds.
\<close>

section \<open>Decimal numbers\<close>

lemma is_digit_digit_char: "n < 10 \<Longrightarrow> is_digit (digit_char n)"
  by (simp add: is_digit_def digit_char_def Let_def)

lemma digit_value_digit_char: "n < 10 \<Longrightarrow> digit_value (digit_char n) = int n"
  by (simp add: digit_value_def digit_char_def)

lemma nat_digits_last:
  "nat_digits n = (if n < 10 then [digit_char n] else nat_digits (n div 10) @ [digit_char (n mod 10)])"
  by (rule nat_digits.simps)

lemma nat_digits_digits: "c \<in> set (nat_digits n) \<Longrightarrow> is_digit c"
proof (induction n rule: nat_digits.induct)
  case (1 n)
  show ?case
  proof (cases "n < 10")
    case True
    then show ?thesis using 1(2) by (simp add: nat_digits_last [of n] is_digit_digit_char)
  next
    case False
    then show ?thesis using 1 by (auto simp: nat_digits_last [of n] is_digit_digit_char)
  qed
qed

lemma nat_digits_ne: "nat_digits n \<noteq> []"
  by (subst nat_digits_last) simp

lemma int_digits_append:
  "\<forall>c \<in> set ds. is_digit c \<Longrightarrow>
     int_digits b acc (ds @ cs) = int_digits (b \<or> ds \<noteq> []) (foldl (\<lambda>a c. 10 * a + digit_value c) acc ds) cs"
  by (induction ds arbitrary: b acc) auto

lemma foldl_nat_digits: "foldl (\<lambda>a c. 10 * a + digit_value c) 0 (nat_digits n) = int n"
proof (induction n rule: nat_digits.induct)
  case (1 n)
  show ?case
  proof (cases "n < 10")
    case True
    then show ?thesis by (simp add: nat_digits_last [of n] digit_value_digit_char)
  next
    case False
    have "10 * int (n div 10) + int (n mod 10) = int n" by (simp add: zdiv_int zmod_int)
    then show ?thesis using False 1 by (subst nat_digits_last) (simp add: digit_value_digit_char)
  qed
qed

lemma not_space_digit: "is_digit c \<Longrightarrow> \<not> py_isspace c"
  by (auto simp: is_digit_def py_isspace_def Let_def)

lemma py_strip_unchanged:
  assumes "s \<noteq> [] \<Longrightarrow> \<not> py_isspace (hd s) \<and> \<not> py_isspace (last s)"
  shows "py_strip s = s"
proof (cases "s = []")
  case False
  then have "dropWhile py_isspace s = s" using assms by (cases s) auto
  moreover have "dropWhile py_isspace (rev s) = rev s"
    using assms False by (cases "rev s") (auto simp: last_rev hd_rev [symmetric])
  ultimately show ?thesis by (simp add: py_strip_def)
qed simp

lemma py_int_str: "0 \<le> n \<Longrightarrow> py_int (py_str_int n) = Some n"
proof -
  assume n: "0 \<le> n"
  let ?ds = "nat_digits (nat n)"
  have dig: "\<forall>c \<in> set ?ds. is_digit c" using nat_digits_digits by blast
  have strip: "py_strip ?ds = ?ds"
    by (rule py_strip_unchanged) (use dig not_space_digit in auto)
  obtain c cs where ds: "?ds = c # cs" using nat_digits_ne by (cases ?ds) auto
  have c: "c \<noteq> CHR ''-'' \<and> c \<noteq> CHR ''+''" using dig ds by (auto simp: is_digit_def Let_def)
  have "int_digits False 0 (c # cs) = Some n"
    using int_digits_append [OF dig, of False 0 "[]"] foldl_nat_digits [of "nat n"] n ds by simp
  then show "py_int (py_str_int n) = Some n"
    using n strip ds c by (simp add: py_str_int_def py_int_def del: int_digits.simps)
qed

section \<open>Base 64\<close>

lemma b64_char_value [simp]: "n < 64 \<Longrightarrow> b64_value (b64_char n) = Some n"
  by (auto simp: b64_value_def b64_char_def Let_def of_char_of)

lemma b64_char_special [simp]:
  "n < 64 \<Longrightarrow> b64_char n \<noteq> CHR ''=''"
  "n < 64 \<Longrightarrow> CHR ''$'' \<noteq> b64_char n"
proof -
  have none: "b64_value (CHR ''='') = None" "b64_value (CHR ''$'') = None"
    by (simp_all add: b64_value_def)
  show "n < 64 \<Longrightarrow> b64_char n \<noteq> CHR ''=''" "n < 64 \<Longrightarrow> CHR ''$'' \<noteq> b64_char n"
    using none b64_char_value [of n] by (metis option.distinct(1))+
qed

definition bytes :: "nat list \<Rightarrow> bool" where
  "bytes bs \<longleftrightarrow> (\<forall>b \<in> set bs. b < 256)"

lemma byte_bounds [simp]:
  fixes a b c :: nat
  shows "a < 256 \<Longrightarrow> a div 4 < 64"
    "b < 256 \<Longrightarrow> a mod 4 * 16 + b div 16 < 64"
    "c < 256 \<Longrightarrow> b mod 16 * 4 + c div 64 < 64"
    "c mod 64 < 64" "a mod 4 * 16 < 64" "b mod 16 * 4 < 64"
proof -
  have q: "a mod 4 < 4" "b mod 16 < 16" by simp_all
  have d: "b < 256 \<Longrightarrow> b div 16 < 16" "c < 256 \<Longrightarrow> c div 64 < 4" by linarith+
  show "a < 256 \<Longrightarrow> a div 4 < 64" by linarith
  show "b < 256 \<Longrightarrow> a mod 4 * 16 + b div 16 < 64" using q d by linarith
  show "c < 256 \<Longrightarrow> b mod 16 * 4 + c div 64 < 64" using q d by linarith
  show "c mod 64 < 64" by simp
  show "a mod 4 * 16 < 64" "b mod 16 * 4 < 64" using q by linarith+
qed

lemma quantum_parts [simp]:
  fixes a b c :: nat
  shows "b < 256 \<Longrightarrow> b div 16 div 16 = 0" "b < 256 \<Longrightarrow> b div 16 mod 16 = b div 16"
    "c < 256 \<Longrightarrow> c div 64 div 4 = 0" "c < 256 \<Longrightarrow> c div 64 mod 4 = c div 64"
    "b < 256 \<Longrightarrow> (a mod 4 * 16 + b div 16) div 16 = a mod 4"
    "b < 256 \<Longrightarrow> (a mod 4 * 16 + b div 16) mod 16 = b div 16"
    "c < 256 \<Longrightarrow> (b mod 16 * 4 + c div 64) div 4 = b mod 16"
    "c < 256 \<Longrightarrow> (b mod 16 * 4 + c div 64) mod 4 = c div 64"
proof -
  have part: "y < k \<Longrightarrow> (x * k + y) div k = x \<and> (x * k + y) mod k = y" for x y k :: nat
    by simp
  have d: "b < 256 \<Longrightarrow> b div 16 < 16" "c < 256 \<Longrightarrow> c div 64 < 4" by linarith+
  show "b < 256 \<Longrightarrow> b div 16 div 16 = 0" "b < 256 \<Longrightarrow> b div 16 mod 16 = b div 16"
    "c < 256 \<Longrightarrow> c div 64 div 4 = 0" "c < 256 \<Longrightarrow> c div 64 mod 4 = c div 64"
    using d by simp_all
  show "b < 256 \<Longrightarrow> (a mod 4 * 16 + b div 16) div 16 = a mod 4"
    "b < 256 \<Longrightarrow> (a mod 4 * 16 + b div 16) mod 16 = b div 16"
    "c < 256 \<Longrightarrow> (b mod 16 * 4 + c div 64) div 4 = b mod 16"
    "c < 256 \<Longrightarrow> (b mod 16 * 4 + c div 64) mod 4 = c div 64"
    using d part by blast+
qed

lemma b64_roundtrip: "bytes bs \<Longrightarrow> b64decode (b64encode bs) = Some bs"
  by (induction bs rule: b64encode.induct) (simp_all add: b64decode_def bytes_def)

lemma b64_no_dollar: "bytes bs \<Longrightarrow> CHR ''$'' \<notin> set (b64encode bs)"
  by (induction bs rule: b64encode.induct) (simp_all add: bytes_def)

section \<open>Base 32\<close>

lemma digits_number:
  fixes b :: nat
  assumes "0 < b"
  shows "foldl (\<lambda>a x. b * a + x) 0 (map (\<lambda>i. n div b ^ (k - 1 - i) mod b) [0..<k]) = n mod b ^ k"
proof (induction k arbitrary: n)
  case (Suc k)
  have eq: "map (\<lambda>i. n div b ^ (k - i) mod b) [0..<k] = map (\<lambda>i. (n div b) div b ^ (k - 1 - i) mod b) [0..<k]"
  proof (rule map_cong [OF refl])
    fix i assume "i \<in> set [0..<k]"
    then have "k - i = Suc (k - 1 - i)" by auto
    then show "n div b ^ (k - i) mod b = (n div b) div b ^ (k - 1 - i) mod b"
      by (simp add: div_mult2_eq)
  qed
  have "b * (n div b mod b ^ k) + n mod b = n mod b ^ Suc k"
    by (simp add: mod_mult2_eq)
  then show ?case using Suc.IH [of "n div b"] by (simp add: eq del: map_eq_conv)
qed simp

lemma bytes_be_number: "bytes bs \<Longrightarrow> bytes_be (length bs) (bytes_number bs) = bs"
proof (induction bs rule: rev_induct)
  case (snoc x bs)
  let ?n = "bytes_number bs"
  have x: "x < 256" and bs: "bytes bs" using snoc.prems by (auto simp: bytes_def)
  have n: "bytes_number (bs @ [x]) = 256 * ?n + x" by (simp add: bytes_number_def)
  have eq: "map (\<lambda>i. (256 * ?n + x) div 256 ^ (length bs - i) mod 256) [0..<length bs] =
      map (\<lambda>i. ?n div 256 ^ (length bs - 1 - i) mod 256) [0..<length bs]"
  proof (rule map_cong [OF refl])
    fix i assume "i \<in> set [0..<length bs]"
    then have "length bs - i = Suc (length bs - 1 - i)" by auto
    then show "(256 * ?n + x) div 256 ^ (length bs - i) mod 256 = ?n div 256 ^ (length bs - 1 - i) mod 256"
      using x by (simp add: div_mult2_eq)
  qed
  show ?case
    using snoc.IH [OF bs] x by (simp add: bytes_be_def n eq del: map_eq_conv)
qed (simp add: bytes_be_def)

lemma bytes_number_less: "bytes bs \<Longrightarrow> bytes_number bs < 256 ^ length bs"
proof (induction bs rule: rev_induct)
  case (snoc x bs)
  then have "bytes_number bs + 1 \<le> 256 ^ length bs" "x < 256" by (auto simp: bytes_def)
  then have "256 * (bytes_number bs + 1) \<le> 256 * 256 ^ length bs" by (intro mult_le_mono2)
  then show ?case using \<open>x < 256\<close> by (simp add: bytes_number_def)
qed (simp add: bytes_number_def)

lemma b32_char_value [simp]: "n < 32 \<Longrightarrow> b32_value (b32_char n) = Some n"
  by (auto simp: b32_value_def b32_char_def Let_def of_char_of)

lemma b32_number_chars:
  "\<forall>n \<in> set ns. n < 32 \<Longrightarrow> b32_number acc (map b32_char ns) = Some (foldl (\<lambda>a x. 32 * a + x) acc ns)"
  by (induction ns arbitrary: acc) auto

lemma b32_group_number:
  assumes "bytes bs" "length bs = 5"
  shows "b32_number 0 (b32_group bs) = Some (bytes_number bs)"
proof -
  let ?ns = "map (\<lambda>i. bytes_number bs div 32 ^ (8 - 1 - i) mod 32) [0..<8]"
  have "b32_group bs = map b32_char ?ns" by (simp add: b32_group_def)
  moreover have "\<forall>n \<in> set ?ns. n < 32" by auto
  ultimately have "b32_number 0 (b32_group bs) = Some (foldl (\<lambda>a x. 32 * a + x) 0 ?ns)"
    using b32_number_chars by presburger
  also have "\<dots> = Some (bytes_number bs mod 32 ^ 8)" by (simp only: digits_number [of 32 "bytes_number bs" 8])
  also have "\<dots> = Some (bytes_number bs)" using bytes_number_less [OF assms(1)] assms(2) by simp
  finally show ?thesis .
qed

lemma length_b32_group [simp]: "length (b32_group bs) = 8"
  by (simp add: b32_group_def)

fun fives :: "'a list \<Rightarrow> bool" where
  "fives (a # b # c # d # e # rest) = fives rest"
| "fives [] = True"
| "fives _ = False"

lemma fives_length: "fives bs \<longleftrightarrow> length bs mod 5 = 0"
  by (induction bs rule: fives.induct) auto

lemma b32_quanta_encode:
  "fives bs \<Longrightarrow> bytes bs \<Longrightarrow>
     length (b32encode bs) = 8 * (length bs div 5) \<and> b32_quanta (length bs div 5) (b32encode bs) = Some bs"
proof (induction bs rule: b32encode.induct)
  case (1 a b c d e rest)
  have rest: "bytes rest" "fives rest" and group: "bytes [a, b, c, d, e]"
    using 1 by (simp_all add: bytes_def)
  have len: "length (a # b # c # d # e # rest) div 5 = Suc (length rest div 5)" by simp
  have "b32_number 0 (b32_group [a, b, c, d, e]) = Some (bytes_number [a, b, c, d, e])"
    by (rule b32_group_number [OF group]) simp
  moreover have "bytes_be 5 (bytes_number [a, b, c, d, e]) = [a, b, c, d, e]"
    using bytes_be_number [OF group] by (simp add: eval_nat_numeral)
  ultimately show ?case using 1(1) [OF rest(2,1)] unfolding len by simp
qed simp_all

lemma of_char_b32_char: "n < 32 \<Longrightarrow> (of_char (b32_char n) :: nat) = (if n < 26 then n + 65 else n + 24)"
  by (simp add: b32_char_def of_char_of)

lemma b32_char_clean:
  assumes "n < 32"
  shows "b32_char n \<noteq> CHR ''=''" "\<not> py_isspace (b32_char n)" "py_upper_char (b32_char n) = b32_char n"
proof -
  have "(of_char (b32_char n) :: nat) \<noteq> of_char (CHR ''='')"
    using assms by (simp add: of_char_b32_char)
  then show "b32_char n \<noteq> CHR ''=''" by metis
  show "\<not> py_isspace (b32_char n)" "py_upper_char (b32_char n) = b32_char n"
    using assms by (simp_all add: py_isspace_def py_upper_char_def Let_def of_char_b32_char)
qed

definition b32_text :: "string \<Rightarrow> bool" where
  "b32_text s \<longleftrightarrow> (\<forall>c \<in> set s. c \<noteq> CHR ''='' \<and> \<not> py_isspace c \<and> py_upper_char c = c)"

lemma b32_group_text: "b32_text (b32_group bs)"
  unfolding b32_text_def
proof
  fix c assume "c \<in> set (b32_group bs)"
  then obtain i where "c = b32_char (bytes_number bs div 32 ^ (8 - 1 - i) mod 32)"
    unfolding b32_group_def by fastforce
  then show "c \<noteq> CHR ''='' \<and> \<not> py_isspace c \<and> py_upper_char c = c"
    using b32_char_clean by (metis mod_less_divisor zero_less_numeral)
qed

lemma b32encode_text: "fives bs \<Longrightarrow> b32_text (b32encode bs)"
proof (induction bs rule: b32encode.induct)
  case (1 a b c d e rest)
  then show ?case using b32_group_text [of "[a, b, c, d, e]"] unfolding b32_text_def by auto
qed (simp_all add: b32_text_def)

lemma b32_text_unchanged:
  assumes "b32_text s"
  shows "rev (dropWhile (\<lambda>c. c = CHR ''='') (rev s)) = s" "py_strip s = s" "py_upper s = s"
proof -
  have "dropWhile (\<lambda>c. c = CHR ''='') (rev s) = rev s"
    using assms hd_in_set [of "rev s"] unfolding dropWhile_eq_self_iff b32_text_def by fastforce
  then show "rev (dropWhile (\<lambda>c. c = CHR ''='') (rev s)) = s" by simp
  show "py_strip s = s"
    using assms hd_in_set [of s] last_in_set [of s] unfolding b32_text_def
    by (intro py_strip_unchanged) blast
  show "py_upper s = s"
    using assms unfolding b32_text_def py_upper_def by (intro map_idI) blast
qed

section \<open>Splitting\<close>

lemma split_at_append: "sep \<notin> set a \<Longrightarrow> split_at sep (a @ sep # b) = Some (a, b)"
  by (induction a) auto

lemma split3_append:
  "sep \<notin> set a \<Longrightarrow> sep \<notin> set b \<Longrightarrow> sep \<notin> set c \<Longrightarrow>
     split3 sep (a @ sep # b @ sep # c @ sep # d) = Some (a, b, c, d)"
  by (simp add: split3_def split_at_append)

lemma str_int_no_dollar: "CHR ''$'' \<notin> set (py_str_int n)"
proof
  assume "CHR ''$'' \<in> set (py_str_int n)"
  then have "CHR ''$'' \<in> set (nat_digits (nat n)) \<or> CHR ''$'' \<in> set (nat_digits (nat (- n)))"
    by (auto simp: py_str_int_def split: if_splits)
  then have "is_digit (CHR ''$'')" using nat_digits_digits by blast
  then show False by (simp add: is_digit_def)
qed

section \<open>The properties\<close>

text \<open>
  C38: A stored hash answers exactly whether the key derivation of the offered password under the
  stored salt equals that of the original one: the encoded hash survives the round trip through
  its text form, and in particular the original password always verifies.
\<close>

theorem password_roundtrip:
  assumes "bytes salt" and "bytes (kdf ''sha256'' original salt DEFAULT_ITERATIONS)"
  shows "verify_password kdf offered (hash_password kdf salt original) =
    Inr (kdf ''sha256'' offered salt DEFAULT_ITERATIONS = kdf ''sha256'' original salt DEFAULT_ITERATIONS)"
proof -
  let ?d = "kdf ''sha256'' original salt DEFAULT_ITERATIONS"
  have "split3 (CHR ''$'') (hash_password kdf salt original) =
      Some (''pbkdf2_sha256'', py_str_int DEFAULT_ITERATIONS, b64encode salt, b64encode ?d)"
    unfolding hash_password_def
    using split3_append [of "CHR ''$''" "''pbkdf2_sha256''" "py_str_int DEFAULT_ITERATIONS" "b64encode salt" "b64encode ?d"]
      str_int_no_dollar b64_no_dollar [OF assms(1)] by simp
  then show ?thesis
    using b64_roundtrip [OF assms(1)] b64_roundtrip [OF assms(2)] py_int_str [of DEFAULT_ITERATIONS]
    by (simp add: verify_password_def SUPPORTED_PBKDF2_SCHEMES_def DEFAULT_ITERATIONS_def)
qed

lemma mfa_secret_roundtrip_decoded:
  assumes five: "fives raw" and "bytes raw"
  shows "decode_secret (generate_mfa_secret raw) = Inr raw"
proof -
  let ?s = "b32encode raw"
  note same = b32_text_unchanged [OF b32encode_text [OF five]]
  have len: "length ?s = 8 * (length raw div 5)" and quanta: "b32_quanta (length raw div 5) ?s = Some raw"
    using b32_quanta_encode [OF five assms(2)] by simp_all
  have "generate_mfa_secret raw = ?s" using same(1) by (simp add: generate_mfa_secret_def)
  moreover have "b32decode ?s = Inr raw"
    using len quanta five by (simp add: b32decode_def same(1) Let_def)
  ultimately show ?thesis
    using len by (simp add: decode_secret_def same(2,3) Let_def)
qed

text \<open>
  The secret shown to the user decodes to the random bytes it was made from, for every secret
  whose length is a multiple of five bytes, as the twenty bytes the service draws.
\<close>

theorem mfa_secret_roundtrip:
  assumes "bytes raw" and "length raw mod 5 = 0"
  shows "decode_secret (generate_mfa_secret raw) = Inr raw"
  using assms by (intro mfa_secret_roundtrip_decoded) (simp_all add: fives_length)

text \<open>One-time codes have six digits.\<close>

lemma six_digits_digits: "length (six_digits n) = 6 \<and> (\<forall>c \<in> set (six_digits n). is_digit c)"
  by (auto simp: six_digits_def is_digit_digit_char)

lemma generate_totp_shape:
  "generate_totp_code mac secret t = Inr code \<Longrightarrow> length code = 6 \<and> (\<forall>c \<in> set code. is_digit c)"
  using six_digits_digits by (auto simp: generate_totp_code_def)

lemma totp_windows_decoded:
  assumes "decode_secret secret = Inr key"
  shows "totp_windows mac secret code t steps =
    Inr (\<exists>step \<in> set steps. generate_totp_code mac secret (t + step * TOTP_INTERVAL_SECONDS * 1000000) = Inr code)"
  using assms by (induction steps) (auto simp: generate_totp_code_def)

lemma totp_counter_window:
  "totp_counter (t + k * TOTP_INTERVAL_SECONDS * 1000000) = totp_counter t + k"
proof -
  have "(t + k * 30 * 1000000) div 1000000 = t div 1000000 + k * 30" by simp
  then show ?thesis by (simp add: totp_counter_def TOTP_INTERVAL_SECONDS_def)
qed

definition totp_at :: "mac \<Rightarrow> nat list \<Rightarrow> int \<Rightarrow> string" where
  "totp_at mac key counter = six_digits (totp_value (mac key (bytes_be 8 (nat counter))))"

text \<open>
  C39: A one-time code is accepted exactly when its digits are the code of the current thirty-second
  window, the one before or the one after; whatever else the caller types around the digits is
  ignored, and a code with other than six digits is refused.
\<close>

theorem totp_three_windows:
  assumes "decode_secret (py_upper (py_strip secret)) = Inr key" and "py_upper (py_strip secret) \<noteq> []"
  shows "verify_totp_code mac (Some secret) (Some code) t =
    Inr (filter is_digit (py_strip code) \<in> totp_at mac key ` {totp_counter t - 1, totp_counter t, totp_counter t + 1})"
proof -
  let ?digits = "filter is_digit (py_strip code)" and ?secret = "py_upper (py_strip secret)"
  have gen: "generate_totp_code mac ?secret (t + k * TOTP_INTERVAL_SECONDS * 1000000) = Inr (totp_at mac key (totp_counter t + k))" for k
    using assms(1) by (simp add: generate_totp_code_def totp_counter_window totp_at_def)
  have len: "length (totp_at mac key n) = 6" for n
    using six_digits_digits by (simp add: totp_at_def)
  show ?thesis
  proof (cases "length ?digits = 6")
    case True
    have "totp_windows mac ?secret ?digits t [-1, 0, 1] =
        Inr (\<exists>k \<in> {-1, 0, 1}. totp_at mac key (totp_counter t + k) = ?digits)"
      unfolding totp_windows_decoded [OF assms(1)] gen by simp
    moreover have "(\<exists>k \<in> {-1, 0, 1}. totp_at mac key (totp_counter t + k) = ?digits) \<longleftrightarrow>
        ?digits \<in> totp_at mac key ` {totp_counter t - 1, totp_counter t, totp_counter t + 1}"
      by auto
    ultimately have "totp_windows mac ?secret ?digits t [-1, 0, 1] =
        Inr (?digits \<in> totp_at mac key ` {totp_counter t - 1, totp_counter t, totp_counter t + 1})"
      by (simp only:)
    then show ?thesis
      using True assms(2) by (simp only: verify_totp_code_def Let_def option.case) simp
  next
    case False
    then have "?digits \<notin> totp_at mac key ` {totp_counter t - 1, totp_counter t, totp_counter t + 1}"
      using len by fastforce
    then show ?thesis using False by (simp add: verify_totp_code_def Let_def)
  qed
qed

section \<open>The properties at work\<close>

definition example_kdf :: kdf where
  "example_kdf algorithm password salt iterations = map of_char password @ salt"

definition example_mac :: mac where
  "example_mac key message = key @ replicate 10 7 @ message"

theorem password_roundtrip_witness:
  "verify_password example_kdf ''Secret123'' (hash_password example_kdf [1, 255, 16] ''Secret123'') = Inr True
   \<and> verify_password example_kdf ''Guess1234'' (hash_password example_kdf [1, 255, 16] ''Secret123'') = Inr False"
proof -
  have salt: "bytes [1, 255, 16]" "bytes (example_kdf ''sha256'' ''Secret123'' [1, 255, 16] DEFAULT_ITERATIONS)"
    by (simp_all add: bytes_def example_kdf_def)
  show ?thesis
    using password_roundtrip [where kdf = example_kdf and offered = "''Secret123''", OF salt]
      password_roundtrip [where kdf = example_kdf and offered = "''Guess1234''", OF salt]
    by (simp add: example_kdf_def)
qed

theorem mfa_secret_roundtrip_witness:
  "decode_secret (generate_mfa_secret [72, 101, 108, 108, 111, 33, 222, 173, 190, 239]) =
     Inr [72, 101, 108, 108, 111, 33, 222, 173, 190, 239]"
  by (rule mfa_secret_roundtrip) (simp_all add: bytes_def)

definition example_secret :: "nat list" where
  "example_secret = [72, 101, 108, 108, 111, 33, 222, 173, 190, 239]"

theorem totp_three_windows_witness:
  "verify_totp_code example_mac (Some (generate_mfa_secret example_secret))
     (Some (totp_at example_mac example_secret 1)) 59000000 = Inr True"
proof -
  let ?s = "generate_mfa_secret example_secret" and ?code = "totp_at example_mac example_secret 1"
  have raw: "bytes example_secret" "length example_secret mod 5 = 0" "fives example_secret"
    by (simp_all add: bytes_def example_secret_def)
  have s: "?s = b32encode example_secret" "py_upper (py_strip ?s) = ?s"
    using b32_text_unchanged [OF b32encode_text [OF raw(3)]] by (simp_all add: generate_mfa_secret_def)
  then have dec: "decode_secret (py_upper (py_strip ?s)) = Inr example_secret"
    using mfa_secret_roundtrip_decoded [OF raw(3,1)] by simp
  have "length (b32encode example_secret) = 16"
    using b32_quanta_encode [OF raw(3,1)] by (simp add: example_secret_def)
  then have "?s \<noteq> []" unfolding s(1) by auto
  then have ne: "py_upper (py_strip ?s) \<noteq> []" using s(2) by simp
  have "\<forall>c \<in> set ?code. is_digit c" "?code \<noteq> []"
    using six_digits_digits by (simp_all add: totp_at_def six_digits_def is_digit_digit_char)
  then have "filter is_digit (py_strip ?code) = ?code"
    using py_strip_unchanged [of ?code] not_space_digit by simp
  then show ?thesis
    using totp_three_windows [OF dec ne, of example_mac ?code 59000000]
    by (simp add: totp_counter_def TOTP_INTERVAL_SECONDS_def)
qed

end
