(* ===== verification/Auth_Examples.thy ===== *)
theory Auth_Examples
  imports Auth_Login Auth_Secrets_Properties
begin

text \<open>
  A small installation: two accounts, three roles and two runs that show where the service falls
  short of its purpose; and the properties of the accounts applied to it.
\<close>

section \<open>The installation\<close>

definition ex_uuid :: "nat \<Rightarrow> string" where
  "ex_uuid k = CHR ''s'' # replicate k (CHR ''x'')"

definition ex_env :: "datetime \<Rightarrow> auth_env" where
  "ex_env now =
     \<lparr>ae_now = now, ae_uuid = ex_uuid, ae_getenv = (\<lambda>n. if n = ''PM_AUTH_LOCKOUT_ATTEMPTS'' then Some '' 2 '' else None),
      ae_kdf = (\<lambda>alg pw salt n. map of_char pw), ae_mac = (\<lambda>key m. replicate 20 0), ae_salt = [1], ae_secret = [2]\<rparr>"

text \<open>The hash of \<^verbatim>\<open>Abc\<close>: the scheme, one iteration, an empty salt and the bytes 65, 98, 99.\<close>

definition ex_hash :: string where
  "ex_hash = ''pbkdf2_sha256$1$$QWJj''"

definition ex_user :: "string \<Rightarrow> string \<Rightarrow> user_account" where
  "ex_user i n = create_user i 0 n ex_hash None None True"

definition ex_role :: "string \<Rightarrow> auth_role" where
  "ex_role n = \<lparr>role_id = n, role_name = n, role_description = [], role_is_system = True\<rparr>"

definition ex_perm :: "string \<Rightarrow> auth_permission" where
  "ex_perm n = \<lparr>perm_id = n, perm_code = n, perm_description = []\<rparr>"

definition ex_binding :: "string \<Rightarrow> string \<Rightarrow> auth_binding" where
  "ex_binding a b = \<lparr>bd_id = a @ b, bd_left = a, bd_right = b\<rparr>"

definition ex_db :: auth_db where
  "ex_db =
     \<lparr>ad_users = [ex_user ''u1'' ''root'', ex_user ''u2'' ''ann''], ad_sessions = [],
      ad_roles = map ex_role [''admin'', ''planner'', ''approver''],
      ad_permissions = map ex_perm [''auth.manage'', ''approval.request'', ''approval.decide''],
      ad_user_roles = [ex_binding ''u1'' ''admin''],
      ad_role_permissions = [ex_binding ''admin'' ''auth.manage'', ex_binding ''planner'' ''approval.request'',
        ex_binding ''approver'' ''approval.decide''],
      ad_grants = []\<rparr>"

definition ex_state :: auth_state where
  "ex_state =
     \<lparr>au_db = \<lparr>s_committed = ex_db, s_working = ex_db, s_pending = [], s_events = [], s_audit = [], s_audit_on = True,
               s_next_uuid = 0\<rparr>,
      au_context = None\<rparr>"

section \<open>Two runs\<close>

definition ex_signed_in :: auth_state where
  "ex_signed_in = snd (sign_in (ex_env 0) ''root'' ''Abc'' ex_state)"

text \<open>
  Revoking the session one is signed in with leaves one signed in: the refresh builds a principal
  without a session, and the validation of such a principal looks at the account only.
\<close>

lemma revoking_own_session_keeps_access:
  "let s1 = snd (revoke_session (ex_env 1) (ex_uuid 0) ex_signed_in)
   in map revoked_at (ad_sessions (s_committed (au_db s1))) = [Some 1] \<and>
      fst (check_permission (ex_env 2) ''auth.manage'' s1) = Inr ()"
  unfolding ex_signed_in_def by code_simp

text \<open>
  A detour by the administrator's role evades the separation of duties: the guard lets any
  combination with it pass, and taking it away again is not guarded.
\<close>

definition ex_detour :: auth_state where
  "ex_detour =
     (let run = (\<lambda>f s. snd (f s)) in
      run (revoke_role (ex_env 4) ''u2'' ''admin'')
       (run (assign_role (ex_env 3) ''u2'' ''approver'')
        (run (assign_role (ex_env 2) ''u2'' ''planner'')
         (run (assign_role (ex_env 1) ''u2'' ''admin'') ex_signed_in))))"

lemma admin_detour_breaks_duties:
  "get_user_role_names (s_committed (au_db ex_detour)) ''u2'' = Inr [''planner'', ''approver'']"
  "find_separation_of_duties_conflicts (concat (map (\<lambda>r. the (map_of DEFAULT_ROLE_PERMISSIONS r)) [''planner'', ''approver''])) \<noteq> []"
  by code_simp+

section \<open>The properties at work\<close>

lemma ex_settled: "settled ex_state"
proof -
  have "sorted_wrt (\<lambda>u v. \<not> clash u v) (ad_users ex_db)" "list_all user_ok (ad_users ex_db)"
    "distinct (map as_id (ad_sessions ex_db))" "list_all session_ok (ad_sessions ex_db)"
    by code_simp+
  then show ?thesis
    by (simp add: settled_def accounts_state_def tables_def clean_def ex_state_def accounts_ok_def)
qed

lemma ex_uuid_clean: "ex_uuid k \<noteq> [] \<and> py_strip (ex_uuid k) = ex_uuid k"
proof -
  have "last (ex_uuid k) \<in> set ''sx''" by (cases k) (simp_all add: ex_uuid_def last_replicate)
  then have "\<not> py_isspace (last (ex_uuid k))" by (auto simp: py_isspace_def)
  moreover have "\<not> py_isspace (hd (ex_uuid k))" by (simp add: ex_uuid_def py_isspace_def)
  ultimately show ?thesis using py_strip_unchanged [of "ex_uuid k"] by (simp add: ex_uuid_def)
qed

definition ex_guess :: auth_state where
  "ex_guess = attempts ''Root'' [(ex_env 10, ''x''), (ex_env 20, ''y'')] ex_state"

theorem wrong_passwords_lock_account_witness:
  "fst (authenticate (ex_env 30) ''Root'' ''Abc'' None None ex_guess) = Inl (ValidationError ''AUTH_LOCKED'')"
  unfolding ex_guess_def
proof (rule wrong_passwords_lock_account [where T = 10 and m = 15 and k = 2 and u = "ex_user ''u1'' ''root''"])
  show "settled ex_state" by (rule ex_settled)
  show "the_account ex_state ''Root'' = Some (ex_user ''u1'' ''root'')" by code_simp
  show "ua_is_active (ex_user ''u1'' ''root'')" "locked_until (ex_user ''u1'' ''root'') = None" by code_simp+
  show "\<forall>(env, pw) \<in> set [(ex_env 10, ''x''), (ex_env 20, ''y'')]. 10 \<le> ae_now env \<and> ae_now env < 10 + minutes 15 \<and>
      login_lockout_threshold env = 2 \<and> login_lockout_minutes env = 15 \<and>
      verify_password (ae_kdf env) pw (password_hash (ex_user ''u1'' ''root'')) = Inr False"
    by code_simp
qed (code_simp+)

definition ex_locked :: auth_state where
  "ex_locked = ex_state\<lparr>au_db := (au_db ex_state)
     \<lparr>s_working := ex_db\<lparr>ad_users := [(ex_user ''u1'' ''root'')\<lparr>locked_until := Some 100\<rparr>]\<rparr>,
      s_committed := ex_db\<lparr>ad_users := [(ex_user ''u1'' ''root'')\<lparr>locked_until := Some 100\<rparr>]\<rparr>\<rparr>\<rparr>"

lemma ex_locked_settled: "settled ex_locked"
proof -
  let ?db = "ex_db\<lparr>ad_users := [(ex_user ''u1'' ''root'')\<lparr>locked_until := Some 100\<rparr>]\<rparr>"
  have "sorted_wrt (\<lambda>u v. \<not> clash u v) (ad_users ?db)" "list_all user_ok (ad_users ?db)"
    "distinct (map as_id (ad_sessions ?db))" "list_all session_ok (ad_sessions ?db)"
    by code_simp+
  then show ?thesis
    by (simp add: settled_def accounts_state_def tables_def clean_def ex_locked_def ex_state_def accounts_ok_def)
qed

theorem locked_account_refused_witness:
  "fst (authenticate (ex_env 50) ''root'' ''Abc'' None None ex_locked) = Inl (ValidationError ''AUTH_LOCKED'')"
proof -
  have "the_account ex_locked ''root'' = Some ((ex_user ''u1'' ''root'')\<lparr>locked_until := Some 100\<rparr>)"
    "ua_is_active ((ex_user ''u1'' ''root'')\<lparr>locked_until := Some 100\<rparr>)"
    "locked_until ((ex_user ''u1'' ''root'')\<lparr>locked_until := Some 100\<rparr>) = Some 100" "ae_now (ex_env 50) < 100"
    by code_simp+
  from locked_account_refused [OF ex_locked_settled this] show ?thesis by blast
qed

definition ex_mfa_state :: auth_state where
  "ex_mfa_state = ex_state\<lparr>au_db := (au_db ex_state)
     \<lparr>s_working := ex_db\<lparr>ad_users := [(ex_user ''u1'' ''root'')\<lparr>mfa_enabled := True, mfa_secret := Some ''AAAAAAAA''\<rparr>]\<rparr>\<rparr>\<rparr>"

theorem mfa_account_cannot_sign_in_witness:
  "fst (sign_in (ex_env 0) ''root '' ''Abc'' ex_mfa_state) \<noteq> Inr True"
proof (rule mfa_account_cannot_sign_in)
  show "the_account ex_mfa_state (py_strip ''root '') =
      Some ((ex_user ''u1'' ''root'')\<lparr>mfa_enabled := True, mfa_secret := Some ''AAAAAAAA''\<rparr>)"
    by code_simp
  show "mfa_enabled ((ex_user ''u1'' ''root'')\<lparr>mfa_enabled := True, mfa_secret := Some ''AAAAAAAA''\<rparr>)" by simp
qed

lemma ex_sign_in: "sign_in (ex_env 0) ''root'' ''Abc'' ex_state = (Inr True, ex_signed_in)"
proof -
  have "fst (sign_in (ex_env 0) ''root'' ''Abc'' ex_state) = Inr True" by code_simp
  then show ?thesis unfolding ex_signed_in_def by (simp add: prod_eq_iff)
qed

theorem signed_in_until_expiry_witness:
  "\<exists>p e. au_context ex_signed_in = Some p \<and> session_expires_at p = Some e \<and> minutes 5 \<le> e \<and>
    (\<forall>now. validate_session_principal now (s_working (au_db ex_signed_in)) p \<noteq> None \<longleftrightarrow> now < e)"
proof -
  have "\<forall>k. ae_uuid (ex_env 0) k \<noteq> [] \<and> py_strip (ae_uuid (ex_env 0) k) = ae_uuid (ex_env 0) k"
    using ex_uuid_clean by (simp add: ex_env_def)
  from signed_in_until_expiry [OF ex_settled ex_sign_in this] show ?thesis by (simp add: ex_env_def)
qed

theorem accounts_stay_wellformed_witness:
  "list_all (\<lambda>u. \<exists>expires_at. next_session_expiry (ex_env 0) u = Inr expires_at)
     (ad_users (s_committed (au_db ex_signed_in)))"
proof -
  have steps: "auth_step\<^sup>*\<^sup>* ex_state ex_signed_in" by (rule r_into_rtranclp, rule step_sign_in, rule ex_sign_in)
  have ok: "accounts_state ex_state" using ex_settled by (simp add: settled_def)
  show ?thesis using accounts_stay_wellformed [OF steps ok refl, of "ex_env 0"] by (auto simp: list_all_iff)
qed

text \<open>A second device of the same user: its session is revoked while it is signed in.\<close>

definition ex_revoked :: auth_state where
  "ex_revoked = ex_signed_in\<lparr>au_db := (au_db ex_signed_in)
     \<lparr>s_working := (s_working (au_db ex_signed_in))
        \<lparr>ad_sessions := map (\<lambda>x. x\<lparr>revoked_at := Some 1\<rparr>) (ad_sessions (s_working (au_db ex_signed_in)))\<rparr>,
      s_committed := (s_working (au_db ex_signed_in))
        \<lparr>ad_sessions := map (\<lambda>x. x\<lparr>revoked_at := Some 1\<rparr>) (ad_sessions (s_working (au_db ex_signed_in)))\<rparr>\<rparr>\<rparr>"

definition ex_later :: auth_state where
  "ex_later = snd (authenticate (ex_env 5) ''ann'' ''wrong'' None None ex_revoked)"

theorem revoked_session_stays_out_witness:
  "fst (check_permission (ex_env 6) ''auth.manage'' ex_later) = Inl (BusinessRuleError ''PERMISSION_DENIED'')"
proof -
  have "auth_step ex_revoked ex_later"
    unfolding ex_later_def by (rule step_authenticate, rule prod.collapse [symmetric])
  then have steps: "auth_step\<^sup>*\<^sup>* ex_revoked ex_later" by (rule r_into_rtranclp)
  have "map_option revoked_at (get_session (s_working (au_db ex_revoked)) (ex_uuid 0)) = Some (Some 1)"
    "map_option revoked_at (get_session (s_committed (au_db ex_revoked)) (ex_uuid 0)) = Some (Some 1)"
    unfolding ex_revoked_def ex_signed_in_def by code_simp+
  then have revoked: "revoked_state (ex_uuid 0) ex_revoked"
    by (auto simp: revoked_state_def tables_def revoked_in_def list_all_iff)
  have "map_option session_id (au_context ex_later) = Some (Some (ex_uuid 0))"
    unfolding ex_later_def ex_revoked_def ex_signed_in_def by code_simp
  then obtain p where p: "au_context ex_later = Some p" "session_id p = Some (ex_uuid 0)" by auto
  have "ex_uuid 0 \<noteq> []" by (simp add: ex_uuid_def)
  from revoked_session_stays_out [OF steps revoked p(2) this p(1)] show ?thesis by simp
qed

end
