(* ===== verification/Task_Diagnostics.thy ===== *)
theory Task_Diagnostics
  imports Schedule_Passes Task_Tables
begin

text \<open>
  The dependency diagnostics
  (\<^verbatim>\<open>services/task/dependency_diagnostics.py\<close>): the checks a new dependency has to pass,
  the search for a path that the dependency would close to a cycle, and the preview of its
  effect on the schedule. The texts for the reader (summary, detail, suggestions) are left out;
  the codes and the numbers are kept.
\<close>

section \<open>Queries\<close>

definition list_tasks_by_project :: "string \<Rightarrow> project_tables \<Rightarrow> task list" where
  "list_tasks_by_project pid d = filter (\<lambda>t. t_project_id t = pid) (pt_tasks d)"

definition list_dependencies_by_project :: "string \<Rightarrow> project_tables \<Rightarrow> task_dependency list" where
  "list_dependencies_by_project pid d =
     (let ids = map t_id (list_tasks_by_project pid d) in
      filter (\<lambda>x. predecessor_task_id x \<in> set ids \<and> successor_task_id x \<in> set ids) (pt_dependencies d))"

definition get_task_row :: "string \<Rightarrow> project_tables \<Rightarrow> task option" where
  "get_task_row i d = find_row t_id (pt_tasks d) i"

section \<open>The search for a path\<close>

text \<open>\<open>graph.setdefault(dep.predecessor_task_id, []).append(dep.successor_task_id)\<close>.\<close>

definition adjacency :: "task_dependency list \<Rightarrow> (string, string list) dict" where
  "adjacency deps = fold (\<lambda>x. dict_append (predecessor_task_id x) (successor_task_id x)) deps []"

lemma dict_get_list_absent: "k \<notin> fst ` set d \<Longrightarrow> dict_get_list d k = []"
  by (simp add: dict_get_list_def map_of_eq_None_iff [THEN iffD2])

text \<open>
  The breadth-first search. Every entry of the queue carries the path that led to it. A node is
  expanded once; an entry that is not expanded makes the queue shorter.
\<close>

function find_path_loop ::
  "(string, string list) dict \<Rightarrow> string \<Rightarrow> string set \<Rightarrow> (string \<times> string list) list \<Rightarrow> string list option" where
  "find_path_loop graph target visited [] = None"
| "find_path_loop graph target visited ((node, path) # queue) =
     (if node = target then Some path
      else if node \<in> visited then find_path_loop graph target visited queue
      else find_path_loop graph target (insert node visited)
             (queue @ map (\<lambda>nxt. (nxt, path @ [nxt]))
                (filter (\<lambda>nxt. nxt \<notin> insert node visited) (dict_get_list graph node))))"
  by pat_completeness auto

termination
proof (relation "measures [\<lambda>(g, t, v, q). card (fst ` set g - v), \<lambda>(g, t, v, q). length q]")
  fix g :: "(string, string list) dict" and t node :: string and v :: "string set" and path :: "string list"
    and q :: "(string \<times> string list) list"
  assume v: "node \<notin> v"
  show "((g, t, insert node v, q @ map (\<lambda>nxt. (nxt, path @ [nxt])) (filter (\<lambda>nxt. nxt \<notin> insert node v) (dict_get_list g node))),
      g, t, v, (node, path) # q) \<in> measures [\<lambda>(g, t, v, q). card (fst ` set g - v), \<lambda>(g, t, v, q). length q]"
  proof (cases "node \<in> fst ` set g")
    case True
    then have "card (fst ` set g - insert node v) < card (fst ` set g - v)"
      using v by (intro psubset_card_mono) auto
    then show ?thesis by simp
  next
    case False
    then have "fst ` set g - insert node v = fst ` set g - v" by blast
    then show ?thesis using dict_get_list_absent [OF False] by simp
  qed
qed auto

definition find_path :: "(string, string list) dict \<Rightarrow> string \<Rightarrow> string \<Rightarrow> string list option" where
  "find_path graph start target = find_path_loop graph target {} [(start, [start])]"

definition find_cycle_path_ids :: "task_dependency list \<Rightarrow> string \<Rightarrow> string \<Rightarrow> string list option" where
  "find_cycle_path_ids deps predecessor successor =
     (case find_path (adjacency deps) successor predecessor of
        None \<Rightarrow> None
      | Some path \<Rightarrow> (if path = [] then None else Some (predecessor # path)))"

section \<open>The checks\<close>

text \<open>The code of the first check that fails.\<close>

definition dependency_problem :: "string \<Rightarrow> string \<Rightarrow> project_tables \<Rightarrow> string option" where
  "dependency_problem predecessor successor d =
     (if predecessor = successor then Some ''DEPENDENCY_SELF''
      else (case (get_task_row predecessor d, get_task_row successor d) of
              (Some p, Some s) \<Rightarrow>
                (if t_project_id p \<noteq> t_project_id s then Some ''DEPENDENCY_CROSS_PROJECT''
                 else (let deps = list_dependencies_by_project (t_project_id p) d in
                       if list_ex (\<lambda>x. predecessor_task_id x = predecessor \<and> successor_task_id x = successor) deps
                       then Some ''DEPENDENCY_DUPLICATE''
                       else if find_cycle_path_ids deps predecessor successor \<noteq> None then Some ''DEPENDENCY_CYCLE''
                       else None))
            | _ \<Rightarrow> Some ''TASK_NOT_FOUND''))"

section \<open>The preview of the schedule\<close>

text \<open>
  The diagnostics carry copies of the engine's date computations, written with
  \<open>and\<close> in the conditions and without the test for a positive duration.
\<close>

definition preview_milestone_candidate ::
  "calendar_engine \<Rightarrow> date_map \<Rightarrow> date_map \<Rightarrow> task_dependency \<Rightarrow> date option result" where
  "preview_milestone_candidate e es ef dep =
     (let pred_es = es (predecessor_task_id dep); pred_ef = ef (predecessor_task_id dep); ty = dependency_type dep in
      if pred_es = None \<and> pred_ef = None then Inr None
      else if ty = FINISH_TO_START \<and> pred_ef \<noteq> None then some_date (add_working_days e (the pred_ef) (lag_days dep + 2))
      else if ty = START_TO_START \<and> pred_es \<noteq> None then some_date (add_working_days e (the pred_es) (lag_days dep))
      else if ty = FINISH_TO_FINISH \<and> pred_ef \<noteq> None then some_date (add_working_days e (the pred_ef) (lag_days dep))
      else if ty = START_TO_FINISH \<and> pred_es \<noteq> None then some_date (add_working_days e (the pred_es) (lag_days dep))
      else Inr None)"

definition preview_dates_milestone ::
  "calendar_engine \<Rightarrow> task \<Rightarrow> task_dependency list \<Rightarrow> date_map \<Rightarrow> date_map \<Rightarrow> dates result" where
  "preview_dates_milestone e t incoming es ef =
     (let own = Inr (case t_start_date t of Some x \<Rightarrow> (Some x, Some x) | None \<Rightarrow> (None, None)) in
      if incoming = [] then own
      else rbind (candidates (preview_milestone_candidate e es ef) incoming) (\<lambda>cands.
        if cands = [] then own else (let est = Max (set cands) in Inr (Some est, Some est))))"

definition preview_duration_candidate ::
  "calendar_engine \<Rightarrow> int \<Rightarrow> date_map \<Rightarrow> date_map \<Rightarrow> task_dependency \<Rightarrow> date option result" where
  "preview_duration_candidate e duration es ef dep =
     (let pred_es = es (predecessor_task_id dep); pred_ef = ef (predecessor_task_id dep); ty = dependency_type dep;
          finishing = (\<lambda>d. some_date (rbind (add_working_days e d (lag_days dep)) (\<lambda>ef_s. add_working_days e ef_s (- (duration - 1))))) in
      if pred_es = None \<and> pred_ef = None then Inr None
      else if ty = FINISH_TO_START \<and> pred_ef \<noteq> None then some_date (add_working_days e (the pred_ef) (lag_days dep + 2))
      else if ty = START_TO_START \<and> pred_es \<noteq> None then some_date (add_working_days e (the pred_es) (lag_days dep))
      else if ty = FINISH_TO_FINISH \<and> pred_ef \<noteq> None then finishing (the pred_ef)
      else if ty = START_TO_FINISH \<and> pred_es \<noteq> None then finishing (the pred_es)
      else Inr None)"

definition preview_dates_with_duration ::
  "calendar_engine \<Rightarrow> task \<Rightarrow> task_dependency list \<Rightarrow> date_map \<Rightarrow> date_map \<Rightarrow> int \<Rightarrow> dates result" where
  "preview_dates_with_duration e t incoming es ef duration =
     (let own = (case t_start_date t of
                   None \<Rightarrow> Inr (None, None)
                 | Some est \<Rightarrow> rbind (add_working_days e est duration) (\<lambda>eft. Inr (Some est, Some eft))) in
      if incoming = [] then own
      else rbind (candidates (preview_duration_candidate e duration es ef) incoming) (\<lambda>cands.
        if cands = [] then own
        else (let est = Max (set cands) in
              rbind (add_working_days e est duration) (\<lambda>eft. Inr (Some est, Some eft)))))"

definition preview_actual_constraints ::
  "calendar_engine \<Rightarrow> task \<Rightarrow> date option \<Rightarrow> date option \<Rightarrow> int \<Rightarrow> dates result" where
  "preview_actual_constraints e t est eft duration =
     (case t_actual_end t of
        Some fixed_ef \<Rightarrow>
          (case t_actual_start t of
             Some a_start \<Rightarrow> Inr (Some a_start, Some fixed_ef)
           | None \<Rightarrow>
               (if duration > 0
                then rbind (add_working_days e fixed_ef (- (duration - 1))) (\<lambda>fixed_es. Inr (Some fixed_es, Some fixed_ef))
                else Inr (Some fixed_ef, Some fixed_ef)))
      | None \<Rightarrow>
          (case t_actual_start t of
             None \<Rightarrow> Inr (est, eft)
           | Some a_start \<Rightarrow>
               (if est = None \<or> a_start > the est then
                  (if duration \<le> 0 then Inr (Some a_start, Some a_start)
                   else rbind (add_working_days e a_start duration) (\<lambda>d. Inr (Some a_start, Some d)))
                else Inr (est, eft))))"

definition compute_task_dates_for_preview ::
  "calendar_engine \<Rightarrow> task \<Rightarrow> task_dependency list \<Rightarrow> date_map \<Rightarrow> date_map \<Rightarrow> dates result" where
  "compute_task_dates_for_preview e t incoming es ef =
     compute_task_dates_common t incoming es ef (preview_dates_milestone e)
       (preview_dates_with_duration e) (preview_actual_constraints e)"

definition simulate_schedule ::
  "calendar_engine \<Rightarrow> task list \<Rightarrow> task_dependency list \<Rightarrow> (string, cpm_task_info) dict result" where
  "simulate_schedule e tasks deps =
     compute_schedule e priority_value_for_preview (compute_task_dates_for_preview e) (dict_of t_id tasks) deps"

section \<open>The tasks that would shift\<close>

definition trace_neighbours ::
  "string list \<Rightarrow> string list \<Rightarrow> (string, string list) dict \<times> string list \<Rightarrow> (string, string list) dict \<times> string list" where
  "trace_neighbours current_path =
     fold (\<lambda>nxt (paths, queue).
       if map_of paths nxt \<noteq> None then (paths, queue)
       else (AList.update nxt (current_path @ [nxt]) paths, queue @ [nxt]))"

lemma trace_neighbours_measure:
  assumes "finite N" "set nxts \<subseteq> N"
  shows "card (N - fst ` set (fst (trace_neighbours p nxts (paths, queue)))) + length (snd (trace_neighbours p nxts (paths, queue)))
     \<le> card (N - fst ` set paths) + length queue"
  using assms(2)
proof (induction nxts arbitrary: paths queue)
  case Nil
  then show ?case by (simp add: trace_neighbours_def)
next
  case (Cons x xs)
  show ?case
  proof (cases "map_of paths x = None")
    case True
    have mem: "x \<in> N - fst ` set paths" using Cons.prems True by (auto simp: map_of_eq_None_iff)
    have "fst ` set (AList.update x (p @ [x]) paths) = insert x (fst ` set paths)"
      by (simp add: AList.dom_update)
    then have "N - fst ` set (AList.update x (p @ [x]) paths) = (N - fst ` set paths) - {x}" by blast
    then have "card (N - fst ` set (AList.update x (p @ [x]) paths)) + 1 = card (N - fst ` set paths)"
      using card_Suc_Diff1 [OF finite_Diff [OF assms(1)] mem] by simp
    then show ?thesis
      using Cons.IH [of "AList.update x (p @ [x]) paths" "queue @ [x]"] Cons.prems True by (simp add: trace_neighbours_def)
  next
    case False
    then show ?thesis using Cons.IH [of paths queue] Cons.prems by (simp add: trace_neighbours_def)
  qed
qed

function trace_loop ::
  "(string, string list) dict \<Rightarrow> (string, string list) dict \<Rightarrow> string list \<Rightarrow> (string, string list) dict result" where
  "trace_loop graph paths [] = Inr paths"
| "trace_loop graph paths (current # queue) =
     (case map_of paths current of
        None \<Rightarrow> Inl KeyError
      | Some current_path \<Rightarrow>
          trace_loop graph (fst (trace_neighbours current_path (dict_get_list graph current) (paths, queue)))
            (snd (trace_neighbours current_path (dict_get_list graph current) (paths, queue))))"
  by pat_completeness auto
termination
proof (relation "measure (\<lambda>(g, paths, queue). card ((\<Union>x \<in> set g. set (snd x)) - fst ` set paths) + length queue)")
  fix g paths :: "(string, string list) dict" and c :: string and q p :: "string list"
  show "((g, fst (trace_neighbours p (dict_get_list g c) (paths, q)), snd (trace_neighbours p (dict_get_list g c) (paths, q))),
      g, paths, c # q) \<in> measure (\<lambda>(g, paths, queue). card ((\<Union>x \<in> set g. set (snd x)) - fst ` set paths) + length queue)"
    using trace_neighbours_measure [OF _ dict_get_list_subset [of g c], of p paths q] by (simp add: case_prod_beta)
qed simp

definition trace_paths_from_source :: "(string, string list) dict \<Rightarrow> string \<Rightarrow> (string, string list) dict result" where
  "trace_paths_from_source graph source = trace_loop graph [(source, [source])] [source]"

record impact_row =
  ir_task_id :: string
  ir_task_name :: string
  before_start :: "date option"
  before_finish :: "date option"
  after_start :: "date option"
  after_finish :: "date option"
  start_shift_days :: "int option"
  finish_shift_days :: "int option"
  trace_path :: string

fun py_join :: "string \<Rightarrow> string list \<Rightarrow> string" where
  "py_join sep [] = []"
| "py_join sep [x] = x"
| "py_join sep (x # y # ys) = x @ sep @ py_join sep (y # ys)"

definition shift_days :: "date option \<Rightarrow> date option \<Rightarrow> int option" where
  "shift_days old new = (case (old, new) of (Some b, Some a) \<Rightarrow> Some (a - b) | _ \<Rightarrow> None)"

definition trace_text ::
  "(string, cpm_task_info) dict \<Rightarrow> (string, string list) dict \<Rightarrow> string \<Rightarrow> string \<Rightarrow> string \<Rightarrow> string" where
  "trace_text projected traces predecessor task_id own_name =
     (if task_id = predecessor then ''Predecessor task context''
      else (case map_of traces task_id of
              Some ids \<Rightarrow>
                py_join '' -> '' (map (\<lambda>i. case map_of projected i of Some info \<Rightarrow> t_name (ci_task info) | None \<Rightarrow> i) ids)
            | None \<Rightarrow> own_name))"

definition impact_row_of ::
  "(string, cpm_task_info) dict \<Rightarrow> (string, string list) dict \<Rightarrow> string \<Rightarrow> string \<times> cpm_task_info \<Rightarrow> impact_row option" where
  "impact_row_of projected traces predecessor p =
     (let (task_id, old) = p in
      case map_of projected task_id of
        None \<Rightarrow> None
      | Some new \<Rightarrow>
          (if earliest_start old \<noteq> earliest_start new \<or> earliest_finish old \<noteq> earliest_finish new
           then Some \<lparr>ir_task_id = task_id, ir_task_name = t_name (ci_task new),
                      before_start = earliest_start old, before_finish = earliest_finish old,
                      after_start = earliest_start new, after_finish = earliest_finish new,
                      start_shift_days = shift_days (earliest_start old) (earliest_start new),
                      finish_shift_days = shift_days (earliest_finish old) (earliest_finish new),
                      trace_path = trace_text projected traces predecessor task_id (t_name (ci_task new))\<rparr>
           else None))"

text \<open>\<open>max(abs(start_shift or 0), abs(finish_shift or 0))\<close>.\<close>

definition row_shift :: "impact_row \<Rightarrow> int" where
  "row_shift r =
     max \<bar>case start_shift_days r of None \<Rightarrow> 0 | Some n \<Rightarrow> n\<bar> \<bar>case finish_shift_days r of None \<Rightarrow> 0 | Some n \<Rightarrow> n\<bar>"

definition build_impact_rows ::
  "(string, cpm_task_info) dict \<Rightarrow> (string, cpm_task_info) dict \<Rightarrow> task_dependency list \<Rightarrow> string \<Rightarrow> string
     \<Rightarrow> impact_row list result" where
  "build_impact_rows current projected deps predecessor successor =
     rbind (trace_paths_from_source (adjacency deps) successor) (\<lambda>traces.
       Inr (sort_key (\<lambda>r. (- row_shift r, py_lower (ir_task_name r)))
              (List.map_filter (impact_row_of projected traces predecessor) current)))"

definition impact_risk_level :: "int \<Rightarrow> nat \<Rightarrow> string" where
  "impact_risk_level max_delay impacted_count =
     (if max_delay \<le> 1 \<and> impacted_count \<le> 2 then ''low''
      else if max_delay \<le> 3 \<and> impacted_count \<le> 5 then ''medium''
      else ''high'')"

section \<open>The diagnostic\<close>

record dependency_diagnostic =
  dg_is_valid :: bool
  dg_code :: string
  dg_predecessor_task_id :: string
  dg_successor_task_id :: string
  dg_dependency_type :: dependency_type
  dg_lag_days :: int
  dg_impact_rows :: "impact_row list"
  dg_risk_level :: string

definition invalid_diagnostic :: "string \<Rightarrow> string \<Rightarrow> string \<Rightarrow> dependency_type \<Rightarrow> int \<Rightarrow> dependency_diagnostic" where
  "invalid_diagnostic code predecessor successor ty lag =
     \<lparr>dg_is_valid = False, dg_code = code, dg_predecessor_task_id = predecessor, dg_successor_task_id = successor,
      dg_dependency_type = ty, dg_lag_days = lag, dg_impact_rows = [], dg_risk_level = ''blocked''\<rparr>"

definition valid_diagnostic :: "task_dependency \<Rightarrow> impact_row list \<Rightarrow> string \<Rightarrow> dependency_diagnostic" where
  "valid_diagnostic dep rows risk =
     \<lparr>dg_is_valid = True, dg_code = ''DEPENDENCY_VALID'', dg_predecessor_task_id = predecessor_task_id dep,
      dg_successor_task_id = successor_task_id dep, dg_dependency_type = dependency_type dep, dg_lag_days = lag_days dep,
      dg_impact_rows = rows, dg_risk_level = risk\<rparr>"

text \<open>The part that simulates the schedule without and with the proposed dependency.\<close>

definition impact_diagnostic :: "calendar_engine \<Rightarrow> project_tables \<Rightarrow> string \<Rightarrow> task_dependency \<Rightarrow> dependency_diagnostic result" where
  "impact_diagnostic e d pid proposed =
     (let tasks = list_tasks_by_project pid d; deps = list_dependencies_by_project pid d in
      rbind (simulate_schedule e tasks deps) (\<lambda>current_schedule.
      rbind (simulate_schedule e tasks (deps @ [proposed])) (\<lambda>projected_schedule.
      rbind (build_impact_rows current_schedule projected_schedule (deps @ [proposed])
               (predecessor_task_id proposed) (successor_task_id proposed)) (\<lambda>rows.
        if rows = [] then Inr (valid_diagnostic proposed [] ''none'')
        else Inr (valid_diagnostic proposed rows
                    (impact_risk_level (Max (row_shift ` set rows)) (length rows)))))))"

end
