(* ===== verification/Proc_Approval.thy ===== *)
theory Proc_Approval
  imports Inv_Stock
begin

text \<open>
  The approval service (\<^verbatim>\<open>core/platform/approval/service.py\<close>): a change is
  requested by one user and decided by another; the decision runs the handler registered for
  the kind of request. The operations have no \<open>try\<close> block: an exception of a handler
  leaves the transaction open with whatever the handler has already written.
\<close>

section \<open>Access to the document tables\<close>

definition doc_get :: "(documents \<Rightarrow> 'a) \<Rightarrow> 'a inv_op" where
  "doc_get f = oget (\<lambda>s. f (db_documents (s_working s)))"

definition doc_update :: "(documents \<Rightarrow> documents result) \<Rightarrow> unit inv_op" where
  "doc_update f s =
     (case f (db_documents (s_working s)) of
        Inl err \<Rightarrow> (Inl err, s)
      | Inr d \<Rightarrow> (Inr (), s\<lparr>s_working := (s_working s)\<lparr>db_documents := d\<rparr>\<rparr>))"

definition doc_add :: "document_row \<Rightarrow> unit inv_op" where
  "doc_add r = session_add (DocumentRow r)"

text \<open>An update through the identity map of the session: the row with the id, or \<open>ValueError\<close>.\<close>

definition update_by_id :: "('r \<Rightarrow> string) \<Rightarrow> 'r \<Rightarrow> 'r list \<Rightarrow> 'r list result" where
  "update_by_id key r rows =
     (if find_row key rows (key r) = None then Inl ValueError else Inr (replace_row key r rows))"

section \<open>The users\<close>

definition principal_of :: "inv_env \<Rightarrow> user_session_principal option" where
  "principal_of env = (case e_user env of None \<Rightarrow> None | Some us \<Rightarrow> us_principal us)"

definition require_any_perm :: "inv_env \<Rightarrow> string list \<Rightarrow> 'a \<Rightarrow> unit result \<times> 'a" where
  "require_any_perm env codes = olift (fst (require_any_permission (e_now env) codes (e_user env)))"

section \<open>The repository\<close>

definition list_by_status ::
  "approval_status option \<Rightarrow> nat \<Rightarrow> string option \<Rightarrow> string list option \<Rightarrow> string option \<Rightarrow> documents
     \<Rightarrow> approval_request list" where
  "list_by_status status limit project etypes eid d =
     take (max 1 limit) (sort_key (\<lambda>r. - ap_requested_at r)
       (filter (\<lambda>r. (case status of None \<Rightarrow> True | Some st \<Rightarrow> ap_status r = st) \<and>
                    (case project of None \<Rightarrow> True | Some p \<Rightarrow> ap_project_id r = Some p) \<and>
                    (case etypes of None \<Rightarrow> True | Some tys \<Rightarrow> ap_entity_type r \<in> set tys) \<and>
                    (case eid of None \<Rightarrow> True | Some i \<Rightarrow> ap_entity_id r = i))
         (dc_approvals d)))"

definition get_approval :: "string \<Rightarrow> documents \<Rightarrow> approval_request option" where
  "get_approval i d = find_row ap_id (dc_approvals d) i"

definition update_approval :: "approval_request \<Rightarrow> unit inv_op" where
  "update_approval r =
     obind (doc_get (get_approval (ap_id r))) (\<lambda>row.
       case row of
         None \<Rightarrow> doc_add (ApprovalRow r)
       | Some _ \<Rightarrow> doc_update (\<lambda>d. Inr (d\<lparr>dc_approvals := replace_row ap_id r (dc_approvals d)\<rparr>)))"

section \<open>The service\<close>

definition record_governance_audit :: "string \<Rightarrow> approval_request \<Rightarrow> unit inv_op" where
  "record_governance_audit action r =
     obind (oget s_audit_on) (\<lambda>present.
       if present then doc_add (AuditRow action ''approval_request'' (ap_id r)) else oret ())"

definition request_change ::
  "inv_env \<Rightarrow> string \<Rightarrow> string \<Rightarrow> string \<Rightarrow> string option \<Rightarrow> approval_payload \<Rightarrow> bool \<Rightarrow> approval_request inv_op" where
  "request_change env rtype etype eid project payload do_commit =
     obind (require_perm env ''approval.request'') (\<lambda>_.
     obind (doc_get (list_by_status (Some AP_PENDING) 1 None (Some [etype]) (Some eid))) (\<lambda>existing.
     obind (oguard (existing \<noteq> []) (BusinessRuleError ''APPROVAL_DUPLICATE_ENTITY'')) (\<lambda>_.
     obind (fresh_uuid (e_uuid env)) (\<lambda>new_id.
     (let request = create_approval new_id (e_now env) (py_lower (py_strip rtype)) etype eid project payload
            (map_option p_user_id (principal_of env)) (map_option p_username (principal_of env)) in
      obind (doc_add (ApprovalRow request)) (\<lambda>_.
      obind (record_governance_audit ''governance.request'' request) (\<lambda>_.
      obind (if do_commit then obind (commit inv_insert) (\<lambda>_. emit ''approvals_changed'' (ap_id request))
             else session_flush inv_insert) (\<lambda>_.
      oret request))))))))"

definition list_requests ::
  "inv_env \<Rightarrow> approval_status option \<Rightarrow> string option \<Rightarrow> string list option \<Rightarrow> nat \<Rightarrow> approval_request list inv_op" where
  "list_requests env status project etypes limit =
     obind (require_any_perm env [''approval.request'', ''approval.decide'']) (\<lambda>_.
     doc_get (list_by_status status limit project etypes None))"

definition require_pending :: "string \<Rightarrow> approval_request inv_op" where
  "require_pending i =
     obind (doc_get (get_approval i)) (\<lambda>row.
       case row of
         None \<Rightarrow> oraise (NotFoundError ''APPROVAL_NOT_FOUND'')
       | Some r \<Rightarrow>
           (if ap_status r \<noteq> AP_PENDING then oraise (BusinessRuleError ''APPROVAL_ALREADY_DECIDED'') else oret r))"

definition ensure_not_self_decision :: "inv_env \<Rightarrow> approval_request \<Rightarrow> unit inv_op" where
  "ensure_not_self_decision env r =
     (case (principal_of env, requested_by r) of
        (Some p, Some requester) \<Rightarrow>
          oguard (requester \<noteq> [] \<and> p_user_id p = requester) (BusinessRuleError ''APPROVAL_SELF_DECISION_FORBIDDEN'')
      | _ \<Rightarrow> oret ())"

definition stripped_note :: "string option \<Rightarrow> string option" where
  "stripped_note note =
     (let n = py_strip (case note of None \<Rightarrow> [] | Some x \<Rightarrow> x) in if n = [] then None else Some n)"

definition decide :: "inv_env \<Rightarrow> approval_status \<Rightarrow> string option \<Rightarrow> approval_request \<Rightarrow> approval_request" where
  "decide env status note r =
     r\<lparr>ap_status := status, decided_at := Some (e_now env),
       decided_by := map_option p_user_id (principal_of env),
       decided_by_username := map_option p_username (principal_of env),
       decision_note := stripped_note note\<rparr>"

text \<open>The handlers registered with the service, by the kind of request.\<close>

type_synonym handlers = "string \<Rightarrow> (approval_request \<Rightarrow> unit inv_op) option"

definition close_decision :: "string \<Rightarrow> approval_request \<Rightarrow> approval_request inv_op" where
  "close_decision action r =
     obind (update_approval r) (\<lambda>_.
     obind (record_governance_audit action r) (\<lambda>_.
     obind (commit inv_insert) (\<lambda>_.
     obind (emit ''approvals_changed'' (ap_id r)) (\<lambda>_.
     oret r))))"

definition reject :: "inv_env \<Rightarrow> handlers \<Rightarrow> string \<Rightarrow> string option \<Rightarrow> approval_request inv_op" where
  "reject env reject_handlers i note =
     obind (require_perm env ''approval.decide'') (\<lambda>_.
     obind (require_pending i) (\<lambda>request.
     obind (ensure_not_self_decision env request) (\<lambda>_.
     (let request' = decide env AP_REJECTED note request in
      obind (case reject_handlers (ap_request_type request') of None \<Rightarrow> oret () | Some h \<Rightarrow> h request') (\<lambda>_.
      close_decision ''governance.reject'' request')))))"

definition emit_post_apply_domain_events :: "approval_request \<Rightarrow> unit inv_op" where
  "emit_post_apply_domain_events r =
     (case ap_project_id r of
        Some project \<Rightarrow>
          (if ap_request_type r = ''baseline.create'' \<and> project \<noteq> [] then emit ''baseline_changed'' project else oret ())
      | None \<Rightarrow> oret ())"

definition approve_and_apply :: "inv_env \<Rightarrow> handlers \<Rightarrow> string \<Rightarrow> string option \<Rightarrow> approval_request inv_op" where
  "approve_and_apply env apply_handlers i note =
     obind (require_perm env ''approval.decide'') (\<lambda>_.
     obind (require_pending i) (\<lambda>request.
     obind (ensure_not_self_decision env request) (\<lambda>_.
       case apply_handlers (ap_request_type request) of
         None \<Rightarrow> oraise (BusinessRuleError ''APPROVAL_HANDLER_MISSING'')
       | Some handler \<Rightarrow>
           obind (handler request) (\<lambda>_.
           obind (emit_post_apply_domain_events request) (\<lambda>_.
           close_decision ''governance.approve'' (decide env AP_APPROVED note request))))))"

end
