(* ===== verification/Task_Service.thy ===== *)
theory Task_Service
  imports Task_Diagnostics Proc_Approval
begin

text \<open>
  The task service (\<^verbatim>\<open>services/task\<close>: \<^verbatim>\<open>lifecycle.py\<close>, \<^verbatim>\<open>dependency.py\<close>,
  \<^verbatim>\<open>validation.py\<close>, \<^verbatim>\<open>schedule_sync.py\<close>) with the persisting part of the
  scheduling engine, wired as in \<^verbatim>\<open>project_management_bundle.py\<close>.
\<close>

section \<open>The surroundings and the tables\<close>

text \<open>
  A task service reads the clock and the user as the other services do, the local date, the working
  calendar, the two environment variables of \<^verbatim>\<open>core/platform/approval/policy.py\<close> and the
  one of the over-allocation policy, and whether the project-management module is enabled for the
  organization.
\<close>

record task_env =
  pe_base :: inv_env
  pe_today :: date
  pe_calendar :: calendar_engine
  pe_governance_mode :: "string option"
  pe_governance_actions :: "string option"
  pe_overallocation_policy :: "string option"
  pe_module_enabled :: bool

definition pt_get :: "(project_tables \<Rightarrow> 'a) \<Rightarrow> 'a inv_op" where
  "pt_get f = oget (\<lambda>s. f (db_project (s_working s)))"

definition pt_update :: "(project_tables \<Rightarrow> project_tables result) \<Rightarrow> unit inv_op" where
  "pt_update f s =
     (case f (db_project (s_working s)) of
        Inl err \<Rightarrow> (Inl err, s)
      | Inr d \<Rightarrow> (Inr (), s\<lparr>s_working := (s_working s)\<lparr>db_project := d\<rparr>\<rparr>))"

definition pt_add :: "project_row \<Rightarrow> unit inv_op" where
  "pt_add r = session_add (ProjectRow r)"

text \<open>The wrapper \<open>ModuleGuardedServiceMixin\<close> puts around every public method.\<close>

definition guarded :: "task_env \<Rightarrow> 'a inv_op \<Rightarrow> 'a inv_op" where
  "guarded env m = obind (oguard (\<not> pe_module_enabled env) (BusinessRuleError ''MODULE_DISABLED'')) (\<lambda>_. m)"

abbreviation task_perm :: "task_env \<Rightarrow> string \<Rightarrow> unit inv_op" where
  "task_perm env code \<equiv> require_perm (pe_base env) code"

definition require_project_permission :: "task_env \<Rightarrow> string \<Rightarrow> string \<Rightarrow> unit inv_op" where
  "require_project_permission env pid code = require_scope_perm (pe_base env) ''project'' pid code"

section \<open>The repositories\<close>

definition update_task_row :: "task \<Rightarrow> task inv_op" where
  "update_task_row t =
     obind (pt_update (\<lambda>d.
       rbind (update_with_version_check t_id t_version (\<lambda>v r. r\<lparr>t_version := v\<rparr>) t (pt_tasks d)) (\<lambda>rows.
       Inr (d\<lparr>pt_tasks := rows\<rparr>)))) (\<lambda>_.
     oret (t\<lparr>t_version := t_version t + 1\<rparr>))"

definition get_dependency_row :: "string \<Rightarrow> project_tables \<Rightarrow> task_dependency option" where
  "get_dependency_row i d = find_row d_id (pt_dependencies d) i"

definition delete_dependency :: "string \<Rightarrow> project_tables \<Rightarrow> project_tables" where
  "delete_dependency i d = d\<lparr>pt_dependencies := filter (\<lambda>x. d_id x \<noteq> i) (pt_dependencies d)\<rparr>"

definition touches_task :: "string \<Rightarrow> task_dependency \<Rightarrow> bool" where
  "touches_task i x \<longleftrightarrow> predecessor_task_id x = i \<or> successor_task_id x = i"

definition delete_dependencies_for_task :: "string \<Rightarrow> project_tables \<Rightarrow> project_tables" where
  "delete_dependencies_for_task i d = d\<lparr>pt_dependencies := filter (\<lambda>x. \<not> touches_task i x) (pt_dependencies d)\<rparr>"

definition list_dependencies_by_task :: "string \<Rightarrow> project_tables \<Rightarrow> task_dependency list" where
  "list_dependencies_by_task i d = filter (touches_task i) (pt_dependencies d)"

definition list_assignments_by_task :: "string \<Rightarrow> project_tables \<Rightarrow> task_assignment list" where
  "list_assignments_by_task i d = filter (\<lambda>a. a_task_id a = i) (pt_assignments d)"

section \<open>Validation\<close>

definition validate_dates :: "date option \<Rightarrow> date option \<Rightarrow> int option \<Rightarrow> unit result" where
  "validate_dates start last_day duration =
     rbind (raise_if (case (start, last_day) of (Some s, Some e) \<Rightarrow> e < s | _ \<Rightarrow> False) ValidationErr) (\<lambda>_.
     raise_if (case duration of None \<Rightarrow> False | Some n \<Rightarrow> n < 0) ValidationErr)"

definition validate_task_name :: "string \<Rightarrow> unit result" where
  "validate_task_name name =
     rbind (raise_if (py_strip name = []) (ValidationError ''TASK_NAME_EMPTY'')) (\<lambda>_.
     rbind (raise_if (length (py_strip name) < 3) (ValidationError ''TASK_NAME_TOO_SHORT'')) (\<lambda>_.
     raise_if (list_ex (\<lambda>c. c \<in> set [CHR ''/'', CHR 0x5C, CHR ''?'', CHR ''%'', CHR ''*'', CHR '':'', CHR ''|'', CHR 0x22,
         CHR ''<'', CHR ''>'']) name) (ValidationError ''TASK_NAME_INVALID_CHARS'')))"

definition outside_project :: "project_dates \<Rightarrow> date option \<Rightarrow> bool" where
  "outside_project p d \<longleftrightarrow>
     (case d of None \<Rightarrow> False
      | Some x \<Rightarrow> (case pj_start_date p of None \<Rightarrow> False | Some ps \<Rightarrow> x < ps) \<or>
                  (case pj_end_date p of None \<Rightarrow> False | Some pe \<Rightarrow> x > pe))"

definition validate_task_within_project_dates :: "string \<Rightarrow> date option \<Rightarrow> date option \<Rightarrow> unit inv_op" where
  "validate_task_within_project_dates pid task_start task_end =
     obind (pt_get (\<lambda>d. find_row pj_id (pt_projects d) pid)) (\<lambda>row.
       case row of
         None \<Rightarrow> oraise (NotFoundError ''PROJECT_NOT_FOUND'')
       | Some p \<Rightarrow> oguard (outside_project p task_start \<or> outside_project p task_end) (ValidationError ''TASK_INVALID_DATE''))"

section \<open>The life of a task\<close>

definition create_task_row ::
  "string \<Rightarrow> string \<Rightarrow> string \<Rightarrow> string \<Rightarrow> date option \<Rightarrow> int option \<Rightarrow> task_status \<Rightarrow> int \<Rightarrow> date option \<Rightarrow> task" where
  "create_task_row new_id pid name description start duration status priority deadline =
     \<lparr>t_id = new_id, t_project_id = pid, t_name = name, t_description = description, t_start_date = start,
      t_end_date = None, t_duration_days = duration, t_status = status, t_priority = IntPriority priority,
      t_percent_complete = 0, t_actual_start = None, t_actual_end = None, t_deadline = deadline, t_version = 1\<rparr>"

text \<open>\<open>if start_date and duration_days is not None: end_date = add_working_days(...)\<close>.\<close>

definition with_planned_end :: "calendar_engine \<Rightarrow> task \<Rightarrow> task result" where
  "with_planned_end e t =
     (case (t_start_date t, t_duration_days t) of
        (Some s, Some n) \<Rightarrow> rbind (add_working_days e s n) (\<lambda>d. Inr (t\<lparr>t_end_date := Some d\<rparr>))
      | _ \<Rightarrow> Inr t)"

text \<open>The end of every operation that writes one task: the commit, the audit entry, both in the \<open>try\<close> block.\<close>

definition save_task :: "string \<Rightarrow> task \<Rightarrow> task inv_op" where
  "save_task action t =
     obind (try_rollback (
       obind (update_task_row t) (\<lambda>saved.
       obind (commit inv_insert) (\<lambda>_.
       obind (record_audit inv_insert action ''task'' (t_id t)) (\<lambda>_.
       oret saved))))) (\<lambda>saved.
     obind (emit ''tasks_changed'' (t_project_id t)) (\<lambda>_.
     oret saved))"

definition create_task ::
  "task_env \<Rightarrow> string \<Rightarrow> string \<Rightarrow> string \<Rightarrow> date option \<Rightarrow> int option \<Rightarrow> task_status \<Rightarrow> int \<Rightarrow> date option \<Rightarrow> task inv_op" where
  "create_task env pid name description start duration status priority deadline =
     guarded env (
     obind (task_perm env ''task.manage'') (\<lambda>_.
     obind (require_project_permission env pid ''task.manage'') (\<lambda>_.
     obind (olift (validate_dates start deadline duration)) (\<lambda>_.
     obind (olift (validate_task_name name)) (\<lambda>_.
     obind (fresh_uuid (e_uuid (pe_base env))) (\<lambda>new_id.
     obind (olift (with_planned_end (pe_calendar env)
              (create_task_row new_id pid name description start duration status priority deadline))) (\<lambda>t.
     obind (validate_task_within_project_dates pid (t_start_date t) (t_end_date t)) (\<lambda>_.
     try_rollback (
       obind (pt_add (TaskRow t)) (\<lambda>_.
       obind (commit inv_insert) (\<lambda>_.
       obind (record_audit inv_insert ''task.create'' ''task'' (t_id t)) (\<lambda>_.
       obind (emit ''tasks_changed'' pid) (\<lambda>_.
       oret t)))))))))))))"

text \<open>A task of a call that changes it: the permission, the row, the permission on its project.\<close>

definition manage_task :: "task_env \<Rightarrow> error \<Rightarrow> string \<Rightarrow> task inv_op" where
  "manage_task env missing i =
     obind (task_perm env ''task.manage'') (\<lambda>_.
     obind (pt_get (get_task_row i)) (\<lambda>row.
       case row of
         None \<Rightarrow> oraise missing
       | Some t \<Rightarrow> obind (require_project_permission env (t_project_id t) ''task.manage'') (\<lambda>_. oret t)))"

definition check_task_version :: "int option \<Rightarrow> task \<Rightarrow> unit inv_op" where
  "check_task_version expected t =
     oguard (case expected of None \<Rightarrow> False | Some v \<Rightarrow> t_version t \<noteq> v) (ConcurrencyError ''STALE_WRITE'')"

definition with_status :: "task_status \<Rightarrow> task \<Rightarrow> task" where
  "with_status status t =
     (let t' = t\<lparr>t_status := status\<rparr>; p = t_percent_complete t in
      if status = DONE then t'\<lparr>t_percent_complete := 100\<rparr>
      else if status = TODO then t'\<lparr>t_percent_complete := 0\<rparr>
      else if status = IN_PROGRESS \<and> \<not> (0 < p \<and> p < 100)
      then t'\<lparr>t_percent_complete := (if t_status t = DONE then 50 else 1)\<rparr>
      else t')"

definition set_status :: "task_env \<Rightarrow> string \<Rightarrow> task_status \<Rightarrow> unit inv_op" where
  "set_status env i status =
     guarded env (
     obind (manage_task env (NotFoundError ''TASK_NOT_FOUND'') i) (\<lambda>t.
     obind (save_task ''task.set_status'' (with_status status t)) (\<lambda>_.
     oret ())))"

definition delete_costs :: "string \<Rightarrow> string \<Rightarrow> project_tables \<Rightarrow> project_tables" where
  "delete_costs pid i d =
     d\<lparr>pt_costs := filter (\<lambda>c. \<not> (ci_id c \<in> ci_id ` set (filter (\<lambda>c. ci_project_id c = pid \<and> ci_task_id c = Some i) (pt_costs d)))) (pt_costs d)\<rparr>"

definition delete_time_entries :: "string list \<Rightarrow> project_tables \<Rightarrow> project_tables" where
  "delete_time_entries assignments d = d\<lparr>pt_time_entries := filter (\<lambda>e. te_work_allocation_id e \<notin> set assignments) (pt_time_entries d)\<rparr>"

text \<open>The deletions of \<open>delete_task\<close> in the order of the code.\<close>

definition delete_task_rows :: "string \<Rightarrow> string \<Rightarrow> project_tables \<Rightarrow> project_tables" where
  "delete_task_rows pid i d =
     (let d1 = delete_time_entries (map a_id (list_assignments_by_task i d)) d;
          d2 = delete_dependencies_for_task i d1;
          d3 = d2\<lparr>pt_assignments := filter (\<lambda>a. a_task_id a \<noteq> i) (pt_assignments d2)\<rparr>;
          d4 = d3\<lparr>pt_events := filter (\<lambda>e. ce_task_id e \<noteq> Some i) (pt_events d3)\<rparr>;
          d5 = delete_costs pid i d4
      in d5\<lparr>pt_tasks := filter (\<lambda>t. t_id t \<noteq> i) (pt_tasks d5)\<rparr>)"

definition delete_task :: "task_env \<Rightarrow> string \<Rightarrow> unit inv_op" where
  "delete_task env i =
     guarded env (
     obind (manage_task env NotFoundErr i) (\<lambda>t.
     obind (try_rollback (
       obind (pt_update (\<lambda>d. Inr (delete_task_rows (t_project_id t) i d))) (\<lambda>_.
       obind (commit inv_insert) (\<lambda>_.
       record_audit inv_insert ''task.delete'' ''task'' i)))) (\<lambda>_.
     emit ''tasks_changed'' (t_project_id t))))"

text \<open>The arguments of \<open>update_task\<close>; one that is \<open>None\<close> leaves its attribute alone.\<close>

record task_changes =
  ch_name :: "string option"
  ch_description :: "string option"
  ch_start_date :: "date option"
  ch_duration_days :: "int option"
  ch_status :: "task_status option"
  ch_priority :: "int option"
  ch_deadline :: "date option"

definition given :: "'a option \<Rightarrow> ('a \<Rightarrow> 't \<Rightarrow> 't) \<Rightarrow> 't \<Rightarrow> 't" where
  "given v f t = (case v of None \<Rightarrow> t | Some x \<Rightarrow> f x t)"

definition changed_task :: "calendar_engine \<Rightarrow> task_changes \<Rightarrow> task \<Rightarrow> task result" where
  "changed_task e c t =
     rbind (case ch_name c of None \<Rightarrow> Inr () | Some n \<Rightarrow> validate_task_name n) (\<lambda>_.
     (let t1 = given (ch_name c) (\<lambda>n t. t\<lparr>t_name := py_strip n\<rparr>) t;
          t2 = given (ch_description c) (\<lambda>x t. t\<lparr>t_description := py_strip x\<rparr>) t1;
          t3 = given (ch_start_date c) (\<lambda>x t. t\<lparr>t_start_date := Some x\<rparr>) t2 in
      rbind (raise_if (case ch_duration_days c of None \<Rightarrow> False | Some n \<Rightarrow> n < 0) ValidationErr) (\<lambda>_.
      (let t4 = given (ch_duration_days c) (\<lambda>n t. t\<lparr>t_duration_days := Some n\<rparr>) t3 in
       rbind (with_planned_end e t4) (\<lambda>t5.
       (let t6 = given (ch_status c) (\<lambda>x t. t\<lparr>t_status := x\<rparr>) t5;
            t7 = given (ch_priority c) (\<lambda>x t. t\<lparr>t_priority := IntPriority x\<rparr>) t6 in
        rbind (raise_if (case (ch_deadline c, t_start_date t7) of (Some d, Some s) \<Rightarrow> d < s | _ \<Rightarrow> False) ValidationErr) (\<lambda>_.
        Inr (given (ch_deadline c) (\<lambda>x t. t\<lparr>t_deadline := Some x\<rparr>) t7))))))))"

definition update_task :: "task_env \<Rightarrow> string \<Rightarrow> task_changes \<Rightarrow> int option \<Rightarrow> task inv_op" where
  "update_task env i changes expected =
     guarded env (
     obind (manage_task env (NotFoundError ''TASK_NOT_FOUND'') i) (\<lambda>t.
     obind (check_task_version expected t) (\<lambda>_.
     obind (olift (changed_task (pe_calendar env) changes t)) (\<lambda>t'.
     obind (validate_task_within_project_dates (t_project_id t') (t_start_date t') (t_end_date t')) (\<lambda>_.
     save_task ''task.update'' t')))))"

definition with_progress :: "rat \<Rightarrow> task \<Rightarrow> task" where
  "with_progress p t =
     (let t' = t\<lparr>t_percent_complete := p\<rparr> in
      if p = 0 \<and> t_status t \<noteq> TODO then t'\<lparr>t_status := TODO\<rparr>
      else if 0 < p \<and> p < 100 \<and> t_status t = TODO then t'\<lparr>t_status := IN_PROGRESS\<rparr>
      else if p = 100 then t'\<lparr>t_status := DONE\<rparr>
      else if p < 100 \<and> t_status t = DONE then t'\<lparr>t_status := IN_PROGRESS\<rparr>
      else t')"

definition progressed_task ::
  "rat option \<Rightarrow> date option \<Rightarrow> date option \<Rightarrow> task_status option \<Rightarrow> task \<Rightarrow> task result" where
  "progressed_task percent actual_start actual_end status t =
     rbind (raise_if (case percent of None \<Rightarrow> False | Some p \<Rightarrow> p < 0 \<or> p > 100) ValidationErr) (\<lambda>_.
     (let t1 = given percent with_progress t;
          t2 = given actual_start (\<lambda>x t. t\<lparr>t_actual_start := Some x\<rparr>) t1 in
      rbind (raise_if (case (actual_end, t_actual_start t2) of (Some e, Some s) \<Rightarrow> e < s | _ \<Rightarrow> False) ValidationErr) (\<lambda>_.
      (let t3 = given actual_end (\<lambda>x t. t\<lparr>t_actual_end := Some x\<rparr>) t2 in
       Inr (given status (\<lambda>x t. t\<lparr>t_status := x\<rparr>) t3)))))"

definition update_progress ::
  "task_env \<Rightarrow> string \<Rightarrow> rat option \<Rightarrow> date option \<Rightarrow> date option \<Rightarrow> task_status option \<Rightarrow> int option \<Rightarrow> task inv_op" where
  "update_progress env i percent actual_start actual_end status expected =
     guarded env (
     obind (manage_task env (NotFoundError ''TASK_NOT_FOUND'') i) (\<lambda>t.
     obind (check_task_version expected t) (\<lambda>_.
     obind (olift (progressed_task percent actual_start actual_end status t)) (\<lambda>t'.
     obind (validate_task_within_project_dates (t_project_id t') (t_actual_start t') (t_actual_end t')) (\<lambda>_.
     save_task ''task.update_progress'' t')))))"

section \<open>The schedule of a project\<close>

text \<open>
  \<open>recalculate_project_schedule\<close> reads the project, computes, and with \<open>persist\<close> writes
  every task back in one transaction.
\<close>

definition project_schedule :: "calendar_engine \<Rightarrow> string \<Rightarrow> project_tables \<Rightarrow> (string, cpm_task_info) dict result" where
  "project_schedule e pid d =
     (let tasks = list_tasks_by_project pid d in
      if tasks = [] then Inr []
      else compute_schedule e priority_value (compute_task_dates e) (dict_of t_id tasks) (list_dependencies_by_project pid d))"

definition store_task :: "string \<times> cpm_task_info \<Rightarrow> unit inv_op" where
  "store_task entry = obind (update_task_row (ci_task (snd entry))) (\<lambda>_. oret ())"

definition recalculate_project_schedule :: "task_env \<Rightarrow> string \<Rightarrow> bool \<Rightarrow> (string, cpm_task_info) dict inv_op" where
  "recalculate_project_schedule env pid persist =
     obind (pt_get (project_schedule (pe_calendar env) pid)) (\<lambda>computed.
     obind (olift computed) (\<lambda>result.
       if result = [] \<or> \<not> persist then oret result
       else
         obind (try_rollback (committing inv_insert (ofor store_task result))) (\<lambda>_.
         oret (map (\<lambda>(i, info). (i, info\<lparr>ci_task := (ci_task info)\<lparr>t_version := t_version (ci_task info) + 1\<rparr>\<rparr>)) result))))"

definition sync_project_schedule :: "task_env \<Rightarrow> string option \<Rightarrow> unit inv_op" where
  "sync_project_schedule env pid =
     (case pid of
        None \<Rightarrow> oret ()
      | Some p \<Rightarrow> (if p = [] then oret () else obind (recalculate_project_schedule env p True) (\<lambda>_. oret ())))"

section \<open>Dependencies\<close>

definition get_dependency_diagnostics ::
  "task_env \<Rightarrow> string \<Rightarrow> string \<Rightarrow> dependency_type \<Rightarrow> int \<Rightarrow> bool \<Rightarrow> dependency_diagnostic inv_op" where
  "get_dependency_diagnostics env predecessor successor ty lag include_impact =
     guarded env (
     obind (pt_get (\<lambda>d. d)) (\<lambda>d.
       case dependency_problem predecessor successor d of
         Some code \<Rightarrow> oret (invalid_diagnostic code predecessor successor ty lag)
       | None \<Rightarrow>
           (if \<not> include_impact
            then oret (valid_diagnostic \<lparr>d_id = [], predecessor_task_id = predecessor, successor_task_id = successor,
                         dependency_type = ty, lag_days = lag\<rparr> [] ''none'')
            else
              obind (fresh_uuid (e_uuid (pe_base env))) (\<lambda>new_id.
              olift (impact_diagnostic (pe_calendar env) d
                (case get_task_row predecessor d of Some p \<Rightarrow> t_project_id p | None \<Rightarrow> [])
                \<lparr>d_id = new_id, predecessor_task_id = predecessor, successor_task_id = successor, dependency_type = ty,
                  lag_days = lag\<rparr>)))))"

fun py_split :: "char \<Rightarrow> string \<Rightarrow> string list" where
  "py_split c [] = [[]]"
| "py_split c (x # xs) =
     (if x = c then [] # py_split c xs
      else (case py_split c xs of [] \<Rightarrow> [[x]] | y # ys \<Rightarrow> (x # y) # ys))"

definition DEFAULT_GOVERNED_ACTIONS :: "string list" where
  "DEFAULT_GOVERNED_ACTIONS =
     [''baseline.create'', ''cost.add'', ''cost.update'', ''cost.delete'', ''dependency.add'', ''dependency.remove'']"

definition is_governance_required :: "task_env \<Rightarrow> string \<Rightarrow> bool" where
  "is_governance_required env action =
     (if py_lower (py_strip (case pe_governance_mode env of None \<Rightarrow> ''off'' | Some x \<Rightarrow> if x = [] then ''off'' else x)) \<noteq> ''required''
      then False
      else
        (let raw_actions = py_strip (case pe_governance_actions env of None \<Rightarrow> [] | Some x \<Rightarrow> x);
             governed_actions =
               (if raw_actions = [] then DEFAULT_GOVERNED_ACTIONS
                else map (\<lambda>item. py_lower (py_strip item)) (filter (\<lambda>item. py_strip item \<noteq> []) (py_split (CHR '','') raw_actions)))
         in py_lower (py_strip action) \<in> set governed_actions))"

definition governed_change :: "task_env \<Rightarrow> bool \<Rightarrow> string \<Rightarrow> bool" where
  "governed_change env bypass action \<longleftrightarrow>
     \<not> bypass \<and> is_governance_required env action \<and> \<not> engine_is_admin_session (e_user (pe_base env))"

text \<open>What an invalid diagnostic raises.\<close>

definition diagnostic_error :: "string \<Rightarrow> error" where
  "diagnostic_error code =
     (if code = ''TASK_NOT_FOUND'' then NotFoundError code
      else if code = ''DEPENDENCY_CYCLE'' then BusinessRuleError code
      else ValidationError code)"

definition existing_task :: "string \<Rightarrow> task inv_op" where
  "existing_task i =
     obind (pt_get (get_task_row i)) (\<lambda>row.
       case row of None \<Rightarrow> oraise (NotFoundError ''TASK_NOT_FOUND'') | Some t \<Rightarrow> oret t)"

definition add_dependency ::
  "task_env \<Rightarrow> string \<Rightarrow> string \<Rightarrow> dependency_type \<Rightarrow> int \<Rightarrow> bool \<Rightarrow> task_dependency inv_op" where
  "add_dependency env predecessor successor ty lag bypass =
     guarded env (
     obind (existing_task predecessor) (\<lambda>p.
     obind (existing_task successor) (\<lambda>_.
     (let governed = governed_change env bypass ''dependency.add'';
          code = (if governed then ''approval.request'' else ''task.manage'') in
      obind (task_perm env code) (\<lambda>_.
      obind (require_project_permission env (t_project_id p) code) (\<lambda>_.
      obind (get_dependency_diagnostics env predecessor successor ty lag False) (\<lambda>diagnostic.
      obind (oguard (\<not> dg_is_valid diagnostic) (diagnostic_error (dg_code diagnostic))) (\<lambda>_.
        if governed then
          obind (request_change (pe_base env) ''dependency.add'' ''task_dependency'' successor (Some (t_project_id p))
                   (AddDependency predecessor successor ty lag) True) (\<lambda>_.
          oraise (BusinessRuleError ''APPROVAL_REQUIRED''))
        else
          obind (fresh_uuid (e_uuid (pe_base env))) (\<lambda>new_id.
          (let dep = \<lparr>d_id = new_id, predecessor_task_id = predecessor, successor_task_id = successor, dependency_type = ty,
                      lag_days = lag\<rparr> in
           obind (try_rollback (
             obind (pt_add (DependencyRow dep)) (\<lambda>_.
             obind (commit inv_insert) (\<lambda>_.
             obind (sync_project_schedule env (Some (t_project_id p))) (\<lambda>_.
             record_audit inv_insert ''dependency.add'' ''task_dependency'' (d_id dep)))))) (\<lambda>_.
           obind (emit ''tasks_changed'' (t_project_id p)) (\<lambda>_.
           oret dep))))))))))))"

definition project_of :: "task option \<Rightarrow> task option \<Rightarrow> string option" where
  "project_of p s = (case p of Some t \<Rightarrow> Some (t_project_id t) | None \<Rightarrow> map_option t_project_id s)"

definition nonempty_project :: "string option \<Rightarrow> bool" where
  "nonempty_project pid \<longleftrightarrow> pid \<noteq> None \<and> pid \<noteq> Some []"

definition remove_dependency :: "task_env \<Rightarrow> string \<Rightarrow> bool \<Rightarrow> unit inv_op" where
  "remove_dependency env i bypass =
     guarded env (
     (let governed = governed_change env bypass ''dependency.remove'';
          code = (if governed then ''approval.request'' else ''task.manage'') in
      obind (task_perm env code) (\<lambda>_.
      obind (pt_get (get_dependency_row i)) (\<lambda>row.
        case row of
          None \<Rightarrow> oraise (NotFoundError ''DEPENDENCY_NOT_FOUND'')
        | Some dep \<Rightarrow>
            obind (pt_get (\<lambda>d. project_of (get_task_row (predecessor_task_id dep) d) (get_task_row (successor_task_id dep) d))) (\<lambda>pid.
            obind (if nonempty_project pid then require_project_permission env (the pid) code else oret ()) (\<lambda>_.
              if governed then
                obind (request_change (pe_base env) ''dependency.remove'' ''task_dependency'' i pid (RemoveDependency i) True) (\<lambda>_.
                oraise (BusinessRuleError ''APPROVAL_REQUIRED''))
              else
                obind (try_rollback (
                  obind (pt_update (\<lambda>d. Inr (delete_dependency i d))) (\<lambda>_.
                  obind (commit inv_insert) (\<lambda>_.
                  obind (sync_project_schedule env pid) (\<lambda>_.
                  record_audit inv_insert ''dependency.remove'' ''task_dependency'' i))))) (\<lambda>_.
                if nonempty_project pid then emit ''tasks_changed'' (the pid) else oret ())))))))"

definition list_dependencies_for_task :: "task_env \<Rightarrow> string \<Rightarrow> task_dependency list inv_op" where
  "list_dependencies_for_task env i =
     guarded env (
     obind (task_perm env ''task.read'') (\<lambda>_.
     obind (existing_task i) (\<lambda>t.
     obind (require_project_permission env (t_project_id t) ''task.read'') (\<lambda>_.
     pt_get (list_dependencies_by_task i)))))"

text \<open>
  The handlers \<open>project_management_bundle.py\<close> registers for the governed changes of
  dependencies. The service files a request of either kind with the payload of that kind only.
\<close>

definition project_apply_handlers :: "task_env \<Rightarrow> handlers" where
  "project_apply_handlers env =
     [''dependency.add'' \<mapsto> (\<lambda>request.
        case ap_payload request of
          AddDependency p s ty lag \<Rightarrow> obind (add_dependency env p s ty lag True) (\<lambda>_. oret ())
        | _ \<Rightarrow> oraise KeyError),
      ''dependency.remove'' \<mapsto> (\<lambda>request.
        case ap_payload request of
          RemoveDependency i \<Rightarrow> remove_dependency env i True
        | _ \<Rightarrow> oraise KeyError)]"

end
