(* ===== verification/Task_Assignments.thy ===== *)
theory Task_Assignments
  imports Task_Service
begin

text \<open>
  Assignments of resources to tasks (\<^verbatim>\<open>services/task/assignment.py\<close>,
  \<^verbatim>\<open>services/task/assignment_bridge.py\<close>) with the check for over-allocation
  (\<^verbatim>\<open>services/task/validation.py\<close>). A new assignment starts with no hours logged.
\<close>

section \<open>The repositories\<close>

definition get_assignment_row :: "string \<Rightarrow> project_tables \<Rightarrow> task_assignment option" where
  "get_assignment_row i d = find_row a_id (pt_assignments d) i"

definition list_assignments_by_resource :: "string \<Rightarrow> project_tables \<Rightarrow> task_assignment list" where
  "list_assignments_by_resource rid d = filter (\<lambda>a. a_resource_id a = rid) (pt_assignments d)"

text \<open>\<open>session.merge\<close> of a row that was read before: the row is written over.\<close>

definition update_assignment_row :: "task_assignment \<Rightarrow> project_tables \<Rightarrow> project_tables" where
  "update_assignment_row a d = d\<lparr>pt_assignments := replace_row a_id a (pt_assignments d)\<rparr>"

definition delete_assignment_row :: "string \<Rightarrow> project_tables \<Rightarrow> project_tables" where
  "delete_assignment_row i d = d\<lparr>pt_assignments := filter (\<lambda>a. a_id a \<noteq> i) (pt_assignments d)\<rparr>"

definition list_entries_by_allocation :: "string \<Rightarrow> project_tables \<Rightarrow> time_entry list" where
  "list_entries_by_allocation i d =
     sort_key (\<lambda>e. (te_entry_date e, te_created_at e)) (filter (\<lambda>e. te_work_allocation_id e = i) (pt_time_entries d))"

definition get_resource_row :: "string \<Rightarrow> project_tables \<Rightarrow> resource_row option" where
  "get_resource_row i d = find_row rs_id (pt_resources d) i"

definition get_for_project :: "string \<Rightarrow> string \<Rightarrow> project_tables \<Rightarrow> project_resource option" where
  "get_for_project pid rid d = find (\<lambda>r. pr_project_id r = pid \<and> pr_resource_id r = rid) (pt_project_resources d)"

definition create_assignment_row :: "string \<Rightarrow> string \<Rightarrow> string \<Rightarrow> rat \<Rightarrow> task_assignment" where
  "create_assignment_row new_id tid rid alloc =
     \<lparr>a_id = new_id, a_task_id = tid, a_resource_id = rid, allocation_percent = alloc, hours_logged = 0,
      project_resource_id = None\<rparr>"

section \<open>The check for over-allocation\<close>

text \<open>
  \<open>_iter_workdays\<close>: Monday to Friday between two dates, whatever the working calendar says. The
  loop steps over its last day, which overflows on the last date there is.
\<close>

definition iter_workdays :: "date \<Rightarrow> date \<Rightarrow> date list result" where
  "iter_workdays a b =
     (let s = min a b; e = max a b in
      if e \<ge> DATE_MAX then Inl OverflowError else Inr (filter (\<lambda>d. weekday d < 5) [s..e]))"

text \<open>What the loads of the days are collected in: \<open>daily_total\<close> and \<open>daily_tasks\<close>.\<close>

type_synonym daily_loads = "(date, rat) dict \<times> (date, string list) dict"

definition add_load :: "rat \<Rightarrow> string \<Rightarrow> date list \<Rightarrow> daily_loads \<Rightarrow> daily_loads" where
  "add_load alloc name days = fold (\<lambda>d (totals, names).
     (AList.update d ((case map_of totals d of None \<Rightarrow> 0 | Some x \<Rightarrow> x) + alloc) totals, dict_append d name names)) days"

text \<open>The load of one assignment on the days it shares with the new task.\<close>

definition assignment_load ::
  "project_tables \<Rightarrow> string \<Rightarrow> date \<Rightarrow> date \<Rightarrow> string option \<Rightarrow> task_assignment \<Rightarrow> daily_loads \<Rightarrow> daily_loads result" where
  "assignment_load d pid ns ne excluded a loads =
     (if excluded \<noteq> None \<and> excluded \<noteq> Some [] \<and> Some (a_id a) = excluded then Inr loads
      else (case get_task_row (a_task_id a) d of
              None \<Rightarrow> Inr loads
            | Some t \<Rightarrow>
                if t_project_id t \<noteq> pid then Inr loads
                else (case (t_start_date t, t_end_date t) of
                        (Some ts, Some te) \<Rightarrow>
                          (let os = max ns ts; oe = min ne te in
                           if oe < os \<or> allocation_percent a \<le> 0 then Inr loads
                           else rbind (iter_workdays os oe) (\<lambda>days. Inr (add_load (allocation_percent a) (t_name t) days loads)))
                      | _ \<Rightarrow> Inr loads)))"

record overallocation =
  oa_date :: date
  oa_total :: rat
  oa_capacity :: rat
  oa_tasks :: "string list"
  oa_more :: bool

text \<open>The capacity of a resource in percent; a missing or non-positive one counts as 100.\<close>

definition resource_capacity :: "resource_row option \<Rightarrow> rat" where
  "resource_capacity row =
     (case row of
        None \<Rightarrow> 100
      | Some r \<Rightarrow> (case capacity_percent r of None \<Rightarrow> 100 | Some c \<Rightarrow> if 0 < c then c else 100))"

definition first_overload :: "rat \<Rightarrow> daily_loads \<Rightarrow> overallocation option" where
  "first_overload capacity loads =
     (case find (\<lambda>d. the (map_of (fst loads) d) > capacity + 1 / 10 ^ 9) (sort (map fst (fst loads))) of
        None \<Rightarrow> None
      | Some d \<Rightarrow>
          (let names = dict_get_list (snd loads) d in
           Some \<lparr>oa_date = d, oa_total = the (map_of (fst loads) d), oa_capacity = capacity, oa_tasks = take 6 names,
                 oa_more = 6 < length names\<rparr>))"

definition find_overallocation ::
  "string \<Rightarrow> string \<Rightarrow> string \<Rightarrow> rat \<Rightarrow> string option \<Rightarrow> project_tables \<Rightarrow> overallocation option result" where
  "find_overallocation pid rid tid alloc excluded d =
     (case get_task_row tid d of
        None \<Rightarrow> Inl (NotFoundError ''TASK_NOT_FOUND'')
      | Some new_task \<Rightarrow>
          (case (t_start_date new_task, t_end_date new_task) of
             (Some ns, Some ne) \<Rightarrow>
               (let assigns = list_assignments_by_resource rid d in
                if assigns = [] then Inr None
                else rbind (rfold (assignment_load d pid ns ne excluded) assigns ([], [])) (\<lambda>loads.
                     rbind (iter_workdays ns ne) (\<lambda>days.
                     Inr (first_overload (resource_capacity (get_resource_row rid d)) (add_load alloc (t_name new_task) days loads)))))
           | _ \<Rightarrow> Inr None))"

text \<open>The policy is read once, when the service is built.\<close>

definition strict_allocation :: "task_env \<Rightarrow> bool" where
  "strict_allocation env \<longleftrightarrow>
     py_lower (py_strip (case pe_overallocation_policy env of None \<Rightarrow> ''warn'' | Some p \<Rightarrow> p)) = ''strict''"

definition check_resource_overallocation ::
  "task_env \<Rightarrow> string \<Rightarrow> string \<Rightarrow> string \<Rightarrow> rat \<Rightarrow> string option \<Rightarrow> overallocation option inv_op" where
  "check_resource_overallocation env pid rid tid alloc excluded =
     obind (pt_get (find_overallocation pid rid tid alloc excluded)) (\<lambda>found.
     obind (olift found) (\<lambda>warning.
     obind (oguard (warning \<noteq> None \<and> strict_allocation env) (BusinessRuleError ''RESOURCE_OVERALLOCATED'')) (\<lambda>_.
     oret warning)))"

section \<open>The operations\<close>

definition require_manage :: "task_env \<Rightarrow> string option \<Rightarrow> unit inv_op" where
  "require_manage env pid =
     obind (task_perm env ''task.manage'') (\<lambda>_.
     (case pid of
        None \<Rightarrow> oret ()
      | Some p \<Rightarrow> if p = [] then oret () else require_project_permission env p ''task.manage''))"

definition check_allocation :: "rat \<Rightarrow> unit inv_op" where
  "check_allocation alloc = oguard (alloc \<le> 0 \<or> alloc > 100) ValidationErr"

text \<open>An assignment and its task.\<close>

definition assignment_with_task :: "string \<Rightarrow> (task_assignment \<times> task) inv_op" where
  "assignment_with_task i =
     obind (pt_get (get_assignment_row i)) (\<lambda>row.
       case row of
         None \<Rightarrow> oraise (NotFoundError ''ASSIGNMENT_NOT_FOUND'')
       | Some a \<Rightarrow> obind (existing_task (a_task_id a)) (\<lambda>t. oret (a, t)))"

text \<open>The end of the operations that write one assignment.\<close>

definition save_assignment :: "string \<Rightarrow> task \<Rightarrow> task_assignment \<Rightarrow> task_assignment inv_op" where
  "save_assignment action t a =
     obind (try_rollback (
       obind (pt_update (\<lambda>d. Inr (update_assignment_row a d))) (\<lambda>_.
       obind (commit inv_insert) (\<lambda>_.
       record_audit inv_insert action ''task_assignment'' (a_id a))))) (\<lambda>_.
     obind (emit ''tasks_changed'' (t_project_id t)) (\<lambda>_.
     oret a))"

definition unassign_resource :: "task_env \<Rightarrow> string \<Rightarrow> unit inv_op" where
  "unassign_resource env i =
     guarded env (
     obind (assignment_with_task i) (\<lambda>(a, t).
     obind (require_manage env (Some (t_project_id t))) (\<lambda>_.
     obind (try_rollback (
       obind (pt_update (\<lambda>d. Inr (delete_assignment_row i (delete_time_entries [a_id a] d)))) (\<lambda>_.
       obind (commit inv_insert) (\<lambda>_.
       record_audit inv_insert ''assignment.remove'' ''task_assignment'' (a_id a))))) (\<lambda>_.
     emit ''tasks_changed'' (t_project_id t)))))"

definition set_assignment_hours :: "task_env \<Rightarrow> string \<Rightarrow> rat \<Rightarrow> task_assignment inv_op" where
  "set_assignment_hours env i hours =
     guarded env (
     obind (oguard (hours < 0) ValidationErr) (\<lambda>_.
     obind (pt_get (get_assignment_row i)) (\<lambda>row.
       case row of
         None \<Rightarrow> oraise (NotFoundError ''ASSIGNMENT_NOT_FOUND'')
       | Some a \<Rightarrow>
           obind (pt_get (list_entries_by_allocation i)) (\<lambda>entries.
           obind (oguard (entries \<noteq> []) ValidationErr) (\<lambda>_.
           obind (existing_task (a_task_id a)) (\<lambda>t.
           obind (require_manage env (Some (t_project_id t))) (\<lambda>_.
           save_assignment ''assignment.log_hours'' t (a\<lparr>hours_logged := hours\<rparr>))))))))"

definition set_assignment_allocation :: "task_env \<Rightarrow> string \<Rightarrow> rat \<Rightarrow> task_assignment inv_op" where
  "set_assignment_allocation env i alloc =
     guarded env (
     obind (check_allocation alloc) (\<lambda>_.
     obind (assignment_with_task i) (\<lambda>(a, t).
     obind (require_manage env (Some (t_project_id t))) (\<lambda>_.
     obind (check_resource_overallocation env (t_project_id t) (a_resource_id a) (t_id t) alloc (Some (a_id a))) (\<lambda>_.
     save_assignment ''assignment.set_allocation'' t (a\<lparr>allocation_percent := alloc\<rparr>))))))"

definition assign_project_resource :: "task_env \<Rightarrow> string \<Rightarrow> string \<Rightarrow> rat \<Rightarrow> task_assignment inv_op" where
  "assign_project_resource env tid prid alloc =
     guarded env (
     obind (check_allocation alloc) (\<lambda>_.
     obind (existing_task tid) (\<lambda>t.
     obind (require_manage env (Some (t_project_id t))) (\<lambda>_.
     obind (pt_get (\<lambda>d. find_row pr_id (pt_project_resources d) prid)) (\<lambda>row.
       case row of
         None \<Rightarrow> oraise (NotFoundError ''PROJECT_RESOURCE_NOT_FOUND'')
       | Some pr \<Rightarrow>
           obind (oguard (pr_project_id pr \<noteq> t_project_id t) (BusinessRuleError ''PROJECT_RESOURCE_MISMATCH'')) (\<lambda>_.
           obind (oguard (\<not> pr_is_active pr) (BusinessRuleError ''PROJECT_RESOURCE_INACTIVE'')) (\<lambda>_.
           obind (check_resource_overallocation env (t_project_id t) (pr_resource_id pr) (t_id t) alloc None) (\<lambda>_.
           obind (fresh_uuid (e_uuid (pe_base env))) (\<lambda>new_id.
           (let a = (create_assignment_row new_id tid (pr_resource_id pr) alloc)\<lparr>project_resource_id := Some (pr_id pr)\<rparr> in
            obind (try_rollback (
              obind (pt_add (AssignmentRow a)) (\<lambda>_.
              obind (commit inv_insert) (\<lambda>_.
              record_audit inv_insert ''assignment.add'' ''task_assignment'' (a_id a))))) (\<lambda>_.
            obind (emit ''tasks_changed'' (t_project_id t)) (\<lambda>_.
            oret a))))))))))))"

text \<open>
  \<open>assign_resource\<close>: the service is wired with a repository of project resources, so a resource
  that is not in the project yet is put there first, in a commit of its own.
\<close>

definition enrol_resource :: "task_env \<Rightarrow> string \<Rightarrow> resource_row \<Rightarrow> project_resource inv_op" where
  "enrol_resource env pid r =
     obind (fresh_uuid (e_uuid (pe_base env))) (\<lambda>new_id.
     (let pr = \<lparr>pr_id = new_id, pr_project_id = pid, pr_resource_id = rs_id r, pr_hourly_rate = rs_hourly_rate r,
                pr_currency_code = rs_currency_code r, pr_planned_hours = 0, pr_is_active = rs_is_active r\<rparr> in
      obind (try_rollback (
        obind (pt_add (ProjectResourceRow pr)) (\<lambda>_.
        commit inv_insert))) (\<lambda>_.
      oret pr)))"

definition assign_resource :: "task_env \<Rightarrow> string \<Rightarrow> string \<Rightarrow> rat \<Rightarrow> task_assignment inv_op" where
  "assign_resource env tid rid alloc =
     guarded env (
     obind (require_manage env None) (\<lambda>_.
     obind (check_allocation alloc) (\<lambda>_.
     obind (existing_task tid) (\<lambda>t.
     obind (pt_get (get_resource_row rid)) (\<lambda>row.
       case row of
         None \<Rightarrow> oraise (NotFoundError ''RESOURCE_NOT_FOUND'')
       | Some r \<Rightarrow>
           obind (pt_get (get_for_project (t_project_id t) rid)) (\<lambda>known.
           obind (case known of None \<Rightarrow> enrol_resource env (t_project_id t) r | Some pr \<Rightarrow> oret pr) (\<lambda>pr.
           assign_project_resource env tid (pr_id pr) alloc)))))))"

section \<open>Queries\<close>

definition list_assignments_for_task :: "task_env \<Rightarrow> string \<Rightarrow> task_assignment list inv_op" where
  "list_assignments_for_task env tid =
     guarded env (
     obind (task_perm env ''task.read'') (\<lambda>_.
     obind (existing_task tid) (\<lambda>t.
     obind (require_project_permission env (t_project_id t) ''task.read'') (\<lambda>_.
     pt_get (list_assignments_by_task tid)))))"

definition get_assignment :: "task_env \<Rightarrow> string \<Rightarrow> task_assignment option inv_op" where
  "get_assignment env i =
     guarded env (
     obind (task_perm env ''task.read'') (\<lambda>_.
     obind (pt_get (get_assignment_row i)) (\<lambda>row.
       case row of
         None \<Rightarrow> oret None
       | Some a \<Rightarrow>
           obind (pt_get (get_task_row (a_task_id a))) (\<lambda>trow.
             case trow of
               None \<Rightarrow> oret None
             | Some t \<Rightarrow>
                 obind (require_project_permission env (t_project_id t) ''task.read'') (\<lambda>_.
                 oret (Some a))))))"

end
