(* ===== verification/PM_Dates.thy ===== *)
theory PM_Dates
  imports PM_Prelude
begin

text \<open>
  The calendar arithmetic of \<^verbatim>\<open>datetime.date\<close> the timesheets use: year, month and day
  of an ordinal and back, \<open>replace(day=...)\<close> and the length of a month, after the algorithms of
  the standard library's \<^verbatim>\<open>datetime.py\<close> and \<^verbatim>\<open>calendar.py\<close>; and that the
  two conversions are inverse to each other.
\<close>

section \<open>The conversions\<close>

definition is_leap :: "int \<Rightarrow> bool" where
  "is_leap y \<longleftrightarrow> y mod 4 = 0 \<and> (y mod 100 \<noteq> 0 \<or> y mod 400 = 0)"

definition days_before_year :: "int \<Rightarrow> int" where
  "days_before_year y = (let p = y - 1 in p * 365 + p div 4 - p div 100 + p div 400)"

definition days_in_month :: "int \<Rightarrow> int \<Rightarrow> int" where
  "days_in_month y m =
     (if m = 2 then (if is_leap y then 29 else 28) else if m \<in> {4, 6, 9, 11} then 30 else 31)"

text \<open>The table of the days before a month in a common year, from January on.\<close>

definition DAYS_BEFORE_MONTH :: "int list" where
  "DAYS_BEFORE_MONTH = [0, 31, 59, 90, 120, 151, 181, 212, 243, 273, 304, 334]"

definition days_before_month :: "int \<Rightarrow> int \<Rightarrow> int" where
  "days_before_month y m = DAYS_BEFORE_MONTH ! nat (m - 1) + (if m > 2 \<and> is_leap y then 1 else 0)"

definition ymd2ord :: "int \<Rightarrow> int \<Rightarrow> int \<Rightarrow> date" where
  "ymd2ord y m d = days_before_year y + days_before_month y m + d"

text \<open>
  The month of a day of the year, with an estimate that is at most one too large, and the day in it.
\<close>

definition month_day :: "int \<Rightarrow> bool \<Rightarrow> int \<Rightarrow> int \<times> int" where
  "month_day y leapyear n =
     (let month = (n + 50) div 32;
          preceding = DAYS_BEFORE_MONTH ! nat (month - 1) + (if month > 2 \<and> leapyear then 1 else 0)
      in if preceding > n
         then (month - 1, n - (preceding - (if month - 1 = 2 then (if leapyear then 29 else 28)
                                           else if month - 1 \<in> {4, 6, 9, 11} then 30 else 31)) + 1)
         else (month, n - preceding + 1))"

text \<open>Cycles of 400, 100, 4 years and single years are peeled off in turn.\<close>

definition ord2ymd :: "date \<Rightarrow> int \<times> int \<times> int" where
  "ord2ymd ordinal =
     (let n0 = ordinal - 1;
          n400 = n0 div 146097; r400 = n0 mod 146097;
          n100 = r400 div 36524; r100 = r400 mod 36524;
          n4 = r100 div 1461; r4 = r100 mod 1461;
          n1 = r4 div 365; n = r4 mod 365;
          year = n400 * 400 + 1 + n100 * 100 + n4 * 4 + n1
      in if n1 = 4 \<or> n100 = 4 then (year - 1, 12, 31)
         else (year, month_day year (n1 = 3 \<and> (n4 \<noteq> 24 \<or> n100 = 3)) n))"

definition year_of :: "date \<Rightarrow> int" where "year_of d = fst (ord2ymd d)"
definition month_of :: "date \<Rightarrow> int" where "month_of d = fst (snd (ord2ymd d))"
definition day_of :: "date \<Rightarrow> int" where "day_of d = snd (snd (ord2ymd d))"

text \<open>\<open>d.replace(day=k)\<close>, for a \<open>k\<close> that is a day of the month of \<open>d\<close>.\<close>

definition replace_day :: "date \<Rightarrow> int \<Rightarrow> date" where
  "replace_day d k = ymd2ord (year_of d) (month_of d) k"

section \<open>Days of a year\<close>

text \<open>The day of the year splits into month and day.\<close>

lemma month_range: "(1::int) \<le> m \<Longrightarrow> m \<le> 12 \<Longrightarrow> m \<in> {1, 2, 3, 4, 5, 6, 7, 8, 9, 10, 11, 12}"
  by simp presburger

lemma month_cases [case_names months]:
  assumes "1 \<le> (m::int)" "m \<le> 12"
  obtains "m = 1" | "m = 2" | "m = 3" | "m = 4" | "m = 5" | "m = 6" | "m = 7" | "m = 8" | "m = 9" | "m = 10" | "m = 11" | "m = 12"
  using month_range [OF assms] by auto

lemma month_day_correct:
  assumes n: "0 \<le> n" "n < 365 + (if is_leap y then 1 else 0)"
  shows "case month_day y (is_leap y) n of (m, d) \<Rightarrow>
    1 \<le> m \<and> m \<le> 12 \<and> 1 \<le> d \<and> d \<le> days_in_month y m \<and> days_before_month y m + d = n + 1"
proof -
  let ?m = "(n + 50) div 32"
  have m: "1 \<le> ?m" "?m \<le> 12" using n by (auto split: if_splits)
  have b: "32 * ?m \<le> n + 50" "n + 50 < 32 * ?m + 32" by auto
  from m show ?thesis
    by (cases rule: month_cases)
      (use b n in \<open>auto simp: month_day_def Let_def days_in_month_def days_before_month_def DAYS_BEFORE_MONTH_def split: if_splits\<close>)
qed

section \<open>The year of an ordinal\<close>

text \<open>The years before a year as cycles of 400, 100 and 4 years and single years.\<close>

lemma quotient_rest: "0 \<le> r \<Longrightarrow> r < k \<Longrightarrow> (r + k * q) div k = (q::int) \<and> (r + k * q) mod k = r"
  by simp

lemma full_cycle: "0 < x \<Longrightarrow> x \<le> k \<Longrightarrow> x mod k = 0 \<longleftrightarrow> x = (k::int)"
  by (cases "x = k") simp_all

lemma cycles_before_year:
  assumes "0 \<le> b" "b < 4" "0 \<le> c" "c < 25" "0 \<le> e" "e < (4::int)"
  shows "days_before_year (400 * a + 100 * b + 4 * c + e + 1) = 146097 * a + 36524 * b + 1461 * c + 365 * e"
proof -
  let ?p = "400 * a + 100 * b + 4 * c + e"
  have p: "?p = e + 4 * (100 * a + 25 * b + c)" "?p = (4 * c + e) + 100 * (4 * a + b)" "?p = (100 * b + 4 * c + e) + 400 * a"
    by simp_all
  have "?p div 4 = 100 * a + 25 * b + c" unfolding p(1) by (rule quotient_rest [THEN conjunct1]) (use assms in simp_all)
  moreover have "?p div 100 = 4 * a + b" unfolding p(2) by (rule quotient_rest [THEN conjunct1]) (use assms in simp_all)
  moreover have "?p div 400 = a" unfolding p(3) by (rule quotient_rest [THEN conjunct1]) (use assms in simp_all)
  ultimately show ?thesis unfolding days_before_year_def Let_def add_diff_cancel_right' by simp
qed

lemma leap_period: "is_leap (400 * a + y) = is_leap y"
proof -
  have "(400 * a + y) mod 4 = y mod 4" "(400 * a + y) mod 100 = y mod 100" "(400 * a + y) mod 400 = y mod 400"
    using mod_mult_self2 [of y 4 "100 * a"] mod_mult_self2 [of y 100 "4 * a"] mod_mult_self2 [of y 400 a]
    by (simp_all only: mult.assoc [symmetric] add.commute) simp_all
  then show ?thesis by (simp add: is_leap_def)
qed

lemma cycles_leap:
  assumes "0 \<le> b" "b < 4" "0 \<le> c" "c < 25" "0 \<le> e" "e < (4::int)"
  shows "is_leap (400 * a + (100 * b + 4 * c + e + 1)) \<longleftrightarrow> e = 3 \<and> (c \<noteq> 24 \<or> b = 3)"
proof -
  have "100 * b + 4 * c + e + 1 = (e + 1) + 4 * (25 * b + c)" "100 * b + 4 * c + e + 1 = (4 * c + e + 1) + 100 * b" by simp_all
  then have mods: "(100 * b + 4 * c + e + 1) mod 4 = (e + 1) mod 4" "(100 * b + 4 * c + e + 1) mod 100 = (4 * c + e + 1) mod 100"
    by (metis mod_mult_self2)+
  have "(e + 1) mod 4 = 0 \<longleftrightarrow> e + 1 = 4" "(4 * c + e + 1) mod 100 = 0 \<longleftrightarrow> 4 * c + e + 1 = 100"
    "(100 * b + 4 * c + e + 1) mod 400 = 0 \<longleftrightarrow> 100 * b + 4 * c + e + 1 = 400"
    by (rule full_cycle; use assms in simp)+
  then show ?thesis
    unfolding leap_period unfolding is_leap_def mods using assms by (auto simp only:)
qed

definition valid_ymd :: "int \<Rightarrow> int \<Rightarrow> int \<Rightarrow> bool" where
  "valid_ymd y m d \<longleftrightarrow> 1 \<le> m \<and> m \<le> 12 \<and> 1 \<le> d \<and> d \<le> days_in_month y m"

lemma quotient_bounds:
  assumes "0 \<le> x" "x < q * (p + 1)" "0 < (q::int)"
  shows "0 \<le> x div q \<and> x div q \<le> p"
proof -
  have "q * (x div q) \<le> x" using assms(3) mult_div_mod_eq [of q x] pos_mod_sign [of q x] by linarith
  then have "q * (x div q) < q * (p + 1)" using assms(2) by linarith
  then show ?thesis using assms(1,3) by (simp add: pos_imp_zdiv_nonneg_iff)
qed

lemma ord2ymd_correct:
  assumes "ord2ymd n = (y, m, d)"
  shows "valid_ymd y m d \<and> ymd2ord y m d = n"
proof -
  define a where "a = (n - 1) div 146097"
  define r where "r = (n - 1) mod 146097"
  define b where "b = r div 36524"
  define r1 where "r1 = r mod 36524"
  define c where "c = r1 div 1461"
  define r2 where "r2 = r1 mod 1461"
  define e where "e = r2 div 365"
  define k where "k = r2 mod 365"
  have parts: "n - 1 = 146097 * a + r" "r = 36524 * b + r1" "r1 = 1461 * c + r2" "r2 = 365 * e + k"
    by (simp_all only: a_def r_def b_def r1_def c_def r2_def e_def k_def mult_div_mod_eq)
  from parts have n: "n = 146097 * a + 36524 * b + 1461 * c + 365 * e + k + 1" by linarith
  have r: "0 \<le> r \<and> r < 146097" by (simp add: r_def)
  have r1: "0 \<le> r1 \<and> r1 < 36524" by (simp add: r1_def)
  have r2: "0 \<le> r2 \<and> r2 < 1461" by (simp add: r2_def)
  have k: "0 \<le> k" "k < 365" by (simp_all add: k_def)
  have b: "0 \<le> b" "b \<le> 4" using quotient_bounds [of r 36524 4] r unfolding b_def by simp_all
  have c: "0 \<le> c" "c \<le> 24" using quotient_bounds [of r1 1461 24] r1 unfolding c_def by simp_all
  have e: "0 \<le> e" "e \<le> 4" using quotient_bounds [of r2 365 4] r2 unfolding e_def by simp_all
  let ?year = "400 * a + 1 + b * 100 + c * 4 + e"
  let ?leap = "e = 3 \<and> (c \<noteq> 24 \<or> b = 3)"
  have ymd: "(y, m, d) = (if e = 4 \<or> b = 4 then (?year - 1, 12, 31) else (?year, month_day ?year ?leap k))"
    using assms unfolding ord2ymd_def Let_def a_def b_def c_def e_def k_def r_def r1_def r2_def by (metis mult.commute)
  show ?thesis
  proof (cases "e = 4 \<or> b = 4")
    case False
    then have small: "b < 4" "c < 25" "e < 4" using b c e by auto
    have year: "?year = 400 * a + 100 * b + 4 * c + e + 1" by simp
    have leap: "is_leap ?year \<longleftrightarrow> ?leap"
      using cycles_leap [OF b(1) small(1) c(1) small(2) e(1) small(3), of a] by (simp add: algebra_simps)
    have "case month_day ?year (is_leap ?year) k of (m, d) \<Rightarrow>
        1 \<le> m \<and> m \<le> 12 \<and> 1 \<le> d \<and> d \<le> days_in_month ?year m \<and> days_before_month ?year m + d = k + 1"
      by (rule month_day_correct) (use k in auto)
    then have "1 \<le> m \<and> m \<le> 12 \<and> 1 \<le> d \<and> d \<le> days_in_month y m \<and> days_before_month y m + d = k + 1" "y = ?year"
      using ymd False unfolding leap by auto
    moreover have "days_before_year ?year = 146097 * a + 36524 * b + 1461 * c + 365 * e"
      unfolding year by (rule cycles_before_year) (use b c e small in auto)
    ultimately show ?thesis using n by (simp add: valid_ymd_def ymd2ord_def)
  next
    case True
    then have last: "y = ?year - 1" "m = 12" "d = 31" using ymd by simp_all
    have cycles: "days_before_year (400 * a + 100 * b' + 4 * c' + 3 + 1) = 146097 * a + 36524 * b' + 1461 * c' + 1095"
      "is_leap (400 * a + (100 * b' + 4 * c' + 3 + 1)) \<longleftrightarrow> c' \<noteq> 24 \<or> b' = 3" if "0 \<le> b'" "b' < 4" "0 \<le> c'" "c' < 25" for b' c'
      using cycles_before_year [of b' c' 3 a] cycles_leap [of b' c' 3 a] that by simp_all
    show ?thesis
    proof (cases "b = 4")
      case True
      then have "r1 = 0" using parts(2) r r1 by linarith
      then have "c = 0" "e = 0" "k = 0" by (simp_all add: c_def e_def k_def r2_def)
      then show ?thesis using last True n cycles [of 3 24]
        by (simp add: valid_ymd_def ymd2ord_def days_in_month_def days_before_month_def DAYS_BEFORE_MONTH_def algebra_simps)
    next
      case False
      then have "e = 4" using \<open>e = 4 \<or> b = 4\<close> by simp
      then have "k = 0" "c < 24" using parts(3,4) r1 r2 k(1) c(2) by linarith+
      then show ?thesis using last n cycles [of b c] b c False \<open>e = 4\<close>
        by (simp add: valid_ymd_def ymd2ord_def days_in_month_def days_before_month_def DAYS_BEFORE_MONTH_def algebra_simps)
    qed
  qed
qed


section \<open>The conversions are inverse to each other\<close>

definition year_length :: "int \<Rightarrow> int" where
  "year_length y = 365 + (if is_leap y then 1 else 0)"

lemma div_next: "0 < k \<Longrightarrow> y div k = (y - 1) div k + (if y mod k = 0 then 1 else (0::int))"
proof -
  assume k: "0 < k"
  let ?q = "(y - 1) div k" and ?r = "(y - 1) mod k"
  have y: "y = ?r + 1 + k * ?q" using mult_div_mod_eq [of k "y - 1"] by linarith
  have r: "0 \<le> ?r" "?r < k" using k by simp_all
  show ?thesis
  proof (cases "?r + 1 = k")
    case True
    then have "y = 0 + k * (?q + 1)" using y by (simp add: algebra_simps)
    then have "y div k = ?q + 1" "y mod k = 0" using quotient_rest [of 0 k "?q + 1"] k by auto
    then show ?thesis by simp
  next
    case False
    then have "y div k = ?q" "y mod k = ?r + 1" using quotient_rest [of "?r + 1" k ?q] y r by auto
    then show ?thesis using r by simp
  qed
qed

lemma leap_days_sum: "a' = a + i \<Longrightarrow> b' = b + j \<Longrightarrow> c' = c + k \<Longrightarrow> l = i - j + k \<Longrightarrow>
    y * 365 + a' - b' + c' = (y - 1) * 365 + a - b + c + (365 + (l::int))"
  by simp

lemma days_before_next_year: "days_before_year (y + 1) = days_before_year y + year_length y"
proof -
  have "400 dvd y \<Longrightarrow> 100 dvd y" "100 dvd y \<Longrightarrow> 4 dvd y"
    by (rule dvd_trans [rotated], assumption, simp)+
  then have leap: "(if is_leap y then 1 else 0) =
      (if y mod 4 = 0 then 1 else 0) - (if y mod 100 = 0 then 1 else 0) + (if y mod 400 = 0 then 1 else (0::int))"
    unfolding is_leap_def mod_eq_0_iff_dvd by (cases "4 dvd y"; cases "100 dvd y"; cases "400 dvd y") simp_all
  show ?thesis
    unfolding days_before_year_def year_length_def Let_def add_diff_cancel_right'
    by (rule leap_days_sum [OF div_next div_next div_next leap]) simp_all
qed

lemma days_before_later_year: "y < y' \<Longrightarrow> days_before_year y + year_length y \<le> days_before_year y'"
proof (induction "nat (y' - y)" arbitrary: y')
  case 0
  then show ?case by simp
next
  case (Suc n)
  show ?case
  proof (cases "y' = y + 1")
    case True
    then show ?thesis by (simp add: days_before_next_year)
  next
    case False
    then have "days_before_year y + year_length y \<le> days_before_year (y' - 1)" using Suc by auto
    also have "\<dots> \<le> days_before_year y'"
      using days_before_next_year [of "y' - 1"] by (simp add: year_length_def split: if_splits)
    finally show ?thesis .
  qed
qed

text \<open>The months of a year follow each other without gaps.\<close>

lemma days_before_next_month: "1 \<le> m \<Longrightarrow> m \<le> 12 \<Longrightarrow>
    days_before_month y m + days_in_month y m = (if m = 12 then year_length y else days_before_month y (m + 1))"
  by (erule month_cases, assumption) (hypsubst, simp add: days_before_month_def days_in_month_def DAYS_BEFORE_MONTH_def year_length_def)+

lemma days_before_later_month:
  "1 \<le> m \<Longrightarrow> m < m' \<Longrightarrow> m' \<le> 12 \<Longrightarrow> days_before_month y m + days_in_month y m \<le> days_before_month y m'"
proof (induction "nat (m' - m)" arbitrary: m')
  case 0
  then show ?case by simp
next
  case (Suc n)
  show ?case
  proof (cases "m' = m + 1")
    case True
    then show ?thesis using days_before_next_month [of m y] Suc.prems by simp
  next
    case False
    then have "days_before_month y m + days_in_month y m \<le> days_before_month y (m' - 1)" using Suc by auto
    also have "\<dots> \<le> days_before_month y m'"
      using days_before_next_month [of "m' - 1" y] Suc.prems by (auto simp: days_in_month_def split: if_splits)
    finally show ?thesis .
  qed
qed

lemma day_of_year:
  assumes "valid_ymd y m d"
  shows "1 \<le> days_before_month y m + d \<and> days_before_month y m + d \<le> year_length y"
proof -
  have m: "1 \<le> m" "m \<le> 12" and d: "1 \<le> d" "d \<le> days_in_month y m" using assms by (simp_all add: valid_ymd_def)
  from m show ?thesis
    by (cases rule: month_cases)
      (use d in \<open>auto simp: days_before_month_def days_in_month_def DAYS_BEFORE_MONTH_def year_length_def split: if_splits\<close>)
qed

lemma ymd2ord_less:
  assumes "valid_ymd y m d" "valid_ymd y' m' d'" "y < y' \<or> y = y' \<and> (m < m' \<or> m = m' \<and> d < d')"
  shows "ymd2ord y m d < ymd2ord y' m' d'"
proof -
  consider "y < y'" | "y = y'" "m < m'" | "y = y'" "m = m'" "d < d'" using assms(3) by blast
  then show ?thesis
  proof cases
    case 1
    then show ?thesis
      using days_before_later_year [of y y'] day_of_year [OF assms(1)] day_of_year [OF assms(2)] by (simp add: ymd2ord_def)
  next
    case 2
    then show ?thesis
      using days_before_later_month [of m m' y] assms by (simp add: ymd2ord_def valid_ymd_def)
  qed (simp add: ymd2ord_def)
qed

theorem date_roundtrip:
  "ymd2ord (year_of n) (month_of n) (day_of n) = n"
  "valid_ymd y m d \<Longrightarrow> ord2ymd (ymd2ord y m d) = (y, m, d)"
proof -
  show "ymd2ord (year_of n) (month_of n) (day_of n) = n"
    using ord2ymd_correct [of n] by (cases "ord2ymd n") (simp add: year_of_def month_of_def day_of_def)
  assume valid: "valid_ymd y m d"
  obtain y' m' d' where ymd: "ord2ymd (ymd2ord y m d) = (y', m', d')" by (cases "ord2ymd (ymd2ord y m d)")
  then have "valid_ymd y' m' d'" "ymd2ord y' m' d' = ymd2ord y m d" using ord2ymd_correct by blast+
  then have "\<not> (y < y' \<or> y = y' \<and> (m < m' \<or> m = m' \<and> d < d'))" "\<not> (y' < y \<or> y' = y \<and> (m' < m \<or> m' = m \<and> d' < d))"
    using ymd2ord_less [OF valid, of y' m' d'] ymd2ord_less [OF _ valid, of y' m' d'] by auto
  then have "(y', m', d') = (y, m, d)" by auto
  then show "ord2ymd (ymd2ord y m d) = (y, m, d)" using ymd by simp
qed


section \<open>The months\<close>

lemma valid_year_month_day: "valid_ymd (year_of d) (month_of d) (day_of d)"
  using ord2ymd_correct [of d] by (cases "ord2ymd d") (simp add: year_of_def month_of_def day_of_def)

lemma month_range_of: "1 \<le> month_of d" "month_of d \<le> 12"
  using valid_year_month_day [of d] by (simp_all add: valid_ymd_def)

text \<open>A date lies in a month exactly between its first and its last day.\<close>

lemma in_month_iff:
  assumes "1 \<le> m" "m \<le> 12"
  shows "ymd2ord y m 1 \<le> x \<and> x \<le> ymd2ord y m (days_in_month y m) \<longleftrightarrow> year_of x = y \<and> month_of x = m"
proof
  assume x: "ymd2ord y m 1 \<le> x \<and> x \<le> ymd2ord y m (days_in_month y m)"
  let ?k = "x - ymd2ord y m 0"
  have "valid_ymd y m ?k" using x assms by (simp add: valid_ymd_def ymd2ord_def)
  then have "ord2ymd (ymd2ord y m ?k) = (y, m, ?k)" by (rule date_roundtrip)
  then show "year_of x = y \<and> month_of x = m" by (simp add: ymd2ord_def year_of_def month_of_def)
next
  assume "year_of x = y \<and> month_of x = m"
  then show "ymd2ord y m 1 \<le> x \<and> x \<le> ymd2ord y m (days_in_month y m)"
    using valid_year_month_day [of x] date_roundtrip(1) [of x] by (auto simp: valid_ymd_def ymd2ord_def)
qed

lemma replaced_day_month: "valid_ymd (year_of d) (month_of d) k \<Longrightarrow> year_of (replace_day d k) = year_of d \<and> month_of (replace_day d k) = month_of d"
  using date_roundtrip(2) by (simp add: replace_day_def year_of_def month_of_def)

lemma first_and_last_day:
  "valid_ymd (year_of d) (month_of d) 1" "valid_ymd (year_of d) (month_of d) (days_in_month (year_of d) (month_of d))"
  using month_range_of [of d] by (auto simp: valid_ymd_def days_in_month_def)

text \<open>The first day of a month names it.\<close>

lemma same_first_day: "replace_day d 1 = replace_day x 1 \<longleftrightarrow> year_of d = year_of x \<and> month_of d = month_of x"
  using replaced_day_month [OF first_and_last_day(1)] by (metis replace_day_def)

end
