(* ===== verification/Time_Service.thy ===== *)
theory Time_Service
  imports Task_Assignments PM_Dates
begin

text \<open>
  Time entries and timesheet periods (\<^verbatim>\<open>core/platform/time\<close>), wired as in
  \<^verbatim>\<open>project_management_bundle.py\<close>: the work allocations are the task assignments, the work
  owners the tasks, and every public method is behind the guard of the project-management module.
  Attributes an assignment or a task does not have read as missing.
\<close>

section \<open>Permissions and records\<close>

definition require_any_perm :: "task_env \<Rightarrow> string list \<Rightarrow> unit inv_op" where
  "require_any_perm env codes = olift (fst (require_any_permission (e_now (pe_base env)) codes (e_user (pe_base env))))"

definition require_time_read_permission :: "task_env \<Rightarrow> unit inv_op" where
  "require_time_read_permission env = require_any_perm env [''time.read'', ''task.read'']"

definition require_time_manage_permission :: "task_env \<Rightarrow> unit inv_op" where
  "require_time_manage_permission env = require_any_perm env [''time.manage'', ''task.manage'']"

definition principal_id :: "task_env \<Rightarrow> string option" where
  "principal_id env = (case e_user (pe_base env) of None \<Rightarrow> None | Some us \<Rightarrow> map_option p_user_id (us_principal us))"

definition principal_username :: "task_env \<Rightarrow> string option" where
  "principal_username env = (case e_user (pe_base env) of None \<Rightarrow> None | Some us \<Rightarrow> map_option p_username (us_principal us))"

text \<open>\<open>value.strip() or None\<close>.\<close>

definition text_or_none :: "string \<Rightarrow> string option" where
  "text_or_none s = (if py_strip s = [] then None else Some (py_strip s))"

section \<open>The repositories\<close>

definition get_time_entry_row :: "string \<Rightarrow> project_tables \<Rightarrow> time_entry option" where
  "get_time_entry_row i d = find_row te_id (pt_time_entries d) i"

definition update_time_entry_row :: "time_entry \<Rightarrow> project_tables \<Rightarrow> project_tables" where
  "update_time_entry_row e d = d\<lparr>pt_time_entries := replace_row te_id e (pt_time_entries d)\<rparr>"

definition delete_time_entry_row :: "string \<Rightarrow> project_tables \<Rightarrow> project_tables" where
  "delete_time_entry_row i d = d\<lparr>pt_time_entries := filter (\<lambda>e. te_id e \<noteq> i) (pt_time_entries d)\<rparr>"

definition get_period_row :: "string \<Rightarrow> project_tables \<Rightarrow> timesheet_period option" where
  "get_period_row i d = find_row tp_id (pt_periods d) i"

definition update_period_row :: "timesheet_period \<Rightarrow> project_tables \<Rightarrow> project_tables" where
  "update_period_row p d = d\<lparr>pt_periods := replace_row tp_id p (pt_periods d)\<rparr>"

definition get_by_resource_period :: "string \<Rightarrow> date \<Rightarrow> project_tables \<Rightarrow> timesheet_period option" where
  "get_by_resource_period rid start d = find (\<lambda>p. tp_resource_id p = rid \<and> tp_period_start p = start) (pt_periods d)"

definition list_periods_by_resource :: "string \<Rightarrow> project_tables \<Rightarrow> timesheet_period list" where
  "list_periods_by_resource rid d = sort_key (\<lambda>p. - tp_period_start p) (filter (\<lambda>p. tp_resource_id p = rid) (pt_periods d))"

text \<open>Newest submissions first; a missing instant sorts last in descending order.\<close>

definition list_all_periods :: "timesheet_period_status option \<Rightarrow> nat option \<Rightarrow> project_tables \<Rightarrow> timesheet_period list" where
  "list_all_periods status limit d =
     (let rows = filter (\<lambda>p. case status of None \<Rightarrow> True | Some st \<Rightarrow> tp_status p = st) (pt_periods d);
          sorted = sort_key (\<lambda>p. ((case tp_submitted_at p of None \<Rightarrow> (1::int, 0) | Some x \<Rightarrow> (0, - x)), - tp_period_start p)) rows
      in (case limit of None \<Rightarrow> sorted | Some n \<Rightarrow> take n sorted))"

section \<open>The context of an entry\<close>

definition resolve_work_owner_type :: "task_assignment \<Rightarrow> string" where
  "resolve_work_owner_type a = (if py_strip (a_task_id a) \<noteq> [] then ''task_assignment'' else ''work_allocation'')"

definition resolve_work_owner_id :: "task_assignment \<Rightarrow> string option" where
  "resolve_work_owner_id a =
     (if resolve_work_owner_type a = ''task_assignment'' \<and> py_strip (a_id a) \<noteq> [] then Some (py_strip (a_id a))
      else if py_strip (a_task_id a) \<noteq> [] then Some (py_strip (a_task_id a))
      else text_or_none (a_id a))"

definition resolve_work_owner_record_id :: "task_assignment \<Rightarrow> string option" where
  "resolve_work_owner_record_id a = text_or_none (a_task_id a)"

definition resolve_work_owner_label :: "task_assignment \<Rightarrow> task option \<Rightarrow> string" where
  "resolve_work_owner_label a owner_row =
     (case owner_row of
        Some t \<Rightarrow> if py_strip (t_name t) \<noteq> [] then py_strip (t_name t)
                  else (case resolve_work_owner_id a of Some i \<Rightarrow> i | None \<Rightarrow> py_strip (a_id a))
      | None \<Rightarrow> (case resolve_work_owner_id a of Some i \<Rightarrow> i | None \<Rightarrow> py_strip (a_id a)))"

text \<open>A task is in the scope of its project.\<close>

definition resolve_work_scope_id :: "task option \<Rightarrow> string option" where
  "resolve_work_scope_id owner_row = (case owner_row of None \<Rightarrow> None | Some t \<Rightarrow> text_or_none (t_project_id t))"

definition resolve_work_scope_type :: "task option \<Rightarrow> string option" where
  "resolve_work_scope_type owner_row = map_option (\<lambda>_. ''project'') (resolve_work_scope_id owner_row)"

definition legacy_assignment_id :: "task_assignment \<Rightarrow> string option" where
  "legacy_assignment_id a = (if resolve_work_owner_type a \<noteq> ''task_assignment'' then None else text_or_none (a_id a))"

definition load_work_owner :: "task_assignment \<Rightarrow> project_tables \<Rightarrow> task option" where
  "load_work_owner a d = (case resolve_work_owner_record_id a of None \<Rightarrow> None | Some i \<Rightarrow> get_task_row i d)"

text \<open>The employee a resource stands for, as far as the entry records it.\<close>

record entry_context =
  xc_owner_type :: string
  xc_owner_id :: "string option"
  xc_owner_label :: string
  xc_scope_type :: "string option"
  xc_scope_id :: "string option"
  xc_employee_id :: "string option"
  xc_department_id :: "string option"
  xc_department_name :: string
  xc_site_id :: "string option"
  xc_site_name :: string

definition resolve_work_entry_context ::
  "task_assignment \<Rightarrow> task option \<Rightarrow> resource_row option \<Rightarrow> project_tables \<Rightarrow> entry_context" where
  "resolve_work_entry_context a owner_row resource d =
     (let employee_id = (case resource of None \<Rightarrow> None | Some r \<Rightarrow> rs_employee_id r);
          employee = (case employee_id of None \<Rightarrow> None | Some i \<Rightarrow> if i = [] then None else find_row em_id (pt_employees d) i)
      in \<lparr>xc_owner_type = resolve_work_owner_type a, xc_owner_id = resolve_work_owner_id a,
          xc_owner_label = resolve_work_owner_label a owner_row, xc_scope_type = resolve_work_scope_type owner_row,
          xc_scope_id = resolve_work_scope_id owner_row, xc_employee_id = employee_id,
          xc_department_id = (case employee of None \<Rightarrow> None | Some e \<Rightarrow> em_department_id e),
          xc_department_name = (case employee of None \<Rightarrow> [] | Some e \<Rightarrow> py_strip (em_department e)),
          xc_site_id = (case employee of None \<Rightarrow> None | Some e \<Rightarrow> em_site_id e),
          xc_site_name = (case employee of None \<Rightarrow> [] | Some e \<Rightarrow> py_strip (em_site_name e))\<rparr>)"

text \<open>\<open>TimeEntry.create\<close>.\<close>

definition create_time_entry ::
  "string \<Rightarrow> datetime \<Rightarrow> string \<Rightarrow> string option \<Rightarrow> date \<Rightarrow> rat \<Rightarrow> string \<Rightarrow> string option \<Rightarrow> string option \<Rightarrow>
   entry_context \<Rightarrow> time_entry" where
  "create_time_entry new_id now allocation_id assignment_id day hours note user_id username c =
     (let allocation = py_strip allocation_id;
          owner_type = (if py_strip (xc_owner_type c) = [] then ''work_allocation'' else py_strip (xc_owner_type c));
          assignment = (case text_or_none (case assignment_id of None \<Rightarrow> [] | Some x \<Rightarrow> x) of
                          Some x \<Rightarrow> Some x
                        | None \<Rightarrow> if owner_type = ''task_assignment'' then Some allocation else None)
      in \<lparr>te_id = new_id, te_work_allocation_id = allocation, te_assignment_id = assignment, te_entry_date = day,
          te_hours = hours, te_note = note, te_author_user_id = user_id, te_author_username = username,
          te_created_at = now, te_updated_at = now, te_owner_type = owner_type,
          te_owner_id = (case xc_owner_id c of
                           Some x \<Rightarrow> if x \<noteq> [] then Some x
                                     else (case assignment of Some y \<Rightarrow> if y \<noteq> [] then Some y else Some allocation | None \<Rightarrow> Some allocation)
                         | None \<Rightarrow> (case assignment of Some y \<Rightarrow> if y \<noteq> [] then Some y else Some allocation | None \<Rightarrow> Some allocation)),
          te_owner_label = py_strip (xc_owner_label c),
          te_scope_type = text_or_none (case xc_scope_type c of None \<Rightarrow> [] | Some x \<Rightarrow> x),
          te_scope_id = text_or_none (case xc_scope_id c of None \<Rightarrow> [] | Some x \<Rightarrow> x),
          te_employee_id = xc_employee_id c, te_department_id = xc_department_id c,
          te_department_name = py_strip (xc_department_name c), te_site_id = xc_site_id c, te_site_name = py_strip (xc_site_name c)\<rparr>)"

section \<open>Periods\<close>

text \<open>A period is the month a date lies in.\<close>

definition timesheet_period_bounds :: "date \<Rightarrow> date \<times> date" where
  "timesheet_period_bounds day =
     (let start = replace_day day 1;
          last_day = days_in_month (year_of start) (month_of start)
      in (start, replace_day start last_day))"

definition lookup_timesheet_period :: "string \<Rightarrow> date \<Rightarrow> project_tables \<Rightarrow> timesheet_period option" where
  "lookup_timesheet_period rid day d = get_by_resource_period rid (fst (timesheet_period_bounds day)) d"

definition frozen_status :: "timesheet_period_status \<Rightarrow> bool" where
  "frozen_status st \<longleftrightarrow> st \<in> {TP_SUBMITTED, TP_APPROVED, TP_LOCKED}"

definition ensure_timesheet_period_editable :: "string \<Rightarrow> date \<Rightarrow> unit inv_op" where
  "ensure_timesheet_period_editable rid day =
     obind (pt_get (lookup_timesheet_period rid day)) (\<lambda>row.
     oguard (case row of None \<Rightarrow> False | Some p \<Rightarrow> frozen_status (tp_status p)) ValidationErr)"

definition create_timesheet_period :: "string \<Rightarrow> string \<Rightarrow> date \<Rightarrow> date \<Rightarrow> timesheet_period" where
  "create_timesheet_period new_id rid start final =
     \<lparr>tp_id = new_id, tp_resource_id = rid, tp_period_start = start, tp_period_end = final, tp_status = TP_OPEN,
      tp_submitted_at = None, tp_submitted_by_user_id = None, tp_submitted_by_username = None, tp_decided_at = None,
      tp_decided_by_user_id = None, tp_decided_by_username = None, tp_decision_note = None, tp_locked_at = None\<rparr>"

definition get_or_create_timesheet_period :: "task_env \<Rightarrow> string \<Rightarrow> date \<Rightarrow> timesheet_period inv_op" where
  "get_or_create_timesheet_period env rid day =
     obind (pt_get (lookup_timesheet_period rid day)) (\<lambda>row.
       case row of
         Some p \<Rightarrow> oret p
       | None \<Rightarrow>
           obind (fresh_uuid (e_uuid (pe_base env))) (\<lambda>new_id.
           (let p = create_timesheet_period new_id rid (fst (timesheet_period_bounds day)) (snd (timesheet_period_bounds day)) in
            obind (pt_add (PeriodRow p)) (\<lambda>_.
            obind (session_flush inv_insert) (\<lambda>_.
            oret p)))))"

definition require_timesheet_period :: "string \<Rightarrow> timesheet_period inv_op" where
  "require_timesheet_period i =
     obind (pt_get (get_period_row i)) (\<lambda>row.
       case row of None \<Rightarrow> oraise (NotFoundError ''TIMESHEET_PERIOD_NOT_FOUND'') | Some p \<Rightarrow> oret p)"

text \<open>The entries of a resource in the month of a date.\<close>

definition resource_period_entries :: "string \<Rightarrow> date \<Rightarrow> project_tables \<Rightarrow> time_entry list" where
  "resource_period_entries rid day d =
     (let (start, final) = timesheet_period_bounds day in
      sort_key (\<lambda>e. (te_entry_date e, te_created_at e))
        (concat (map (\<lambda>a. filter (\<lambda>e. start \<le> te_entry_date e \<and> te_entry_date e \<le> final) (list_entries_by_allocation (a_id a) d))
           (list_assignments_by_resource rid d))))"

definition list_time_entries_for_resource_period :: "task_env \<Rightarrow> string \<Rightarrow> date \<Rightarrow> time_entry list inv_op" where
  "list_time_entries_for_resource_period env rid day =
     guarded env (obind (require_time_read_permission env) (\<lambda>_. pt_get (resource_period_entries rid day)))"

section \<open>The projects of entries\<close>

definition resolve_entry_project_id :: "time_entry option \<Rightarrow> (task_assignment \<times> task option) option \<Rightarrow> project_tables \<Rightarrow> string option" where
  "resolve_entry_project_id entry context d =
     (case (case entry of
              None \<Rightarrow> None
            | Some e \<Rightarrow> if te_scope_type e = Some ''project'' then (case te_scope_id e of None \<Rightarrow> None | Some x \<Rightarrow> text_or_none x) else None) of
        Some pid \<Rightarrow> Some pid
      | None \<Rightarrow>
          (case (case context of None \<Rightarrow> None | Some (a, owner_row) \<Rightarrow> resolve_work_scope_id owner_row) of
             Some pid \<Rightarrow> Some pid
           | None \<Rightarrow>
               (case entry of
                  None \<Rightarrow> None
                | Some e \<Rightarrow>
                    (let i = (if py_strip (te_work_allocation_id e) \<noteq> [] then py_strip (te_work_allocation_id e)
                              else py_strip (case te_assignment_id e of None \<Rightarrow> [] | Some x \<Rightarrow> x)) in
                     if i = [] then None
                     else (case get_assignment_row i d of
                             None \<Rightarrow> None
                           | Some a \<Rightarrow> resolve_work_scope_id (load_work_owner a d))))))"

definition project_ids_for_entries :: "time_entry list \<Rightarrow> project_tables \<Rightarrow> string list" where
  "project_ids_for_entries entries d =
     sort (remdups (List.map_filter (\<lambda>e. case resolve_entry_project_id (Some e) None d of
        None \<Rightarrow> None | Some pid \<Rightarrow> if pid = [] then None else Some pid) entries))"

definition emit_timesheet_period_events :: "string \<Rightarrow> string list \<Rightarrow> unit inv_op" where
  "emit_timesheet_period_events pid project_ids =
     obind (emit ''timesheet_periods_changed'' pid) (\<lambda>_.
     ofor (emit ''tasks_changed'') project_ids)"

definition emit_if_project :: "string option \<Rightarrow> unit inv_op" where
  "emit_if_project pid =
     (case pid of None \<Rightarrow> oret () | Some p \<Rightarrow> if p = [] then oret () else emit ''tasks_changed'' p)"

end
