(* ===== verification/Time_Operations.thy ===== *)
theory Time_Operations
  imports Time_Service
begin

text \<open>
  The operations of the time service: entries (\<^verbatim>\<open>core/platform/time/entries.py\<close>),
  periods (\<^verbatim>\<open>periods.py\<close>), queries (\<^verbatim>\<open>query.py\<close>) and the review lists
  (\<^verbatim>\<open>review.py\<close>). The details of audit entries are left out.
\<close>

section \<open>Entries\<close>

text \<open>A work allocation with its owner and its resource.\<close>

definition load_work_allocation_context :: "string \<Rightarrow> (task_assignment \<times> task option \<times> resource_row option) inv_op" where
  "load_work_allocation_context i =
     obind (pt_get (get_assignment_row i)) (\<lambda>row.
       case row of
         None \<Rightarrow> oraise (NotFoundError ''WORK_ALLOCATION_NOT_FOUND'')
       | Some a \<Rightarrow>
           obind (pt_get (load_work_owner a)) (\<lambda>owner_row.
           obind (oguard (resolve_work_owner_record_id a \<noteq> None \<and> owner_row = None) (NotFoundError ''WORK_OWNER_NOT_FOUND'')) (\<lambda>_.
           obind (pt_get (get_resource_row (a_resource_id a))) (\<lambda>resource.
           oret (a, owner_row, resource)))))"

definition sync_work_allocation_hours :: "string \<Rightarrow> unit inv_op" where
  "sync_work_allocation_hours i =
     obind (pt_get (get_assignment_row i)) (\<lambda>row.
       case row of
         None \<Rightarrow> oraise (NotFoundError ''WORK_ALLOCATION_NOT_FOUND'')
       | Some a \<Rightarrow>
           obind (pt_get (list_entries_by_allocation i)) (\<lambda>entries.
           pt_update (\<lambda>d. Inr (update_assignment_row (a\<lparr>hours_logged := sum_list (map te_hours entries)\<rparr>) d))))"

definition resolve_legacy_time_entry_date :: "task_env \<Rightarrow> task option \<Rightarrow> date" where
  "resolve_legacy_time_entry_date env owner_row =
     (case owner_row of
        None \<Rightarrow> pe_today env
      | Some t \<Rightarrow> (case t_actual_start t of
                     Some x \<Rightarrow> x
                   | None \<Rightarrow> (case t_start_date t of Some x \<Rightarrow> x | None \<Rightarrow> pe_today env)))"

text \<open>
  Hours that were logged on the assignment before it had entries become its first entry.
\<close>

definition seed_legacy_hours_entry ::
  "task_env \<Rightarrow> task_assignment \<Rightarrow> task option \<Rightarrow> resource_row option \<Rightarrow> time_entry option inv_op" where
  "seed_legacy_hours_entry env a owner_row resource =
     obind (pt_get (list_entries_by_allocation (a_id a))) (\<lambda>entries.
     if entries \<noteq> [] \<or> hours_logged a \<le> 0 then oret None
     else (let day = resolve_legacy_time_entry_date env owner_row in
       obind (ensure_timesheet_period_editable (a_resource_id a) day) (\<lambda>_.
       obind (pt_get (resolve_work_entry_context a owner_row resource)) (\<lambda>context.
       obind (fresh_uuid (e_uuid (pe_base env))) (\<lambda>new_id.
       (let e = create_time_entry new_id (e_now (pe_base env)) (a_id a) (legacy_assignment_id a) day (hours_logged a)
                  ''Opening balance migrated from existing logged hours.'' None (Some ''system'') context in
        obind (pt_add (TimeEntryRow e)) (\<lambda>_.
        obind (session_flush inv_insert) (\<lambda>_.
        obind (sync_work_allocation_hours (a_id a)) (\<lambda>_.
        oret (Some e))))))))))"

definition audit_seeded :: "time_entry option \<Rightarrow> unit inv_op" where
  "audit_seeded seeded =
     (case seeded of
        None \<Rightarrow> oret ()
      | Some e \<Rightarrow> record_audit inv_insert ''time_entry.bootstrap_legacy_hours'' ''time_entry'' (te_id e))"

definition initialize_timesheet :: "task_env \<Rightarrow> string \<Rightarrow> time_entry list inv_op" where
  "initialize_timesheet env i =
     guarded env (
     obind (require_time_manage_permission env) (\<lambda>_.
     obind (load_work_allocation_context i) (\<lambda>(a, owner_row, resource).
     obind (try_rollback (
       obind (seed_legacy_hours_entry env a owner_row resource) (\<lambda>seeded.
       obind (if seeded = None then oret () else commit inv_insert) (\<lambda>_.
       oret seeded)))) (\<lambda>seeded.
     obind (audit_seeded seeded) (\<lambda>_.
     pt_get (list_entries_by_allocation i))))))"

definition validate_time_entry_hours :: "rat \<Rightarrow> unit inv_op" where
  "validate_time_entry_hours hours = oguard (hours \<le> 0) ValidationErr"

definition add_work_entry :: "task_env \<Rightarrow> string \<Rightarrow> date \<Rightarrow> rat \<Rightarrow> string \<Rightarrow> time_entry inv_op" where
  "add_work_entry env i day hours note =
     guarded env (
     obind (require_time_manage_permission env) (\<lambda>_.
     obind (load_work_allocation_context i) (\<lambda>(a, owner_row, resource).
     obind (ensure_timesheet_period_editable (a_resource_id a) day) (\<lambda>_.
     obind (validate_time_entry_hours hours) (\<lambda>_.
     obind (pt_get (resolve_work_entry_context a owner_row resource)) (\<lambda>context.
     obind (fresh_uuid (e_uuid (pe_base env))) (\<lambda>new_id.
     (let e = create_time_entry new_id (e_now (pe_base env)) (a_id a) (legacy_assignment_id a) day hours (py_strip note)
                (principal_id env) (principal_username env) context in
      obind (try_rollback (
        obind (seed_legacy_hours_entry env a owner_row resource) (\<lambda>seeded.
        obind (pt_add (TimeEntryRow e)) (\<lambda>_.
        obind (session_flush inv_insert) (\<lambda>_.
        obind (sync_work_allocation_hours (a_id a)) (\<lambda>_.
        obind (commit inv_insert) (\<lambda>_.
        obind (audit_seeded seeded) (\<lambda>_.
        record_audit inv_insert ''time_entry.add'' ''time_entry'' (te_id e))))))))) (\<lambda>_.
      obind (pt_get (resolve_entry_project_id None (Some (a, owner_row)))) (\<lambda>project_id.
      obind (emit_if_project project_id) (\<lambda>_.
      oret e)))))))))))"

definition require_time_entry :: "string \<Rightarrow> time_entry inv_op" where
  "require_time_entry i =
     obind (pt_get (get_time_entry_row i)) (\<lambda>row.
       case row of None \<Rightarrow> oraise (NotFoundError ''TIME_ENTRY_NOT_FOUND'') | Some e \<Rightarrow> oret e)"

text \<open>The assignments to the entry object; only the checked hours can raise.\<close>

definition changed_entry :: "datetime \<Rightarrow> date option \<Rightarrow> rat option \<Rightarrow> string option \<Rightarrow> time_entry \<Rightarrow> time_entry" where
  "changed_entry now day hours note e =
     (given note (\<lambda>x e. e\<lparr>te_note := py_strip x\<rparr>)
       (given hours (\<lambda>x e. e\<lparr>te_hours := x\<rparr>)
         (given day (\<lambda>x e. e\<lparr>te_entry_date := x\<rparr>) e)))\<lparr>te_updated_at := now\<rparr>"

text \<open>The end of the operations that change or delete an entry: the hours follow, then the commit.\<close>

definition save_entries ::
  "string \<Rightarrow> (project_tables \<Rightarrow> project_tables) \<Rightarrow> time_entry \<Rightarrow> task_assignment \<Rightarrow> task option \<Rightarrow> unit inv_op" where
  "save_entries action write e a owner_row =
     obind (try_rollback (
       obind (pt_update (\<lambda>d. Inr (write d))) (\<lambda>_.
       obind (session_flush inv_insert) (\<lambda>_.
       obind (sync_work_allocation_hours (te_work_allocation_id e)) (\<lambda>_.
       obind (commit inv_insert) (\<lambda>_.
       record_audit inv_insert action ''time_entry'' (te_id e))))))) (\<lambda>_.
     obind (pt_get (resolve_entry_project_id (Some e) (Some (a, owner_row)))) (\<lambda>project_id.
     emit_if_project project_id))"

definition update_time_entry :: "task_env \<Rightarrow> string \<Rightarrow> date option \<Rightarrow> rat option \<Rightarrow> string option \<Rightarrow> time_entry inv_op" where
  "update_time_entry env i day hours note =
     guarded env (
     obind (require_time_manage_permission env) (\<lambda>_.
     obind (require_time_entry i) (\<lambda>e.
     obind (load_work_allocation_context (te_work_allocation_id e)) (\<lambda>(a, owner_row, resource).
     obind (ensure_timesheet_period_editable (a_resource_id a) (te_entry_date e)) (\<lambda>_.
     (let target = (case day of None \<Rightarrow> te_entry_date e | Some x \<Rightarrow> x) in
      obind (if target \<noteq> te_entry_date e then ensure_timesheet_period_editable (a_resource_id a) target else oret ()) (\<lambda>_.
      obind (case hours of None \<Rightarrow> oret () | Some h \<Rightarrow> validate_time_entry_hours h) (\<lambda>_.
      (let e' = changed_entry (e_now (pe_base env)) day hours note e in
       obind (save_entries ''time_entry.update'' (update_time_entry_row e') e' a owner_row) (\<lambda>_.
       oret e'))))))))))"

definition delete_time_entry :: "task_env \<Rightarrow> string \<Rightarrow> unit inv_op" where
  "delete_time_entry env i =
     guarded env (
     obind (require_time_manage_permission env) (\<lambda>_.
     obind (require_time_entry i) (\<lambda>e.
     obind (load_work_allocation_context (te_work_allocation_id e)) (\<lambda>(a, owner_row, resource).
     obind (ensure_timesheet_period_editable (a_resource_id a) (te_entry_date e)) (\<lambda>_.
     save_entries ''time_entry.delete'' (delete_time_entry_row (te_id e)) e a owner_row)))))"

section \<open>Periods\<close>

text \<open>The note of a decision, \<open>(note or "").strip() or None\<close>.\<close>

definition with_submission :: "task_env \<Rightarrow> string \<Rightarrow> timesheet_period \<Rightarrow> timesheet_period" where
  "with_submission env note p =
     p\<lparr>tp_status := TP_SUBMITTED, tp_submitted_at := Some (e_now (pe_base env)), tp_submitted_by_user_id := principal_id env,
       tp_submitted_by_username := principal_username env, tp_decided_at := None, tp_decided_by_user_id := None,
       tp_decided_by_username := None, tp_decision_note := text_or_none note, tp_locked_at := None\<rparr>"

definition with_decision :: "task_env \<Rightarrow> timesheet_period_status \<Rightarrow> string \<Rightarrow> timesheet_period \<Rightarrow> timesheet_period" where
  "with_decision env status note p =
     p\<lparr>tp_status := status, tp_decided_at := Some (e_now (pe_base env)), tp_decided_by_user_id := principal_id env,
       tp_decided_by_username := principal_username env, tp_decision_note := text_or_none note,
       tp_locked_at := (if status = TP_APPROVED then Some (e_now (pe_base env)) else None)\<rparr>"

definition announce_period :: "string \<Rightarrow> timesheet_period \<Rightarrow> time_entry list \<Rightarrow> unit inv_op" where
  "announce_period action p entries =
     obind (pt_get (project_ids_for_entries entries)) (\<lambda>project_ids.
     obind (record_audit inv_insert action ''timesheet_period'' (tp_id p)) (\<lambda>_.
     emit_timesheet_period_events (tp_id p) project_ids))"

definition write_period :: "timesheet_period \<Rightarrow> unit inv_op" where
  "write_period p = obind (pt_update (\<lambda>d. Inr (update_period_row p d))) (\<lambda>_. commit inv_insert)"

definition submit_timesheet_period :: "task_env \<Rightarrow> string \<Rightarrow> date \<Rightarrow> string \<Rightarrow> timesheet_period inv_op" where
  "submit_timesheet_period env rid day note =
     guarded env (
     obind (task_perm env ''timesheet.submit'') (\<lambda>_.
     obind (list_time_entries_for_resource_period env rid day) (\<lambda>entries.
     obind (oguard (entries = []) ValidationErr) (\<lambda>_.
     obind (get_or_create_timesheet_period env rid day) (\<lambda>p.
     obind (oguard (frozen_status (tp_status p)) ValidationErr) (\<lambda>_.
     (let p' = with_submission env note p in
      obind (write_period p') (\<lambda>_.
      obind (announce_period ''timesheet_period.submit'' p' entries) (\<lambda>_.
      oret p')))))))))"

text \<open>\<open>approve_timesheet_period\<close> and \<open>reject_timesheet_period\<close> differ in the status only.\<close>

definition decide_timesheet_period :: "task_env \<Rightarrow> timesheet_period_status \<Rightarrow> string \<Rightarrow> string \<Rightarrow> string \<Rightarrow> timesheet_period inv_op" where
  "decide_timesheet_period env status action i note =
     guarded env (
     obind (task_perm env ''timesheet.approve'') (\<lambda>_.
     obind (require_timesheet_period i) (\<lambda>p.
     obind (oguard (tp_status p \<noteq> TP_SUBMITTED) ValidationErr) (\<lambda>_.
     obind (list_time_entries_for_resource_period env (tp_resource_id p) (tp_period_start p)) (\<lambda>entries.
     (let p' = with_decision env status note p in
      obind (write_period p') (\<lambda>_.
      obind (announce_period action p' entries) (\<lambda>_.
      oret p'))))))))"

definition approve_timesheet_period :: "task_env \<Rightarrow> string \<Rightarrow> string \<Rightarrow> timesheet_period inv_op" where
  "approve_timesheet_period env = decide_timesheet_period env TP_APPROVED ''timesheet_period.approve''"

definition reject_timesheet_period :: "task_env \<Rightarrow> string \<Rightarrow> string \<Rightarrow> timesheet_period inv_op" where
  "reject_timesheet_period env = decide_timesheet_period env TP_REJECTED ''timesheet_period.reject''"

definition lock_timesheet_period :: "task_env \<Rightarrow> string \<Rightarrow> date \<Rightarrow> string \<Rightarrow> timesheet_period inv_op" where
  "lock_timesheet_period env rid day note =
     guarded env (
     obind (task_perm env ''timesheet.lock'') (\<lambda>_.
     obind (get_or_create_timesheet_period env rid day) (\<lambda>p.
     obind (oguard (tp_status p = TP_APPROVED) ValidationErr) (\<lambda>_.
     (let p' = p\<lparr>tp_status := TP_LOCKED, tp_locked_at := Some (e_now (pe_base env)), tp_decision_note := text_or_none note\<rparr> in
      obind (write_period p') (\<lambda>_.
      obind (list_time_entries_for_resource_period env rid (tp_period_start p')) (\<lambda>entries.
      obind (announce_period ''timesheet_period.lock'' p' entries) (\<lambda>_.
      oret p'))))))))"

definition unlock_timesheet_period :: "task_env \<Rightarrow> string \<Rightarrow> string \<Rightarrow> timesheet_period inv_op" where
  "unlock_timesheet_period env i note =
     guarded env (
     obind (task_perm env ''timesheet.lock'') (\<lambda>_.
     obind (require_timesheet_period i) (\<lambda>p.
     obind (oguard (tp_status p \<noteq> TP_LOCKED) ValidationErr) (\<lambda>_.
     obind (list_time_entries_for_resource_period env (tp_resource_id p) (tp_period_start p)) (\<lambda>entries.
     (let p' = p\<lparr>tp_status := TP_OPEN, tp_locked_at := None, tp_decision_note := text_or_none note\<rparr> in
      obind (write_period p') (\<lambda>_.
      obind (announce_period ''timesheet_period.unlock'' p' entries) (\<lambda>_.
      oret p'))))))))"

section \<open>Queries and reviews\<close>

definition list_time_entries_for_work_allocation :: "task_env \<Rightarrow> string \<Rightarrow> time_entry list inv_op" where
  "list_time_entries_for_work_allocation env i =
     guarded env (
     obind (require_time_read_permission env) (\<lambda>_.
     obind (pt_get (get_assignment_row i)) (\<lambda>row.
     obind (oguard (row = None) (NotFoundError ''WORK_ALLOCATION_NOT_FOUND'')) (\<lambda>_.
     pt_get (list_entries_by_allocation i)))))"

definition list_time_entries_for_work_allocation_period :: "task_env \<Rightarrow> string \<Rightarrow> date \<Rightarrow> time_entry list inv_op" where
  "list_time_entries_for_work_allocation_period env i day =
     guarded env (
     obind (require_time_read_permission env) (\<lambda>_.
     obind (list_time_entries_for_work_allocation env i) (\<lambda>entries.
     oret (filter (\<lambda>e. fst (timesheet_period_bounds day) \<le> te_entry_date e \<and> te_entry_date e \<le> snd (timesheet_period_bounds day)) entries))))"

definition get_time_entry :: "task_env \<Rightarrow> string \<Rightarrow> time_entry inv_op" where
  "get_time_entry env i = guarded env (obind (require_time_read_permission env) (\<lambda>_. require_time_entry i))"

definition get_timesheet_period :: "task_env \<Rightarrow> string \<Rightarrow> date \<Rightarrow> timesheet_period option inv_op" where
  "get_timesheet_period env rid day =
     guarded env (obind (require_time_read_permission env) (\<lambda>_. pt_get (lookup_timesheet_period rid day)))"

definition list_timesheet_periods_for_resource :: "task_env \<Rightarrow> string \<Rightarrow> timesheet_period list inv_op" where
  "list_timesheet_periods_for_resource env rid =
     guarded env (obind (require_time_read_permission env) (\<lambda>_. pt_get (list_periods_by_resource rid)))"

record review_item =
  rq_period :: timesheet_period
  rq_resource_name :: string
  rq_entry_count :: nat
  rq_total_hours :: rat
  rq_project_ids :: "string list"

definition build_review_queue_item :: "timesheet_period \<Rightarrow> time_entry list \<Rightarrow> project_tables \<Rightarrow> review_item" where
  "build_review_queue_item p rows d =
     \<lparr>rq_period = p,
      rq_resource_name = (case get_resource_row (tp_resource_id p) d of None \<Rightarrow> tp_resource_id p | Some r \<Rightarrow> rs_name r),
      rq_entry_count = length rows, rq_total_hours = sum_list (map te_hours rows),
      rq_project_ids = project_ids_for_entries rows d\<rparr>"

record review_entry =
  re_entry :: time_entry
  re_task_id :: "string option"
  re_task_name :: string
  re_project_id :: "string option"

definition build_review_entries :: "time_entry list \<Rightarrow> project_tables \<Rightarrow> review_entry list" where
  "build_review_entries entries d =
     sort_key (\<lambda>x. (te_entry_date (re_entry x), py_lower (re_task_name x), te_id (re_entry x)))
       (map (\<lambda>e.
          let task_id = (if te_owner_type e = ''task_assignment'' then te_owner_id e else None) in
          \<lparr>re_entry = e, re_task_id = task_id,
           re_task_name = (if te_owner_label e \<noteq> [] then te_owner_label e
                           else (case task_id of Some i \<Rightarrow> if i \<noteq> [] then i else te_work_allocation_id e
                                               | None \<Rightarrow> te_work_allocation_id e)),
           re_project_id = (if te_scope_type e = Some ''project'' then te_scope_id e else resolve_entry_project_id (Some e) None d)\<rparr>) entries)"

definition list_timesheet_review_queue :: "task_env \<Rightarrow> timesheet_period_status option \<Rightarrow> nat option \<Rightarrow> review_item list inv_op" where
  "list_timesheet_review_queue env status limit =
     guarded env (
     obind (require_any_perm env [''timesheet.approve'', ''timesheet.lock'']) (\<lambda>_.
     obind (pt_get (list_all_periods status limit)) (\<lambda>periods.
     obind (if periods = [] then oret () else require_time_read_permission env) (\<lambda>_.
     pt_get (\<lambda>d. map (\<lambda>p. build_review_queue_item p (resource_period_entries (tp_resource_id p) (tp_period_start p) d) d) periods)))))"

definition get_timesheet_review_detail :: "task_env \<Rightarrow> string \<Rightarrow> (review_item \<times> review_entry list) inv_op" where
  "get_timesheet_review_detail env i =
     guarded env (
     obind (require_any_perm env [''timesheet.approve'', ''timesheet.lock'']) (\<lambda>_.
     obind (require_timesheet_period i) (\<lambda>p.
     obind (list_time_entries_for_resource_period env (tp_resource_id p) (tp_period_start p)) (\<lambda>entries.
     pt_get (\<lambda>d. (build_review_queue_item p entries d, build_review_entries entries d))))))"

end
