(* ===== verification/Task_Search.thy ===== *)
theory Task_Search
  imports Task_Diagnostics Schedule_Correct
begin

text \<open>
  The search for a path is right: it finds a chain of dependencies whenever there is one. With
  the checks around it, a dependency that passes keeps the dependencies of all projects free of
  cycles, and a project without cycles has a schedule order.
\<close>

section \<open>The graph of the dictionary\<close>

definition graph_edges :: "(string, string list) dict \<Rightarrow> (string \<times> string) set" where
  "graph_edges g = {(u, w). w \<in> set (dict_get_list g u)}"

lemma graph_edges_append: "graph_edges (dict_append u w g) = insert (u, w) (graph_edges g)"
  by (auto simp: graph_edges_def dict_get_list_append split: if_splits)

lemma graph_edges_adjacency: "graph_edges (adjacency deps) = dep_edges deps"
proof -
  have "graph_edges (fold (\<lambda>x. dict_append (predecessor_task_id x) (successor_task_id x)) deps g) =
      dep_edges deps \<union> graph_edges g" for g
    by (induction deps arbitrary: g) (auto simp: dep_edges_def graph_edges_append)
  then show ?thesis
    by (simp add: adjacency_def graph_edges_def dict_get_list_def)
qed

section \<open>The search\<close>

text \<open>A path of the graph that starts at a node and ends at another.\<close>

definition path_to :: "(string, string list) dict \<Rightarrow> string \<Rightarrow> string \<Rightarrow> string list \<Rightarrow> bool" where
  "path_to g start node p \<longleftrightarrow>
     p \<noteq> [] \<and> hd p = start \<and> last p = node \<and> successively (\<lambda>u w. (u, w) \<in> graph_edges g) p"

lemma path_to_extend:
  "path_to g start node p \<Longrightarrow> w \<in> set (dict_get_list g node) \<Longrightarrow> path_to g start w (p @ [w])"
  by (auto simp: path_to_def graph_edges_def successively_append_iff)

text \<open>Every entry of the queue carries a path to its node, so what is found is a path.\<close>

lemma find_path_loop_Some:
  assumes "find_path_loop g target visited queue = Some p" "\<forall>(n, q) \<in> set queue. path_to g start n q"
  shows "path_to g start target p"
  using assms by (induction g target visited queue rule: find_path_loop.induct)
    (auto split: if_splits intro: path_to_extend)

text \<open>
  A search that fails has expanded every node it can reach: the visited nodes are closed under
  the edges, but for the nodes that still wait in the queue.
\<close>

lemma find_path_loop_None:
  assumes "find_path_loop g target visited queue = None" "target \<notin> visited"
    and "graph_edges g `` visited \<subseteq> visited \<union> fst ` set queue" "start \<in> visited \<union> fst ` set queue"
  shows "(start, target) \<notin> (graph_edges g)\<^sup>*"
  using assms
proof (induction g target visited queue rule: find_path_loop.induct)
  case (1 g target visited)
  then have closed: "graph_edges g `` visited \<subseteq> visited" "start \<in> visited" by auto
  have "v \<in> visited" if "(start, v) \<in> (graph_edges g)\<^sup>*" for v
    using that closed by (induction rule: rtrancl_induct) auto
  then show ?case using 1 by blast
next
  case (2 g target visited node path queue)
  show ?case
  proof (cases "node \<in> visited")
    case True
    then show ?thesis using 2 by (auto split: if_splits)
  next
    case False
    let ?more = "map (\<lambda>nxt. (nxt, path @ [nxt])) (filter (\<lambda>nxt. nxt \<notin> insert node visited) (dict_get_list g node))"
    have ne: "node \<noteq> target" using "2.prems"(1) by auto
    have "fst ` set ?more = set (dict_get_list g node) - insert node visited"
      by (auto simp: image_image)
    then have "graph_edges g `` insert node visited \<subseteq> insert node visited \<union> fst ` set (queue @ ?more)"
      using "2.prems"(3) by (auto simp: graph_edges_def image_Un)
    then show ?thesis
      using "2.IH"(2) [OF ne False] "2.prems" ne False by auto
  qed
qed

lemma find_path_Some: "find_path g start target = Some p \<Longrightarrow> path_to g start target p"
  unfolding find_path_def by (erule find_path_loop_Some) (simp add: path_to_def)

lemma successively_reaches: "successively (\<lambda>u w. (u, w) \<in> r) p \<Longrightarrow> p \<noteq> [] \<Longrightarrow> (hd p, last p) \<in> r\<^sup>*"
  by (induction p rule: induct_list012) (auto intro: converse_rtrancl_into_rtrancl)

lemma path_reaches: "path_to g start target p \<Longrightarrow> (start, target) \<in> (graph_edges g)\<^sup>*"
  unfolding path_to_def using successively_reaches [of "graph_edges g" p] by auto

lemma find_path_None_iff: "find_path g start target = None \<longleftrightarrow> (start, target) \<notin> (graph_edges g)\<^sup>*"
proof
  show "(start, target) \<notin> (graph_edges g)\<^sup>*" if "find_path g start target = None"
    by (rule find_path_loop_None [of g target "{}" "[(start, [start])]"]) (use that in \<open>simp_all add: find_path_def\<close>)
  show "find_path g start target = None" if "(start, target) \<notin> (graph_edges g)\<^sup>*"
    using that find_path_Some path_reaches by (cases "find_path g start target") blast+
qed

lemma cycle_path_None_iff:
  "find_cycle_path_ids deps p s = None \<longleftrightarrow> (s, p) \<notin> (dep_edges deps)\<^sup>*"
  using find_path_None_iff [of "adjacency deps" s p] find_path_Some [of "adjacency deps" s p]
  by (auto simp: find_cycle_path_ids_def graph_edges_adjacency path_to_def split: option.splits)

lemma cycle_path_Some:
  "find_cycle_path_ids deps p s = Some path \<Longrightarrow> \<exists>q. path = p # q \<and> path_to (adjacency deps) s p q"
  by (auto simp: find_cycle_path_ids_def split: option.splits if_splits dest: find_path_Some)

end
