(* ===== verification/Schedule_Failures.thy ===== *)
theory Schedule_Failures
  imports Schedule_Correct
begin

text \<open>
  How a schedule computation can fail: a project without cycles fails only when no task has a
  date or when a date leaves the range of \<^verbatim>\<open>datetime.date\<close>. The second half says
  when the calendar itself returns.
\<close>

section \<open>Computations whose exceptions are known\<close>

definition fails_only :: "error set \<Rightarrow> 'a result \<Rightarrow> bool" where
  "fails_only E r \<longleftrightarrow> (\<forall>err. r = Inl err \<longrightarrow> err \<in> E)"

named_theorems fail_intros \<open>rules for the exceptions of a computation\<close>

lemma fails_only_value [fail_intros]: "fails_only E (Inr x)"
  by (simp add: fails_only_def)

lemma fails_only_raise: "err \<in> E \<Longrightarrow> fails_only E (Inl err)"
  by (simp add: fails_only_def)

lemma fails_only_bind [fail_intros]:
  "fails_only E r \<Longrightarrow> (\<And>x. r = Inr x \<Longrightarrow> fails_only E (f x)) \<Longrightarrow> fails_only E (rbind r f)"
  by (auto simp: fails_only_def rbind_Inl_iff)

lemma fails_only_split [fail_intros]:
  "(c \<Longrightarrow> fails_only E a) \<Longrightarrow> (\<not> c \<Longrightarrow> fails_only E b) \<Longrightarrow> fails_only E (if c then a else b)"
  "(z = None \<Longrightarrow> fails_only E a) \<Longrightarrow> (\<And>x. z = Some x \<Longrightarrow> fails_only E (g x)) \<Longrightarrow>
     fails_only E (case z of None \<Rightarrow> a | Some x \<Rightarrow> g x)"
  "(\<And>x y. p = (x, y) \<Longrightarrow> fails_only E (h x y)) \<Longrightarrow> fails_only E (case p of (x, y) \<Rightarrow> h x y)"
  "fails_only E (k v) \<Longrightarrow> fails_only E (let x = v in k x)"
  by (simp_all split: option.splits prod.splits)

lemma fails_only_rmap [fail_intros]:
  "(\<And>x. x \<in> set xs \<Longrightarrow> fails_only E (f x)) \<Longrightarrow> fails_only E (rmap f xs)"
  by (induction xs) (auto intro!: fail_intros)

lemma fails_only_rfold [fail_intros]:
  "(\<And>x s. x \<in> set xs \<Longrightarrow> fails_only E (f x s)) \<Longrightarrow> fails_only E (rfold f xs s)"
  by (induction xs arbitrary: s) (auto intro!: fail_intros)

lemma fails_only_candidates [fail_intros]:
  "(\<And>x. x \<in> set xs \<Longrightarrow> fails_only E (f x)) \<Longrightarrow> fails_only E (candidates f xs)"
  unfolding candidates_def by (intro fail_intros) 

lemma fails_only_some_date [fail_intros]: "fails_only E r \<Longrightarrow> fails_only E (some_date r)"
  unfolding some_date_def by (intro fail_intros)

section \<open>The calendar overflows, the graph does not fail\<close>

lemma calendar_overflows [fail_intros]:
  assumes "OverflowError \<in> E"
  shows "fails_only E (add_working_days e d n)" "fails_only E (working_days_between e d d')"
proof -
  have 1: "fails_only E (next_from e c)" for c
    by (induction e c rule: next_from.induct) (subst next_from.simps, auto intro!: fail_intros fails_only_raise assms)
  have 2: "fails_only E (forward_days e c k)" for c k
    by (induction e c k rule: forward_days.induct) (subst forward_days.simps, auto intro!: fail_intros fails_only_raise assms)
  have 3: "fails_only E (backward_days e c k)" for c k
    by (induction e c k rule: backward_days.induct) (subst backward_days.simps, auto intro!: fail_intros fails_only_raise assms)
  have 4: "fails_only E (count_days e c l k)" for c l k
    by (induction e c l k rule: count_days.induct) (subst count_days.simps, auto intro!: fail_intros fails_only_raise assms)
  show "fails_only E (add_working_days e d n)" "fails_only E (working_days_between e d d')"
    unfolding add_working_days_def working_days_between_def next_working_day_def
    by (auto intro!: fail_intros 1 2 3 4)
qed

lemma task_dates_overflow:
  assumes "OverflowError \<in> E"
  shows "fails_only E (compute_task_dates e t incoming es ef)"
  unfolding compute_task_dates_def compute_task_dates_common_def compute_dates_milestone_def compute_dates_with_duration_def
    apply_actual_constraints_def milestone_candidate_def duration_candidate_def dates_from_start_def start_for_finish_def
  by (intro fail_intros assms; (simp split: dependency_type.split)?; (intro fail_intros assms conjI impI)?)

lemma fails_only_lookup: "tid \<in> fst ` set tasks \<Longrightarrow> fails_only E (lookup_task tasks tid)"
  by (auto simp: lookup_task_def fails_only_def map_of_eq_None_iff split: option.splits)

text \<open>The two ways a schedule without cycles fails.\<close>

abbreviation schedule_failures :: "error set" where
  "schedule_failures \<equiv> {ValidationErr, OverflowError}"

lemma forward_pass_fails:
  assumes "set topo \<subseteq> fst ` set tasks"
  shows "fails_only schedule_failures (run_forward_pass tasks topo by_succ (compute_task_dates e))"
  unfolding run_forward_pass_def forward_step_def
  by (intro fail_intros fails_only_lookup task_dates_overflow fails_only_raise) (use assms in auto)

lemma late_dates_overflow:
  assumes "OverflowError \<in> E"
  shows "fails_only E (late_dates e n cs early old)" "fails_only E (backward_candidate e ls lf dep)"
  unfolding late_dates_def backward_candidate_def
  by (intro fail_intros assms; (simp split: dependency_type.split)?; (intro fail_intros assms conjI impI)?)+

lemma backward_pass_fails:
  assumes "set topo \<subseteq> fst ` set tasks"
  shows "fails_only schedule_failures (run_backward_pass e tasks topo by_pred es ef pef)"
  unfolding run_backward_pass_def end_task_step_def backward_step_def
  by (intro fail_intros fails_only_lookup late_dates_overflow) (use assms in auto)

lemma result_fails: "fails_only schedule_failures (build_schedule_result e tasks es ef ls lf)"
  unfolding build_schedule_result_def task_info_def total_float_def late_by_def
  by (intro fail_intros) auto

lemma acyclic_schedule_fails:
  assumes "distinct (map fst tasks)" "acyclic (dep_edges (filtered_deps tasks deps))"
  shows "fails_only schedule_failures (compute_schedule e prio (compute_task_dates e) tasks deps)"
proof -
  have "build_project_dependency_graph tasks deps prio = Inr \<lparr>topo_order = project_order tasks deps prio,
      deps_by_successor = group_by_key successor_task_id (filtered_deps tasks deps),
      deps_by_predecessor = group_by_key predecessor_task_id (filtered_deps tasks deps)\<rparr>"
    using project_order_acyclic_iff [OF assms(1)] assms(2) by (simp add: build_graph_eq)
  moreover have "set (project_order tasks deps prio) \<subseteq> fst ` set tasks"
    using project_order_topological [OF assms(1)] by (auto simp: topological_def)
  ultimately show ?thesis
    unfolding compute_schedule_def
    by (simp, intro fail_intros forward_pass_fails backward_pass_fails result_fails) 
qed

section \<open>When the calendar returns\<close>

lemma wd_between_reaches:
  assumes "0 < n" "n \<le> wd_between wd s m"
  shows "\<exists>r. s \<le> r \<and> r \<le> m \<and> wd r \<and> wd_between wd s r = n"
  using assms(2)
proof (induction "nat (m + 1 - s)" arbitrary: m)
  case 0
  then show ?case using assms(1) by simp
next
  case (Suc k)
  then have le: "s \<le> m" by simp
  show ?case
  proof (cases "n \<le> wd_between wd s (m - 1)")
    case True
    then show ?thesis using Suc.hyps(1) [of "m - 1"] Suc.hyps(2) by force
  next
    case False
    then have "wd m \<and> wd_between wd s m = n"
      using Suc.prems wd_between_last [OF le, of wd] by (auto split: if_splits)
    then show ?thesis using le by blast
  qed
qed

lemma wd_between_reaches_back:
  assumes "0 < n" "n \<le> wd_between wd m t"
  shows "\<exists>r. m \<le> r \<and> r \<le> t \<and> wd r \<and> wd_between wd r t = n"
  using assms(2)
proof (induction "nat (t + 1 - m)" arbitrary: m)
  case 0
  then show ?case using assms(1) by simp
next
  case (Suc k)
  then have le: "m \<le> t" by simp
  show ?case
  proof (cases "n \<le> wd_between wd (m + 1) t")
    case True
    then obtain r where "m + 1 \<le> r" "r \<le> t" "wd r" "wd_between wd r t = n"
      using Suc.hyps(1) [of "m + 1"] Suc.hyps(2) by fastforce
    then show ?thesis by (intro exI [of _ r]) simp
  next
    case False
    then have "wd m \<and> wd_between wd m t = n"
      using Suc.prems wd_between_first [OF le, of wd] by (auto split: if_splits)
    then show ?thesis using le by blast
  qed
qed

text \<open>
  The calendar has \<open>n\<close> working days from \<open>s\<close> on; for a negative \<open>n\<close>, \<open>-n\<close> of them
  before the first working day at or after \<open>s\<close>.
\<close>

definition enough_working_days :: "(date \<Rightarrow> bool) \<Rightarrow> date \<Rightarrow> int \<Rightarrow> bool" where
  "enough_working_days wd s n \<longleftrightarrow>
     n \<le> wd_between wd s DATE_MAX \<and>
     (n < 0 \<longrightarrow> (\<exists>b. first_wd wd s b \<and> b \<le> DATE_MAX \<and> - n \<le> wd_between wd DATE_MIN (b - 1)))"

lemma add_working_days_returns_iff:
  assumes "valid_date s"
  shows "(\<exists>r. add_working_days e s n = Inr r) \<longleftrightarrow> enough_working_days (is_working_day e) s n"
proof -
  let ?wd = "is_working_day e"
  have max: "s \<le> DATE_MAX" using assms by (simp add: valid_date_def)
  consider "n = 0" | "0 < n" | "n < 0" by linarith
  then show ?thesis
  proof cases
    case 1
    then show ?thesis by (simp add: add_working_days_def enough_working_days_def)
  next
    case 2
    have "n \<le> wd_between ?wd s DATE_MAX" if "r \<le> DATE_MAX" and "wd_between ?wd s r = n" for r
      using that wd_between_mono [of s s r DATE_MAX ?wd] by simp
    then show ?thesis
      using 2 wd_between_reaches [OF 2, of ?wd s DATE_MAX] by (auto simp: add_pos_engine [OF 2 max] enough_working_days_def)
  next
    case 3
    have walk: "(\<exists>r. DATE_MIN \<le> r \<and> r \<le> b \<and> ?wd r \<and> wd_between ?wd r b = 1 - n) \<longleftrightarrow>
        - n \<le> wd_between ?wd DATE_MIN (b - 1)" if "first_wd ?wd s b" for b
    proof -
      have b: "DATE_MIN \<le> b" "?wd b" using that assms by (auto simp: first_wd_def valid_date_def)
      have "wd_between ?wd DATE_MIN b = wd_between ?wd DATE_MIN (b - 1) + 1"
        using wd_between_last [OF b(1), of ?wd] b(2) by simp
      then show ?thesis
        using wd_between_reaches_back [of "1 - n" ?wd DATE_MIN b] wd_between_mono [of DATE_MIN _ b b ?wd] 3 by force
    qed
    have "n \<le> wd_between ?wd s DATE_MAX" using 3 wd_between_nonneg [of ?wd s DATE_MAX] by linarith
    then show ?thesis
      using 3 walk by (simp add: add_neg_engine [OF 3 assms] enough_working_days_def) blast
  qed
qed

text \<open>
  C32: \<open>add_working_days\<close> always terminates, also for a calendar without any working day: it
  returns exactly when the calendar has enough working days within the range of
  \<open>datetime.date\<close>, and raises OverflowError otherwise.
\<close>

theorem add_working_days_returns:
  assumes "valid_date s"
  shows "if enough_working_days (is_working_day e) s n then \<exists>r. add_working_days e s n = Inr r
    else add_working_days e s n = Inl OverflowError"
  using add_working_days_returns_iff [OF assms, of e n] calendar_overflows(1) [of "{OverflowError}" e s n]
  by (cases "add_working_days e s n") (auto simp: fails_only_def)

end
