(* ===== verification/Proc_Requisition.thy ===== *)
theory Proc_Requisition
  imports Proc_Approval
begin

text \<open>
  The requisition service (\<^verbatim>\<open>procurement_lifecycle.py\<close>,
  \<^verbatim>\<open>procurement_support.py\<close>, \<^verbatim>\<open>procurement_queries.py\<close> and
  \<^verbatim>\<open>procurement_approval.py\<close> of
  \<^verbatim>\<open>core/modules/inventory_procurement/services/procurement\<close>): drafts, their lines,
  submission for approval, and the handlers of the decision.
\<close>

section \<open>Repositories\<close>

definition get_requisition_row :: "string \<Rightarrow> documents \<Rightarrow> requisition option" where
  "get_requisition_row i d = find_row rq_id (dc_requisitions d) i"

definition get_requisition_by_number :: "string \<Rightarrow> string \<Rightarrow> documents \<Rightarrow> requisition option" where
  "get_requisition_by_number org number d =
     find (\<lambda>r. rq_organization_id r = org \<and> requisition_number r = number) (dc_requisitions d)"

definition list_for_requisition :: "string \<Rightarrow> documents \<Rightarrow> requisition_line list" where
  "list_for_requisition i d = sort_key rl_number (filter (\<lambda>l. rl_requisition_id l = i) (dc_requisition_lines d))"

definition get_requisition_line :: "string \<Rightarrow> documents \<Rightarrow> requisition_line option" where
  "get_requisition_line i d = find_row rl_id (dc_requisition_lines d) i"

text \<open>The object the caller holds gets the next version.\<close>

definition update_requisition_row :: "requisition \<Rightarrow> requisition inv_op" where
  "update_requisition_row r =
     obind (doc_update (\<lambda>d.
        rbind (update_with_version_check rq_id rq_version (\<lambda>v r. r\<lparr>rq_version := v\<rparr>) r (dc_requisitions d)) (\<lambda>rows.
        Inr (d\<lparr>dc_requisitions := rows\<rparr>)))) (\<lambda>_.
     oret (r\<lparr>rq_version := rq_version r + 1\<rparr>))"

definition update_requisition_line :: "requisition_line \<Rightarrow> unit inv_op" where
  "update_requisition_line l =
     doc_update (\<lambda>d. rbind (update_by_id rl_id l (dc_requisition_lines d)) (\<lambda>rows. Inr (d\<lparr>dc_requisition_lines := rows\<rparr>)))"

section \<open>Parties\<close>

definition BUSINESS_PARTY_TYPES :: "string list" where
  "BUSINESS_PARTY_TYPES = [''SUPPLIER'', ''MANUFACTURER'', ''VENDOR'', ''CONTRACTOR'', ''SERVICE_PROVIDER'']"

text \<open>\<open>PartyService.get_party\<close>.\<close>

definition get_party :: "inv_env \<Rightarrow> string \<Rightarrow> party_ref inv_op" where
  "get_party env i =
     obind (require_any_perm env [''settings.manage'', ''party.read'']) (\<lambda>_.
     obind active_organization (\<lambda>org.
     obind (doc_get (\<lambda>d. find_row party_id (dc_parties d) i)) (\<lambda>row.
       case row of
         None \<Rightarrow> oraise (NotFoundError ''PARTY_NOT_FOUND'')
       | Some p \<Rightarrow>
           (if party_organization_id p \<noteq> org then oraise (NotFoundError ''PARTY_NOT_FOUND'') else oret p))))"

definition ensure_business_supplier_scope :: "party_ref \<Rightarrow> unit inv_op" where
  "ensure_business_supplier_scope p =
     obind (oguard (\<not> party_is_active p) (ValidationError ''INVENTORY_PARTY_INACTIVE'')) (\<lambda>_.
     oguard (party_type p \<notin> set BUSINESS_PARTY_TYPES) (ValidationError ''INVENTORY_PARTY_SCOPE_INVALID''))"

definition validate_supplier_reference :: "inv_env \<Rightarrow> string option \<Rightarrow> string option inv_op" where
  "validate_supplier_reference env i =
     (let normalized = normalize_optional_text i in
      if normalized = [] then oret None
      else obind (get_party env normalized) (\<lambda>p.
           obind (ensure_business_supplier_scope p) (\<lambda>_. oret (Some (party_id p)))))"

section \<open>Queries\<close>

definition get_requisition :: "inv_env \<Rightarrow> string \<Rightarrow> requisition inv_op" where
  "get_requisition env i =
     obind (require_perm env ''inventory.read'') (\<lambda>_.
     obind active_organization (\<lambda>org.
     obind (doc_get (get_requisition_row i)) (\<lambda>row.
       case row of
         None \<Rightarrow> oraise (NotFoundError ''INVENTORY_REQUISITION_NOT_FOUND'')
       | Some r \<Rightarrow>
           (if rq_organization_id r \<noteq> org then oraise (NotFoundError ''INVENTORY_REQUISITION_NOT_FOUND'')
            else oret r))))"

definition find_requisition_by_number :: "inv_env \<Rightarrow> string \<Rightarrow> requisition option inv_op" where
  "find_requisition_by_number env number =
     obind (require_perm env ''inventory.read'') (\<lambda>_.
     obind active_organization (\<lambda>org.
     (let normalized = normalize_optional_text (Some number) in
      if normalized = [] then oret None else doc_get (get_requisition_by_number org normalized))))"

definition list_requisition_lines :: "inv_env \<Rightarrow> string \<Rightarrow> requisition_line list inv_op" where
  "list_requisition_lines env i =
     obind (get_requisition env i) (\<lambda>r. doc_get (list_for_requisition (rq_id r)))"

definition require_draft_requisition :: "inv_env \<Rightarrow> string \<Rightarrow> requisition inv_op" where
  "require_draft_requisition env i =
     obind (get_requisition env i) (\<lambda>r.
     obind (oguard (rq_status r \<noteq> RQ_DRAFT) (ValidationError ''INVENTORY_REQUISITION_EDIT_FORBIDDEN'')) (\<lambda>_.
     oret r))"

section \<open>Drafts\<close>

definition normalize_priority :: "string option \<Rightarrow> string" where
  "normalize_priority value =
     (let normalized = py_upper (normalize_optional_text value) in if normalized = [] then ''NORMAL'' else normalized)"

definition build_number :: "string \<Rightarrow> inv_env \<Rightarrow> string inv_op" where
  "build_number prefix env = obind (fresh_uuid (e_uuid env)) (\<lambda>u. oret (prefix @ py_upper (take 10 (hex_of u))))"

text \<open>\<open>normalize_optional_text(number) or build_...()\<close>.\<close>

definition given_or_built :: "string option \<Rightarrow> string inv_op \<Rightarrow> string inv_op" where
  "given_or_built number build =
     (if normalize_optional_text number \<noteq> [] then oret (normalize_optional_text number) else build)"

definition check_requesting_storeroom :: "storeroom \<Rightarrow> string \<Rightarrow> string \<Rightarrow> unit inv_op" where
  "check_requesting_storeroom room site org =
     obind (oguard (\<not> sr_is_active room) (ValidationError ''INVENTORY_REQUISITION_STOREROOM_INACTIVE'')) (\<lambda>_.
     obind (oguard (sr_site_id room \<noteq> site) (ValidationError ''INVENTORY_REQUISITION_SITE_STOREROOM_MISMATCH'')) (\<lambda>_.
     oguard (sr_organization_id room \<noteq> org) (ValidationError ''INVENTORY_REQUISITION_STOREROOM_SCOPE_INVALID'')))"

definition announce_requisition :: "string \<Rightarrow> string \<Rightarrow> string \<Rightarrow> string \<Rightarrow> unit inv_op" where
  "announce_requisition action etype eid requisition_id =
     obind (record_audit inv_insert action etype eid) (\<lambda>_. emit ''inventory_requisitions_changed'' requisition_id)"

definition prepare_requisition ::
  "inv_env \<Rightarrow> string \<Rightarrow> string \<Rightarrow> string \<Rightarrow> date option \<Rightarrow> string \<Rightarrow> string \<Rightarrow> string \<Rightarrow> string \<Rightarrow> string option
     \<Rightarrow> requisition inv_op" where
  "prepare_requisition env site room_id purpose needed priority src_type src_id notes number =
     obind (require_perm env ''inventory.manage'') (\<lambda>_.
     obind active_organization (\<lambda>org.
     obind (get_storeroom env room_id) (\<lambda>room.
     obind (check_requesting_storeroom room site org) (\<lambda>_.
     obind (given_or_built number (build_number ''INV-REQ-'' env)) (\<lambda>normalized_number.
     obind (olift (normalize_source_reference_type (Some src_type))) (\<lambda>normalized_type.
     obind (fresh_uuid (e_uuid env)) (\<lambda>new_id.
     oret (create_requisition_row new_id (e_now env) org normalized_number site room_id
            (map_option p_user_id (principal_of env)) (performer_name env) (normalize_optional_text (Some purpose)) needed
            (normalize_priority (Some priority)) normalized_type (normalize_optional_text (Some src_id))
            (normalize_optional_text (Some notes))))))))))"

definition create_requisition ::
  "inv_env \<Rightarrow> string \<Rightarrow> string \<Rightarrow> string \<Rightarrow> date option \<Rightarrow> string \<Rightarrow> string \<Rightarrow> string \<Rightarrow> string \<Rightarrow> string option
     \<Rightarrow> requisition inv_op" where
  "create_requisition env site room_id purpose needed priority src_type src_id notes number =
     obind (prepare_requisition env site room_id purpose needed priority src_type src_id notes number) (\<lambda>r.
     obind (try_integrity (\<lambda>_. ValidationError ''INVENTORY_REQUISITION_NUMBER_EXISTS'')
              (committing inv_insert (doc_add (RequisitionRow r)))) (\<lambda>_.
     obind (announce_requisition ''inventory_requisition.create'' ''purchase_requisition'' (rq_id r) (rq_id r)) (\<lambda>_.
     oret r)))"

definition text_or_default :: "string option \<Rightarrow> string \<Rightarrow> string" where
  "text_or_default value fallback =
     (if normalize_optional_text value = [] then fallback else normalize_optional_text value)"

definition prepare_requisition_line ::
  "inv_env \<Rightarrow> string \<Rightarrow> string \<Rightarrow> rat option \<Rightarrow> string option \<Rightarrow> string \<Rightarrow> date option \<Rightarrow> rat option \<Rightarrow> string option
     \<Rightarrow> string \<Rightarrow> requisition_line inv_op" where
  "prepare_requisition_line env requisition_id item_id quantity uom description needed cost supplier notes =
     obind (require_perm env ''inventory.manage'') (\<lambda>_.
     obind (require_draft_requisition env requisition_id) (\<lambda>r.
     obind (get_item env item_id) (\<lambda>item.
     obind (oguard (si_organization_id item \<noteq> rq_organization_id r) (ValidationError ''INVENTORY_REQUISITION_ITEM_SCOPE_INVALID'')) (\<lambda>_.
     obind (oguard (\<not> si_is_active item) (ValidationError ''INVENTORY_ITEM_INACTIVE'')) (\<lambda>_.
     obind (oguard (\<not> is_purchase_allowed item) (ValidationError ''INVENTORY_ITEM_PURCHASE_FORBIDDEN'')) (\<lambda>_.
     obind (olift (normalize_uom (Some (uom_or_stock item uom)))) (\<lambda>normalized_uom.
     obind (olift (resolve_item_uom_factor item normalized_uom)) (\<lambda>_.
     obind (validate_supplier_reference env supplier) (\<lambda>supplier_id.
     obind (doc_get (list_for_requisition (rq_id r))) (\<lambda>lines.
     obind (olift (normalize_positive_quantity quantity)) (\<lambda>requested.
     obind (olift (normalize_nonnegative_quantity cost)) (\<lambda>estimated.
     obind (fresh_uuid (e_uuid env)) (\<lambda>new_id.
     oret (create_requisition_line new_id (rq_id r) (int (length lines) + 1) (si_id item)
            (text_or_default (Some description) (si_name item)) requested normalized_uom needed estimated supplier_id
            (normalize_optional_text (Some notes))))))))))))))))"

definition add_requisition_line ::
  "inv_env \<Rightarrow> string \<Rightarrow> string \<Rightarrow> rat option \<Rightarrow> string option \<Rightarrow> string \<Rightarrow> date option \<Rightarrow> rat option \<Rightarrow> string option
     \<Rightarrow> string \<Rightarrow> requisition_line inv_op" where
  "add_requisition_line env requisition_id item_id quantity uom description needed cost supplier notes =
     obind (prepare_requisition_line env requisition_id item_id quantity uom description needed cost supplier notes) (\<lambda>l.
     obind (try_integrity (\<lambda>_. ValidationError ''INVENTORY_REQUISITION_LINE_EXISTS'')
              (committing inv_insert (doc_add (RequisitionLineRow l)))) (\<lambda>_.
     obind (announce_requisition ''inventory_requisition_line.create'' ''purchase_requisition_line'' (rl_id l)
              (rl_requisition_id l)) (\<lambda>_.
     oret l)))"

section \<open>Submission and edits\<close>

definition check_requisition_transition :: "requisition \<Rightarrow> requisition_status \<Rightarrow> unit inv_op" where
  "check_requisition_transition r next =
     olift (validate_transition (requisition_status_value (rq_status r)) (requisition_status_value next)
              REQUISITION_STATUS_TRANSITIONS)"

definition set_line_statuses :: "requisition_line_status \<Rightarrow> requisition_line list \<Rightarrow> unit inv_op" where
  "set_line_statuses st lines = ofor (\<lambda>l. update_requisition_line (l\<lparr>rl_status := st\<rparr>)) lines"

definition submit_requisition :: "inv_env \<Rightarrow> string \<Rightarrow> requisition inv_op" where
  "submit_requisition env requisition_id =
     obind (require_perm env ''inventory.manage'') (\<lambda>_.
     obind (require_draft_requisition env requisition_id) (\<lambda>r.
     obind (doc_get (list_for_requisition (rq_id r))) (\<lambda>lines.
     obind (oguard (lines = []) (ValidationError ''INVENTORY_REQUISITION_LINES_REQUIRED'')) (\<lambda>_.
     obind (request_change env ''purchase_requisition.submit'' ''purchase_requisition'' (rq_id r) None NoPayload False) (\<lambda>request.
     obind (check_requisition_transition r RQ_SUBMITTED) (\<lambda>_.
     obind (set_line_statuses RL_DRAFT lines) (\<lambda>_.
     obind (update_requisition_row (r\<lparr>rq_status := RQ_SUBMITTED, rq_approval_request_id := Some (ap_id request),
              rq_submitted_at := Some (e_now env), rq_updated_at := Some (e_now env)\<rparr>)) (\<lambda>saved.
     obind (commit inv_insert) (\<lambda>_.
     obind (record_audit inv_insert ''inventory_requisition.submit'' ''purchase_requisition'' (rq_id r)) (\<lambda>_.
     obind (emit ''approvals_changed'' (ap_id request)) (\<lambda>_.
     obind (emit ''inventory_requisitions_changed'' (rq_id r)) (\<lambda>_.
     oret saved))))))))))))"

definition check_version :: "int option \<Rightarrow> int \<Rightarrow> unit inv_op" where
  "check_version expected version =
     (case expected of
        None \<Rightarrow> oret ()
      | Some v \<Rightarrow> oguard (version \<noteq> v) (ConcurrencyError ''STALE_WRITE''))"

definition prepare_requisition_update ::
  "inv_env \<Rightarrow> string \<Rightarrow> string option \<Rightarrow> string option \<Rightarrow> string option \<Rightarrow> date option \<Rightarrow> string option
     \<Rightarrow> string option \<Rightarrow> string option \<Rightarrow> string option \<Rightarrow> int option \<Rightarrow> requisition inv_op" where
  "prepare_requisition_update env requisition_id site room_id purpose needed priority src_type src_id notes expected =
     obind (require_perm env ''inventory.manage'') (\<lambda>_.
     obind (require_draft_requisition env requisition_id) (\<lambda>r.
     obind (check_version expected (rq_version r)) (\<lambda>_.
     obind active_organization (\<lambda>org.
     (let next_site = text_or_default site (requesting_site_id r);
          next_room = text_or_default room_id (requesting_storeroom_id r) in
      obind (get_storeroom env next_room) (\<lambda>room.
      obind (check_requesting_storeroom room next_site org) (\<lambda>_.
      obind (case src_type of None \<Rightarrow> oret (rq_source_reference_type r)
             | Some _ \<Rightarrow> olift (normalize_source_reference_type src_type)) (\<lambda>next_type.
      oret (r\<lparr>requesting_site_id := next_site, requesting_storeroom_id := next_room,
              rq_purpose := (case purpose of None \<Rightarrow> rq_purpose r | Some _ \<Rightarrow> normalize_optional_text purpose),
              needed_by_date := needed,
              rq_priority := (case priority of None \<Rightarrow> rq_priority r | Some _ \<Rightarrow> normalize_priority priority),
              rq_source_reference_type := next_type,
              rq_source_reference_id := (case src_id of None \<Rightarrow> rq_source_reference_id r | Some _ \<Rightarrow> normalize_optional_text src_id),
              rq_notes := (case notes of None \<Rightarrow> rq_notes r | Some _ \<Rightarrow> normalize_optional_text notes),
              rq_updated_at := Some (e_now env)\<rparr>)))))))))"

definition update_requisition ::
  "inv_env \<Rightarrow> string \<Rightarrow> string option \<Rightarrow> string option \<Rightarrow> string option \<Rightarrow> date option \<Rightarrow> string option
     \<Rightarrow> string option \<Rightarrow> string option \<Rightarrow> string option \<Rightarrow> int option \<Rightarrow> requisition inv_op" where
  "update_requisition env requisition_id site room_id purpose needed priority src_type src_id notes expected =
     obind (prepare_requisition_update env requisition_id site room_id purpose needed priority src_type src_id notes expected) (\<lambda>r.
     obind (try_rollback (committing inv_insert (update_requisition_row r))) (\<lambda>saved.
     obind (announce_requisition ''inventory_requisition.update'' ''purchase_requisition'' (rq_id r) (rq_id r)) (\<lambda>_.
     oret saved)))"

text \<open>The lines are written before the \<open>try\<close> block.\<close>

definition cancel_requisition :: "inv_env \<Rightarrow> string \<Rightarrow> int option \<Rightarrow> requisition inv_op" where
  "cancel_requisition env requisition_id expected =
     obind (require_perm env ''inventory.manage'') (\<lambda>_.
     obind (require_draft_requisition env requisition_id) (\<lambda>r.
     obind (check_version expected (rq_version r)) (\<lambda>_.
     obind (check_requisition_transition r RQ_CANCELLED) (\<lambda>_.
     obind (doc_get (list_for_requisition (rq_id r))) (\<lambda>lines.
     obind (set_line_statuses RL_CANCELLED lines) (\<lambda>_.
     obind (try_rollback (committing inv_insert (update_requisition_row
              (r\<lparr>rq_status := RQ_CANCELLED, rq_cancelled_at := Some (e_now env), rq_updated_at := Some (e_now env)\<rparr>)))) (\<lambda>saved.
     obind (announce_requisition ''inventory_requisition.cancel'' ''purchase_requisition'' (rq_id r) (rq_id r)) (\<lambda>_.
     oret saved))))))))"

section \<open>The decision\<close>

definition awaiting_requisition :: "approval_request \<Rightarrow> requisition inv_op" where
  "awaiting_requisition request =
     obind (doc_get (get_requisition_row (ap_entity_id request))) (\<lambda>row.
       case row of
         None \<Rightarrow> oraise (NotFoundError ''INVENTORY_REQUISITION_NOT_FOUND'')
       | Some r \<Rightarrow>
           obind (oguard (rq_approval_request_id r \<noteq> Some (ap_id request))
                    (ValidationError ''INVENTORY_REQUISITION_APPROVAL_MISMATCH'')) (\<lambda>_.
           obind (oguard (rq_status r \<notin> {RQ_SUBMITTED, RQ_UNDER_REVIEW})
                    (ValidationError ''INVENTORY_REQUISITION_STATUS_INVALID'')) (\<lambda>_.
           oret r)))"

definition apply_submitted_requisition_approval :: "inv_env \<Rightarrow> approval_request \<Rightarrow> unit inv_op" where
  "apply_submitted_requisition_approval env request =
     obind (awaiting_requisition request) (\<lambda>r.
     obind (check_requisition_transition r RQ_APPROVED) (\<lambda>_.
     obind (update_requisition_row (r\<lparr>rq_status := RQ_APPROVED, rq_approved_at := Some (e_now env),
              rq_updated_at := Some (e_now env)\<rparr>)) (\<lambda>_.
     obind (doc_get (list_for_requisition (rq_id r))) (\<lambda>lines.
     obind (set_line_statuses RL_OPEN lines) (\<lambda>_.
     announce_requisition ''inventory_requisition.approve'' ''purchase_requisition'' (rq_id r) (rq_id r))))))"

definition apply_submitted_requisition_rejection :: "inv_env \<Rightarrow> approval_request \<Rightarrow> unit inv_op" where
  "apply_submitted_requisition_rejection env request =
     obind (awaiting_requisition request) (\<lambda>r.
     obind (check_requisition_transition r RQ_REJECTED) (\<lambda>_.
     obind (update_requisition_row (r\<lparr>rq_status := RQ_REJECTED, rq_updated_at := Some (e_now env)\<rparr>)) (\<lambda>_.
     obind (doc_get (list_for_requisition (rq_id r))) (\<lambda>lines.
     obind (set_line_statuses RL_REJECTED lines) (\<lambda>_.
     announce_requisition ''inventory_requisition.reject'' ''purchase_requisition'' (rq_id r) (rq_id r))))))"

end
