(* ===== verification/Proc_Purchasing.thy ===== *)
theory Proc_Purchasing
  imports Proc_Requisition
begin

text \<open>
  The purchasing service, first part (\<^verbatim>\<open>purchasing_lifecycle.py\<close>,
  \<^verbatim>\<open>purchasing_support.py\<close>, \<^verbatim>\<open>purchasing_queries.py\<close> of
  \<^verbatim>\<open>core/modules/inventory_procurement/services/procurement\<close>): purchase orders and
  their lines from the draft to the closing.
\<close>

section \<open>Repositories and references\<close>

definition get_order_row :: "string \<Rightarrow> documents \<Rightarrow> purchase_order option" where
  "get_order_row i d = find_row po_id (dc_orders d) i"

definition get_order_by_number :: "string \<Rightarrow> string \<Rightarrow> documents \<Rightarrow> purchase_order option" where
  "get_order_by_number org number d = find (\<lambda>r. po_organization_id r = org \<and> po_number r = number) (dc_orders d)"

definition list_for_purchase_order :: "string \<Rightarrow> documents \<Rightarrow> order_line list" where
  "list_for_purchase_order i d = sort_key pl_number (filter (\<lambda>l. pl_order_id l = i) (dc_order_lines d))"

definition update_order_row :: "purchase_order \<Rightarrow> purchase_order inv_op" where
  "update_order_row r =
     obind (doc_update (\<lambda>d.
        rbind (update_with_version_check po_id po_version (\<lambda>v r. r\<lparr>po_version := v\<rparr>) r (dc_orders d)) (\<lambda>rows.
        Inr (d\<lparr>dc_orders := rows\<rparr>)))) (\<lambda>_.
     oret (r\<lparr>po_version := po_version r + 1\<rparr>))"

definition update_order_line :: "order_line \<Rightarrow> unit inv_op" where
  "update_order_line l =
     doc_update (\<lambda>d. rbind (update_by_id pl_id l (dc_order_lines d)) (\<lambda>rows. Inr (d\<lparr>dc_order_lines := rows\<rparr>)))"

text \<open>The active organization as the purchasing service asks for it.\<close>

definition purchasing_organization :: "string inv_op" where
  "purchasing_organization =
     obind (oget (\<lambda>s. db_active_org (s_working s))) (\<lambda>org.
       case org of None \<Rightarrow> oraise (ValidationError ''ORG_ACTIVE_MISSING'') | Some i \<Rightarrow> oret i)"

text \<open>\<open>SiteService.get_site\<close> behind \<open>InventoryReferenceService.get_site\<close>.\<close>

definition get_site :: "inv_env \<Rightarrow> string \<Rightarrow> site_ref inv_op" where
  "get_site env i =
     obind (require_any_perm env [''settings.manage'', ''site.read'']) (\<lambda>_.
     obind active_organization (\<lambda>org.
     obind (doc_get (\<lambda>d. find_row site_id (dc_sites d) i)) (\<lambda>row.
       case row of
         None \<Rightarrow> oraise (NotFoundError ''SITE_NOT_FOUND'')
       | Some x \<Rightarrow>
           (if site_organization_id x \<noteq> org then oraise (NotFoundError ''SITE_NOT_FOUND'')
            else obind (require_scope_perm env ''site'' (site_id x) ''site.read'') (\<lambda>_. oret x)))))"

definition reference_site :: "inv_env \<Rightarrow> string \<Rightarrow> site_ref inv_op" where
  "reference_site env i = obind (require_perm env ''inventory.read'') (\<lambda>_. get_site env i)"

definition reference_party :: "inv_env \<Rightarrow> string \<Rightarrow> party_ref inv_op" where
  "reference_party env i =
     obind (require_perm env ''inventory.read'') (\<lambda>_.
     obind (get_party env i) (\<lambda>p.
     obind (oguard (party_type p \<notin> set BUSINESS_PARTY_TYPES) ValueError) (\<lambda>_.
     oret p)))"

section \<open>Queries and guards\<close>

definition get_purchase_order :: "inv_env \<Rightarrow> string \<Rightarrow> purchase_order inv_op" where
  "get_purchase_order env i =
     obind (require_perm env ''inventory.read'') (\<lambda>_.
     obind purchasing_organization (\<lambda>org.
     obind (doc_get (get_order_row i)) (\<lambda>row.
       case row of
         None \<Rightarrow> oraise (NotFoundError ''INVENTORY_PURCHASE_ORDER_NOT_FOUND'')
       | Some r \<Rightarrow>
           (if po_organization_id r \<noteq> org then oraise (NotFoundError ''INVENTORY_PURCHASE_ORDER_NOT_FOUND'')
            else oret r))))"

definition find_purchase_order_by_number :: "inv_env \<Rightarrow> string \<Rightarrow> purchase_order option inv_op" where
  "find_purchase_order_by_number env number =
     obind (require_perm env ''inventory.read'') (\<lambda>_.
     obind purchasing_organization (\<lambda>org.
     (let normalized = normalize_optional_text (Some number) in
      if normalized = [] then oret None else doc_get (get_order_by_number org normalized))))"

definition list_purchase_order_lines :: "inv_env \<Rightarrow> string \<Rightarrow> order_line list inv_op" where
  "list_purchase_order_lines env i =
     obind (get_purchase_order env i) (\<lambda>r. doc_get (list_for_purchase_order (po_id r)))"

definition require_draft_purchase_order :: "inv_env \<Rightarrow> string \<Rightarrow> purchase_order inv_op" where
  "require_draft_purchase_order env i =
     obind (get_purchase_order env i) (\<lambda>r.
     obind (oguard (po_status r \<noteq> PO_DRAFT) (ValidationError ''INVENTORY_PURCHASE_ORDER_NOT_DRAFT'')) (\<lambda>_.
     oret r))"

definition require_requisition_line :: "string \<Rightarrow> requisition_line inv_op" where
  "require_requisition_line i =
     obind (doc_get (get_requisition_line i)) (\<lambda>row.
       case row of
         None \<Rightarrow> oraise (ValidationError ''INVENTORY_REQUISITION_LINE_NOT_FOUND'')
       | Some l \<Rightarrow> oret l)"

definition normalize_currency_code :: "string option \<Rightarrow> string \<Rightarrow> string result" where
  "normalize_currency_code value fallback =
     (let upper = py_upper (normalize_optional_text value);
          normalized = (if upper = [] then py_upper (normalize_optional_text (Some fallback)) else upper) in
      if normalized = [] then Inl (ValidationError ''INVENTORY_CURRENCY_REQUIRED'') else Inr normalized)"

definition validate_source_requisition :: "string option \<Rightarrow> string \<Rightarrow> requisition option inv_op" where
  "validate_source_requisition source org =
     (let i = normalize_optional_text source in
      if i = [] then oret None
      else obind (doc_get (get_requisition_row i)) (\<lambda>row.
        case row of
          None \<Rightarrow> oraise (ValidationError ''INVENTORY_REQUISITION_SCOPE_INVALID'')
        | Some r \<Rightarrow>
            obind (oguard (rq_organization_id r \<noteq> org) (ValidationError ''INVENTORY_REQUISITION_SCOPE_INVALID'')) (\<lambda>_.
            obind (oguard (rq_status r \<notin> {RQ_APPROVED, RQ_PARTIALLY_SOURCED})
                     (ValidationError ''INVENTORY_REQUISITION_STATUS_INVALID'')) (\<lambda>_.
            oret (Some r)))))"

text \<open>An order without a source requisition may take its demand from any requisition line.\<close>

definition validate_source_requisition_line ::
  "purchase_order \<Rightarrow> stock_item \<Rightarrow> string option \<Rightarrow> rat option \<Rightarrow> string \<Rightarrow> requisition_line option inv_op" where
  "validate_source_requisition_line order item source quantity uom =
     (let i = normalize_optional_text source in
      if i = [] then oret None
      else obind (require_requisition_line i) (\<lambda>l.
        obind (oguard (rl_stock_item_id l \<noteq> si_id item) (ValidationError ''INVENTORY_REQUISITION_LINE_SCOPE_INVALID'')) (\<lambda>_.
        obind (oguard (case source_requisition_id order of
                         None \<Rightarrow> False | Some r \<Rightarrow> r \<noteq> [] \<and> rl_requisition_id l \<noteq> r)
                 (ValidationError ''INVENTORY_REQUISITION_LINE_SCOPE_INVALID'')) (\<lambda>_.
        (let remaining = max 0 (quantity_requested l - quantity_sourced l) in
         obind (oguard (remaining \<le> 0) (ValidationError ''INVENTORY_REQUISITION_LINE_FULLY_SOURCED'')) (\<lambda>_.
         obind (olift (normalize_positive_quantity quantity)) (\<lambda>ordered.
         obind (olift (convert_item_quantity item ordered uom (rl_uom l))) (\<lambda>in_requisition_uom.
         obind (oguard (in_requisition_uom > remaining) (ValidationError ''INVENTORY_REQUISITION_LINE_QTY_EXCEEDED'')) (\<lambda>_.
         oret (Some l))))))))))"

section \<open>The state of the lines\<close>

definition line_outstanding_qty :: "order_line \<Rightarrow> rat" where
  "line_outstanding_qty l = max 0 (quantity_ordered l - quantity_received l - quantity_rejected l)"

definition is_purchase_order_fully_processed :: "order_line list \<Rightarrow> bool" where
  "is_purchase_order_fully_processed lines \<longleftrightarrow> lines \<noteq> [] \<and> list_all (\<lambda>l. line_outstanding_qty l \<le> 0) lines"

definition resolve_purchase_order_line_status :: "bool \<Rightarrow> order_line \<Rightarrow> order_line_status" where
  "resolve_purchase_order_line_status treat_open l =
     (let processed = quantity_received l + quantity_rejected l; ordered = quantity_ordered l in
      if processed \<le> 0 then (if treat_open then PL_OPEN else PL_DRAFT)
      else if processed \<ge> ordered then PL_FULLY_RECEIVED
      else PL_PARTIALLY_RECEIVED)"

definition resolve_purchase_order_receiving_status :: "order_line list \<Rightarrow> order_status" where
  "resolve_purchase_order_receiving_status lines =
     (if is_purchase_order_fully_processed lines then PO_FULLY_RECEIVED else PO_PARTIALLY_RECEIVED)"

definition resolve_requisition_line_status :: "requisition_line \<Rightarrow> requisition_line_status" where
  "resolve_requisition_line_status l =
     (if quantity_sourced l \<le> 0 then RL_OPEN
      else if quantity_sourced l \<ge> quantity_requested l then RL_FULLY_SOURCED
      else RL_PARTIALLY_SOURCED)"

section \<open>Drafts\<close>

definition announce_order :: "string \<Rightarrow> string \<Rightarrow> string \<Rightarrow> string \<Rightarrow> unit inv_op" where
  "announce_order action etype eid order_id =
     obind (record_audit inv_insert action etype eid) (\<lambda>_. emit ''inventory_purchase_orders_changed'' order_id)"

text \<open>The site and the supplier of an order, both active in the organization.\<close>

definition order_parties :: "inv_env \<Rightarrow> string \<Rightarrow> string \<Rightarrow> string \<Rightarrow> (site_ref \<times> party_ref) inv_op" where
  "order_parties env org site supplier =
     obind (reference_site env site) (\<lambda>x.
     obind (oguard (site_organization_id x \<noteq> org \<or> \<not> site_is_active x) (ValidationError ''INVENTORY_SITE_SCOPE_INVALID'')) (\<lambda>_.
     obind (reference_party env supplier) (\<lambda>p.
     obind (oguard (party_organization_id p \<noteq> org \<or> \<not> party_is_active p)
              (ValidationError ''INVENTORY_SUPPLIER_SCOPE_INVALID'')) (\<lambda>_.
     oret (x, p)))))"

definition prepare_order ::
  "inv_env \<Rightarrow> string \<Rightarrow> string \<Rightarrow> string option \<Rightarrow> string option \<Rightarrow> date option \<Rightarrow> date option \<Rightarrow> string \<Rightarrow> string
     \<Rightarrow> string option \<Rightarrow> purchase_order inv_op" where
  "prepare_order env site supplier currency source ordered expected reference notes number =
     obind (require_perm env ''inventory.manage'') (\<lambda>_.
     obind purchasing_organization (\<lambda>org.
     obind (order_parties env org site supplier) (\<lambda>(x, p).
     obind (validate_source_requisition source org) (\<lambda>requisition.
     obind (given_or_built number (build_number ''INV-PO-'' env)) (\<lambda>normalized_number.
     obind (olift (normalize_currency_code currency (site_currency_code x))) (\<lambda>code.
     obind (fresh_uuid (e_uuid env)) (\<lambda>new_id.
     oret (create_order_row new_id (e_now env) org normalized_number (site_id x) (party_id p) code
            (map_option rq_id requisition) ordered expected (normalize_optional_text (Some reference))
            (normalize_optional_text (Some notes))))))))))"

definition create_purchase_order ::
  "inv_env \<Rightarrow> string \<Rightarrow> string \<Rightarrow> string option \<Rightarrow> string option \<Rightarrow> date option \<Rightarrow> date option \<Rightarrow> string \<Rightarrow> string
     \<Rightarrow> string option \<Rightarrow> purchase_order inv_op" where
  "create_purchase_order env site supplier currency source ordered expected reference notes number =
     obind (prepare_order env site supplier currency source ordered expected reference notes number) (\<lambda>r.
     obind (try_integrity (\<lambda>_. ValidationError ''INVENTORY_PURCHASE_ORDER_NUMBER_EXISTS'')
              (committing inv_insert (doc_add (OrderRow r)))) (\<lambda>_.
     obind (announce_order ''inventory_purchase_order.create'' ''purchase_order'' (po_id r) (po_id r)) (\<lambda>_.
     oret r)))"

definition check_destination_storeroom :: "storeroom \<Rightarrow> purchase_order \<Rightarrow> unit inv_op" where
  "check_destination_storeroom room order =
     obind (oguard (sr_organization_id room \<noteq> po_organization_id order \<or> \<not> sr_is_active room)
              (ValidationError ''INVENTORY_PO_STOREROOM_SCOPE_INVALID'')) (\<lambda>_.
     obind (oguard (sr_site_id room \<noteq> po_site_id order) (ValidationError ''INVENTORY_PO_SITE_STOREROOM_MISMATCH'')) (\<lambda>_.
     oguard (\<not> allows_receiving room) (ValidationError ''INVENTORY_RECEIVING_FORBIDDEN'')))"

definition prepare_order_line ::
  "inv_env \<Rightarrow> string \<Rightarrow> string \<Rightarrow> string \<Rightarrow> rat option \<Rightarrow> string option \<Rightarrow> rat option \<Rightarrow> date option \<Rightarrow> string
     \<Rightarrow> string option \<Rightarrow> string \<Rightarrow> order_line inv_op" where
  "prepare_order_line env order_id item_id room_id quantity uom price expected description source notes =
     obind (require_perm env ''inventory.manage'') (\<lambda>_.
     obind (require_draft_purchase_order env order_id) (\<lambda>order.
     obind (get_item env item_id) (\<lambda>item.
     obind (oguard (si_organization_id item \<noteq> po_organization_id order \<or> \<not> si_is_active item)
              (ValidationError ''INVENTORY_PO_ITEM_SCOPE_INVALID'')) (\<lambda>_.
     obind (oguard (\<not> is_purchase_allowed item) (ValidationError ''INVENTORY_ITEM_PURCHASE_FORBIDDEN'')) (\<lambda>_.
     obind (get_storeroom env room_id) (\<lambda>room.
     obind (check_destination_storeroom room order) (\<lambda>_.
     obind (olift (normalize_uom (Some (uom_or_stock item uom)))) (\<lambda>normalized_uom.
     obind (olift (resolve_item_uom_factor item normalized_uom)) (\<lambda>_.
     obind (validate_source_requisition_line order item source quantity normalized_uom) (\<lambda>source_line.
     obind (doc_get (list_for_purchase_order (po_id order))) (\<lambda>lines.
     obind (olift (normalize_positive_quantity quantity)) (\<lambda>ordered.
     obind (olift (normalize_nonnegative_quantity price)) (\<lambda>normalized_price.
     obind (fresh_uuid (e_uuid env)) (\<lambda>new_id.
     oret (create_order_line new_id (po_id order) (int (length lines) + 1) (si_id item) (sr_id room)
            (text_or_default (Some description) (si_name item)) ordered normalized_uom normalized_price expected
            (map_option rl_id source_line) (normalize_optional_text (Some notes)))))))))))))))))"

definition add_purchase_order_line ::
  "inv_env \<Rightarrow> string \<Rightarrow> string \<Rightarrow> string \<Rightarrow> rat option \<Rightarrow> string option \<Rightarrow> rat option \<Rightarrow> date option \<Rightarrow> string
     \<Rightarrow> string option \<Rightarrow> string \<Rightarrow> order_line inv_op" where
  "add_purchase_order_line env order_id item_id room_id quantity uom price expected description source notes =
     obind (prepare_order_line env order_id item_id room_id quantity uom price expected description source notes) (\<lambda>l.
     obind (try_integrity (\<lambda>_. ValidationError ''INVENTORY_PURCHASE_ORDER_LINE_EXISTS'')
              (committing inv_insert (doc_add (OrderLineRow l)))) (\<lambda>_.
     obind (announce_order ''inventory_purchase_order_line.create'' ''purchase_order_line'' (pl_id l) (pl_order_id l)) (\<lambda>_.
     oret l)))"

section \<open>From the draft to the closing\<close>

definition check_order_transition :: "purchase_order \<Rightarrow> order_status \<Rightarrow> unit inv_op" where
  "check_order_transition r next =
     olift (validate_transition (order_status_value (po_status r)) (order_status_value next)
              PURCHASE_ORDER_STATUS_TRANSITIONS)"

definition submit_purchase_order :: "inv_env \<Rightarrow> string \<Rightarrow> purchase_order inv_op" where
  "submit_purchase_order env order_id =
     obind (require_perm env ''inventory.manage'') (\<lambda>_.
     obind (require_draft_purchase_order env order_id) (\<lambda>r.
     obind (doc_get (list_for_purchase_order (po_id r))) (\<lambda>lines.
     obind (oguard (lines = []) (ValidationError ''INVENTORY_PURCHASE_ORDER_LINES_REQUIRED'')) (\<lambda>_.
     obind (reference_site env (po_site_id r)) (\<lambda>_.
     obind (reference_party env (supplier_party_id r)) (\<lambda>_.
     obind (request_change env ''purchase_order.submit'' ''purchase_order'' (po_id r) None NoPayload False) (\<lambda>request.
     obind (check_order_transition r PO_SUBMITTED) (\<lambda>_.
     obind (update_order_row (r\<lparr>po_status := PO_SUBMITTED, po_approval_request_id := Some (ap_id request),
              po_submitted_at := Some (e_now env), po_updated_at := Some (e_now env)\<rparr>)) (\<lambda>saved.
     obind (commit inv_insert) (\<lambda>_.
     obind (record_audit inv_insert ''inventory_purchase_order.submit'' ''purchase_order'' (po_id r)) (\<lambda>_.
     obind (emit ''approvals_changed'' (ap_id request)) (\<lambda>_.
     obind (emit ''inventory_purchase_orders_changed'' (po_id r)) (\<lambda>_.
     oret saved)))))))))))))"

definition prepare_order_update ::
  "inv_env \<Rightarrow> string \<Rightarrow> string option \<Rightarrow> string option \<Rightarrow> string option \<Rightarrow> string option \<Rightarrow> date option
     \<Rightarrow> string option \<Rightarrow> string option \<Rightarrow> int option \<Rightarrow> purchase_order inv_op" where
  "prepare_order_update env order_id site supplier currency source expected_delivery reference notes expected =
     obind (require_perm env ''inventory.manage'') (\<lambda>_.
     obind (require_draft_purchase_order env order_id) (\<lambda>r.
     obind (check_version expected (po_version r)) (\<lambda>_.
     obind purchasing_organization (\<lambda>org.
     obind (order_parties env org (text_or_default site (po_site_id r)) (text_or_default supplier (supplier_party_id r))) (\<lambda>(x, p).
     obind (validate_source_requisition source org) (\<lambda>requisition.
     obind (olift (normalize_currency_code currency (site_currency_code x))) (\<lambda>code.
     oret (r\<lparr>po_site_id := site_id x, supplier_party_id := party_id p, currency_code := code,
             source_requisition_id := map_option rq_id requisition, expected_delivery_date := expected_delivery,
             supplier_reference := (case reference of None \<Rightarrow> supplier_reference r | Some _ \<Rightarrow> normalize_optional_text reference),
             po_notes := (case notes of None \<Rightarrow> po_notes r | Some _ \<Rightarrow> normalize_optional_text notes),
             po_updated_at := Some (e_now env)\<rparr>))))))))"

text \<open>The \<open>try\<close> block and what follows it in every operation that writes one order.\<close>

definition save_order :: "string \<Rightarrow> purchase_order \<Rightarrow> purchase_order inv_op" where
  "save_order action r =
     obind (try_rollback (committing inv_insert (update_order_row r))) (\<lambda>saved.
     obind (announce_order action ''purchase_order'' (po_id r) (po_id r)) (\<lambda>_.
     oret saved))"

definition update_purchase_order ::
  "inv_env \<Rightarrow> string \<Rightarrow> string option \<Rightarrow> string option \<Rightarrow> string option \<Rightarrow> string option \<Rightarrow> date option
     \<Rightarrow> string option \<Rightarrow> string option \<Rightarrow> int option \<Rightarrow> purchase_order inv_op" where
  "update_purchase_order env order_id site supplier currency source expected_delivery reference notes expected =
     obind (prepare_order_update env order_id site supplier currency source expected_delivery reference notes expected)
       (save_order ''inventory_purchase_order.update'')"

definition cancel_purchase_order :: "inv_env \<Rightarrow> string \<Rightarrow> int option \<Rightarrow> purchase_order inv_op" where
  "cancel_purchase_order env order_id expected =
     obind (require_perm env ''inventory.manage'') (\<lambda>_.
     obind (require_draft_purchase_order env order_id) (\<lambda>r.
     obind (check_version expected (po_version r)) (\<lambda>_.
     obind (check_order_transition r PO_CANCELLED) (\<lambda>_.
     obind (doc_get (list_for_purchase_order (po_id r))) (\<lambda>lines.
     obind (ofor (\<lambda>l. update_order_line (l\<lparr>pl_status := PL_CANCELLED\<rparr>)) lines) (\<lambda>_.
     save_order ''inventory_purchase_order.cancel''
       (r\<lparr>po_status := PO_CANCELLED, po_cancelled_at := Some (e_now env), po_updated_at := Some (e_now env)\<rparr>)))))))"

text \<open>\<open>datetime.date()\<close> of an instant in microseconds since 1 January 1970.\<close>

definition date_of_datetime :: "datetime \<Rightarrow> date" where
  "date_of_datetime t = 719163 + t div 86400000000"

definition send_purchase_order :: "inv_env \<Rightarrow> string \<Rightarrow> purchase_order inv_op" where
  "send_purchase_order env order_id =
     obind (require_perm env ''inventory.manage'') (\<lambda>_.
     obind (get_purchase_order env order_id) (\<lambda>r.
     obind (check_order_transition r PO_SENT) (\<lambda>_.
     save_order ''inventory_purchase_order.send''
       (r\<lparr>po_status := PO_SENT, sent_at := Some (e_now env),
          order_date := (case order_date r of None \<Rightarrow> Some (date_of_datetime (e_now env)) | Some d \<Rightarrow> Some d),
          po_updated_at := Some (e_now env)\<rparr>))))"

definition close_purchase_order :: "inv_env \<Rightarrow> string \<Rightarrow> purchase_order inv_op" where
  "close_purchase_order env order_id =
     obind (require_perm env ''inventory.manage'') (\<lambda>_.
     obind (get_purchase_order env order_id) (\<lambda>r.
     obind (doc_get (list_for_purchase_order (po_id r))) (\<lambda>lines.
     obind (oguard (lines = []) (ValidationError ''INVENTORY_PURCHASE_ORDER_LINES_REQUIRED'')) (\<lambda>_.
     obind (oguard (\<not> is_purchase_order_fully_processed lines)
              (ValidationError ''INVENTORY_PURCHASE_ORDER_NOT_FULLY_PROCESSED'')) (\<lambda>_.
     obind (check_order_transition r PO_CLOSED) (\<lambda>_.
     save_order ''inventory_purchase_order.close''
       (r\<lparr>po_status := PO_CLOSED, closed_at := Some (e_now env), po_updated_at := Some (e_now env)\<rparr>)))))))"

end
