(* ===== verification/Proc_Receiving.thy ===== *)
theory Proc_Receiving
  imports Proc_Purchasing
begin

text \<open>
  The purchasing service, second part (\<^verbatim>\<open>purchasing_receiving.py\<close> with
  \<open>_adjust_on_order_balance\<close> and \<open>_refresh_requisition_status\<close> of
  \<^verbatim>\<open>purchasing_support.py\<close>): the decision on an order, which puts its quantities
  on order, and receipts, which take them off again and post the accepted part to stock. The
  order in which Python walks a set of identifiers is left open by the language: it is the
  argument \<open>visit\<close>.
\<close>

definition get_item_for_internal_use :: "string \<Rightarrow> stock_item inv_op" where
  "get_item_for_internal_use item_id =
     obind active_organization (\<lambda>org.
     obind (oget (\<lambda>s. find_row si_id (db_items (s_working s)) item_id)) (\<lambda>row.
       case row of
         None \<Rightarrow> oraise (NotFoundError ''INVENTORY_ITEM_NOT_FOUND'')
       | Some item \<Rightarrow>
           (if si_organization_id item \<noteq> org then oraise (NotFoundError ''INVENTORY_ITEM_NOT_FOUND'')
            else oret item)))"

section \<open>Quantities on order\<close>

definition adjust_on_order_balance ::
  "inv_env \<Rightarrow> string \<Rightarrow> stock_item \<Rightarrow> string \<Rightarrow> string \<Rightarrow> rat \<Rightarrow> datetime \<Rightarrow> unit inv_op" where
  "adjust_on_order_balance env org item room_id uom delta effective_at =
     (if delta = 0 then oret ()
      else
        obind (olift (convert_item_quantity item delta uom (stock_uom item))) (\<lambda>delta_in_stock_uom.
        obind (oget (\<lambda>s. get_for_stock_position org (si_id item) room_id (s_working s))) (\<lambda>found.
        obind (case found of
                 Some b \<Rightarrow> oret (b, False)
               | None \<Rightarrow>
                   obind (fresh_uuid (e_uuid env)) (\<lambda>new_id.
                   oret (create_balance new_id (e_now env) org (si_id item) room_id (stock_uom item), True))) (\<lambda>(b, is_new).
        (let new_on_order = on_order_qty b + delta_in_stock_uom in
         obind (oguard (new_on_order < 0) (ValidationError ''INVENTORY_NEGATIVE_ON_ORDER'')) (\<lambda>_.
         (let b' = b\<lparr>on_order_qty := new_on_order, sb_uom := stock_uom item, sb_updated_at := Some effective_at\<rparr> in
          if is_new then session_add (BalanceRow b') else update_balance b')))))))"

text \<open>The balance of a position, if a query finds one, joins the touched ones.\<close>

definition touch_balance :: "string \<Rightarrow> string \<Rightarrow> string \<Rightarrow> string list \<Rightarrow> string list inv_op" where
  "touch_balance org item_id room_id touched =
     obind (oget (\<lambda>s. get_for_stock_position org item_id room_id (s_working s))) (\<lambda>found.
     oret (case found of None \<Rightarrow> touched | Some b \<Rightarrow> List.insert (sb_id b) touched))"

section \<open>The decision on an order\<close>

definition refresh_requisition_status :: "inv_env \<Rightarrow> requisition \<Rightarrow> unit inv_op" where
  "refresh_requisition_status env r =
     obind (doc_get (list_for_requisition (rq_id r))) (\<lambda>lines.
       if lines = [] then oret ()
       else
         (let next_status =
            (if list_all (\<lambda>l. rl_status l = RL_FULLY_SOURCED) lines then RQ_FULLY_SOURCED
             else if list_ex (\<lambda>l. quantity_sourced l > 0) lines then RQ_PARTIALLY_SOURCED
             else rq_status r) in
          if next_status = rq_status r then oret ()
          else
            obind (check_requisition_transition r next_status) (\<lambda>_.
            obind (update_requisition_row (r\<lparr>rq_status := next_status, rq_updated_at := Some (e_now env)\<rparr>)) (\<lambda>_.
            oret ()))))"

definition awaiting_order :: "approval_request \<Rightarrow> purchase_order inv_op" where
  "awaiting_order request =
     obind (doc_get (get_order_row (ap_entity_id request))) (\<lambda>row.
       case row of
         None \<Rightarrow> oraise (NotFoundError ''INVENTORY_PURCHASE_ORDER_NOT_FOUND'')
       | Some r \<Rightarrow>
           obind (oguard (po_approval_request_id r \<noteq> Some (ap_id request))
                    (ValidationError ''INVENTORY_PURCHASE_ORDER_APPROVAL_MISMATCH'')) (\<lambda>_.
           obind (oguard (po_status r \<notin> {PO_SUBMITTED, PO_UNDER_REVIEW})
                    (ValidationError ''INVENTORY_PURCHASE_ORDER_STATUS_INVALID'')) (\<lambda>_.
           oret r)))"

text \<open>The demand an approved line takes over; the requisition of the demand becomes touched.\<close>

definition source_requisition_line :: "order_line \<Rightarrow> string list \<Rightarrow> string list inv_op" where
  "source_requisition_line l touched =
     (case source_requisition_line_id l of
        None \<Rightarrow> oret touched
      | Some i \<Rightarrow>
          (if i = [] then oret touched
           else
             obind (require_requisition_line i) (\<lambda>rl.
             obind (get_item_for_internal_use (pl_stock_item_id l)) (\<lambda>item.
             obind (olift (convert_item_quantity item (quantity_ordered l) (pl_uom l) (rl_uom rl))) (\<lambda>sourced.
             (let new_sourced = quantity_sourced rl + sourced in
              obind (oguard (new_sourced > quantity_requested rl) (ValidationError ''INVENTORY_REQUISITION_LINE_OVERSOURCED'')) (\<lambda>_.
              (let rl1 = rl\<lparr>quantity_sourced := new_sourced\<rparr> in
               obind (update_requisition_line (rl1\<lparr>rl_status := resolve_requisition_line_status rl1\<rparr>)) (\<lambda>_.
               oret (List.insert (rl_requisition_id rl) touched))))))))))"

fun approve_lines ::
  "inv_env \<Rightarrow> purchase_order \<Rightarrow> order_line list \<Rightarrow> string list \<Rightarrow> string list \<Rightarrow> (string list \<times> string list) inv_op" where
  "approve_lines env order [] requisitions balances = oret (requisitions, balances)"
| "approve_lines env order (l # ls) requisitions balances =
     obind (update_order_line (l\<lparr>pl_status := PL_OPEN\<rparr>)) (\<lambda>_.
     obind (get_item_for_internal_use (pl_stock_item_id l)) (\<lambda>item.
     obind (adjust_on_order_balance env (po_organization_id order) item (destination_storeroom_id l) (pl_uom l)
              (quantity_ordered l) (e_now env)) (\<lambda>_.
     obind (touch_balance (po_organization_id order) (pl_stock_item_id l) (destination_storeroom_id l) balances) (\<lambda>balances'.
     obind (source_requisition_line l requisitions) (\<lambda>requisitions'.
     approve_lines env order ls requisitions' balances')))))"

definition refresh_requisition :: "inv_env \<Rightarrow> string \<Rightarrow> unit inv_op" where
  "refresh_requisition env i =
     obind (doc_get (get_requisition_row i)) (\<lambda>row.
       case row of None \<Rightarrow> oret () | Some r \<Rightarrow> refresh_requisition_status env r)"

definition apply_submitted_purchase_order_approval ::
  "inv_env \<Rightarrow> (string list \<Rightarrow> string list) \<Rightarrow> approval_request \<Rightarrow> unit inv_op" where
  "apply_submitted_purchase_order_approval env visit request =
     obind (awaiting_order request) (\<lambda>r.
     obind (check_order_transition r PO_APPROVED) (\<lambda>_.
     obind (update_order_row (r\<lparr>po_status := PO_APPROVED, po_approved_at := Some (e_now env),
              po_updated_at := Some (e_now env)\<rparr>)) (\<lambda>saved.
     obind (doc_get (list_for_purchase_order (po_id r))) (\<lambda>lines.
     obind (approve_lines env saved lines [] []) (\<lambda>(requisitions, balances).
     obind (ofor (refresh_requisition env) (visit requisitions)) (\<lambda>_.
     obind (announce_order ''inventory_purchase_order.approve'' ''purchase_order'' (po_id r) (po_id r)) (\<lambda>_.
     obind (ofor (emit ''inventory_requisitions_changed'') (visit requisitions)) (\<lambda>_.
     ofor (emit ''inventory_balances_changed'') (visit balances)))))))))"

definition apply_submitted_purchase_order_rejection :: "inv_env \<Rightarrow> approval_request \<Rightarrow> unit inv_op" where
  "apply_submitted_purchase_order_rejection env request =
     obind (awaiting_order request) (\<lambda>r.
     obind (check_order_transition r PO_REJECTED) (\<lambda>_.
     obind (update_order_row (r\<lparr>po_status := PO_REJECTED, po_updated_at := Some (e_now env)\<rparr>)) (\<lambda>_.
     obind (doc_get (list_for_purchase_order (po_id r))) (\<lambda>lines.
     obind (ofor (\<lambda>l. update_order_line (l\<lparr>pl_status := PL_CANCELLED\<rparr>)) lines) (\<lambda>_.
     announce_order ''inventory_purchase_order.reject'' ''purchase_order'' (po_id r) (po_id r))))))"

text \<open>The handlers \<^verbatim>\<open>inventory_procurement_bundle.py\<close> registers with the approval service.\<close>

definition procurement_apply_handlers :: "inv_env \<Rightarrow> (string list \<Rightarrow> string list) \<Rightarrow> handlers" where
  "procurement_apply_handlers env visit =
     [''purchase_requisition.submit'' \<mapsto> apply_submitted_requisition_approval env,
      ''purchase_order.submit'' \<mapsto> apply_submitted_purchase_order_approval env visit]"

definition procurement_reject_handlers :: "inv_env \<Rightarrow> handlers" where
  "procurement_reject_handlers env =
     [''purchase_requisition.submit'' \<mapsto> apply_submitted_requisition_rejection env,
      ''purchase_order.submit'' \<mapsto> apply_submitted_purchase_order_rejection env]"

section \<open>Receipts\<close>

text \<open>
  One entry of \<open>receipt_lines\<close>. A missing unit cost is the price of the order line; a unit
  cost that is present and \<open>None\<close> is zero.
\<close>

record receipt_payload =
  pay_line_id :: string
  pay_accepted :: "rat option"
  pay_rejected :: "rat option"
  pay_unit_cost :: "rat option option"
  pay_lot_number :: string
  pay_serial_number :: string
  pay_expiry_date :: "date option"
  pay_notes :: string

type_synonym receiving = "(string, order_line) dict \<times> stock_transaction list \<times> string list"

definition received_line :: "rat \<Rightarrow> rat \<Rightarrow> order_line \<Rightarrow> order_line" where
  "received_line accepted rejected l =
     (let l' = l\<lparr>quantity_received := quantity_received l + accepted, quantity_rejected := quantity_rejected l + rejected\<rparr> in
      l'\<lparr>pl_status := resolve_purchase_order_line_status True l'\<rparr>)"

text \<open>The guards of one entry, up to the accepted and the rejected quantity and the receipt line.\<close>

definition check_receipt_line ::
  "inv_env \<Rightarrow> datetime \<Rightarrow> string \<Rightarrow> string \<Rightarrow> int \<Rightarrow> receipt_payload \<Rightarrow> (string, order_line) dict
     \<Rightarrow> (order_line \<times> receipt_line) inv_op" where
  "check_receipt_line env receipt_at reference receipt_id index payload lines =
     (let line_id = normalize_optional_text (Some (pay_line_id payload)) in
      obind (oguard (line_id = []) (ValidationError ''INVENTORY_RECEIPT_LINE_ID_REQUIRED'')) (\<lambda>_.
        case map_of lines line_id of
          None \<Rightarrow> oraise (ValidationError ''INVENTORY_RECEIPT_LINE_SCOPE_INVALID'')
        | Some l \<Rightarrow>
            obind (get_item_for_internal_use (pl_stock_item_id l)) (\<lambda>item.
            obind (get_storeroom env (destination_storeroom_id l)) (\<lambda>room.
            obind (oguard (requires_supplier_reference_for_receipt room \<and> reference = [])
                     (ValidationError ''INVENTORY_RECEIPT_REFERENCE_REQUIRED'')) (\<lambda>_.
            obind (olift (normalize_nonnegative_quantity (pay_accepted payload))) (\<lambda>accepted.
            obind (olift (normalize_nonnegative_quantity (pay_rejected payload))) (\<lambda>rejected.
            obind (oguard (accepted + rejected \<le> 0) (ValidationError ''INVENTORY_RECEIPT_QUANTITY_REQUIRED'')) (\<lambda>_.
            obind (oguard (accepted + rejected > line_outstanding_qty l)
                     (ValidationError ''INVENTORY_RECEIPT_EXCEEDS_OPEN_QTY'')) (\<lambda>_.
            obind (olift (normalize_nonnegative_quantity
                     (case pay_unit_cost payload of None \<Rightarrow> Some (unit_price l) | Some c \<Rightarrow> c))) (\<lambda>cost.
            (let lot = normalize_optional_text (Some (pay_lot_number payload));
                 serial = normalize_optional_text (Some (pay_serial_number payload)) in
             obind (olift (validate_receipt_tracking item accepted lot serial (pay_expiry_date payload)
                      (date_of_datetime receipt_at))) (\<lambda>_.
             obind (fresh_uuid (e_uuid env)) (\<lambda>new_id.
             oret (l, \<lparr>rcl_id = new_id, rcl_header_id = receipt_id, rcl_order_line_id = pl_id l, rcl_number = index,
                       rcl_stock_item_id = pl_stock_item_id l, rcl_storeroom_id = destination_storeroom_id l,
                       quantity_accepted = accepted, rcl_quantity_rejected = rejected, rcl_uom = pl_uom l,
                       rcl_unit_cost = cost, lot_number = lot, serial_number = serial,
                       expiry_date = pay_expiry_date payload,
                       rcl_notes = normalize_optional_text (Some (pay_notes payload))\<rparr>))))))))))))))"

text \<open>The accepted part goes to stock.\<close>

definition post_accepted ::
  "inv_env \<Rightarrow> datetime \<Rightarrow> string \<Rightarrow> receipt_line \<Rightarrow> stock_transaction list \<Rightarrow> string list
     \<Rightarrow> (stock_transaction list \<times> string list) inv_op" where
  "post_accepted env receipt_at org rl txns touched =
     (if quantity_accepted rl > 0 then
        obind (post_adjustment env (rcl_stock_item_id rl) (rcl_storeroom_id rl) (Some (quantity_accepted rl)) ''INCREASE''
                 (Some (rcl_uom rl)) (Some (rcl_unit_cost rl)) (Some receipt_at) ''inventory_receipt'' (rcl_id rl)
                 (rcl_notes rl) False) (\<lambda>txn.
        obind (touch_balance org (rcl_stock_item_id rl) (rcl_storeroom_id rl) touched) (\<lambda>touched'.
        oret (txns @ [txn], touched')))
      else oret (txns, touched))"

text \<open>What follows the guards of one entry.\<close>

definition record_received ::
  "inv_env \<Rightarrow> purchase_order \<Rightarrow> datetime \<Rightarrow> order_line \<Rightarrow> receipt_line \<Rightarrow> receiving \<Rightarrow> receiving inv_op" where
  "record_received env order receipt_at l rl = (\<lambda>(lines, txns, touched).
     obind (doc_add (ReceiptLineRow rl)) (\<lambda>_.
     (let l' = received_line (quantity_accepted rl) (rcl_quantity_rejected rl) l in
      obind (update_order_line l') (\<lambda>_.
      obind (post_accepted env receipt_at (po_organization_id order) rl txns touched) (\<lambda>(txns', touched').
      obind (get_item_for_internal_use (pl_stock_item_id l)) (\<lambda>item.
      obind (adjust_on_order_balance env (po_organization_id order) item (destination_storeroom_id l) (pl_uom l)
               (- (quantity_accepted rl + rcl_quantity_rejected rl)) receipt_at) (\<lambda>_.
      obind (touch_balance (po_organization_id order) (pl_stock_item_id l) (destination_storeroom_id l) touched') (\<lambda>touched''.
      oret (AList.update (pl_id l') l' lines, txns', touched'')))))))))"

definition receive_line ::
  "inv_env \<Rightarrow> purchase_order \<Rightarrow> datetime \<Rightarrow> string \<Rightarrow> string \<Rightarrow> int \<Rightarrow> receipt_payload \<Rightarrow> receiving \<Rightarrow> receiving inv_op" where
  "receive_line env order receipt_at reference receipt_id index payload acc =
     obind (check_receipt_line env receipt_at reference receipt_id index payload (fst acc)) (\<lambda>(l, rl).
     record_received env order receipt_at l rl acc)"

fun receive_lines ::
  "inv_env \<Rightarrow> purchase_order \<Rightarrow> datetime \<Rightarrow> string \<Rightarrow> string \<Rightarrow> int \<Rightarrow> receipt_payload list \<Rightarrow> receiving \<Rightarrow> receiving inv_op" where
  "receive_lines env order receipt_at reference receipt_id index [] acc = oret acc"
| "receive_lines env order receipt_at reference receipt_id index (p # ps) acc =
     obind (receive_line env order receipt_at reference receipt_id index p acc) (\<lambda>acc'.
     receive_lines env order receipt_at reference receipt_id (index + 1) ps acc')"

definition prepare_receipt ::
  "inv_env \<Rightarrow> string \<Rightarrow> receipt_payload list \<Rightarrow> datetime option \<Rightarrow> string \<Rightarrow> string \<Rightarrow> string option
     \<Rightarrow> (purchase_order \<times> (string, order_line) dict \<times> receipt_header) inv_op" where
  "prepare_receipt env order_id payloads receipt_at reference notes number =
     obind (require_perm env ''inventory.manage'') (\<lambda>_.
     obind (get_purchase_order env order_id) (\<lambda>order.
     obind (oguard (po_status order \<notin> {PO_APPROVED, PO_SENT, PO_PARTIALLY_RECEIVED})
              (ValidationError ''INVENTORY_PURCHASE_ORDER_RECEIVING_STATUS_INVALID'')) (\<lambda>_.
     obind (doc_get (list_for_purchase_order (po_id order))) (\<lambda>lines.
     obind (oguard (payloads = []) (ValidationError ''INVENTORY_RECEIPT_LINES_REQUIRED'')) (\<lambda>_.
     obind (given_or_built number (build_number ''INV-RCV-'' env)) (\<lambda>normalized_number.
     obind (fresh_uuid (e_uuid env)) (\<lambda>new_id.
     oret (order, dict_of pl_id lines,
           \<lparr>rc_id = new_id, rc_organization_id = po_organization_id order, receipt_number = normalized_number,
            rc_order_id = po_id order, received_site_id = po_site_id order,
            rc_supplier_party_id = supplier_party_id order,
            receipt_date = (case receipt_at of None \<Rightarrow> e_now env | Some x \<Rightarrow> x),
            supplier_delivery_reference = normalize_optional_text (Some reference),
            received_by_user_id = map_option p_user_id (principal_of env), received_by_username = performer_name env,
            rc_notes = normalize_optional_text (Some notes), rc_created_at = e_now env\<rparr>))))))))"

definition receipt_body ::
  "inv_env \<Rightarrow> purchase_order \<Rightarrow> (string, order_line) dict \<Rightarrow> receipt_header \<Rightarrow> receipt_payload list
     \<Rightarrow> (stock_transaction list \<times> string list) inv_op" where
  "receipt_body env order lines receipt payloads =
     obind (doc_add (ReceiptRow receipt)) (\<lambda>_.
     obind (session_flush inv_insert) (\<lambda>_.
     obind (receive_lines env order (receipt_date receipt) (supplier_delivery_reference receipt) (rc_id receipt) 1 payloads
              (lines, [], [])) (\<lambda>(lines', txns, touched).
     obind (doc_get (list_for_purchase_order (po_id order))) (\<lambda>now_lines.
     obind (update_order_row (order\<lparr>po_status := resolve_purchase_order_receiving_status now_lines,
              po_updated_at := Some (receipt_date receipt)\<rparr>)) (\<lambda>_.
     oret (txns, touched))))))"

definition announce_receipt ::
  "(string list \<Rightarrow> string list) \<Rightarrow> purchase_order \<Rightarrow> receipt_header \<Rightarrow> stock_transaction list \<Rightarrow> string list
     \<Rightarrow> receipt_header inv_op" where
  "announce_receipt visit order receipt txns touched =
     obind (record_audit inv_insert ''inventory_receipt.post'' ''inventory_receipt'' (rc_id receipt)) (\<lambda>_.
     obind (ofor record_transaction_audit txns) (\<lambda>_.
     obind (emit ''inventory_receipts_changed'' (rc_id receipt)) (\<lambda>_.
     obind (emit ''inventory_purchase_orders_changed'' (po_id order)) (\<lambda>_.
     obind (ofor (emit ''inventory_balances_changed'') (visit touched)) (\<lambda>_.
     oret receipt)))))"

definition post_receipt ::
  "inv_env \<Rightarrow> (string list \<Rightarrow> string list) \<Rightarrow> string \<Rightarrow> receipt_payload list \<Rightarrow> datetime option \<Rightarrow> string \<Rightarrow> string
     \<Rightarrow> string option \<Rightarrow> receipt_header inv_op" where
  "post_receipt env visit order_id payloads receipt_at reference notes number =
     obind (prepare_receipt env order_id payloads receipt_at reference notes number) (\<lambda>(order, lines, receipt).
     obind (try_rollback (committing inv_insert (receipt_body env order lines receipt payloads))) (\<lambda>(txns, touched).
     announce_receipt visit order receipt txns touched))"

end
