(* ===== verification/PM_Assertions.thy ===== *)
theory PM_Assertions
  imports PM_Preserves
begin

text \<open>
  A program logic for service operations that may leave the transaction open when they raise.
  \<open>held I A m B\<close>: from a state with the invariant \<open>I\<close> whose working rows satisfy
  \<open>A\<close>, \<open>m\<close> ends in a state with \<open>I\<close>, by a value or by an exception, and a value
  \<open>x\<close> comes with \<open>B x\<close> on the working rows. The rules follow the text of an operation
  from its first statement on.
\<close>

definition held ::
  "(('db, 'ins) session \<Rightarrow> bool) \<Rightarrow> ('db \<Rightarrow> bool) \<Rightarrow> ('db, 'ins, 'a) sop \<Rightarrow> ('a \<Rightarrow> 'db \<Rightarrow> bool) \<Rightarrow> bool" where
  "held I A m B \<longleftrightarrow>
     (\<forall>s r t. I s \<longrightarrow> A (s_working s) \<longrightarrow> m s = (r, t) \<longrightarrow> I t \<and> (\<forall>x. r = Inr x \<longrightarrow> B x (s_working t)))"

named_theorems held_intros \<open>rules that follow an operation from its first statement\<close>

lemma heldI:
  "(\<And>s r t. I s \<Longrightarrow> A (s_working s) \<Longrightarrow> m s = (r, t) \<Longrightarrow> I t \<and> (\<forall>x. r = Inr x \<longrightarrow> B x (s_working t))) \<Longrightarrow> held I A m B"
  unfolding held_def by blast

lemma heldD:
  "held I A m B \<Longrightarrow> I s \<Longrightarrow> A (s_working s) \<Longrightarrow> m s = (r, t) \<Longrightarrow> I t \<and> (\<forall>x. r = Inr x \<longrightarrow> B x (s_working t))"
  unfolding held_def by blast

lemma held_bind:
  assumes "held I A m B" "\<And>x. held I (B x) (f x) C"
  shows "held I A (obind m f) C"
proof (rule heldI)
  fix s r t assume I: "I s" "A (s_working s)" and eq: "obind m f s = (r, t)"
  from eq show "I t \<and> (\<forall>x. r = Inr x \<longrightarrow> C x (s_working t))"
  proof (cases rule: obindE)
    case (raised err)
    then show ?thesis using heldD [OF assms(1) I] by blast
  next
    case (returned x u)
    then show ?thesis using heldD [OF assms(1) I returned(1)] heldD [OF assms(2) _ _ returned(2)] by blast
  qed
qed

lemma held_weaken: "held I A m B \<Longrightarrow> (\<And>w. A' w \<Longrightarrow> A w) \<Longrightarrow> (\<And>x w. B x w \<Longrightarrow> B' x w) \<Longrightarrow> held I A' m B'"
  unfolding held_def by blast

text \<open>A fact that does not mention the rows moves to the context.\<close>

lemma held_fact:
  assumes "\<And>w. A w \<Longrightarrow> Q" "Q \<Longrightarrow> held I A m B"
  shows "held I A m B"
  using assms unfolding held_def by blast

lemma held_conj_fact: "(Q \<Longrightarrow> held I A m B) \<Longrightarrow> held I (\<lambda>w. A w \<and> Q) m B"
  by (rule held_fact) (auto intro: held_weaken)

lemma held_yields: "yields I m Q \<Longrightarrow> held I A m (\<lambda>x _. Q x)"
  unfolding held_def yields_def by blast

lemma held_preserves: "preserves I m \<Longrightarrow> held I A m (\<lambda>_ _. True)"
  unfolding held_def preserves_def by blast

lemma preserves_held: "held I (\<lambda>_. True) m B \<Longrightarrow> preserves I m"
  unfolding held_def preserves_def by blast

lemma held_ret [held_intros]: "(\<And>w. A w \<Longrightarrow> B x w) \<Longrightarrow> held I A (oret x) B"
  by (auto simp: held_def)

lemma held_raise [held_intros]: "held I A (oraise err) B"
  by (auto simp: held_def)

lemma held_guard [held_intros]:
  "(\<not> b \<Longrightarrow> held I A (f ()) C) \<Longrightarrow> held I A (obind (oguard b err) f) C"
  by (auto simp: held_def oguard_def obind_def olift_def raise_if_def)

lemma held_lift [held_intros]:
  "(\<And>x. r = Inr x \<Longrightarrow> held I A (f x) C) \<Longrightarrow> held I A (obind (olift r) f) C"
  by (cases r) (auto simp: held_def obind_def olift_def)

lemma held_split [held_intros]:
  "(c \<Longrightarrow> held I A a B) \<Longrightarrow> (\<not> c \<Longrightarrow> held I A b B) \<Longrightarrow> held I A (if c then a else b) B"
  "(z = None \<Longrightarrow> held I A a B) \<Longrightarrow> (\<And>x. z = Some x \<Longrightarrow> held I A (f x) B) \<Longrightarrow> held I A (case z of None \<Rightarrow> a | Some x \<Rightarrow> f x) B"
  "(\<And>x y. p = (x, y) \<Longrightarrow> held I A (g x y) B) \<Longrightarrow> held I A (case p of (x, y) \<Rightarrow> g x y) B"
  "held I A (h v) B \<Longrightarrow> held I A (let x = v in h x) B"
  by (simp_all split: option.splits prod.splits)

lemma held_get [held_intros]:
  "(\<And>x. held I (\<lambda>w. A w \<and> x = f w) (g x) C) \<Longrightarrow> held I A (obind (oget (\<lambda>s. f (s_working s))) g) C"
  unfolding held_def obind_def oget_def by fastforce

text \<open>A neutral operation leaves the rows alone: what was known of them stays.\<close>

lemma tables_neutral:
  assumes "neutral m" "tables P ok s" "m s = (r, t)"
  shows "tables P ok t \<and> s_working t = s_working s"
  using neutralD [OF assms(1,3)] assms(2) by (simp add: tables_def)

lemma held_neutral: "neutral m \<Longrightarrow> held (tables P ok) A m (\<lambda>_. A)"
  using tables_neutral unfolding held_def by (metis (no_types, lifting))

lemma held_neutral_bind [held_intros]:
  "neutral m \<Longrightarrow> (\<And>x. held (tables P ok) A (f x) C) \<Longrightarrow> held (tables P ok) A (obind m f) C"
  by (rule held_bind [OF held_neutral])

lemma held_emit_last [held_intros]: "held (tables P ok) A (emit signal i) (\<lambda>_. A)"
  unfolding held_def using tables_updates(1) by auto

lemma held_add_last [held_intros]: "ok x \<Longrightarrow> held (tables P ok) A (session_add x) (\<lambda>_. A)"
  unfolding held_def by (simp add: tables_def)

lemmas held_emit [held_intros] = held_bind [OF held_emit_last]
lemmas held_add [held_intros] = held_bind [OF held_add_last]

text \<open>Loops with an assertion that every round keeps.\<close>

lemma held_for:
  assumes "\<And>x. x \<in> set xs \<Longrightarrow> held I A (f x) (\<lambda>_. A)"
  shows "held I A (ofor f xs) (\<lambda>_. A)"
  using assms
proof (induction xs)
  case Nil
  then show ?case by (auto intro: held_intros)
next
  case (Cons x xs)
  then show ?case by (auto intro!: held_bind)
qed

lemma held_try [held_intros]:
  assumes "held (tables P ok) A m B"
  shows "held (tables P ok) A (try_integrity h m) B" "held (tables P ok) A (try_rollback m) B"
proof -
  show "held (tables P ok) A (try_integrity h m) B"
  proof (rule heldI)
    fix s r t assume s: "tables P ok s" "A (s_working s)" and "try_integrity h m s = (r, t)"
    from this(3) show "tables P ok t \<and> (\<forall>x. r = Inr x \<longrightarrow> B x (s_working t))"
    proof (cases rule: try_integrity_cases)
      case (raised err u)
      then show ?thesis using heldD [OF assms s raised(1)] tables_rolled_back by fastforce
    next
      case (returned x)
      then show ?thesis using heldD [OF assms s returned(1)] by simp
    qed
  qed
  show "held (tables P ok) A (try_rollback m) B"
  proof (rule heldI)
    fix s r t assume s: "tables P ok s" "A (s_working s)" and "try_rollback m s = (r, t)"
    from this(3) show "tables P ok t \<and> (\<forall>x. r = Inr x \<longrightarrow> B x (s_working t))"
    proof (cases rule: try_rollback_cases)
      case (raised err u)
      then show ?thesis using heldD [OF assms s raised(1)] tables_rolled_back by fastforce
    next
      case (returned x)
      then show ?thesis using heldD [OF assms s returned(1)] by simp
    qed
  qed
qed

section \<open>What successful operations do to the working rows\<close>

text \<open>Every value of the operation comes with rows related to the old ones.\<close>

definition advances :: "('db \<Rightarrow> 'db \<Rightarrow> bool) \<Rightarrow> ('db, 'ins, 'a) sop \<Rightarrow> bool" where
  "advances R m \<longleftrightarrow> (\<forall>s x t. m s = (Inr x, t) \<longrightarrow> R (s_working s) (s_working t))"

lemma advancesD: "advances R m \<Longrightarrow> m s = (Inr x, t) \<Longrightarrow> R (s_working s) (s_working t)"
  unfolding advances_def by blast

text \<open>A reflexive and transitive relation that every insert respects.\<close>

locale row_history =
  fixes ins :: "'ins \<Rightarrow> 'db \<Rightarrow> 'db result" and R :: "'db \<Rightarrow> 'db \<Rightarrow> bool"
  assumes refl: "R db db" and trans: "R a b \<Longrightarrow> R b c \<Longrightarrow> R a c" and insert: "ins x db = Inr db' \<Longrightarrow> R db db'"
begin

lemma flush_rows: "rfold ins xs db = Inr db' \<Longrightarrow> R db db'"
  by (rule rfold_invariant [where P = "R db"]) (blast intro: refl trans insert)+

lemma advances_neutral: "neutral m \<Longrightarrow> advances R m"
  unfolding advances_def using neutralD refl by metis

lemma advances_session:
  "advances R (session_flush ins)" "advances R (commit ins)" "advances R (session_add x)"
  "advances R (emit signal i)" "advances R (record_audit ins a ty i)"
  unfolding advances_def record_audit_def by (auto simp: refl dest: flush_rows split: if_splits)

lemma advances_simple:
  "advances R (oret x)" "advances R (oraise e)" "advances R (olift r)" "advances R (oguard b e)"
  "advances R (oget f)" "advances R (fresh_uuid uuid)"
  by (intro advances_neutral call_intros)+

lemma advances_bind:
  assumes "advances R m" "\<And>x. advances R (f x)"
  shows "advances R (obind m f)"
  unfolding advances_def obind_Inr using advancesD [OF assms(1)] advancesD [OF assms(2)] trans by blast

lemma advances_split:
  "advances R a \<Longrightarrow> advances R b \<Longrightarrow> advances R (if c then a else b)"
  "advances R a \<Longrightarrow> (\<And>x. advances R (f x)) \<Longrightarrow> advances R (case z of None \<Rightarrow> a | Some x \<Rightarrow> f x)"
  "(\<And>x y. advances R (g x y)) \<Longrightarrow> advances R (case p of (x, y) \<Rightarrow> g x y)"
  "advances R (h v) \<Longrightarrow> advances R (let x = v in h x)"
  by (simp_all split: option.splits prod.splits)

lemma advances_for: "(\<And>x. advances R (f x)) \<Longrightarrow> advances R (ofor f xs)"
  by (induction xs) (auto intro: advances_bind advances_simple)

lemma advances_try: "advances R m \<Longrightarrow> advances R (try_integrity h m)" "advances R m \<Longrightarrow> advances R (try_rollback m)"
  by (auto simp: advances_def)

lemmas advances_rules = advances_session advances_simple advances_bind advances_split advances_for advances_try

end

end
