(* ===== verification/Proc_Invariant.thy ===== *)
theory Proc_Invariant
  imports Proc_Receiving PM_Assertions Inv_Stock_Correct
begin

text \<open>
  What procurement keeps: the accounting of every line, the rules of every decided request,
  and the history of the documents, whose statuses move along the edges of two state machines
  that are smaller than the transition tables of the code.
\<close>

section \<open>The state machines\<close>

inductive order_move :: "order_status \<Rightarrow> order_status \<Rightarrow> bool" where
  submitted: "order_move PO_DRAFT PO_SUBMITTED"
| cancelled: "order_move PO_DRAFT PO_CANCELLED"
| approved: "st \<in> {PO_SUBMITTED, PO_UNDER_REVIEW} \<Longrightarrow> order_move st PO_APPROVED"
| rejected: "st \<in> {PO_SUBMITTED, PO_UNDER_REVIEW} \<Longrightarrow> order_move st PO_REJECTED"
| sent: "order_move PO_APPROVED PO_SENT"
| received: "st \<in> {PO_APPROVED, PO_SENT, PO_PARTIALLY_RECEIVED} \<Longrightarrow>
    st' \<in> {PO_PARTIALLY_RECEIVED, PO_FULLY_RECEIVED} \<Longrightarrow> order_move st st'"
| closed: "st \<in> {PO_APPROVED, PO_SENT, PO_PARTIALLY_RECEIVED, PO_FULLY_RECEIVED} \<Longrightarrow> order_move st PO_CLOSED"

inductive requisition_move :: "requisition_status \<Rightarrow> requisition_status \<Rightarrow> bool" where
  submitted: "requisition_move RQ_DRAFT RQ_SUBMITTED"
| cancelled: "requisition_move RQ_DRAFT RQ_CANCELLED"
| approved: "st \<in> {RQ_SUBMITTED, RQ_UNDER_REVIEW} \<Longrightarrow> requisition_move st RQ_APPROVED"
| rejected: "st \<in> {RQ_SUBMITTED, RQ_UNDER_REVIEW} \<Longrightarrow> requisition_move st RQ_REJECTED"
| partly: "requisition_move RQ_APPROVED RQ_PARTIALLY_SOURCED"
| fully: "st \<in> {RQ_APPROVED, RQ_PARTIALLY_SOURCED} \<Longrightarrow> requisition_move st RQ_FULLY_SOURCED"

inductive_simps order_move_from [simp]:
  "order_move PO_DRAFT st" "order_move PO_CANCELLED st" "order_move PO_REJECTED st" "order_move PO_CLOSED st"
inductive_simps requisition_move_from [simp]:
  "requisition_move RQ_CANCELLED st" "requisition_move RQ_REJECTED st" "requisition_move RQ_FULLY_SOURCED st"

text \<open>Both are part of the tables of the code.\<close>

definition order_moves :: "(order_status \<times> order_status) list" where
  "order_moves =
     [(PO_DRAFT, PO_SUBMITTED), (PO_DRAFT, PO_CANCELLED), (PO_SUBMITTED, PO_APPROVED), (PO_UNDER_REVIEW, PO_APPROVED),
      (PO_SUBMITTED, PO_REJECTED), (PO_UNDER_REVIEW, PO_REJECTED), (PO_APPROVED, PO_SENT),
      (PO_APPROVED, PO_PARTIALLY_RECEIVED), (PO_SENT, PO_PARTIALLY_RECEIVED), (PO_PARTIALLY_RECEIVED, PO_PARTIALLY_RECEIVED),
      (PO_APPROVED, PO_FULLY_RECEIVED), (PO_SENT, PO_FULLY_RECEIVED), (PO_PARTIALLY_RECEIVED, PO_FULLY_RECEIVED),
      (PO_APPROVED, PO_CLOSED), (PO_SENT, PO_CLOSED), (PO_PARTIALLY_RECEIVED, PO_CLOSED), (PO_FULLY_RECEIVED, PO_CLOSED)]"

definition requisition_moves :: "(requisition_status \<times> requisition_status) list" where
  "requisition_moves =
     [(RQ_DRAFT, RQ_SUBMITTED), (RQ_DRAFT, RQ_CANCELLED), (RQ_SUBMITTED, RQ_APPROVED), (RQ_UNDER_REVIEW, RQ_APPROVED),
      (RQ_SUBMITTED, RQ_REJECTED), (RQ_UNDER_REVIEW, RQ_REJECTED), (RQ_APPROVED, RQ_PARTIALLY_SOURCED),
      (RQ_APPROVED, RQ_FULLY_SOURCED), (RQ_PARTIALLY_SOURCED, RQ_FULLY_SOURCED)]"

lemma order_move_listed: "order_move st st' \<Longrightarrow> (st, st') \<in> set order_moves"
  by (erule order_move.cases) (auto simp: order_moves_def)

lemma requisition_move_listed: "requisition_move st st' \<Longrightarrow> (st, st') \<in> set requisition_moves"
  by (erule requisition_move.cases) (auto simp: requisition_moves_def)

lemma moves_allowed:
  "list_all (\<lambda>(st, st'). validate_transition (order_status_value st) (order_status_value st')
     PURCHASE_ORDER_STATUS_TRANSITIONS = Inr ()) order_moves"
  "list_all (\<lambda>(st, st'). validate_transition (requisition_status_value st) (requisition_status_value st')
     REQUISITION_STATUS_TRANSITIONS = Inr ()) requisition_moves"
  by code_simp+

lemma order_move_in_table:
  "order_move st st' \<Longrightarrow>
     validate_transition (order_status_value st) (order_status_value st') PURCHASE_ORDER_STATUS_TRANSITIONS = Inr ()"
  using moves_allowed(1) order_move_listed by (fastforce simp: list_all_iff)

lemma requisition_move_in_table:
  "requisition_move st st' \<Longrightarrow>
     validate_transition (requisition_status_value st) (requisition_status_value st') REQUISITION_STATUS_TRANSITIONS = Inr ()"
  using moves_allowed(2) requisition_move_listed by (fastforce simp: list_all_iff)

section \<open>Rows\<close>

definition order_line_ok :: "order_line \<Rightarrow> bool" where
  "order_line_ok l \<longleftrightarrow> 0 < quantity_ordered l \<and> 0 \<le> quantity_received l \<and> 0 \<le> quantity_rejected l \<and>
     quantity_received l + quantity_rejected l \<le> quantity_ordered l \<and>
     (pl_status l = PL_FULLY_RECEIVED \<longrightarrow> quantity_received l + quantity_rejected l = quantity_ordered l) \<and>
     (pl_status l = PL_PARTIALLY_RECEIVED \<longrightarrow> 0 < quantity_received l + quantity_rejected l)"

definition requisition_line_ok :: "requisition_line \<Rightarrow> bool" where
  "requisition_line_ok l \<longleftrightarrow> 0 < quantity_requested l \<and> 0 \<le> quantity_sourced l \<and>
     quantity_sourced l \<le> quantity_requested l \<and>
     (rl_status l = RL_FULLY_SOURCED \<longrightarrow> quantity_sourced l = quantity_requested l) \<and>
     (rl_status l = RL_PARTIALLY_SOURCED \<longrightarrow> 0 < quantity_sourced l)"

text \<open>A decided request carries a decision, by somebody else than the requester.\<close>

definition approval_ok :: "approval_request \<Rightarrow> bool" where
  "approval_ok r \<longleftrightarrow>
     (if ap_status r = AP_PENDING then decided_at r = None
      else decided_at r \<noteq> None \<and> (\<forall>u. requested_by r = Some u \<longrightarrow> u \<noteq> [] \<longrightarrow> decided_by r \<noteq> Some u))"

definition documents_ok :: "documents \<Rightarrow> bool" where
  "documents_ok d \<longleftrightarrow> list_all order_line_ok (dc_order_lines d) \<and>
     list_all requisition_line_ok (dc_requisition_lines d) \<and> list_all approval_ok (dc_approvals d)"

fun fits :: "inv_row \<Rightarrow> bool" where
  "fits (DocumentRow (OrderLineRow l)) = order_line_ok l"
| "fits (DocumentRow (RequisitionLineRow l)) = requisition_line_ok l"
| "fits (DocumentRow (ApprovalRow r)) = approval_ok r"
| "fits _ = True"

section \<open>Histories\<close>

definition same_request :: "approval_request \<Rightarrow> approval_request \<Rightarrow> bool" where
  "same_request r r' \<longleftrightarrow> requested_by r' = requested_by r \<and> ap_entity_id r' = ap_entity_id r \<and>
     ap_request_type r' = ap_request_type r \<and> (ap_status r \<noteq> AP_PENDING \<longrightarrow> r' = r)"

definition same_order :: "purchase_order \<Rightarrow> purchase_order \<Rightarrow> bool" where
  "same_order r r' \<longleftrightarrow> po_organization_id r' = po_organization_id r \<and> po_number r' = po_number r \<and>
     order_move\<^sup>*\<^sup>* (po_status r) (po_status r')"

definition same_requisition :: "requisition \<Rightarrow> requisition \<Rightarrow> bool" where
  "same_requisition r r' \<longleftrightarrow> rq_organization_id r' = rq_organization_id r \<and>
     requisition_number r' = requisition_number r \<and> requisition_move\<^sup>*\<^sup>* (rq_status r) (rq_status r')"

text \<open>Every row found by an identifier is still found later, as a row related to it.\<close>

definition tracks :: "(string \<Rightarrow> documents \<Rightarrow> 'r option) \<Rightarrow> ('r \<Rightarrow> 'r \<Rightarrow> bool) \<Rightarrow> documents \<Rightarrow> documents \<Rightarrow> bool" where
  "tracks get rel d0 d \<longleftrightarrow> (\<forall>i r. get i d0 = Some r \<longrightarrow> (\<exists>r'. get i d = Some r' \<and> rel r r'))"

definition history :: "documents \<Rightarrow> documents \<Rightarrow> bool" where
  "history d0 d \<longleftrightarrow> tracks get_order_row same_order d0 d \<and> tracks get_requisition_row same_requisition d0 d \<and>
     tracks get_approval same_request d0 d"

lemma same_refl [simp]: "same_order a a" "same_requisition b b" "same_request c c"
  by (simp_all add: same_order_def same_requisition_def same_request_def)

lemma same_trans:
  "same_order a b \<Longrightarrow> same_order b c \<Longrightarrow> same_order a c"
  "same_requisition u v \<Longrightarrow> same_requisition v w \<Longrightarrow> same_requisition u w"
  "same_request x y \<Longrightarrow> same_request y z \<Longrightarrow> same_request x z"
  by (auto simp: same_order_def same_requisition_def same_request_def)

lemma tracks_trans:
  assumes "tracks get rel a b" "tracks get rel b c" "\<And>x y z. rel x y \<Longrightarrow> rel y z \<Longrightarrow> rel x z"
  shows "tracks get rel a c"
  unfolding tracks_def
proof (intro allI impI)
  fix i r assume "get i a = Some r"
  then obtain r' where "get i b = Some r'" "rel r r'" using assms(1) by (auto simp: tracks_def)
  moreover from this obtain r'' where "get i c = Some r''" "rel r' r''" using assms(2) by (auto simp: tracks_def)
  ultimately show "\<exists>r''. get i c = Some r'' \<and> rel r r''" using assms(3) by blast
qed

lemma history_refl: "history d d"
  by (simp add: history_def tracks_def)

lemma history_trans: "history a b \<Longrightarrow> history b c \<Longrightarrow> history a c"
  unfolding history_def
  using tracks_trans [where rel = same_order] tracks_trans [where rel = same_requisition] tracks_trans [where rel = same_request]
    same_trans by metis

text \<open>Rows that are added leave the rows found by their identifiers in place.\<close>

definition keeps_found :: "(string \<Rightarrow> documents \<Rightarrow> 'r option) \<Rightarrow> inv_db \<Rightarrow> inv_db \<Rightarrow> bool" where
  "keeps_found get w w' \<longleftrightarrow> (\<forall>i r. get i (db_documents w) = Some r \<longrightarrow> get i (db_documents w') = Some r)"

text \<open>A row is appended to its own table.\<close>

lemma document_insert_tables:
  assumes "document_insert y d = Inr d'"
  shows "\<exists>os rs as. dc_orders d' = dc_orders d @ os \<and> dc_requisitions d' = dc_requisitions d @ rs \<and>
    dc_approvals d' = dc_approvals d @ as"
  using assms by (cases y) (auto split: if_splits)

lemma document_insert_ok:
  assumes "document_insert y d = Inr d'" "fits (DocumentRow y)" "documents_ok d"
  shows "documents_ok d'"
  using assms unfolding documents_ok_def by (cases y) (auto split: if_splits)

lemma inserts_keep_found:
  assumes "inv_insert x db = Inr db'"
  shows "keeps_found get_order_row db db'" "keeps_found get_requisition_row db db'" "keeps_found get_approval db db'"
proof -
  have "keeps_found get_order_row db db' \<and> keeps_found get_requisition_row db db' \<and> keeps_found get_approval db db'"
  proof (cases x)
    case (DocumentRow y)
    then have "document_insert y (db_documents db) = Inr (db_documents db')"
      using assms by auto
    from document_insert_tables [OF this] show ?thesis
      by (auto simp: keeps_found_def get_order_row_def get_requisition_row_def get_approval_def find_row_append)
  qed (use assms in \<open>auto simp: keeps_found_def split: if_splits\<close>)
  then show "keeps_found get_order_row db db'" "keeps_found get_requisition_row db db'" "keeps_found get_approval db db'"
    by simp_all
qed

lemma found_history:
  "keeps_found get_order_row w w' \<Longrightarrow> keeps_found get_requisition_row w w' \<Longrightarrow> keeps_found get_approval w w' \<Longrightarrow>
     history (db_documents w) (db_documents w')"
  by (auto simp: keeps_found_def history_def tracks_def)

interpretation found_orders: row_history inv_insert "keeps_found get_order_row"
  by unfold_locales (auto simp: keeps_found_def dest: inserts_keep_found(1))

interpretation found_requisitions: row_history inv_insert "keeps_found get_requisition_row"
  by unfold_locales (auto simp: keeps_found_def dest: inserts_keep_found(2))

interpretation found_approvals: row_history inv_insert "keeps_found get_approval"
  by unfold_locales (auto simp: keeps_found_def dest: inserts_keep_found(3))

section \<open>The invariant\<close>

definition procured :: "documents \<Rightarrow> inv_db \<Rightarrow> bool" where
  "procured d0 db \<longleftrightarrow> documents_ok (db_documents db) \<and> history d0 (db_documents db)"

abbreviation proc_state :: "documents \<Rightarrow> (inv_db, inv_row) session \<Rightarrow> bool" where
  "proc_state d0 \<equiv> tables (procured d0) fits"

lemma insert_keeps_procured:
  assumes "fits x" "procured d0 db" "inv_insert x db = Inr db'"
  shows "procured d0 db'"
proof -
  have "documents_ok (db_documents db')"
  proof (cases x)
    case (DocumentRow y)
    then have "document_insert y (db_documents db) = Inr (db_documents db')" "fits (DocumentRow y)"
      using assms by auto
    then show ?thesis
      using assms(2) document_insert_ok by (auto simp: procured_def)
  qed (use assms in \<open>auto simp: procured_def split: if_splits\<close>)
  then show ?thesis
    using assms(2) history_trans found_history [OF inserts_keep_found [OF assms(3)]] by (auto simp: procured_def)
qed

interpretation procured: kept_by_inserts inv_insert "procured d0" fits
  by unfold_locales (rule insert_keeps_procured)

lemma procured_other_tables [simp]:
  "procured d0 (db\<lparr>db_balances := x\<rparr>) = procured d0 db" "procured d0 (db\<lparr>db_reservations := y\<rparr>) = procured d0 db"
  by (simp_all add: procured_def)

end
