(* ===== verification/Proc_Keeps.thy ===== *)
theory Proc_Keeps
  imports Proc_Invariant
begin

text \<open>
  Every operation of procurement keeps the invariant, however it ends: drafts, submission and
  the decisions here, approval of orders and receipts at the end.
\<close>

section \<open>Reading\<close>

lemma neutral_doc_get [call_intros]: "neutral (doc_get f)"
  unfolding doc_get_def by (rule call_intros)

lemma neutral_users [call_intros]: "neutral (require_any_perm env codes)"
  unfolding require_any_perm_def by (rule call_intros)

lemma neutral_requisition_reads [call_intros]:
  "neutral (get_party env i)" "neutral (ensure_business_supplier_scope p)" "neutral (validate_supplier_reference env v)"
  "neutral (get_requisition env i)" "neutral (require_draft_requisition env i)" "neutral (build_number prefix env)"
  "neutral (check_requesting_storeroom room site org)" "neutral (check_requisition_transition r st)"
  "neutral (check_version e n)" "neutral (awaiting_requisition q)"
  unfolding get_party_def ensure_business_supplier_scope_def validate_supplier_reference_def get_requisition_def
    require_draft_requisition_def build_number_def check_requesting_storeroom_def check_requisition_transition_def
    check_version_def awaiting_requisition_def
  by (intro call_intros)+

lemma neutral_given [call_intros]: "neutral m \<Longrightarrow> neutral (given_or_built number m)"
  unfolding given_or_built_def by (intro call_intros)

lemma neutral_prepared_requisitions [call_intros]:
  "neutral (prepare_requisition env site room purpose needed priority st si nts number)"
  "neutral (prepare_requisition_line env i item q u desc needed cost supplier nts)"
  "neutral (prepare_requisition_update env i usite uroom upurpose needed upriority ust usi unts expected)"
  unfolding prepare_requisition_def prepare_requisition_line_def prepare_requisition_update_def
  by (intro call_intros)+

lemma neutral_order_reads [call_intros]:
  "neutral purchasing_organization" "neutral (get_site env i)" "neutral (reference_site env i)" "neutral (reference_party env i)"
  "neutral (get_purchase_order env i)" "neutral (require_draft_purchase_order env i)" "neutral (require_requisition_line i)"
  "neutral (validate_source_requisition source org)" "neutral (order_parties env org site supplier)"
  "neutral (validate_source_requisition_line order item source q u)" "neutral (check_destination_storeroom room order)"
  "neutral (check_order_transition r' st)" "neutral (awaiting_order q')"
  unfolding purchasing_organization_def get_site_def reference_site_def reference_party_def get_purchase_order_def
    require_draft_purchase_order_def require_requisition_line_def validate_source_requisition_def order_parties_def
    validate_source_requisition_line_def check_destination_storeroom_def check_order_transition_def awaiting_order_def
  by (intro call_intros)+

lemma neutral_prepared_orders [call_intros]:
  "neutral (prepare_order env site supplier currency source ordered expected ref nts number)"
  "neutral (prepare_order_line env i item room q u price expected desc source nts)"
  "neutral (prepare_order_update env i site' supplier' currency source expected_delivery ref' nts' version)"
  unfolding prepare_order_def prepare_order_line_def prepare_order_update_def
  by (intro call_intros)+

lemma neutral_receipts [call_intros]:
  "neutral (get_item_for_internal_use i)" "neutral (touch_balance org item room touched)"
  "neutral (check_receipt_line env at_time ref rid idx p lines)"
  "neutral (prepare_receipt env i payloads receipt_at ref nts number)"
  unfolding get_item_for_internal_use_def touch_balance_def check_receipt_line_def prepare_receipt_def
  by (intro call_intros)+

lemma neutral_decisions [call_intros]: "neutral (require_pending i)" "neutral (ensure_not_self_decision env r)"
  unfolding require_pending_def ensure_not_self_decision_def by (intro call_intros)+

text \<open>A reading operation of whose value something is known.\<close>

lemma held_read:
  assumes "neutral m" "\<And>s x t. m s = (Inr x, t) \<Longrightarrow> F x (s_working s)"
    and "\<And>x. held (tables P ok) (\<lambda>w. A w \<and> F x w) (f x) C"
  shows "held (tables P ok) A (obind m f) C"
proof (rule held_bind [OF _ assms(3)], rule heldI)
  fix s r t assume s: "tables P ok s" "A (s_working s)" and "m s = (r, t)"
  from tables_neutral [OF assms(1) s(1) this(3)] assms(2) this(3) s(2)
  show "tables P ok t \<and> (\<forall>x. r = Inr x \<longrightarrow> A (s_working t) \<and> F x (s_working t))" by simp
qed

lemma held_tables_fact:
  assumes "\<And>w. A w \<Longrightarrow> P w \<Longrightarrow> Q" "Q \<Longrightarrow> held (tables P ok) A m B"
  shows "held (tables P ok) A m B"
  unfolding held_def
proof (intro allI impI)
  fix s r t assume s: "tables P ok s" "A (s_working s)" "m s = (r, t)"
  then have "Q" using assms(1) by (simp add: tables_def)
  from heldD [OF assms(2) [OF this] s] show "tables P ok t \<and> (\<forall>x. r = Inr x \<longrightarrow> B x (s_working t))" .
qed

lemma held_doc_get:
  "(\<And>x. held I (\<lambda>w. A w \<and> x = f (db_documents w)) (g x) C) \<Longrightarrow> held I A (obind (doc_get f) g) C"
  unfolding doc_get_def by (rule held_get)

text \<open>The lines of a document satisfy their invariant.\<close>

lemma held_requisition_lines:
  assumes "\<And>lines. list_all requisition_line_ok lines \<Longrightarrow> held (proc_state d0) A (f lines) C"
  shows "held (proc_state d0) A (obind (doc_get (list_for_requisition i)) f) C"
proof (rule held_doc_get)
  fix lines
  show "held (proc_state d0) (\<lambda>w. A w \<and> lines = list_for_requisition i (db_documents w)) (f lines) C"
    by (rule held_tables_fact [where Q = "list_all requisition_line_ok lines"])
      (auto simp: list_for_requisition_def procured_def documents_ok_def list_all_iff intro: held_weaken [OF assms])
qed

lemma held_order_lines:
  assumes "\<And>lines. list_all order_line_ok lines \<Longrightarrow> held (proc_state d0) A (f lines) C"
  shows "held (proc_state d0) A (obind (doc_get (list_for_purchase_order i)) f) C"
proof (rule held_doc_get)
  fix lines
  show "held (proc_state d0) (\<lambda>w. A w \<and> lines = list_for_purchase_order i (db_documents w)) (f lines) C"
    by (rule held_tables_fact [where Q = "list_all order_line_ok lines"])
      (auto simp: list_for_purchase_order_def procured_def documents_ok_def list_all_iff intro: held_weaken [OF assms])
qed

lemma held_requisition_line:
  assumes "\<And>l. requisition_line_ok l \<Longrightarrow> held (proc_state d0) A (f l) C"
  shows "held (proc_state d0) A (obind (require_requisition_line i) f) C"
proof (rule held_read [where F = "\<lambda>l w. get_requisition_line i (db_documents w) = Some l"])
  show "neutral (require_requisition_line i)" by (rule call_intros)
next
  fix s x t assume "require_requisition_line i s = (Inr x, t)"
  then show "get_requisition_line i (db_documents (s_working s)) = Some x"
    unfolding require_requisition_line_def doc_get_def by (auto split: option.splits)
next
  fix l
  show "held (proc_state d0) (\<lambda>w. A w \<and> get_requisition_line i (db_documents w) = Some l) (f l) C"
    by (rule held_tables_fact [where Q = "requisition_line_ok l"])
      (auto simp: get_requisition_line_def procured_def documents_ok_def list_all_iff dest!: find_row_Some intro: held_weaken [OF assms])
qed

section \<open>Writing\<close>

lemma held_doc_update:
  assumes "\<And>w d. A w \<Longrightarrow> documents_ok (db_documents w) \<Longrightarrow> g (db_documents w) = Inr d \<Longrightarrow>
      documents_ok d \<and> history (db_documents w) d \<and> B (w\<lparr>db_documents := d\<rparr>)"
  shows "held (proc_state d0) A (doc_update g) (\<lambda>_. B)"
proof (rule heldI)
  fix s r t assume s: "proc_state d0 s" "A (s_working s)" and eq: "doc_update g s = (r, t)"
  show "proc_state d0 t \<and> (\<forall>x. r = Inr x \<longrightarrow> B (s_working t))"
  proof (cases "g (db_documents (s_working s))")
    case (Inl err)
    then show ?thesis using eq s by (auto simp: doc_update_def)
  next
    case (Inr d)
    have ok: "documents_ok (db_documents (s_working s))" "history d0 (db_documents (s_working s))"
      using s(1) by (simp_all add: tables_def procured_def)
    note new = assms [OF s(2) ok(1) Inr]
    have t: "t = s\<lparr>s_working := (s_working s)\<lparr>db_documents := d\<rparr>\<rparr>" using eq Inr by (auto simp: doc_update_def)
    then show ?thesis
      using new s(1) history_trans [OF ok(2)] by (simp add: tables_def procured_def)
  qed
qed

lemma replaced_all: "list_all Q rows \<Longrightarrow> Q r \<Longrightarrow> list_all Q (replace_row key r rows)"
  by (auto simp: replace_row_def list_all_iff)

lemma tracks_replaced:
  assumes "find_row key (f d) (key r) = Some r0" "rel r0 r" "\<And>x. rel x x"
    and "\<And>i d. get i d = find_row key (f d) i" "f d' = replace_row key r (f d)"
  shows "tracks get rel d d'"
  unfolding tracks_def assms(4,5) find_row_replace using assms(1-3) by auto

lemma held_update_order:
  assumes "\<And>w. A w \<Longrightarrow> \<exists>r0. get_order_row (po_id r) (db_documents w) = Some r0 \<and> same_order r0 r"
  shows "held (proc_state d0) A (update_order_row r) (\<lambda>r' _. po_organization_id r' = po_organization_id r)"
  unfolding update_order_row_def
proof (rule held_bind [where B = "\<lambda>_ _. True", OF held_doc_update])
  let ?r = "r\<lparr>po_version := po_version r + 1\<rparr>"
  fix w d
  assume w: "A w" "documents_ok (db_documents w)"
    and "rbind (update_with_version_check po_id po_version (\<lambda>v r. r\<lparr>po_version := v\<rparr>) r (dc_orders (db_documents w)))
           (\<lambda>rows. Inr ((db_documents w)\<lparr>dc_orders := rows\<rparr>)) = Inr d"
  then have d: "d = (db_documents w)\<lparr>dc_orders := replace_row po_id ?r (dc_orders (db_documents w))\<rparr>"
    by (auto simp: update_with_version_check_def split: option.splits if_splits)
  obtain r0 where r0: "get_order_row (po_id r) (db_documents w) = Some r0" "same_order r0 r" using assms [OF w(1)] by blast
  have "tracks get_order_row same_order (db_documents w) d"
    by (rule tracks_replaced [where r = ?r and ?r0.0 = r0 and f = dc_orders and key = po_id])
      (use r0 in \<open>auto simp: get_order_row_def d same_order_def\<close>)
  then show "documents_ok d \<and> history (db_documents w) d \<and> True"
    using w(2) by (auto simp: d documents_ok_def history_def tracks_def get_requisition_row_def get_approval_def)
qed (auto intro: held_intros)

lemma held_update_requisition:
  assumes "\<And>w. A w \<Longrightarrow> \<exists>r0. get_requisition_row (rq_id r) (db_documents w) = Some r0 \<and> same_requisition r0 r"
  shows "held (proc_state d0) A (update_requisition_row r) (\<lambda>_ _. True)"
  unfolding update_requisition_row_def
proof (rule held_bind [where B = "\<lambda>_ _. True", OF held_doc_update])
  let ?r = "r\<lparr>rq_version := rq_version r + 1\<rparr>"
  fix w d
  assume w: "A w" "documents_ok (db_documents w)"
    and "rbind (update_with_version_check rq_id rq_version (\<lambda>v r. r\<lparr>rq_version := v\<rparr>) r (dc_requisitions (db_documents w)))
           (\<lambda>rows. Inr ((db_documents w)\<lparr>dc_requisitions := rows\<rparr>)) = Inr d"
  then have d: "d = (db_documents w)\<lparr>dc_requisitions := replace_row rq_id ?r (dc_requisitions (db_documents w))\<rparr>"
    by (auto simp: update_with_version_check_def split: option.splits if_splits)
  obtain r0 where r0: "get_requisition_row (rq_id r) (db_documents w) = Some r0" "same_requisition r0 r" using assms [OF w(1)] by blast
  have "tracks get_requisition_row same_requisition (db_documents w) d"
    by (rule tracks_replaced [where r = ?r and ?r0.0 = r0 and f = dc_requisitions and key = rq_id])
      (use r0 in \<open>auto simp: get_requisition_row_def d same_requisition_def\<close>)
  then show "documents_ok d \<and> history (db_documents w) d \<and> True"
    using w(2) by (auto simp: d documents_ok_def history_def tracks_def get_order_row_def get_approval_def)
qed (auto intro: held_intros)

text \<open>Lines are written under their identifier; assertions on headers stay.\<close>

lemma held_update_order_line:
  assumes "order_line_ok l" "\<And>w rows. A w \<Longrightarrow> A (w\<lparr>db_documents := (db_documents w)\<lparr>dc_order_lines := rows\<rparr>\<rparr>)"
  shows "held (proc_state d0) A (update_order_line l) (\<lambda>_. A)"
  unfolding update_order_line_def
proof (rule held_doc_update)
  fix w d assume w: "A w" "documents_ok (db_documents w)"
    and "rbind (update_by_id pl_id l (dc_order_lines (db_documents w))) (\<lambda>rows. Inr ((db_documents w)\<lparr>dc_order_lines := rows\<rparr>)) = Inr d"
  then have d: "d = (db_documents w)\<lparr>dc_order_lines := replace_row pl_id l (dc_order_lines (db_documents w))\<rparr>"
    by (auto simp: update_by_id_def split: if_splits)
  show "documents_ok d \<and> history (db_documents w) d \<and> A (w\<lparr>db_documents := d\<rparr>)"
    using w assms replaced_all [of order_line_ok "dc_order_lines (db_documents w)" l pl_id]
    by (auto simp: d documents_ok_def history_def tracks_def get_order_row_def get_requisition_row_def get_approval_def)
qed

lemma held_update_requisition_line:
  assumes "requisition_line_ok l" "\<And>w rows. A w \<Longrightarrow> A (w\<lparr>db_documents := (db_documents w)\<lparr>dc_requisition_lines := rows\<rparr>\<rparr>)"
  shows "held (proc_state d0) A (update_requisition_line l) (\<lambda>_. A)"
  unfolding update_requisition_line_def
proof (rule held_doc_update)
  fix w d assume w: "A w" "documents_ok (db_documents w)"
    and "rbind (update_by_id rl_id l (dc_requisition_lines (db_documents w)))
           (\<lambda>rows. Inr ((db_documents w)\<lparr>dc_requisition_lines := rows\<rparr>)) = Inr d"
  then have d: "d = (db_documents w)\<lparr>dc_requisition_lines := replace_row rl_id l (dc_requisition_lines (db_documents w))\<rparr>"
    by (auto simp: update_by_id_def split: if_splits)
  show "documents_ok d \<and> history (db_documents w) d \<and> A (w\<lparr>db_documents := d\<rparr>)"
    using w assms replaced_all [of requisition_line_ok "dc_requisition_lines (db_documents w)" l rl_id]
    by (auto simp: d documents_ok_def history_def tracks_def get_order_row_def get_requisition_row_def get_approval_def)
qed

lemma held_set_line_statuses:
  assumes "list_all requisition_line_ok lines" "st \<notin> {RL_FULLY_SOURCED, RL_PARTIALLY_SOURCED}"
    and "\<And>w rows. A w \<Longrightarrow> A (w\<lparr>db_documents := (db_documents w)\<lparr>dc_requisition_lines := rows\<rparr>\<rparr>)"
  shows "held (proc_state d0) A (set_line_statuses st lines) (\<lambda>_. A)"
  unfolding set_line_statuses_def
  by (rule held_for, rule held_update_requisition_line) (use assms in \<open>auto simp: list_all_iff requisition_line_ok_def\<close>)

lemma held_set_order_line_statuses:
  assumes "list_all order_line_ok lines" "st \<notin> {PL_FULLY_RECEIVED, PL_PARTIALLY_RECEIVED}"
    and "\<And>w rows. A w \<Longrightarrow> A (w\<lparr>db_documents := (db_documents w)\<lparr>dc_order_lines := rows\<rparr>\<rparr>)"
  shows "held (proc_state d0) A (ofor (\<lambda>l. update_order_line (l\<lparr>pl_status := st\<rparr>)) lines) (\<lambda>_. A)"
  by (rule held_for, rule held_update_order_line) (use assms in \<open>auto simp: list_all_iff order_line_ok_def\<close>)

end
