(* ===== verification/Task_Invariant.thy ===== *)
theory Task_Invariant
  imports Task_Service Task_Search Schedule_Failures Proc_Keeps
begin

text \<open>
  The plans of all projects stay free of cycles. A dependency joins two existing tasks of one
  project and all of them together form an acyclic graph; every operation of the task service
  keeps this, the approval of a governed change included.
\<close>

section \<open>The plans\<close>

text \<open>The project a task belongs to.\<close>

definition home :: "project_tables \<Rightarrow> string \<Rightarrow> string option" where
  "home d i = map_option t_project_id (get_task_row i d)"

definition plans_ok :: "project_tables \<Rightarrow> bool" where
  "plans_ok d \<longleftrightarrow>
     distinct (map t_id (pt_tasks d)) \<and>
     distinct (map (\<lambda>x. (predecessor_task_id x, successor_task_id x)) (pt_dependencies d)) \<and>
     (\<forall>(p, s) \<in> dep_edges (pt_dependencies d). home d p \<noteq> None \<and> home d p = home d s) \<and>
     acyclic (dep_edges (pt_dependencies d))"

lemma home_Some_iff: "home d i = Some pid \<longleftrightarrow> (\<exists>t. get_task_row i d = Some t \<and> t_project_id t = pid)"
  by (auto simp: home_def)

lemma home_listed:
  assumes "distinct (map t_id (pt_tasks d))"
  shows "home d i = Some pid \<longleftrightarrow> i \<in> t_id ` set (list_tasks_by_project pid d)"
  using find_row_distinct [OF assms] unfolding home_Some_iff get_task_row_def list_tasks_by_project_def
  by (force dest: find_row_Some)

lemma project_edges:
  assumes "distinct (map t_id (pt_tasks d))"
  shows "dep_edges (list_dependencies_by_project pid d) =
    {(p, s) \<in> dep_edges (pt_dependencies d). home d p = Some pid \<and> home d s = Some pid}"
proof -
  have "f ` {x \<in> A. fst (f x) \<in> S \<and> snd (f x) \<in> S} = {y \<in> f ` A. fst y \<in> S \<and> snd y \<in> S}"
    for f :: "task_dependency \<Rightarrow> string \<times> string" and A S by blast
  from this [of "\<lambda>x. (predecessor_task_id x, successor_task_id x)"] show ?thesis
    unfolding list_dependencies_by_project_def Let_def home_listed [OF assms] dep_edges_def by (simp add: case_prod_beta')
qed

text \<open>A chain of dependencies stays within the project.\<close>

lemma chain_in_project:
  assumes "plans_ok d" "home d s = Some pid"
  shows "(s, p) \<in> (dep_edges (pt_dependencies d))\<^sup>* \<longleftrightarrow> (s, p) \<in> (dep_edges (list_dependencies_by_project pid d))\<^sup>*"
proof
  assume "(s, p) \<in> (dep_edges (pt_dependencies d))\<^sup>*"
  then have "(s, p) \<in> (dep_edges (list_dependencies_by_project pid d))\<^sup>* \<and> home d p = Some pid"
  proof (induction rule: rtrancl_induct)
    case base
    then show ?case using assms(2) by simp
  next
    case (step u w)
    then have "home d w = Some pid" using assms(1) by (auto simp: plans_ok_def)
    then have "(u, w) \<in> dep_edges (list_dependencies_by_project pid d)"
      using step assms(1) by (auto simp: project_edges plans_ok_def)
    then show ?case using step \<open>home d w = Some pid\<close> by (auto intro: rtrancl_into_rtrancl)
  qed
  then show "(s, p) \<in> (dep_edges (list_dependencies_by_project pid d))\<^sup>*" ..
next
  have "dep_edges (list_dependencies_by_project pid d) \<subseteq> dep_edges (pt_dependencies d)"
    by (auto simp: list_dependencies_by_project_def dep_edges_def)
  then show "(s, p) \<in> (dep_edges (list_dependencies_by_project pid d))\<^sup>* \<Longrightarrow> (s, p) \<in> (dep_edges (pt_dependencies d))\<^sup>*"
    using rtrancl_mono by blast
qed

section \<open>What the checks decide\<close>

text \<open>A link that may be added: within one project, new, and closing no cycle.\<close>

definition link_ok :: "project_tables \<Rightarrow> string \<Rightarrow> string \<Rightarrow> bool" where
  "link_ok d p s \<longleftrightarrow> home d p \<noteq> None \<and> home d p = home d s \<and> (p, s) \<notin> dep_edges (pt_dependencies d) \<and>
     (s, p) \<notin> (dep_edges (pt_dependencies d))\<^sup>*"

lemma dependency_problem_None:
  assumes "plans_ok d"
  shows "dependency_problem p s d = None \<longleftrightarrow> link_ok d p s"
proof (cases "home d p = home d s \<and> home d p \<noteq> None \<and> p \<noteq> s")
  case True
  then obtain tp ts where rows: "get_task_row p d = Some tp" "get_task_row s d = Some ts" "t_project_id ts = t_project_id tp"
    by (fastforce simp: home_def)
  let ?pid = "t_project_id tp"
  let ?deps = "list_dependencies_by_project ?pid d"
  have home: "home d p = Some ?pid" "home d s = Some ?pid" using rows by (simp_all add: home_def)
  have dup: "list_ex (\<lambda>x. predecessor_task_id x = p \<and> successor_task_id x = s) ?deps \<longleftrightarrow> (p, s) \<in> dep_edges (pt_dependencies d)"
  proof -
    have "list_ex (\<lambda>x. predecessor_task_id x = p \<and> successor_task_id x = s) ?deps \<longleftrightarrow> (p, s) \<in> dep_edges ?deps"
      by (auto simp: list_ex_iff dep_edges_def image_iff)
    then show ?thesis using assms home by (simp add: project_edges plans_ok_def)
  qed
  show ?thesis
    using True rows home dup cycle_path_None_iff [of ?deps p s] chain_in_project [OF assms home(2), of p]
    by (simp add: dependency_problem_def link_ok_def Let_def del: not_None_eq)
next
  case False
  then have "\<not> link_ok d p s" by (auto simp: link_ok_def)
  moreover have "dependency_problem p s d \<noteq> None"
    using False by (auto simp: dependency_problem_def home_def split: option.splits)
  ultimately show ?thesis by simp
qed

end
