(* ===== verification/Proc_Drafts.thy ===== *)
theory Proc_Drafts
  imports Proc_Keeps
begin

text \<open>
  The operations of the requisition service and of the order lifecycle keep the invariant.
\<close>

section \<open>What the reading operations return\<close>

lemma find_row_self: "find_row key rows i = Some r \<Longrightarrow> find_row key rows (key r) = Some r"
  using find_row_Some by fastforce

lemma active_organization_state: "active_organization s = (Inr org, t) \<Longrightarrow> t = s"
  unfolding active_organization_def by (auto split: option.splits)

lemma get_requisition_Inr:
  "get_requisition env i s = (Inr r, t) \<Longrightarrow> get_requisition_row i (db_documents (s_working s)) = Some r \<and> rq_id r = i \<and> t = s"
  unfolding get_requisition_def doc_get_def require_perm_def get_requisition_row_def
  by (auto split: option.splits if_splits dest!: active_organization_state dest: find_row_Some)

lemma require_draft_requisition_Inr:
  "require_draft_requisition env i s = (Inr r, t) \<Longrightarrow>
     get_requisition_row (rq_id r) (db_documents (s_working s)) = Some r \<and> rq_status r = RQ_DRAFT \<and> t = s"
  unfolding require_draft_requisition_def by (auto dest!: get_requisition_Inr)

lemma prepare_requisition_line_Inr:
  assumes "prepare_requisition_line env i item q u desc needed cost supplier nts s = (Inr l, t)"
  shows "requisition_line_ok l"
proof -
  obtain quantity s1 where "normalize_positive_quantity q = Inr quantity" "quantity_requested l = quantity"
      "quantity_sourced l = 0" "rl_status l = RL_DRAFT"
    using assms unfolding prepare_requisition_line_def by (auto simp: create_requisition_line_def)
  then show ?thesis by (auto simp: requisition_line_ok_def dest: normalize_positive_Inr)
qed

lemma prepare_requisition_update_Inr:
  assumes "prepare_requisition_update env i site room purpose needed priority st si nts expected s = (Inr r, t)"
  shows "\<exists>r0. get_requisition_row (rq_id r) (db_documents (s_working s)) = Some r0 \<and> same_requisition r0 r"
proof -
  obtain r0 s1 s2 where "require_draft_requisition env i s1 = (Inr r0, s2)" "s1 = s"
      "rq_id r = rq_id r0" "rq_organization_id r = rq_organization_id r0" "requisition_number r = requisition_number r0"
      "rq_status r = rq_status r0"
    using assms unfolding prepare_requisition_update_def Let_def require_perm_def by auto
  then show ?thesis by (auto simp: same_requisition_def dest!: require_draft_requisition_Inr)
qed

lemma awaiting_requisition_Inr:
  "awaiting_requisition q s = (Inr r, t) \<Longrightarrow>
     get_requisition_row (rq_id r) (db_documents (s_working s)) = Some r \<and> rq_status r \<in> {RQ_SUBMITTED, RQ_UNDER_REVIEW} \<and> t = s"
  unfolding awaiting_requisition_def doc_get_def get_requisition_row_def
  by (auto split: option.splits dest: find_row_self)

lemma get_purchase_order_Inr:
  "get_purchase_order env i s = (Inr r, t) \<Longrightarrow> get_order_row (po_id r) (db_documents (s_working s)) = Some r \<and> t = s"
  unfolding get_purchase_order_def doc_get_def require_perm_def get_order_row_def purchasing_organization_def
  by (auto split: option.splits if_splits dest: find_row_Some)

lemma require_draft_order_Inr:
  "require_draft_purchase_order env i s = (Inr r, t) \<Longrightarrow>
     get_order_row (po_id r) (db_documents (s_working s)) = Some r \<and> po_status r = PO_DRAFT \<and> t = s"
  unfolding require_draft_purchase_order_def by (auto dest!: get_purchase_order_Inr)

lemma prepare_order_line_Inr:
  assumes "prepare_order_line env i item room q u price expected desc source nts s = (Inr l, t)"
  shows "order_line_ok l"
proof -
  obtain quantity where "normalize_positive_quantity q = Inr quantity" "quantity_ordered l = quantity"
      "quantity_received l = 0" "quantity_rejected l = 0" "pl_status l = PL_DRAFT"
    using assms unfolding prepare_order_line_def by (auto simp: create_order_line_def)
  then show ?thesis by (auto simp: order_line_ok_def dest: normalize_positive_Inr)
qed

lemma prepare_order_update_Inr:
  assumes "prepare_order_update env i site supplier currency source expected_delivery ref nts version s = (Inr r, t)"
  shows "\<exists>r0. get_order_row (po_id r) (db_documents (s_working s)) = Some r0 \<and> same_order r0 r"
proof -
  obtain r0 s1 s2 where "require_draft_purchase_order env i s1 = (Inr r0, s2)" "s1 = s"
      "po_id r = po_id r0" "po_organization_id r = po_organization_id r0" "po_number r = po_number r0"
      "po_status r = po_status r0"
    using assms unfolding prepare_order_update_def Let_def require_perm_def by (auto split: prod.splits)
  then show ?thesis by (auto simp: same_order_def dest!: require_draft_order_Inr)
qed

lemma awaiting_order_Inr:
  "awaiting_order q s = (Inr r, t) \<Longrightarrow>
     get_order_row (po_id r) (db_documents (s_working s)) = Some r \<and> po_status r \<in> {PO_SUBMITTED, PO_UNDER_REVIEW} \<and> t = s"
  unfolding awaiting_order_def doc_get_def get_order_row_def
  by (auto split: option.splits dest: find_row_self)

text \<open>The same as rules of the logic.\<close>

lemmas held_draft_requisition = held_read [OF neutral_requisition_reads(5),
    where F = "\<lambda>r w. get_requisition_row (rq_id r) (db_documents w) = Some r \<and> rq_status r = RQ_DRAFT"]
lemmas held_awaiting_requisition = held_read [OF neutral_requisition_reads(10),
    where F = "\<lambda>r w. get_requisition_row (rq_id r) (db_documents w) = Some r \<and> rq_status r \<in> {RQ_SUBMITTED, RQ_UNDER_REVIEW}"]
lemmas held_order = held_read [OF neutral_order_reads(5),
    where F = "\<lambda>r w. get_order_row (po_id r) (db_documents w) = Some r"]
lemmas held_draft_order = held_read [OF neutral_order_reads(6),
    where F = "\<lambda>r w. get_order_row (po_id r) (db_documents w) = Some r \<and> po_status r = PO_DRAFT"]
lemmas held_awaiting_order = held_read [OF neutral_order_reads(13),
    where F = "\<lambda>r w. get_order_row (po_id r) (db_documents w) = Some r \<and> po_status r \<in> {PO_SUBMITTED, PO_UNDER_REVIEW}"]

section \<open>Session operations\<close>

lemma held_commit_tail:
  "held (proc_state d0) A (session_flush inv_insert) (\<lambda>_ _. True)"
  "held (proc_state d0) A (commit inv_insert) (\<lambda>_ _. True)"
  "held (proc_state d0) A (record_audit inv_insert a ty i) (\<lambda>_ _. True)"
  by (rule held_preserves, rule procured.session_keeps)+

lemma held_committing: "held (proc_state d0) A m B \<Longrightarrow> held (proc_state d0) A (committing inv_insert m) (\<lambda>_ _. True)"
  unfolding committing_def by (rule held_bind, assumption, rule held_bind, rule held_commit_tail) (auto intro: held_intros)

lemma held_added: "fits (DocumentRow x) \<Longrightarrow> held (proc_state d0) A (doc_add x) (\<lambda>_. A)"
  unfolding doc_add_def by (rule held_add_last)

lemma held_announce:
  "held (proc_state d0) A (announce_requisition a ty i r) (\<lambda>_ _. True)"
  "held (proc_state d0) A (announce_order a ty i r) (\<lambda>_ _. True)"
  unfolding announce_requisition_def announce_order_def
  by (rule held_bind, rule held_commit_tail, rule held_emit_last)+

lemma held_last: "held I A m B \<Longrightarrow> held I A m (\<lambda>_ _. True)"
  by (auto simp: held_def)

text \<open>The row is written and committed, then announced: the end of most operations.\<close>

lemma held_saved:
  assumes "held (proc_state d0) A m B" "\<And>x. preserves (proc_state d0) (f x)"
  shows "held (proc_state d0) A (obind (try_rollback (committing inv_insert m)) f) (\<lambda>_ _. True)"
    and "held (proc_state d0) A (obind (try_integrity e (committing inv_insert m)) f) (\<lambda>_ _. True)"
  by (rule held_bind [OF held_try(2) [OF held_committing [OF assms(1)]]] held_bind [OF held_try(1) [OF held_committing [OF assms(1)]]],
      rule held_preserves, rule assms(2))+

lemma preserves_announce [preserve_intros]:
  "preserves (proc_state d0) (announce_requisition a ty i r)" "preserves (proc_state d0) (announce_order a ty i r)"
  unfolding announce_requisition_def announce_order_def by (intro preserve_intros procured.session_keeps)+

section \<open>Requisitions\<close>

lemma create_requisition_keeps:
  "preserves (proc_state d0) (create_requisition env site room purpose needed priority st si nts number)"
  unfolding create_requisition_def
  by (rule preserves_held, rule held_neutral_bind, intro call_intros, rule held_saved(2) [OF held_added])
    (auto intro: preserve_intros)

lemma add_requisition_line_keeps:
  "preserves (proc_state d0) (add_requisition_line env i item q u desc needed cost supplier nts)"
  unfolding add_requisition_line_def
proof (rule preserves_held, rule held_read [where F = "\<lambda>l _. requisition_line_ok l"])
  fix l
  show "held (proc_state d0) (\<lambda>w. True \<and> requisition_line_ok l)
     (obind (try_integrity (\<lambda>_. ValidationError ''INVENTORY_REQUISITION_LINE_EXISTS'')
        (committing inv_insert (doc_add (RequisitionLineRow l))))
      (\<lambda>_. obind (announce_requisition ''inventory_requisition_line.create'' ''purchase_requisition_line'' (rl_id l)
              (rl_requisition_id l)) (\<lambda>_. oret l))) (\<lambda>_ _. True)"
    by (rule held_fact [where Q = "requisition_line_ok l"], simp, rule held_saved(2) [OF held_added]) (auto intro: preserve_intros)
qed (auto intro: call_intros dest: prepare_requisition_line_Inr)

lemma update_requisition_keeps:
  "preserves (proc_state d0) (update_requisition env i site room purpose needed priority st si nts expected)"
  unfolding update_requisition_def
proof (rule preserves_held, rule held_read [where F = "\<lambda>r w. \<exists>r0. get_requisition_row (rq_id r) (db_documents w) = Some r0 \<and> same_requisition r0 r"])
  fix r
  show "held (proc_state d0) (\<lambda>w. True \<and> (\<exists>r0. get_requisition_row (rq_id r) (db_documents w) = Some r0 \<and> same_requisition r0 r))
     (obind (try_rollback (committing inv_insert (update_requisition_row r))) (\<lambda>saved.
      obind (announce_requisition ''inventory_requisition.update'' ''purchase_requisition'' (rq_id r) (rq_id r)) (\<lambda>_.
      oret saved))) (\<lambda>_ _. True)"
    by (rule held_saved(1) [OF held_update_requisition]) (auto intro: preserve_intros)
qed (auto intro: call_intros dest: prepare_requisition_update_Inr)

lemma cancel_requisition_keeps: "preserves (proc_state d0) (cancel_requisition env i expected)"
  unfolding cancel_requisition_def
  by (rule preserves_held, rule held_neutral_bind, intro call_intros,
      rule held_draft_requisition, blast dest: require_draft_requisition_Inr,
      rule held_neutral_bind, intro call_intros, rule held_neutral_bind, intro call_intros, rule held_requisition_lines,
      rule held_bind, rule held_set_line_statuses, assumption, simp, simp add: get_requisition_row_def,
      rule held_saved(1) [OF held_update_requisition])
    (auto simp: same_requisition_def intro: requisition_move.intros preserve_intros)

section \<open>Requests and decisions\<close>

lemma advances_documents:
  "advances (keeps_found get_order_row) (doc_get f)" "advances (keeps_found get_requisition_row) (doc_get f)"
  "advances (keeps_found get_order_row) (doc_add x)" "advances (keeps_found get_requisition_row) (doc_add x)"
  "advances (keeps_found get_approval) (doc_get f)" "advances (keeps_found get_approval) (doc_add x)"
  unfolding doc_get_def doc_add_def
  by (rule found_orders.advances_rules found_requisitions.advances_rules found_approvals.advances_rules)+

lemma neutral_audit_present [call_intros]: "neutral (oget s_audit_on)"
  by (rule call_intros)

lemma request_change_advances:
  "advances (keeps_found get_order_row) (request_change env rt et i p pl c)"
  "advances (keeps_found get_requisition_row) (request_change env rt et i p pl c)"
  unfolding request_change_def record_governance_audit_def require_perm_def
  by (intro found_orders.advances_rules advances_documents) (intro found_requisitions.advances_rules advances_documents)

lemma preserves_governance_audit [preserve_intros]: "preserves (proc_state d0) (record_governance_audit a r)"
  unfolding record_governance_audit_def doc_add_def by (intro preserve_intros preserves_add) simp

lemma preserves_reads [preserve_intros]:
  "preserves I (doc_get f)" "preserves I (require_perm env code)" "preserves I (require_any_perm env codes)"
  unfolding doc_get_def require_perm_def require_any_perm_def by (rule preserve_intros)+

lemma request_change_keeps: "preserves (proc_state d0) (request_change env rt et i p pl c)"
  unfolding request_change_def Let_def doc_add_def
  by (intro preserve_intros procured.session_keeps preserves_add) (simp add: approval_ok_def create_approval_def)

lemma held_request_change:
  assumes "\<And>x. held (proc_state d0) A (f x) C"
    and "\<And>w w'. A w \<Longrightarrow> keeps_found get_order_row w w' \<Longrightarrow> keeps_found get_requisition_row w w' \<Longrightarrow> A w'"
  shows "held (proc_state d0) A (obind (request_change env rt et i p pl c) f) C"
proof (rule held_bind [OF _ assms(1)], rule heldI)
  fix s r t assume s: "proc_state d0 s" "A (s_working s)" "request_change env rt et i p pl c s = (r, t)"
  have "A (s_working t)" if "r = Inr x" for x
  proof -
    have eq: "request_change env rt et i p pl c s = (Inr x, t)" using s(3) that by simp
    show ?thesis
      by (rule assms(2) [OF s(2) advancesD [OF request_change_advances(1) eq] advancesD [OF request_change_advances(2) eq]])
  qed
  with preservesD [OF request_change_keeps s(1,3)] show "proc_state d0 t \<and> (\<forall>x. r = Inr x \<longrightarrow> A (s_working t))" by blast
qed

lemma preserves_commit_tail:
  "preserves (proc_state d0) (obind (commit inv_insert) (\<lambda>_.
     obind (record_audit inv_insert a ty i) (\<lambda>_. obind (emit sig j) (\<lambda>_. obind (emit sig' k) (\<lambda>_. oret x)))))"
  by (intro preserve_intros procured.session_keeps)

lemma submit_requisition_keeps: "preserves (proc_state d0) (submit_requisition env i)"
  unfolding submit_requisition_def
  by (rule preserves_held, rule held_neutral_bind, intro call_intros,
      rule held_draft_requisition, blast dest: require_draft_requisition_Inr,
      rule held_requisition_lines, rule held_guard, rule held_request_change,
      rule held_neutral_bind, intro call_intros, rule held_bind, rule held_set_line_statuses, assumption, simp,
      simp add: get_requisition_row_def, rule held_bind, rule held_update_requisition,
      force simp: same_requisition_def intro: requisition_move.intros,
      rule held_preserves, rule preserves_commit_tail)
    (auto simp: keeps_found_def)

lemma requisition_decisions_keep:
  "preserves (proc_state d0) (apply_submitted_requisition_approval env q)"
  "preserves (proc_state d0) (apply_submitted_requisition_rejection env q)"
  unfolding apply_submitted_requisition_approval_def apply_submitted_requisition_rejection_def
  by (rule preserves_held, rule held_awaiting_requisition, blast dest: awaiting_requisition_Inr,
      rule held_neutral_bind, intro call_intros, rule held_bind, rule held_update_requisition,
      force simp: same_requisition_def intro: requisition_move.intros,
      rule held_requisition_lines, rule held_bind, rule held_set_line_statuses, assumption, simp, simp,
      rule held_announce)+

end
