(* ===== verification/Proc_Orders.thy ===== *)
theory Proc_Orders
  imports Proc_Drafts
begin

text \<open>
  The order lifecycle, the approval of orders and the posting of receipts keep the invariant.
\<close>

section \<open>Transitions the code allows\<close>

lemma allowed_order_moves:
  "list_all (\<lambda>st. validate_transition (order_status_value st) ''SENT'' PURCHASE_ORDER_STATUS_TRANSITIONS \<noteq> Inr () \<or>
     st \<in> {PO_APPROVED, PO_SENT}) [PO_DRAFT, PO_SUBMITTED, PO_UNDER_REVIEW, PO_APPROVED, PO_REJECTED, PO_SENT,
       PO_PARTIALLY_RECEIVED, PO_FULLY_RECEIVED, PO_CLOSED, PO_CANCELLED]"
  "list_all (\<lambda>st. validate_transition (order_status_value st) ''CLOSED'' PURCHASE_ORDER_STATUS_TRANSITIONS \<noteq> Inr () \<or>
     st \<in> {PO_APPROVED, PO_SENT, PO_PARTIALLY_RECEIVED, PO_FULLY_RECEIVED, PO_CLOSED})
     [PO_DRAFT, PO_SUBMITTED, PO_UNDER_REVIEW, PO_APPROVED, PO_REJECTED, PO_SENT,
       PO_PARTIALLY_RECEIVED, PO_FULLY_RECEIVED, PO_CLOSED, PO_CANCELLED]"
  by code_simp+

lemma all_order_statuses:
  "st \<in> set [PO_DRAFT, PO_SUBMITTED, PO_UNDER_REVIEW, PO_APPROVED, PO_REJECTED, PO_SENT,
       PO_PARTIALLY_RECEIVED, PO_FULLY_RECEIVED, PO_CLOSED, PO_CANCELLED]"
  by (cases st) simp_all

lemma send_allowed:
  assumes "validate_transition (order_status_value st) (order_status_value PO_SENT) PURCHASE_ORDER_STATUS_TRANSITIONS = Inr u"
  shows "order_move\<^sup>*\<^sup>* st PO_SENT"
proof -
  have "st \<in> {PO_APPROVED, PO_SENT}"
    using assms allowed_order_moves(1) all_order_statuses [of st] unfolding list_all_iff by (auto simp: order_status_value_def)
  then show ?thesis by (auto intro: order_move.intros)
qed

lemma close_allowed:
  assumes "validate_transition (order_status_value st) (order_status_value PO_CLOSED) PURCHASE_ORDER_STATUS_TRANSITIONS = Inr u"
  shows "order_move\<^sup>*\<^sup>* st PO_CLOSED"
proof -
  have "st \<in> {PO_APPROVED, PO_SENT, PO_PARTIALLY_RECEIVED, PO_FULLY_RECEIVED, PO_CLOSED}"
    using assms allowed_order_moves(2) all_order_statuses [of st] unfolding list_all_iff by (auto simp: order_status_value_def)
  then show ?thesis by (auto intro: order_move.intros)
qed

lemma allowed_requisition_moves:
  "list_all (\<lambda>(st, st'). validate_transition (requisition_status_value st) (requisition_status_value st')
       REQUISITION_STATUS_TRANSITIONS \<noteq> Inr () \<or> (st, st') \<in> set requisition_moves \<or> st = st')
     (List.product [RQ_DRAFT, RQ_SUBMITTED, RQ_UNDER_REVIEW, RQ_APPROVED, RQ_REJECTED, RQ_PARTIALLY_SOURCED,
       RQ_FULLY_SOURCED, RQ_CANCELLED, RQ_CLOSED] [RQ_PARTIALLY_SOURCED, RQ_FULLY_SOURCED])"
  by code_simp

lemma requisition_moves_move: "(st, st') \<in> set requisition_moves \<Longrightarrow> requisition_move st st'"
  by (auto simp: requisition_moves_def intro: requisition_move.intros)

lemma sourcing_allowed:
  assumes "validate_transition (requisition_status_value st) (requisition_status_value st') REQUISITION_STATUS_TRANSITIONS = Inr u"
    and "st' \<in> {RQ_PARTIALLY_SOURCED, RQ_FULLY_SOURCED}"
  shows "requisition_move\<^sup>*\<^sup>* st st'"
proof -
  have "(st, st') \<in> set (List.product [RQ_DRAFT, RQ_SUBMITTED, RQ_UNDER_REVIEW, RQ_APPROVED, RQ_REJECTED, RQ_PARTIALLY_SOURCED,
       RQ_FULLY_SOURCED, RQ_CANCELLED, RQ_CLOSED] [RQ_PARTIALLY_SOURCED, RQ_FULLY_SOURCED])"
    using assms(2) by (cases st) auto
  then have "(st, st') \<in> set requisition_moves \<or> st = st'"
    using allowed_requisition_moves assms(1) unfolding list_all_iff by fastforce
  then show ?thesis using requisition_moves_move by auto
qed

section \<open>The lifecycle of an order\<close>

lemma held_save_order:
  assumes "\<And>w. A w \<Longrightarrow> \<exists>r0. get_order_row (po_id r) (db_documents w) = Some r0 \<and> same_order r0 r"
  shows "held (proc_state d0) A (save_order action r) (\<lambda>_ _. True)"
  unfolding save_order_def
  by (rule held_saved(1) [OF held_update_order [OF assms]]) (auto intro: preserve_intros)

lemma create_purchase_order_keeps:
  "preserves (proc_state d0) (create_purchase_order env site supplier currency source ordered expected ref nts number)"
  unfolding create_purchase_order_def
  by (rule preserves_held, rule held_neutral_bind, intro call_intros, rule held_saved(2) [OF held_added])
    (auto intro: preserve_intros)

lemma add_purchase_order_line_keeps:
  "preserves (proc_state d0) (add_purchase_order_line env i item room q u price expected desc source nts)"
  unfolding add_purchase_order_line_def
proof (rule preserves_held, rule held_read [where F = "\<lambda>l _. order_line_ok l"])
  fix l
  show "held (proc_state d0) (\<lambda>w. True \<and> order_line_ok l)
     (obind (try_integrity (\<lambda>_. ValidationError ''INVENTORY_PURCHASE_ORDER_LINE_EXISTS'')
        (committing inv_insert (doc_add (OrderLineRow l))))
      (\<lambda>_. obind (announce_order ''inventory_purchase_order_line.create'' ''purchase_order_line'' (pl_id l)
              (pl_order_id l)) (\<lambda>_. oret l))) (\<lambda>_ _. True)"
    by (rule held_fact [where Q = "order_line_ok l"], simp, rule held_saved(2) [OF held_added]) (auto intro: preserve_intros)
qed (auto intro: call_intros dest: prepare_order_line_Inr)

lemma submit_purchase_order_keeps: "preserves (proc_state d0) (submit_purchase_order env i)"
  unfolding submit_purchase_order_def
  by (rule preserves_held, rule held_neutral_bind, intro call_intros,
      rule held_draft_order, blast dest: require_draft_order_Inr,
      rule held_order_lines, rule held_guard, rule held_neutral_bind, intro call_intros, rule held_neutral_bind, intro call_intros,
      rule held_request_change, rule held_neutral_bind, intro call_intros, rule held_bind, rule held_update_order,
      force simp: same_order_def intro: order_move.intros,
      rule held_preserves, rule preserves_commit_tail)
    (auto simp: keeps_found_def)

lemma update_purchase_order_keeps:
  "preserves (proc_state d0) (update_purchase_order env i site supplier currency source expected_delivery ref nts version)"
  unfolding update_purchase_order_def
  by (rule preserves_held, rule held_read [where F = "\<lambda>r w. \<exists>r0. get_order_row (po_id r) (db_documents w) = Some r0 \<and> same_order r0 r"],
      intro call_intros, blast dest: prepare_order_update_Inr, rule held_save_order) simp

lemma cancel_purchase_order_keeps: "preserves (proc_state d0) (cancel_purchase_order env i expected)"
  unfolding cancel_purchase_order_def
  by (rule preserves_held, rule held_neutral_bind, intro call_intros,
      rule held_draft_order, blast dest: require_draft_order_Inr,
      rule held_neutral_bind, intro call_intros, rule held_neutral_bind, intro call_intros, rule held_order_lines,
      rule held_bind, rule held_set_order_line_statuses, assumption, simp, simp add: get_order_row_def, rule held_save_order)
    (force simp: same_order_def intro: order_move.intros)

lemma send_purchase_order_keeps: "preserves (proc_state d0) (send_purchase_order env i)"
  unfolding send_purchase_order_def check_order_transition_def
  by (rule preserves_held, rule held_neutral_bind, intro call_intros,
      rule held_order, blast dest: get_purchase_order_Inr, rule held_lift, rule held_save_order)
    (auto simp: same_order_def intro: send_allowed)

lemma close_purchase_order_keeps: "preserves (proc_state d0) (close_purchase_order env i)"
  unfolding close_purchase_order_def check_order_transition_def
  by (rule preserves_held, rule held_neutral_bind, intro call_intros,
      rule held_order, blast dest: get_purchase_order_Inr, rule held_order_lines, rule held_guard, rule held_guard,
      rule held_lift, rule held_save_order)
    (auto simp: same_order_def intro: close_allowed)

lemma order_rejection_keeps: "preserves (proc_state d0) (apply_submitted_purchase_order_rejection env q)"
  unfolding apply_submitted_purchase_order_rejection_def
  by (rule preserves_held, rule held_awaiting_order, blast dest: awaiting_order_Inr,
      rule held_neutral_bind, intro call_intros, rule held_bind, rule held_update_order,
      force simp: same_order_def intro: order_move.intros,
      rule held_order_lines, rule held_bind, rule held_set_order_line_statuses, assumption, simp, simp,
      rule held_announce)

end
