(* ===== verification/Proc_Decisions.thy ===== *)
theory Proc_Decisions
  imports Proc_Orders
begin

text \<open>
  The approval of an order, the receipts and the approval service keep the invariant.
\<close>

section \<open>Balances\<close>

lemma preserves_neutral: "neutral m \<Longrightarrow> preserves (tables P ok) m"
  unfolding preserves_def using tables_neutral by blast

lemma update_balance_keeps [preserve_intros]: "preserves (proc_state d0) (update_balance b)"
  unfolding preserves_def update_balance_def by (auto simp: tables_def split: sum.splits)

lemma add_balance_rows_keep [preserve_intros]:
  "preserves (proc_state d0) (session_add (BalanceRow b))" "preserves (proc_state d0) (session_add (TransactionRow t))"
  by (intro preserves_add, simp)+

lemma post_transaction_keeps_documents:
  "preserves (proc_state d0) (post_transaction env org item room ty q u c at_time rt ri nts do_commit)"
  unfolding post_transaction_def save_posting_def write_posting_def announce_posting_def record_transaction_audit_def committing_def
  by (intro preserve_intros procured.session_keeps preserves_neutral [OF neutral_posting(2)] preserves_neutral [OF neutral_posting(3)])

lemma post_adjustment_keeps_documents [preserve_intros]:
  "preserves (proc_state d0) (post_adjustment env i room q dir u c at_time rt ri nts do_commit)"
  unfolding post_adjustment_def
  by (intro preserve_intros preserves_neutral [OF neutral_reads(7)] post_transaction_keeps_documents)

lemma adjust_on_order_keeps [preserve_intros]:
  "preserves (proc_state d0) (adjust_on_order_balance env org item room u delta at_time)"
  unfolding adjust_on_order_balance_def by (intro preserve_intros)

lemma touch_keeps [preserve_intros]: "preserves (proc_state d0) (touch_balance org i room touched)"
  by (rule preserves_neutral) (rule call_intros)

lemma item_read_keeps [preserve_intros]: "preserves (proc_state d0) (get_item_for_internal_use i)"
  by (rule preserves_neutral) (rule call_intros)

section \<open>The approval of an order\<close>

lemma refresh_requisition_keeps [preserve_intros]: "preserves (proc_state d0) (refresh_requisition env i)"
proof -
  have body: "held (proc_state d0) (\<lambda>w. get_requisition_row i (db_documents w) = Some r) (refresh_requisition_status env r) (\<lambda>_ _. True)"
    for r
    unfolding refresh_requisition_status_def Let_def check_requisition_transition_def
    by (rule held_requisition_lines, rule held_split, rule held_ret, simp, rule held_split, rule held_ret, simp,
        rule held_lift, rule held_bind, rule held_update_requisition)
      (auto simp: same_requisition_def get_requisition_row_def dest: find_row_self intro: held_intros split: if_splits
        intro!: sourcing_allowed)
  show ?thesis
    unfolding refresh_requisition_def
    by (rule preserves_held, rule held_doc_get, rule held_split, rule held_ret, simp, rule held_weaken [OF body]) auto
qed

lemma sourced_line_ok:
  "requisition_line_ok rl \<Longrightarrow> \<not> q > quantity_requested rl \<Longrightarrow> 0 \<le> q \<Longrightarrow>
     requisition_line_ok (rl\<lparr>quantity_sourced := q, rl_status := resolve_requisition_line_status (rl\<lparr>quantity_sourced := q\<rparr>)\<rparr>)"
  by (auto simp: requisition_line_ok_def resolve_requisition_line_status_def)

lemma source_line_keeps:
  assumes "order_line_ok l"
  shows "preserves (proc_state d0) (source_requisition_line l touched)"
proof -
  have pos: "0 < quantity_ordered l" using assms by (simp add: order_line_ok_def)
  show ?thesis
    unfolding source_requisition_line_def Let_def
    by (rule preserves_held, rule held_split, rule held_ret, simp, rule held_split, rule held_ret, simp,
        rule held_requisition_line, rule held_neutral_bind, intro call_intros, rule held_lift, rule held_guard,
        rule held_bind, rule held_update_requisition_line, rule sourced_line_ok, assumption, assumption)
      (auto simp: requisition_line_ok_def dest: convert_quantity_pos [OF _ pos] intro: held_intros)
qed

lemma opened_line_ok: "order_line_ok l \<Longrightarrow> order_line_ok (l\<lparr>pl_status := PL_OPEN\<rparr>)"
  by (simp add: order_line_ok_def)

lemma update_order_line_keeps: "order_line_ok l \<Longrightarrow> preserves (proc_state d0) (update_order_line l)"
  by (rule preserves_held, rule held_update_order_line)

lemma approve_lines_keeps:
  "list_all order_line_ok ls \<Longrightarrow> preserves (proc_state d0) (approve_lines env order ls requisitions balances)"
proof (induction ls arbitrary: requisitions balances)
  case (Cons l ls)
  then have "order_line_ok l" "list_all order_line_ok ls" by simp_all
  then show ?case
    unfolding approve_lines.simps
    by (intro preserve_intros update_order_line_keeps opened_line_ok source_line_keeps Cons.IH)
qed (auto intro: preserve_intros)

lemma order_approval_keeps: "preserves (proc_state d0) (apply_submitted_purchase_order_approval env visit q)"
  unfolding apply_submitted_purchase_order_approval_def
  by (rule preserves_held, rule held_awaiting_order, blast dest: awaiting_order_Inr,
      rule held_neutral_bind, intro call_intros, rule held_bind, rule held_update_order,
      force simp: same_order_def intro: order_move.intros,
      rule held_order_lines, rule held_preserves, intro preserve_intros approve_lines_keeps, assumption)

section \<open>Receipts\<close>

lemma received_line_ok:
  assumes "order_line_ok l" "0 \<le> a" "0 \<le> b" "\<not> a + b \<le> 0" "\<not> a + b > line_outstanding_qty l"
  shows "order_line_ok (received_line a b l)"
  using assms
  by (auto simp: order_line_ok_def received_line_def line_outstanding_qty_def resolve_purchase_order_line_status_def Let_def
      max_def split: if_splits)

lemma check_receipt_line_Inr:
  assumes "check_receipt_line env at_time ref rid idx p lines s = (Inr (l, rl), t)"
  shows "(\<exists>i. map_of lines i = Some l) \<and> 0 \<le> quantity_accepted rl \<and> 0 \<le> rcl_quantity_rejected rl \<and>
    \<not> quantity_accepted rl + rcl_quantity_rejected rl \<le> 0 \<and>
    \<not> quantity_accepted rl + rcl_quantity_rejected rl > line_outstanding_qty l"
  using assms unfolding check_receipt_line_def Let_def
  by (auto split: option.splits dest: normalize_nonnegative_Inr)

definition lines_ok :: "(string, order_line) dict \<Rightarrow> bool" where
  "lines_ok lines \<longleftrightarrow> (\<forall>l \<in> snd ` set lines. order_line_ok l)"

lemma set_update_dict: "set (AList.update k v d) \<subseteq> insert (k, v) (set d)"
  by (induction d) auto

lemma lines_ok_update: "lines_ok d \<Longrightarrow> order_line_ok l \<Longrightarrow> lines_ok (AList.update k l d)"
  unfolding lines_ok_def using set_update_dict [of k l d] by fastforce

lemma lines_ok_dict: "list_all order_line_ok ls \<Longrightarrow> lines_ok (dict_of pl_id ls)"
proof -
  have "lines_ok d \<Longrightarrow> list_all order_line_ok ls \<Longrightarrow> lines_ok (fold (\<lambda>x. AList.update (pl_id x) x) ls d)" for d
    by (induction ls arbitrary: d) (simp_all add: lines_ok_update)
  moreover assume "list_all order_line_ok ls"
  moreover have "lines_ok []" by (simp add: lines_ok_def)
  ultimately show ?thesis by (simp add: dict_of_def)
qed

text \<open>The header found before the loop is found after it.\<close>

definition order_found :: "string \<Rightarrow> purchase_order \<Rightarrow> inv_db \<Rightarrow> bool" where
  "order_found i r w \<longleftrightarrow> get_order_row i (db_documents w) = Some r"

lemma held_order_found:
  assumes "preserves (proc_state d0) m" "advances (keeps_found get_order_row) m"
  shows "held (proc_state d0) (order_found i r) m (\<lambda>_. order_found i r)"
  unfolding held_def order_found_def
  using preservesD [OF assms(1)] advancesD [OF assms(2)] unfolding keeps_found_def by blast

lemma update_balance_advances: "advances (keeps_found get_order_row) (update_balance b)"
  unfolding advances_def update_balance_def keeps_found_def by (auto split: sum.splits)

lemma post_adjustment_advances: "advances (keeps_found get_order_row) (post_adjustment env i room q dir u c at_time rt ri nts False)"
  unfolding post_adjustment_def post_transaction_def save_posting_def write_posting_def announce_posting_def if_False
  by (intro found_orders.advances_rules update_balance_advances found_orders.advances_neutral [OF neutral_posting(2)]
      found_orders.advances_neutral [OF neutral_posting(3)] found_orders.advances_neutral [OF neutral_reads(7)])

lemma receipt_parts_advance:
  "advances (keeps_found get_order_row) (post_accepted env at_time org rl txns touched)"
  "advances (keeps_found get_order_row) (adjust_on_order_balance env org item room u delta at_time)"
  unfolding post_accepted_def adjust_on_order_balance_def Let_def
  by (intro found_orders.advances_rules update_balance_advances post_adjustment_advances
      found_orders.advances_neutral [OF neutral_receipts(2)])+

lemma post_accepted_keeps: "preserves (proc_state d0) (post_accepted env at_time org rl txns touched)"
  unfolding post_accepted_def by (intro preserve_intros)

lemmas held_receipt_parts =
  held_order_found [OF post_accepted_keeps receipt_parts_advance(1)]
  held_order_found [OF adjust_on_order_keeps receipt_parts_advance(2)]

lemma record_received_keeps:
  assumes "lines_ok lines" "order_line_ok (received_line (quantity_accepted rl) (rcl_quantity_rejected rl) l)"
  shows "held (proc_state d0) (order_found i r) (record_received env order at_time l rl (lines, txns, touched))
    (\<lambda>acc w. order_found i r w \<and> lines_ok (fst acc))"
  unfolding record_received_def case_prod_conv Let_def
  by (rule held_bind, rule held_added, simp, rule held_bind, rule held_update_order_line, rule assms(2),
      simp add: order_found_def get_order_row_def, rule held_bind, rule held_receipt_parts(1), rule held_split(3),
      rule held_neutral_bind, intro call_intros, rule held_bind, rule held_receipt_parts(2),
      rule held_neutral_bind, intro call_intros, rule held_ret)
    (simp add: lines_ok_update [OF assms])

lemma receive_line_keeps:
  assumes "lines_ok (fst acc)"
  shows "held (proc_state d0) (order_found i r) (receive_line env order at_time ref rid idx p acc)
    (\<lambda>acc' w. order_found i r w \<and> lines_ok (fst acc'))"
  unfolding receive_line_def
proof (rule held_read [where F = "\<lambda>x _. order_line_ok (received_line (quantity_accepted (snd x)) (rcl_quantity_rejected (snd x)) (fst x))"])
  fix s x t assume "check_receipt_line env at_time ref rid idx p (fst acc) s = (Inr x, t)"
  then show "order_line_ok (received_line (quantity_accepted (snd x)) (rcl_quantity_rejected (snd x)) (fst x))"
    using assms by (cases x) (auto dest!: check_receipt_line_Inr map_of_SomeD intro!: received_line_ok simp: lines_ok_def)
next
  fix x :: "order_line \<times> receipt_line"
  let ?ok = "order_line_ok (received_line (quantity_accepted (snd x)) (rcl_quantity_rejected (snd x)) (fst x))"
  show "held (proc_state d0) (\<lambda>w. order_found i r w \<and> ?ok) (case x of (l, rl) \<Rightarrow> record_received env order at_time l rl acc)
    (\<lambda>acc' w. order_found i r w \<and> lines_ok (fst acc'))"
    by (rule held_conj_fact, cases x, cases acc) (use assms in \<open>simp add: record_received_keeps\<close>)
qed (intro call_intros)

lemma receive_lines_keeps:
  "lines_ok (fst acc) \<Longrightarrow> held (proc_state d0) (order_found i r) (receive_lines env order at_time ref rid idx ps acc)
     (\<lambda>_. order_found i r)"
proof (induction ps arbitrary: idx acc)
  case (Cons p ps)
  show ?case
    unfolding receive_lines.simps
    by (rule held_bind, rule receive_line_keeps [OF Cons.prems], rule held_conj_fact, rule Cons.IH)
qed (auto intro: held_intros)

lemma prepare_receipt_Inr:
  assumes "prepare_receipt env i ps at_time ref nts number s = (Inr (order, lines, receipt), t)"
  shows "order_found (po_id order) order (s_working s) \<and> po_status order \<in> {PO_APPROVED, PO_SENT, PO_PARTIALLY_RECEIVED} \<and>
    lines = dict_of pl_id (list_for_purchase_order (po_id order) (db_documents (s_working s)))"
  using assms unfolding prepare_receipt_def doc_get_def order_found_def require_perm_def
  by (auto dest!: get_purchase_order_Inr)

lemma receipt_body_keeps:
  assumes "lines_ok lines" "po_status order \<in> {PO_APPROVED, PO_SENT, PO_PARTIALLY_RECEIVED}"
  shows "held (proc_state d0) (order_found (po_id order) order) (receipt_body env order lines receipt ps) (\<lambda>_ _. True)"
proof -
  have move: "order_move\<^sup>*\<^sup>* (po_status order) (resolve_purchase_order_receiving_status ls)" for ls
    using assms(2) by (auto simp: resolve_purchase_order_receiving_status_def intro: order_move.intros)
  have flush: "held (proc_state d0) (order_found (po_id order) order) (session_flush inv_insert) (\<lambda>_. order_found (po_id order) order)"
    by (rule held_order_found) (rule procured.session_keeps found_orders.advances_session)+
  show ?thesis
    unfolding receipt_body_def
    by (rule held_bind, rule held_added, simp, rule held_bind, rule flush, rule held_bind, rule receive_lines_keeps,
        simp add: assms(1), rule held_split(3), rule held_split(3), rule held_neutral_bind, intro call_intros, rule held_bind, rule held_update_order)
      (auto simp: order_found_def same_order_def move intro: held_intros)
qed

lemma announce_receipt_keeps [preserve_intros]:
  "preserves (proc_state d0) (announce_receipt visit order receipt txns touched)"
  unfolding announce_receipt_def record_transaction_audit_def by (intro preserve_intros procured.session_keeps)

definition receipt_ready :: "purchase_order \<times> (string, order_line) dict \<times> receipt_header \<Rightarrow> inv_db \<Rightarrow> bool" where
  "receipt_ready x w \<longleftrightarrow> order_found (po_id (fst x)) (fst x) w \<and>
     po_status (fst x) \<in> {PO_APPROVED, PO_SENT, PO_PARTIALLY_RECEIVED} \<and>
     fst (snd x) = dict_of pl_id (list_for_purchase_order (po_id (fst x)) (db_documents w))"

lemma post_receipt_keeps: "preserves (proc_state d0) (post_receipt env visit i ps at_time ref nts number)"
  unfolding post_receipt_def
proof (rule preserves_held, rule held_read [where F = receipt_ready])
  fix s x t assume "prepare_receipt env i ps at_time ref nts number s = (Inr x, t)"
  then show "receipt_ready x (s_working s)"
    using prepare_receipt_Inr by (cases x) (auto simp: receipt_ready_def)
next
  fix x :: "purchase_order \<times> (string, order_line) dict \<times> receipt_header"
  let ?open = "po_status (fst x) \<in> {PO_APPROVED, PO_SENT, PO_PARTIALLY_RECEIVED}"
  show "held (proc_state d0) (\<lambda>w. True \<and> receipt_ready x w) (case x of (order, lines, receipt) \<Rightarrow>
     obind (try_rollback (committing inv_insert (receipt_body env order lines receipt ps))) (\<lambda>(txns, touched).
     announce_receipt visit order receipt txns touched)) (\<lambda>_ _. True)"
  proof (rule held_tables_fact [where Q = "lines_ok (fst (snd x)) \<and> ?open"])
    fix w assume "True \<and> receipt_ready x w" "procured d0 w"
    then show "lines_ok (fst (snd x)) \<and> ?open"
      by (auto simp: receipt_ready_def procured_def documents_ok_def list_for_purchase_order_def list_all_iff intro!: lines_ok_dict)
  next
    assume ok: "lines_ok (fst (snd x)) \<and> ?open"
    show "held (proc_state d0) (\<lambda>w. True \<and> receipt_ready x w) (case x of (order, lines, receipt) \<Rightarrow>
       obind (try_rollback (committing inv_insert (receipt_body env order lines receipt ps))) (\<lambda>(txns, touched).
       announce_receipt visit order receipt txns touched)) (\<lambda>_ _. True)"
      by (cases x, simp only: case_prod_conv, rule held_saved(1) [OF held_weaken [OF receipt_body_keeps]])
        (use ok in \<open>auto simp: receipt_ready_def intro: preserve_intros\<close>)
  qed
qed (intro call_intros)

section \<open>The approval service\<close>

text \<open>A request found before an operation is found, unchanged, when the operation returns.\<close>

definition request_found :: "approval_request \<Rightarrow> inv_db \<Rightarrow> bool" where
  "request_found r w \<longleftrightarrow> get_approval (ap_id r) (db_documents w) = Some r"

definition good_handlers :: "documents \<Rightarrow> handlers \<Rightarrow> bool" where
  "good_handlers d0 hs \<longleftrightarrow> (\<forall>ty h r. hs ty = Some h \<longrightarrow>
     preserves (proc_state d0) (h r) \<and> advances (keeps_found get_approval) (h r))"

lemma require_pending_Inr:
  "require_pending i s = (Inr r, t) \<Longrightarrow> request_found r (s_working s) \<and> ap_status r = AP_PENDING"
  unfolding require_pending_def doc_get_def request_found_def get_approval_def
  by (auto split: option.splits if_splits dest: find_row_self)

lemma not_self_decided:
  assumes "ensure_not_self_decision env r s = (Inr u, t)" "st \<noteq> AP_PENDING"
  shows "approval_ok (decide env st note r)"
  using assms unfolding ensure_not_self_decision_def
  by (auto simp: approval_ok_def decide_def split: option.splits)

lemma held_update_approval:
  assumes "approval_ok (decide env st note r)" "ap_status r = AP_PENDING"
  shows "held (proc_state d0) (request_found r) (update_approval (decide env st note r)) (\<lambda>_ _. True)"
proof -
  let ?r = "decide env st note r"
  have key: "ap_id ?r = ap_id r" by (simp add: decide_def)
  have same: "same_request r ?r" using assms(2) by (simp add: decide_def same_request_def)
  show ?thesis
    unfolding update_approval_def
  proof (rule held_doc_get, rule held_split(2))
    show "held (proc_state d0) (\<lambda>w. request_found r w \<and> x = get_approval (ap_id ?r) (db_documents w)) (doc_add (ApprovalRow ?r)) (\<lambda>_ _. True)" for x
      by (rule held_last [OF held_added]) (simp add: assms(1))
  next
    fix x y
    show "held (proc_state d0) (\<lambda>w. request_found r w \<and> x = get_approval (ap_id ?r) (db_documents w))
      (doc_update (\<lambda>d. Inr (d\<lparr>dc_approvals := replace_row ap_id ?r (dc_approvals d)\<rparr>))) (\<lambda>_ _. True)"
    proof (rule held_doc_update)
      fix w d
      assume w: "request_found r w \<and> x = get_approval (ap_id ?r) (db_documents w)" "documents_ok (db_documents w)"
        and "Inr ((db_documents w)\<lparr>dc_approvals := replace_row ap_id ?r (dc_approvals (db_documents w))\<rparr>) = Inr d"
      then have d: "d = (db_documents w)\<lparr>dc_approvals := replace_row ap_id ?r (dc_approvals (db_documents w))\<rparr>" by simp
      have "tracks get_approval same_request (db_documents w) d"
        by (rule tracks_replaced [where r = ?r and ?r0.0 = r and f = dc_approvals and key = ap_id])
          (use w(1) same in \<open>auto simp: get_approval_def d key request_found_def\<close>)
      then show "documents_ok d \<and> history (db_documents w) d \<and> True"
        using w(2) assms(1) replaced_all [of approval_ok "dc_approvals (db_documents w)" ?r ap_id]
        by (auto simp: d documents_ok_def history_def tracks_def get_order_row_def get_requisition_row_def)
    qed
  qed
qed

lemma held_close_decision:
  assumes "approval_ok (decide env st note r)" "ap_status r = AP_PENDING"
  shows "held (proc_state d0) (request_found r) (close_decision action (decide env st note r)) (\<lambda>_ _. True)"
  unfolding close_decision_def
  by (rule held_bind, rule held_update_approval [OF assms], rule held_preserves, intro preserve_intros procured.session_keeps)

lemma held_handler:
  assumes "good_handlers d0 hs" "hs ty = Some h"
  shows "held (proc_state d0) (request_found r) (h q) (\<lambda>_. request_found r)"
  using assms unfolding good_handlers_def held_def request_found_def
  by (metis advancesD keeps_found_def preservesD)

lemmas held_pending = held_read [OF neutral_decisions(1), where F = "\<lambda>r w. request_found r w \<and> ap_status r = AP_PENDING"]

lemma held_not_self:
  assumes "st \<noteq> AP_PENDING" "approval_ok (decide env st note r) \<Longrightarrow> held (tables P ok) A (f ()) C"
  shows "held (tables P ok) A (obind (ensure_not_self_decision env r) f) C"
  by (rule held_read [where F = "\<lambda>_ _. approval_ok (decide env st note r)"], intro call_intros)
    (auto dest: not_self_decided [OF _ assms(1)] intro: held_conj_fact assms(2))

lemma held_domain_events: "held (tables P ok) A (emit_post_apply_domain_events r) (\<lambda>_. A)"
  unfolding emit_post_apply_domain_events_def by (intro held_split held_emit_last held_ret)

lemma approve_and_apply_keeps:
  assumes "good_handlers d0 hs"
  shows "preserves (proc_state d0) (approve_and_apply env hs i note)"
proof -
  have body: "held (proc_state d0) (request_found r)
     (case hs (ap_request_type r) of None \<Rightarrow> oraise (BusinessRuleError ''APPROVAL_HANDLER_MISSING'')
      | Some handler \<Rightarrow> obind (handler r) (\<lambda>_. obind (emit_post_apply_domain_events r) (\<lambda>_.
          close_decision ''governance.approve'' (decide env AP_APPROVED note r)))) (\<lambda>_ _. True)"
    if "approval_ok (decide env AP_APPROVED note r)" "ap_status r = AP_PENDING" for r
    by (rule held_split, rule held_raise, rule held_bind, rule held_handler [OF assms], assumption,
        rule held_bind, rule held_domain_events, rule held_close_decision [OF that])
  show ?thesis
    unfolding approve_and_apply_def
    by (rule preserves_held, rule held_neutral_bind, intro call_intros, rule held_pending, blast dest: require_pending_Inr,
        rule held_not_self [where st = AP_APPROVED], simp, rule held_fact [where Q = "ap_status _ = AP_PENDING", rotated],
        rule held_weaken [OF body]) auto
qed

lemma reject_keeps:
  assumes "good_handlers d0 hs"
  shows "preserves (proc_state d0) (reject env hs i note)"
proof -
  have handled: "held (proc_state d0) (request_found r)
     (case hs ty of None \<Rightarrow> oret () | Some h \<Rightarrow> h q) (\<lambda>_. request_found r)" for r ty q
    by (rule held_split, rule held_ret, assumption, rule held_handler [OF assms])
  have body: "held (proc_state d0) (request_found r)
     (obind (case hs ty of None \<Rightarrow> oret () | Some h \<Rightarrow> h q) (\<lambda>_. close_decision ''governance.reject'' (decide env AP_REJECTED note r)))
     (\<lambda>_ _. True)"
    if "approval_ok (decide env AP_REJECTED note r)" "ap_status r = AP_PENDING" for r ty q
    by (rule held_bind, rule handled, rule held_close_decision [OF that])
  show ?thesis
    unfolding reject_def Let_def
    by (rule preserves_held, rule held_neutral_bind, intro call_intros, rule held_pending, blast dest: require_pending_Inr,
        rule held_not_self [where st = AP_REJECTED], simp, rule held_fact [where Q = "ap_status _ = AP_PENDING", rotated],
        rule held_weaken [OF body]) auto
qed

end
