(* ===== verification/Proc_Properties.thy ===== *)
theory Proc_Properties
  imports Proc_Decisions Inv_Reserved
begin

text \<open>
  Steps of the procurement, approval and inventory services over shared tables: every call keeps
  the invariant of the documents, also when it raises and leaves its transaction open.
\<close>

section \<open>Calls of the stock and reservation services\<close>

lemma stock_parts_keep [preserve_intros]:
  "preserves (proc_state d0) (stock_position env i room)" "preserves (proc_state d0) (get_item env i)"
  "preserves (proc_state d0) (get_storeroom env room)" "preserves (proc_state d0) (validate_stock_item env i)"
  "preserves (proc_state d0) (validate_storeroom env room)" "preserves (proc_state d0) active_organization"
  "preserves (proc_state d0) (ensure_same_scope item room' org)" "preserves (proc_state d0) (get_reservation env i)"
  "preserves (proc_state d0) (make_transaction env org item room' ty q u c at_time rt ri nts b)"
  "preserves (proc_state d0) (load_or_create_balance env org item room' new)"
  by (rule preserves_neutral, rule call_intros)+

lemma reservation_rows_keep [preserve_intros]:
  "preserves (proc_state d0) (session_add (ReservationRow r))" "preserves (proc_state d0) (update_reservation r)"
proof -
  show "preserves (proc_state d0) (session_add (ReservationRow r))" by (intro preserves_add) simp
  show "preserves (proc_state d0) (update_reservation r)"
    unfolding preserves_def update_reservation_def by (auto simp: tables_def split: sum.splits)
qed

lemma postings_keep [preserve_intros]:
  "preserves (proc_state d0) (save_posting n b t c)" "preserves (proc_state d0) (announce_posting b t c)"
  "preserves (proc_state d0) (record_transaction_audit t)"
  unfolding save_posting_def write_posting_def announce_posting_def record_transaction_audit_def committing_def
  by (intro preserve_intros procured.session_keeps)+

lemma posting_routines_keep [preserve_intros]:
  "preserves (proc_state d0) (post_transaction env org item room ty q u c at_time rt ri nts do_commit)"
  "preserves (proc_state d0) (post_reservation_transaction env org item room ty q u at_time rt ri nts do_commit)"
  "preserves (proc_state d0) (post_movement_transaction env org item room ty q u uc at_time rel rt ri nts do_commit)"
  unfolding post_transaction_def post_reservation_transaction_def post_movement_transaction_def
  by (intro preserve_intros)+

lemma stock_operations_keep [preserve_intros]:
  "preserves (proc_state d0) (post_opening_balance env i r q u c at_time nts do_commit)"
  "preserves (proc_state d0) (hold_reservation env i r q u at_time rt ri nts do_commit)"
  "preserves (proc_state d0) (release_reservation env i r q u at_time rt ri nts do_commit)"
  "preserves (proc_state d0) (issue_stock env i r q u uc at_time rel rt ri nts do_commit)"
  "preserves (proc_state d0) (return_stock env i r q u uc at_time rt ri nts do_commit)"
  "preserves (proc_state d0) (transfer_stock env i a b q u at_time nts)"
  unfolding post_opening_balance_def hold_reservation_def release_reservation_def issue_stock_def return_stock_def
    transfer_stock_def committing_def emit_balance_changed_def Let_def
  by (intro preserve_intros procured.session_keeps)+

lemma reservation_operations_keep [preserve_intros]:
  "preserves (proc_state d0) (create_reservation env i room q u nb sty sid nts)"
  "preserves (proc_state d0) (issue_reserved_stock env ri q nts)"
  "preserves (proc_state d0) (close_reservation env ri st nts)"
  unfolding create_reservation_def prepare_reservation_def create_body_def issue_reserved_stock_def prepare_issue_def issue_body_def
    close_reservation_def prepare_close_def close_body_def announce_reservation_def get_balance_for_stock_position_def committing_def Let_def
  by (intro preserve_intros procured.session_keeps)+

lemma stock_calls_keep_documents:
  assumes "inventory_step s t" "proc_state d0 s"
  shows "proc_state d0 t"
  using assms
  by (cases rule: inventory_step.cases)
    (auto simp: release_stock_reservation_def cancel_stock_reservation_def
      dest: preservesD [OF stock_operations_keep(1)] preservesD [OF post_adjustment_keeps_documents] preservesD [OF stock_operations_keep(4)]
        preservesD [OF stock_operations_keep(5)] preservesD [OF stock_operations_keep(6)] preservesD [OF reservation_operations_keep(1)]
        preservesD [OF reservation_operations_keep(2)] preservesD [OF reservation_operations_keep(3)])

section \<open>Runs\<close>

text \<open>One call of any of the services, by any user at any time, whatever its outcome.\<close>

inductive procurement_step :: "inv_op_state \<Rightarrow> inv_op_state \<Rightarrow> bool" where
  create_requisition: "create_requisition env site room purpose needed priority st si nts number s = (r1, t) \<Longrightarrow> procurement_step s t"
| add_requisition_line: "add_requisition_line env i item q u desc needed cost supplier nts s = (r2, t) \<Longrightarrow> procurement_step s t"
| submit_requisition: "submit_requisition env i s = (r1, t) \<Longrightarrow> procurement_step s t"
| update_requisition: "update_requisition env i site' room' purpose' needed priority' st' si' nts' v s = (r1, t) \<Longrightarrow> procurement_step s t"
| cancel_requisition: "cancel_requisition env i v s = (r1, t) \<Longrightarrow> procurement_step s t"
| create_order: "create_purchase_order env site supp cur source od ed ref nts number s = (r3, t) \<Longrightarrow> procurement_step s t"
| add_order_line: "add_purchase_order_line env i item room q u price ed desc source nts s = (r4, t) \<Longrightarrow> procurement_step s t"
| submit_order: "submit_purchase_order env i s = (r3, t) \<Longrightarrow> procurement_step s t"
| update_order: "update_purchase_order env i site' supp' cur source ed ref' nts' v s = (r3, t) \<Longrightarrow> procurement_step s t"
| cancel_order: "cancel_purchase_order env i v s = (r3, t) \<Longrightarrow> procurement_step s t"
| send_order: "send_purchase_order env i s = (r3, t) \<Longrightarrow> procurement_step s t"
| close_order: "close_purchase_order env i s = (r3, t) \<Longrightarrow> procurement_step s t"
| receipt: "post_receipt env visit i payloads at_time ref nts number s = (r5, t) \<Longrightarrow> procurement_step s t"
| approve: "approve_and_apply env (procurement_apply_handlers env visit) i note s = (r6, t) \<Longrightarrow> procurement_step s t"
| reject: "reject env (procurement_reject_handlers env) i note s = (r6, t) \<Longrightarrow> procurement_step s t"
| stock: "inventory_step s t \<Longrightarrow> procurement_step s t"

text \<open>The handlers leave the requests alone.\<close>

lemma doc_update_advances:
  assumes "\<And>d d'. f d = Inr d' \<Longrightarrow> dc_approvals d' = dc_approvals d"
  shows "advances (keeps_found get_approval) (doc_update f)"
  unfolding advances_def doc_update_def keeps_found_def get_approval_def using assms by (auto split: sum.splits)

lemma writes_advance:
  "advances (keeps_found get_approval) (update_order_row o')" "advances (keeps_found get_approval) (update_requisition_row r)"
  "advances (keeps_found get_approval) (update_order_line l)" "advances (keeps_found get_approval) (update_requisition_line l')"
  "advances (keeps_found get_approval) (update_balance b)"
proof -
  show "advances (keeps_found get_approval) (update_balance b)"
    unfolding advances_def update_balance_def keeps_found_def by (auto split: sum.splits)
qed (auto simp: update_order_row_def update_requisition_row_def update_order_line_def update_requisition_line_def
    intro!: found_approvals.advances_rules doc_update_advances)

lemma reads_advance:
  "advances (keeps_found get_approval) (awaiting_requisition q)" "advances (keeps_found get_approval) (check_requisition_transition r st)"
  "advances (keeps_found get_approval) (awaiting_order q)" "advances (keeps_found get_approval) (check_order_transition r' st')"
  "advances (keeps_found get_approval) (get_item_for_internal_use i)" "advances (keeps_found get_approval) (touch_balance org i room touched)"
  "advances (keeps_found get_approval) (require_requisition_line i)"
  by (rule found_approvals.advances_neutral, rule call_intros)+

lemma approve_lines_advances: "advances (keeps_found get_approval) (approve_lines env order ls rs bs)"
proof (induction ls arbitrary: rs bs)
  case (Cons l ls)
  then show ?case
    unfolding approve_lines.simps adjust_on_order_balance_def source_requisition_line_def Let_def
    by (intro found_approvals.advances_rules writes_advance reads_advance)
qed (auto intro: found_approvals.advances_rules)

lemma handlers_advance:
  "advances (keeps_found get_approval) (apply_submitted_requisition_approval env q)"
  "advances (keeps_found get_approval) (apply_submitted_requisition_rejection env q)"
  "advances (keeps_found get_approval) (apply_submitted_purchase_order_approval env visit q)"
  "advances (keeps_found get_approval) (apply_submitted_purchase_order_rejection env q)"
  unfolding apply_submitted_requisition_approval_def apply_submitted_requisition_rejection_def
    apply_submitted_purchase_order_approval_def apply_submitted_purchase_order_rejection_def set_line_statuses_def
    announce_requisition_def announce_order_def refresh_requisition_def refresh_requisition_status_def Let_def
  by (intro found_approvals.advances_rules advances_documents writes_advance reads_advance approve_lines_advances)+

lemma handlers_good: "good_handlers d0 (procurement_apply_handlers env visit)" "good_handlers d0 (procurement_reject_handlers env)"
  unfolding good_handlers_def procurement_apply_handlers_def procurement_reject_handlers_def
  by (auto simp: requisition_decisions_keep order_approval_keeps order_rejection_keeps handlers_advance split: if_splits)

lemmas procurement_calls_keep =
  create_requisition_keeps add_requisition_line_keeps submit_requisition_keeps update_requisition_keeps cancel_requisition_keeps
  create_purchase_order_keeps add_purchase_order_line_keeps submit_purchase_order_keeps update_purchase_order_keeps
  cancel_purchase_order_keeps send_purchase_order_keeps close_purchase_order_keeps post_receipt_keeps
  approve_and_apply_keeps [OF handlers_good(1)] reject_keeps [OF handlers_good(2)]

lemma procurement_step_keeps: "procurement_step s t \<Longrightarrow> proc_state d0 s \<Longrightarrow> proc_state d0 t"
  by (induction rule: procurement_step.induct)
    ((rule preservesD, rule procurement_calls_keep, assumption, assumption) | (rule stock_calls_keep_documents, assumption, assumption))+

end
