(* ===== verification/Proc_Frame.thy ===== *)
theory Proc_Frame
  imports Proc_Properties
begin

text \<open>
  Invariants of tables the inventory and procurement services do not write: a predicate that
  does not look at balances, ledger, reservations and documents survives every call of them.
\<close>

locale foreign_tables = kept_by_inserts inv_insert P ok for P :: "inv_db \<Rightarrow> bool" and ok :: "inv_row \<Rightarrow> bool" +
  assumes rows_ok: "ok (BalanceRow b)" "ok (TransactionRow t)" "ok (ReservationRow r)" "ok (DocumentRow x)"
    and other_tables: "P (w\<lparr>db_balances := bs\<rparr>) = P w" "P (w\<lparr>db_reservations := rs\<rparr>) = P w" "P (w\<lparr>db_documents := ds\<rparr>) = P w"
begin

lemma writes_keep:
  "preserves (tables P ok) (update_balance b)" "preserves (tables P ok) (update_reservation r)"
  "preserves (tables P ok) (doc_update g)" "preserves (tables P ok) (doc_add x)"
  "preserves (tables P ok) (session_add (BalanceRow b))" "preserves (tables P ok) (session_add (TransactionRow t))"
  "preserves (tables P ok) (session_add (ReservationRow r))"
proof -
  show "preserves (tables P ok) (update_balance b)"
    unfolding preserves_def update_balance_def by (auto simp: tables_def other_tables split: sum.splits)
  show "preserves (tables P ok) (update_reservation r)"
    unfolding preserves_def update_reservation_def by (auto simp: tables_def other_tables split: sum.splits)
  show "preserves (tables P ok) (doc_update g)"
    unfolding preserves_def doc_update_def by (auto simp: tables_def other_tables split: sum.splits)
qed (auto simp: doc_add_def intro!: preserves_add rows_ok)

lemma reads_keep: "neutral m \<Longrightarrow> preserves (tables P ok) m"
  by (rule preserves_neutral)

lemmas stock_reads_keep =
  neutral_guards [THEN reads_keep] neutral_reads [THEN reads_keep] neutral_posting [THEN reads_keep] neutral_doc_get [THEN reads_keep]
  neutral_prepare [THEN reads_keep] neutral_users [THEN reads_keep]

lemmas procurement_reads_keep =
  neutral_requisition_reads [THEN reads_keep] neutral_prepared_requisitions [THEN reads_keep] neutral_order_reads [THEN reads_keep]
  neutral_prepared_orders [THEN reads_keep] neutral_receipts [THEN reads_keep] neutral_decisions [THEN reads_keep]

lemmas steps_keep = preserve_intros session_keeps writes_keep stock_reads_keep

lemma postings_frame:
  "preserves (tables P ok) (save_posting n b t c)" "preserves (tables P ok) (announce_posting b t c)"
  "preserves (tables P ok) (record_transaction_audit t)"
  unfolding save_posting_def write_posting_def announce_posting_def record_transaction_audit_def committing_def
  by (intro steps_keep)+

lemma posting_routines_frame:
  "preserves (tables P ok) (post_transaction env org item room ty q u c at_time rt ri nts do_commit)"
  "preserves (tables P ok) (post_reservation_transaction env org item room ty q u at_time rt ri nts do_commit)"
  "preserves (tables P ok) (post_movement_transaction env org item room ty q u uc at_time rel rt ri nts do_commit)"
  unfolding post_transaction_def post_reservation_transaction_def post_movement_transaction_def
  by (intro steps_keep postings_frame)+

lemma stock_operations_frame:
  "preserves (tables P ok) (post_opening_balance env i r q u c at_time nts do_commit)"
  "preserves (tables P ok) (post_adjustment env i r q dir u c at_time rt ri nts do_commit)"
  "preserves (tables P ok) (hold_reservation env i r q u at_time rt ri nts do_commit)"
  "preserves (tables P ok) (release_reservation env i r q u at_time rt ri nts do_commit)"
  "preserves (tables P ok) (issue_stock env i r q u uc at_time rel rt ri nts do_commit)"
  "preserves (tables P ok) (return_stock env i r q u uc at_time rt ri nts do_commit)"
  "preserves (tables P ok) (transfer_stock env i a b q u at_time nts)"
  unfolding post_opening_balance_def post_adjustment_def hold_reservation_def release_reservation_def issue_stock_def return_stock_def
    transfer_stock_def committing_def emit_balance_changed_def Let_def
  by (intro steps_keep postings_frame posting_routines_frame)+

lemma reservation_operations_frame:
  "preserves (tables P ok) (create_reservation env i room q u nb sty sid nts)"
  "preserves (tables P ok) (issue_reserved_stock env ri q nts)"
  "preserves (tables P ok) (close_reservation env ri st nts)"
  unfolding create_reservation_def create_body_def issue_reserved_stock_def issue_body_def
    close_reservation_def close_body_def announce_reservation_def get_balance_for_stock_position_def committing_def Let_def
  by (intro steps_keep postings_frame stock_operations_frame)+

lemma inventory_step_frame:
  assumes "inventory_step s t" "tables P ok s"
  shows "tables P ok t"
  using assms(1)
  by (cases rule: inventory_step.cases)
    (auto simp: release_stock_reservation_def cancel_stock_reservation_def
      dest: preservesD [OF stock_operations_frame(1) assms(2)] preservesD [OF stock_operations_frame(2) assms(2)]
        preservesD [OF stock_operations_frame(5) assms(2)] preservesD [OF stock_operations_frame(6) assms(2)]
        preservesD [OF stock_operations_frame(7) assms(2)] preservesD [OF reservation_operations_frame(1) assms(2)]
        preservesD [OF reservation_operations_frame(2) assms(2)] preservesD [OF reservation_operations_frame(3) assms(2)])

lemma document_writes_keep:
  "preserves (tables P ok) (update_requisition_row r)" "preserves (tables P ok) (update_requisition_line l)"
  "preserves (tables P ok) (update_order_row o')" "preserves (tables P ok) (update_order_line l')"
  "preserves (tables P ok) (update_approval q)" "preserves (tables P ok) (record_governance_audit action q)"
  unfolding update_requisition_row_def update_requisition_line_def update_order_row_def update_order_line_def update_approval_def
    record_governance_audit_def
  by (intro steps_keep)+

lemma request_change_frame: "preserves (tables P ok) (request_change env rt et i p pl c)"
  unfolding request_change_def Let_def by (intro steps_keep document_writes_keep)

lemma requisition_calls_keep:
  "preserves (tables P ok) (create_requisition env site room purpose needed priority st si nts number)"
  "preserves (tables P ok) (add_requisition_line env i item q u desc needed cost supplier nts)"
  "preserves (tables P ok) (submit_requisition env i)"
  "preserves (tables P ok) (update_requisition env i usite uroom upurpose needed upriority ust usi unts expected)"
  "preserves (tables P ok) (cancel_requisition env i v)"
  unfolding create_requisition_def add_requisition_line_def submit_requisition_def update_requisition_def cancel_requisition_def
    announce_requisition_def set_line_statuses_def committing_def Let_def
  by (intro steps_keep procurement_reads_keep document_writes_keep request_change_frame)+

lemma order_calls_keep:
  "preserves (tables P ok) (create_purchase_order env site supp cur source od ed ref nts number)"
  "preserves (tables P ok) (add_purchase_order_line env i item room q u price ed desc source nts)"
  "preserves (tables P ok) (submit_purchase_order env i)"
  "preserves (tables P ok) (update_purchase_order env i site' supp' cur source ed ref' nts' v)"
  "preserves (tables P ok) (cancel_purchase_order env i v)"
  "preserves (tables P ok) (send_purchase_order env i)"
  "preserves (tables P ok) (close_purchase_order env i)"
  unfolding create_purchase_order_def add_purchase_order_line_def submit_purchase_order_def update_purchase_order_def
    cancel_purchase_order_def send_purchase_order_def close_purchase_order_def save_order_def announce_order_def committing_def Let_def
  by (intro steps_keep procurement_reads_keep document_writes_keep request_change_frame)+

lemma order_decisions_keep:
  "preserves (tables P ok) (adjust_on_order_balance env org item room u delta at_time)"
  "preserves (tables P ok) (refresh_requisition_status env r)" "preserves (tables P ok) (refresh_requisition env i)"
  "preserves (tables P ok) (source_requisition_line l touched)"
  unfolding adjust_on_order_balance_def refresh_requisition_def refresh_requisition_status_def source_requisition_line_def Let_def
  by (intro steps_keep procurement_reads_keep document_writes_keep)+

lemma approve_lines_keep: "preserves (tables P ok) (approve_lines env order ls rs bs)"
proof (induction ls arbitrary: rs bs)
  case (Cons l ls)
  then show ?case
    unfolding approve_lines.simps Let_def by (intro steps_keep procurement_reads_keep order_decisions_keep document_writes_keep)
qed (auto intro: steps_keep)

lemma procurement_handlers_keep:
  "preserves (tables P ok) (apply_submitted_requisition_approval env q)"
  "preserves (tables P ok) (apply_submitted_requisition_rejection env q)"
  "preserves (tables P ok) (apply_submitted_purchase_order_approval env visit q)"
  "preserves (tables P ok) (apply_submitted_purchase_order_rejection env q)"
  unfolding apply_submitted_requisition_approval_def apply_submitted_requisition_rejection_def
    apply_submitted_purchase_order_approval_def apply_submitted_purchase_order_rejection_def set_line_statuses_def
    announce_requisition_def announce_order_def Let_def
  by (intro steps_keep procurement_reads_keep document_writes_keep order_decisions_keep approve_lines_keep)+

lemma receive_lines_keep: "preserves (tables P ok) (receive_lines env order at_time ref rid idx ps acc)"
proof (induction ps arbitrary: idx acc)
  case (Cons p ps)
  then show ?case
    unfolding receive_lines.simps receive_line_def record_received_def post_accepted_def Let_def
    by (intro steps_keep procurement_reads_keep document_writes_keep stock_operations_frame order_decisions_keep)
qed (auto intro: steps_keep)

lemma receipts_keep: "preserves (tables P ok) (post_receipt env visit i ps at_time ref nts number)"
  unfolding post_receipt_def receipt_body_def announce_receipt_def committing_def
  by (intro steps_keep procurement_reads_keep document_writes_keep receive_lines_keep postings_frame)

text \<open>Approvals, with handlers that keep the predicate.\<close>

lemma decisions_keep:
  assumes "\<And>(r :: approval_request) r' h. hs (ap_request_type r) = Some h \<Longrightarrow> preserves (tables P ok) (h r')"
  shows "preserves (tables P ok) (approve_and_apply env hs i note)" "preserves (tables P ok) (reject env hs i note)"
proof -
  have closed: "preserves (tables P ok) (close_decision action r)" for action r
    unfolding close_decision_def by (intro steps_keep document_writes_keep)
  have applied: "preserves (tables P ok) (case hs (ap_request_type r) of None \<Rightarrow> m | Some h \<Rightarrow> obind (h r') (\<lambda>_. k))"
    if "preserves (tables P ok) m" "preserves (tables P ok) k" for r :: approval_request and r' m k
    using that assms by (auto split: option.splits intro!: preserves_bind)
  show "preserves (tables P ok) (approve_and_apply env hs i note)"
    unfolding approve_and_apply_def emit_post_apply_domain_events_def
    by (intro preserves_bind procurement_reads_keep stock_reads_keep applied closed steps_keep)
  have called: "preserves (tables P ok) (case hs (ap_request_type r) of None \<Rightarrow> oret () | Some h \<Rightarrow> h r')" for r :: approval_request and r'
  proof (cases "hs (ap_request_type r)")
    case (Some h)
    then show ?thesis using assms [OF Some, of r'] by simp
  qed (simp add: preserves_simple)
  show "preserves (tables P ok) (reject env hs i note)"
    unfolding reject_def Let_def by (intro preserves_bind procurement_reads_keep stock_reads_keep called closed)
qed

lemma own_handlers_keep:
  "procurement_apply_handlers env visit (ap_request_type r) = Some h \<Longrightarrow> preserves (tables P ok) (h r')"
  "procurement_reject_handlers env (ap_request_type r) = Some h \<Longrightarrow> preserves (tables P ok) (h r')"
  by (auto simp: procurement_apply_handlers_def procurement_reject_handlers_def procurement_handlers_keep split: if_splits)

lemma own_decisions_keep:
  "preserves (tables P ok) (approve_and_apply env (procurement_apply_handlers env' visit) i note)"
  "preserves (tables P ok) (reject env (procurement_reject_handlers env') i note)"
  by (rule decisions_keep(1), drule own_handlers_keep(1), assumption) (rule decisions_keep(2), drule own_handlers_keep(2), assumption)

lemmas procurement_calls_keep = requisition_calls_keep order_calls_keep receipts_keep own_decisions_keep

lemma procurement_step_frame: "procurement_step s t \<Longrightarrow> tables P ok s \<Longrightarrow> tables P ok t"
  by (induction rule: procurement_step.induct)
    ((rule preservesD, rule procurement_calls_keep, assumption, assumption) | (rule inventory_step_frame, assumption, assumption))+

end

end
