(* ===== verification/Task_Keeps.thy ===== *)
theory Task_Keeps
  imports Task_Invariant Proc_Frame
begin

text \<open>
  Every operation of the task service keeps the plans of all projects in order, however it
  ends, and so does an approval that applies a governed change.
\<close>

section \<open>The rows\<close>

text \<open>
  Between two writes of the task service no dependency waits in the session: the one place that
  adds one commits at once.
\<close>

fun not_a_dependency :: "inv_row \<Rightarrow> bool" where
  "not_a_dependency (ProjectRow (DependencyRow x)) = False"
| "not_a_dependency _ = True"

abbreviation plan_state :: "(inv_db, inv_row) session \<Rightarrow> bool" where
  "plan_state \<equiv> tables (\<lambda>w. plans_ok (db_project w)) not_a_dependency"

lemma home_more_tasks:
  "home d p = Some pid \<Longrightarrow> home (d\<lparr>pt_tasks := pt_tasks d @ ts\<rparr>) p = Some pid"
  by (auto simp: home_Some_iff get_task_row_def find_row_append)

lemma plans_ok_add_task:
  assumes "plans_ok d" "t_id t \<notin> t_id ` set (pt_tasks d)"
  shows "plans_ok (d\<lparr>pt_tasks := pt_tasks d @ [t]\<rparr>)"
proof -
  let ?d = "d\<lparr>pt_tasks := pt_tasks d @ [t]\<rparr>"
  have "home ?d p \<noteq> None \<and> home ?d p = home ?d s" if "(p, s) \<in> dep_edges (pt_dependencies d)" for p s
  proof -
    have "home d p \<noteq> None \<and> home d p = home d s" using assms(1) that by (auto simp: plans_ok_def simp del: not_None_eq)
    then obtain pid where "home d p = Some pid" "home d s = Some pid" by (cases "home d s") auto
    then show ?thesis by (simp add: home_more_tasks)
  qed
  then show ?thesis
    using assms unfolding plans_ok_def by auto
qed

lemma link_ok_add_task: "link_ok d p s \<Longrightarrow> link_ok (d\<lparr>pt_tasks := pt_tasks d @ ts\<rparr>) p s"
  by (auto simp: link_ok_def home_more_tasks)

lemma plans_ok_add_dependency:
  assumes "plans_ok d" "link_ok d (predecessor_task_id x) (successor_task_id x)"
  shows "plans_ok (d\<lparr>pt_dependencies := pt_dependencies d @ [x]\<rparr>)"
proof -
  let ?p = "predecessor_task_id x" and ?s = "successor_task_id x"
  have edges: "dep_edges (pt_dependencies d @ [x]) = insert (?p, ?s) (dep_edges (pt_dependencies d))"
    by (auto simp: dep_edges_def)
  have home: "home (d\<lparr>pt_dependencies := ds\<rparr>) = home d" for ds
    by (rule ext) (simp add: home_def get_task_row_def)
  have "(?p, ?s) \<notin> (\<lambda>x. (predecessor_task_id x, successor_task_id x)) ` set (pt_dependencies d)"
    using assms(2) by (simp add: link_ok_def dep_edges_def)
  then show ?thesis
    using assms by (auto simp: plans_ok_def link_ok_def home edges acyclic_insert)
qed

text \<open>The plans are the tasks and the dependencies; the other tables do not matter.\<close>

lemma plans_cong:
  assumes "pt_tasks d' = pt_tasks d" "pt_dependencies d' = pt_dependencies d"
  shows "plans_ok d' = plans_ok d" "link_ok d' p s = link_ok d p s"
proof -
  have "home d' = home d" using assms(1) by (simp add: home_def get_task_row_def fun_eq_iff)
  then show "plans_ok d' = plans_ok d" "link_ok d' p s = link_ok d p s" using assms by (simp_all add: plans_ok_def link_ok_def)
qed

lemma inserted_tasks:
  assumes "not_a_dependency r" "inv_insert r db = Inr db'"
  shows "pt_dependencies (db_project db') = pt_dependencies (db_project db) \<and>
    (pt_tasks (db_project db') = pt_tasks (db_project db) \<or>
     (\<exists>t. t_id t \<notin> t_id ` set (pt_tasks (db_project db)) \<and> pt_tasks (db_project db') = pt_tasks (db_project db) @ [t]))"
proof (cases r)
  case (ProjectRow x)
  then show ?thesis using assms by (cases x) (auto simp: list_ex_iff split: if_splits, blast)
qed (use assms(2) in \<open>auto split: if_splits\<close>)

lemma inserted_keeps_plans:
  assumes "not_a_dependency r" "inv_insert r db = Inr db'" "plans_ok (db_project db)"
  shows "plans_ok (db_project db')" "link_ok (db_project db) p s \<Longrightarrow> link_ok (db_project db') p s"
proof -
  let ?d = "db_project db" and ?d' = "db_project db'"
  have deps: "pt_dependencies ?d' = pt_dependencies ?d" and tasks: "pt_tasks ?d' = pt_tasks ?d \<or>
      (\<exists>t. t_id t \<notin> t_id ` set (pt_tasks ?d) \<and> pt_tasks ?d' = pt_tasks ?d @ [t])"
    using inserted_tasks [OF assms(1,2)] by blast+
  show "plans_ok ?d'" "link_ok ?d p s \<Longrightarrow> link_ok ?d' p s"
  proof (atomize (full), use tasks in \<open>elim disjE exE conjE\<close>)
    assume "pt_tasks ?d' = pt_tasks ?d"
    then show "plans_ok ?d' \<and> (link_ok ?d p s \<longrightarrow> link_ok ?d' p s)"
      using plans_cong [OF _ deps] assms(3) by simp
  next
    fix t assume t: "t_id t \<notin> t_id ` set (pt_tasks ?d)" "pt_tasks ?d' = pt_tasks ?d @ [t]"
    let ?e = "?d\<lparr>pt_tasks := pt_tasks ?d @ [t]\<rparr>"
    have "plans_ok ?d' = plans_ok ?e" "link_ok ?d' p s = link_ok ?e p s"
      using deps t(2) by (intro plans_cong; simp)+
    then show "plans_ok ?d' \<and> (link_ok ?d p s \<longrightarrow> link_ok ?d' p s)"
      using plans_ok_add_task [OF assms(3) t(1)] link_ok_add_task [of ?d p s "[t]"] by simp
  qed
qed

text \<open>The plans are tables the other services do not write.\<close>

interpretation plans: foreign_tables "\<lambda>w. plans_ok (db_project w)" not_a_dependency
  by unfold_locales (use inserted_keeps_plans in simp_all)

section \<open>Reading and writing\<close>

lemma held_pt_get:
  "(\<And>x. held I (\<lambda>w. A w \<and> x = f (db_project w)) (g x) C) \<Longrightarrow> held I A (obind (pt_get f) g) C"
  unfolding pt_get_def by (rule held_get)

lemma neutral_pt_get [call_intros]: "neutral (pt_get f)"
  unfolding pt_get_def by (rule call_intros)

lemma neutral_task_reads [call_intros]:
  "neutral (require_project_permission env pid code)" "neutral (validate_task_within_project_dates pid a b)"
  "neutral (check_task_version expected t)" "neutral (existing_task i)"
  unfolding require_project_permission_def validate_task_within_project_dates_def check_task_version_def existing_task_def
  by (intro call_intros)+

lemma neutral_guarded [call_intros]: "neutral m \<Longrightarrow> neutral (guarded env m)"
  unfolding guarded_def by (intro call_intros)

lemma held_guarded: "held I A m B \<Longrightarrow> held I A (guarded env m) B"
  unfolding guarded_def by (intro held_guard) 

lemma held_pt_update:
  assumes "\<And>w d. A w \<Longrightarrow> plans_ok (db_project w) \<Longrightarrow> f (db_project w) = Inr d \<Longrightarrow> plans_ok d \<and> B (w\<lparr>db_project := d\<rparr>)"
  shows "held plan_state A (pt_update f) (\<lambda>_. B)"
proof (rule heldI)
  fix s r t assume s: "plan_state s" "A (s_working s)" and eq: "pt_update f s = (r, t)"
  show "plan_state t \<and> (\<forall>x. r = Inr x \<longrightarrow> B (s_working t))"
  proof (cases "f (db_project (s_working s))")
    case (Inl err)
    then show ?thesis using eq s by (auto simp: pt_update_def)
  next
    case (Inr d)
    then have "t = s\<lparr>s_working := (s_working s)\<lparr>db_project := d\<rparr>\<rparr>" using eq by (auto simp: pt_update_def)
    then show ?thesis using assms [OF s(2) _ Inr] s(1) by (simp add: tables_def)
  qed
qed

text \<open>A task is written back to the project it was read from.\<close>

definition at_home :: "task \<Rightarrow> inv_db \<Rightarrow> bool" where
  "at_home t w \<longleftrightarrow> home (db_project w) (t_id t) = Some (t_project_id t)"

lemma home_replace:
  assumes "home d (t_id t) = Some (t_project_id t)"
  shows "home (d\<lparr>pt_tasks := replace_row t_id t (pt_tasks d)\<rparr>) = home d"
  using assms by (auto simp: home_def get_task_row_def find_row_replace fun_eq_iff)

lemma plans_ok_replace:
  assumes "plans_ok d" "home d (t_id t) = Some (t_project_id t)"
  shows "plans_ok (d\<lparr>pt_tasks := replace_row t_id t (pt_tasks d)\<rparr>)"
  using assms home_replace [OF assms(2)] by (simp add: plans_ok_def)

lemma held_update_task_row:
  assumes "\<And>w. A w \<Longrightarrow> at_home t w"
    and "\<And>w d. A w \<Longrightarrow> home d = home (db_project w) \<Longrightarrow> A (w\<lparr>db_project := d\<rparr>)"
  shows "held plan_state A (update_task_row t) (\<lambda>_. A)"
  unfolding update_task_row_def
proof (rule held_bind [OF held_pt_update])
  let ?t = "t\<lparr>t_version := t_version t + 1\<rparr>"
  fix w d assume w: "A w" "plans_ok (db_project w)"
    and "rbind (update_with_version_check t_id t_version (\<lambda>v r. r\<lparr>t_version := v\<rparr>) t (pt_tasks (db_project w)))
           (\<lambda>rows. Inr ((db_project w)\<lparr>pt_tasks := rows\<rparr>)) = Inr d"
  then have d: "d = (db_project w)\<lparr>pt_tasks := replace_row t_id ?t (pt_tasks (db_project w))\<rparr>"
    by (auto simp: update_with_version_check_def split: option.splits if_splits)
  have "home (db_project w) (t_id ?t) = Some (t_project_id ?t)"
    using assms(1) [OF w(1)] by (simp add: at_home_def)
  then show "plans_ok d \<and> A (w\<lparr>db_project := d\<rparr>)"
    using plans_ok_replace [OF w(2), of ?t] home_replace [of "db_project w" ?t] assms(2) [OF w(1)] by (simp add: d)
qed (auto intro: held_intros)

section \<open>The life of a task\<close>

lemmas task_reads_keep [preserve_intros] =
  neutral_guards(1) [THEN preserves_neutral] neutral_task_reads [THEN preserves_neutral] neutral_pt_get [THEN preserves_neutral]

lemma keepsI: "held I (\<lambda>_. True) m (\<lambda>_ _. True) \<Longrightarrow> preserves I m"
  by (rule preserves_held)

lemma preserves_guarded: "preserves I m \<Longrightarrow> preserves I (guarded env m)"
  unfolding guarded_def by (intro preserve_intros)

lemma save_task_keeps: "(\<And>w. A w \<Longrightarrow> at_home t w) \<Longrightarrow> held plan_state A (save_task action t) (\<lambda>_ _. True)"
  unfolding save_task_def
  by (rule held_weaken [where A = "at_home t"], rule held_bind, rule held_try(2), rule held_bind, rule held_update_task_row, assumption,
      simp add: at_home_def, rule held_preserves, intro preserve_intros plans.session_keeps, rule held_preserves, intro preserve_intros)
    auto

lemma managed_task:
  "manage_task env missing i s = (Inr t, u) \<Longrightarrow> get_task_row i (db_project (s_working s)) = Some t"
  unfolding manage_task_def
  by (auto simp: require_perm_def require_project_permission_def require_scope_perm_def pt_get_def split: option.splits)

lemma held_manage_task:
  assumes "\<And>t. t_id t = i \<Longrightarrow> held plan_state (at_home t) (f t) C"
  shows "held plan_state (\<lambda>_. True) (obind (manage_task env missing i) f) C"
proof (rule held_read [where F = "\<lambda>t w. get_task_row i (db_project w) = Some t"])
  show "neutral (manage_task env missing i)" unfolding manage_task_def by (intro call_intros)
next
  fix t
  show "held plan_state (\<lambda>w. True \<and> get_task_row i (db_project w) = Some t) (f t) C"
  proof (rule held_fact [where Q = "t_id t = i"])
    show "t_id t = i" if "True \<and> get_task_row i (db_project w) = Some t" for w
      using that by (auto simp: get_task_row_def dest: find_row_Some)
    show "held plan_state (\<lambda>w. True \<and> get_task_row i (db_project w) = Some t) (f t) C" if "t_id t = i"
      by (rule held_weaken [OF assms [OF that]]) (use that in \<open>auto simp: at_home_def home_def\<close>)
  qed
qed (rule managed_task)

lemma same_task: "t_id t' = t_id t \<Longrightarrow> t_project_id t' = t_project_id t \<Longrightarrow> at_home t w \<Longrightarrow> at_home t' w"
  by (simp add: at_home_def)

lemma with_planned_end_same: "with_planned_end e t = Inr t' \<Longrightarrow> t_id t' = t_id t \<and> t_project_id t' = t_project_id t"
  by (auto simp: with_planned_end_def split: option.splits)

lemma given_keeps: "(\<And>x u. k (f x u) = k u) \<Longrightarrow> k (given v f t) = k t"
  by (simp add: given_def split: option.split)

lemma changed_task_same: "changed_task e c t = Inr t' \<Longrightarrow> t_id t' = t_id t \<and> t_project_id t' = t_project_id t"
  by (auto simp: changed_task_def Let_def given_keeps [of t_id] given_keeps [of t_project_id] dest!: with_planned_end_same)

lemma progressed_task_same: "progressed_task p a b st t = Inr t' \<Longrightarrow> t_id t' = t_id t \<and> t_project_id t' = t_project_id t"
  by (auto simp: progressed_task_def Let_def with_progress_def given_keeps [of t_id] given_keeps [of t_project_id])

lemma with_status_same [simp]: "t_id (with_status st t) = t_id t" "t_project_id (with_status st t) = t_project_id t"
  by (auto simp: with_status_def Let_def)

lemma set_status_keeps: "preserves plan_state (set_status env i st)"
  unfolding set_status_def
  by (rule preserves_guarded, rule keepsI, rule held_manage_task, rule held_bind, rule save_task_keeps, erule same_task [rotated 2])
    (simp_all add: held_ret)

lemma update_task_keeps: "preserves plan_state (update_task env i c v)"
  unfolding update_task_def
  by (rule preserves_guarded, rule keepsI, rule held_manage_task, rule held_neutral_bind, rule call_intros, rule held_lift,
      rule held_neutral_bind, rule call_intros, rule save_task_keeps, drule changed_task_same, erule same_task [rotated 2]) simp_all

lemma update_progress_keeps: "preserves plan_state (update_progress env i p a b st v)"
  unfolding update_progress_def
  by (rule preserves_guarded, rule keepsI, rule held_manage_task, rule held_neutral_bind, rule call_intros, rule held_lift,
      rule held_neutral_bind, rule call_intros, rule save_task_keeps, drule progressed_task_same, erule same_task [rotated 2]) simp_all

lemma create_task_keeps: "preserves plan_state (create_task env pid name desc start n st prio deadline)"
  unfolding create_task_def pt_add_def
  by (rule preserves_guarded, intro preserve_intros preserves_add plans.session_keeps) simp

text \<open>Deleting rows: a dependency goes with either of its tasks.\<close>

lemma plans_ok_fewer:
  assumes "plans_ok d" "pt_dependencies d' = filter Q (pt_dependencies d)" "pt_tasks d' = filter R (pt_tasks d)"
    and "\<And>x. x \<in> set (pt_dependencies d) \<Longrightarrow> Q x \<Longrightarrow>
      home d' (predecessor_task_id x) = home d (predecessor_task_id x) \<and> home d' (successor_task_id x) = home d (successor_task_id x)"
  shows "plans_ok d'"
proof -
  have sub: "dep_edges (pt_dependencies d') \<subseteq> dep_edges (pt_dependencies d)"
    by (auto simp: assms(2) dep_edges_def)
  have "home d' p \<noteq> None \<and> home d' p = home d' s" if e: "(p, s) \<in> dep_edges (pt_dependencies d')" for p s
  proof -
    obtain x where x: "x \<in> set (pt_dependencies d)" "Q x" "p = predecessor_task_id x" "s = successor_task_id x"
      using e by (auto simp: assms(2) dep_edges_def)
    then have "(p, s) \<in> dep_edges (pt_dependencies d)" by (auto simp: dep_edges_def)
    then have "home d p \<noteq> None \<and> home d p = home d s" using assms(1) by (auto simp: plans_ok_def simp del: not_None_eq)
    then show ?thesis using assms(4) [OF x(1,2)] x(3,4) by metis
  qed
  then show ?thesis
    using assms(1) acyclic_subset [OF _ sub] unfolding plans_ok_def
    by (auto simp: assms(2,3) distinct_map_filter)
qed

lemma plans_ok_delete_dependency: "plans_ok d \<Longrightarrow> plans_ok (delete_dependency i d)"
  by (erule plans_ok_fewer [where Q = "\<lambda>x. d_id x \<noteq> i" and R = "\<lambda>_. True"]) (simp_all add: delete_dependency_def home_def get_task_row_def)

lemma find_row_filter_other: "j \<noteq> i \<Longrightarrow> find_row key (filter (\<lambda>t. key t \<noteq> i) rows) j = find_row key rows j"
  by (induction rows) (auto simp: find_row_def)

lemma deleted_task_tables:
  "pt_dependencies (delete_task_rows pid i d) = filter (\<lambda>x. \<not> touches_task i x) (pt_dependencies d)"
  "pt_tasks (delete_task_rows pid i d) = filter (\<lambda>t. t_id t \<noteq> i) (pt_tasks d)"
  by (simp_all add: delete_task_rows_def delete_costs_def delete_dependencies_for_task_def delete_time_entries_def Let_def)

lemma plans_ok_delete_task: "plans_ok d \<Longrightarrow> plans_ok (delete_task_rows pid i d)"
  by (erule plans_ok_fewer [OF _ deleted_task_tables])
    (auto simp: home_def get_task_row_def deleted_task_tables touches_task_def find_row_filter_other)

lemma delete_task_keeps: "preserves plan_state (delete_task env i)"
  unfolding delete_task_def manage_task_def
  by (rule preserves_guarded, intro preserve_intros plans.session_keeps, rule keepsI, rule held_pt_update) (auto intro: plans_ok_delete_task)

section \<open>The schedule\<close>

lemma held_rows: "held (tables P ok) (\<lambda>w. A w \<and> P w) m B \<Longrightarrow> held (tables P ok) A m B"
  unfolding held_def tables_def by blast

lemma schedule_task_same [simp]: "t_id (schedule_task t a b) = t_id t" "t_project_id (schedule_task t a b) = t_project_id t"
  by (auto simp: schedule_task_def Let_def)

lemma distinct_project_tasks: "plans_ok d \<Longrightarrow> distinct (map t_id (list_tasks_by_project pid d))"
  by (simp add: plans_ok_def list_tasks_by_project_def distinct_map_filter)

lemma scheduled_tasks_at_home:
  assumes "plans_ok d" "project_schedule e pid d = Inr result" "(i, info) \<in> set result"
  shows "home d (t_id (ci_task info)) = Some (t_project_id (ci_task info))"
proof -
  let ?tasks = "list_tasks_by_project pid d"
  have "dict_of t_id ?tasks = map (\<lambda>t. (t_id t, t)) ?tasks"
    by (rule dict_of_distinct [OF distinct_project_tasks [OF assms(1)]])
  then obtain t es ef ls lf where t: "t \<in> set ?tasks" "task_info e es ef ls lf (t_id t, t) = Inr (i, info)"
    using assms(2,3) by (auto simp: project_schedule_def Let_def compute_schedule_def build_schedule_result_def rmap_Inr_set split: if_splits)
  then have "ci_task info = schedule_task t (es (t_id t)) (ef (t_id t))"
    by (auto simp: task_info_def)
  moreover have "home d (t_id t) = Some pid" "t_project_id t = pid"
    using t(1) assms(1) by (auto simp: home_listed plans_ok_def) (simp add: list_tasks_by_project_def)
  ultimately show ?thesis by simp
qed

lemma store_schedule_keeps:
  assumes "\<And>w. A w \<Longrightarrow> \<forall>entry \<in> set result. at_home (ci_task (snd entry)) w"
  shows "held plan_state A (committing inv_insert (ofor store_task result)) (\<lambda>_ _. True)"
proof -
  let ?A = "\<lambda>w. \<forall>entry \<in> set result. at_home (ci_task (snd entry)) w"
  have "held plan_state ?A (store_task entry) (\<lambda>_. ?A)" if "entry \<in> set result" for entry
    unfolding store_task_def by (rule held_bind, rule held_update_task_row) (use that in \<open>auto simp: at_home_def intro: held_intros\<close>)
  then have "held plan_state ?A (ofor store_task result) (\<lambda>_. ?A)" by (rule held_for)
  then have "held plan_state ?A (committing inv_insert (ofor store_task result)) (\<lambda>_ _. True)"
    unfolding committing_def by (rule held_bind) (rule held_preserves, intro preserve_intros plans.session_keeps)
  then show ?thesis by (rule held_weaken) (use assms in auto)
qed

lemma recalculate_keeps: "preserves plan_state (recalculate_project_schedule env pid persist)"
  unfolding recalculate_project_schedule_def
proof (rule keepsI, rule held_pt_get, rule held_lift, rule held_split(1))
  fix computed result
  let ?A = "\<lambda>w. True \<and> computed = project_schedule (pe_calendar env) pid (db_project w)"
  assume computed: "computed = Inr result"
  show "held plan_state ?A (oret result) (\<lambda>_ _. True)" by (rule held_ret) simp
  have facts: "\<forall>entry \<in> set result. at_home (ci_task (snd entry)) w" if "?A w" "plans_ok (db_project w)" for w
    using scheduled_tasks_at_home [OF that(2), of "pe_calendar env" pid result] that(1) computed by (auto simp: at_home_def)
  show "held plan_state ?A (obind (try_rollback (committing inv_insert (ofor store_task result))) (\<lambda>_. oret rows)) (\<lambda>_ _. True)" for rows
    by (rule held_rows, rule held_bind, rule held_try(2), rule store_schedule_keeps) (use facts in \<open>auto intro: held_ret\<close>)
qed

section \<open>Dependencies\<close>

text \<open>
  A dependency that may be added is added: the rows that still wait come first, and none of them
  is a dependency, so the link may still be added when its turn comes.
\<close>

lemma add_dependency_row_keeps:
  assumes link: "\<And>w. A w \<Longrightarrow> link_ok (db_project w) (predecessor_task_id dep) (successor_task_id dep)"
    and rest: "preserves plan_state (f ())"
  shows "held plan_state A (obind (pt_add (DependencyRow dep)) (\<lambda>_. obind (commit inv_insert) f)) (\<lambda>_ _. True)"
proof (rule heldI, rule conjI)
  fix s r t
  assume s: "plan_state s" "A (s_working s)"
    and run: "obind (pt_add (DependencyRow dep)) (\<lambda>_. obind (commit inv_insert) f) s = (r, t)"
  let ?P = "\<lambda>w. plans_ok (db_project w) \<and> link_ok (db_project w) (predecessor_task_id dep) (successor_task_id dep)"
  let ?s = "s\<lparr>s_pending := s_pending s @ [ProjectRow (DependencyRow dep)]\<rparr>"
  have run: "obind (commit inv_insert) f ?s = (r, t)"
    using run by (simp add: obind_def pt_add_def session_add_def omodify_def)
  have after: "plan_state u" if c: "commit inv_insert ?s = (r', u)" for r' u
  proof (cases r')
    case (Inl err)
    then show ?thesis using c s(1) by (auto simp: commit_def obind_Inl tables_def)
  next
    case (Inr x)
    then obtain db1 db where db: "rfold inv_insert (s_pending s) (s_working s) = Inr db1"
        "inv_insert (ProjectRow (DependencyRow dep)) db1 = Inr db" "u = ?s\<lparr>s_working := db, s_pending := [], s_committed := db\<rparr>"
      using c by (fastforce simp: rfold_append simp del: inv_insert.simps)
    have "?P db1"
      by (rule rfold_invariant [OF db(1)]) (use s link inserted_keeps_plans in \<open>auto simp: tables_def list_all_iff\<close>)
    then have "plans_ok (db_project db)"
      using db(2) plans_ok_add_dependency by (auto split: if_splits)
    then show ?thesis using db(3) by (simp add: tables_def)
  qed
  from run show "plan_state t"
  proof (cases rule: obindE)
    case (raised err)
    then show ?thesis using after by blast
  next
    case (returned x u)
    have "f () u = (r, t)" using returned(2) by simp
    then show ?thesis by (rule preservesD [OF rest after [OF returned(1)]])
  qed
qed simp

lemma sync_keeps: "preserves plan_state (sync_project_schedule env pid)"
  unfolding sync_project_schedule_def by (intro preserve_intros recalculate_keeps)

lemma neutral_diagnostics [call_intros]: "neutral (get_dependency_diagnostics env p s ty lag impact)"
  unfolding get_dependency_diagnostics_def by (intro call_intros)

lemma diagnostics_valid:
  assumes "get_dependency_diagnostics env p s ty lag False st = (Inr diagnostic, t)" "dg_is_valid diagnostic"
  shows "dependency_problem p s (db_project (s_working st)) = None"
  using assms unfolding get_dependency_diagnostics_def guarded_def pt_get_def
  by (auto simp: invalid_diagnostic_def split: option.splits)

lemma held_diagnosed:
  assumes "held plan_state (\<lambda>w. link_ok (db_project w) p s) (f ()) C"
  shows "held plan_state A (obind (get_dependency_diagnostics env p s ty lag False) (\<lambda>diagnostic.
    obind (oguard (\<not> dg_is_valid diagnostic) (err diagnostic)) f)) C"
proof (rule held_read [where F = "\<lambda>diagnostic w. dg_is_valid diagnostic \<longrightarrow> dependency_problem p s (db_project w) = None"])
  fix diagnostic
  show "held plan_state (\<lambda>w. A w \<and> (dg_is_valid diagnostic \<longrightarrow> dependency_problem p s (db_project w) = None))
      (obind (oguard (\<not> dg_is_valid diagnostic) (err diagnostic)) f) C"
    by (rule held_guard, rule held_rows, rule held_weaken [OF assms]) (auto simp: dependency_problem_None)
qed (auto intro: call_intros diagnostics_valid)

lemma add_dependency_keeps: "preserves plan_state (add_dependency env p s ty lag bypass)"
  unfolding add_dependency_def Let_def
  by (rule preserves_guarded, rule keepsI, rule held_neutral_bind, rule call_intros, rule held_neutral_bind, rule call_intros,
      rule held_neutral_bind, rule call_intros, rule held_neutral_bind, rule call_intros, rule held_diagnosed, rule held_split,
      rule held_preserves, intro preserve_intros plans.request_change_frame, rule held_neutral_bind, rule call_intros,
      rule held_bind, rule held_try(2), rule add_dependency_row_keeps, simp, intro preserve_intros sync_keeps plans.session_keeps,
      rule held_preserves, intro preserve_intros)

lemma remove_dependency_keeps: "preserves plan_state (remove_dependency env i bypass)"
proof -
  have delete: "preserves plan_state (pt_update (\<lambda>d. Inr (delete_dependency i d)))"
    by (rule keepsI, rule held_pt_update) (auto intro: plans_ok_delete_dependency)
  show ?thesis
    unfolding remove_dependency_def Let_def
    by (rule preserves_guarded, intro preserve_intros plans.request_change_frame delete sync_keeps plans.session_keeps)
qed

section \<open>The handlers of governed changes\<close>

lemma project_handlers_keep: "project_apply_handlers env ty = Some h \<Longrightarrow> preserves plan_state (h r)"
  by (auto simp: project_apply_handlers_def split: if_splits approval_payload.splits
      intro!: preserve_intros add_dependency_keeps remove_dependency_keeps)

end
