(* ===== verification/Time_Frame.thy ===== *)
theory Time_Frame
  imports Time_Operations Task_Keeps
begin

text \<open>
  The assignment and timesheet services write assignments, project resources, entries and periods
  only: a predicate on the other tables survives every call of them.
\<close>

section \<open>What the services read\<close>

lemma neutral_assignment_reads [call_intros]:
  "neutral (check_resource_overallocation env pid rid tid alloc excluded)" "neutral (require_manage env p)"
  "neutral (check_allocation alloc)" "neutral (assignment_with_task i)" "neutral (list_assignments_for_task env tid)"
  "neutral (get_assignment env i)"
  unfolding check_resource_overallocation_def require_manage_def check_allocation_def assignment_with_task_def
    list_assignments_for_task_def get_assignment_def
  by (intro call_intros)+

lemma neutral_any_perm [call_intros]: "neutral (require_any_perm env codes)"
  unfolding require_any_perm_def by (rule call_intros)

lemma neutral_time_reads [call_intros]:
  "neutral (require_time_read_permission env)" "neutral (require_time_manage_permission env)"
  "neutral (ensure_timesheet_period_editable rid day)" "neutral (require_timesheet_period i)"
  "neutral (list_time_entries_for_resource_period env rid day)" "neutral (load_work_allocation_context i)"
  "neutral (validate_time_entry_hours hours)" "neutral (require_time_entry i)"
  unfolding require_time_read_permission_def require_time_manage_permission_def ensure_timesheet_period_editable_def
    require_timesheet_period_def list_time_entries_for_resource_period_def load_work_allocation_context_def
    validate_time_entry_hours_def require_time_entry_def
  by (intro call_intros)+

lemma neutral_time_queries:
  "neutral (list_time_entries_for_work_allocation env i)" "neutral (list_time_entries_for_work_allocation_period env i day)"
  "neutral (get_time_entry env i)" "neutral (get_timesheet_period env rid day)"
  "neutral (list_timesheet_periods_for_resource env rid)" "neutral (list_timesheet_review_queue env status limit)"
  "neutral (get_timesheet_review_detail env i)"
  unfolding list_time_entries_for_work_allocation_def list_time_entries_for_work_allocation_period_def get_time_entry_def
    get_timesheet_period_def list_timesheet_periods_for_resource_def list_timesheet_review_queue_def get_timesheet_review_detail_def
  by (intro call_intros)+

lemma project_ids_emitted: "preserves (tables P ok) (ofor (emit signal) ids)"
  by (intro preserve_intros)

section \<open>The frame\<close>

definition same_plan :: "project_tables \<Rightarrow> project_tables \<Rightarrow> bool" where
  "same_plan d d' \<longleftrightarrow> pt_tasks d' = pt_tasks d \<and> pt_dependencies d' = pt_dependencies d"

lemma time_writes_same_plan:
  "same_plan d (update_assignment_row a d)" "same_plan d (delete_assignment_row i (delete_time_entries ids d))"
  "same_plan d (update_time_entry_row e d)" "same_plan d (delete_time_entry_row i d)" "same_plan d (update_period_row p d)"
  by (simp_all add: same_plan_def update_assignment_row_def delete_assignment_row_def delete_time_entries_def update_time_entry_row_def
      delete_time_entry_row_def update_period_row_def)

section \<open>Steps\<close>

text \<open>Identifiers without blanks around them, such as those of \<^verbatim>\<open>uuid4\<close>.\<close>

definition plain_uuids :: "task_env \<Rightarrow> bool" where
  "plain_uuids env \<longleftrightarrow> (\<forall>n. py_strip (e_uuid (pe_base env) n) = e_uuid (pe_base env) n)"

text \<open>
  One call that assigns, books hours or moves a period, by any user at any time, whatever its
  outcome. Only the removal of an assignment is left out, which deletes entries with it.
\<close>

inductive time_step :: "inv_op_state \<Rightarrow> inv_op_state \<Rightarrow> bool" where
  assign: "plain_uuids env \<Longrightarrow> assign_resource env tid rid alloc s = (r1, t) \<Longrightarrow> time_step s t"
| assign_project: "plain_uuids env \<Longrightarrow> assign_project_resource env tid prid alloc s = (r1, t) \<Longrightarrow> time_step s t"
| set_hours: "set_assignment_hours env i h s = (r1, t) \<Longrightarrow> time_step s t"
| set_allocation: "set_assignment_allocation env i alloc s = (r1, t) \<Longrightarrow> time_step s t"
| initialize: "initialize_timesheet env i s = (r2, t) \<Longrightarrow> time_step s t"
| add_entry: "add_work_entry env i day hours note s = (r3, t) \<Longrightarrow> time_step s t"
| update_entry: "update_time_entry env i day' hours' note' s = (r3, t) \<Longrightarrow> time_step s t"
| delete_entry: "delete_time_entry env i s = (r4, t) \<Longrightarrow> time_step s t"
| submit_period: "submit_timesheet_period env rid day note s = (r5, t) \<Longrightarrow> time_step s t"
| approve_period: "approve_timesheet_period env i note s = (r5, t) \<Longrightarrow> time_step s t"
| reject_period: "reject_timesheet_period env i note s = (r5, t) \<Longrightarrow> time_step s t"
| lock_period: "lock_timesheet_period env rid day note s = (r5, t) \<Longrightarrow> time_step s t"
| unlock_period: "unlock_timesheet_period env i note s = (r5, t) \<Longrightarrow> time_step s t"

locale apart_from_time = kept_by_inserts inv_insert P ok for P :: "inv_db \<Rightarrow> bool" and ok :: "inv_row \<Rightarrow> bool" +
  assumes time_rows_ok: "ok (ProjectRow (AssignmentRow a))" "ok (ProjectRow (ProjectResourceRow r))"
      "ok (ProjectRow (TimeEntryRow e))" "ok (ProjectRow (PeriodRow p))"
    and same_plan_keeps: "same_plan (db_project w) d \<Longrightarrow> P w \<Longrightarrow> P (w\<lparr>db_project := d\<rparr>)"
begin

lemma time_rows_kept:
  "preserves (tables P ok) (pt_add (AssignmentRow a))" "preserves (tables P ok) (pt_add (ProjectResourceRow r))"
  "preserves (tables P ok) (pt_add (TimeEntryRow e))" "preserves (tables P ok) (pt_add (PeriodRow p))"
  unfolding pt_add_def by (rule preserves_add, rule time_rows_ok)+

lemma write_kept: "(\<And>d. same_plan d (g d)) \<Longrightarrow> preserves (tables P ok) (pt_update (\<lambda>d. Inr (g d)))"
  unfolding preserves_def pt_update_def by (auto simp: tables_def same_plan_keeps)

lemmas time_writes_kept = time_rows_kept time_writes_same_plan [THEN write_kept]

lemma read_kept: "neutral m \<Longrightarrow> preserves (tables P ok) m"
  by (rule preserves_neutral)

lemmas time_steps_kept =
  preserve_intros session_keeps time_writes_kept neutral_assignment_reads [THEN read_kept] neutral_time_reads [THEN read_kept]
  neutral_task_reads [THEN read_kept] neutral_pt_get [THEN read_kept]

lemma saved_kept:
  "preserves (tables P ok) (save_assignment action t a)" "preserves (tables P ok) (sync_work_allocation_hours i)"
  "preserves (tables P ok) (audit_seeded x)" "preserves (tables P ok) (emit_if_project pid)"
  "preserves (tables P ok) (write_period p)" "preserves (tables P ok) (announce_period action p entries)"
  "preserves (tables P ok) (get_or_create_timesheet_period env rid day)" "preserves (tables P ok) (enrol_resource env pid' r)"
  unfolding save_assignment_def sync_work_allocation_hours_def audit_seeded_def emit_if_project_def write_period_def announce_period_def
    emit_timesheet_period_events_def get_or_create_timesheet_period_def enrol_resource_def Let_def
  by (intro time_steps_kept)+

lemma assignment_calls_kept:
  "preserves (tables P ok) (unassign_resource env i)" "preserves (tables P ok) (set_assignment_hours env i h)"
  "preserves (tables P ok) (set_assignment_allocation env i alloc)" "preserves (tables P ok) (assign_project_resource env tid prid alloc)"
  unfolding unassign_resource_def set_assignment_hours_def set_assignment_allocation_def assign_project_resource_def guarded_def Let_def
  by (intro time_steps_kept saved_kept)+

lemma assign_resource_kept: "preserves (tables P ok) (assign_resource env tid rid alloc)"
  unfolding assign_resource_def guarded_def by (intro time_steps_kept saved_kept assignment_calls_kept)

lemma seed_kept: "preserves (tables P ok) (seed_legacy_hours_entry env a owner_row resource)"
  unfolding seed_legacy_hours_entry_def Let_def by (intro time_steps_kept saved_kept)

lemma save_entries_kept: "(\<And>d. same_plan d (g d)) \<Longrightarrow> preserves (tables P ok) (save_entries action g e a owner_row)"
  unfolding save_entries_def by (intro time_steps_kept saved_kept write_kept)

lemma entry_calls_kept:
  "preserves (tables P ok) (initialize_timesheet env i)" "preserves (tables P ok) (add_work_entry env i day hours note)"
  "preserves (tables P ok) (update_time_entry env i day' hours' note')" "preserves (tables P ok) (delete_time_entry env i)"
  unfolding initialize_timesheet_def add_work_entry_def update_time_entry_def delete_time_entry_def guarded_def Let_def
  by (intro time_steps_kept saved_kept seed_kept save_entries_kept time_writes_same_plan)+

lemma period_calls_kept:
  "preserves (tables P ok) (submit_timesheet_period env rid day note)"
  "preserves (tables P ok) (decide_timesheet_period env status action i note)"
  "preserves (tables P ok) (lock_timesheet_period env rid day note)" "preserves (tables P ok) (unlock_timesheet_period env i note)"
  unfolding submit_timesheet_period_def decide_timesheet_period_def lock_timesheet_period_def unlock_timesheet_period_def guarded_def Let_def
  by (intro time_steps_kept saved_kept)+

lemma decisions_kept:
  "preserves (tables P ok) (approve_timesheet_period env i note)" "preserves (tables P ok) (reject_timesheet_period env i note)"
  unfolding approve_timesheet_period_def reject_timesheet_period_def by (rule period_calls_kept)+

lemmas all_time_calls_kept = assignment_calls_kept assign_resource_kept entry_calls_kept period_calls_kept decisions_kept

lemma time_step_kept: "time_step s t \<Longrightarrow> tables P ok s \<Longrightarrow> tables P ok t"
  by (induction rule: time_step.induct) (rule preservesD, rule all_time_calls_kept, assumption, assumption)+

end

lemma same_plan_plans: "same_plan d d' \<Longrightarrow> plans_ok d' = plans_ok d"
  unfolding same_plan_def by (elim conjE) (rule plans_cong(1))

interpretation plan_frame: apart_from_time "\<lambda>w. plans_ok (db_project w)" not_a_dependency
proof unfold_locales
  show "plans_ok (db_project (w\<lparr>db_project := d\<rparr>))" if "same_plan (db_project w) d" "plans_ok (db_project w)" for w d
    using same_plan_plans [OF that(1)] that(2) by simp
qed simp_all

end
