(* ===== verification/App_Runs.thy ===== *)
theory App_Runs
  imports Time_Frame
begin

text \<open>
  The services share one database session and one approval service, at which the bundles of
  both modules register their handlers. A run interleaves the calls of all of them; the
  invariants of procurement and of project planning hold together in every state it reaches.
\<close>

section \<open>The task service keeps the documents\<close>

lemma project_writes_keep [preserve_intros]:
  "preserves (proc_state d0) (pt_update f)" "preserves (proc_state d0) (pt_get g)" "preserves (proc_state d0) (pt_add r)"
proof -
  show "preserves (proc_state d0) (pt_update f)"
    unfolding preserves_def pt_update_def by (auto simp: tables_def procured_def split: sum.splits)
  show "preserves (proc_state d0) (pt_get g)" by (rule preserves_neutral) (rule call_intros)
  show "preserves (proc_state d0) (pt_add r)" unfolding pt_add_def by (rule preserves_add) simp
qed

lemmas task_reads_keep_documents =
  neutral_task_reads [THEN preserves_neutral] neutral_diagnostics [THEN preserves_neutral] neutral_guards [THEN preserves_neutral]

lemma save_task_keeps_documents: "preserves (proc_state d0) (save_task action t)"
  unfolding save_task_def update_task_row_def by (intro preserve_intros procured.session_keeps)

lemma schedule_keeps_documents:
  "preserves (proc_state d0) (recalculate_project_schedule env pid persist)" "preserves (proc_state d0) (sync_project_schedule env pid')"
  unfolding sync_project_schedule_def recalculate_project_schedule_def committing_def store_task_def update_task_row_def
  by (intro preserve_intros procured.session_keeps)+

lemma task_calls_keep_documents:
  "preserves (proc_state d0) (create_task env pid name desc start n st prio deadline)"
  "preserves (proc_state d0) (set_status env i st)" "preserves (proc_state d0) (delete_task env i)"
  "preserves (proc_state d0) (update_task env i c v)" "preserves (proc_state d0) (update_progress env i p a b st' v)"
  "preserves (proc_state d0) (add_dependency env pr su ty lag bypass)" "preserves (proc_state d0) (remove_dependency env i bypass)"
  unfolding create_task_def set_status_def delete_task_def update_task_def update_progress_def add_dependency_def remove_dependency_def
    manage_task_def guarded_def Let_def
  by (intro preserve_intros procured.session_keeps task_reads_keep_documents save_task_keeps_documents schedule_keeps_documents
      request_change_keeps)+

interpretation document_frame: apart_from_time "procured d0" fits for d0
  by unfold_locales (auto simp: procured_def)

text \<open>The handlers of governed changes leave the requests alone.\<close>

lemma project_writes_advance:
  "advances (keeps_found get_approval) (pt_update f)" "advances (keeps_found get_approval) (pt_get g)"
  "advances (keeps_found get_approval) (pt_add r)"
proof -
  show "advances (keeps_found get_approval) (pt_update f)"
    unfolding advances_def pt_update_def keeps_found_def by (auto split: sum.splits)
qed (auto simp: pt_get_def pt_add_def intro: found_approvals.advances_rules)

lemma dependency_calls_advance:
  "advances (keeps_found get_approval) (add_dependency env pr su ty lag bypass)"
  "advances (keeps_found get_approval) (remove_dependency env i bypass)"
  unfolding add_dependency_def remove_dependency_def sync_project_schedule_def recalculate_project_schedule_def committing_def
    store_task_def update_task_row_def guarded_def request_change_def record_governance_audit_def Let_def
  by (intro found_approvals.advances_rules project_writes_advance advances_documents
      neutral_task_reads [THEN found_approvals.advances_neutral] neutral_diagnostics [THEN found_approvals.advances_neutral]
      neutral_guards [THEN found_approvals.advances_neutral])+

lemma project_handlers_good: "good_handlers d0 (project_apply_handlers env)"
  unfolding good_handlers_def project_apply_handlers_def
  by (auto intro!: preserve_intros task_calls_keep_documents found_approvals.advances_rules dependency_calls_advance
      split: if_splits approval_payload.splits)

section \<open>Runs\<close>

text \<open>
  The handlers registered with the one approval service; no kind of request has two.
\<close>

definition app_apply_handlers :: "inv_env \<Rightarrow> (string list \<Rightarrow> string list) \<Rightarrow> task_env \<Rightarrow> handlers" where
  "app_apply_handlers env visit tenv = procurement_apply_handlers env visit ++ project_apply_handlers tenv"

text \<open>
  One call of any of the services, by any user at any time, whatever its outcome: a call that
  deletes neither a task nor an assignment, or one of the two deletions.
\<close>

inductive lasting_step :: "inv_op_state \<Rightarrow> inv_op_state \<Rightarrow> bool" where
  create_task: "create_task env pid name desc start n st prio deadline s = (r1, t) \<Longrightarrow> lasting_step s t"
| set_status: "set_status env i st s = (r2, t) \<Longrightarrow> lasting_step s t"
| update_task: "update_task env i c v s = (r1, t) \<Longrightarrow> lasting_step s t"
| update_progress: "update_progress env i p a b st' v s = (r1, t) \<Longrightarrow> lasting_step s t"
| add_dependency: "add_dependency env pr su ty lag bypass s = (r3, t) \<Longrightarrow> lasting_step s t"
| remove_dependency: "remove_dependency env i bypass s = (r2, t) \<Longrightarrow> lasting_step s t"
| recalculate: "recalculate_project_schedule env pid persist s = (r4, t) \<Longrightarrow> lasting_step s t"
| approve: "approve_and_apply aenv (app_apply_handlers aenv visit env) i note s = (r5, t) \<Longrightarrow> lasting_step s t"
| procurement: "procurement_step s t \<Longrightarrow> lasting_step s t"
| time: "time_step s t \<Longrightarrow> lasting_step s t"

inductive app_step :: "inv_op_state \<Rightarrow> inv_op_state \<Rightarrow> bool" where
  lasting: "lasting_step s t \<Longrightarrow> app_step s t"
| delete_task: "delete_task env i s = (r1, t) \<Longrightarrow> app_step s t"
| unassign: "unassign_resource env i s = (r1, t) \<Longrightarrow> app_step s t"

lemma lasting_runs: "lasting_step\<^sup>*\<^sup>* s t \<Longrightarrow> app_step\<^sup>*\<^sup>* s t"
  by (induction rule: rtranclp_induct) (auto intro: rtranclp.rtrancl_into_rtrancl app_step.lasting)

lemma time_runs: "time_step\<^sup>*\<^sup>* s t \<Longrightarrow> lasting_step\<^sup>*\<^sup>* s t"
  by (induction rule: rtranclp_induct) (auto intro: rtranclp.rtrancl_into_rtrancl lasting_step.time)

lemma procurement_runs: "procurement_step\<^sup>*\<^sup>* s t \<Longrightarrow> app_step\<^sup>*\<^sup>* s t"
  by (induction rule: rtranclp_induct) (auto intro: rtranclp.rtrancl_into_rtrancl app_step.lasting lasting_step.procurement)

lemma app_handlers_good: "good_handlers d0 (app_apply_handlers env visit tenv)"
  using handlers_good(1) [of d0 env visit] project_handlers_good [of d0 tenv]
  unfolding good_handlers_def app_apply_handlers_def map_add_Some_iff by blast

lemmas app_calls_keep_documents =
  task_calls_keep_documents schedule_keeps_documents(1) approve_and_apply_keeps [OF app_handlers_good] document_frame.all_time_calls_kept

lemma lasting_step_keeps_documents: "lasting_step s t \<Longrightarrow> proc_state d0 s \<Longrightarrow> proc_state d0 t"
  by (induction rule: lasting_step.induct)
    ((rule preservesD, rule app_calls_keep_documents, assumption, assumption) | (rule procurement_step_keeps, assumption, assumption) |
      (rule document_frame.time_step_kept, assumption, assumption))+

lemma app_step_keeps_documents: "app_step s t \<Longrightarrow> proc_state d0 s \<Longrightarrow> proc_state d0 t"
  by (induction rule: app_step.induct)
    ((rule lasting_step_keeps_documents, assumption, assumption) | (rule preservesD, rule app_calls_keep_documents, assumption, assumption))+

lemma app_handlers_keep_plans: "app_apply_handlers env visit tenv (ap_request_type r) = Some h \<Longrightarrow> preserves plan_state (h r')"
  unfolding app_apply_handlers_def map_add_Some_iff using plans.own_handlers_keep(1) project_handlers_keep by blast

lemma app_approval_keeps_plans: "preserves plan_state (approve_and_apply aenv (app_apply_handlers aenv visit env) i note)"
  by (rule plans.decisions_keep(1), drule app_handlers_keep_plans, assumption)

lemmas app_calls_keep_plans =
  create_task_keeps set_status_keeps delete_task_keeps update_task_keeps update_progress_keeps add_dependency_keeps remove_dependency_keeps
  recalculate_keeps app_approval_keeps_plans plan_frame.all_time_calls_kept

lemma lasting_step_keeps_plans: "lasting_step s t \<Longrightarrow> plan_state s \<Longrightarrow> plan_state t"
  by (induction rule: lasting_step.induct)
    ((rule preservesD, rule app_calls_keep_plans, assumption, assumption) | (rule plans.procurement_step_frame, assumption, assumption) |
      (rule plan_frame.time_step_kept, assumption, assumption))+

lemma app_step_keeps_plans: "app_step s t \<Longrightarrow> plan_state s \<Longrightarrow> plan_state t"
  by (induction rule: app_step.induct)
    ((rule lasting_step_keeps_plans, assumption, assumption) | (rule preservesD, rule app_calls_keep_plans, assumption, assumption))+

lemma run_from_clean:
  assumes "clean s" "documents_ok (db_documents (s_committed s))" "app_step\<^sup>*\<^sup>* s t"
  shows "documents_ok (db_documents (s_committed t)) \<and> history (db_documents (s_committed s)) (db_documents (s_committed t))"
proof -
  have start: "proc_state (db_documents (s_committed s)) s"
    using assms(1,2) history_refl by (simp add: tables_def clean_def procured_def)
  have "proc_state (db_documents (s_committed s)) t"
    using assms(3) by (induction rule: rtranclp_induct) (auto intro: start app_step_keeps_documents)
  then show ?thesis by (simp add: tables_def procured_def)
qed

lemma run_keeps_plans:
  assumes "clean s" "plans_ok (db_project (s_committed s))" "app_step\<^sup>*\<^sup>* s t"
  shows "plans_ok (db_project (s_working t)) \<and> plans_ok (db_project (s_committed t))"
proof -
  have start: "plan_state s" using assms(1,2) by (simp add: tables_def clean_def)
  have "plan_state t"
    using assms(3) by (induction rule: rtranclp_induct) (auto intro: start app_step_keeps_plans)
  then show ?thesis by (simp add: tables_def)
qed

end
