(* ===== verification/App_Properties.thy ===== *)
theory App_Properties
  imports App_Runs
begin

text \<open>
  What holds in every state the services reach together, also after calls that raised and left
  their transaction open: of the documents of procurement, and of the plans of the projects.
\<close>

section \<open>The documents\<close>

text \<open>
  C1: Procurement accounts for every line: in every state the services reach, what was received
  and rejected of an order line is never negative and never more than was ordered, a line marked
  fully received is processed to the last unit, and what orders have taken from a requisition
  line is never more than was requested.
\<close>

theorem procurement_lines_accounted:
  assumes "clean s" and "documents_ok (db_documents (s_committed s))" and "app_step\<^sup>*\<^sup>* s t"
  shows "(\<forall>l \<in> set (dc_order_lines (db_documents (s_committed t))).
      0 \<le> quantity_received l \<and> 0 \<le> quantity_rejected l \<and>
      quantity_received l + quantity_rejected l \<le> quantity_ordered l \<and>
      (pl_status l = PL_FULLY_RECEIVED \<longrightarrow> line_outstanding_qty l = 0)) \<and>
    (\<forall>l \<in> set (dc_requisition_lines (db_documents (s_committed t))).
      0 \<le> quantity_sourced l \<and> quantity_sourced l \<le> quantity_requested l \<and>
      (rl_status l = RL_FULLY_SOURCED \<longrightarrow> quantity_sourced l = quantity_requested l))"
  using run_from_clean [OF assms]
  by (auto simp: documents_ok_def list_all_iff order_line_ok_def requisition_line_ok_def line_outstanding_qty_def)

text \<open>
  C6: The documents implement two state machines. Across any run every order and every
  requisition keeps its number and organization, and its status moves along the edges of the
  abstract machines \<open>order_move\<close> and \<open>requisition_move\<close> only, which are part of
  the transition tables of the code (lemmas \<open>order_move_in_table\<close> and
  \<open>requisition_move_in_table\<close>): no draft is approved without having been submitted, and
  nothing leaves a rejected, cancelled or closed document.
\<close>

theorem documents_follow_machines:
  assumes "clean s" and "documents_ok (db_documents (s_committed s))" and "app_step\<^sup>*\<^sup>* s t"
  shows "(\<forall>i r. get_order_row i (db_documents (s_committed s)) = Some r \<longrightarrow>
      (\<exists>r'. get_order_row i (db_documents (s_committed t)) = Some r' \<and> po_number r' = po_number r \<and>
         po_organization_id r' = po_organization_id r \<and> order_move\<^sup>*\<^sup>* (po_status r) (po_status r'))) \<and>
    (\<forall>i r. get_requisition_row i (db_documents (s_committed s)) = Some r \<longrightarrow>
      (\<exists>r'. get_requisition_row i (db_documents (s_committed t)) = Some r' \<and> requisition_number r' = requisition_number r \<and>
         rq_organization_id r' = rq_organization_id r \<and> requisition_move\<^sup>*\<^sup>* (rq_status r) (rq_status r')))"
  using run_from_clean [OF assms]
  unfolding history_def tracks_def same_order_def same_requisition_def by blast

text \<open>
  C9: Decisions are final and taken by a second person: a request that is decided is found
  unchanged in every later state, and no decided request carries its requester as the one who
  decided it.
\<close>

theorem decisions_final_and_by_another:
  assumes "clean s" and "documents_ok (db_documents (s_committed s))" and "app_step\<^sup>*\<^sup>* s t"
  shows "(\<forall>i q. get_approval i (db_documents (s_committed s)) = Some q \<and> ap_status q \<noteq> AP_PENDING \<longrightarrow>
      get_approval i (db_documents (s_committed t)) = Some q) \<and>
    (\<forall>q \<in> set (dc_approvals (db_documents (s_committed t))). \<forall>u. ap_status q \<noteq> AP_PENDING \<and> requested_by q = Some u \<and> u \<noteq> [] \<longrightarrow>
      decided_at q \<noteq> None \<and> decided_by q \<noteq> Some u)"
proof -
  have "get_approval i (db_documents (s_committed t)) = Some q"
    if "get_approval i (db_documents (s_committed s)) = Some q" "ap_status q \<noteq> AP_PENDING" for i q
    using run_from_clean [OF assms] that unfolding history_def tracks_def same_request_def by fastforce
  moreover have "decided_at q \<noteq> None \<and> decided_by q \<noteq> Some u"
    if "q \<in> set (dc_approvals (db_documents (s_committed t)))" "ap_status q \<noteq> AP_PENDING" "requested_by q = Some u" "u \<noteq> []" for q u
    using run_from_clean [OF assms] that by (auto simp: documents_ok_def list_all_iff approval_ok_def split: if_splits)
  ultimately show ?thesis by blast
qed

section \<open>The plans\<close>

text \<open>
  C7: Project plans stay acyclic: in every state the services reach, also through approved
  changes and after calls that raised, every dependency joins two different existing tasks of one
  project, no two dependencies join the same pair, and the dependencies of all projects together
  have no cycle.
\<close>

theorem plans_stay_acyclic:
  assumes "clean s" and "plans_ok (db_project (s_committed s))" and "app_step\<^sup>*\<^sup>* s t"
  shows "(\<forall>x \<in> set (pt_dependencies (db_project (s_committed t))). predecessor_task_id x \<noteq> successor_task_id x \<and>
      (\<exists>p q. get_task_row (predecessor_task_id x) (db_project (s_committed t)) = Some p \<and>
         get_task_row (successor_task_id x) (db_project (s_committed t)) = Some q \<and> t_project_id p = t_project_id q)) \<and>
    distinct (map (\<lambda>x. (predecessor_task_id x, successor_task_id x)) (pt_dependencies (db_project (s_committed t)))) \<and>
    acyclic (dep_edges (pt_dependencies (db_project (s_committed t))))"
proof -
  let ?d = "db_project (s_committed t)"
  have ok: "plans_ok ?d" using run_keeps_plans [OF assms] by blast
  have "predecessor_task_id x \<noteq> successor_task_id x \<and>
      (\<exists>p q. get_task_row (predecessor_task_id x) ?d = Some p \<and> get_task_row (successor_task_id x) ?d = Some q \<and>
         t_project_id p = t_project_id q)" if x: "x \<in> set (pt_dependencies ?d)" for x
  proof -
    have e: "(predecessor_task_id x, successor_task_id x) \<in> dep_edges (pt_dependencies ?d)"
      using x by (auto simp: dep_edges_def)
    have "predecessor_task_id x \<noteq> successor_task_id x" using ok r_into_trancl [OF e] by (auto simp: plans_ok_def acyclic_def)
    moreover have "home ?d (predecessor_task_id x) \<noteq> None \<and> home ?d (predecessor_task_id x) = home ?d (successor_task_id x)"
      using ok e by (auto simp: plans_ok_def simp del: not_None_eq)
    ultimately show ?thesis by (fastforce simp: home_def)
  qed
  then show ?thesis using ok by (simp add: plans_ok_def)
qed

text \<open>
  C14: A schedule never meets a cycle: in every state the services reach, the computation of any
  project's schedule returns or raises one of two exceptions, the ValidationError of a project
  without a single date and the OverflowError of a date out of range. SCHEDULE_CYCLE and KeyError
  do not occur.
\<close>

theorem schedule_never_cyclic:
  assumes "clean s" and "plans_ok (db_project (s_committed s))" and "app_step\<^sup>*\<^sup>* s t"
  shows "case project_schedule e pid (db_project (s_working t)) of
      Inr result \<Rightarrow> map fst result = map t_id (list_tasks_by_project pid (db_project (s_working t)))
    | Inl err \<Rightarrow> err \<in> {ValidationErr, OverflowError}"
proof -
  let ?d = "db_project (s_working t)"
  let ?tasks = "list_tasks_by_project pid ?d"
  have ok: "plans_ok ?d" using run_keeps_plans [OF assms] by blast
  have dict: "dict_of t_id ?tasks = map (\<lambda>t. (t_id t, t)) ?tasks"
    by (rule dict_of_distinct [OF distinct_project_tasks [OF ok]])
  have "dep_edges (filtered_deps (dict_of t_id ?tasks) (list_dependencies_by_project pid ?d)) \<subseteq> dep_edges (pt_dependencies ?d)"
    by (auto simp: dep_edges_def filtered_deps_def list_dependencies_by_project_def)
  then have "acyclic (dep_edges (filtered_deps (dict_of t_id ?tasks) (list_dependencies_by_project pid ?d)))"
    using ok acyclic_subset by (auto simp: plans_ok_def)
  moreover have "distinct (map fst (dict_of t_id ?tasks))"
    using distinct_project_tasks [OF ok] by (simp add: dict comp_def)
  ultimately have fails: "fails_only schedule_failures
      (compute_schedule e priority_value (compute_task_dates e) (dict_of t_id ?tasks) (list_dependencies_by_project pid ?d))"
    by (intro acyclic_schedule_fails)
  have keys: "map fst result = map t_id ?tasks" if "compute_schedule e priority_value (compute_task_dates e) (dict_of t_id ?tasks)
      (list_dependencies_by_project pid ?d) = Inr result" for result
    using that by (auto simp: compute_schedule_def dict comp_def dest!: build_result_keys)
  show ?thesis
    using fails keys by (auto simp: project_schedule_def Let_def fails_only_def split: sum.split)
qed

text \<open>
  C18: The check of a new dependency is exact: it passes if and only if the plans stay in order
  with the dependency added. Otherwise it names the first of the five problems.
\<close>

theorem dependency_check_exact:
  assumes "plans_ok d"
  shows "dependency_problem (predecessor_task_id x) (successor_task_id x) d = None \<longleftrightarrow>
    plans_ok (d\<lparr>pt_dependencies := pt_dependencies d @ [x]\<rparr>)"
proof
  let ?p = "predecessor_task_id x" and ?s = "successor_task_id x"
  let ?d = "d\<lparr>pt_dependencies := pt_dependencies d @ [x]\<rparr>"
  show "plans_ok ?d" if "dependency_problem ?p ?s d = None"
    using that assms plans_ok_add_dependency by (simp add: dependency_problem_None)
  have edges: "dep_edges (pt_dependencies d @ [x]) = insert (?p, ?s) (dep_edges (pt_dependencies d))"
    by (auto simp: dep_edges_def)
  have home: "home ?d = home d" by (simp add: home_def get_task_row_def fun_eq_iff)
  show "dependency_problem ?p ?s d = None" if "plans_ok ?d"
  proof -
    have "home d ?p \<noteq> None \<and> home d ?p = home d ?s" "(?s, ?p) \<notin> (dep_edges (pt_dependencies d))\<^sup>*"
      using that by (auto simp: plans_ok_def home edges acyclic_insert simp del: not_None_eq)
    moreover have "(?p, ?s) \<notin> dep_edges (pt_dependencies d)"
      using that by (auto simp: plans_ok_def dep_edges_def)
    ultimately show ?thesis unfolding dependency_problem_None [OF assms] link_ok_def by blast
  qed
qed

text \<open>
  C28: The search for a cycle is right: it fails exactly when the successor does not reach the
  predecessor along the dependencies, and what it returns is the cycle the new dependency would
  close, a chain of existing dependencies from the successor to the predecessor.
\<close>

theorem cycle_search_correct:
  "case find_cycle_path_ids deps p s of
     None \<Rightarrow> (s, p) \<notin> (dep_edges deps)\<^sup>*
   | Some path \<Rightarrow> \<exists>chain. path = p # chain \<and> chain \<noteq> [] \<and> hd chain = s \<and> last chain = p \<and>
       successively (\<lambda>u w. (u, w) \<in> dep_edges deps) chain"
  using cycle_path_None_iff [of deps p s] cycle_path_Some [of deps p s]
  by (auto simp: path_to_def graph_edges_adjacency split: option.split)

end
