(* ===== verification/Proc_Failures.thy ===== *)
theory Proc_Failures
  imports Proc_Properties
begin

text \<open>
  What procurement leaves behind when a call raises: the calls with a \<open>try\<close> block roll
  back, an approval does not.
\<close>

section \<open>Exceptions an operation never raises\<close>

definition never :: "error \<Rightarrow> ('s, 'a) op \<Rightarrow> bool" where
  "never err m \<longleftrightarrow> (\<forall>s t. m s \<noteq> (Inl err, t))"

named_theorems never_intros \<open>rules for exceptions that cannot come\<close>

lemma never_simple [never_intros]:
  "never err (oret x)" "never err (oget f)" "err' \<noteq> err \<Longrightarrow> never err (oraise err')"
  "err' \<noteq> err \<Longrightarrow> never err (oguard b err')" "r \<noteq> Inl err \<Longrightarrow> never err (olift r)"
  "never err (fresh_uuid uuid)" "never err (emit sig i)" "never err (session_add y)"
  by (auto simp: never_def)

lemma never_bind [never_intros]: "never err m \<Longrightarrow> (\<And>x. never err (f x)) \<Longrightarrow> never err (obind m f)"
  unfolding never_def by (auto simp: obind_Inl)

lemma never_split [never_intros]:
  "never err a \<Longrightarrow> never err b \<Longrightarrow> never err (if c then a else b)"
  "never err a \<Longrightarrow> (\<And>x. never err (f x)) \<Longrightarrow> never err (case z of None \<Rightarrow> a | Some x \<Rightarrow> f x)"
  "(\<And>x y. never err (g x y)) \<Longrightarrow> never err (case p of (x, y) \<Rightarrow> g x y)"
  "never err (h v) \<Longrightarrow> never err (let x = v in h x)"
  by (simp_all split: option.splits prod.splits)

lemma never_for [never_intros]: "(\<And>x. never err (f x)) \<Longrightarrow> never err (ofor f xs)"
  by (induction xs) (auto intro: never_intros)

lemma neverD: "never err m \<Longrightarrow> m s = (Inl err, t) \<Longrightarrow> False"
  by (simp add: never_def)

text \<open>What holds where the exception is raised, by rules that follow the operation.\<close>

definition fails :: "('s \<Rightarrow> bool) \<Rightarrow> ('s, 'a) op \<Rightarrow> error \<Rightarrow> ('s \<Rightarrow> bool) \<Rightarrow> bool" where
  "fails A m err E \<longleftrightarrow> (\<forall>s t. A s \<longrightarrow> m s = (Inl err, t) \<longrightarrow> E t)"

lemma failsD: "fails A m err E \<Longrightarrow> A s \<Longrightarrow> m s = (Inl err, t) \<Longrightarrow> E t"
  unfolding fails_def by blast

lemma fails_never: "never err m \<Longrightarrow> fails A m err E"
  by (simp add: fails_def never_def)

lemma fails_step:
  assumes "never err m" "\<And>x. fails (\<lambda>u. \<exists>s. A s \<and> m s = (Inr x, u)) (f x) err E"
  shows "fails A (obind m f) err E"
  using assms unfolding fails_def never_def obind_Inl by blast

lemma fails_weaken: "fails A m err E \<Longrightarrow> (\<And>s. A' s \<Longrightarrow> A s) \<Longrightarrow> (\<And>t. E t \<Longrightarrow> E' t) \<Longrightarrow> fails A' m err E'"
  unfolding fails_def by blast

lemma fails_fact: "(\<And>s. A s \<Longrightarrow> Q) \<Longrightarrow> (Q \<Longrightarrow> fails A m err E) \<Longrightarrow> fails A m err E"
  unfolding fails_def by blast

lemma fails_option:
  "(z = None \<Longrightarrow> fails A a err E) \<Longrightarrow> (\<And>x. z = Some x \<Longrightarrow> fails A (f x) err E) \<Longrightarrow> fails A (case z of None \<Rightarrow> a | Some x \<Rightarrow> f x) err E"
  by (simp split: option.splits)

lemma fails_before:
  assumes "fails A m err E" "\<And>x. never err (f x)"
  shows "fails A (obind m f) err E"
  using assms unfolding fails_def never_def obind_Inl by blast

text \<open>Inserts fail with an \<open>IntegrityError\<close> only, and so do flushes, commits and audit entries.\<close>

lemma inserts_integrity: "inv_insert x db = Inl err \<Longrightarrow> \<exists>table. err = IntegrityError table"
proof (cases x)
  case (DocumentRow y)
  then show "inv_insert x db = Inl err \<Longrightarrow> \<exists>table. err = IntegrityError table"
    by (cases y) (auto simp: rbind_Inl_iff split: if_splits)
next
  case (ProjectRow y)
  then show "inv_insert x db = Inl err \<Longrightarrow> \<exists>table. err = IntegrityError table"
    by (cases y) (auto simp: rbind_Inl_iff split: if_splits)
qed (auto split: if_splits)

lemma flush_integrity: "rfold inv_insert xs db = Inl err \<Longrightarrow> \<exists>table. err = IntegrityError table"
  by (induction xs arbitrary: db) (auto simp: rbind_Inl_iff dest: inserts_integrity)

abbreviation oversourced :: error where
  "oversourced \<equiv> ValidationError ''INVENTORY_REQUISITION_LINE_OVERSOURCED''"

lemma never_session [never_intros]:
  "never oversourced (commit inv_insert)" "never oversourced (record_audit inv_insert a ty i)"
  unfolding never_def record_audit_def by (auto simp: obind_Inl dest: flush_integrity split: if_splits)

lemma never_permission [never_intros]: "never (ValidationError c) (require_perm env code)"
  unfolding never_def require_perm_def require_permission_def by (auto split: prod.splits)

lemma never_doc [never_intros]: "never err (doc_get g)" "(\<And>d. f d \<noteq> Inl err) \<Longrightarrow> never err (doc_update f)"
  "never err (doc_add x)"
  unfolding doc_get_def doc_add_def by (rule never_intros)+ (auto simp: never_def doc_update_def split: sum.splits)

lemma never_writes [never_intros]:
  "never (ValidationError c) (update_order_row o')" "never (ValidationError c) (update_requisition_row r)"
  "never (ValidationError c) (update_requisition_line l)"
  unfolding update_order_row_def update_requisition_row_def update_requisition_line_def
  by (intro never_intros, simp add: rbind_Inl_iff update_with_version_check_def update_by_id_def split: option.splits)+

lemma never_transition [never_intros]:
  "never oversourced (check_order_transition r st)" "never oversourced (check_requisition_transition r' st')"
  unfolding check_order_transition_def check_requisition_transition_def validate_transition_def
  by (intro never_intros, simp add: Let_def raise_if_def)+

lemma never_parts [never_intros]:
  "never oversourced (require_pending i)" "never oversourced (ensure_not_self_decision env q)"
  "never oversourced (emit_post_apply_domain_events q)" "never oversourced (close_decision a q)"
  "never oversourced (awaiting_order q)" "never oversourced (refresh_requisition env i)"
  "never oversourced (announce_order a ty i j)" "never oversourced (apply_submitted_requisition_approval env q)"
  unfolding require_pending_def ensure_not_self_decision_def emit_post_apply_domain_events_def close_decision_def
    update_approval_def record_governance_audit_def awaiting_order_def refresh_requisition_def refresh_requisition_status_def
    announce_order_def apply_submitted_requisition_approval_def awaiting_requisition_def set_line_statuses_def announce_requisition_def
  by (intro never_intros; simp)+

section \<open>The loop over the lines of an approved order\<close>

text \<open>It touches neither headers nor requests nor the committed rows, however it ends.\<close>

definition headers :: "inv_op_state \<Rightarrow> purchase_order list \<times> approval_request list \<times> inv_db" where
  "headers s = (dc_orders (db_documents (s_working s)), dc_approvals (db_documents (s_working s)), s_committed s)"

lemma neutral_headers: "neutral m \<Longrightarrow> preserves (\<lambda>s. headers s = h) m"
  unfolding preserves_def headers_def using neutralD by metis

lemma line_writes_keep_headers:
  "preserves (\<lambda>s. headers s = h) (update_order_line l)" "preserves (\<lambda>s. headers s = h) (update_requisition_line rl)"
  "preserves (\<lambda>s. headers s = h) (update_balance b)" "preserves (\<lambda>s. headers s = h) (session_add y)"
  unfolding preserves_def headers_def update_order_line_def update_requisition_line_def doc_update_def update_balance_def
  by (auto split: sum.splits)

lemma approve_lines_headers: "preserves (\<lambda>s. headers s = h) (approve_lines env order ls rs bs)"
proof (induction ls arbitrary: rs bs)
  case (Cons l ls)
  then show ?case
    unfolding approve_lines.simps adjust_on_order_balance_def source_requisition_line_def Let_def
    by (intro preserve_intros line_writes_keep_headers neutral_headers [OF neutral_simple(6)]
        neutral_headers [OF neutral_receipts(1)] neutral_headers [OF neutral_receipts(2)] neutral_headers [OF neutral_order_reads(7)])
qed (intro preserve_intros approve_lines.simps [THEN ssubst])

lemma update_order_row_Inr:
  assumes "update_order_row r s = (Inr saved, t)" "get_order_row (po_id r) (db_documents (s_working s)) = Some r0"
  shows "get_order_row (po_id r) (db_documents (s_working t)) = Some saved \<and> po_status saved = po_status r \<and>
    dc_approvals (db_documents (s_working t)) = dc_approvals (db_documents (s_working s)) \<and> s_committed t = s_committed s"
  using assms unfolding update_order_row_def doc_update_def get_order_row_def
  by (auto simp: update_with_version_check_def find_row_replace split: sum.splits option.splits if_splits)

text \<open>The state in which the approval of an order leaves its rows.\<close>

definition approved_in :: "inv_op_state \<Rightarrow> approval_request \<Rightarrow> purchase_order \<Rightarrow> inv_op_state \<Rightarrow> bool" where
  "approved_in s q r t \<longleftrightarrow> get_order_row (ap_entity_id q) (db_documents (s_working t)) = Some r \<and> po_status r = PO_APPROVED \<and>
     dc_approvals (db_documents (s_working t)) = dc_approvals (db_documents (s_working s)) \<and> s_committed t = s_committed s"

lemma approved_in_headers: "approved_in s q r t \<Longrightarrow> headers t' = headers t \<Longrightarrow> approved_in s q r t'"
  by (simp add: approved_in_def headers_def get_order_row_def)

lemma approve_lines_fails: "fails (approved_in s q r) (approve_lines env order ls rs bs) err (approved_in s q r)"
  unfolding fails_def using preservesD [OF approve_lines_headers refl] approved_in_headers by blast

lemma awaiting_order_row:
  "awaiting_order q s = (Inr r, t) \<Longrightarrow> t = s \<and> po_id r = ap_entity_id q \<and> get_order_row (po_id r) (db_documents (s_working s)) = Some r"
  unfolding awaiting_order_def doc_get_def get_order_row_def
  by (auto split: option.splits dest: find_row_self find_row_Some)

lemma approved_in_update:
  assumes "awaiting_order q s = (Inr r, s1)" "check_order_transition r PO_APPROVED s1 = (Inr x, s2)"
    and "update_order_row (r\<lparr>po_status := PO_APPROVED, po_approved_at := a, po_updated_at := b\<rparr>) s2 = (Inr saved, s3)"
    and "doc_get f s3 = (Inr y, s4)"
  shows "approved_in s q saved s4"
  using awaiting_order_row [OF assms(1)] assms(2,4) update_order_row_Inr [OF assms(3), of r]
  by (auto simp: approved_in_def check_order_transition_def doc_get_def)

lemma order_approval_fails:
  "fails (\<lambda>u. u = s) (apply_submitted_purchase_order_approval env visit q) oversourced (\<lambda>t. \<exists>r. approved_in s q r t)"
  unfolding apply_submitted_purchase_order_approval_def
  by (rule fails_step, rule never_intros, rule fails_step, rule never_intros, rule fails_step, rule never_intros,
      rule fails_step, rule never_intros, rule fails_before, rule fails_weaken [OF approve_lines_fails [where s = s and q = q]],
      blast intro: approved_in_update, blast, intro never_intros)

section \<open>An approval that fails is not rolled back\<close>

text \<open>
  C21: When the approval of an order fails because a line would oversource its requisition line,
  nothing is rolled back: in the open transaction the order is approved while its request is
  still pending, and the next commit of any service on the session publishes exactly this.
\<close>

theorem failed_approval_left_open:
  assumes "approve_and_apply env (procurement_apply_handlers env visit) i note s =
      (Inl (ValidationError ''INVENTORY_REQUISITION_LINE_OVERSOURCED''), t)"
  shows "\<exists>q r. get_approval i (db_documents (s_working t)) = Some q \<and> ap_status q = AP_PENDING \<and>
    get_order_row (ap_entity_id q) (db_documents (s_working t)) = Some r \<and> po_status r = PO_APPROVED \<and>
    s_committed t = s_committed s \<and>
    (\<forall>u v. commit inv_insert t = (Inr u, v) \<longrightarrow>
       get_approval i (db_documents (s_committed v)) = Some q \<and>
       get_order_row (ap_entity_id q) (db_documents (s_committed v)) = Some r)"
proof -
  let ?P = "\<lambda>q. get_approval i (db_documents (s_working s)) = Some q \<and> ap_status q = AP_PENDING"
  have handler: "fails (\<lambda>u. u = s) (h q) oversourced (\<lambda>t. \<exists>r. approved_in s q r t)"
    if "procurement_apply_handlers env visit (ap_request_type q) = Some h" for q h
    using that order_approval_fails fails_never [OF never_parts(8)] by (auto simp: procurement_apply_handlers_def split: if_splits)
  have "fails (\<lambda>u. u = s) (approve_and_apply env (procurement_apply_handlers env visit) i note) oversourced
      (\<lambda>t. \<exists>q r. ?P q \<and> approved_in s q r t)"
    unfolding approve_and_apply_def
  proof (rule fails_step, rule never_intros, rule fails_step, rule never_intros, rule fails_step, rule never_intros,
      rule fails_option, rule fails_never, rule never_intros, simp, rule fails_before)
    fix x y h and q :: approval_request
    assume h: "procurement_apply_handlers env visit (ap_request_type q) = Some h"
    let ?A = "\<lambda>u. \<exists>s2. (\<exists>s1. (\<exists>s0. s0 = s \<and> require_perm env ''approval.decide'' s0 = (Inr x, s1)) \<and>
        require_pending i s1 = (Inr q, s2)) \<and> ensure_not_self_decision env q s2 = (Inr y, u)"
    have read: "u = s \<and> ?P q" if "?A u" for u
      using that by (auto simp: require_perm_def require_pending_def doc_get_def ensure_not_self_decision_def split: option.splits if_splits)
    show "fails ?A (h q) oversourced (\<lambda>t. \<exists>q r. ?P q \<and> approved_in s q r t)"
      by (rule fails_fact [where Q = "?P q"], use read in blast, rule fails_weaken [OF handler [OF h]]) (use read in blast)+
  qed (intro never_intros)
  then obtain q r where q: "?P q" and r: "approved_in s q r t"
    using assms failsD by fastforce
  then have here: "get_approval i (db_documents (s_working t)) = Some q" "get_order_row (ap_entity_id q) (db_documents (s_working t)) = Some r"
    by (simp_all add: get_approval_def approved_in_def)
  moreover have "get_approval i (db_documents (s_committed v)) = Some q \<and>
      get_order_row (ap_entity_id q) (db_documents (s_committed v)) = Some r" if "commit inv_insert t = (Inr u, v)" for u v
    using here that found_orders.flush_rows found_approvals.flush_rows by (auto simp: keeps_found_def)
  ultimately show ?thesis using q r unfolding approved_in_def by blast
qed

section \<open>Calls with a \<open>try\<close> block\<close>

lemma quiet_for [call_intros]: "(\<And>x. quiet (f x)) \<Longrightarrow> quiet (ofor f xs)"
  by (induction xs) (auto intro: call_intros)

lemma quiet_announcements [call_intros]:
  "quiet (announce_requisition a ty i j)" "quiet (announce_order a ty i j)" "quiet (announce_receipt visit order receipt txns touched)"
  unfolding announce_requisition_def announce_order_def announce_receipt_def by (intro call_intros)+

lemma uncommitted_documents [call_intros]:
  "uncommitted (doc_add x)" "uncommitted (doc_update f)" "uncommitted (update_order_row r)" "uncommitted (update_requisition_row r')"
  "uncommitted (update_order_line l)"
proof -
  show add: "uncommitted (doc_add x)" unfolding doc_add_def by (rule call_intros)
  show upd: "uncommitted (doc_update f)" for f unfolding uncommitted_def doc_update_def by (auto split: sum.splits)
  show "uncommitted (update_order_row r)" "uncommitted (update_requisition_row r')" "uncommitted (update_order_line l)"
    unfolding update_order_row_def update_requisition_row_def update_order_line_def
    by (intro uncommitted_bind upd uncommitted_neutral call_intros)+
qed

lemma uncommitted_adjustment [call_intros]: "uncommitted (post_adjustment env i room q dir u c at_time rt ri nts False)"
  unfolding post_adjustment_def post_transaction_def announce_posting_def if_False
  by (intro call_intros uncommitted_neutral [OF neutral_reads(7)] uncommitted_neutral [OF neutral_posting(2)]
      uncommitted_neutral [OF neutral_posting(3)] uncommitted_neutral [OF neutral_simple(1)] uncommitted_neutral [OF neutral_simple(2)]
      uncommitted_neutral [OF neutral_simple(5)])

lemma uncommitted_receiving [call_intros]:
  "uncommitted (post_accepted env at_time org rl txns touched)"
  "uncommitted (adjust_on_order_balance env org item room u delta at_time)"
  unfolding post_accepted_def adjust_on_order_balance_def Let_def
  by (intro call_intros uncommitted_neutral [OF neutral_receipts(2)] uncommitted_neutral [OF neutral_simple(1)]
      uncommitted_neutral [OF neutral_simple(2)] uncommitted_neutral [OF neutral_simple(4)] uncommitted_neutral [OF neutral_simple(5)]
      uncommitted_neutral [OF neutral_simple(6)])+

lemma uncommitted_receive_line: "uncommitted (receive_line env order at_time ref rid idx p acc)"
  unfolding receive_line_def record_received_def Let_def case_prod_beta
  by (intro call_intros uncommitted_neutral [OF neutral_receipts(1)] uncommitted_neutral [OF neutral_receipts(2)]
      uncommitted_neutral [OF neutral_receipts(3)] uncommitted_neutral [OF neutral_simple(2)])

lemma uncommitted_receive_lines [call_intros]: "uncommitted (receive_lines env order at_time ref rid idx ps acc)"
  by (induction ps arbitrary: idx acc)
    (auto intro: uncommitted_receive_line uncommitted_bind uncommitted_neutral [OF neutral_simple(2)])

lemma uncommitted_receipt [call_intros]: "uncommitted (receipt_body env order lines receipt ps)"
  unfolding receipt_body_def
  by (intro call_intros uncommitted_neutral [OF neutral_doc_get] uncommitted_neutral [OF neutral_simple(2)])

lemma atomic_save_order [call_intros]: "atomic_call (save_order action r)"
  unfolding save_order_def by (intro call_intros)

interpretation create_requisition_call: unit_of_work "create_requisition env site room purpose needed priority st si nts number"
  by unfold_locales (unfold create_requisition_def, intro call_intros)

interpretation requisition_line_call: unit_of_work "add_requisition_line env i item q u desc needed cost supplier nts"
  by unfold_locales (unfold add_requisition_line_def, intro call_intros)

interpretation update_requisition_call: unit_of_work "update_requisition env i site room purpose needed priority st si nts v"
  by unfold_locales (unfold update_requisition_def, intro call_intros)

interpretation create_order_call: unit_of_work "create_purchase_order env site supp cur source od ed ref nts number"
  by unfold_locales (unfold create_purchase_order_def, intro call_intros)

interpretation order_line_call: unit_of_work "add_purchase_order_line env i item room q u price ed desc source nts"
  by unfold_locales (unfold add_purchase_order_line_def, intro call_intros)

interpretation update_order_call: unit_of_work "update_purchase_order env i site supp cur source ed ref nts v"
  by unfold_locales (unfold update_purchase_order_def, intro call_intros)

interpretation send_order_call: unit_of_work "send_purchase_order env i"
  by unfold_locales (unfold send_purchase_order_def, intro call_intros)

interpretation close_order_call: unit_of_work "close_purchase_order env i"
  by unfold_locales (unfold close_purchase_order_def, intro call_intros)

interpretation receipt_call: unit_of_work "post_receipt env visit i payloads at_time ref nts number"
  by unfold_locales (unfold post_receipt_def, intro call_intros)

text \<open>
  C15: Posting a receipt is atomic: whatever goes wrong, in any of its lines and after any number
  of lines already posted to stock, the tables are as they were and nothing waits in the session.
\<close>

theorem receipt_failure_atomic:
  assumes "clean s" and "post_receipt env visit i payloads at_time ref nts number s = (Inl err, t)"
  shows "s_committed t = s_committed s \<and> s_working t = s_committed s \<and> s_pending t = []"
  using receipt_call.failure_unchanged [OF assms] by (simp add: clean_def)

end
