(* ===== verification/Proc_Examples.thy ===== *)
theory Proc_Examples
  imports App_Properties Proc_Failures Inv_Examples
begin

text \<open>
  One run of procurement: a requisition for two boxes of bolts, two orders that both source it
  in full while both are drafts, the approval of the first, a partial receipt, and the approval
  of the second, which fails. The procurement properties applied to the states of this run.
\<close>

section \<open>The users and the tables\<close>

definition procurement_user :: "string \<Rightarrow> string list \<Rightarrow> inv_env" where
  "procurement_user name codes =
     example_env\<lparr>e_user := Some \<lparr>us_principal = Some (example_principal\<lparr>p_user_id := name, p_username := name,
        permissions := set codes\<rparr>), us_validator = None\<rparr>\<rparr>"

definition buyer :: inv_env where
  "buyer = procurement_user ''buyer'' [''inventory.read'', ''inventory.manage'', ''site.read'', ''party.read'', ''approval.request'']"

definition approver :: inv_env where
  "approver = procurement_user ''chief'' [''approval.decide'']"

definition procurement_start :: inv_op_state where
  "procurement_start = example_state
     (example_db\<lparr>db_documents := no_documents\<lparr>
        dc_sites := [\<lparr>site_id = ''site'', site_organization_id = ''org'', site_is_active = True, site_currency_code = ''EUR''\<rparr>],
        dc_parties := [\<lparr>party_id = ''acme'', party_organization_id = ''org'', party_is_active = True, party_type = ''SUPPLIER''\<rparr>]\<rparr>\<rparr>) [] 0"

section \<open>The run\<close>

definition example_requisition_made :: inv_op_state where
  "example_requisition_made =
     snd (create_requisition buyer ''site'' ''main'' ''spares'' None [] [] [] [] (Some ''REQ-1'') procurement_start)"

definition example_requisition_lined :: inv_op_state where
  "example_requisition_lined =
     snd (add_requisition_line buyer ''a-b'' ''bolt'' (Some 2) (Some ''BOX'') [] None None None [] example_requisition_made)"

definition example_requisition_submitted :: inv_op_state where
  "example_requisition_submitted = snd (submit_requisition buyer ''a-b'' example_requisition_lined)"

definition example_requisition_approved :: inv_op_state where
  "example_requisition_approved =
     snd (approve_and_apply approver (procurement_apply_handlers approver (\<lambda>ids. ids)) ''c-b'' None example_requisition_submitted)"

definition example_order_made :: inv_op_state where
  "example_order_made =
     snd (create_purchase_order buyer ''site'' ''acme'' None (Some ''a-b'') None None [] [] (Some ''PO-1'') example_requisition_approved)"

definition example_order_lined :: inv_op_state where
  "example_order_lined =
     snd (add_purchase_order_line buyer ''d-b'' ''bolt'' ''main'' (Some 2) (Some ''BOX'') (Some 40) None [] (Some ''b-b'') [] example_order_made)"

definition example_second_made :: inv_op_state where
  "example_second_made =
     snd (create_purchase_order buyer ''site'' ''acme'' None (Some ''a-b'') None None [] [] (Some ''PO-2'') example_order_lined)"

definition example_second_lined :: inv_op_state where
  "example_second_lined =
     snd (add_purchase_order_line buyer ''f-b'' ''bolt'' ''main'' (Some 2) (Some ''BOX'') (Some 40) None [] (Some ''b-b'') [] example_second_made)"

definition example_order_submitted :: inv_op_state where
  "example_order_submitted = snd (submit_purchase_order buyer ''d-b'' example_second_lined)"

definition example_second_submitted :: inv_op_state where
  "example_second_submitted = snd (submit_purchase_order buyer ''f-b'' example_order_submitted)"

definition example_order_approved :: inv_op_state where
  "example_order_approved =
     snd (approve_and_apply approver (procurement_apply_handlers approver (\<lambda>ids. ids)) ''h-b'' None example_second_submitted)"

lemma example_start_good: "clean procurement_start" "documents_ok (db_documents (s_committed procurement_start))"
  by (simp_all add: clean_def procurement_start_def example_state_def documents_ok_def no_documents_def)

lemma example_procurement_steps:
  "procurement_step procurement_start example_requisition_made" "procurement_step example_requisition_made example_requisition_lined"
  "procurement_step example_requisition_lined example_requisition_submitted"
  "procurement_step example_requisition_submitted example_requisition_approved"
  "procurement_step example_requisition_approved example_order_made" "procurement_step example_order_made example_order_lined"
  "procurement_step example_order_lined example_second_made" "procurement_step example_second_made example_second_lined"
  "procurement_step example_second_lined example_order_submitted" "procurement_step example_order_submitted example_second_submitted"
  "procurement_step example_second_submitted example_order_approved"
  unfolding example_requisition_made_def example_requisition_lined_def example_requisition_submitted_def example_requisition_approved_def
    example_order_made_def example_order_lined_def example_second_made_def example_second_lined_def example_order_submitted_def
    example_second_submitted_def example_order_approved_def
  by (rule procurement_step.intros, rule surjective_pairing)+

lemma example_run: "app_step\<^sup>*\<^sup>* procurement_start example_order_approved"
  by (rule procurement_runs) ((rule converse_rtranclp_into_rtranclp, rule example_procurement_steps)+, rule rtranclp.rtrancl_refl)

lemma example_run_lines:
  "map (\<lambda>l. (quantity_requested l, quantity_sourced l)) (dc_requisition_lines (db_documents (s_committed example_order_approved))) = [(2, 2)]"
  by code_simp

lemma example_approval_fails:
  "fst (approve_and_apply approver (procurement_apply_handlers approver (\<lambda>ids. ids)) ''i-b'' None example_order_approved) =
     Inl (ValidationError ''INVENTORY_REQUISITION_LINE_OVERSOURCED'')"
  by code_simp

section \<open>A receipt\<close>

text \<open>An approved order of two boxes, the decided request behind it, and a delivery.\<close>

definition awaiting_delivery :: inv_op_state where
  "awaiting_delivery = example_state
     (example_db\<lparr>
        db_balances := [(create_balance ''bal'' 900 ''org'' ''bolt'' ''main'' ''EA'')\<lparr>on_order_qty := 20\<rparr>],
        db_documents := (db_documents (s_committed procurement_start))\<lparr>
          dc_orders := [(create_order_row ''po'' 900 ''org'' ''PO-1'' ''site'' ''acme'' ''EUR'' None None None [] [])
            \<lparr>po_status := PO_APPROVED, po_approval_request_id := Some ''ap''\<rparr>],
          dc_order_lines := [(create_order_line ''pl'' ''po'' 1 ''bolt'' ''main'' ''Bolt'' 2 ''BOX'' 40 None None [])
            \<lparr>pl_status := PL_OPEN\<rparr>],
          dc_approvals := [decide approver AP_APPROVED None
            (create_approval ''ap'' 900 ''purchase_order.submit'' ''purchase_order'' ''po'' None NoPayload (Some ''buyer'') (Some ''buyer''))]\<rparr>\<rparr>) [] 0"

definition example_delivery :: "rat \<Rightarrow> receipt_payload" where
  "example_delivery q =
     \<lparr>pay_line_id = ''pl'', pay_accepted = Some q, pay_rejected = Some 0, pay_unit_cost = None, pay_lot_number = [],
      pay_serial_number = [], pay_expiry_date = None, pay_notes = []\<rparr>"

definition example_received :: inv_op_state where
  "example_received =
     snd (post_receipt buyer (\<lambda>ids. ids) ''po'' [example_delivery 1] None [] [] (Some ''GR-1'') awaiting_delivery)"

lemma awaiting_delivery_good: "clean awaiting_delivery" "documents_ok (db_documents (s_committed awaiting_delivery))"
proof -
  show "clean awaiting_delivery" by (simp add: clean_def awaiting_delivery_def example_state_def)
  show "documents_ok (db_documents (s_committed awaiting_delivery))"
    by (simp add: documents_ok_def order_line_ok_def approval_ok_def awaiting_delivery_def example_state_def procurement_start_def
        no_documents_def create_order_line_def create_approval_def decide_def principal_of_def approver_def procurement_user_def)
qed

lemma example_receipt_run: "app_step\<^sup>*\<^sup>* awaiting_delivery example_received"
  unfolding example_received_def
  by (rule r_into_rtranclp, rule app_step.lasting, rule lasting_step.procurement, rule procurement_step.receipt, rule surjective_pairing)

lemma awaiting_delivery_documents:
  "map_option po_status (get_order_row ''po'' (db_documents (s_committed awaiting_delivery))) = Some PO_APPROVED"
  "map_option ap_status (get_approval ''ap'' (db_documents (s_committed awaiting_delivery))) = Some AP_APPROVED"
  by code_simp+

lemma example_received_documents:
  "map_option po_status (get_order_row ''po'' (db_documents (s_committed example_received))) = Some PO_PARTIALLY_RECEIVED"
  by code_simp

lemma example_receipt_fails:
  "fst (post_receipt buyer (\<lambda>ids. ids) ''po'' [example_delivery 1, example_delivery 3] None [] [] (Some ''GR-1'') awaiting_delivery) =
     Inl (ValidationError ''INVENTORY_RECEIPT_EXCEEDS_OPEN_QTY'')"
  by code_simp

section \<open>The properties at work\<close>

theorem procurement_lines_accounted_witness:
  "map (\<lambda>l. (quantity_requested l, quantity_sourced l)) (dc_requisition_lines (db_documents (s_committed example_order_approved))) = [(2, 2)] \<and>
   list_all (\<lambda>l. quantity_sourced l \<le> quantity_requested l) (dc_requisition_lines (db_documents (s_committed example_order_approved)))"
  using procurement_lines_accounted [OF example_start_good example_run] example_run_lines by (simp add: list_all_iff)

theorem documents_follow_machines_witness: "order_move\<^sup>*\<^sup>* PO_APPROVED PO_PARTIALLY_RECEIVED"
proof -
  obtain r r' where r: "get_order_row ''po'' (db_documents (s_committed awaiting_delivery)) = Some r" "po_status r = PO_APPROVED"
    and r': "get_order_row ''po'' (db_documents (s_committed example_received)) = Some r'" "po_status r' = PO_PARTIALLY_RECEIVED"
    using awaiting_delivery_documents(1) example_received_documents by auto
  from documents_follow_machines [OF awaiting_delivery_good example_receipt_run] r(1)
  have "\<exists>r'. get_order_row ''po'' (db_documents (s_committed example_received)) = Some r' \<and> order_move\<^sup>*\<^sup>* (po_status r) (po_status r')"
    by blast
  with r r' show ?thesis by simp
qed

theorem decisions_final_and_by_another_witness:
  "\<exists>q. get_approval ''ap'' (db_documents (s_committed awaiting_delivery)) = Some q \<and> ap_status q = AP_APPROVED \<and>
     get_approval ''ap'' (db_documents (s_committed example_received)) = Some q"
proof -
  obtain q where q: "get_approval ''ap'' (db_documents (s_committed awaiting_delivery)) = Some q" "ap_status q = AP_APPROVED"
    using awaiting_delivery_documents(2) by auto
  with decisions_final_and_by_another [OF awaiting_delivery_good example_receipt_run] have
    "get_approval ''ap'' (db_documents (s_committed example_received)) = Some q"
    by simp
  with q show ?thesis by blast
qed

theorem failed_approval_left_open_witness:
  "\<exists>t q r. t = snd (approve_and_apply approver (procurement_apply_handlers approver (\<lambda>ids. ids)) ''i-b'' None example_order_approved) \<and>
     get_approval ''i-b'' (db_documents (s_working t)) = Some q \<and> ap_status q = AP_PENDING \<and>
     get_order_row (ap_entity_id q) (db_documents (s_working t)) = Some r \<and> po_status r = PO_APPROVED"
proof -
  let ?call = "approve_and_apply approver (procurement_apply_handlers approver (\<lambda>ids. ids)) ''i-b'' None example_order_approved"
  have "?call = (Inl (ValidationError ''INVENTORY_REQUISITION_LINE_OVERSOURCED''), snd ?call)"
    using example_approval_fails by (simp add: prod_eq_iff)
  from failed_approval_left_open [OF this] show ?thesis by blast
qed

theorem receipt_failure_atomic_witness:
  "s_working (snd (post_receipt buyer (\<lambda>ids. ids) ''po'' [example_delivery 1, example_delivery 3] None [] [] (Some ''GR-1'')
      awaiting_delivery)) = s_committed awaiting_delivery"
proof -
  let ?call = "post_receipt buyer (\<lambda>ids. ids) ''po'' [example_delivery 1, example_delivery 3] None [] [] (Some ''GR-1'') awaiting_delivery"
  have "?call = (Inl (ValidationError ''INVENTORY_RECEIPT_EXCEEDS_OPEN_QTY''), snd ?call)"
    using example_receipt_fails by (simp add: prod_eq_iff)
  from receipt_failure_atomic [OF awaiting_delivery_good(1) this] show ?thesis by blast
qed

end
