(* ===== verification/Task_Properties.thy ===== *)
theory Task_Properties
  imports Task_Keeps Proc_Failures
begin

text \<open>
  The preview of the diagnostics computes the schedule of the engine; what a failing operation
  of the task service leaves behind; the rows of tasks keep their ranges.
\<close>

section \<open>The preview\<close>

lemma preview_candidates:
  "preview_milestone_candidate e es ef = milestone_candidate e es ef"
  "0 < n \<Longrightarrow> preview_duration_candidate e n es ef = duration_candidate e n es ef"
  by (intro ext, simp add: preview_milestone_candidate_def milestone_candidate_def Let_def split: option.split dependency_type.split,
      intro ext, simp add: preview_duration_candidate_def duration_candidate_def start_for_finish_def Let_def
        split: option.split dependency_type.split)

lemma preview_milestone_eq: "preview_dates_milestone e t incoming es ef = compute_dates_milestone e t incoming es ef"
  by (cases "t_start_date t") (simp_all add: preview_dates_milestone_def compute_dates_milestone_def preview_candidates Let_def cong: if_cong)

lemma preview_duration_eq:
  "0 < n \<Longrightarrow> preview_dates_with_duration e t incoming es ef n = compute_dates_with_duration e t incoming es ef n"
  by (cases "t_start_date t") (simp_all add: preview_dates_with_duration_def compute_dates_with_duration_def preview_candidates
      dates_from_start_def Let_def cong: if_cong)

lemma preview_actual_eq: "preview_actual_constraints e t est eft n = apply_actual_constraints e t est eft n"
  by (auto simp: preview_actual_constraints_def apply_actual_constraints_def start_for_finish_def split: option.split)

lemma preview_dates_eq: "compute_task_dates_for_preview e = compute_task_dates e"
  by (intro ext) (simp add: compute_task_dates_for_preview_def compute_task_dates_def compute_task_dates_common_def
      preview_milestone_eq preview_duration_eq preview_actual_eq Let_def)

text \<open>
  C30: The preview agrees with the engine: for the tasks of a project the diagnostics' own copy
  of the date computation gives the schedule the engine computes, or the same exception.
\<close>

theorem preview_agrees:
  "simulate_schedule e tasks deps = compute_schedule e priority_value (compute_task_dates e) (dict_of t_id tasks) deps"
  by (simp add: simulate_schedule_def preview_dates_eq priority_value_preview_eq)

section \<open>A dependency whose schedule fails\<close>

text \<open>A session between two calls whose dependencies are known.\<close>

definition stored_dependencies :: "task_dependency list \<Rightarrow> inv_op_state \<Rightarrow> bool" where
  "stored_dependencies deps s \<longleftrightarrow> clean s \<and> pt_dependencies (db_project (s_committed s)) = deps"

lemma neutral_stored: "neutral m \<Longrightarrow> m s = (r, t) \<Longrightarrow> stored_dependencies deps s \<Longrightarrow> stored_dependencies deps t"
  using neutralD [of m s r t] by (simp add: stored_dependencies_def clean_def)

lemma fails_neutral:
  assumes "neutral m" "never err m" "\<And>x. fails (stored_dependencies deps) (f x) err E"
  shows "fails (stored_dependencies deps) (obind m f) err E"
  by (rule fails_step [OF assms(2)], rule fails_weaken [OF assms(3)]) (use neutral_stored [OF assms(1)] in blast)+

lemma fails_try: "fails A m err E \<Longrightarrow> (\<And>t. E t \<Longrightarrow> E' (t\<lparr>s_working := s_committed t, s_pending := []\<rparr>)) \<Longrightarrow> fails A (try_rollback m) err E'"
  unfolding fails_def try_rollback_Inl by blast

lemma never_try: "never err m \<Longrightarrow> never err (try_rollback m)"
  by (auto simp: never_def try_rollback_Inl)

lemma never_session_schedule:
  assumes "err \<in> schedule_failures"
  shows "never err (commit inv_insert)" "never err (record_audit inv_insert a ety i)" "never err (session_flush inv_insert)"
  using assms unfolding never_def record_audit_def by (auto simp: obind_Inl dest!: flush_integrity split: if_splits)

lemma never_pt [never_intros]: "never err (pt_get g)" "(\<And>d. f d \<noteq> Inl err) \<Longrightarrow> never err (pt_update f)" "never err (pt_add r)"
  unfolding pt_get_def pt_add_def by (rule never_intros)+ (auto simp: never_def pt_update_def split: sum.splits)

lemma never_before_schedule:
  assumes "err \<in> schedule_failures"
  shows "never err (require_perm env code)" "never err (require_project_permission tenv pid code)" "never err (existing_task i)"
    "never err (update_task_row t)" "never err (get_dependency_diagnostics tenv pr su ty lag False)"
    "never err (request_change env rt et eid project payload now)"
proof -
  have perm: "never err (require_perm env code)" for code
    using assms unfolding require_perm_def require_permission_def by (auto intro!: never_intros split: prod.splits)
  show "never err (require_perm env code)" by (rule perm)
  show "never err (require_project_permission tenv pid code)"
    using assms unfolding require_project_permission_def require_scope_perm_def require_scope_permission_def
    by (auto intro!: never_intros split: prod.splits)
  show "never err (existing_task i)"
    unfolding existing_task_def by (intro never_intros) (use assms in auto)
  show "never err (update_task_row t)"
    unfolding update_task_row_def
    by (intro never_intros) (use assms in \<open>auto simp: rbind_Inl_iff update_with_version_check_def split: option.splits if_splits\<close>)
  show "never err (get_dependency_diagnostics tenv pr su ty lag False)"
    unfolding get_dependency_diagnostics_def guarded_def if_False not_False_eq_True if_True
    by (intro never_intros) (use assms in auto)
  show "never err (request_change env rt et eid project payload now)"
    unfolding request_change_def record_governance_audit_def Let_def
    by (intro never_intros perm never_session_schedule assms) (use assms in auto)
qed

text \<open>
  The recalculation raises before it writes, if it raises one of the two exceptions of a schedule.
\<close>

lemma recalculate_fails_early:
  assumes "err \<in> schedule_failures"
  shows "fails (stored_dependencies deps) (recalculate_project_schedule env pid persist) err (stored_dependencies deps)"
proof -
  have store: "never err (try_rollback (committing inv_insert (ofor store_task result)))" for result
    by (rule never_try, unfold committing_def store_task_def) (intro never_intros never_session_schedule never_before_schedule assms)
  have "fails (stored_dependencies deps) (olift computed) err (stored_dependencies deps)"
    for computed :: "(string, cpm_task_info) dict result" by (simp add: fails_def)
  then show ?thesis
    unfolding recalculate_project_schedule_def
    by (intro fails_neutral fails_before call_intros never_intros store)
qed

lemma sync_fails_early:
  assumes "err \<in> schedule_failures"
  shows "fails (stored_dependencies deps) (sync_project_schedule env pid) err (stored_dependencies deps)"
proof (cases "pid = None \<or> pid = Some []")
  case True
  then show ?thesis unfolding sync_project_schedule_def by (auto intro!: fails_never never_simple)
next
  case False
  then obtain p where "pid = Some p" "p \<noteq> []" by auto
  then show ?thesis
    using fails_before [OF recalculate_fails_early [OF assms] never_simple(1)] by (simp add: sync_project_schedule_def)
qed

text \<open>The codes of the checks are none of the schedule's exceptions.\<close>

lemma diagnosed_code:
  assumes "get_dependency_diagnostics env p su ty lag False s = (Inr diagnostic, t)" "\<not> dg_is_valid diagnostic"
  shows "dg_code diagnostic \<noteq> ''ValidationError''"
  using assms unfolding get_dependency_diagnostics_def guarded_def pt_get_def
  by (auto simp: invalid_diagnostic_def valid_diagnostic_def dependency_problem_def Let_def split: option.splits if_splits)

lemma fails_diagnosed:
  assumes "err \<in> schedule_failures" "fails (stored_dependencies deps) (f ()) err E"
  shows "fails (stored_dependencies deps) (obind (get_dependency_diagnostics env p su ty lag False) (\<lambda>diagnostic.
      obind (oguard (\<not> dg_is_valid diagnostic) (diagnostic_error (dg_code diagnostic))) f)) err E"
  unfolding fails_def
proof (intro allI impI)
  fix s t
  assume s: "stored_dependencies deps s" and run: "obind (get_dependency_diagnostics env p su ty lag False) (\<lambda>diagnostic.
      obind (oguard (\<not> dg_is_valid diagnostic) (diagnostic_error (dg_code diagnostic))) f) s = (Inl err, t)"
  then obtain diagnostic u where u: "get_dependency_diagnostics env p su ty lag False s = (Inr diagnostic, u)"
      "obind (oguard (\<not> dg_is_valid diagnostic) (diagnostic_error (dg_code diagnostic))) f u = (Inl err, t)"
    using neverD [OF never_before_schedule(5) [OF assms(1)]] unfolding obind_Inl by blast
  have "diagnostic_error (dg_code diagnostic) \<noteq> err" if "\<not> dg_is_valid diagnostic"
    using diagnosed_code [OF u(1) that] assms(1) by (auto simp: diagnostic_error_def split: if_splits)
  then have "f () u = (Inl err, t)" using u(2) by (auto simp: obind_Inl)
  moreover have "stored_dependencies deps u" by (rule neutral_stored [OF neutral_diagnostics u(1) s])
  ultimately show "E t" using failsD [OF assms(2)] by blast
qed

lemma dependency_committed:
  assumes "stored_dependencies deps s" "pt_add (DependencyRow x) s = (Inr u1, s1)" "commit inv_insert s1 = (Inr u2, s2)"
  shows "stored_dependencies (deps @ [x]) s2"
  using assms by (auto simp: stored_dependencies_def clean_def pt_add_def split: if_splits)

lemma fails_if: "fails A a err E \<Longrightarrow> fails A b err E \<Longrightarrow> fails A (if c then a else b) err E"
  by simp

lemma added_dependency_fails:
  assumes "err \<in> schedule_failures"
  shows "fails (stored_dependencies deps) (try_rollback (
      obind (pt_add (DependencyRow x)) (\<lambda>_.
      obind (commit inv_insert) (\<lambda>_.
      obind (sync_project_schedule env pid) (\<lambda>_.
      record_audit inv_insert a ty i))))) err (stored_dependencies (deps @ [x]))"
proof (rule fails_try, rule fails_step, rule never_intros, rule fails_step, rule never_session_schedule [OF assms])
  fix u1 u2
  have "fails (stored_dependencies (deps @ [x])) (obind (sync_project_schedule env pid) (\<lambda>_. record_audit inv_insert a ty i)) err
      (stored_dependencies (deps @ [x]))"
    by (rule fails_before [OF sync_fails_early [OF assms] never_session_schedule(2) [OF assms]])
  then show "fails (\<lambda>s2. \<exists>s1. (\<exists>s. stored_dependencies deps s \<and> pt_add (DependencyRow x) s = (Inr u1, s1)) \<and> commit inv_insert s1 = (Inr u2, s2))
      (obind (sync_project_schedule env pid) (\<lambda>_. record_audit inv_insert a ty i)) err (stored_dependencies (deps @ [x]))"
    by (rule fails_weaken) (use dependency_committed in blast)+
qed (simp add: stored_dependencies_def clean_def)

text \<open>
  C31: A dependency stays although its call raised: \<open>add_dependency\<close> commits the
  dependency before it recalculates the schedule. When it raises one of the two exceptions of a
  schedule computation, the new dependency is in the committed table, and the rollback of the
  \<open>except\<close> clause does not take it away.
\<close>

theorem failed_schedule_keeps_dependency:
  assumes "clean s" and "add_dependency env p su ty lag bypass s = (Inl err, t)" and "err \<in> {ValidationErr, OverflowError}"
  shows "\<exists>x. predecessor_task_id x = p \<and> successor_task_id x = su \<and> dependency_type x = ty \<and> lag_days x = lag \<and>
    clean t \<and> pt_dependencies (db_project (s_committed t)) = pt_dependencies (db_project (s_committed s)) @ [x]"
proof -
  let ?deps = "pt_dependencies (db_project (s_committed s))"
  let ?E = "\<lambda>t. \<exists>x. stored_dependencies (?deps @ [x]) t \<and> predecessor_task_id x = p \<and> successor_task_id x = su \<and>
    dependency_type x = ty \<and> lag_days x = lag"
  have err: "err \<in> schedule_failures" using assms(3) by simp
  note early = never_before_schedule [OF err]
  have module: "BusinessRuleError ''MODULE_DISABLED'' \<noteq> err" and filed: "BusinessRuleError ''APPROVAL_REQUIRED'' \<noteq> err"
    using assms(3) by auto
  have start: "stored_dependencies ?deps s" using assms(1) by (simp add: stored_dependencies_def)
  have "fails (stored_dependencies ?deps) (add_dependency env p su ty lag bypass) err ?E"
    unfolding add_dependency_def guarded_def Let_def
    by (rule fails_neutral, rule call_intros, rule never_intros, rule module, rule fails_neutral, rule call_intros, rule early,
        rule fails_neutral, rule call_intros, rule early, rule fails_neutral, rule call_intros, rule early,
        rule fails_neutral, rule call_intros, rule early, rule fails_diagnosed, rule err, rule fails_if,
        rule fails_never, rule never_intros, rule early, rule never_intros, rule filed,
        rule fails_neutral, rule call_intros, rule never_intros, rule fails_before, rule fails_weaken, rule added_dependency_fails,
        rule err, assumption, rule exI, rule conjI, assumption, simp, intro never_intros)
  from failsD [OF this start assms(2)] show ?thesis by (auto simp: stored_dependencies_def)
qed

end
