(* ===== verification/Task_Typed.thy ===== *)
theory Task_Typed
  imports App_Runs
begin

text \<open>
  The rows of tasks keep their types: a name of at least three characters without reserved ones,
  a progress between 0 and 100 percent, a duration that is not negative. Every operation of the
  services keeps this, including the recalculation of the schedule.
\<close>

definition typed_task :: "task \<Rightarrow> bool" where
  "typed_task t \<longleftrightarrow> validate_task_name (t_name t) = Inr () \<and> 0 \<le> t_percent_complete t \<and> t_percent_complete t \<le> 100 \<and>
     (\<forall>n. t_duration_days t = Some n \<longrightarrow> 0 \<le> n)"

definition typed_tasks :: "inv_db \<Rightarrow> bool" where
  "typed_tasks w \<longleftrightarrow> (\<forall>t \<in> set (pt_tasks (db_project w)). typed_task t)"

fun typed_row :: "inv_row \<Rightarrow> bool" where
  "typed_row (ProjectRow (TaskRow t)) = typed_task t"
| "typed_row _ = True"

abbreviation typed_state :: "(inv_db, inv_row) session \<Rightarrow> bool" where
  "typed_state \<equiv> tables typed_tasks typed_row"

lemma inserted_keeps_types:
  assumes "typed_row r" "typed_tasks db" "inv_insert r db = Inr db'"
  shows "typed_tasks db'"
proof (cases r)
  case (ProjectRow x)
  then show ?thesis using assms by (cases x) (auto simp: typed_tasks_def split: if_splits)
qed (use assms in \<open>auto simp: typed_tasks_def split: if_splits\<close>)

interpretation types: foreign_tables typed_tasks typed_row
  by unfold_locales (use inserted_keeps_types in \<open>simp_all add: typed_tasks_def\<close>)

section \<open>The changes of a task\<close>

lemma with_planned_end_typed: "with_planned_end e t = Inr t' \<Longrightarrow> typed_task t' = typed_task t"
  by (auto simp: with_planned_end_def typed_task_def split: option.splits)

lemma set_py_strip: "set (py_strip s) \<subseteq> set s"
  unfolding py_strip_def by (auto dest!: set_dropWhileD)

lemma validate_stripped: "validate_task_name n = Inr () \<Longrightarrow> validate_task_name (py_strip n) = Inr ()"
  using set_py_strip [of n] by (auto simp: validate_task_name_def list_ex_iff)

lemma with_status_typed: "typed_task t \<Longrightarrow> typed_task (with_status st t)"
  by (auto simp: typed_task_def with_status_def Let_def)

lemma with_progress_typed: "typed_task t \<Longrightarrow> 0 \<le> p \<Longrightarrow> p \<le> 100 \<Longrightarrow> typed_task (with_progress p t)"
  by (auto simp: typed_task_def with_progress_def Let_def)

lemma given_typed: "(\<And>x u. typed_task u \<Longrightarrow> v = Some x \<Longrightarrow> typed_task (f x u)) \<Longrightarrow> typed_task t \<Longrightarrow> typed_task (given v f t)"
  by (simp add: given_def split: option.split)

lemma changed_task_typed:
  assumes "changed_task e c t = Inr t'" "typed_task t"
  shows "typed_task t'"
proof -
  let ?t2 = "given (ch_description c) (\<lambda>x t. t\<lparr>t_description := py_strip x\<rparr>) (given (ch_name c) (\<lambda>n t. t\<lparr>t_name := py_strip n\<rparr>) t)"
  let ?t4 = "given (ch_duration_days c) (\<lambda>n t. t\<lparr>t_duration_days := Some n\<rparr>)
    (given (ch_start_date c) (\<lambda>x t. t\<lparr>t_start_date := Some x\<rparr>) ?t2)"
  obtain t5 where t5: "with_planned_end e ?t4 = Inr t5"
      "t' = given (ch_deadline c) (\<lambda>x t. t\<lparr>t_deadline := Some x\<rparr>) (given (ch_priority c) (\<lambda>x t. t\<lparr>t_priority := IntPriority x\<rparr>)
        (given (ch_status c) (\<lambda>x t. t\<lparr>t_status := x\<rparr>) t5))"
    and name: "\<forall>n. ch_name c = Some n \<longrightarrow> validate_task_name n = Inr ()"
    and duration: "\<forall>n. ch_duration_days c = Some n \<longrightarrow> 0 \<le> n"
    using assms(1) by (auto simp: changed_task_def Let_def split: option.splits)
  have "typed_task ?t2"
    by (intro given_typed assms(2)) (use name validate_stripped in \<open>auto simp: typed_task_def\<close>)
  then have "typed_task ?t4"
    by (rule given_typed [OF _ given_typed, rotated 2]) (use duration in \<open>auto simp: typed_task_def\<close>)
  then have "typed_task t5" using with_planned_end_typed [OF t5(1)] by simp
  then show ?thesis
    unfolding t5(2) by (intro given_typed) (auto simp: typed_task_def)
qed

lemma progressed_task_typed:
  assumes "progressed_task p a b st t = Inr t'" "typed_task t"
  shows "typed_task t'"
proof -
  have t': "t' = given st (\<lambda>x t. t\<lparr>t_status := x\<rparr>) (given b (\<lambda>x t. t\<lparr>t_actual_end := Some x\<rparr>)
      (given a (\<lambda>x t. t\<lparr>t_actual_start := Some x\<rparr>) (given p with_progress t)))"
    and percent: "\<forall>x. p = Some x \<longrightarrow> 0 \<le> x \<and> x \<le> 100"
    using assms(1) by (auto simp: progressed_task_def Let_def split: option.splits)
  show ?thesis
    unfolding t' by (intro given_typed assms(2)) (use percent with_progress_typed in \<open>auto simp: typed_task_def\<close>)
qed

section \<open>Every call\<close>

lemma update_task_row_types: "typed_task t \<Longrightarrow> preserves typed_state (update_task_row t)"
proof -
  assume t: "typed_task t"
  have "preserves typed_state (pt_update (\<lambda>d.
      rbind (update_with_version_check t_id t_version (\<lambda>v r. r\<lparr>t_version := v\<rparr>) t (pt_tasks d)) (\<lambda>rows. Inr (d\<lparr>pt_tasks := rows\<rparr>))))"
    unfolding preserves_def pt_update_def
    by (auto simp: tables_def typed_tasks_def update_with_version_check_def replace_row_def rbind_Inl_iff typed_task_def t [unfolded typed_task_def]
        split: sum.splits option.splits if_splits)
  then show ?thesis unfolding update_task_row_def by (intro preserve_intros)
qed

lemmas task_reads_keep_types [preserve_intros] =
  neutral_guards(1) [THEN types.reads_keep] neutral_task_reads [THEN types.reads_keep] neutral_pt_get [THEN types.reads_keep]

lemma save_task_types: "typed_task t \<Longrightarrow> preserves typed_state (save_task action t)"
  unfolding save_task_def by (intro preserve_intros update_task_row_types types.session_keeps)

lemma manage_typed_task:
  assumes "\<And>t. typed_task t \<Longrightarrow> preserves typed_state (f t)"
  shows "preserves typed_state (obind (manage_task env missing i) f)"
proof (rule yields_preserves, rule yields_bind [where Q = typed_task])
  have neutral: "neutral (manage_task env missing i)" unfolding manage_task_def by (intro call_intros)
  have "typed_task t" if "typed_state s" "manage_task env missing i s = (Inr t, u)" for s t u
  proof -
    have "get_task_row i (db_project (s_working s)) = Some t" by (rule managed_task [OF that(2)])
    then show ?thesis using that(1) by (auto simp: tables_def typed_tasks_def get_task_row_def dest: find_row_Some)
  qed
  then show "yields typed_state (manage_task env missing i) typed_task"
    using preservesD [OF types.reads_keep [OF neutral]] by (fastforce intro: yieldsI)
  show "yields typed_state (f t) (\<lambda>_. True)" if "typed_task t" for t
    by (rule preserves_yields, rule assms, rule that)
qed

lemma preserves_lift: "(\<And>x. r = Inr x \<Longrightarrow> preserves I (f x)) \<Longrightarrow> preserves I (obind (olift r) f)"
  by (cases r) (auto simp: preserves_def obind_def olift_def)

lemma created_task_typed:
  assumes "validate_task_name name = Inr ()" "validate_dates start deadline n = Inr ()"
    and "with_planned_end e (create_task_row i pid name desc start n st prio deadline) = Inr t"
  shows "typed_task t"
proof -
  have "\<forall>k. n = Some k \<longrightarrow> 0 \<le> k" using assms(2) by (auto simp: validate_dates_def split: option.splits)
  then show ?thesis
    using assms(1) with_planned_end_typed [OF assms(3)] by (simp add: typed_task_def create_task_row_def)
qed

lemma task_calls_types:
  "preserves typed_state (set_status env i st)" "preserves typed_state (update_task env i c v)"
  "preserves typed_state (update_progress env i p a b st' v)" "preserves typed_state (delete_task env i)"
  "preserves typed_state (create_task env pid name desc start n st prio deadline)"
proof -
  show "preserves typed_state (set_status env i st)"
    unfolding set_status_def by (intro preserves_guarded manage_typed_task preserve_intros save_task_types with_status_typed)
  show "preserves typed_state (update_task env i c v)"
    unfolding update_task_def
    by (intro preserves_guarded manage_typed_task preserves_lift preserves_bind task_reads_keep_types save_task_types)
      (erule changed_task_typed)
  show "preserves typed_state (update_progress env i p a b st' v)"
    unfolding update_progress_def
    by (intro preserves_guarded manage_typed_task preserves_lift preserves_bind task_reads_keep_types save_task_types)
      (erule progressed_task_typed)
  have delete: "preserves typed_state (pt_update (\<lambda>d. Inr (delete_task_rows pid i d)))" for pid
    unfolding preserves_def pt_update_def by (auto simp: tables_def typed_tasks_def deleted_task_tables)
  show "preserves typed_state (delete_task env i)"
    unfolding delete_task_def
    by (intro preserves_guarded manage_typed_task) (intro preserve_intros types.session_keeps delete)
  have add: "typed_task t \<Longrightarrow> preserves typed_state (pt_add (TaskRow t))" for t
    unfolding pt_add_def by (rule preserves_add) simp
  show "preserves typed_state (create_task env pid name desc start n st prio deadline)"
    unfolding create_task_def
    by (intro preserves_guarded preserves_lift preserves_bind task_reads_keep_types preserves_try preserves_tables_simple add
        created_task_typed types.session_keeps preserves_simple) simp_all
qed

text \<open>The recalculation writes the rows it has read, with other dates.\<close>

lemma set_dict_update: "set (AList.update k v d) \<subseteq> insert (k, v) (set d)"
  by (induction d) auto

lemma set_dict_of: "snd ` set (dict_of key xs) \<subseteq> set xs"
proof -
  have "snd ` set (fold (\<lambda>x. AList.update (key x) x) xs d) \<subseteq> set xs \<union> snd ` set d" for d
  proof (induction xs arbitrary: d)
    case (Cons x xs)
    have "snd ` set (AList.update (key x) x d) \<subseteq> insert x (snd ` set d)"
      using set_dict_update [of "key x" x d] by auto
    then show ?case using Cons.IH [of "AList.update (key x) x d"] by (simp, blast)
  qed simp
  from this [of "[]"] show ?thesis by (simp add: dict_of_def)
qed

lemma scheduled_tasks_typed:
  assumes "\<forall>t \<in> set (pt_tasks d). typed_task t" "project_schedule e pid d = Inr result" "entry \<in> set result"
  shows "typed_task (ci_task (snd entry))"
proof -
  let ?tasks = "list_tasks_by_project pid d"
  obtain k t es ef ls lf where t: "(k, t) \<in> set (dict_of t_id ?tasks)" "task_info e es ef ls lf (k, t) = Inr entry"
    using assms(2,3) by (auto simp: project_schedule_def Let_def compute_schedule_def build_schedule_result_def rmap_Inr_set split: if_splits)
  then have "t \<in> set (pt_tasks d)"
    using set_dict_of [of t_id ?tasks] by (force simp: list_tasks_by_project_def)
  moreover have "ci_task (snd entry) = schedule_task t (es k) (ef k)"
    using t(2) by (auto simp: task_info_def)
  ultimately show ?thesis using assms(1) by (auto simp: typed_task_def schedule_task_def Let_def)
qed

lemma recalculate_types: "preserves typed_state (recalculate_project_schedule env pid persist)"
  unfolding recalculate_project_schedule_def
proof (rule keepsI, rule held_pt_get, rule held_rows, rule held_lift)
  fix computed result
  let ?A = "\<lambda>w. (True \<and> computed = project_schedule (pe_calendar env) pid (db_project w)) \<and> typed_tasks w"
  assume computed: "computed = Inr result"
  have keep: "preserves typed_state (if result = [] \<or> \<not> persist then oret result
      else obind (try_rollback (committing inv_insert (ofor store_task result))) (\<lambda>_. oret (rows result)))"
    if typed: "\<forall>entry \<in> set result. typed_task (ci_task (snd entry))" for rows
  proof -
    have store: "preserves typed_state (ofor store_task result)"
      using typed by (induction result) (auto simp: store_task_def intro!: preserve_intros update_task_row_types)
    show ?thesis
      unfolding committing_def by (intro preserves_split preserves_bind preserves_try(2) preserves_simple store types.session_keeps)
  qed
  show "held typed_state ?A (if result = [] \<or> \<not> persist then oret result
      else obind (try_rollback (committing inv_insert (ofor store_task result)))
        (\<lambda>_. oret (map (\<lambda>(i, info). (i, info\<lparr>ci_task := (ci_task info)\<lparr>t_version := t_version (ci_task info) + 1\<rparr>\<rparr>)) result)))
      (\<lambda>_ _. True)"
  proof (rule held_fact [where Q = "\<forall>entry \<in> set result. typed_task (ci_task (snd entry))"])
    show "\<forall>entry \<in> set result. typed_task (ci_task (snd entry))" if "?A w" for w
      using scheduled_tasks_typed [of "db_project w" "pe_calendar env" pid result] that computed by (simp add: typed_tasks_def)
  qed (rule held_weaken [OF held_preserves [OF keep]], simp_all)
qed

section \<open>Runs\<close>

lemma sync_types: "preserves typed_state (sync_project_schedule env pid)"
  unfolding sync_project_schedule_def by (intro preserve_intros recalculate_types)

lemma dependency_calls_types:
  "preserves typed_state (add_dependency env pr su ty lag bypass)" "preserves typed_state (remove_dependency env i bypass)"
proof -
  have written: "preserves typed_state (pt_add (DependencyRow x))" "preserves typed_state (pt_update (\<lambda>d. Inr (delete_dependency i d)))" for x
    unfolding pt_add_def
    by (rule preserves_add, simp) (auto simp: preserves_def pt_update_def tables_def typed_tasks_def delete_dependency_def)
  show "preserves typed_state (add_dependency env pr su ty lag bypass)" "preserves typed_state (remove_dependency env i bypass)"
    unfolding add_dependency_def remove_dependency_def guarded_def Let_def
    by (intro preserve_intros neutral_diagnostics [THEN types.reads_keep] types.request_change_frame types.session_keeps written sync_types)+
qed

lemma app_handlers_types: "app_apply_handlers env visit tenv (ap_request_type r) = Some h \<Longrightarrow> preserves typed_state (h r')"
  unfolding app_apply_handlers_def map_add_Some_iff
  by (auto simp: project_apply_handlers_def types.own_handlers_keep(1) split: if_splits approval_payload.splits
      intro!: preserve_intros dependency_calls_types)

lemma app_approval_types: "preserves typed_state (approve_and_apply aenv (app_apply_handlers aenv visit env) i note)"
  by (rule types.decisions_keep(1), drule app_handlers_types, assumption)

interpretation type_frame: apart_from_time typed_tasks typed_row
  by unfold_locales (auto simp: typed_tasks_def same_plan_def)

lemma lasting_step_types: "lasting_step s t \<Longrightarrow> typed_state s \<Longrightarrow> typed_state t"
  by (induction rule: lasting_step.induct)
    ((rule preservesD, rule task_calls_types dependency_calls_types recalculate_types app_approval_types, assumption, assumption) |
      (rule types.procurement_step_frame, assumption, assumption) | (rule type_frame.time_step_kept, assumption, assumption))+

lemma app_step_types: "app_step s t \<Longrightarrow> typed_state s \<Longrightarrow> typed_state t"
  by (induction rule: app_step.induct)
    ((rule lasting_step_types, assumption, assumption) | (rule preservesD, rule task_calls_types, assumption, assumption) |
      (rule preservesD, rule type_frame.all_time_calls_kept, assumption, assumption))+

text \<open>
  C19: Task rows stay typed: in every state the services reach, every task has a name that passes
  the checks of the form, a progress between 0 and 100 percent, and no negative duration.
\<close>

theorem task_rows_typed:
  assumes "clean s" and "\<forall>t \<in> set (pt_tasks (db_project (s_committed s))). typed_task t" and "app_step\<^sup>*\<^sup>* s t"
  shows "\<forall>x \<in> set (pt_tasks (db_project (s_committed t))).
    validate_task_name (t_name x) = Inr () \<and> 0 \<le> t_percent_complete x \<and> t_percent_complete x \<le> 100 \<and>
    (\<forall>n. t_duration_days x = Some n \<longrightarrow> 0 \<le> n)"
proof -
  have start: "typed_state s" using assms(1,2) by (simp add: tables_def clean_def typed_tasks_def)
  have "typed_state t"
    using assms(3) by (induction rule: rtranclp_induct) (auto intro: start app_step_types)
  then show ?thesis by (auto simp: tables_def typed_tasks_def typed_task_def)
qed

end
