(* ===== verification/Task_Examples.thy ===== *)
theory Task_Examples
  imports App_Properties Task_Properties Task_Typed Proc_Examples Schedule_Examples
begin

text \<open>
  One run of project planning: two tasks, a governed dependency between them that a second
  person approves, and the refused dependency back. The properties of the task service applied
  to the states of this run.
\<close>

section \<open>The users and the tables\<close>

definition planning :: "inv_env \<Rightarrow> task_env" where
  "planning env =
     \<lparr>pe_base = env, pe_today = 738886, pe_calendar = example_engine, pe_governance_mode = Some ''Required '', pe_governance_actions = None,
      pe_overallocation_policy = None, pe_module_enabled = True\<rparr>"

definition planner :: task_env where
  "planner = planning (procurement_user ''planner'' [''task.manage'', ''task.read'', ''approval.request''])"

definition manager :: inv_env where
  "manager = procurement_user ''manager'' [''task.manage'', ''task.read'', ''approval.decide'']"

definition planning_start :: inv_op_state where
  "planning_start = example_state
     (example_db\<lparr>db_project := no_project_tables\<lparr>
        pt_projects := [\<lparr>pj_id = ''p'', pj_start_date = None, pj_end_date = None\<rparr>]\<rparr>\<rparr>) [] 0"

section \<open>The run\<close>

definition example_design_made :: inv_op_state where
  "example_design_made = snd (create_task planner ''p'' ''Design'' [] (Some 738886) (Some 3) TODO 0 None planning_start)"

definition example_build_made :: inv_op_state where
  "example_build_made = snd (create_task planner ''p'' ''Build'' [] None (Some 2) TODO 0 None example_design_made)"

definition example_link_requested :: inv_op_state where
  "example_link_requested = snd (add_dependency planner ''a-b'' ''b-b'' FINISH_TO_START 1 False example_build_made)"

definition example_link_approved :: inv_op_state where
  "example_link_approved =
     snd (approve_and_apply manager (app_apply_handlers manager (\<lambda>ids. ids) (planning manager)) ''c-b'' None example_link_requested)"

lemma example_planning_steps:
  "app_step planning_start example_design_made" "app_step example_design_made example_build_made"
  "app_step example_build_made example_link_requested" "app_step example_link_requested example_link_approved"
  unfolding example_design_made_def example_build_made_def example_link_requested_def example_link_approved_def
  by (rule app_step.lasting, rule lasting_step.create_task lasting_step.add_dependency lasting_step.approve, rule surjective_pairing)+

lemma example_planning_run: "app_step\<^sup>*\<^sup>* planning_start example_link_approved"
  by ((rule converse_rtranclp_into_rtranclp, rule example_planning_steps)+, rule rtranclp.rtrancl_refl)

lemma planning_start_good:
  "clean planning_start" "plans_ok (db_project (s_committed planning_start))"
  "\<forall>t \<in> set (pt_tasks (db_project (s_committed planning_start))). typed_task t"
  by (simp_all add: clean_def planning_start_def example_state_def plans_ok_def no_project_tables_def dep_edges_def acyclic_def)

text \<open>What the run leaves: the plan, its schedule, and the answer to a dependency back.\<close>

lemma example_approved_plan:
  "let d = db_project (s_committed example_link_approved); w = db_project (s_working example_link_approved) in
     map (\<lambda>t. (t_id t, t_name t, t_start_date t, t_end_date t)) (pt_tasks d) =
       [(''a-b'', ''Design'', Some 738886, Some 738889), (''b-b'', ''Build'', Some 738893, Some 738894)] \<and>
     map (\<lambda>x. (predecessor_task_id x, successor_task_id x)) (pt_dependencies d) = [(''a-b'', ''b-b'')] \<and>
     \<not> isl (project_schedule example_engine ''p'' w) \<and> map t_id (list_tasks_by_project ''p'' w) = [''a-b'', ''b-b''] \<and>
     dependency_problem ''b-b'' ''a-b'' d = Some ''DEPENDENCY_CYCLE''"
  by code_simp

lemmas example_plan = example_approved_plan [unfolded Let_def]

section \<open>The properties at work\<close>

theorem plans_stay_acyclic_witness:
  "pt_dependencies (db_project (s_committed example_link_approved)) \<noteq> [] \<and>
   acyclic (dep_edges (pt_dependencies (db_project (s_committed example_link_approved))))"
  using plans_stay_acyclic [OF planning_start_good(1,2) example_planning_run] example_plan by auto

theorem schedule_never_cyclic_witness:
  "\<exists>result. project_schedule example_engine ''p'' (db_project (s_working example_link_approved)) = Inr result \<and>
     map fst result = [''a-b'', ''b-b'']"
  using schedule_never_cyclic [OF planning_start_good(1,2) example_planning_run, of "''p''" example_engine] example_plan
  by (auto split: sum.splits)

text \<open>The way back would close a cycle: the check says so, and the plans would not be in order.\<close>

definition example_back_link :: task_dependency where
  "example_back_link = example_dep ''x'' ''b-b'' ''a-b'' START_TO_START 0"

lemma example_plan_in_order: "plans_ok (db_project (s_committed example_link_approved))"
  using run_keeps_plans [OF planning_start_good(1,2) example_planning_run] by simp

theorem dependency_check_exact_witness:
  "\<not> plans_ok ((db_project (s_committed example_link_approved))
     \<lparr>pt_dependencies := pt_dependencies (db_project (s_committed example_link_approved)) @ [example_back_link]\<rparr>)"
  using dependency_check_exact [OF example_plan_in_order, of example_back_link] example_plan
  by (simp add: example_back_link_def example_dep_def)

theorem task_rows_typed_witness:
  "map t_name (pt_tasks (db_project (s_committed example_link_approved))) = [''Design'', ''Build''] \<and>
   list_all (\<lambda>t. t_percent_complete t \<le> 100) (pt_tasks (db_project (s_committed example_link_approved)))"
proof -
  have "map t_name (pt_tasks (db_project (s_committed example_link_approved))) =
      map (\<lambda>(_, n, _). n) (map (\<lambda>t. (t_id t, t_name t, t_start_date t, t_end_date t)) (pt_tasks (db_project (s_committed example_link_approved))))"
    by (simp add: comp_def)
  then have "map t_name (pt_tasks (db_project (s_committed example_link_approved))) = [''Design'', ''Build'']"
    using example_plan by simp
  then show ?thesis
    using task_rows_typed [OF planning_start_good(1,3) example_planning_run] by (simp add: list_all_iff)
qed

text \<open>Two tasks without a date: the dependency between them is stored by a call that raises.\<close>

definition undated_plan :: inv_op_state where
  "undated_plan = example_state
     (example_db\<lparr>db_project := no_project_tables\<lparr>pt_tasks := [example_task ''one'' 1 None, example_task ''two'' 1 None]\<rparr>\<rparr>) [] 0"

lemma undated_call_raises:
  "fst (add_dependency (planning manager) ''one'' ''two'' FINISH_TO_FINISH 2 True undated_plan) = Inl ValidationErr"
  by code_simp

theorem failed_schedule_keeps_dependency_witness:
  "map lag_days (pt_dependencies (db_project (s_committed
     (snd (add_dependency (planning manager) ''one'' ''two'' FINISH_TO_FINISH 2 True undated_plan))))) = [2]"
proof -
  have "clean undated_plan" "pt_dependencies (db_project (s_committed undated_plan)) = []"
    by (simp_all add: clean_def undated_plan_def example_state_def no_project_tables_def)
  note start = this
  have run: "add_dependency (planning manager) ''one'' ''two'' FINISH_TO_FINISH 2 True undated_plan =
      (Inl ValidationErr, snd (add_dependency (planning manager) ''one'' ''two'' FINISH_TO_FINISH 2 True undated_plan))"
    using undated_call_raises by (metis prod.collapse)
  obtain x where "lag_days x = 2" "pt_dependencies (db_project (s_committed
      (snd (add_dependency (planning manager) ''one'' ''two'' FINISH_TO_FINISH 2 True undated_plan)))) = [x]"
    using failed_schedule_keeps_dependency [OF start(1) run] start(2) by auto
  then show ?thesis by simp
qed

lemma example_walk: "add_working_days example_engine 738886 3 = Inr 738889"
  by code_simp

theorem add_working_days_returns_witness: "enough_working_days (is_working_day example_engine) 738886 3"
  using add_working_days_returns [of 738886 example_engine 3] example_walk
  by (auto simp: valid_date_def DATE_MIN_def DATE_MAX_def split: if_splits)

section \<open>What the task service does not check\<close>

text \<open>
  \<open>update_progress\<close> compares the actual dates only when it is given an end date, and an
  explicit status overrides the one that follows from the progress: the two calls below leave a
  task that started after it ended, and a finished task that is still to do.
\<close>

definition example_progress :: "rat option \<Rightarrow> date option \<Rightarrow> date option \<Rightarrow> task_status option \<Rightarrow> inv_op_state \<Rightarrow> inv_op_state" where
  "example_progress p a b st s = snd (update_progress planner ''a-b'' p a b st None s)"

lemma actual_dates_can_cross:
  "map (\<lambda>t. (t_actual_start t, t_actual_end t)) (pt_tasks (db_project (s_committed
     (example_progress None (Some 738900) None None (example_progress None None (Some 738890) None example_design_made))))) =
   [(Some 738900, Some 738890)]"
  by code_simp

lemma finished_task_still_to_do:
  "map (\<lambda>t. (t_percent_complete t, t_status t)) (pt_tasks (db_project (s_committed
     (example_progress (Some 100) None None (Some TODO) example_design_made)))) = [(100, TODO)]"
  by code_simp

end
