(* ===== verification/Time_Invariant.thy ===== *)
theory Time_Invariant
  imports Time_Operations
begin

text \<open>
  The books of the timesheets: the hours of an assignment are those of its entries, no entry is
  without its assignment, a resource has one period per month, periods move along a state machine,
  and the entries of an approved period are never changed or added to. This theory states the
  invariant and what every single write does to it.
\<close>

section \<open>The invariant\<close>

definition entry_total :: "string \<Rightarrow> project_tables \<Rightarrow> rat" where
  "entry_total i d = sum_list (map te_hours (filter (\<lambda>e. te_work_allocation_id e = i) (pt_time_entries d)))"

definition shape_ok :: "project_tables \<Rightarrow> bool" where
  "shape_ok d \<longleftrightarrow>
     distinct (map a_id (pt_assignments d)) \<and> distinct (map te_id (pt_time_entries d)) \<and> distinct (map tp_id (pt_periods d)) \<and>
     distinct (map (\<lambda>p. (tp_resource_id p, tp_period_start p)) (pt_periods d)) \<and>
     (\<forall>a \<in> set (pt_assignments d). py_strip (a_id a) = a_id a \<and> 0 \<le> hours_logged a) \<and>
     (\<forall>e \<in> set (pt_time_entries d). 0 < te_hours e \<and> te_work_allocation_id e \<in> a_id ` set (pt_assignments d)) \<and>
     (\<forall>p \<in> set (pt_periods d). timesheet_period_bounds (tp_period_start p) = (tp_period_start p, tp_period_end p))"

text \<open>While an operation runs, the hours of the assignments \<open>X\<close> may lag behind.\<close>

definition hours_match :: "string set \<Rightarrow> project_tables \<Rightarrow> bool" where
  "hours_match X d \<longleftrightarrow>
     (\<forall>a \<in> set (pt_assignments d). a_id a \<notin> X \<longrightarrow> (\<exists>e \<in> set (pt_time_entries d). te_work_allocation_id e = a_id a) \<longrightarrow>
        hours_logged a = entry_total (a_id a) d)"

text \<open>The moves of a period.\<close>

fun period_move :: "timesheet_period_status \<Rightarrow> timesheet_period_status \<Rightarrow> bool" where
  "period_move TP_OPEN TP_SUBMITTED = True"
| "period_move TP_REJECTED TP_SUBMITTED = True"
| "period_move TP_SUBMITTED TP_APPROVED = True"
| "period_move TP_SUBMITTED TP_REJECTED = True"
| "period_move TP_LOCKED TP_OPEN = True"
| "period_move st TP_LOCKED = (st \<noteq> TP_APPROVED)"
| "period_move _ _ = False"

definition period_follows :: "timesheet_period \<Rightarrow> timesheet_period \<Rightarrow> bool" where
  "period_follows p p' \<longleftrightarrow>
     tp_id p' = tp_id p \<and> tp_resource_id p' = tp_resource_id p \<and> tp_period_start p' = tp_period_start p \<and>
     tp_period_end p' = tp_period_end p \<and> period_move\<^sup>*\<^sup>* (tp_status p) (tp_status p') \<and>
     (tp_status p = TP_APPROVED \<longrightarrow> p' = p)"

text \<open>The entries of a period: those of its resource's assignments in its month.\<close>

definition period_entries :: "timesheet_period \<Rightarrow> project_tables \<Rightarrow> time_entry set" where
  "period_entries p d =
     {e \<in> set (pt_time_entries d). replace_day (te_entry_date e) 1 = tp_period_start p \<and>
        (\<exists>a \<in> set (pt_assignments d). a_id a = te_work_allocation_id e \<and> a_resource_id a = tp_resource_id p)}"

text \<open>
  The entries of an approved period are never changed or added to; with \<open>b\<close> none is missing
  either, which the deletion of an assignment or a task does not respect.
\<close>

definition time_history :: "bool \<Rightarrow> project_tables \<Rightarrow> project_tables \<Rightarrow> bool" where
  "time_history b d d' \<longleftrightarrow>
     (\<forall>i p. get_period_row i d = Some p \<longrightarrow>
        (\<exists>p'. get_period_row i d' = Some p' \<and> period_follows p p' \<and>
           (tp_status p = TP_APPROVED \<longrightarrow> period_entries p d' \<subseteq> period_entries p d \<and>
              (b \<longrightarrow> period_entries p d' = period_entries p d))))"

definition timesheets :: "bool \<Rightarrow> string set \<Rightarrow> project_tables \<Rightarrow> project_tables \<Rightarrow> bool" where
  "timesheets b X d0 d \<longleftrightarrow> shape_ok d \<and> hours_match X d \<and> time_history b d0 d"

section \<open>Periods and months\<close>

lemma period_bounds: "timesheet_period_bounds day =
    (ymd2ord (year_of day) (month_of day) 1, ymd2ord (year_of day) (month_of day) (days_in_month (year_of day) (month_of day)))"
  using replaced_day_month [OF first_and_last_day(1), of day]
  unfolding timesheet_period_bounds_def Let_def by (simp add: replace_day_def)

lemma in_period_iff:
  "fst (timesheet_period_bounds day) \<le> x \<and> x \<le> snd (timesheet_period_bounds day) \<longleftrightarrow> replace_day x 1 = replace_day day 1"
  unfolding period_bounds fst_conv snd_conv in_month_iff [OF month_range_of] same_first_day by auto

lemma period_start: "fst (timesheet_period_bounds day) = replace_day day 1"
  by (simp add: timesheet_period_bounds_def Let_def)

lemma first_day_idem [simp]: "replace_day (replace_day day 1) 1 = replace_day day 1"
  unfolding same_first_day using replaced_day_month [OF first_and_last_day(1)] by blast

lemma first_day_bounds: "timesheet_period_bounds (replace_day day 1) = timesheet_period_bounds day"
  using replaced_day_month [OF first_and_last_day(1), of day] by (simp add: period_bounds)

lemma set_resource_period_entries:
  "set (resource_period_entries rid day d) =
     {e \<in> set (pt_time_entries d). replace_day (te_entry_date e) 1 = replace_day day 1 \<and>
        (\<exists>a \<in> set (pt_assignments d). a_id a = te_work_allocation_id e \<and> a_resource_id a = rid)}"
  unfolding resource_period_entries_def case_prod_beta' Let_def in_period_iff
  by (auto simp: list_entries_by_allocation_def list_assignments_by_resource_def)

lemma total_of_listed: "sum_list (map te_hours (list_entries_by_allocation i d)) = entry_total i d"
proof -
  have "mset (list_entries_by_allocation i d) = mset (filter (\<lambda>e. te_work_allocation_id e = i) (pt_time_entries d))"
    by (simp add: list_entries_by_allocation_def)
  then have "mset (map te_hours (list_entries_by_allocation i d)) =
      mset (map te_hours (filter (\<lambda>e. te_work_allocation_id e = i) (pt_time_entries d)))"
    by (simp add: mset_map)
  then show ?thesis unfolding entry_total_def by (metis sum_mset_sum_list)
qed

section \<open>History\<close>

lemma period_follows_trans: "period_follows p q \<Longrightarrow> period_follows q r \<Longrightarrow> period_follows p r"
  unfolding period_follows_def by (metis rtranclp_trans)

lemma time_history_refl: "time_history b d d"
  by (auto simp: time_history_def period_follows_def)

lemma time_history_trans:
  assumes "time_history b d0 d1" "time_history b d1 d2"
  shows "time_history b d0 d2"
  unfolding time_history_def
proof (intro allI impI)
  fix i p assume "get_period_row i d0 = Some p"
  then obtain p1 where p1: "get_period_row i d1 = Some p1" "period_follows p p1"
      "tp_status p = TP_APPROVED \<longrightarrow> period_entries p d1 \<subseteq> period_entries p d0 \<and> (b \<longrightarrow> period_entries p d1 = period_entries p d0)"
    using assms(1) unfolding time_history_def by blast
  then obtain p2 where p2: "get_period_row i d2 = Some p2" "period_follows p1 p2"
      "tp_status p1 = TP_APPROVED \<longrightarrow> period_entries p1 d2 \<subseteq> period_entries p1 d1 \<and> (b \<longrightarrow> period_entries p1 d2 = period_entries p1 d1)"
    using assms(2) unfolding time_history_def by blast
  moreover have "tp_status p = TP_APPROVED \<longrightarrow> p1 = p" using p1(2) by (simp add: period_follows_def)
  ultimately show "\<exists>p'. get_period_row i d2 = Some p' \<and> period_follows p p' \<and>
      (tp_status p = TP_APPROVED \<longrightarrow> period_entries p d2 \<subseteq> period_entries p d0 \<and> (b \<longrightarrow> period_entries p d2 = period_entries p d0))"
    using p1 period_follows_trans by blast
qed

text \<open>A write that leaves the periods alone and the entries of approved ones.\<close>

lemma time_history_entries:
  assumes "pt_periods d' = pt_periods d"
    and "\<And>p. p \<in> set (pt_periods d) \<Longrightarrow> tp_status p = TP_APPROVED \<Longrightarrow>
      period_entries p d' \<subseteq> period_entries p d \<and> (b \<longrightarrow> period_entries p d' = period_entries p d)"
  shows "time_history b d d'"
  using assms unfolding time_history_def get_period_row_def
  by (auto simp: period_follows_def dest: find_row_Some)

text \<open>A resource has one period with a given start.\<close>

lemma period_by_start:
  assumes "shape_ok d" "p \<in> set (pt_periods d)"
  shows "get_by_resource_period (tp_resource_id p) (tp_period_start p) d = Some p"
proof -
  have "find (\<lambda>q. (tp_resource_id q, tp_period_start q) = (tp_resource_id p, tp_period_start p)) ps = Some p"
    if "distinct (map (\<lambda>q. (tp_resource_id q, tp_period_start q)) ps)" "p \<in> set ps" for ps
    using that by (induction ps) (auto simp: image_iff)
  from this [of "pt_periods d"] show ?thesis
    using assms by (simp add: shape_ok_def get_by_resource_period_def)
qed

text \<open>An entry whose period may be edited is in no approved period.\<close>

definition editable :: "string \<Rightarrow> date \<Rightarrow> project_tables \<Rightarrow> bool" where
  "editable rid day d \<longleftrightarrow> (case lookup_timesheet_period rid day d of None \<Rightarrow> True | Some p \<Rightarrow> \<not> frozen_status (tp_status p))"

lemma editable_not_approved:
  assumes "shape_ok d" "p \<in> set (pt_periods d)" "tp_status p = TP_APPROVED" "editable rid day d"
  shows "\<not> (tp_resource_id p = rid \<and> replace_day day 1 = tp_period_start p)"
  using period_by_start [OF assms(1,2)] assms(3,4)
  by (auto simp: editable_def lookup_timesheet_period_def period_start frozen_status_def)

section \<open>The writes\<close>

lemma timesheetsI:
  "shape_ok d' \<Longrightarrow> hours_match X d' \<Longrightarrow> timesheets b Y d0 d \<Longrightarrow> time_history b d d' \<Longrightarrow> timesheets b X d0 d'"
  unfolding timesheets_def using time_history_trans by blast

text \<open>Tables the invariant does not look at.\<close>

lemma timesheets_cong:
  assumes "pt_assignments d' = pt_assignments d" "pt_time_entries d' = pt_time_entries d" "pt_periods d' = pt_periods d"
  shows "timesheets b X d0 d' = timesheets b X d0 d"
  using assms by (simp add: timesheets_def shape_ok_def hours_match_def time_history_def entry_total_def period_entries_def get_period_row_def)

lemma shape_entry:
  assumes "shape_ok d" "e \<in> set (pt_time_entries d)"
  shows "0 < te_hours e \<and> te_work_allocation_id e \<in> a_id ` set (pt_assignments d)"
  using assms unfolding shape_ok_def by blast

lemma shape_assignment:
  assumes "shape_ok d" "a \<in> set (pt_assignments d)" "a' \<in> set (pt_assignments d)" "a_id a = a_id a'"
  shows "a = a'"
  using assms by (auto simp: shape_ok_def distinct_map dest: inj_onD)

text \<open>An assignment without entries.\<close>

lemma timesheets_add_assignment:
  assumes "timesheets b X d0 d" "a_id a \<notin> a_id ` set (pt_assignments d)" "py_strip (a_id a) = a_id a" "hours_logged a = 0"
  shows "timesheets b X d0 (d\<lparr>pt_assignments := pt_assignments d @ [a]\<rparr>)" (is "timesheets b X d0 ?d")
proof (rule timesheetsI [OF _ _ assms(1)])
  have d: "shape_ok d" "hours_match X d" using assms(1) by (simp_all add: timesheets_def)
  have none: "te_work_allocation_id e \<noteq> a_id a" if "e \<in> set (pt_time_entries d)" for e
    using shape_entry [OF d(1) that] assms(2) by metis
  show "shape_ok ?d" using d(1) assms(2-) by (auto simp: shape_ok_def)
  show "hours_match X ?d" using d(2) none by (auto simp: hours_match_def entry_total_def)
  have same: "period_entries p ?d = period_entries p d" for p
    unfolding period_entries_def using none by fastforce
  show "time_history b d ?d" by (rule time_history_entries) (use same in simp_all)
qed

text \<open>Assignments that are deleted with their entries.\<close>

lemma timesheets_fewer:
  assumes "timesheets False X d0 d" "pt_assignments d' = filter (\<lambda>a. K (a_id a)) (pt_assignments d)"
    and "pt_time_entries d' = filter (\<lambda>e. K (te_work_allocation_id e)) (pt_time_entries d)" "pt_periods d' = pt_periods d"
  shows "timesheets False X d0 d'"
proof (rule timesheetsI [OF _ _ assms(1)])
  have d: "shape_ok d" "hours_match X d" using assms(1) by (simp_all add: timesheets_def)
  show "shape_ok d'" using d(1) by (auto simp: shape_ok_def assms(2-) distinct_map_filter)
  have "entry_total i d' = entry_total i d" if "K i" for i
  proof -
    have "filter (\<lambda>e. te_work_allocation_id e = i) (filter (\<lambda>e. K (te_work_allocation_id e)) es) =
        filter (\<lambda>e. te_work_allocation_id e = i) es" for es :: "time_entry list"
      using that by (induction es) auto
    then show ?thesis by (simp add: entry_total_def assms(3))
  qed
  then show "hours_match X d'" using d(2) by (auto simp: hours_match_def assms(2-))
  show "time_history False d d'"
    by (rule time_history_entries) (auto simp: assms(2-) period_entries_def)
qed

text \<open>An assignment written over: resource and identity stay.\<close>

lemma timesheets_update_assignment:
  assumes "timesheets b X d0 d" "a \<in> set (pt_assignments d)" "a_id a' = a_id a" "a_resource_id a' = a_resource_id a" "0 \<le> hours_logged a'"
    and "X \<subseteq> insert (a_id a) Y"
    and "a_id a \<notin> Y \<Longrightarrow> \<exists>e \<in> set (pt_time_entries d). te_work_allocation_id e = a_id a \<Longrightarrow> hours_logged a' = entry_total (a_id a) d"
  shows "timesheets b Y d0 (update_assignment_row a' d)" (is "timesheets b Y d0 ?d")
proof (rule timesheetsI [OF _ _ assms(1)])
  have d: "shape_ok d" "hours_match X d" using assms(1) by (simp_all add: timesheets_def)
  let ?rows = "replace_row a_id a' (pt_assignments d)"
  have ids: "a_id ` set ?rows = a_id ` set (pt_assignments d)"
    using map_key_replace_row [of a_id a' "pt_assignments d"] by (metis list.set_map)
  have members: "c \<in> set ?rows \<longleftrightarrow> c = a' \<or> (c \<in> set (pt_assignments d) \<and> a_id c \<noteq> a_id a)" for c
    using assms(2,3) by (auto simp: replace_row_def)
  show "shape_ok ?d"
    using d(1) assms(2,3,5) ids members unfolding shape_ok_def update_assignment_row_def by auto
  show "hours_match Y ?d"
    unfolding hours_match_def
  proof (intro ballI impI)
    fix c assume c: "c \<in> set (pt_assignments ?d)" "a_id c \<notin> Y" and e: "\<exists>e \<in> set (pt_time_entries ?d). te_work_allocation_id e = a_id c"
    have same: "pt_time_entries ?d = pt_time_entries d" "entry_total (a_id c) ?d = entry_total (a_id c) d"
      by (simp_all add: update_assignment_row_def entry_total_def)
    consider "c = a'" | "c \<in> set (pt_assignments d)" "a_id c \<noteq> a_id a"
      using c(1) members by (auto simp: update_assignment_row_def)
    then show "hours_logged c = entry_total (a_id c) ?d"
    proof cases
      case 1
      then show ?thesis using assms(3,7) c(2) e same by simp
    next
      case 2
      then have "a_id c \<notin> X" using c(2) assms(6) by auto
      then show ?thesis using d(2) 2(1) e unfolding same hours_match_def by blast
    qed
  qed
  have owned: "(\<exists>c \<in> set ?rows. a_id c = i \<and> a_resource_id c = rid) \<longleftrightarrow>
      (\<exists>c \<in> set (pt_assignments d). a_id c = i \<and> a_resource_id c = rid)" for i rid
    using members assms(2-4) shape_assignment [OF d(1) assms(2)] by metis
  have "period_entries p ?d = period_entries p d" for p
    using owned by (simp add: period_entries_def update_assignment_row_def)
  then show "time_history b d ?d" by (intro time_history_entries) (simp_all add: update_assignment_row_def)
qed

text \<open>Entries: what is written is in a period that may be edited.\<close>

lemma owner_of_entry:
  assumes "shape_ok d" "a \<in> set (pt_assignments d)" "te_work_allocation_id e = a_id a"
  shows "(\<exists>c \<in> set (pt_assignments d). a_id c = te_work_allocation_id e \<and> a_resource_id c = rid) \<longleftrightarrow> a_resource_id a = rid"
  using assms(2,3) shape_assignment [OF assms(1) assms(2)] by metis

lemma not_in_approved:
  assumes "shape_ok d" "a \<in> set (pt_assignments d)" "te_work_allocation_id e = a_id a" "editable (a_resource_id a) (te_entry_date e) d"
    and "p \<in> set (pt_periods d)" "tp_status p = TP_APPROVED"
  shows "\<not> (replace_day (te_entry_date e) 1 = tp_period_start p \<and>
    (\<exists>c \<in> set (pt_assignments d). a_id c = te_work_allocation_id e \<and> a_resource_id c = tp_resource_id p))"
  using editable_not_approved [OF assms(1,5,6,4)] owner_of_entry [OF assms(1-3)] by auto

lemma timesheets_add_entry:
  assumes "timesheets b X d0 d" "te_id e \<notin> te_id ` set (pt_time_entries d)" "0 < te_hours e"
    and "a \<in> set (pt_assignments d)" "te_work_allocation_id e = a_id a" "editable (a_resource_id a) (te_entry_date e) d"
  shows "timesheets b (insert (a_id a) X) d0 (d\<lparr>pt_time_entries := pt_time_entries d @ [e]\<rparr>)" (is "timesheets b ?X d0 ?d")
proof (rule timesheetsI [OF _ _ assms(1)])
  have d: "shape_ok d" "hours_match X d" using assms(1) by (simp_all add: timesheets_def)
  show "shape_ok ?d" using d(1) assms(2-5) by (auto simp: shape_ok_def)
  show "hours_match ?X ?d" using d(2) assms(5) by (auto simp: hours_match_def entry_total_def)
  show "time_history b d ?d"
  proof (rule time_history_entries)
    fix p assume "p \<in> set (pt_periods d)" "tp_status p = TP_APPROVED"
    from not_in_approved [OF d(1) assms(4-6) this] have "period_entries p ?d = period_entries p d"
      by (auto simp: period_entries_def)
    then show "period_entries p ?d \<subseteq> period_entries p d \<and> (b \<longrightarrow> period_entries p ?d = period_entries p d)" by simp
  qed simp
qed

lemma timesheets_update_entry:
  assumes "timesheets b X d0 d" "e \<in> set (pt_time_entries d)" "te_id e' = te_id e" "0 < te_hours e'"
    and "a \<in> set (pt_assignments d)" "te_work_allocation_id e = a_id a" "te_work_allocation_id e' = a_id a"
    and "editable (a_resource_id a) (te_entry_date e) d" "editable (a_resource_id a) (te_entry_date e') d"
  shows "timesheets b (insert (a_id a) X) d0 (update_time_entry_row e' d)" (is "timesheets b ?X d0 ?d")
proof (rule timesheetsI [OF _ _ assms(1)])
  have d: "shape_ok d" "hours_match X d" using assms(1) by (simp_all add: timesheets_def)
  let ?rows = "replace_row te_id e' (pt_time_entries d)"
  have unique: "c = e" if "c \<in> set (pt_time_entries d)" "te_id c = te_id e" for c
    using d(1) assms(2) that by (auto simp: shape_ok_def distinct_map dest: inj_onD)
  have members: "c \<in> set ?rows \<longleftrightarrow> c = e' \<or> (c \<in> set (pt_time_entries d) \<and> c \<noteq> e)" for c
    using assms(2,3) unique by (auto simp: replace_row_def)
  show "shape_ok ?d"
    using d(1) assms(4,5,7) members unfolding shape_ok_def update_time_entry_row_def by auto
  have rest: "filter (\<lambda>c. te_work_allocation_id c = i) ?rows = filter (\<lambda>c. te_work_allocation_id c = i) (pt_time_entries d)"
    if i: "i \<noteq> a_id a" for i
  proof -
    have "filter (\<lambda>c. te_work_allocation_id c = i) (replace_row te_id e' es) = filter (\<lambda>c. te_work_allocation_id c = i) es"
      if "set es \<subseteq> set (pt_time_entries d)" for es
      using that by (induction es) (use unique assms(3,6,7) i in \<open>auto simp: replace_row_def\<close>)
    then show ?thesis by simp
  qed
  show "hours_match ?X ?d"
    using d(2) rest members assms(7) unfolding hours_match_def update_time_entry_row_def entry_total_def by fastforce
  show "time_history b d ?d"
  proof (rule time_history_entries)
    fix p assume p: "p \<in> set (pt_periods d)" "tp_status p = TP_APPROVED"
    have "period_entries p ?d = period_entries p d"
      using not_in_approved [OF d(1) assms(5,6,8) p] not_in_approved [OF d(1) assms(5,7,9) p] members
      by (auto simp: period_entries_def update_time_entry_row_def)
    then show "period_entries p ?d \<subseteq> period_entries p d \<and> (b \<longrightarrow> period_entries p ?d = period_entries p d)" by simp
  qed (simp add: update_time_entry_row_def)
qed

lemma timesheets_delete_entry:
  assumes "timesheets b X d0 d" "e \<in> set (pt_time_entries d)"
    and "a \<in> set (pt_assignments d)" "te_work_allocation_id e = a_id a" "editable (a_resource_id a) (te_entry_date e) d"
  shows "timesheets b (insert (a_id a) X) d0 (delete_time_entry_row (te_id e) d)" (is "timesheets b ?X d0 ?d")
proof (rule timesheetsI [OF _ _ assms(1)])
  have d: "shape_ok d" "hours_match X d" using assms(1) by (simp_all add: timesheets_def)
  have unique: "c = e" if "c \<in> set (pt_time_entries d)" "te_id c = te_id e" for c
    using d(1) assms(2) that by (auto simp: shape_ok_def distinct_map dest: inj_onD)
  have members: "c \<in> set (pt_time_entries ?d) \<longleftrightarrow> c \<in> set (pt_time_entries d) \<and> c \<noteq> e" for c
    using unique by (auto simp: delete_time_entry_row_def)
  show "shape_ok ?d"
    using d(1) by (auto simp: shape_ok_def delete_time_entry_row_def distinct_map_filter)
  have "filter (\<lambda>c. te_work_allocation_id c = i) (filter (\<lambda>c. te_id c \<noteq> te_id e) (pt_time_entries d)) =
      filter (\<lambda>c. te_work_allocation_id c = i) (pt_time_entries d)" if "i \<noteq> a_id a" for i
    unfolding filter_filter using unique assms(4) that by (intro filter_cong) auto
  then show "hours_match ?X ?d"
    using d(2) unfolding hours_match_def delete_time_entry_row_def entry_total_def by fastforce
  show "time_history b d ?d"
  proof (rule time_history_entries)
    fix p assume p: "p \<in> set (pt_periods d)" "tp_status p = TP_APPROVED"
    have "period_entries p ?d = period_entries p d"
      using not_in_approved [OF d(1) assms(3-5) p] members by (auto simp: period_entries_def delete_time_entry_row_def)
    then show "period_entries p ?d \<subseteq> period_entries p d \<and> (b \<longrightarrow> period_entries p ?d = period_entries p d)" by simp
  qed (simp add: delete_time_entry_row_def)
qed

text \<open>Periods.\<close>

lemma timesheets_add_period:
  assumes "timesheets b X d0 d" "tp_id p \<notin> tp_id ` set (pt_periods d)"
    and "(tp_resource_id p, tp_period_start p) \<notin> (\<lambda>p. (tp_resource_id p, tp_period_start p)) ` set (pt_periods d)"
    and "timesheet_period_bounds (tp_period_start p) = (tp_period_start p, tp_period_end p)"
  shows "timesheets b X d0 (d\<lparr>pt_periods := pt_periods d @ [p]\<rparr>)" (is "timesheets b X d0 ?d")
proof (rule timesheetsI [OF _ _ assms(1)])
  have d: "shape_ok d" "hours_match X d" using assms(1) by (simp_all add: timesheets_def)
  show "shape_ok ?d" using d(1) assms(2-) by (auto simp: shape_ok_def)
  show "hours_match X ?d" using d(2) by (simp add: hours_match_def entry_total_def)
  show "time_history b d ?d"
    by (auto simp: time_history_def get_period_row_def find_row_append period_follows_def period_entries_def)
qed

lemma timesheets_update_period:
  assumes "timesheets b X d0 d" "p \<in> set (pt_periods d)" "period_follows p p'" "tp_status p \<noteq> TP_APPROVED"
  shows "timesheets b X d0 (update_period_row p' d)" (is "timesheets b X d0 ?d")
proof (rule timesheetsI [OF _ _ assms(1)])
  have d: "shape_ok d" "hours_match X d" using assms(1) by (simp_all add: timesheets_def)
  have key: "tp_id p' = tp_id p" "tp_resource_id p' = tp_resource_id p" "tp_period_start p' = tp_period_start p"
      "tp_period_end p' = tp_period_end p"
    using assms(3) by (simp_all add: period_follows_def)
  have unique: "c = p" if "c \<in> set (pt_periods d)" "tp_id c = tp_id p" for c
    using d(1) assms(2) that by (auto simp: shape_ok_def distinct_map dest: inj_onD)
  have keys: "map (\<lambda>p. (tp_resource_id p, tp_period_start p)) (replace_row tp_id p' (pt_periods d)) =
      map (\<lambda>p. (tp_resource_id p, tp_period_start p)) (pt_periods d)"
    using unique key by (auto simp: replace_row_def)
  have bounds: "timesheet_period_bounds (tp_period_start c) = (tp_period_start c, tp_period_end c)"
    if "c \<in> set (replace_row tp_id p' (pt_periods d))" for c
    using that d(1) assms(2) key by (auto simp: replace_row_def shape_ok_def split: if_splits)
  show "shape_ok ?d" using d(1) keys bounds by (simp add: shape_ok_def update_period_row_def)
  show "hours_match X ?d" using d(2) by (simp add: hours_match_def entry_total_def update_period_row_def)
  have found: "get_period_row (tp_id p) d = Some p"
    using find_row_distinct [of tp_id "pt_periods d" p] d(1) assms(2) by (simp add: shape_ok_def get_period_row_def)
  show "time_history b d ?d"
    unfolding time_history_def
  proof (intro allI impI)
    fix i q assume q: "get_period_row i d = Some q"
    have same: "period_entries q ?d = period_entries q d" by (simp add: period_entries_def update_period_row_def)
    have "get_period_row i ?d = (if i = tp_id p then Some p' else Some q)"
      using q found key(1) by (auto simp: get_period_row_def update_period_row_def find_row_replace)
    moreover have "q = p" if "i = tp_id p" using q found that by simp
    ultimately show "\<exists>q'. get_period_row i ?d = Some q' \<and> period_follows q q' \<and>
        (tp_status q = TP_APPROVED \<longrightarrow> period_entries q ?d \<subseteq> period_entries q d \<and> (b \<longrightarrow> period_entries q ?d = period_entries q d))"
      using assms(3,4) same by (cases "i = tp_id p") (auto simp: period_follows_def)
  qed
qed

end
