(* ===== verification/PM_Transactions.thy ===== *)
theory PM_Transactions
  imports PM_Assertions
begin

text \<open>
  Bodies of \<open>try ... except: rollback\<close> blocks that break an invariant on the way and restore it
  before they commit. Inside such a body only the committed rows keep the invariant; the assertion
  follows the working rows.
\<close>

definition stored :: "('db \<Rightarrow> bool) \<Rightarrow> ('ins \<Rightarrow> bool) \<Rightarrow> ('db, 'ins) session \<Rightarrow> bool" where
  "stored P ok s \<longleftrightarrow> P (s_committed s) \<and> list_all ok (s_pending s)"

lemma stored_neutral: "neutral m \<Longrightarrow> held (stored P ok) A m (\<lambda>_. A)"
  unfolding held_def stored_def using neutralD by (metis (no_types, lifting))

lemma stored_neutral_bind:
  "neutral m \<Longrightarrow> (\<And>x. held (stored P ok) A (f x) C) \<Longrightarrow> held (stored P ok) A (obind m f) C"
  by (rule held_bind [OF stored_neutral])

lemma held_ret_bind: "held I A (f x) C \<Longrightarrow> held I A (obind (oret x) f) C"
  by (simp add: held_def obind_def oret_def)

lemma held_false: "held I (\<lambda>_. False) m C"
  by (simp add: held_def)

text \<open>Rows that wait and are admissible do not disturb the assertion.\<close>

definition undisturbed :: "('ins \<Rightarrow> 'db \<Rightarrow> 'db result) \<Rightarrow> ('ins \<Rightarrow> bool) \<Rightarrow> ('db \<Rightarrow> bool) \<Rightarrow> bool" where
  "undisturbed ins ok A \<longleftrightarrow> (\<forall>x w w'. ok x \<longrightarrow> A w \<longrightarrow> ins x w = Inr w' \<longrightarrow> A w')"

lemma undisturbed_flush:
  "undisturbed ins ok A \<Longrightarrow> rfold ins xs w = Inr w' \<Longrightarrow> list_all ok xs \<Longrightarrow> A w \<Longrightarrow> A w'"
  by (rule rfold_invariant [of ins xs w w' A]) (auto simp: undisturbed_def list_all_iff)

lemma stored_flush:
  assumes "undisturbed ins ok A"
  shows "held (stored P ok) A (session_flush ins) (\<lambda>_. A)"
proof (rule heldI)
  fix s r t assume s: "stored P ok s" "A (s_working s)" and eq: "session_flush ins s = (r, t)"
  show "stored P ok t \<and> (\<forall>x. r = Inr x \<longrightarrow> A (s_working t))"
    using s eq undisturbed_flush [OF assms] by (cases r) (auto simp: stored_def)
qed

lemma stored_commit:
  assumes "undisturbed ins ok A" "\<And>w. A w \<Longrightarrow> P w"
  shows "held (stored P ok) A (commit ins) (\<lambda>_. A)"
proof (rule heldI)
  fix s r t assume s: "stored P ok s" "A (s_working s)" and eq: "commit ins s = (r, t)"
  show "stored P ok t \<and> (\<forall>x. r = Inr x \<longrightarrow> A (s_working t))"
    using s eq undisturbed_flush [OF assms(1)] assms(2) by (cases r) (auto simp: stored_def)
qed

lemma stored_audit:
  assumes "undisturbed ins ok A" "\<And>w. A w \<Longrightarrow> P w"
  shows "held (stored P ok) A (record_audit ins a ty i) (\<lambda>_. A)"
proof -
  have entry: "held (stored P ok) A (omodify (\<lambda>s. s\<lparr>s_audit := s_audit s @ [(a, ty, i)]\<rparr>)) (\<lambda>_. A)"
    by (simp add: held_def stored_def)
  have body: "held (stored P ok) A (obind (commit ins) (\<lambda>_. omodify (\<lambda>s. s\<lparr>s_audit := s_audit s @ [(a, ty, i)]\<rparr>))) (\<lambda>_. A)"
    by (rule held_bind [OF stored_commit [OF assms] entry])
  show ?thesis
  proof (rule heldI)
    fix s r t assume s: "stored P ok s" "A (s_working s)" and eq: "record_audit ins a ty i s = (r, t)"
    show "stored P ok t \<and> (\<forall>x. r = Inr x \<longrightarrow> A (s_working t))"
    proof (cases "s_audit_on s")
      case True
      then have "obind (commit ins) (\<lambda>_. omodify (\<lambda>s. s\<lparr>s_audit := s_audit s @ [(a, ty, i)]\<rparr>)) s = (r, t)"
        using eq unfolding record_audit_def by (simp only: not_True_eq_False if_False)
      then show ?thesis by (rule heldD [OF body s])
    next
      case False
      then show ?thesis using s eq by (simp add: record_audit_def)
    qed
  qed
qed

text \<open>A row that is not admissible is added and written at once.\<close>

lemma stored_add_flush:
  assumes "undisturbed ins ok A" "\<And>w w'. A w \<Longrightarrow> ins x w = Inr w' \<Longrightarrow> B w'" "held (stored P ok) B (f ()) C"
  shows "held (stored P ok) A (obind (session_add x) (\<lambda>_. obind (session_flush ins) f)) C"
proof (rule heldI)
  fix s r t
  assume s: "stored P ok s" "A (s_working s)" and run: "obind (session_add x) (\<lambda>_. obind (session_flush ins) f) s = (r, t)"
  let ?s = "s\<lparr>s_pending := s_pending s @ [x]\<rparr>"
  have "obind (session_flush ins) f ?s = (r, t)"
    using run by (simp add: obind_def session_add_def omodify_def)
  then show "stored P ok t \<and> (\<forall>y. r = Inr y \<longrightarrow> C y (s_working t))"
  proof (cases rule: obindE)
    case (raised err)
    then show ?thesis using s(1) by (auto simp: stored_def)
  next
    case (returned y u)
    then obtain db1 db where db: "rfold ins (s_pending s) (s_working s) = Inr db1" "ins x db1 = Inr db"
        "u = ?s\<lparr>s_working := db, s_pending := []\<rparr>"
      by (auto simp: rfold_append)
    have "A db1" using undisturbed_flush [OF assms(1) db(1)] s by (simp add: stored_def)
    then have "stored P ok u" "B (s_working u)" using assms(2) db(2,3) s(1) by (auto simp: stored_def)
    then show ?thesis using heldD [OF assms(3)] returned(2) by simp
  qed
qed

lemma obind_assoc: "obind (obind m g) f = obind m (\<lambda>x. obind (g x) f)"
  by (rule ext) (simp add: obind_def split: prod.split sum.split)

lemma stored_add_commit:
  assumes "undisturbed ins ok A" "\<And>w w'. A w \<Longrightarrow> ins x w = Inr w' \<Longrightarrow> B w'" "\<And>w. B w \<Longrightarrow> P w" "held (stored P ok) B (f ()) C"
  shows "held (stored P ok) A (obind (session_add x) (\<lambda>_. obind (commit ins) f)) C"
proof -
  have written: "held (stored P ok) B (omodify (\<lambda>s. s\<lparr>s_committed := s_working s\<rparr>)) (\<lambda>_. B)"
    using assms(3) by (simp add: held_def stored_def)
  have "held (stored P ok) B (f y) C" for y using assms(4) by (cases y) simp
  then have "held (stored P ok) B (obind (omodify (\<lambda>s. s\<lparr>s_committed := s_working s\<rparr>)) f) C"
    by (rule held_bind [OF written])
  then have "held (stored P ok) A (obind (session_add x) (\<lambda>_. obind (session_flush ins)
      (\<lambda>_. obind (omodify (\<lambda>s. s\<lparr>s_committed := s_working s\<rparr>)) f))) C"
    by (intro stored_add_flush [where B = B] assms(1,2))
  then show ?thesis unfolding commit_def obind_assoc .
qed

text \<open>From the body to the block.\<close>

lemma held_transaction:
  assumes "held (stored P ok) (\<lambda>w. A w \<and> P w) m (\<lambda>x w. B x w \<and> P w)"
  shows "held (tables P ok) A (try_rollback m) B"
proof (rule heldI)
  fix s r t assume s: "tables P ok s" "A (s_working s)" and "try_rollback m s = (r, t)"
  from this(3) show "tables P ok t \<and> (\<forall>x. r = Inr x \<longrightarrow> B x (s_working t))"
  proof (cases rule: try_rollback_cases)
    case (raised err u)
    then show ?thesis using heldD [OF assms _ _ raised(1)] s by (auto simp: stored_def tables_def)
  next
    case (returned x)
    then show ?thesis using heldD [OF assms _ _ returned(1)] s by (auto simp: stored_def tables_def)
  qed
qed

text \<open>The same without a block, for rows that keep the invariant by themselves.\<close>

lemma held_add_flush:
  assumes "undisturbed ins ok (\<lambda>w. A w \<and> P w)" "\<And>w w'. A w \<Longrightarrow> P w \<Longrightarrow> ins x w = Inr w' \<Longrightarrow> B w' \<and> P w'"
    and "held (tables P ok) B (f ()) C"
  shows "held (tables P ok) A (obind (session_add x) (\<lambda>_. obind (session_flush ins) f)) C"
proof (rule heldI)
  fix s r t
  assume s: "tables P ok s" "A (s_working s)" and run: "obind (session_add x) (\<lambda>_. obind (session_flush ins) f) s = (r, t)"
  let ?s = "s\<lparr>s_pending := s_pending s @ [x]\<rparr>"
  have "obind (session_flush ins) f ?s = (r, t)"
    using run by (simp add: obind_def session_add_def omodify_def)
  then show "tables P ok t \<and> (\<forall>y. r = Inr y \<longrightarrow> C y (s_working t))"
  proof (cases rule: obindE)
    case (raised err)
    then show ?thesis using s(1) by (auto simp: tables_def)
  next
    case (returned y u)
    then obtain db1 db where db: "rfold ins (s_pending s) (s_working s) = Inr db1" "ins x db1 = Inr db"
        "u = ?s\<lparr>s_working := db, s_pending := []\<rparr>"
      by (auto simp: rfold_append)
    have "A db1 \<and> P db1" using undisturbed_flush [OF assms(1) db(1)] s by (simp add: tables_def)
    then have "tables P ok u" "B (s_working u)" using assms(2) db(2,3) s(1) by (auto simp: tables_def)
    then show ?thesis using heldD [OF assms(3)] returned(2) by simp
  qed
qed

end
