(* ===== verification/Time_Keeps.thy ===== *)
theory Time_Keeps
  imports Time_Invariant Time_Frame PM_Transactions
begin

text \<open>
  Every call of the assignment and timesheet services keeps the books, however it ends. Rows of
  the three tables never wait in the session between two statements of the services that flush.
\<close>

section \<open>The tables\<close>

fun no_time_row :: "inv_row \<Rightarrow> bool" where
  "no_time_row (ProjectRow (AssignmentRow a)) = False"
| "no_time_row (ProjectRow (TimeEntryRow e)) = False"
| "no_time_row (ProjectRow (PeriodRow p)) = False"
| "no_time_row _ = True"

definition same_books :: "project_tables \<Rightarrow> project_tables \<Rightarrow> bool" where
  "same_books d d' \<longleftrightarrow> pt_assignments d' = pt_assignments d \<and> pt_time_entries d' = pt_time_entries d \<and> pt_periods d' = pt_periods d"

lemma same_books_timesheets: "same_books d d' \<Longrightarrow> timesheets b X d0 d' = timesheets b X d0 d"
  unfolding same_books_def by (elim conjE) (rule timesheets_cong)

lemma inserted_books:
  assumes "no_time_row r" "inv_insert r db = Inr db'"
  shows "same_books (db_project db) (db_project db')"
proof (cases r)
  case (ProjectRow x)
  then show ?thesis using assms by (cases x) (auto simp: same_books_def split: if_splits)
qed (use assms in \<open>auto simp: same_books_def split: if_splits\<close>)

abbreviation books :: "bool \<Rightarrow> string set \<Rightarrow> project_tables \<Rightarrow> inv_db \<Rightarrow> bool" where
  "books b X d0 w \<equiv> timesheets b X d0 (db_project w)"

interpretation book_frame: foreign_tables "books b {} d0" no_time_row for b d0
proof unfold_locales
  show "books b {} d0 db'" if "no_time_row x" "books b {} d0 db" "inv_insert x db = Inr db'" for x db db'
    using same_books_timesheets [OF inserted_books [OF that(1,3)]] that(2) by simp
qed simp_all

abbreviation book_state :: "bool \<Rightarrow> project_tables \<Rightarrow> (inv_db, inv_row) session \<Rightarrow> bool" where
  "book_state b d0 \<equiv> tables (books b {} d0) no_time_row"

abbreviation in_booking :: "bool \<Rightarrow> project_tables \<Rightarrow> (inv_db, inv_row) session \<Rightarrow> bool" where
  "in_booking b d0 \<equiv> stored (books b {} d0) no_time_row"

text \<open>Facts about the three tables stay when other rows are written.\<close>

definition book_fact :: "(project_tables \<Rightarrow> bool) \<Rightarrow> bool" where
  "book_fact Q \<longleftrightarrow> (\<forall>d d'. same_books d d' \<longrightarrow> Q d \<longrightarrow> Q d')"

lemma book_fact_undisturbed: "book_fact Q \<Longrightarrow> undisturbed inv_insert no_time_row (\<lambda>w. Q (db_project w))"
  unfolding undisturbed_def book_fact_def using inserted_books by blast

definition owned :: "string \<Rightarrow> string \<Rightarrow> project_tables \<Rightarrow> bool" where
  "owned i rid d \<longleftrightarrow> (\<exists>a \<in> set (pt_assignments d). a_id a = i \<and> a_resource_id a = rid)"

lemma book_fact_conj: "book_fact Q \<Longrightarrow> book_fact R \<Longrightarrow> book_fact (\<lambda>d. Q d \<and> R d)"
  unfolding book_fact_def by blast

lemma book_facts:
  "book_fact (timesheets b X d0)" "book_fact (owned i rid)" "book_fact (editable rid day)" "book_fact (\<lambda>d. get_assignment_row i d = Some a)"
  "book_fact (\<lambda>d. get_time_entry_row j d = Some e)"
proof -
  show "book_fact (timesheets b X d0)" unfolding book_fact_def by (blast dest: same_books_timesheets)
qed (simp_all add: book_fact_def same_books_def owned_def editable_def lookup_timesheet_period_def get_by_resource_period_def
    get_assignment_row_def get_time_entry_row_def)

section \<open>Reading and writing in a body\<close>

lemma stored_pt_update:
  assumes "\<And>w. A w \<Longrightarrow> B (w\<lparr>db_project := g (db_project w)\<rparr>)"
  shows "held (stored P ok) A (pt_update (\<lambda>d. Inr (g d))) (\<lambda>_. B)"
  using assms by (auto simp: held_def stored_def pt_update_def)

lemma held_editable:
  assumes "held I (\<lambda>w. A w \<and> editable rid day (db_project w)) (f ()) C"
  shows "held I A (obind (ensure_timesheet_period_editable rid day) f) C"
proof -
  have "obind (ensure_timesheet_period_editable rid day) f =
      obind (pt_get (lookup_timesheet_period rid day)) (\<lambda>row.
        obind (oguard (case row of None \<Rightarrow> False | Some p \<Rightarrow> frozen_status (tp_status p)) ValidationErr) f)"
    unfolding ensure_timesheet_period_editable_def obind_assoc ..
  moreover have "held I A (obind (pt_get (lookup_timesheet_period rid day)) (\<lambda>row.
      obind (oguard (case row of None \<Rightarrow> False | Some p \<Rightarrow> frozen_status (tp_status p)) ValidationErr) f)) C"
    by (rule held_pt_get, rule held_guard, rule held_weaken [OF assms]) (auto simp: editable_def split: option.splits)
  ultimately show ?thesis by simp
qed

section \<open>The hours of an assignment follow its entries\<close>

text \<open>Facts that survive a change of the hours.\<close>

definition hours_fact :: "(project_tables \<Rightarrow> bool) \<Rightarrow> bool" where
  "hours_fact Q \<longleftrightarrow> (\<forall>d a h. Q d \<longrightarrow> a \<in> set (pt_assignments d) \<longrightarrow> distinct (map a_id (pt_assignments d)) \<longrightarrow>
     Q (update_assignment_row (a\<lparr>hours_logged := h\<rparr>) d))"

lemma owned_update:
  assumes "a \<in> set (pt_assignments d)" "distinct (map a_id (pt_assignments d))" "a_id a' = a_id a" "a_resource_id a' = a_resource_id a"
  shows "owned i rid (update_assignment_row a' d) = owned i rid d"
proof -
  have "c = a" if "c \<in> set (pt_assignments d)" "a_id c = a_id a" for c
    using assms(1,2) that by (auto simp: distinct_map dest: inj_onD)
  then show ?thesis
    using assms(1,3,4) by (fastforce simp: owned_def update_assignment_row_def replace_row_def)
qed

lemma hours_facts: "hours_fact (owned i rid)" "hours_fact (editable rid day)" "hours_fact (\<lambda>d. get_time_entry_row j d = Some e)"
  "hours_fact (\<lambda>_. True)"
proof -
  show "hours_fact (owned i rid)" unfolding hours_fact_def by (simp add: owned_update)
qed (simp_all add: hours_fact_def editable_def lookup_timesheet_period_def get_by_resource_period_def update_assignment_row_def
    get_time_entry_row_def)

lemma hours_fact_conj: "hours_fact Q \<Longrightarrow> hours_fact R \<Longrightarrow> hours_fact (\<lambda>d. Q d \<and> R d)"
  unfolding hours_fact_def by blast

lemma entry_total_nonneg:
  assumes "shape_ok d"
  shows "0 \<le> entry_total i d"
  unfolding entry_total_def
proof (rule sum_list_nonneg)
  fix x assume "x \<in> set (map te_hours (filter (\<lambda>e. te_work_allocation_id e = i) (pt_time_entries d)))"
  then show "0 \<le> x" using shape_entry [OF assms] by fastforce
qed

lemma sync_hours:
  assumes "hours_fact Q"
  shows "held (in_booking b d0) (\<lambda>w. books b {i} d0 w \<and> Q (db_project w)) (sync_work_allocation_hours i)
    (\<lambda>_ w. books b {} d0 w \<and> Q (db_project w))"
  unfolding sync_work_allocation_hours_def
proof (rule held_pt_get, rule held_split(2), rule held_raise, rule held_pt_get, rule stored_pt_update)
  fix row a entries w
  assume row: "row = Some a"
    and "((books b {i} d0 w \<and> Q (db_project w)) \<and> row = get_assignment_row i (db_project w)) \<and>
      entries = list_entries_by_allocation i (db_project w)"
  then have w: "books b {i} d0 w" "Q (db_project w)" and a: "a \<in> set (pt_assignments (db_project w))" "a_id a = i"
    and entries: "entries = list_entries_by_allocation i (db_project w)"
    by (auto simp: get_assignment_row_def dest: find_row_Some)
  let ?a = "a\<lparr>hours_logged := sum_list (map te_hours entries)\<rparr>"
  have shape: "shape_ok (db_project w)" using w(1) by (simp add: timesheets_def)
  have "timesheets b {} d0 (update_assignment_row ?a (db_project w))"
    by (rule timesheets_update_assignment [OF w(1) a(1)])
      (use a(2) entries entry_total_nonneg [OF shape, of i] in \<open>simp_all add: total_of_listed\<close>)
  moreover have "Q (update_assignment_row ?a (db_project w))"
    using assms w(2) a(1) shape by (simp add: hours_fact_def shape_ok_def)
  ultimately show "books b {} d0 (w\<lparr>db_project := update_assignment_row ?a (db_project w)\<rparr>) \<and>
      Q (db_project (w\<lparr>db_project := update_assignment_row ?a (db_project w)\<rparr>))"
    by simp
qed

section \<open>Entries\<close>

lemma created_entry [simp]:
  "te_id (create_time_entry new_id now i j day h nt u un c) = new_id"
  "te_work_allocation_id (create_time_entry new_id now i j day h nt u un c) = py_strip i"
  "te_entry_date (create_time_entry new_id now i j day h nt u un c) = day"
  "te_hours (create_time_entry new_id now i j day h nt u un c) = h"
  by (simp_all add: create_time_entry_def Let_def)

text \<open>Facts that survive the booking of an entry.\<close>

definition steady :: "(project_tables \<Rightarrow> bool) \<Rightarrow> bool" where
  "steady Q \<longleftrightarrow> book_fact Q \<and> hours_fact Q \<and> (\<forall>d e. Q d \<longrightarrow> Q (d\<lparr>pt_time_entries := pt_time_entries d @ [e]\<rparr>))"

lemma steady_facts: "steady (owned i rid)" "steady (editable rid day)" "steady (\<lambda>_. True)"
  using book_facts(2,3) hours_facts
  by (simp_all add: steady_def owned_def editable_def lookup_timesheet_period_def get_by_resource_period_def book_fact_def)

lemma steady_conj: "steady Q \<Longrightarrow> steady R \<Longrightarrow> steady (\<lambda>d. Q d \<and> R d)"
  unfolding steady_def using book_fact_conj hours_fact_conj by blast

lemma steady_books: "steady Q \<Longrightarrow> undisturbed inv_insert no_time_row (\<lambda>w. books b X d0 w \<and> Q (db_project w))"
  unfolding steady_def using book_fact_undisturbed [OF book_fact_conj [OF book_facts(1)]] by blast

lemma inserted_entry:
  "inv_insert (ProjectRow (TimeEntryRow e)) w = Inr w' \<longleftrightarrow>
     te_id e \<notin> te_id ` set (pt_time_entries (db_project w)) \<and>
     w' = w\<lparr>db_project := (db_project w)\<lparr>pt_time_entries := pt_time_entries (db_project w) @ [e]\<rparr>\<rparr>"
  by (simp add: list_ex_iff image_iff) metis

lemma stored_add_entry:
  assumes "steady Q" "te_work_allocation_id e = i" "0 < te_hours e"
    and "held (in_booking b d0) (\<lambda>w. books b {} d0 w \<and> Q (db_project w)) (f ()) C"
  shows "held (in_booking b d0)
    (\<lambda>w. books b {} d0 w \<and> Q (db_project w) \<and> owned i rid (db_project w) \<and> editable rid (te_entry_date e) (db_project w))
    (obind (pt_add (TimeEntryRow e)) (\<lambda>_. obind (session_flush inv_insert) (\<lambda>_. obind (sync_work_allocation_hours i) f))) C"
proof -
  let ?Q = "\<lambda>d. Q d \<and> owned i rid d \<and> editable rid (te_entry_date e) d"
  have Q: "steady ?Q" by (intro steady_conj assms(1) steady_facts)
  have written: "books b {i} d0 w' \<and> ?Q (db_project w')"
    if w: "books b {} d0 w \<and> ?Q (db_project w)" and ins: "inv_insert (ProjectRow (TimeEntryRow e)) w = Inr w'" for w w'
  proof -
    obtain a where a: "a \<in> set (pt_assignments (db_project w))" "a_id a = i" "a_resource_id a = rid"
      using w by (auto simp: owned_def)
    have "timesheets b (insert (a_id a) {}) d0 (db_project w')"
      using timesheets_add_entry [of b "{}" d0 "db_project w" e a] w ins a assms(2,3) unfolding inserted_entry by simp
    then show ?thesis using w ins a(2) Q unfolding inserted_entry steady_def by auto
  qed
  have rest: "held (in_booking b d0) (\<lambda>w. books b {} d0 w \<and> ?Q (db_project w)) (f x) C" for x
    using held_weaken [OF assms(4)] by (cases x) fastforce
  have "held (in_booking b d0) (\<lambda>w. books b {i} d0 w \<and> ?Q (db_project w)) (obind (sync_work_allocation_hours i) f) C"
    by (rule held_bind [OF sync_hours rest]) (use Q in \<open>simp add: steady_def\<close>)
  then show ?thesis
    unfolding pt_add_def
    by (intro stored_add_flush [where B = "\<lambda>w. books b {i} d0 w \<and> ?Q (db_project w)"] steady_books [OF Q] written) simp_all
qed

lemma seed_keeps:
  assumes "steady Q" "py_strip (a_id a) = a_id a"
  shows "held (in_booking b d0) (\<lambda>w. books b {} d0 w \<and> Q (db_project w) \<and> owned (a_id a) (a_resource_id a) (db_project w))
    (seed_legacy_hours_entry env a owner_row resource) (\<lambda>_ w. books b {} d0 w \<and> Q (db_project w))"
  unfolding seed_legacy_hours_entry_def Let_def
proof (rule held_pt_get, rule held_split(1))
  fix entries
  let ?A = "\<lambda>w. (books b {} d0 w \<and> Q (db_project w) \<and> owned (a_id a) (a_resource_id a) (db_project w)) \<and>
    entries = list_entries_by_allocation (a_id a) (db_project w)"
  let ?day = "resolve_legacy_time_entry_date env owner_row"
  let ?e = "\<lambda>ctx i. create_time_entry i (e_now (pe_base env)) (a_id a) (legacy_assignment_id a) ?day (hours_logged a)
    ''Opening balance migrated from existing logged hours.'' None (Some ''system'') ctx"
  show "held (in_booking b d0) ?A (oret None) (\<lambda>_ w. books b {} d0 w \<and> Q (db_project w))" by (rule held_ret) simp
  assume "\<not> (entries \<noteq> [] \<or> hours_logged a \<le> 0)"
  then have hours: "0 < hours_logged a" by simp
  have add: "held (in_booking b d0) (\<lambda>w. books b {} d0 w \<and> Q (db_project w) \<and> owned (a_id a) (a_resource_id a) (db_project w) \<and>
        editable (a_resource_id a) (te_entry_date (?e ctx i)) (db_project w))
      (obind (pt_add (TimeEntryRow (?e ctx i))) (\<lambda>_. obind (session_flush inv_insert) (\<lambda>_.
        obind (sync_work_allocation_hours (a_id a)) (\<lambda>_. oret (Some (?e ctx i))))))
      (\<lambda>_ w. books b {} d0 w \<and> Q (db_project w))" for ctx i
    by (rule stored_add_entry [OF assms(1)]) (use hours assms(2) in \<open>auto intro: held_ret\<close>)
  show "held (in_booking b d0) ?A (obind (ensure_timesheet_period_editable (a_resource_id a) ?day) (\<lambda>_.
      obind (pt_get (resolve_work_entry_context a owner_row resource)) (\<lambda>ctx.
      obind (fresh_uuid (e_uuid (pe_base env))) (\<lambda>i.
      obind (pt_add (TimeEntryRow (?e ctx i))) (\<lambda>_. obind (session_flush inv_insert) (\<lambda>_.
        obind (sync_work_allocation_hours (a_id a)) (\<lambda>_. oret (Some (?e ctx i)))))))))
      (\<lambda>_ w. books b {} d0 w \<and> Q (db_project w))"
    by (rule held_editable, rule stored_neutral_bind, rule call_intros, rule stored_neutral_bind, rule call_intros, rule held_weaken [OF add]) auto
qed

text \<open>The end of a body: the commit and the audit entries.\<close>

lemma stored_end:
  "held (in_booking b d0) (books b {} d0) (commit inv_insert) (\<lambda>_. books b {} d0)"
  "held (in_booking b d0) (books b {} d0) (record_audit inv_insert action ty i) (\<lambda>_. books b {} d0)"
  "held (in_booking b d0) (books b {} d0) (audit_seeded seeded) (\<lambda>_. books b {} d0)"
proof -
  have ends: "held (in_booking b d0) (books b {} d0) (commit inv_insert) (\<lambda>_. books b {} d0)"
    "held (in_booking b d0) (books b {} d0) (record_audit inv_insert action ty i) (\<lambda>_. books b {} d0)" for action ty i
    by (intro stored_commit stored_audit book_fact_undisturbed book_facts; assumption)+
  then show "held (in_booking b d0) (books b {} d0) (commit inv_insert) (\<lambda>_. books b {} d0)"
    "held (in_booking b d0) (books b {} d0) (record_audit inv_insert action ty i) (\<lambda>_. books b {} d0)" .
  show "held (in_booking b d0) (books b {} d0) (audit_seeded seeded) (\<lambda>_. books b {} d0)"
    unfolding audit_seeded_def by (cases seeded) (simp_all add: ends held_ret)
qed

lemma loaded_context:
  "load_work_allocation_context i s = (Inr (a, owner_row, resource), t) \<Longrightarrow> get_assignment_row i (db_project (s_working s)) = Some a"
  unfolding load_work_allocation_context_def pt_get_def by (auto split: option.splits)

lemma assignment_found:
  assumes "get_assignment_row i d = Some a" "shape_ok d"
  shows "a_id a = i" "py_strip (a_id a) = a_id a" "owned i (a_resource_id a) d" "a \<in> set (pt_assignments d)"
  using assms by (auto simp: get_assignment_row_def owned_def shape_ok_def dest: find_row_Some)

text \<open>After the context is loaded, the assignment is in the table.\<close>

lemma held_context:
  assumes "\<And>a owner_row resource. a_id a = i \<Longrightarrow> py_strip i = i \<Longrightarrow>
      held (book_state b d0) (\<lambda>w. A w \<and> get_assignment_row i (db_project w) = Some a) (f a owner_row resource) C"
  shows "held (book_state b d0) A (obind (load_work_allocation_context i) (\<lambda>(a, owner_row, resource). f a owner_row resource)) C"
proof (rule held_read [where F = "\<lambda>x w. get_assignment_row i (db_project w) = Some (fst x)"])
  fix x :: "task_assignment \<times> task option \<times> resource_row option"
  obtain a owner_row resource where x: "x = (a, owner_row, resource)" by (cases x)
  have "held (book_state b d0) (\<lambda>w. A w \<and> get_assignment_row i (db_project w) = Some a) (f a owner_row resource) C"
  proof (rule held_rows, rule held_fact [where Q = "a_id a = i \<and> py_strip i = i"])
    show "a_id a = i \<and> py_strip i = i" if "(A w \<and> get_assignment_row i (db_project w) = Some a) \<and> books b {} d0 w" for w
      using that assignment_found [of i "db_project w" a] by (auto simp: timesheets_def)
    show "held (book_state b d0) (\<lambda>w. (A w \<and> get_assignment_row i (db_project w) = Some a) \<and> books b {} d0 w) (f a owner_row resource) C"
      if "a_id a = i \<and> py_strip i = i"
      by (rule held_weaken [OF assms]) (use that in auto)
  qed
  then show "held (book_state b d0) (\<lambda>w. A w \<and> get_assignment_row i (db_project w) = Some (fst x))
      (case x of (a, owner_row, resource) \<Rightarrow> f a owner_row resource) C"
    by (simp add: x)
qed (auto intro: call_intros dest: loaded_context)

lemmas book_reads_keep [preserve_intros] =
  neutral_assignment_reads [THEN preserves_neutral] neutral_time_reads [THEN preserves_neutral] neutral_any_perm [THEN preserves_neutral]

lemma emit_if_project_keeps [preserve_intros]: "preserves (tables P ok) (emit_if_project pid)"
  unfolding emit_if_project_def by (intro preserve_intros)

lemma add_work_entry_keeps: "preserves (book_state b d0) (add_work_entry env i day hours note)"
  unfolding add_work_entry_def validate_time_entry_hours_def Let_def
proof (rule preserves_guarded, rule keepsI, rule held_neutral_bind, rule call_intros, rule held_context, rule held_editable,
    rule held_guard, rule held_neutral_bind, rule call_intros, rule held_neutral_bind, rule call_intros, rule held_bind, rule held_transaction)
  fix a :: task_assignment and owner_row :: "task option" and resource :: "resource_row option" and ctx new_id
  assume a: "a_id a = i" "py_strip i = i" and hours: "\<not> hours \<le> 0"
  let ?e = "create_time_entry new_id (e_now (pe_base env)) (a_id a) (legacy_assignment_id a) day hours (py_strip note)
    (principal_id env) (principal_username env) ctx"
  let ?Q = "\<lambda>d. True \<and> owned (a_id a) (a_resource_id a) d \<and> editable (a_resource_id a) (te_entry_date ?e) d"
  have Q: "steady ?Q" by (intro steady_conj steady_facts)
  have tail: "held (in_booking b d0) (\<lambda>w. books b {} d0 w \<and> True) (obind (commit inv_insert) (\<lambda>_.
      obind (audit_seeded seeded) (\<lambda>_. record_audit inv_insert ''time_entry.add'' ''time_entry'' (te_id ?e))))
      (\<lambda>_ w. True \<and> books b {} d0 w)" for seeded
    by (rule held_weaken [OF held_bind [OF stored_end(1) held_bind [OF stored_end(3) stored_end(2)]]]) auto
  have entry: "held (in_booking b d0) (\<lambda>w. books b {} d0 w \<and> ?Q (db_project w)) (obind (pt_add (TimeEntryRow ?e)) (\<lambda>_.
      obind (session_flush inv_insert) (\<lambda>_. obind (sync_work_allocation_hours (a_id a)) (\<lambda>_. obind (commit inv_insert) (\<lambda>_.
      obind (audit_seeded seeded) (\<lambda>_. record_audit inv_insert ''time_entry.add'' ''time_entry'' (te_id ?e)))))))
      (\<lambda>_ w. True \<and> books b {} d0 w)" for seeded
    by (rule stored_add_entry [OF steady_facts(3) _ _ tail]) (use a hours in auto)
  show "held (in_booking b d0) (\<lambda>w. ((True \<and> get_assignment_row i (db_project w) = Some a) \<and> editable (a_resource_id a) day (db_project w)) \<and> books b {} d0 w)
      (obind (seed_legacy_hours_entry env a owner_row resource) (\<lambda>seeded. obind (pt_add (TimeEntryRow ?e)) (\<lambda>_.
      obind (session_flush inv_insert) (\<lambda>_. obind (sync_work_allocation_hours (a_id a)) (\<lambda>_. obind (commit inv_insert) (\<lambda>_.
      obind (audit_seeded seeded) (\<lambda>_. record_audit inv_insert ''time_entry.add'' ''time_entry'' (te_id ?e)))))))) (\<lambda>_ w. True \<and> books b {} d0 w)"
    by (rule held_weaken [OF held_bind [OF seed_keeps [OF Q] entry]])
      (use a in \<open>auto simp: timesheets_def dest: assignment_found(3)\<close>)
qed (rule held_preserves, intro preserve_intros)

lemma initialize_timesheet_keeps: "preserves (book_state b d0) (initialize_timesheet env i)"
  unfolding initialize_timesheet_def
proof (rule preserves_guarded, rule keepsI, rule held_neutral_bind, rule call_intros, rule held_context, rule held_bind, rule held_transaction)
  fix a :: task_assignment and owner_row :: "task option" and resource :: "resource_row option"
  assume a: "a_id a = i" "py_strip i = i"
  have tail: "held (in_booking b d0) (\<lambda>w. books b {} d0 w \<and> True) (obind (if seeded = None then oret () else commit inv_insert) (\<lambda>_.
      oret seeded)) (\<lambda>_ w. True \<and> books b {} d0 w)" for seeded :: "time_entry option"
    by (cases "seeded = None")
      (auto intro!: held_ret_bind held_ret held_weaken [OF held_bind [OF stored_end(1) held_ret [where B = "\<lambda>_. books b {} d0"]]])
  show "held (in_booking b d0) (\<lambda>w. (True \<and> get_assignment_row i (db_project w) = Some a) \<and> books b {} d0 w)
      (obind (seed_legacy_hours_entry env a owner_row resource) (\<lambda>seeded.
        obind (if seeded = None then oret () else commit inv_insert) (\<lambda>_. oret seeded))) (\<lambda>_ w. True \<and> books b {} d0 w)"
    by (rule held_weaken [OF held_bind [OF seed_keeps [OF steady_facts(3)] tail]])
      (use a in \<open>auto simp: timesheets_def dest: assignment_found(3)\<close>)
qed (rule held_preserves, unfold audit_seeded_def, intro preserve_intros book_frame.session_keeps)

text \<open>Operations that write entries and let the hours follow.\<close>

lemma save_entries_keeps:
  assumes "\<And>d. A d \<Longrightarrow> timesheets b {} d0 d \<Longrightarrow> timesheets b {te_work_allocation_id e} d0 (g d)"
  shows "held (book_state b d0) (\<lambda>w. A (db_project w)) (save_entries action g e a owner_row) (\<lambda>_ _. True)"
  unfolding save_entries_def
proof (rule held_bind, rule held_transaction, rule held_bind)
  let ?B = "\<lambda>w. books b {te_work_allocation_id e} d0 w"
  show "held (in_booking b d0) (\<lambda>w. A (db_project w) \<and> books b {} d0 w) (pt_update (\<lambda>d. Inr (g d))) (\<lambda>_. ?B)"
    by (rule stored_pt_update) (use assms in simp)
  have sync: "held (in_booking b d0) ?B (sync_work_allocation_hours (te_work_allocation_id e)) (\<lambda>_. books b {} d0)"
    by (rule held_weaken [OF sync_hours [OF hours_facts(4)]]) auto
  show "held (in_booking b d0) ?B (obind (session_flush inv_insert) (\<lambda>_. obind (sync_work_allocation_hours (te_work_allocation_id e))
      (\<lambda>_. obind (commit inv_insert) (\<lambda>_. record_audit inv_insert action ''time_entry'' (te_id e))))) (\<lambda>_ w. True \<and> books b {} d0 w)"
    by (rule held_bind [OF stored_flush held_bind [OF sync held_bind [OF stored_end(1) held_weaken [OF stored_end(2)]]]])
      (auto intro: book_fact_undisturbed book_facts)
qed (rule held_preserves, intro preserve_intros)

lemma held_entry:
  assumes "\<And>e. held (book_state b d0) (\<lambda>w. e \<in> set (pt_time_entries (db_project w)) \<and> te_id e = i) (f e) C"
  shows "held (book_state b d0) (\<lambda>_. True) (obind (require_time_entry i) f) C"
proof (rule held_read [where F = "\<lambda>e w. e \<in> set (pt_time_entries (db_project w)) \<and> te_id e = i"])
  show "e \<in> set (pt_time_entries (db_project (s_working s))) \<and> te_id e = i" if "require_time_entry i s = (Inr e, t)" for s e t
    using that unfolding require_time_entry_def pt_get_def get_time_entry_row_def by (auto split: option.splits dest: find_row_Some)
  show "held (book_state b d0) (\<lambda>w. True \<and> e \<in> set (pt_time_entries (db_project w)) \<and> te_id e = i) (f e) C" for e
    by (rule held_weaken [OF assms]) auto
qed (rule call_intros)

lemma delete_time_entry_keeps: "preserves (book_state b d0) (delete_time_entry env i)"
  unfolding delete_time_entry_def
proof (rule preserves_guarded, rule keepsI, rule held_neutral_bind, rule call_intros, rule held_entry, rule held_context, rule held_editable)
  fix e :: time_entry and a :: task_assignment and owner_row :: "task option" and resource :: "resource_row option"
  assume a: "a_id a = te_work_allocation_id e"
  show "held (book_state b d0) (\<lambda>w. ((e \<in> set (pt_time_entries (db_project w)) \<and> te_id e = i) \<and>
        get_assignment_row (te_work_allocation_id e) (db_project w) = Some a) \<and> editable (a_resource_id a) (te_entry_date e) (db_project w))
      (save_entries ''time_entry.delete'' (delete_time_entry_row (te_id e)) e a owner_row) (\<lambda>_ _. True)"
  proof (rule save_entries_keeps)
    fix d assume d: "((e \<in> set (pt_time_entries d) \<and> te_id e = i) \<and> get_assignment_row (te_work_allocation_id e) d = Some a) \<and>
        editable (a_resource_id a) (te_entry_date e) d" "timesheets b {} d0 d"
    then have "a \<in> set (pt_assignments d)" by (auto simp: get_assignment_row_def dest: find_row_Some)
    then show "timesheets b {te_work_allocation_id e} d0 (delete_time_entry_row (te_id e) d)"
      using timesheets_delete_entry [OF d(2), of e a] d(1) a by auto
  qed
qed

lemma changed_entry_facts:
  "te_id (changed_entry now day hours nt e) = te_id e"
  "te_work_allocation_id (changed_entry now day hours nt e) = te_work_allocation_id e"
  "te_entry_date (changed_entry now day hours nt e) = (case day of None \<Rightarrow> te_entry_date e | Some x \<Rightarrow> x)"
  "te_hours (changed_entry now day hours nt e) = (case hours of None \<Rightarrow> te_hours e | Some h \<Rightarrow> h)"
  by (simp_all add: changed_entry_def given_def split: option.splits)

lemma update_time_entry_keeps: "preserves (book_state b d0) (update_time_entry env i day hours note)"
  unfolding update_time_entry_def Let_def
proof (rule preserves_guarded, rule keepsI, rule held_neutral_bind, rule call_intros, rule held_entry, rule held_context, rule held_editable)
  fix e :: time_entry and a :: task_assignment and owner_row :: "task option" and resource :: "resource_row option"
  assume a: "a_id a = te_work_allocation_id e"
  let ?target = "case day of None \<Rightarrow> te_entry_date e | Some x \<Rightarrow> x"
  let ?e = "changed_entry (e_now (pe_base env)) day hours note e"
  let ?A = "\<lambda>d. ((e \<in> set (pt_time_entries d) \<and> te_id e = i) \<and> get_assignment_row (te_work_allocation_id e) d = Some a) \<and>
    editable (a_resource_id a) (te_entry_date e) d"
  let ?save = "obind (save_entries ''time_entry.update'' (update_time_entry_row ?e) ?e a owner_row) (\<lambda>_. oret ?e)"
  have save: "held (book_state b d0) (\<lambda>w. ?A (db_project w) \<and> editable (a_resource_id a) ?target (db_project w)) ?save (\<lambda>_ _. True)"
    if hours: "\<forall>h. hours = Some h \<longrightarrow> 0 < h"
  proof (rule held_bind [OF save_entries_keeps held_ret])
    fix d assume d: "?A d \<and> editable (a_resource_id a) ?target d" "timesheets b {} d0 d"
    then have row: "a \<in> set (pt_assignments d)" by (auto simp: get_assignment_row_def dest: find_row_Some)
    have "0 < te_hours ?e" using hours d shape_entry [of d e] by (auto simp: changed_entry_facts timesheets_def split: option.splits)
    then show "timesheets b {te_work_allocation_id ?e} d0 (update_time_entry_row ?e d)"
      using timesheets_update_entry [OF d(2), of e ?e a] d(1) a row by (auto simp: changed_entry_facts)
  qed simp
  have checked: "held (book_state b d0) (\<lambda>w. ?A (db_project w) \<and> editable (a_resource_id a) ?target (db_project w))
      (obind (case hours of None \<Rightarrow> oret () | Some h \<Rightarrow> validate_time_entry_hours h) (\<lambda>_. ?save)) (\<lambda>_ _. True)"
  proof (cases hours)
    case (Some h)
    then show ?thesis unfolding validate_time_entry_hours_def using save by (auto intro!: held_guard)
  qed (use save in \<open>auto intro!: held_ret_bind\<close>)
  show "held (book_state b d0) (\<lambda>w. ?A (db_project w))
      (obind (if ?target \<noteq> te_entry_date e then ensure_timesheet_period_editable (a_resource_id a) ?target else oret ())
        (\<lambda>_. obind (case hours of None \<Rightarrow> oret () | Some h \<Rightarrow> validate_time_entry_hours h) (\<lambda>_. ?save))) (\<lambda>_ _. True)"
  proof (cases "?target = te_entry_date e")
    case True
    then show ?thesis by (simp, intro held_ret_bind held_weaken [OF checked]) auto
  next
    case False
    then have "(if ?target \<noteq> te_entry_date e then ensure_timesheet_period_editable (a_resource_id a) ?target else oret ()) =
        ensure_timesheet_period_editable (a_resource_id a) ?target" by simp
    then show ?thesis by (simp only:) (rule held_editable, rule checked)
  qed
qed

section \<open>Periods\<close>

lemma held_book_update:
  assumes "\<And>d. A d \<Longrightarrow> timesheets b {} d0 d \<Longrightarrow> timesheets b {} d0 (g d)"
  shows "held (book_state b d0) (\<lambda>w. A (db_project w)) (pt_update (\<lambda>d. Inr (g d))) (\<lambda>_ _. True)"
  using assms by (auto simp: held_def tables_def pt_update_def)

lemma write_period_keeps:
  assumes "period_follows p p'" "tp_status p \<noteq> TP_APPROVED"
  shows "held (book_state b d0) (\<lambda>w. p \<in> set (pt_periods (db_project w))) (write_period p') (\<lambda>_ _. True)"
  unfolding write_period_def
  by (rule held_bind [OF held_book_update held_preserves [OF book_frame.commit_keeps]]) (rule timesheets_update_period [OF _ _ assms])

lemma inserted_period:
  "inv_insert (ProjectRow (PeriodRow p)) w = Inr w' \<longleftrightarrow>
     tp_id p \<notin> tp_id ` set (pt_periods (db_project w)) \<and>
     (tp_resource_id p, tp_period_start p) \<notin> (\<lambda>p. (tp_resource_id p, tp_period_start p)) ` set (pt_periods (db_project w)) \<and>
     w' = w\<lparr>db_project := (db_project w)\<lparr>pt_periods := pt_periods (db_project w) @ [p]\<rparr>\<rparr>"
proof -
  have "list_ex (\<lambda>x. tp_id x = tp_id p \<or> tp_resource_id x = tp_resource_id p \<and> tp_period_start x = tp_period_start p) ps \<longleftrightarrow>
      tp_id p \<in> tp_id ` set ps \<or> (tp_resource_id p, tp_period_start p) \<in> (\<lambda>p. (tp_resource_id p, tp_period_start p)) ` set ps" for ps
    by (induction ps) auto
  then show ?thesis by auto
qed

lemma find_member: "find P xs = Some x \<Longrightarrow> x \<in> set xs"
  by (auto simp: find_Some_iff)

lemma get_or_create_keeps:
  "held (book_state b d0) (\<lambda>_. True) (get_or_create_timesheet_period env rid day) (\<lambda>p w. p \<in> set (pt_periods (db_project w)))"
  unfolding get_or_create_timesheet_period_def Let_def pt_add_def
proof (rule held_pt_get, rule held_split(2), rule held_neutral_bind, rule call_intros, rule held_weaken [where A = "\<lambda>_. True"],
    rule held_add_flush [where B = "\<lambda>w. _ \<in> set (pt_periods (db_project w))"])
  fix new_id
  let ?p = "create_timesheet_period new_id rid (fst (timesheet_period_bounds day)) (snd (timesheet_period_bounds day))"
  show "undisturbed inv_insert no_time_row (\<lambda>w. True \<and> books b {} d0 w)"
    using book_fact_undisturbed [OF book_facts(1)] by simp
  show "?p \<in> set (pt_periods (db_project w')) \<and> books b {} d0 w'"
    if "books b {} d0 w" "inv_insert (ProjectRow (PeriodRow ?p)) w = Inr w'" for w w'
  proof -
    have bounds: "timesheet_period_bounds (tp_period_start ?p) = (tp_period_start ?p, tp_period_end ?p)"
      by (simp add: create_timesheet_period_def period_start first_day_bounds) (simp add: timesheet_period_bounds_def Let_def)
    show ?thesis
      using timesheets_add_period [OF that(1) _ _ bounds] that(2) unfolding inserted_period by auto
  qed
  show "held (book_state b d0) (\<lambda>w. ?p \<in> set (pt_periods (db_project w))) (oret ?p) (\<lambda>p w. p \<in> set (pt_periods (db_project w)))"
    by (rule held_ret)
next
  fix row and p :: timesheet_period assume "row = Some p"
  then show "held (book_state b d0) (\<lambda>w. True \<and> row = lookup_timesheet_period rid day (db_project w)) (oret p)
      (\<lambda>p w. p \<in> set (pt_periods (db_project w)))"
    by (intro held_ret) (auto simp: lookup_timesheet_period_def get_by_resource_period_def dest: find_member)
qed simp_all

lemma held_period:
  assumes "\<And>p. tp_id p = i \<Longrightarrow> held (book_state b d0) (\<lambda>w. p \<in> set (pt_periods (db_project w))) (f p) C"
  shows "held (book_state b d0) (\<lambda>_. True) (obind (require_timesheet_period i) f) C"
proof (rule held_read [where F = "\<lambda>p w. p \<in> set (pt_periods (db_project w)) \<and> tp_id p = i"])
  show "p \<in> set (pt_periods (db_project (s_working s))) \<and> tp_id p = i" if "require_timesheet_period i s = (Inr p, t)" for s p t
    using that unfolding require_timesheet_period_def pt_get_def get_period_row_def by (auto split: option.splits dest: find_row_Some)
  show "held (book_state b d0) (\<lambda>w. True \<and> p \<in> set (pt_periods (db_project w)) \<and> tp_id p = i) (f p) C" for p
    by (rule held_fact [where Q = "tp_id p = i"]) (auto intro: held_weaken [OF assms])
qed (rule call_intros)

lemma announce_period_keeps [preserve_intros]: "preserves (book_state b d0) (announce_period action p entries)"
  unfolding announce_period_def emit_timesheet_period_events_def by (intro preserve_intros book_frame.session_keeps)

lemma period_follows_step:
  "tp_id p' = tp_id p \<Longrightarrow> tp_resource_id p' = tp_resource_id p \<Longrightarrow> tp_period_start p' = tp_period_start p \<Longrightarrow>
   tp_period_end p' = tp_period_end p \<Longrightarrow> period_move (tp_status p) (tp_status p') \<Longrightarrow> period_follows p p'"
  unfolding period_follows_def by (cases "tp_status p'"; cases "tp_status p") (auto intro: r_into_rtranclp)

lemma submission_move: "\<not> frozen_status st \<Longrightarrow> period_move st TP_SUBMITTED"
  by (cases st) (simp_all add: frozen_status_def)

lemma lock_move: "st \<noteq> TP_APPROVED \<Longrightarrow> period_move st TP_LOCKED"
  by (cases st) simp_all

lemma period_changes_follow:
  "\<not> frozen_status (tp_status p) \<Longrightarrow> period_follows p (with_submission env note p)"
  "tp_status p = TP_SUBMITTED \<Longrightarrow> st \<in> {TP_APPROVED, TP_REJECTED} \<Longrightarrow> period_follows p (with_decision env st note p)"
  "tp_status p \<noteq> TP_APPROVED \<Longrightarrow> period_follows p (p\<lparr>tp_status := TP_LOCKED, tp_locked_at := x, tp_decision_note := y\<rparr>)"
  "tp_status p = TP_LOCKED \<Longrightarrow> period_follows p (p\<lparr>tp_status := TP_OPEN, tp_locked_at := x, tp_decision_note := y\<rparr>)"
  by (rule period_follows_step; auto simp: with_submission_def with_decision_def submission_move lock_move)+

lemma submit_period_keeps: "preserves (book_state b d0) (submit_timesheet_period env rid day note)"
  unfolding submit_timesheet_period_def Let_def
  by (rule preserves_guarded, rule keepsI, rule held_neutral_bind, rule call_intros, rule held_neutral_bind, rule call_intros,
      rule held_guard, rule held_bind, rule get_or_create_keeps, rule held_guard, rule held_bind, rule write_period_keeps,
      rule period_changes_follow, assumption, simp add: frozen_status_def, rule held_preserves, intro preserve_intros)

lemma decide_period_keeps: "st \<in> {TP_APPROVED, TP_REJECTED} \<Longrightarrow> preserves (book_state b d0) (decide_timesheet_period env st action i note)"
  unfolding decide_timesheet_period_def Let_def
  by (rule preserves_guarded, rule keepsI, rule held_neutral_bind, rule call_intros, rule held_period, rule held_guard,
      rule held_neutral_bind, rule call_intros, rule held_bind, rule write_period_keeps, rule period_changes_follow, simp, assumption,
      simp, rule held_preserves, intro preserve_intros)

lemma lock_period_keeps: "preserves (book_state b d0) (lock_timesheet_period env rid day note)"
  unfolding lock_timesheet_period_def Let_def
  by (rule preserves_guarded, rule keepsI, rule held_neutral_bind, rule call_intros, rule held_bind, rule get_or_create_keeps,
      rule held_guard, rule held_bind, rule write_period_keeps, rule period_changes_follow, assumption, assumption,
      rule held_preserves, intro preserve_intros)

lemma unlock_period_keeps: "preserves (book_state b d0) (unlock_timesheet_period env i note)"
  unfolding unlock_timesheet_period_def Let_def
  by (rule preserves_guarded, rule keepsI, rule held_neutral_bind, rule call_intros, rule held_period, rule held_guard,
      rule held_neutral_bind, rule call_intros, rule held_bind, rule write_period_keeps, rule period_changes_follow, simp, simp,
      rule held_preserves, intro preserve_intros)

end
