(* ===== verification/Assignment_Keeps.thy ===== *)
theory Assignment_Keeps
  imports Time_Keeps
begin

text \<open>
  The assignment service and the deletion of a task keep the books; what is deleted with its
  entries leaves the periods alone, but not the entries of approved ones, so these calls keep
  them with \<open>b = False\<close> only. Fresh identifiers carry no blanks, as those of
  \<^verbatim>\<open>uuid4\<close> do.
\<close>

section \<open>Deletions\<close>

lemma timesheets_delete_assignment:
  assumes "timesheets False {} d0 d"
  shows "timesheets False {} d0 (delete_assignment_row i (delete_time_entries [i] d))"
  by (rule timesheets_fewer [OF assms, where K = "\<lambda>j. j \<noteq> i"]) (simp_all add: delete_assignment_row_def delete_time_entries_def)

lemma timesheets_delete_task:
  assumes "timesheets False {} d0 d"
  shows "timesheets False {} d0 (delete_task_rows pid i d)"
proof (rule timesheets_fewer [OF assms, where K = "\<lambda>j. j \<notin> a_id ` set (list_assignments_by_task i d)"])
  let ?d = "delete_task_rows pid i d"
  have shape: "shape_ok d" using assms by (simp add: timesheets_def)
  have same: "(a_id a \<notin> a_id ` set (list_assignments_by_task i d)) = (a_task_id a \<noteq> i)" if "a \<in> set (pt_assignments d)" for a
    using shape_assignment [OF shape that] that by (auto simp: list_assignments_by_task_def)
  show "pt_assignments ?d = filter (\<lambda>a. a_id a \<notin> a_id ` set (list_assignments_by_task i d)) (pt_assignments d)"
    by (simp add: delete_task_rows_def delete_costs_def delete_dependencies_for_task_def delete_time_entries_def Let_def cong: filter_cong)
      (use same in \<open>auto intro!: filter_cong\<close>)
  show "pt_time_entries ?d = filter (\<lambda>e. te_work_allocation_id e \<notin> a_id ` set (list_assignments_by_task i d)) (pt_time_entries d)"
    "pt_periods ?d = pt_periods d"
    by (simp_all add: delete_task_rows_def delete_costs_def delete_dependencies_for_task_def delete_time_entries_def Let_def)
qed

lemma book_write_keeps: "(\<And>d. timesheets b {} d0 d \<Longrightarrow> timesheets b {} d0 (g d)) \<Longrightarrow> preserves (book_state b d0) (pt_update (\<lambda>d. Inr (g d)))"
  by (rule keepsI, rule held_book_update)

lemma book_session_keeps [preserve_intros]:
  "preserves (book_state b d0) (commit inv_insert)" "preserves (book_state b d0) (record_audit inv_insert action ty i)"
  by (rule book_frame.session_keeps)+

lemma delete_task_keeps_books: "preserves (book_state False d0) (delete_task env i)"
  unfolding delete_task_def manage_task_def
  by (rule preserves_guarded, intro preserve_intros book_write_keeps timesheets_delete_task)

text \<open>An assignment and its task, read in one go.\<close>

lemma loaded_assignment:
  "assignment_with_task i s = (Inr (a, t), s') \<Longrightarrow> get_assignment_row i (db_project (s_working s)) = Some a"
  unfolding assignment_with_task_def existing_task_def pt_get_def by (auto split: option.splits)

lemma held_assignment:
  assumes "\<And>a t. a_id a = i \<Longrightarrow> held (book_state b d0) (\<lambda>w. a \<in> set (pt_assignments (db_project w))) (f a t) C"
  shows "held (book_state b d0) (\<lambda>_. True) (obind (assignment_with_task i) (\<lambda>(a, t). f a t)) C"
proof (rule held_read [where F = "\<lambda>x w. fst x \<in> set (pt_assignments (db_project w)) \<and> a_id (fst x) = i"])
  show "fst x \<in> set (pt_assignments (db_project (s_working s))) \<and> a_id (fst x) = i"
    if "assignment_with_task i s = (Inr x, t)" for s x t
    using loaded_assignment [of i s "fst x" "snd x" t] that by (auto simp: get_assignment_row_def dest: find_row_Some)
  show "held (book_state b d0) (\<lambda>w. True \<and> fst x \<in> set (pt_assignments (db_project w)) \<and> a_id (fst x) = i) (case x of (a, t) \<Rightarrow> f a t) C" for x
    by (cases x, rule held_fact [where Q = "a_id (fst x) = i"]) (auto intro: held_weaken [OF assms])
qed (rule call_intros)

lemma unassign_keeps: "preserves (book_state False d0) (unassign_resource env i)"
  unfolding unassign_resource_def
proof (rule preserves_guarded, rule keepsI, rule held_assignment)
  fix a :: task_assignment and t :: task assume "a_id a = i"
  then have "preserves (book_state False d0) (pt_update (\<lambda>d. Inr (delete_assignment_row i (delete_time_entries [a_id a] d))))"
    by (intro book_write_keeps) (simp add: timesheets_delete_assignment)
  then show "held (book_state False d0) (\<lambda>w. a \<in> set (pt_assignments (db_project w))) (obind (require_manage env (Some (t_project_id t))) (\<lambda>_.
      obind (try_rollback (obind (pt_update (\<lambda>d. Inr (delete_assignment_row i (delete_time_entries [a_id a] d)))) (\<lambda>_.
        obind (commit inv_insert) (\<lambda>_. record_audit inv_insert ''assignment.remove'' ''task_assignment'' (a_id a))))) (\<lambda>_.
      emit ''tasks_changed'' (t_project_id t)))) (\<lambda>_ _. True)"
    by (intro held_preserves preserve_intros)
qed

section \<open>Changes\<close>

lemma save_assignment_keeps:
  assumes "\<And>d. A d \<Longrightarrow> timesheets b {} d0 d \<Longrightarrow> timesheets b {} d0 (update_assignment_row a d)"
  shows "held (book_state b d0) (\<lambda>w. A (db_project w)) (save_assignment action t a) (\<lambda>_ _. True)"
  unfolding save_assignment_def
  by (rule held_bind, rule held_try(2), rule held_bind, rule held_book_update, erule assms, assumption)
    (rule held_preserves, intro preserve_intros)+

lemma allocation_keeps: "preserves (book_state b d0) (set_assignment_allocation env i alloc)"
  unfolding set_assignment_allocation_def
proof (rule preserves_guarded, rule keepsI, rule held_neutral_bind, rule call_intros, rule held_assignment, rule held_neutral_bind, rule call_intros,
    rule held_neutral_bind, rule call_intros, rule save_assignment_keeps)
  fix a :: task_assignment and d assume d: "a \<in> set (pt_assignments d)" "timesheets b {} d0 d"
  then have "0 \<le> hours_logged a" "hours_match {} d" by (auto simp: timesheets_def shape_ok_def)
  then show "timesheets b {} d0 (update_assignment_row (a\<lparr>allocation_percent := alloc\<rparr>) d)"
    using d(1) by (intro timesheets_update_assignment [OF d(2,1)]) (auto simp: hours_match_def)
qed

lemma hours_keeps: "preserves (book_state b d0) (set_assignment_hours env i hours)"
  unfolding set_assignment_hours_def
proof (rule preserves_guarded, rule keepsI, rule held_guard, rule held_pt_get, rule held_split(2), rule held_raise, rule held_pt_get, rule held_guard,
    rule held_neutral_bind, rule call_intros, rule held_neutral_bind, rule call_intros)
  fix row and a :: task_assignment and entries :: "time_entry list" and t :: task
  assume hours: "\<not> hours < 0" and row: "row = Some a" and none: "\<not> entries \<noteq> []"
  have none: "te_work_allocation_id e \<noteq> i" if "[] = list_entries_by_allocation i d" "e \<in> set (pt_time_entries d)" for d e
  proof -
    have "set (list_entries_by_allocation i d) = {e \<in> set (pt_time_entries d). te_work_allocation_id e = i}"
      by (simp add: list_entries_by_allocation_def)
    then show ?thesis using that by auto
  qed
  have "held (book_state b d0) (\<lambda>w. (Some a = get_assignment_row i (db_project w)) \<and> [] = list_entries_by_allocation i (db_project w))
      (save_assignment ''assignment.log_hours'' t (a\<lparr>hours_logged := hours\<rparr>)) (\<lambda>_ _. True)"
  proof (rule save_assignment_keeps)
    fix d assume d: "Some a = get_assignment_row i d \<and> [] = list_entries_by_allocation i d" "timesheets b {} d0 d"
    then have a: "a \<in> set (pt_assignments d)" "a_id a = i"
      using assignment_found [of i d a] by (auto simp: timesheets_def)
    show "timesheets b {} d0 (update_assignment_row (a\<lparr>hours_logged := hours\<rparr>) d)"
      by (rule timesheets_update_assignment [OF d(2) a(1)]) (use hours a none [of d] d(1) in auto)
  qed
  then show "held (book_state b d0) (\<lambda>w. (True \<and> row = get_assignment_row i (db_project w)) \<and> entries = list_entries_by_allocation i (db_project w))
      (save_assignment ''assignment.log_hours'' t (a\<lparr>hours_logged := hours\<rparr>)) (\<lambda>_ _. True)"
    by (rule held_weaken) (use row \<open>\<not> entries \<noteq> []\<close> in auto)
qed

section \<open>New assignments\<close>

lemma inserted_assignment:
  "inv_insert (ProjectRow (AssignmentRow a)) w = Inr w' \<longleftrightarrow>
     a_id a \<notin> a_id ` set (pt_assignments (db_project w)) \<and>
     w' = w\<lparr>db_project := (db_project w)\<lparr>pt_assignments := pt_assignments (db_project w) @ [a]\<rparr>\<rparr>"
  by (simp add: list_ex_iff image_iff) metis

lemma held_uuid:
  assumes "plain_uuids env" "\<And>i. py_strip i = i \<Longrightarrow> held (tables P ok) A (f i) C"
  shows "held (tables P ok) A (obind (fresh_uuid (e_uuid (pe_base env))) f) C"
proof (rule held_read [where F = "\<lambda>i _. py_strip i = i"])
  show "py_strip i = i" if "fresh_uuid (e_uuid (pe_base env)) s = (Inr i, t)" for s i t
    using that assms(1) by (auto simp: fresh_uuid_def plain_uuids_def)
  show "held (tables P ok) (\<lambda>w. A w \<and> py_strip i = i) (f i) C" for i
    by (rule held_conj_fact, rule assms(2))
qed (rule call_intros)

lemma assign_project_keeps:
  assumes "plain_uuids env"
  shows "preserves (book_state b d0) (assign_project_resource env tid prid alloc)"
  unfolding assign_project_resource_def Let_def pt_add_def
proof (rule preserves_guarded, rule keepsI, rule held_neutral_bind, rule call_intros, rule held_neutral_bind, rule call_intros,
    rule held_neutral_bind, rule call_intros, rule held_pt_get, rule held_split(2), rule held_raise, rule held_guard, rule held_guard,
    rule held_neutral_bind, rule call_intros, rule held_uuid [OF assms], rule held_bind, rule held_transaction)
  fix row :: "project_resource option" and pr :: project_resource and new_id :: string assume new_id: "py_strip new_id = new_id"
  let ?a = "(create_assignment_row new_id tid (pr_resource_id pr) alloc)\<lparr>project_resource_id := Some (pr_id pr)\<rparr>"
  have facts: "py_strip (a_id ?a) = a_id ?a" "hours_logged ?a = 0" using new_id by (simp_all add: create_assignment_row_def)
  have "held (in_booking b d0) (books b {} d0) (obind (session_add (ProjectRow (AssignmentRow ?a))) (\<lambda>_. obind (commit inv_insert)
      (\<lambda>_. record_audit inv_insert ''assignment.add'' ''task_assignment'' (a_id ?a)))) (\<lambda>_. books b {} d0)"
  proof (rule stored_add_commit [where B = "books b {} d0"])
    show "books b {} d0 w'" if "books b {} d0 w" "inv_insert (ProjectRow (AssignmentRow ?a)) w = Inr w'" for w w'
      using timesheets_add_assignment [OF that(1) _ facts] that(2) unfolding inserted_assignment by auto
  qed (auto intro: book_fact_undisturbed book_facts stored_end)
  then show "held (in_booking b d0) (\<lambda>w. (True \<and> row = find_row pr_id (pt_project_resources (db_project w)) prid) \<and> books b {} d0 w)
      (obind (session_add (ProjectRow (AssignmentRow ?a))) (\<lambda>_. obind (commit inv_insert)
        (\<lambda>_. record_audit inv_insert ''assignment.add'' ''task_assignment'' (a_id ?a)))) (\<lambda>_ w. True \<and> books b {} d0 w)"
    by (rule held_weaken) auto
qed (rule held_preserves, intro preserve_intros)

lemma assign_keeps:
  assumes "plain_uuids env"
  shows "preserves (book_state b d0) (assign_resource env tid rid alloc)"
proof -
  have enrol: "preserves (book_state b d0) (enrol_resource env pid r)" for pid r
    unfolding enrol_resource_def pt_add_def Let_def by (intro preserve_intros preserves_add) simp
  show ?thesis
    unfolding assign_resource_def
    by (intro preserves_guarded preserve_intros enrol assign_project_keeps assms preserves_neutral [OF neutral_pt_get])
qed

section \<open>Steps\<close>

lemma decide_calls_keep:
  "preserves (book_state b d0) (approve_timesheet_period env i note)" "preserves (book_state b d0) (reject_timesheet_period env i note)"
  unfolding approve_timesheet_period_def reject_timesheet_period_def by (rule decide_period_keeps, simp)+

lemmas time_calls_keep =
  hours_keeps allocation_keeps initialize_timesheet_keeps add_work_entry_keeps update_time_entry_keeps delete_time_entry_keeps
  submit_period_keeps decide_calls_keep lock_period_keeps unlock_period_keeps

lemma time_step_keeps_books: "time_step s t \<Longrightarrow> book_state b d0 s \<Longrightarrow> book_state b d0 t"
  by (induction rule: time_step.induct)
    ((rule preservesD, rule time_calls_keep, assumption, assumption) | (rule preservesD, rule assign_keeps assign_project_keeps, assumption+))+

end
