(* ===== verification/App_Books.thy ===== *)
theory App_Books
  imports App_Runs Assignment_Keeps
begin

text \<open>
  The books of the timesheets in the runs of all services: the other services leave the three
  tables alone, and only the deletion of tasks and assignments takes entries of an approved
  month away.
\<close>

section \<open>The other services\<close>

lemma book_reads [preserve_intros]:
  "preserves (book_state b d0) (pt_get g)"
  by (rule preserves_neutral, rule call_intros)

lemma task_writes_keep_books [preserve_intros]:
  "preserves (book_state b d0) (update_task_row t)" "preserves (book_state b d0) (pt_add (TaskRow t))"
  "preserves (book_state b d0) (pt_add (DependencyRow x))" "preserves (book_state b d0) (pt_update (\<lambda>d. Inr (delete_dependency i d)))"
proof -
  have same: "timesheets b {} d0 (d\<lparr>pt_tasks := ts\<rparr>) = timesheets b {} d0 d" for d ts
    by (rule timesheets_cong) simp_all
  have "preserves (book_state b d0) (pt_update (\<lambda>d. rbind (f d) (\<lambda>rows. Inr (d\<lparr>pt_tasks := rows\<rparr>))))" for f
    unfolding preserves_def pt_update_def by (auto simp: tables_def rbind_Inl_iff same split: sum.splits)
  then show "preserves (book_state b d0) (update_task_row t)" unfolding update_task_row_def by (intro preserve_intros)
  show "preserves (book_state b d0) (pt_add (TaskRow t))" "preserves (book_state b d0) (pt_add (DependencyRow x))"
    unfolding pt_add_def by (rule preserves_add, simp)+
  have "timesheets b {} d0 (delete_dependency i d) = timesheets b {} d0 d" for d
    by (rule timesheets_cong) (simp_all add: delete_dependency_def)
  then show "preserves (book_state b d0) (pt_update (\<lambda>d. Inr (delete_dependency i d)))"
    by (intro book_write_keeps) simp
qed

lemmas task_reads_keep_books =
  neutral_task_reads [THEN book_frame.reads_keep] neutral_diagnostics [THEN book_frame.reads_keep] neutral_guards [THEN book_frame.reads_keep]

lemma schedule_keeps_books [preserve_intros]:
  "preserves (book_state b d0) (recalculate_project_schedule env pid persist)" "preserves (book_state b d0) (sync_project_schedule env pid')"
  "preserves (book_state b d0) (save_task action t)"
  unfolding sync_project_schedule_def recalculate_project_schedule_def committing_def store_task_def save_task_def
  by (intro preserve_intros)+

lemma task_calls_keep_books:
  "preserves (book_state b d0) (create_task env pid name desc start n st prio deadline)"
  "preserves (book_state b d0) (set_status env i st)"
  "preserves (book_state b d0) (update_task env i c v)" "preserves (book_state b d0) (update_progress env i p x y st' v)"
  "preserves (book_state b d0) (add_dependency env pr su ty lag bypass)" "preserves (book_state b d0) (remove_dependency env i bypass)"
  unfolding create_task_def set_status_def update_task_def update_progress_def add_dependency_def remove_dependency_def
    manage_task_def guarded_def Let_def
  by (intro preserve_intros task_reads_keep_books book_frame.request_change_frame)+

lemma app_handlers_keep_books: "app_apply_handlers env visit tenv (ap_request_type r) = Some h \<Longrightarrow> preserves (book_state b d0) (h r')"
  unfolding app_apply_handlers_def map_add_Some_iff
  by (auto simp: project_apply_handlers_def book_frame.own_handlers_keep(1) split: if_splits approval_payload.splits
      intro!: preserve_intros task_calls_keep_books)

lemma app_approval_keeps_books: "preserves (book_state b d0) (approve_and_apply aenv (app_apply_handlers aenv visit env) i note)"
  by (rule book_frame.decisions_keep(1), drule app_handlers_keep_books, assumption)

section \<open>Runs\<close>

lemmas lasting_calls_keep_books = task_calls_keep_books schedule_keeps_books(1) app_approval_keeps_books

lemma lasting_step_keeps_books: "lasting_step s t \<Longrightarrow> book_state b d0 s \<Longrightarrow> book_state b d0 t"
  by (induction rule: lasting_step.induct)
    ((rule preservesD, rule lasting_calls_keep_books, assumption, assumption) | (rule book_frame.procurement_step_frame, assumption, assumption) |
      (rule time_step_keeps_books, assumption, assumption))+

lemmas deletions_keep_books = delete_task_keeps_books unassign_keeps

lemma app_step_keeps_books: "app_step s t \<Longrightarrow> book_state False d0 s \<Longrightarrow> book_state False d0 t"
  by (induction rule: app_step.induct)
    ((rule lasting_step_keeps_books, assumption, assumption) | (rule preservesD, rule deletions_keep_books, assumption, assumption))+

definition books_ok :: "project_tables \<Rightarrow> bool" where
  "books_ok d \<longleftrightarrow> shape_ok d \<and> hours_match {} d"

lemma books_start: "clean s \<Longrightarrow> books_ok (db_project (s_committed s)) \<Longrightarrow> book_state b (db_project (s_committed s)) s"
  by (simp add: tables_def clean_def books_ok_def timesheets_def time_history_refl)

lemma run_keeps_books:
  assumes "clean s" "books_ok (db_project (s_committed s))" "app_step\<^sup>*\<^sup>* s t"
  shows "timesheets False {} (db_project (s_committed s)) (db_project (s_committed t))"
proof -
  have "book_state False (db_project (s_committed s)) t"
    using assms(3) by (induction rule: rtranclp_induct) (auto intro: books_start [OF assms(1,2)] app_step_keeps_books)
  then show ?thesis by (simp add: tables_def)
qed

lemma lasting_run_keeps_books:
  assumes "clean s" "books_ok (db_project (s_committed s))" "lasting_step\<^sup>*\<^sup>* s t"
  shows "timesheets True {} (db_project (s_committed s)) (db_project (s_committed t))"
proof -
  have "book_state True (db_project (s_committed s)) t"
    using assms(3) by (induction rule: rtranclp_induct) (auto intro: books_start [OF assms(1,2)] lasting_step_keeps_books)
  then show ?thesis by (simp add: tables_def)
qed

end
