(* ===== verification/Time_Properties.thy ===== *)
theory Time_Properties
  imports App_Books
begin

text \<open>
  What holds of the timesheets in every state the services reach: the hours of assignments, the
  periods and their entries. The check for over-allocation against its specification.
\<close>

section \<open>Hours\<close>

text \<open>
  C12: Logged hours are accounted for: in every state the services reach, also after calls that
  raised, every time entry has positive hours and an existing assignment, and the logged hours of
  an assignment that has entries are the sum of their hours.
\<close>

theorem hours_match_entries:
  assumes "clean s" and "books_ok (db_project (s_committed s))" and "app_step\<^sup>*\<^sup>* s t"
  shows "(\<forall>e \<in> set (pt_time_entries (db_project (s_committed t))). 0 < te_hours e \<and>
      (\<exists>a. get_assignment_row (te_work_allocation_id e) (db_project (s_committed t)) = Some a)) \<and>
    (\<forall>a \<in> set (pt_assignments (db_project (s_committed t))).
      list_entries_by_allocation (a_id a) (db_project (s_committed t)) \<noteq> [] \<longrightarrow>
      hours_logged a = sum_list (map te_hours (list_entries_by_allocation (a_id a) (db_project (s_committed t)))))"
proof -
  let ?d = "db_project (s_committed t)"
  have ok: "shape_ok ?d" "hours_match {} ?d" using run_keeps_books [OF assms] by (simp_all add: timesheets_def)
  have "\<exists>a. get_assignment_row (te_work_allocation_id e) ?d = Some a" if e: "e \<in> set (pt_time_entries ?d)" for e
  proof -
    obtain a where "a \<in> set (pt_assignments ?d)" "a_id a = te_work_allocation_id e"
      using shape_entry [OF ok(1) e] by (metis imageE)
    moreover have "distinct (map a_id (pt_assignments ?d))" using ok(1) by (simp add: shape_ok_def)
    ultimately show ?thesis
      using find_row_distinct [of a_id "pt_assignments ?d" a] by (auto simp: get_assignment_row_def)
  qed
  moreover have "\<exists>e \<in> set (pt_time_entries ?d). te_work_allocation_id e = i" if "list_entries_by_allocation i ?d \<noteq> []" for i
  proof -
    have "set (list_entries_by_allocation i ?d) \<noteq> {}" using that by simp
    then show ?thesis by (auto simp: list_entries_by_allocation_def)
  qed
  ultimately show ?thesis
    using shape_entry [OF ok(1)] ok(2) by (auto simp: hours_match_def total_of_listed)
qed

section \<open>Periods\<close>

text \<open>
  C29: A timesheet period is a month: the bounds of the period of a day enclose exactly the days
  of the same year and month, and the days of one month have one period.
\<close>

theorem period_is_the_month:
  "fst (timesheet_period_bounds day) \<le> x \<and> x \<le> snd (timesheet_period_bounds day) \<longleftrightarrow>
     year_of x = year_of day \<and> month_of x = month_of day"
  unfolding in_period_iff by (rule same_first_day)

text \<open>
  C27: Periods never overlap: in every state the services reach, a day lies in at most one
  timesheet period of a resource.
\<close>

theorem periods_never_overlap:
  assumes "clean s" and "books_ok (db_project (s_committed s))" and "app_step\<^sup>*\<^sup>* s t"
    and "p \<in> set (pt_periods (db_project (s_committed t)))" and "q \<in> set (pt_periods (db_project (s_committed t)))"
    and "tp_resource_id p = tp_resource_id q"
    and "tp_period_start p \<le> day" "day \<le> tp_period_end p" "tp_period_start q \<le> day" "day \<le> tp_period_end q"
  shows "p = q"
proof -
  have ok: "shape_ok (db_project (s_committed t))" using run_keeps_books [OF assms(1-3)] by (simp add: timesheets_def)
  have start: "replace_day day 1 = tp_period_start r"
    if "r \<in> set (pt_periods (db_project (s_committed t)))" "tp_period_start r \<le> day" "day \<le> tp_period_end r" for r
  proof -
    have bounds: "timesheet_period_bounds (tp_period_start r) = (tp_period_start r, tp_period_end r)"
      using ok that(1) by (simp add: shape_ok_def)
    then show ?thesis
      using in_period_iff [of "tp_period_start r" day] period_start [of "tp_period_start r"] that(2,3) by simp
  qed
  have "tp_period_start p = tp_period_start q" using start assms(4-) by metis
  then show ?thesis using period_by_start [OF ok] assms(4-6) by (metis option.inject)
qed


text \<open>What the review shows of a period is \<open>period_entries\<close>.\<close>

lemma reviewed_entries:
  assumes "replace_day (tp_period_start p) 1 = tp_period_start p"
  shows "set (resource_period_entries (tp_resource_id p) (tp_period_start p) d) = period_entries p d"
  unfolding set_resource_period_entries period_entries_def assms ..

lemma period_starts_month:
  assumes "books_ok d" "get_period_row i d = Some p"
  shows "replace_day (tp_period_start p) 1 = tp_period_start p"
proof -
  have "timesheet_period_bounds (tp_period_start p) = (tp_period_start p, tp_period_end p)"
    using assms by (auto simp: books_ok_def shape_ok_def get_period_row_def dest: find_row_Some)
  then show ?thesis using period_start [of "tp_period_start p"] by simp
qed

text \<open>
  C11: Approved periods are frozen: whatever calls follow, an approved period stays as it is, and
  none of the entries the review shows of it is changed and none is added. (Entries can go: the
  deletion of a task or an assignment takes them away.)
\<close>

theorem approved_periods_frozen:
  assumes "clean s" and "books_ok (db_project (s_committed s))" and "app_step\<^sup>*\<^sup>* s t"
    and "get_period_row i (db_project (s_committed s)) = Some p" and "tp_status p = TP_APPROVED"
  shows "get_period_row i (db_project (s_committed t)) = Some p \<and>
    set (resource_period_entries (tp_resource_id p) (tp_period_start p) (db_project (s_committed t))) \<subseteq>
    set (resource_period_entries (tp_resource_id p) (tp_period_start p) (db_project (s_committed s)))"
  using run_keeps_books [OF assms(1-3)] assms(4,5) reviewed_entries [OF period_starts_month [OF assms(2,4)]]
  unfolding timesheets_def time_history_def period_follows_def by fastforce

text \<open>No entry is listed twice.\<close>

lemma distinct_resource_entries:
  assumes "shape_ok d"
  shows "distinct (resource_period_entries rid day d)"
proof -
  have "distinct (concat (map (\<lambda>a. filter Q (list_entries_by_allocation (a_id a) d)) as))"
    if "distinct (map a_id as)" for as and Q
    using that
  proof (induction as)
    case (Cons a as)
    have "distinct (pt_time_entries d)" using assms by (auto simp: shape_ok_def distinct_map)
    then have "distinct (filter Q (list_entries_by_allocation (a_id a) d))" by (simp add: list_entries_by_allocation_def)
    moreover have "set (filter Q (list_entries_by_allocation (a_id a) d)) \<inter>
        set (concat (map (\<lambda>a. filter Q (list_entries_by_allocation (a_id a) d)) as)) = {}"
      using Cons.prems by (auto simp: list_entries_by_allocation_def image_iff)
    ultimately show ?case using Cons by simp
  qed simp
  moreover have "distinct (map a_id (list_assignments_by_resource rid d))"
    using assms by (simp add: shape_ok_def list_assignments_by_resource_def distinct_map_filter)
  ultimately show ?thesis by (simp add: resource_period_entries_def case_prod_beta' Let_def)
qed

text \<open>
  C33: Approved hours stay: as long as nobody deletes a task or removes an assignment, the review
  of an approved period shows the same total of hours after any other calls of the services, by
  any user and with any outcome: updates of tasks, dependencies and schedules, procurement and
  approvals as well as assignments, bookings and moves of periods.
\<close>

theorem approved_hours_kept:
  assumes "clean s" and "books_ok (db_project (s_committed s))" and "lasting_step\<^sup>*\<^sup>* s t"
    and "get_period_row i (db_project (s_committed s)) = Some p" and "tp_status p = TP_APPROVED"
  shows "sum_list (map te_hours (resource_period_entries (tp_resource_id p) (tp_period_start p) (db_project (s_committed t)))) =
    sum_list (map te_hours (resource_period_entries (tp_resource_id p) (tp_period_start p) (db_project (s_committed s))))"
proof -
  let ?rows = "\<lambda>s. resource_period_entries (tp_resource_id p) (tp_period_start p) (db_project (s_committed s))"
  have books: "timesheets True {} (db_project (s_committed s)) (db_project (s_committed t))"
    by (rule lasting_run_keeps_books [OF assms(1-3)])
  then have "set (?rows t) = set (?rows s)"
    using assms(4,5) reviewed_entries [OF period_starts_month [OF assms(2,4)]] unfolding timesheets_def time_history_def by fastforce
  moreover have "distinct (?rows t)" "distinct (?rows s)"
    using books assms(2) distinct_resource_entries by (auto simp: timesheets_def books_ok_def)
  ultimately have "mset (?rows t) = mset (?rows s)" by (simp add: set_eq_iff_mset_eq_distinct)
  then show ?thesis by (metis mset_map sum_mset_sum_list)
qed

end
