(* ===== verification/Assignment_Properties.thy ===== *)
theory Assignment_Properties
  imports Task_Assignments Task_Keeps
begin

text \<open>
  The check for over-allocation against its specification: the load of a resource on a day.
\<close>

section \<open>The specification\<close>

text \<open>Whether an assignment loads its resource on a day, as far as a project sees it.\<close>

definition loads_day :: "project_tables \<Rightarrow> string \<Rightarrow> string option \<Rightarrow> date \<Rightarrow> task_assignment \<Rightarrow> bool" where
  "loads_day d pid excluded x a \<longleftrightarrow>
     (excluded \<noteq> Some (a_id a) \<or> a_id a = []) \<and> 0 < allocation_percent a \<and>
     (case get_task_row (a_task_id a) d of
        None \<Rightarrow> False
      | Some t \<Rightarrow> t_project_id t = pid \<and>
          (case (t_start_date t, t_end_date t) of (Some ts, Some te) \<Rightarrow> ts \<le> x \<and> x \<le> te | _ \<Rightarrow> False))"

definition load_on :: "project_tables \<Rightarrow> string \<Rightarrow> string \<Rightarrow> string option \<Rightarrow> date \<Rightarrow> rat" where
  "load_on d pid rid excluded x =
     sum_list (map allocation_percent (filter (loads_day d pid excluded x) (list_assignments_by_resource rid d)))"

section \<open>The collected loads\<close>

definition daily :: "daily_loads \<Rightarrow> date \<Rightarrow> rat" where
  "daily loads x = (case map_of (fst loads) x of None \<Rightarrow> 0 | Some y \<Rightarrow> y)"

lemma add_load_daily:
  "distinct days \<Longrightarrow> daily (add_load alloc name days loads) x = daily loads x + (if x \<in> set days then alloc else 0)"
  "fst ` set (fst (add_load alloc name days loads)) = fst ` set (fst loads) \<union> set days"
  unfolding add_load_def
  by (induction days arbitrary: loads) (auto simp: daily_def AList.update_conv' dom_update split: prod.split option.splits)

lemma workdays:
  assumes "iter_workdays a b = Inr days" "a \<le> b"
  shows "distinct days" "set days = {x. a \<le> x \<and> x \<le> b \<and> weekday x < 5}"
  using assms by (auto simp: iter_workdays_def Let_def split: if_splits)

text \<open>An assignment loads the days it shares with the new task, or none of them.\<close>

lemma assignment_load_cases:
  assumes "assignment_load d pid ns ne excluded a loads = Inr loads'"
  obtains "loads' = loads" "\<And>x. ns \<le> x \<Longrightarrow> x \<le> ne \<Longrightarrow> \<not> loads_day d pid excluded x a"
  | name days where "loads' = add_load (allocation_percent a) name days loads" "distinct days"
      "set days = {x. ns \<le> x \<and> x \<le> ne \<and> weekday x < 5 \<and> loads_day d pid excluded x a}"
proof (cases "(excluded \<noteq> Some (a_id a) \<or> a_id a = []) \<and> 0 < allocation_percent a")
  case False
  have "loads' = loads"
    using assms False by (auto simp: assignment_load_def Let_def rbind_Inr_iff split: if_splits option.splits)
  then show ?thesis using that(1) False by (auto simp: loads_day_def)
next
  case True
  show ?thesis
  proof (cases "\<exists>t ts te. get_task_row (a_task_id a) d = Some t \<and> t_project_id t = pid \<and> t_start_date t = Some ts \<and>
      t_end_date t = Some te \<and> max ns ts \<le> min ne te")
    case False
    have "loads' = loads"
      using assms False by (auto simp: assignment_load_def Let_def not_less split: if_splits option.splits)
    moreover have "\<not> loads_day d pid excluded x a" if x: "ns \<le> x" "x \<le> ne" for x
    proof
      assume "loads_day d pid excluded x a"
      then obtain t ts te where "get_task_row (a_task_id a) d = Some t" "t_project_id t = pid" "t_start_date t = Some ts"
          "t_end_date t = Some te" "ts \<le> x" "x \<le> te"
        by (auto simp: loads_day_def split: option.splits)
      then show False using False x by fastforce
    qed
    ultimately show ?thesis using that(1) by blast
  next
    case 2: True
    then obtain t ts te where t: "get_task_row (a_task_id a) d = Some t" "t_project_id t = pid" "t_start_date t = Some ts"
        "t_end_date t = Some te" "max ns ts \<le> min ne te" by blast
    have counted: "\<not> (excluded \<noteq> None \<and> excluded \<noteq> Some [] \<and> Some (a_id a) = excluded)" using True by auto
    have "assignment_load d pid ns ne excluded a loads =
        rbind (iter_workdays (max ns ts) (min ne te)) (\<lambda>days. Inr (add_load (allocation_percent a) (t_name t) days loads))"
      unfolding assignment_load_def if_not_P [OF counted] using t(1-4) True leD [OF t(5)] by (simp add: Let_def del: max.bounded_iff min.bounded_iff min_less_iff_disj less_max_iff_disj)
    then obtain days where days: "iter_workdays (max ns ts) (min ne te) = Inr days"
        "loads' = add_load (allocation_percent a) (t_name t) days loads"
      using assms by (auto simp: rbind_Inr_iff)
    have "loads_day d pid excluded x a = (ts \<le> x \<and> x \<le> te)" for x
      unfolding loads_day_def using t True by simp
    then have "set days = {x. ns \<le> x \<and> x \<le> ne \<and> weekday x < 5 \<and> loads_day d pid excluded x a}"
      using workdays(2) [OF days(1) t(5)] by auto
    then show ?thesis using that(2) [OF days(2) workdays(1) [OF days(1) t(5)]] by blast
  qed
qed

lemma assignment_load_daily:
  assumes "assignment_load d pid ns ne excluded a loads = Inr loads'"
  shows "ns \<le> x \<Longrightarrow> x \<le> ne \<Longrightarrow> weekday x < 5 \<Longrightarrow>
      daily loads' x = daily loads x + (if loads_day d pid excluded x a then allocation_percent a else 0)"
    "fst ` set (fst loads') \<subseteq> fst ` set (fst loads) \<union> {x. ns \<le> x \<and> x \<le> ne \<and> weekday x < 5}"
proof -
  show "daily loads' x = daily loads x + (if loads_day d pid excluded x a then allocation_percent a else 0)"
    if "ns \<le> x" "x \<le> ne" "weekday x < 5"
    using assms
  proof (cases rule: assignment_load_cases)
    case 1
    then show ?thesis using that by simp
  next
    case (2 name days)
    then show ?thesis using that add_load_daily(1) [OF 2(2)] by simp
  qed
  show "fst ` set (fst loads') \<subseteq> fst ` set (fst loads) \<union> {x. ns \<le> x \<and> x \<le> ne \<and> weekday x < 5}"
    using assms
  proof (cases rule: assignment_load_cases)
    case (2 name days)
    then show ?thesis using add_load_daily(2) [of "allocation_percent a" name days loads] by auto
  qed blast
qed

lemma collected_loads:
  assumes "rfold (assignment_load d pid ns ne excluded) as loads = Inr loads'"
  shows "ns \<le> x \<Longrightarrow> x \<le> ne \<Longrightarrow> weekday x < 5 \<Longrightarrow>
      daily loads' x = daily loads x + sum_list (map allocation_percent (filter (loads_day d pid excluded x) as))"
    "fst ` set (fst loads') \<subseteq> fst ` set (fst loads) \<union> {x. ns \<le> x \<and> x \<le> ne \<and> weekday x < 5}"
  using assms
proof (induction as arbitrary: loads)
  case (Cons a as)
  have step: "\<exists>l1. assignment_load d pid ns ne excluded a loads = Inr l1 \<and> rfold (assignment_load d pid ns ne excluded) as l1 = Inr loads'"
    if "rfold (assignment_load d pid ns ne excluded) (a # as) loads = Inr loads'" for loads
    using that by (auto simp: rbind_Inr_iff)
  {
    case 1
    then obtain l1 where l1: "assignment_load d pid ns ne excluded a loads = Inr l1" "rfold (assignment_load d pid ns ne excluded) as l1 = Inr loads'"
      using step by blast
    show ?case using Cons.IH(1) [OF 1(1-3) l1(2)] assignment_load_daily(1) [OF l1(1) 1(1-3)] by simp
  next
    case 2
    then obtain l1 where l1: "assignment_load d pid ns ne excluded a loads = Inr l1" "rfold (assignment_load d pid ns ne excluded) as l1 = Inr loads'"
      using step by blast
    show ?case using Cons.IH(2) [OF l1(2)] assignment_load_daily(2) [OF l1(1)] by blast
  }
qed simp_all

text \<open>The first of the days, in order, whose load is too high.\<close>

lemma find_sorted:
  assumes "sorted xs" "find Q xs = Some x"
  shows "x \<in> set xs" "Q x" "\<And>y. y \<in> set xs \<Longrightarrow> y < x \<Longrightarrow> \<not> Q y"
  using assms by (induction xs) (auto split: if_splits)

lemma daily_the:
  assumes "y \<in> fst ` set (fst loads)"
  shows "daily loads y = the (map_of (fst loads) y)"
proof -
  have "map_of (fst loads) y \<noteq> None" using assms by (metis map_of_eq_None_iff)
  then show ?thesis by (auto simp: daily_def)
qed

lemma first_overload_None:
  assumes "first_overload capacity loads = None" "x \<in> fst ` set (fst loads)"
  shows "daily loads x \<le> capacity + 1 / 10 ^ 9"
proof -
  have "find (\<lambda>d. the (map_of (fst loads) d) > capacity + 1 / 10 ^ 9) (sort (map fst (fst loads))) = None"
    using assms(1) by (auto simp: first_overload_def Let_def split: option.splits)
  then show ?thesis using assms(2) by (auto simp: find_None_iff not_less daily_the)
qed

lemma first_overload_Some:
  assumes "first_overload capacity loads = Some w"
  shows "oa_date w \<in> fst ` set (fst loads)" "capacity + 1 / 10 ^ 9 < daily loads (oa_date w)" "oa_total w = daily loads (oa_date w)"
    "\<And>y. y \<in> fst ` set (fst loads) \<Longrightarrow> y < oa_date w \<Longrightarrow> daily loads y \<le> capacity + 1 / 10 ^ 9"
proof -
  let ?Q = "\<lambda>d. the (map_of (fst loads) d) > capacity + 1 / 10 ^ 9"
  have found: "find ?Q (sort (map fst (fst loads))) = Some (oa_date w)" "oa_total w = the (map_of (fst loads) (oa_date w))"
    using assms by (auto simp: first_overload_def Let_def split: option.splits)
  note first = find_sorted [OF sorted_sort found(1)]
  show day: "oa_date w \<in> fst ` set (fst loads)" using first(1) by simp
  show "capacity + 1 / 10 ^ 9 < daily loads (oa_date w)" "oa_total w = daily loads (oa_date w)"
    using first(2) found(2) daily_the [OF day] by simp_all
  show "daily loads y \<le> capacity + 1 / 10 ^ 9" if "y \<in> fst ` set (fst loads)" "y < oa_date w" for y
    using first(3) [of y] that daily_the by simp
qed

section \<open>The check\<close>

text \<open>
  C17: What the check for over-allocation reports, for a task with a start and an end not before
  it: nothing for a resource without assignments, whose first one is not compared with its
  capacity; for every other resource the first working day of the new task on which the load the
  resource would have exceeds its capacity, with that load, or nothing when there is no such day.
\<close>

theorem overallocation_exact:
  assumes "find_overallocation pid rid tid alloc excluded d = Inr found"
    and "get_task_row tid d = Some t" "t_start_date t = Some ns" "t_end_date t = Some ne" "ns \<le> ne"
  shows "if list_assignments_by_resource rid d = [] then found = None else case found of
      None \<Rightarrow> \<forall>x. ns \<le> x \<and> x \<le> ne \<and> weekday x < 5 \<longrightarrow>
        alloc + load_on d pid rid excluded x \<le> resource_capacity (get_resource_row rid d) + 1 / 10 ^ 9
    | Some w \<Rightarrow> ns \<le> oa_date w \<and> oa_date w \<le> ne \<and> weekday (oa_date w) < 5 \<and>
        oa_total w = alloc + load_on d pid rid excluded (oa_date w) \<and>
        resource_capacity (get_resource_row rid d) + 1 / 10 ^ 9 < oa_total w \<and>
        (\<forall>x. ns \<le> x \<and> x < oa_date w \<and> weekday x < 5 \<longrightarrow>
          alloc + load_on d pid rid excluded x \<le> resource_capacity (get_resource_row rid d) + 1 / 10 ^ 9)"
proof (cases "list_assignments_by_resource rid d = []")
  case True
  then show ?thesis using assms(1-4) by (auto simp: find_overallocation_def Let_def rbind_Inr_iff)
next
  case False
  obtain loads days where loads: "rfold (assignment_load d pid ns ne excluded) (list_assignments_by_resource rid d) ([], []) = Inr loads"
      "iter_workdays ns ne = Inr days"
    and found: "found = first_overload (resource_capacity (get_resource_row rid d)) (add_load alloc (t_name t) days loads)"
    using False assms(1-4) by (auto simp: find_overallocation_def Let_def rbind_Inr_iff)
  let ?loads = "add_load alloc (t_name t) days loads"
  note days = workdays [OF loads(2) assms(5)]
  have load: "daily ?loads x = alloc + load_on d pid rid excluded x" if "ns \<le> x" "x \<le> ne" "weekday x < 5" for x
    using collected_loads(1) [OF loads(1) that] that by (simp add: add_load_daily(1) [OF days(1)] days(2) load_on_def) (simp add: daily_def)
  have keys: "fst ` set (fst ?loads) = {x. ns \<le> x \<and> x \<le> ne \<and> weekday x < 5}"
    using collected_loads(2) [OF loads(1)] by (auto simp: add_load_daily(2) days(2))
  show ?thesis
  proof (cases found)
    case None
    then show ?thesis using False first_overload_None [of _ ?loads] found keys load by auto
  next
    case (Some w)
    note first = first_overload_Some [OF found [symmetric, unfolded Some]]
    have w: "ns \<le> oa_date w" "oa_date w \<le> ne" "weekday (oa_date w) < 5" using first(1) keys by auto
    then show ?thesis using False first(2-4) load keys Some by auto
  qed
qed

section \<open>Deletions\<close>

lemma rewritten_and_committed:
  assumes "try_rollback (obind (pt_update (\<lambda>d. Inr (g d))) (\<lambda>_. obind (commit inv_insert) (\<lambda>_. record_audit inv_insert action ty i))) s = (Inr x, t)"
    and "clean s"
  shows "clean t \<and> db_project (s_committed t) = g (db_project (s_committed s))"
  using assms by (auto simp: pt_update_def record_audit_def clean_def split: if_splits)

text \<open>
  C20: A deleted task is gone with everything that hangs on it and nothing else: its dependencies
  in both directions, its assignments with all their time entries, its calendar events and its
  costs. The timesheet periods are not consulted: entries of approved and locked ones go too.
\<close>

theorem task_deletion_exact:
  assumes "clean s" and "distinct (map ci_id (pt_costs (db_project (s_committed s))))" and "delete_task env i s = (Inr u, t)"
  shows "\<exists>pid. (\<exists>x. get_task_row i (db_project (s_committed s)) = Some x \<and> t_project_id x = pid) \<and>
    db_project (s_committed t) = (db_project (s_committed s))\<lparr>
      pt_tasks := filter (\<lambda>x. t_id x \<noteq> i) (pt_tasks (db_project (s_committed s))),
      pt_dependencies := filter (\<lambda>x. predecessor_task_id x \<noteq> i \<and> successor_task_id x \<noteq> i) (pt_dependencies (db_project (s_committed s))),
      pt_assignments := filter (\<lambda>a. a_task_id a \<noteq> i) (pt_assignments (db_project (s_committed s))),
      pt_time_entries := filter (\<lambda>e. te_work_allocation_id e \<notin>
        a_id ` set (filter (\<lambda>a. a_task_id a = i) (pt_assignments (db_project (s_committed s))))) (pt_time_entries (db_project (s_committed s))),
      pt_events := filter (\<lambda>x. ce_task_id x \<noteq> Some i) (pt_events (db_project (s_committed s))),
      pt_costs := filter (\<lambda>x. \<not> (ci_project_id x = pid \<and> ci_task_id x = Some i)) (pt_costs (db_project (s_committed s)))\<rparr>"
proof -
  obtain x s1 s2 where x: "manage_task env NotFoundErr i s = (Inr x, s1)"
    and body: "try_rollback (obind (pt_update (\<lambda>d. Inr (delete_task_rows (t_project_id x) i d))) (\<lambda>_.
        obind (commit inv_insert) (\<lambda>_. record_audit inv_insert ''task.delete'' ''task'' i))) s1 = (Inr (), s2)"
    and t: "emit ''tasks_changed'' (t_project_id x) s2 = (Inr u, t)"
    using assms(3) by (auto simp: delete_task_def guarded_def simp del: try_rollback_Inr try_rollback_Inl)
  have neutral: "neutral (manage_task env NotFoundErr i)" unfolding manage_task_def by (intro call_intros)
  have s1: "s_working s1 = s_working s" "s_pending s1 = s_pending s" "s_committed s1 = s_committed s"
    using neutralD [OF neutral x] by auto
  have found: "get_task_row i (db_project (s_committed s)) = Some x"
    using managed_task [OF x] assms(1) by (simp add: clean_def)
  have "clean s1" using assms(1) s1 by (simp add: clean_def)
  then have "db_project (s_committed t) = delete_task_rows (t_project_id x) i (db_project (s_committed s))"
    using rewritten_and_committed [OF body] s1 t by (auto simp: emit_def)
  moreover have "(ci_id c \<in> ci_id ` set (filter Q (pt_costs (db_project (s_committed s))))) = Q c"
    if "c \<in> set (pt_costs (db_project (s_committed s)))" for c Q
    using assms(2) that by (auto simp: distinct_map dest: inj_onD)
  then have "filter (\<lambda>c. \<not> ci_id c \<in> ci_id ` set (filter Q (pt_costs (db_project (s_committed s))))) (pt_costs (db_project (s_committed s))) =
      filter (\<lambda>c. \<not> Q c) (pt_costs (db_project (s_committed s)))" for Q
    by (intro filter_cong) auto
  ultimately show ?thesis
    using found
    by (simp add: delete_task_rows_def delete_costs_def delete_dependencies_for_task_def delete_time_entries_def touches_task_def
      list_assignments_by_task_def Let_def)
qed

end
