(* ===== verification/Time_Examples.thy ===== *)
theory Time_Examples
  imports Time_Properties Assignment_Properties Proc_Examples Schedule_Examples
begin

text \<open>
  A month of work: an assignment, entries that are submitted and approved, the entry that comes
  too late, the next month, and the deletion of the task, which takes the approved hours away.
  The properties of the timesheets applied to the states of this run.
\<close>

section \<open>The users and the tables\<close>

definition time_user :: task_env where
  "time_user =
     \<lparr>pe_base = (procurement_user ''lead'' [''task.manage'', ''task.read'', ''timesheet.submit'', ''timesheet.approve''])
        \<lparr>e_uuid := \<lambda>n. ''w'' @ replicate n CHR ''-'' @ ''x''\<rparr>,
      pe_today = 738886, pe_calendar = example_engine, pe_governance_mode = None, pe_governance_actions = None,
      pe_overallocation_policy = Some '' Strict'', pe_module_enabled = True\<rparr>"

lemma time_user_uuids: "plain_uuids time_user"
  by (simp add: plain_uuids_def time_user_def py_strip_def py_isspace_def)

definition example_work :: "string \<Rightarrow> date \<Rightarrow> date \<Rightarrow> task" where
  "example_work i a b = (example_task i 5 (Some a))\<lparr>t_end_date := Some b\<rparr>"

definition work_row :: "rat \<Rightarrow> task_assignment" where
  "work_row hours =
     \<lparr>a_id = ''w-x'', a_task_id = ''dig'', a_resource_id = ''ann'', allocation_percent = 60, hours_logged = hours,
      project_resource_id = Some ''wx''\<rparr>"

definition work_entry :: "string \<Rightarrow> date \<Rightarrow> rat \<Rightarrow> time_entry" where
  "work_entry i day hours =
     \<lparr>te_id = i, te_work_allocation_id = ''w-x'', te_assignment_id = Some ''w-x'', te_entry_date = day, te_hours = hours,
      te_note = ''trench'', te_author_user_id = Some ''lead'', te_author_username = Some ''lead'', te_created_at = 1000,
      te_updated_at = 1000, te_owner_type = ''task_assignment'', te_owner_id = Some ''w-x'', te_owner_label = ''dig'',
      te_scope_type = Some ''project'', te_scope_id = Some ''p'', te_employee_id = None, te_department_id = None,
      te_department_name = [], te_site_id = None, te_site_name = []\<rparr>"

definition work_period :: timesheet_period where
  "work_period =
     \<lparr>tp_id = ''w---x'', tp_resource_id = ''ann'', tp_period_start = 738886, tp_period_end = 738916, tp_status = TP_SUBMITTED,
      tp_submitted_at = Some 1000, tp_submitted_by_user_id = Some ''lead'', tp_submitted_by_username = Some ''lead'',
      tp_decided_at = None, tp_decided_by_user_id = None, tp_decided_by_username = None, tp_decision_note = None,
      tp_locked_at = None\<rparr>"

definition approved_period :: timesheet_period where
  "approved_period = work_period\<lparr>tp_status := TP_APPROVED, tp_decided_at := Some 1000, tp_decided_by_user_id := Some ''lead'',
     tp_decided_by_username := Some ''lead'', tp_locked_at := Some 1000\<rparr>"

definition work_tables :: project_tables where
  "work_tables = no_project_tables\<lparr>
     pt_projects := [\<lparr>pj_id = ''p'', pj_start_date = None, pj_end_date = None\<rparr>],
     pt_tasks := [example_work ''dig'' 738886 738890, example_work ''fill'' 738889 738893],
     pt_resources := [\<lparr>rs_id = ''ann'', rs_name = ''Ann'', capacity_percent = Some 100, rs_hourly_rate = None,
       rs_currency_code = None, rs_is_active = True, rs_employee_id = None\<rparr>]\<rparr>"

definition enrolled :: project_resource where
  "enrolled =
     \<lparr>pr_id = ''wx'', pr_project_id = ''p'', pr_resource_id = ''ann'', pr_hourly_rate = None, pr_currency_code = None,
      pr_planned_hours = 0, pr_is_active = True\<rparr>"

definition work_state :: "project_tables \<Rightarrow> string list \<Rightarrow> nat \<Rightarrow> inv_op_state" where
  "work_state d signals n = example_state (example_db\<lparr>db_items := [], db_storerooms := [], db_project := d\<rparr>)
     (map (\<lambda>x. if x = ''t'' then (''tasks_changed'', ''p'') else (''timesheet_periods_changed'', ''w---x'')) signals) n"

section \<open>The run\<close>

definition work_start :: inv_op_state where
  "work_start = work_state work_tables [] 0"

definition work_assigned :: inv_op_state where
  "work_assigned = work_state (work_tables\<lparr>pt_assignments := [work_row 0], pt_project_resources := [enrolled]\<rparr>) [''t''] 2"

definition work_booked :: inv_op_state where
  "work_booked = work_state (work_tables\<lparr>pt_assignments := [work_row 4], pt_project_resources := [enrolled],
     pt_time_entries := [work_entry ''w--x'' 738886 4]\<rparr>) [''t'', ''t''] 3"

definition work_submitted :: inv_op_state where
  "work_submitted = work_state (work_tables\<lparr>pt_assignments := [work_row 4], pt_project_resources := [enrolled],
     pt_time_entries := [work_entry ''w--x'' 738886 4], pt_periods := [work_period]\<rparr>) [''t'', ''t'', ''p'', ''t''] 4"

definition work_approved :: inv_op_state where
  "work_approved = work_state (work_tables\<lparr>pt_assignments := [work_row 4], pt_project_resources := [enrolled],
     pt_time_entries := [work_entry ''w--x'' 738886 4], pt_periods := [approved_period]\<rparr>) [''t'', ''t'', ''p'', ''t'', ''p'', ''t''] 4"

definition work_next_month :: inv_op_state where
  "work_next_month = work_state (work_tables\<lparr>pt_assignments := [work_row 10], pt_project_resources := [enrolled],
     pt_time_entries := [work_entry ''w--x'' 738886 4, work_entry ''w----x'' 738917 6], pt_periods := [approved_period]\<rparr>)
     [''t'', ''t'', ''p'', ''t'', ''p'', ''t'', ''t''] 5"

definition work_deleted :: inv_op_state where
  "work_deleted = work_state (work_tables\<lparr>pt_tasks := [example_work ''fill'' 738889 738893], pt_project_resources := [enrolled],
     pt_periods := [approved_period]\<rparr>) [''t'', ''t'', ''p'', ''t'', ''p'', ''t'', ''t'', ''t''] 5"

text \<open>The calls from one state to the next, and the entry that comes too late.\<close>

lemma work_calls:
  "assign_resource time_user ''dig'' ''ann'' 60 work_start = (Inr (work_row 0), work_assigned)"
  by code_simp

lemma work_booking:
  "add_work_entry time_user ''w-x'' 738886 4 ''trench'' work_assigned = (Inr (work_entry ''w--x'' 738886 4), work_booked)"
  by code_simp

lemma work_submission:
  "submit_timesheet_period time_user ''ann'' 738886 [] work_booked = (Inr work_period, work_submitted)"
  by code_simp

text \<open>The approval reads the period first: its statements are evaluated one by one.\<close>

lemma work_approval_steps:
  "pe_module_enabled time_user" "task_perm time_user ''timesheet.approve'' work_submitted = (Inr (), work_submitted)"
  "require_timesheet_period ''w---x'' work_submitted = (Inr work_period, work_submitted)" "tp_status work_period = TP_SUBMITTED"
  "list_time_entries_for_resource_period time_user (tp_resource_id work_period) (tp_period_start work_period) work_submitted =
     (Inr [work_entry ''w--x'' 738886 4], work_submitted)"
  "with_decision time_user TP_APPROVED [] work_period = approved_period"
  "write_period approved_period work_submitted = (Inr (), work_approved\<lparr>s_events := s_events work_submitted\<rparr>)"
  "announce_period ''timesheet_period.approve'' approved_period [work_entry ''w--x'' 738886 4]
     (work_approved\<lparr>s_events := s_events work_submitted\<rparr>) = (Inr (), work_approved)"
  by code_simp+

lemma work_approval:
  "approve_timesheet_period time_user ''w---x'' [] work_submitted = (Inr approved_period, work_approved)"
  by (simp add: approve_timesheet_period_def decide_timesheet_period_def guarded_def Let_def work_approval_steps)

lemma work_too_late:
  "add_work_entry time_user ''w-x'' 738887 2 ''trench'' work_approved = (Inl ValidationErr, work_approved)"
  by code_simp

lemma work_goes_on:
  "add_work_entry time_user ''w-x'' 738917 6 ''trench'' work_approved = (Inr (work_entry ''w----x'' 738917 6), work_next_month)"
  by code_simp

lemma work_deletion:
  "delete_task time_user ''dig'' work_next_month = (Inr (), work_deleted)"
  by code_simp

lemma work_steps:
  "time_step work_start work_assigned" "time_step work_assigned work_booked" "time_step work_booked work_submitted"
  "time_step work_submitted work_approved" "time_step work_approved work_approved" "time_step work_approved work_next_month"
  using work_calls work_booking work_submission work_approval work_too_late work_goes_on time_user_uuids
  by (blast intro: time_step.intros)+

lemma work_run: "time_step\<^sup>*\<^sup>* work_start work_submitted" "time_step\<^sup>*\<^sup>* work_start work_next_month" "time_step\<^sup>*\<^sup>* work_approved work_next_month"
proof -
  show first: "time_step\<^sup>*\<^sup>* work_start work_submitted"
    using work_steps(1-3) by (meson converse_rtranclp_into_rtranclp rtranclp.rtrancl_refl)
  show last: "time_step\<^sup>*\<^sup>* work_approved work_next_month"
    using work_steps(5,6) by (meson converse_rtranclp_into_rtranclp rtranclp.rtrancl_refl)
  show "time_step\<^sup>*\<^sup>* work_start work_next_month"
    by (rule rtranclp_trans [OF first converse_rtranclp_into_rtranclp [OF work_steps(4) last]])
qed

lemma work_runs: "app_step\<^sup>*\<^sup>* work_start work_next_month" "app_step\<^sup>*\<^sup>* work_approved work_deleted" "app_step\<^sup>*\<^sup>* work_submitted work_deleted"
proof -
  show "app_step\<^sup>*\<^sup>* work_start work_next_month" by (rule lasting_runs [OF time_runs [OF work_run(2)]])
  have deleted: "app_step work_next_month work_deleted" by (rule app_step.delete_task, rule work_deletion)
  show late: "app_step\<^sup>*\<^sup>* work_approved work_deleted"
    by (rule rtranclp.rtrancl_into_rtrancl [OF lasting_runs [OF time_runs [OF work_run(3)]] deleted])
  show "app_step\<^sup>*\<^sup>* work_submitted work_deleted"
    by (rule converse_rtranclp_into_rtranclp [OF app_step.lasting [OF lasting_step.time [OF work_steps(4)]] late])
qed

lemma work_states_clean [simp]: "clean (work_state d signals n)" "db_project (s_committed (work_state d signals n)) = d"
  by (simp_all add: clean_def work_state_def example_state_def)

lemma work_clean: "clean work_start" "clean work_submitted" "clean work_approved" "clean work_next_month"
  by (simp_all add: work_start_def work_submitted_def work_approved_def work_next_month_def)

lemma work_start_good: "books_ok (db_project (s_committed work_start))"
  by (simp add: work_start_def work_tables_def books_ok_def shape_ok_def hours_match_def no_project_tables_def)

lemma work_good: "books_ok (db_project (s_committed work_submitted))" "books_ok (db_project (s_committed work_approved))"
  using lasting_run_keeps_books [OF work_clean(1) work_start_good time_runs [OF work_run(1)]]
    lasting_run_keeps_books [OF work_clean(1) work_start_good time_runs [OF rtranclp.rtrancl_into_rtrancl [OF work_run(1) work_steps(4)]]]
  by (simp_all add: books_ok_def timesheets_def)

text \<open>What the tables show.\<close>

lemma work_views:
  "list_entries_by_allocation ''w-x'' (db_project (s_committed work_next_month)) =
     [work_entry ''w--x'' 738886 4, work_entry ''w----x'' 738917 6]"
  "pt_assignments (db_project (s_committed work_next_month)) = [work_row 10]"
  "get_period_row ''w---x'' (db_project (s_committed work_submitted)) = Some work_period"
  "get_period_row ''w---x'' (db_project (s_committed work_approved)) = Some approved_period"
  "get_period_row ''w---x'' (db_project (s_committed work_deleted)) = Some approved_period"
  "resource_period_entries ''ann'' 738886 (db_project (s_committed work_approved)) = [work_entry ''w--x'' 738886 4]"
  "resource_period_entries ''ann'' 738886 (db_project (s_committed work_deleted)) = []"
  "pt_periods (db_project (s_committed work_next_month)) = [approved_period]"
  "pt_costs (db_project (s_committed work_next_month)) = []"
  "pt_time_entries (db_project (s_committed work_next_month)) = [work_entry ''w--x'' 738886 4, work_entry ''w----x'' 738917 6]"
  by code_simp+

lemma approved_period_facts:
  "tp_status approved_period = TP_APPROVED" "tp_resource_id approved_period = ''ann''" "tp_period_start approved_period = 738886"
  "tp_period_end approved_period = 738916" "tp_status work_period = TP_SUBMITTED"
  by (simp_all add: approved_period_def work_period_def)

section \<open>The properties at work\<close>

theorem hours_match_entries_witness:
  "hours_logged (work_row 10) = sum_list (map te_hours [work_entry ''w--x'' 738886 4, work_entry ''w----x'' 738917 6])"
  using hours_match_entries [OF work_clean(1) work_start_good work_runs(1)]
  by (simp add: work_views) (simp add: work_row_def work_views)

theorem periods_never_overlap_witness:
  "filter (\<lambda>p. tp_resource_id p = ''ann'' \<and> tp_period_start p \<le> 738900 \<and> 738900 \<le> tp_period_end p)
     (pt_periods (db_project (s_committed work_next_month))) = [approved_period] \<and> approved_period = hd [approved_period]"
  using periods_never_overlap [OF work_clean(1) work_start_good work_runs(1), of approved_period approved_period 738900]
  by (simp add: work_views approved_period_facts)


text \<open>The approved period stays approved, and the deletion of the task leaves it without hours.\<close>

theorem approved_periods_frozen_witness:
  "get_period_row ''w---x'' (db_project (s_committed work_deleted)) = Some approved_period \<and>
   resource_period_entries ''ann'' 738886 (db_project (s_committed work_approved)) \<noteq> [] \<and>
   resource_period_entries ''ann'' 738886 (db_project (s_committed work_deleted)) = []"
  using approved_periods_frozen [OF work_clean(3) work_good(2) work_runs(2) work_views(4) approved_period_facts(1)]
  by (simp add: work_views)

theorem approved_hours_kept_witness:
  "sum_list (map te_hours (resource_period_entries ''ann'' 738886 (db_project (s_committed work_next_month)))) = 4"
  using approved_hours_kept [OF work_clean(3) work_good(2) time_runs [OF work_run(3)] work_views(4) approved_period_facts(1)]
  by (simp add: work_views approved_period_facts) (simp add: work_entry_def)

theorem task_deletion_exact_witness:
  "map te_hours (pt_time_entries (db_project (s_committed work_next_month))) = [4, 6] \<and>
   pt_time_entries (db_project (s_committed work_deleted)) = [] \<and> pt_periods (db_project (s_committed work_deleted)) = [approved_period]"
proof -
  let ?d = "db_project (s_committed work_next_month)"
  have costs: "distinct (map ci_id (pt_costs ?d))" by (simp add: work_views)
  obtain pid where eq: "db_project (s_committed work_deleted) = ?d\<lparr>
      pt_tasks := filter (\<lambda>x. t_id x \<noteq> ''dig'') (pt_tasks ?d),
      pt_dependencies := filter (\<lambda>x. predecessor_task_id x \<noteq> ''dig'' \<and> successor_task_id x \<noteq> ''dig'') (pt_dependencies ?d),
      pt_assignments := filter (\<lambda>a. a_task_id a \<noteq> ''dig'') (pt_assignments ?d),
      pt_time_entries := filter (\<lambda>e. te_work_allocation_id e \<notin> a_id ` set (filter (\<lambda>a. a_task_id a = ''dig'') (pt_assignments ?d))) (pt_time_entries ?d),
      pt_events := filter (\<lambda>x. ce_task_id x \<noteq> Some ''dig'') (pt_events ?d),
      pt_costs := filter (\<lambda>x. \<not> (ci_project_id x = pid \<and> ci_task_id x = Some ''dig'')) (pt_costs ?d)\<rparr>"
    using task_deletion_exact [OF work_clean(4) costs work_deletion] by (elim exE conjE)
  have "a_id ` set (filter (\<lambda>a. a_task_id a = ''dig'') (pt_assignments ?d)) = {''w-x''}"
    by (simp add: work_views work_row_def)
  then show ?thesis
    unfolding eq by (simp add: work_views work_entry_def)
qed

lemma example_overload:
  "find_overallocation ''p'' ''ann'' ''fill'' 50 None (db_project (s_committed work_assigned)) =
     Inr (Some \<lparr>oa_date = 738889, oa_total = 110, oa_capacity = 100, oa_tasks = [''dig'', ''fill''], oa_more = False\<rparr>)"
  "list_assignments_by_resource ''ann'' (db_project (s_committed work_assigned)) \<noteq> []"
  "get_task_row ''fill'' (db_project (s_committed work_assigned)) = Some (example_work ''fill'' 738889 738893)"
  by code_simp+

theorem overallocation_exact_witness:
  "50 + load_on (db_project (s_committed work_assigned)) ''p'' ''ann'' None 738889 = 110"
  using overallocation_exact [OF example_overload(1,3)] example_overload(2) by (simp add: example_work_def example_task_def)

section \<open>What the assignment service does not check\<close>

text \<open>
  The first assignment of a resource is not compared with its capacity: 60 percent are no
  over-allocation of a resource that has 50, while the same allocation is one once the
  assignment is in the table.
\<close>

definition half_time :: "task_assignment list \<Rightarrow> project_tables" where
  "half_time rows = work_tables\<lparr>pt_assignments := rows, pt_resources := map (\<lambda>r. r\<lparr>capacity_percent := Some 50\<rparr>) (pt_resources work_tables)\<rparr>"

lemma first_assignment_unchecked:
  "find_overallocation ''p'' ''ann'' ''dig'' 60 None (half_time []) = Inr None"
  "map_option oa_total (case find_overallocation ''p'' ''ann'' ''dig'' 60 (Some ''w-x'') (half_time [work_row 0]) of Inr w \<Rightarrow> w) = Some 60"
  by code_simp+

end
