(* ===== verification/Task_Queries.thy ===== *)
theory Task_Queries
  imports Task_Assignments Task_Keeps
begin

text \<open>
  The queries of the task service (\<^verbatim>\<open>services/task/query.py\<close>). They read the tables and
  leave them alone; what they list is what the reader may see. A query over a Python set takes
  the order in which the set is visited as the argument \<open>visit\<close>.
\<close>

section \<open>The queries\<close>

definition can_read_project :: "task_env \<Rightarrow> string \<Rightarrow> bool" where
  "can_read_project env pid =
     (case e_user (pe_base env) of
        None \<Rightarrow> False
      | Some us \<Rightarrow> fst (has_scope_permission (e_now (pe_base env)) ''project'' pid ''task.read'' us))"

definition get_task :: "task_env \<Rightarrow> string \<Rightarrow> task option inv_op" where
  "get_task env i =
     guarded env (
     obind (task_perm env ''task.read'') (\<lambda>_.
     obind (pt_get (get_task_row i)) (\<lambda>row.
       case row of
         None \<Rightarrow> oret None
       | Some t \<Rightarrow>
           obind (require_project_permission env (t_project_id t) ''task.read'') (\<lambda>_.
           oret (Some t)))))"

definition list_tasks_for_project :: "task_env \<Rightarrow> string \<Rightarrow> task list inv_op" where
  "list_tasks_for_project env pid =
     guarded env (
     obind (task_perm env ''task.read'') (\<lambda>_.
     obind (require_project_permission env pid ''task.read'') (\<lambda>_.
     pt_get (list_tasks_by_project pid))))"

definition readable_task :: "task_env \<Rightarrow> project_tables \<Rightarrow> string \<Rightarrow> task option" where
  "readable_task env d i =
     (case get_task_row i d of
        None \<Rightarrow> None
      | Some t \<Rightarrow> if can_read_project env (t_project_id t) then Some t else None)"

definition list_tasks_for_resource :: "task_env \<Rightarrow> (string list \<Rightarrow> string list) \<Rightarrow> string \<Rightarrow> task list inv_op" where
  "list_tasks_for_resource env visit rid =
     guarded env (
     obind (task_perm env ''task.read'') (\<lambda>_.
     pt_get (\<lambda>d. List.map_filter (readable_task env d) (visit (remdups (map a_task_id (list_assignments_by_resource rid d)))))))"

definition list_assignments_by_tasks :: "string list \<Rightarrow> project_tables \<Rightarrow> task_assignment list" where
  "list_assignments_by_tasks ids d = (if ids = [] then [] else filter (\<lambda>a. a_task_id a \<in> set ids) (pt_assignments d))"

definition list_assignments_for_tasks :: "task_env \<Rightarrow> string list \<Rightarrow> task_assignment list inv_op" where
  "list_assignments_for_tasks env ids =
     guarded env (
     obind (task_perm env ''task.read'') (\<lambda>_.
     if ids = [] then oret []
     else pt_get (\<lambda>d. list_assignments_by_tasks (filter (\<lambda>i. readable_task env d i \<noteq> None) ids) d)))"

text \<open>The arguments of \<open>query_tasks\<close> after the project; one that is \<open>None\<close> restricts nothing.\<close>

record task_filter =
  tf_status :: "task_status option"
  tf_resource_id :: "string option"
  tf_start_from :: "date option"
  tf_start_to :: "date option"
  tf_end_from :: "date option"
  tf_end_to :: "date option"

definition meets_bound :: "(date \<Rightarrow> date \<Rightarrow> bool) \<Rightarrow> date option \<Rightarrow> date option \<Rightarrow> bool" where
  "meets_bound order bound x = (case bound of None \<Rightarrow> True | Some b \<Rightarrow> (case x of None \<Rightarrow> False | Some y \<Rightarrow> order y b))"

definition restricted :: "'b option \<Rightarrow> ('b \<Rightarrow> 'a \<Rightarrow> bool) \<Rightarrow> 'a list \<Rightarrow> 'a list" where
  "restricted v Q xs = (case v of None \<Rightarrow> xs | Some b \<Rightarrow> filter (Q b) xs)"

definition filtered_tasks :: "task_filter \<Rightarrow> project_tables \<Rightarrow> task list \<Rightarrow> task list" where
  "filtered_tasks f d ts =
     (let ts1 = restricted (tf_status f) (\<lambda>st t. t_status t = st) ts;
          ts2 = restricted (tf_start_from f) (\<lambda>b t. meets_bound (\<ge>) (Some b) (t_start_date t)) ts1;
          ts3 = restricted (tf_start_to f) (\<lambda>b t. meets_bound (\<le>) (Some b) (t_start_date t)) ts2;
          ts4 = restricted (tf_end_from f) (\<lambda>b t. meets_bound (\<ge>) (Some b) (t_end_date t)) ts3;
          ts5 = restricted (tf_end_to f) (\<lambda>b t. meets_bound (\<le>) (Some b) (t_end_date t)) ts4
      in restricted (case tf_resource_id f of Some rid \<Rightarrow> if rid = [] then None else Some rid | None \<Rightarrow> None)
           (\<lambda>rid t. t_id t \<in> a_task_id ` set (list_assignments_by_resource rid d)) ts5)"

definition query_tasks :: "task_env \<Rightarrow> string option \<Rightarrow> task_filter \<Rightarrow> task list inv_op" where
  "query_tasks env pid f =
     guarded env (
     obind (task_perm env ''task.read'') (\<lambda>_.
     obind (oguard (pid = None \<or> pid = Some []) ValidationErr) (\<lambda>_.
     obind (require_project_permission env (the pid) ''task.read'') (\<lambda>_.
     pt_get (\<lambda>d. filtered_tasks f d (list_tasks_by_project (the pid) d))))))"

section \<open>What they do\<close>

text \<open>No query changes a table.\<close>

lemma neutral_task_queries:
  "neutral (get_task env i)" "neutral (list_tasks_for_project env pid)" "neutral (list_tasks_for_resource env visit rid)"
  "neutral (list_assignments_for_tasks env ids)" "neutral (query_tasks env p f)"
  unfolding get_task_def list_tasks_for_project_def list_tasks_for_resource_def list_assignments_for_tasks_def query_tasks_def
  by (intro call_intros)+

text \<open>The restrictions of a query are one condition, in whatever order they are applied.\<close>

definition task_matches :: "task_filter \<Rightarrow> project_tables \<Rightarrow> task \<Rightarrow> bool" where
  "task_matches f d t \<longleftrightarrow>
     (tf_status f = None \<or> tf_status f = Some (t_status t)) \<and>
     meets_bound (\<ge>) (tf_start_from f) (t_start_date t) \<and> meets_bound (\<le>) (tf_start_to f) (t_start_date t) \<and>
     meets_bound (\<ge>) (tf_end_from f) (t_end_date t) \<and> meets_bound (\<le>) (tf_end_to f) (t_end_date t) \<and>
     (case tf_resource_id f of
        None \<Rightarrow> True
      | Some rid \<Rightarrow> rid = [] \<or> (\<exists>a \<in> set (list_assignments_by_resource rid d). a_task_id a = t_id t))"

lemma restricted_filter: "restricted v Q (filter R xs) = filter (\<lambda>x. R x \<and> (\<forall>b. v = Some b \<longrightarrow> Q b x)) xs"
  by (cases v) (auto simp: restricted_def conj_commute)

lemma bound_conditions:
  "(\<forall>b. v = Some b \<longrightarrow> meets_bound order (Some b) x) = meets_bound order v x"
  "(\<forall>b. st = Some b \<longrightarrow> y = b) = (st = None \<or> st = Some y)"
  "(\<forall>b. (case z of Some i \<Rightarrow> if i = [] then None else Some i | None \<Rightarrow> None) = Some b \<longrightarrow> k \<in> a_task_id ` A b) =
     (case z of None \<Rightarrow> True | Some i \<Rightarrow> i = [] \<or> (\<exists>a \<in> A i. a_task_id a = k))"
  by (cases v, simp_all add: meets_bound_def) (cases st, auto split: option.splits)

lemma filtered_tasks_eq: "filtered_tasks f d ts = filter (task_matches f d) ts"
proof -
  have "filtered_tasks f d ts = filtered_tasks f d (filter (\<lambda>_. True) ts)" by simp
  also have "\<dots> = filter (task_matches f d) ts"
    unfolding filtered_tasks_def restricted_filter Let_def bound_conditions
    by (rule filter_cong [OF refl]) (simp only: task_matches_def conj_assoc simp_thms)
  finally show ?thesis .
qed

text \<open>Only tasks the reader may see are listed for a resource.\<close>

lemma set_map_filter: "y \<in> set (List.map_filter g xs) \<longleftrightarrow> (\<exists>x \<in> set xs. g x = Some y)"
  by (induction xs) (auto simp: List.map_filter_simps split: option.splits)

lemma resource_tasks_readable:
  assumes "list_tasks_for_resource env visit rid s = (Inr ts, s')" "t \<in> set ts"
  shows "can_read_project env (t_project_id t) \<and> t \<in> set (pt_tasks (db_project (s_working s)))"
proof -
  have same: "s_working s' = s_working s"
    using neutralD [OF neutral_task_queries(3) assms(1)] by simp
  let ?d = "db_project (s_working s')"
  have "ts = List.map_filter (readable_task env ?d) (visit (remdups (map a_task_id (list_assignments_by_resource rid ?d))))"
    using assms(1) by (auto simp: list_tasks_for_resource_def guarded_def pt_get_def simp del: neutral_task_queries)
  then obtain i where "readable_task env ?d i = Some t"
    using assms(2) set_map_filter by (metis (no_types, lifting))
  then show ?thesis
    using same by (auto simp: readable_task_def get_task_row_def split: option.splits if_splits dest: find_row_Some)
qed

end
