(* ===== verification/Spec2Isabelle.thy ===== *)
theory Spec2Isabelle
  imports Schedule_Examples Inv_Examples Auth_Examples Proc_Examples Task_Examples Time_Examples Task_Queries
begin

text \<open>
  A verification development of Project Manager Lite, a desktop application for planning
  projects, stock and procurement. The application is a set of Python services over one
  SQLAlchemy session; this development models the services that carry its rules and proves what
  keeps their tables right in every state they reach together. All file names below are those
  of \<^verbatim>\<open>src/\<close>; \<open>PM\<close> stands for \<^verbatim>\<open>core/modules/project_management\<close> and \<open>INV\<close> for
  \<^verbatim>\<open>core/modules/inventory_procurement\<close>.

  \<^bold>\<open>How a service call is modelled.\<close> \<open>PM_Prelude\<close> holds the exceptions
  (\<open>error\<close>, with the code the source gives them), results as sums (\<open>Inl\<close> an
  exception), Python strings, dictionaries as association lists and dates as the ordinals of
  \<^verbatim>\<open>datetime.date\<close> between \<open>DATE_MIN\<close> and \<open>DATE_MAX\<close>; arithmetic that leaves
  this range is \<open>OverflowError\<close>. \<open>PM_Dates\<close> is the calendar of year, month and day.
  A call is a function from the session to a result and the session (\<open>PM_Session\<close>):
  the session has committed rows, the rows the open transaction sees, and inserts that wait for
  the next flush, because \<^verbatim>\<open>infra/platform/db/base.py\<close> turns autoflush off. \<open>commit\<close>,
  \<open>rollback\<close>, \<open>try_rollback\<close> (the blocks \<^verbatim>\<open>try ... except: rollback; raise\<close>),
  the optimistic locking of \<^verbatim>\<open>infra/platform/db/optimistic.py\<close> and the audit helper, which
  commits, are operations on it. A call that raises without such a block leaves its transaction
  open, and the next commit of any service publishes what it wrote. Statements are composed with
  \<open>obind\<close> in the order of the code; each guard, raise and early return is a branch.
  Clock, identifiers and the signed-in user come with the environment of the call.

  \<^bold>\<open>The parts.\<close>

  \<^item> Working calendar (\<open>Work_Calendar\<close>): \<^verbatim>\<open>PM/services/work_calendar/engine.py\<close>.
  \<^item> Critical path (\<open>Schedule_Graph\<close>, \<open>Schedule_Passes\<close>): \<^verbatim>\<open>PM/services/scheduling\<close>,
    that is \<^verbatim>\<open>graph.py\<close> (Kahn's algorithm over a heap), the dates of one task in
    \<^verbatim>\<open>engine.py\<close>, \<^verbatim>\<open>passes.py\<close> and \<^verbatim>\<open>results.py\<close>. \<open>Schedule_Correct\<close> to
    \<open>Schedule_Properties\<close> and \<open>Schedule_Float\<close> say what the dates mean,
    \<open>Schedule_Failures\<close> how the computation can fail.
  \<^item> Tasks (\<open>Task_Tables\<close>, \<open>Task_Service\<close>, \<open>Task_Diagnostics\<close>): \<^verbatim>\<open>PM/services/task\<close>:
    \<^verbatim>\<open>lifecycle.py\<close>, \<^verbatim>\<open>dependency.py\<close>, \<^verbatim>\<open>dependency_diagnostics.py\<close>,
    \<^verbatim>\<open>validation.py\<close>, \<^verbatim>\<open>schedule_sync.py\<close>, the persistence of the schedule, and the
    queries (\<open>Task_Queries\<close>).
    \<open>Task_Search\<close> and \<open>Task_Invariant\<close> are the search for cycles and the invariant of the plans,
    \<open>Task_Keeps\<close> and \<open>Task_Typed\<close> what every call keeps.
  \<^item> Assignments (\<open>Task_Assignments\<close>): \<^verbatim>\<open>assignment.py\<close>, \<^verbatim>\<open>assignment_bridge.py\<close> and the
    check for over-allocation, whose specification is in \<open>Assignment_Properties\<close>.
  \<^item> Timesheets (\<open>Time_Service\<close>, \<open>Time_Operations\<close>): \<^verbatim>\<open>core/platform/time\<close> as the
    project-management bundle wires it. \<open>Time_Invariant\<close> states the books and what each write does
    to them; \<open>Time_Keeps\<close>, \<open>Assignment_Keeps\<close> and \<open>App_Books\<close> carry them through every call.
  \<^item> Stock and reservations (\<open>Inv_Domain\<close>, \<open>Inv_Support\<close>, \<open>Inv_Stock\<close>,
    \<open>Inv_Reservation\<close>): \<^verbatim>\<open>INV/services/stock_control\<close> and \<^verbatim>\<open>reservation\<close>.
    \<open>Inv_Ledger\<close>, \<open>Inv_Invariant\<close>, \<open>Inv_Reserved\<close> and \<open>Inv_Reservation_Correct\<close> tie
    balances to the ledger and to the open reservations.
  \<^item> Procurement (\<open>Proc_Domain\<close>, \<open>Proc_Requisition\<close>, \<open>Proc_Purchasing\<close>,
    \<open>Proc_Receiving\<close>): \<^verbatim>\<open>INV/services/procurement\<close>; the approval service
    (\<open>Proc_Approval\<close>): \<^verbatim>\<open>core/platform/approval/service.py\<close>. \<open>Proc_Invariant\<close> to
    \<open>Proc_Properties\<close> keep the accounting of the lines and the two machines of the documents;
    \<open>Proc_Failures\<close> says what failing calls leave behind.
  \<^item> Sign-in (\<open>Auth_Session\<close>, \<open>Auth_Policy\<close>, \<open>Auth_Accounts\<close>, \<open>Auth_Operations\<close>,
    \<open>Auth_Service\<close>, \<open>Auth_Secrets\<close>): \<^verbatim>\<open>core/platform/auth\<close>, the authorization engine and
    the scope checks of \<^verbatim>\<open>core/platform/access/authorization.py\<close>. \<open>Auth_Wellformed\<close>,
    \<open>Auth_Revocation\<close> and \<open>Auth_Login\<close> follow accounts and sessions through every call.

  \<^bold>\<open>How they interact.\<close> All services but those of the accounts write one database in one
  session. Procurement posts receipts through stock control; the approval service calls the
  handlers both modules register; the task service recalculates the schedule and deletes time
  entries; the timesheets write the hours of assignments. \<open>App_Runs\<close> defines \<open>app_step\<close>, one call
  of any of these services by any user with any outcome (\<open>lasting_step\<close> is one that deletes
  neither a task nor an assignment), and \<open>App_Properties\<close>, \<open>Task_Typed\<close> and
  \<open>Time_Properties\<close> state what holds after any sequence of them.

  \<^bold>\<open>The library.\<close> \<open>PM_Preserves\<close> (\<open>preserves\<close>: an invariant that a call keeps
  however it ends), \<open>PM_Assertions\<close> (\<open>held\<close>: the same with an assertion on the working rows)
  and \<open>PM_Transactions\<close> (\<open>stored\<close>: bodies that break the invariant before they restore it)
  are the program logic. The locales are its interfaces: \<open>kept_by_inserts\<close> and
  \<open>row_history\<close> (what the session asks of an invariant, or of a relation between earlier and
  later rows), \<open>unit_of_work\<close> (a call that rolls back when it raises), \<open>foreign_tables\<close> in
  \<open>Proc_Frame\<close> and \<open>apart_from_time\<close> in \<open>Time_Frame\<close> (a predicate on tables these services do
  not write survives all their calls), \<open>min_queue\<close>, \<open>dataflow_pass\<close> and
  \<open>working_day_arithmetic\<close> (what the schedule asks of its heap, its passes and the calendar).
  Each is interpreted on the definitions of the model, most of them several times: the plans,
  the types of tasks and the books are all foreign to procurement. The theories ending in \<open>Examples\<close> run the model on
  concrete tables and apply the properties there.

  \<^bold>\<open>Termination.\<close> There is no fuel. The walks of the calendar end because each step moves towards
  \<open>DATE_MIN\<close> or \<open>DATE_MAX\<close>, where the date overflows (\<open>add_working_days_returns\<close> says when
  they return); Kahn's loop by the size of the heap and the tasks still waiting; the searches of
  the diagnostics by the tasks not yet visited and the queue.

  \<^bold>\<open>Parameters and simplifications.\<close> Hash functions and the authenticator's code
  (\<^verbatim>\<open>hashlib\<close>, \<^verbatim>\<open>hmac\<close>) and the order in which Python visits a set are arguments of the
  definitions that use them. Quantities, hours and percentages are rationals where Python has
  floats, so rounding is not modelled, and the comparisons with a tolerance are kept with their
  tolerance. Identifiers a call draws come from a supply in the environment; that they carry no
  blanks, as those of \<^verbatim>\<open>uuid4\<close> do, is a premise of the steps that create assignments.
  Texts of messages and details of audit entries are left out.

  \<^bold>\<open>Not modelled.\<close> The user interface, migrations and table classes (their constraints
  are part of the inserts); the queries of stock that only list rows; resource
  leveling; the maintenance module, which none of the modelled services calls; costs, baselines,
  portfolio, reports and imports, which aggregate or render the tables; the services that edit
  master data (projects, resources, calendars, items, storerooms, parties, sites, employees) and
  grants, whose rows the modelled services read; notifications, exports and the HTTP layer.
\<close>

end
